(* ===== verification/Go_Prelude.thy ===== *)
theory Go_Prelude
  imports Main "HOL-Library.AList" "HOL-Library.Multiset"
begin

text \<open>
  What the Go language and its standard library contribute to every other theory of this
  development:
  \<^item> the outcome of running a piece of Go code (\<open>go\<close>): it returns a value, panics, or
    is still blocked or polling when the observation ends;
  \<^item> Go maps (\<open>gomap\<close>), with the nil map, whose iteration order is any permutation;
  \<^item> loops over slices (\<open>gfold\<close>) and polling loops (\<open>poll\<close>);
  \<^item> integer conversions and truncated division, decimal formatting and parsing
    (\<open>strconv\<close>, \<open>fmt\<close>), the few functions of \<open>strings\<close> the program uses.
\<close>

named_theorems go_simps "equations that evaluate the Go constructs"

section \<open>Outcomes\<close>

datatype panic = NilMapWrite | NilDeref | MakeSliceCap | IndexOutOfRange | DivideByZero
  | NegativeWaitGroup | BadTypeAssertion | ProcessExit

datatype 'a go = Ret 'a | Panic panic | Diverge

primrec gbind :: "'a go \<Rightarrow> ('a \<Rightarrow> 'b go) \<Rightarrow> 'b go" where
  "gbind (Ret a) f = f a"
| "gbind (Panic p) f = Panic p"
| "gbind Diverge f = Diverge"

lemma gbind_eq_Ret [simp]: "gbind m f = Ret b \<longleftrightarrow> (\<exists>a. m = Ret a \<and> f a = Ret b)"
  by (cases m) auto

lemma Ret_eq_gbind [simp]: "Ret b = gbind m f \<longleftrightarrow> (\<exists>a. m = Ret a \<and> f a = Ret b)"
  by (cases m) auto

lemma gbind_assoc: "gbind (gbind m f) g = gbind m (\<lambda>a. gbind (f a) g)"
  by (cases m) auto

lemma gbind_Ret [simp]: "gbind m Ret = m"
  by (cases m) auto

lemma gbind_cong [fundef_cong]:
  "m = m' \<Longrightarrow> (\<And>a. m' = Ret a \<Longrightarrow> f a = f' a) \<Longrightarrow> gbind m f = gbind m' f'"
  by (cases m') auto

text \<open>
  \<open>holds Q m\<close>: whenever \<open>m\<close> returns, its result satisfies \<open>Q\<close> (partial
  correctness). \<open>yields Q m\<close>: \<open>m\<close> does return, and its result satisfies \<open>Q\<close>.
\<close>

definition holds :: "('a \<Rightarrow> bool) \<Rightarrow> 'a go \<Rightarrow> bool" where
  "holds Q m \<longleftrightarrow> (case m of Ret a \<Rightarrow> Q a | Panic _ \<Rightarrow> True | Diverge \<Rightarrow> True)"

definition yields :: "('a \<Rightarrow> bool) \<Rightarrow> 'a go \<Rightarrow> bool" where
  "yields Q m \<longleftrightarrow> (case m of Ret a \<Rightarrow> Q a | Panic _ \<Rightarrow> False | Diverge \<Rightarrow> False)"

lemma holds_simps [simp]:
  "holds Q (Ret a) = Q a" "holds Q (Panic p)" "holds Q Diverge"
  by (simp_all add: holds_def)

lemma yields_simps [simp]:
  "yields Q (Ret a) = Q a" "\<not> yields Q (Panic p)" "\<not> yields Q Diverge"
  by (simp_all add: yields_def)

lemma holds_gbind [simp]: "holds Q (gbind m f) = holds (\<lambda>a. holds Q (f a)) m"
  by (cases m) auto

lemma yields_gbind [simp]: "yields Q (gbind m f) = yields (\<lambda>a. yields Q (f a)) m"
  by (cases m) auto

lemma holds_mono: "holds P m \<Longrightarrow> (\<And>a. m = Ret a \<Longrightarrow> P a \<Longrightarrow> Q a) \<Longrightarrow> holds Q m"
  by (cases m) auto

lemma yields_mono: "yields P m \<Longrightarrow> (\<And>a. m = Ret a \<Longrightarrow> P a \<Longrightarrow> Q a) \<Longrightarrow> yields Q m"
  by (cases m) auto

lemma holdsD: "holds Q m \<Longrightarrow> m = Ret a \<Longrightarrow> Q a"
  by simp

lemma holdsI: "(\<And>a. m = Ret a \<Longrightarrow> Q a) \<Longrightarrow> holds Q m"
  by (cases m) auto

lemma holds_conj: "holds (\<lambda>a. P a \<and> Q a) m \<longleftrightarrow> holds P m \<and> holds Q m"
  by (cases m) auto

lemma yields_iff: "yields Q m \<longleftrightarrow> (\<exists>a. m = Ret a \<and> Q a)"
  by (cases m) auto

lemma yields_holds: "yields Q m \<Longrightarrow> holds Q m"
  by (cases m) auto

section \<open>Loops\<close>

text \<open>A \<open>for range\<close> loop over a slice, with the loop's variables as the state.\<close>

primrec gfold :: "('a \<Rightarrow> 's \<Rightarrow> 's go) \<Rightarrow> 'a list \<Rightarrow> 's \<Rightarrow> 's go" where
  "gfold f [] s = Ret s"
| "gfold f (x # xs) s = gbind (f x s) (gfold f xs)"

lemma gfold_append: "gfold f (xs @ ys) s = gbind (gfold f xs s) (gfold f ys)"
proof (induction xs arbitrary: s)
  case (Cons x xs)
  then show ?case by (cases "f x s") simp_all
qed simp

lemma gfold_holds:
  assumes "\<And>x s. x \<in> set xs \<Longrightarrow> I s \<Longrightarrow> holds I (f x s)" and "I s"
  shows "holds I (gfold f xs s)"
  using assms
proof (induction xs arbitrary: s)
  case (Cons x xs)
  from Cons.prems have "holds I (f x s)" by simp
  then have "holds (\<lambda>s'. holds I (gfold f xs s')) (f x s)"
    by (rule holds_mono) (rule Cons.IH [OF Cons.prems(1)], simp_all)
  then show ?case by simp
qed simp

text \<open>The same with an invariant that follows the elements already visited.\<close>

lemma gfold_holds_seen:
  assumes "\<And>x done s. I done s \<Longrightarrow> holds (I (done @ [x])) (f x s)" and "I pre s"
  shows "holds (I (pre @ xs)) (gfold f xs s)"
  using assms
proof (induction xs arbitrary: s pre)
  case (Cons x xs)
  from Cons.prems have "holds (I (pre @ [x])) (f x s)" by simp
  then have "holds (\<lambda>s'. holds (I ((pre @ [x]) @ xs)) (gfold f xs s')) (f x s)"
    by (rule holds_mono) (rule Cons.IH [OF Cons.prems(1)])
  then show ?case by simp
qed simp

lemma gfold_yields:
  assumes "\<And>x s. x \<in> set xs \<Longrightarrow> I s \<Longrightarrow> yields I (f x s)" and "I s"
  shows "yields I (gfold f xs s)"
  using assms
proof (induction xs arbitrary: s)
  case (Cons x xs)
  from Cons.prems have "yields I (f x s)" by simp
  then have "yields (\<lambda>s'. yields I (gfold f xs s')) (f x s)"
    by (rule yields_mono) (rule Cons.IH [OF Cons.prems(1)], simp_all)
  then show ?case by simp
qed simp

section \<open>Go maps\<close>

text \<open>
  A Go map is nil or a finite table. Reading and deleting work on the nil map, writing to
  it panics. The table is an association list; \<open>gwf\<close> says that no key occurs twice.
\<close>

type_synonym ('k, 'v) gomap = "('k \<times> 'v) list option"

definition gmake :: "('k, 'v) gomap" where
  "gmake = Some []"

definition gentries :: "('k, 'v) gomap \<Rightarrow> ('k \<times> 'v) list" where
  "gentries m = (case m of None \<Rightarrow> [] | Some xs \<Rightarrow> xs)"

definition gget :: "('k, 'v) gomap \<Rightarrow> 'k \<Rightarrow> 'v option" where
  "gget m k = map_of (gentries m) k"

definition glen :: "('k, 'v) gomap \<Rightarrow> int" where
  "glen m = int (length (gentries m))"

definition gset :: "'k \<Rightarrow> 'v \<Rightarrow> ('k, 'v) gomap \<Rightarrow> ('k, 'v) gomap" where
  "gset k v m = Some (AList.update k v (gentries m))"

definition gput :: "'k \<Rightarrow> 'v \<Rightarrow> ('k, 'v) gomap \<Rightarrow> ('k, 'v) gomap go" where
  "gput k v m = (case m of None \<Rightarrow> Panic NilMapWrite | Some _ \<Rightarrow> Ret (gset k v m))"

definition gdel :: "'k \<Rightarrow> ('k, 'v) gomap \<Rightarrow> ('k, 'v) gomap" where
  "gdel k m = map_option (AList.delete k) m"

definition gkeys :: "('k, 'v) gomap \<Rightarrow> 'k set" where
  "gkeys m = fst ` set (gentries m)"

definition gvals :: "('k, 'v) gomap \<Rightarrow> 'v list" where
  "gvals m = map snd (gentries m)"

definition gwf :: "('k, 'v) gomap \<Rightarrow> bool" where
  "gwf m \<longleftrightarrow> distinct (map fst (gentries m))"

text \<open>
  The interface of Go maps: what the program relies on when it uses one.
\<close>

locale go_map =
  fixes lookup :: "'m \<Rightarrow> 'k \<Rightarrow> 'v option"
    and size_of :: "'m \<Rightarrow> int"
    and store :: "'k \<Rightarrow> 'v \<Rightarrow> 'm \<Rightarrow> 'm"
    and remove :: "'k \<Rightarrow> 'm \<Rightarrow> 'm"
    and keys_of :: "'m \<Rightarrow> 'k set"
    and wf :: "'m \<Rightarrow> bool"
  assumes lookup_store: "lookup (store k v m) k' = (if k' = k then Some v else lookup m k')"
    and lookup_remove: "lookup (remove k m) k' = (if k' = k then None else lookup m k')"
    and keys_lookup: "k \<in> keys_of m \<longleftrightarrow> lookup m k \<noteq> None"
    and finite_keys: "finite (keys_of m)"
    and size_wf: "wf m \<Longrightarrow> size_of m = int (card (keys_of m))"
    and wf_store: "wf m \<Longrightarrow> wf (store k v m)"
    and wf_remove: "wf m \<Longrightarrow> wf (remove k m)"
begin

lemma keys_store: "keys_of (store k v m) = insert k (keys_of m)"
  by (auto simp: keys_lookup lookup_store split: if_splits)

lemma keys_remove: "keys_of (remove k m) = keys_of m - {k}"
  by (auto simp: keys_lookup lookup_remove split: if_splits)

lemma size_store:
  "wf m \<Longrightarrow> size_of (store k v m) = (if lookup m k = None then size_of m + 1 else size_of m)"
  by (simp add: size_wf wf_store keys_store finite_keys keys_lookup insert_absorb card_insert_if)

lemma size_remove:
  "wf m \<Longrightarrow> size_of (remove k m) = (if lookup m k = None then size_of m else size_of m - 1)"
  using finite_keys [of m] keys_lookup [of k m] card_Suc_Diff1 [of "keys_of m" k]
  by (cases "k \<in> keys_of m") (auto simp: size_wf wf_remove keys_remove)

lemma size_nonneg: "wf m \<Longrightarrow> 0 \<le> size_of m"
  by (simp add: size_wf)

end

lemma gentries_simps [simp]: "gentries None = []" "gentries (Some xs) = xs"
  by (simp_all add: gentries_def)

interpretation gm: go_map gget glen gset gdel gkeys gwf
proof
  fix k k' :: 'a and v :: 'b and m :: "('a, 'b) gomap"
  show "gget (gset k v m) k' = (if k' = k then Some v else gget m k')"
    by (simp add: gget_def gset_def update_conv')
  show "gget (gdel k m) k' = (if k' = k then None else gget m k')"
    by (cases m) (simp_all add: gget_def gdel_def delete_conv')
  show "k \<in> gkeys m \<longleftrightarrow> gget m k \<noteq> None"
    by (simp add: gkeys_def gget_def map_of_eq_None_iff)
  show "finite (gkeys m)"
    by (simp add: gkeys_def)
  show "gwf m \<Longrightarrow> glen m = int (card (gkeys m))"
    unfolding gwf_def glen_def gkeys_def set_map [symmetric]
    by (simp only: distinct_card length_map)
  show "gwf m \<Longrightarrow> gwf (gset k v m)"
    by (simp add: gwf_def gset_def distinct_update)
  show "gwf m \<Longrightarrow> gwf (gdel k m)"
    by (cases m) (simp_all add: gwf_def gdel_def distinct_delete)
qed

lemmas gomap_simps [go_simps, simp] =
  gm.lookup_store gm.lookup_remove gm.keys_store gm.keys_remove gm.wf_store gm.wf_remove

lemma gmake_simps [simp, go_simps]:
  "gget gmake k = None" "glen gmake = 0" "gkeys gmake = {}" "gvals gmake = []" "gwf gmake"
  "gentries gmake = []"
  by (simp_all add: gmake_def gget_def glen_def gkeys_def gvals_def gwf_def)

lemma gnil_simps [simp, go_simps]:
  "gget None k = None" "glen None = 0" "gkeys None = {}" "gvals None = []" "gwf None"
  "gdel k None = None" "gput k v None = Panic NilMapWrite"
  by (simp_all add: gget_def glen_def gkeys_def gvals_def gwf_def gdel_def gput_def)

lemma gput_Some [simp]: "gput k v (Some xs) = Ret (gset k v (Some xs))"
  by (simp add: gput_def)

lemma gput_not_nil: "m \<noteq> None \<Longrightarrow> gput k v m = Ret (gset k v m)"
  by (auto simp: gput_def)

lemma gput_Ret: "gput k v m = Ret m' \<longleftrightarrow> m \<noteq> None \<and> m' = gset k v m"
  by (auto simp: gput_def split: option.splits)

lemma holds_gput: "holds Q (gput k v m) \<longleftrightarrow> (m \<noteq> None \<longrightarrow> Q (gset k v m))"
  by (auto simp: gput_def split: option.splits)

lemma yields_gput: "yields Q (gput k v m) \<longleftrightarrow> (m \<noteq> None \<and> Q (gset k v m))"
  by (auto simp: gput_def split: option.splits)

lemma gset_not_nil [simp]: "gset k v m \<noteq> None" "\<exists>y. gset k v m = Some y"
  by (simp_all add: gset_def)

lemma gdel_nil_iff [simp]: "gdel k m = None \<longleftrightarrow> m = None"
  by (simp add: gdel_def)

lemma gget_in_vals: "gget m k = Some v \<Longrightarrow> v \<in> set (gvals m)"
  by (force simp: gget_def gvals_def dest: map_of_SomeD)

lemma gvals_lookup: "gwf m \<Longrightarrow> v \<in> set (gvals m) \<longleftrightarrow> (\<exists>k. gget m k = Some v)"
  by (force simp: gwf_def gvals_def gget_def dest: map_of_SomeD intro: map_of_is_SomeI)

lemma glen_0_iff: "glen m = 0 \<longleftrightarrow> gkeys m = {}"
  by (simp add: glen_def gkeys_def)

lemma glen_nonneg [simp]: "0 \<le> glen m"
  by (simp add: glen_def)

lemma length_gvals: "int (length (gvals m)) = glen m"
  by (simp add: gvals_def glen_def)

text \<open>Copying every entry of one map into another (the \<open>for k, v := range l { m[k] = v }\<close> loops);
  the order of the visits does not matter for the result.\<close>

definition gmerge :: "('k, 'v) gomap \<Rightarrow> ('k, 'v) gomap \<Rightarrow> ('k, 'v) gomap" where
  "gmerge l m = fold (\<lambda>(k, v). gset k v) (gentries l) m"

lemma fold_gset_lookup:
  "distinct (map fst xs) \<Longrightarrow>
   gget (fold (\<lambda>(k, v). gset k v) xs m) k = (case map_of xs k of Some v \<Rightarrow> Some v | None \<Rightarrow> gget m k)"
proof (induction xs arbitrary: m)
  case (Cons kv xs)
  obtain a v where kv: "kv = (a, v)" by (cases kv)
  with Cons.prems have "map_of xs a = None" by (auto simp: map_of_eq_None_iff)
  with Cons kv show ?case by (simp split: option.splits)
qed simp

lemma gget_gmerge:
  "gwf l \<Longrightarrow> gget (gmerge l m) k = (case gget l k of Some v \<Rightarrow> Some v | None \<Rightarrow> gget m k)"
  using fold_gset_lookup [of "gentries l" m k] by (simp add: gmerge_def gwf_def gget_def)

lemma gwf_gmerge [simp]: "gwf m \<Longrightarrow> gwf (gmerge l m)"
proof -
  have "gwf m \<Longrightarrow> gwf (fold (\<lambda>(k, v). gset k v) xs m)" for xs
    by (induction xs arbitrary: m) auto
  then show "gwf m \<Longrightarrow> gwf (gmerge l m)" by (simp add: gmerge_def)
qed

text \<open>
  \<open>range\<close> over a map visits the entries in an order the runtime chooses. The choice is a
  function from the number of entries to positions; what is not a permutation is ignored.
\<close>

definition reorder :: "(nat \<Rightarrow> nat list) \<Rightarrow> 'a list \<Rightarrow> 'a list" where
  "reorder ord xs =
     (let ps = ord (length xs)
      in if sort ps = [0..<length xs] then map ((!) xs) ps else xs)"

lemma mset_reorder [simp]: "mset (reorder ord xs) = mset xs"
proof (cases "sort (ord (length xs)) = [0..<length xs]")
  case True
  then have "mset (ord (length xs)) = mset [0..<length xs]"
    by (metis mset_sort)
  then have "mset (map ((!) xs) (ord (length xs))) = mset (map ((!) xs) [0..<length xs])"
    by (simp only: mset_map)
  with True show ?thesis by (simp add: reorder_def map_nth)
next
  case False
  then show ?thesis by (simp add: reorder_def)
qed

lemma set_reorder [simp]: "set (reorder ord xs) = set xs"
  by (rule mset_eq_setD) simp

lemma length_reorder [simp]: "length (reorder ord xs) = length xs"
  by (rule mset_eq_length) simp

lemma distinct_reorder [simp]: "distinct (reorder ord xs) = distinct xs"
  by (metis mset_eq_imp_distinct_iff mset_reorder)

end
