(* ===== verification/Go_Strings.thy ===== *)
theory Go_Strings
  imports Go_Prelude
begin

text \<open>
  The functions of \<open>strconv\<close>, \<open>strings\<close> and \<open>fmt\<close> the program calls, Go's integer
  conversions, and the polling loop of \<open>wait.PollUntilContextTimeout\<close>. The lemmas show that
  formatting is injective and that parsing inverts it.
\<close>

section \<open>Integers\<close>

text \<open>\<open>int32(x)\<close> and \<open>int64(x)\<close>: truncation to the width, read as two's complement.\<close>

definition wrap32 :: "int \<Rightarrow> int" where
  "wrap32 x = signed_take_bit 31 x"

definition wrap64 :: "int \<Rightarrow> int" where
  "wrap64 x = signed_take_bit 63 x"

lemma wrap32_small: "- (2 ^ 31) \<le> x \<Longrightarrow> x < 2 ^ 31 \<Longrightarrow> wrap32 x = x"
  by (simp add: wrap32_def signed_take_bit_int_eq_self)

lemma wrap64_small: "- (2 ^ 63) \<le> x \<Longrightarrow> x < 2 ^ 63 \<Longrightarrow> wrap64 x = x"
  by (simp add: wrap64_def signed_take_bit_int_eq_self)

lemma wrap64_range: "- (2 ^ 63) \<le> wrap64 x" "wrap64 x < 2 ^ 63"
  by (simp_all only: wrap64_def signed_take_bit_int_greater_eq_minus_exp
      signed_take_bit_int_less_exp)

text \<open>Integer division truncates towards zero.\<close>

definition godiv :: "int \<Rightarrow> int \<Rightarrow> int" where
  "godiv a b = sgn a * sgn b * (\<bar>a\<bar> div \<bar>b\<bar>)"

definition gorem :: "int \<Rightarrow> int \<Rightarrow> int" where
  "gorem a b = a - godiv a b * b"

lemma gorem_nonneg: "0 \<le> a \<Longrightarrow> 0 < b \<Longrightarrow> gorem a b = a mod b"
  by (cases "a = 0") (simp_all add: gorem_def godiv_def sgn_if minus_div_mult_eq_mod)

lemma godiv_nonneg: "0 \<le> a \<Longrightarrow> 0 < b \<Longrightarrow> godiv a b = a div b"
  by (cases "a = 0") (simp_all add: godiv_def sgn_if)

section \<open>Formatting and parsing numbers\<close>

definition digit_char :: "nat \<Rightarrow> char" where
  "digit_char d = char_of (48 + d)"

definition is_digit :: "char \<Rightarrow> bool" where
  "is_digit c \<longleftrightarrow> 48 \<le> (of_char c :: nat) \<and> (of_char c :: nat) \<le> 57"

definition digit_val :: "char \<Rightarrow> nat" where
  "digit_val c = of_char c - 48"

lemma digit_char_simps [simp]:
  assumes "d < 10"
  shows "is_digit (digit_char d)" "digit_val (digit_char d) = d"
  using assms by (simp_all add: digit_char_def is_digit_def digit_val_def)

fun nat_dec :: "nat \<Rightarrow> string" where
  "nat_dec n = (if n < 10 then [digit_char n] else nat_dec (n div 10) @ [digit_char (n mod 10)])"

declare nat_dec.simps [simp del]

text \<open>\<open>strconv.Itoa\<close>, and \<open>fmt\<close>'s \<open>%d\<close> and \<open>%02d\<close>.\<close>

definition Itoa :: "int \<Rightarrow> string" where
  "Itoa i = (if i < 0 then CHR ''-'' # nat_dec (nat (- i)) else nat_dec (nat i))"

definition pad2 :: "int \<Rightarrow> string" where
  "pad2 i = (if 0 \<le> i \<and> i < 10 then CHR ''0'' # Itoa i else Itoa i)"

datatype num_result = NumOk nat | NumSyntax | NumRange

primrec parse_uint :: "string \<Rightarrow> nat \<Rightarrow> num_result" where
  "parse_uint [] acc = NumOk acc"
| "parse_uint (c # cs) acc =
     (if \<not> is_digit c then NumSyntax
      else if 2 ^ 64 \<le> int (acc * 10 + digit_val c) then NumRange
      else parse_uint cs (acc * 10 + digit_val c))"

text \<open>\<open>strconv.Atoi\<close>: the value (0 on a syntax error, the nearest bound on overflow) and
  whether there was no error.\<close>

definition Atoi :: "string \<Rightarrow> int \<times> bool" where
  "Atoi s =
     (let neg = (s \<noteq> [] \<and> hd s = CHR ''-'');
          ds = (if s \<noteq> [] \<and> (hd s = CHR ''-'' \<or> hd s = CHR ''+'') then tl s else s)
      in if ds = [] then (0, False)
         else case parse_uint ds 0 of
           NumSyntax \<Rightarrow> (0, False)
         | NumRange \<Rightarrow> (if neg then - (2 ^ 63) else 2 ^ 63 - 1, False)
         | NumOk u \<Rightarrow>
             if \<not> neg \<and> 2 ^ 63 \<le> int u then (2 ^ 63 - 1, False)
             else if neg \<and> 2 ^ 63 < int u then (- (2 ^ 63), False)
             else (if neg then - int u else int u, True))"

definition FormatBool :: "bool \<Rightarrow> string" where
  "FormatBool b = (if b then ''true'' else ''false'')"

definition ParseBool :: "string \<Rightarrow> bool \<times> bool" where
  "ParseBool s =
     (if s \<in> set [''1'', ''t'', ''T'', ''true'', ''TRUE'', ''True''] then (True, True)
      else if s \<in> set [''0'', ''f'', ''F'', ''false'', ''FALSE'', ''False''] then (False, True)
      else (False, False))"

lemma ParseBool_FormatBool [simp]: "ParseBool (FormatBool b) = (b, True)"
  by (simp add: ParseBool_def FormatBool_def)

lemma nat_dec_nonempty [simp]: "nat_dec n \<noteq> []"
  by (subst nat_dec.simps) simp

lemma nat_dec_digits: "c \<in> set (nat_dec n) \<Longrightarrow> is_digit c"
proof (induction n rule: nat_dec.induct)
  case (1 n)
  then show ?case
    by (subst (asm) (2) nat_dec.simps) (auto split: if_splits)
qed

lemma parse_uint_append:
  "parse_uint (xs @ ys) acc =
     (case parse_uint xs acc of NumOk a \<Rightarrow> parse_uint ys a | r \<Rightarrow> r)"
  by (induction xs arbitrary: acc) auto

lemma parse_nat_dec: "n < 2 ^ 64 \<Longrightarrow> parse_uint (nat_dec n) 0 = NumOk n"
proof (induction n rule: nat_dec.induct)
  case (1 n)
  show ?case
  proof (cases "n < 10")
    case True
    then show ?thesis by (subst nat_dec.simps) simp
  next
    case False
    with 1 have "parse_uint (nat_dec (n div 10)) 0 = NumOk (n div 10)" by simp
    moreover have "n div 10 * 10 + n mod 10 = n" by simp
    ultimately show ?thesis
      using False "1.prems" by (subst nat_dec.simps) (simp add: parse_uint_append)
  qed
qed

text \<open>A signless decimal numeral read back without a bound, to compare formatted numbers.\<close>

definition dec_val :: "string \<Rightarrow> nat" where
  "dec_val s = foldl (\<lambda>a c. a * 10 + digit_val c) 0 s"

lemma dec_val_nat_dec [simp]: "dec_val (nat_dec n) = n"
proof (induction n rule: nat_dec.induct)
  case (1 n)
  then show ?case
    by (subst nat_dec.simps) (auto simp: dec_val_def)
qed

lemma nat_dec_inject [simp]: "nat_dec m = nat_dec n \<longleftrightarrow> m = n"
  by (metis dec_val_nat_dec)

lemma dec_val_pad2: "0 \<le> i \<Longrightarrow> dec_val (pad2 i) = nat i"
proof -
  have "dec_val (CHR ''0'' # s) = dec_val s" for s
    by (simp add: dec_val_def digit_val_def)
  then show "0 \<le> i \<Longrightarrow> dec_val (pad2 i) = nat i"
    by (simp add: pad2_def Itoa_def)
qed

lemma pad2_inject: "0 \<le> i \<Longrightarrow> 0 \<le> j \<Longrightarrow> pad2 i = pad2 j \<longleftrightarrow> i = j"
  by (metis dec_val_pad2 eq_nat_nat_iff)

lemma nat_dec_no_sign:
  "hd (nat_dec n) \<noteq> CHR ''-''" "hd (nat_dec n) \<noteq> CHR ''+''"
  using nat_dec_digits [of "hd (nat_dec n)" n] by (auto simp: is_digit_def)

lemma Atoi_Itoa:
  assumes "- (2 ^ 63) \<le> i" "i < 2 ^ 63"
  shows "Atoi (Itoa i) = (i, True)"
proof (cases "i < 0")
  case True
  with assms have "nat (- i) < 2 ^ 64" "\<not> 2 ^ 63 < nat (- i)" by auto
  with True show ?thesis by (simp add: Atoi_def Itoa_def parse_nat_dec)
next
  case False
  with assms have "nat i < 2 ^ 64" "\<not> 2 ^ 63 \<le> nat i" by auto
  with False show ?thesis by (simp add: Atoi_def Itoa_def parse_nat_dec nat_dec_no_sign)
qed

section \<open>Strings\<close>

text \<open>\<open>strings.Split(s, c)\<close> for a one-character separator: never empty.\<close>

fun Split :: "char \<Rightarrow> string \<Rightarrow> string list" where
  "Split c [] = [[]]"
| "Split c (x # xs) =
     (if x = c then [] # Split c xs
      else case Split c xs of [] \<Rightarrow> [[x]] | w # ws \<Rightarrow> (x # w) # ws)"

lemma Split_nonempty [simp]: "Split c s \<noteq> []"
  by (induction c s rule: Split.induct) (auto split: list.splits)

lemma Split_absent: "c \<notin> set s \<Longrightarrow> Split c s = [s]"
  by (induction s) auto

lemma Split_first: "c \<notin> set k \<Longrightarrow> Split c (k @ c # v) = k # Split c v"
  by (induction k) auto

definition HasPrefix :: "string \<Rightarrow> string \<Rightarrow> bool" where
  "HasPrefix s p \<longleftrightarrow> take (length p) s = p"

definition HasSuffix :: "string \<Rightarrow> string \<Rightarrow> bool" where
  "HasSuffix s p \<longleftrightarrow> length p \<le> length s \<and> drop (length s - length p) s = p"

fun Contains :: "string \<Rightarrow> string \<Rightarrow> bool" where
  "Contains [] p = (p = [])"
| "Contains (c # s) p = (HasPrefix (c # s) p \<or> Contains s p)"

fun Join :: "string \<Rightarrow> string list \<Rightarrow> string" where
  "Join sep [] = []"
| "Join sep [w] = w"
| "Join sep (w # ws) = w @ sep @ Join sep ws"

text \<open>\<open>strings.ToLower\<close> on ASCII.\<close>

definition lower_char :: "char \<Rightarrow> char" where
  "lower_char c =
     (if 65 \<le> (of_char c :: nat) \<and> (of_char c :: nat) \<le> 90 then char_of ((of_char c :: nat) + 32)
      else c)"

definition ToLower :: "string \<Rightarrow> string" where
  "ToLower s = map lower_char s"

section \<open>Polling\<close>

text \<open>
  \<open>context.PollImmediate\<close> runs its condition at once and then at every interval until it
  reports success or an error, or the timeout expires; with timeout 0 it never expires. The
  attempts that fit before the end of the timeout are a parameter \<open>budget\<close>; when there is no
  timeout, running out of it means that the loop is still polling.
\<close>

primrec poll_loop ::
  "nat \<Rightarrow> bool \<Rightarrow> 'e \<Rightarrow> ('s \<Rightarrow> (bool \<times> 'e option) \<times> 's) \<Rightarrow> 's \<Rightarrow> ('e option \<times> 's) go" where
  "poll_loop 0 forever timeout_err cond s = (if forever then Diverge else Ret (Some timeout_err, s))"
| "poll_loop (Suc k) forever timeout_err cond s =
     (let ((done, err), s') = cond s
      in if err \<noteq> None then Ret (err, s')
         else if done then Ret (None, s')
         else poll_loop k forever timeout_err cond s')"

lemma poll_loop_returns:
  "\<not> forever \<Longrightarrow> \<exists>e s'. poll_loop k forever te cond s = Ret (e, s')"
  by (induction k arbitrary: s) (auto simp: Let_def split: prod.splits)

lemma poll_loop_holds:
  assumes step: "\<And>s d e s'. I s \<Longrightarrow> cond s = ((d, e), s') \<Longrightarrow> I s'" and "I s"
  shows "holds (\<lambda>(e, s'). I s') (poll_loop k forever te cond s)"
  using assms(2)
proof (induction k arbitrary: s)
  case (Suc k)
  obtain d e s' where c: "cond s = ((d, e), s')" by (metis prod.collapse)
  with step Suc.prems have "I s'" by blast
  with c Suc.IH show ?case by simp
qed simp

text \<open>Success means that the condition reported success at the last attempt.\<close>

lemma poll_loop_success:
  "poll_loop k forever te cond s = Ret (None, s') \<Longrightarrow> \<exists>t. cond t = ((True, None), s')"
proof (induction k arbitrary: s)
  case 0
  then show ?case by (simp split: if_splits)
next
  case (Suc k)
  then show ?case by (fastforce simp: Let_def split: prod.splits if_splits)
qed

section \<open>Paths\<close>

text \<open>\<^verbatim>\<open>filepath.Base\<close>: the last element without trailing slashes, a dot for the empty path, a slash for slashes only.\<close>

definition path_Base :: "string \<Rightarrow> string" where
  "path_Base p =
     (if p = [] then ''.''
      else let stripped = rev (dropWhile (\<lambda>c. c = CHR ''/'') (rev p));
               b = last (Split (CHR ''/'') stripped)
           in if b = [] then ''/'' else b)"

end
