(* ===== verification/Constantes.thy ===== *)
theory Constantes
  imports Go_Strings
begin

text \<open>
  The constants of \<^verbatim>\<open>constantes/errors.go\<close> and \<^verbatim>\<open>constantes/annotations.go\<close>, copied
  literally, and Go errors: a message, with the mark that \<^verbatim>\<open>apierrors.IsNotFound\<close> and
  \<^verbatim>\<open>apierrors.IsAlreadyExists\<close> look for on the errors of the Kubernetes API. \<open>Sprintf\<close>
  replaces each verb of a format by the next argument, which the caller has formatted
  (\<open>Itoa\<close>, \<open>pad2\<close>, \<open>err_v\<close>); the program always passes as many arguments as there are verbs.
\<close>

section \<open>Errors and formats\<close>

datatype error = Plain string | ApiNotFound string | ApiAlreadyExists string | ApiTooManyRequests string

fun err_text :: "error \<Rightarrow> string" where
  "err_text (Plain s) = s"
| "err_text (ApiNotFound s) = s"
| "err_text (ApiAlreadyExists s) = s"
| "err_text (ApiTooManyRequests s) = s"

fun IsNotFound :: "error option \<Rightarrow> bool" where
  "IsNotFound (Some (ApiNotFound s)) = True"
| "IsNotFound _ = False"

fun Sprintf :: "string \<Rightarrow> string list \<Rightarrow> string" where
  "Sprintf [] args = []"
| "Sprintf [c] args = [c]"
| "Sprintf (c # d # s) args =
     (if c \<noteq> CHR ''%'' then c # Sprintf (d # s) args
      else case args of
        [] \<Rightarrow> Sprintf s []
      | a # as \<Rightarrow> a @ (if take 2 (d # s) = ''02'' then Sprintf (drop 2 s) as else Sprintf s as))"

definition Errorf :: "string \<Rightarrow> string list \<Rightarrow> error" where
  "Errorf f args = Plain (Sprintf f args)"

text \<open>\<open>%v\<close> of an error that may be nil.\<close>

definition err_v :: "error option \<Rightarrow> string" where
  "err_v e = (case e of None \<Rightarrow> ''<nil>'' | Some x \<Rightarrow> err_text x)"

lemma IsNotFound_iff: "IsNotFound e \<longleftrightarrow> (\<exists>s. e = Some (ApiNotFound s))"
  by (cases e rule: IsNotFound.cases) auto

lemma IsNotFound_Errorf [simp]: "\<not> IsNotFound (Some (Errorf f args))"
  by (simp add: Errorf_def)

section \<open>Error messages\<close>

definition CloudProviderError :: string where
  "CloudProviderError = ''cloudProviderError''"

definition APICallError :: string where
  "APICallError = ''apiCallError''"

definition InternalError :: string where
  "InternalError = ''internalError''"

definition TransientError :: string where
  "TransientError = ''transientError''"

definition ProviderName :: string where
  "ProviderName = ''grpc''"

definition ErrMismatchingProvider :: string where
  "ErrMismatchingProvider = ''secret doesn't match with target server''"

definition ErrNodeGroupNotFound :: string where
  "ErrNodeGroupNotFound = ''node group %s not found''"

definition ErrNodeGroupForNodeNotFound :: string where
  "ErrNodeGroupForNodeNotFound = ''nodeGroup %s not found for Node %s''"

definition ErrNodeNotFoundInNodeGroup :: string where
  "ErrNodeNotFoundInNodeGroup = ''the node %s not found in node group %s''"

definition ErrMachineTypeNotFound :: string where
  "ErrMachineTypeNotFound = ''machine type %s not found''"

definition ErrNodeGroupAlreadyExists :: string where
  "ErrNodeGroupAlreadyExists = ''can't create node group: %s, already exists''"

definition ErrUnableToCreateNodeGroup :: string where
  "ErrUnableToCreateNodeGroup = ''can't create node group: %s, reason: %v''"

definition ErrUnableToLaunchNodeGroupNotCreated :: string where
  "ErrUnableToLaunchNodeGroupNotCreated = ''unable to launch group: %s, reason: node group is not created''"

definition ErrUnableToLaunchNodeGroup :: string where
  "ErrUnableToLaunchNodeGroup = ''unable to launch group: %s, fail to launch some VMs''"

definition ErrUnableToDeleteNodeGroup :: string where
  "ErrUnableToDeleteNodeGroup = ''can't delete node group: %s, reason: %v''"

definition ErrCantUnmarshallNodeWithReason :: string where
  "ErrCantUnmarshallNodeWithReason = ''can't unmarshall node definition: %s, reason: %v''"

definition ErrCantUnmarshallNode :: string where
  "ErrCantUnmarshallNode = ''can't unmarshall node definition[%d] in group %s''"

definition ErrUnableToDeleteNode :: string where
  "ErrUnableToDeleteNode = ''can't delete node: %s, because not owned by node group: %s''"

definition ErrMinSizeReached :: string where
  "ErrMinSizeReached = ''min size reached for group: %s, nodes will not be deleted''"

definition ErrIncreaseSizeMustBePositive :: string where
  "ErrIncreaseSizeMustBePositive = ''size increase must be positive''"

definition ErrIncreaseSizeTooLarge :: string where
  "ErrIncreaseSizeTooLarge = ''size increase too large, desired: %d max: %d''"

definition ErrDecreaseSizeMustBeNegative :: string where
  "ErrDecreaseSizeMustBeNegative = ''size decrease must be negative''"

definition ErrDecreaseSizeAttemptDeleteNodes :: string where
  "ErrDecreaseSizeAttemptDeleteNodes = ''attempt to delete existing nodes, targetSize: %d delta: %d existingNodes: %d''"

definition ErrUnableToRetrieveMaxPodsForInstanceType :: string where
  "ErrUnableToRetrieveMaxPodsForInstanceType = ''unable to get max pods for instance type: %s, reason: %v''"

definition ErrUnableToLaunchVM :: string where
  "ErrUnableToLaunchVM = ''unable to launch the VM owned by node: %s, reason: %v''"

definition ErrUnableToLaunchVMNodeGroupNotReady :: string where
  "ErrUnableToLaunchVMNodeGroupNotReady = ''unable to launch the VM owned by node: %s, reason: launch group is not ready''"

definition ErrUnableToDeleteVM :: string where
  "ErrUnableToDeleteVM = ''unable to delete the VM owned by node: %s, reason: %v''"

definition ErrVMAlreadyCreated :: string where
  "ErrVMAlreadyCreated = ''unable to launch VM, %s is already created''"

definition ErrVMAlreadyExists :: string where
  "ErrVMAlreadyExists = ''the vm named: %s is already exists''"

definition ErrUnableToMountPath :: string where
  "ErrUnableToMountPath = ''unable to mount host path: %s into guest: %s for node: %s, reason: %v''"

definition ErrTempFile :: string where
  "ErrTempFile = ''can't create temp file, reason: %v''"

definition ErrCloudInitMarshallError :: string where
  "ErrCloudInitMarshallError = ''can't marshall cloud-init, reason: %v''"

definition ErrCloudInitWriteError :: string where
  "ErrCloudInitWriteError = ''can't write cloud-init, reason: %v''"

definition ErrGetVMInfoFailed :: string where
  "ErrGetVMInfoFailed = ''can't get the info for VM: %s, reason: %v''"

definition ErrAutoScalerInfoNotFound :: string where
  "ErrAutoScalerInfoNotFound = ''can't find the VM info from AutoScaler for VM: %s''"

definition ErrManagedNodeNotFound :: string where
  "ErrManagedNodeNotFound = ''can't find the VM info from AutoScaler for UID: %s''"

definition ErrNodeJoinClusterFailed :: string where
  "ErrNodeJoinClusterFailed = ''unable to join the master kubernetes node for VM: %s, reason: %v''"

definition ErrNodeAgentNotRunning :: string where
  "ErrNodeAgentNotRunning = ''could not join kubernetes master node, the VM: %s is not running''"

definition ErrStopVMFailed :: string where
  "ErrStopVMFailed = ''could not stop VM: %s, reason: %v''"

definition ErrStartVMFailed :: string where
  "ErrStartVMFailed = ''could not start VM: %s, reason: %v''"

definition ErrRegisterDNSVMFailed :: string where
  "ErrRegisterDNSVMFailed = ''could not register dns recordset VM: %s, reason: %v''"

definition ErrDeleteVMFailed :: string where
  "ErrDeleteVMFailed = ''could not delete VM: %s, reason: %v''"

definition ErrUpdateEtcdSslFailed :: string where
  "ErrUpdateEtcdSslFailed = ''could not install etcd ssl on VM: %s, reason: %v''"

definition ErrRecopyKubernetesPKIFailed :: string where
  "ErrRecopyKubernetesPKIFailed = ''could not copy kubernetes pki on VM: %s, reason: %v''"

definition ErrVMNotFound :: string where
  "ErrVMNotFound = ''unable to find VM: %s''"

definition ErrVMAlreadyDeleting :: string where
  "ErrVMAlreadyDeleting = ''VM: %s, already deleting''"

definition ErrVMStopFailed :: string where
  "ErrVMStopFailed = ''unable to stop VM: %s before delete''"

definition ErrPodListReturnError :: string where
  "ErrPodListReturnError = ''unable to list pods on node %s, reason: %v''"

definition ErrNodeGroupCleanupFailOnVM :: string where
  "ErrNodeGroupCleanupFailOnVM = ''on node group: %s, failed to delete VM: %s, reason: %v''"

definition ErrUncordonNodeReturnError :: string where
  "ErrUncordonNodeReturnError = ''uncordon node: %s got error: %s''"

definition ErrPrepareNodeDeletionFailed :: string where
  "ErrPrepareNodeDeletionFailed = ''prepare node deletion: %s deletion failed: %v''"

definition ErrCordonNodeReturnError :: string where
  "ErrCordonNodeReturnError = ''cordon node: %s got error: %s''"

definition ErrDrainNodeReturnError :: string where
  "ErrDrainNodeReturnError = ''drain node: %s got error: %s''"

definition ErrDeleteNodeReturnError :: string where
  "ErrDeleteNodeReturnError = ''delete node: %s got error: %s''"

definition ErrLabelNodeReturnError :: string where
  "ErrLabelNodeReturnError = ''set labels on node: %s got error: %s''"

definition ErrTaintNodeReturnError :: string where
  "ErrTaintNodeReturnError = ''taint node: %s got error: %s''"

definition ErrAnnoteNodeReturnError :: string where
  "ErrAnnoteNodeReturnError = ''set annotations on node: %s got error: %s''"

definition ErrMissingNodeAnnotationError :: string where
  "ErrMissingNodeAnnotationError = ''missing mandatories annotations on node: %s''"

definition ErrNotImplemented :: string where
  "ErrNotImplemented = ''not implemented''"

definition ErrNodeIsNotReady :: string where
  "ErrNodeIsNotReady = ''node %s is not ready''"

definition ErrUnableToAutoProvisionNodeGroup :: string where
  "ErrUnableToAutoProvisionNodeGroup = ''warning can't autoprovision node group, reason: %v''"

definition ErrUnmarshallingError :: string where
  "ErrUnmarshallingError = ''unable to unmarshall node: %s as json, reason: %v''"

definition ErrMarshallingError :: string where
  "ErrMarshallingError = ''unable to marshall node: %s as json, reason: %v''"

definition ErrProviderIDNotConfigured :: string where
  "ErrProviderIDNotConfigured = ''can't set provider ID for node: %s, reason: %v''"

definition ErrVMNotProvisionnedByMe :: string where
  "ErrVMNotProvisionnedByMe = ''the VM: %s is not provisionned by me''"

definition ErrFailedToLoadServerState :: string where
  "ErrFailedToLoadServerState = ''failed to load server state, reason: %v''"

definition ErrFailedToSaveServerState :: string where
  "ErrFailedToSaveServerState = ''failed to save server state, reason: %v''"

definition ErrRsyncError :: string where
  "ErrRsyncError = ''can't rsync folder for VM: %s, %s, reason: %v''"

definition ErrWrongStateMachine :: string where
  "ErrWrongStateMachine = ''wrong state %s for instance %s, expected %s''"

definition ErrCantCreateVMAlreadyExist :: string where
  "ErrCantCreateVMAlreadyExist = ''unable to create VM %s, because another one exists''"

definition ErrUnableToEncodeGuestInfo :: string where
  "ErrUnableToEncodeGuestInfo = ''unable to encode vmware guest info: %s, reason: %v''"

definition ErrUnableToAddHardDrive :: string where
  "ErrUnableToAddHardDrive = ''unable to add hard drive to VM: %s, reason: %v''"

definition ErrUnableToAddNetworkCard :: string where
  "ErrUnableToAddNetworkCard = ''unable to add network card to VM: %s, reason: %v''"

definition ErrUnableToCreateDeviceChangeOp :: string where
  "ErrUnableToCreateDeviceChangeOp = ''unable to create device change operation for VM: %s, reason: %v''"

definition ErrCloudInitFailCreation :: string where
  "ErrCloudInitFailCreation = ''unable to create cloud-init data for VM: %s, reason: %v''"

definition ErrUnableToReconfigureVM :: string where
  "ErrUnableToReconfigureVM = ''unable to reconfigure VM: %s, reason: %v''"

definition WarnFailedVMNotDeleted :: string where
  "WarnFailedVMNotDeleted = ''the failed VM: %s is not deleted because status is: %v''"

definition ErrPodEvictionAborted :: string where
  "ErrPodEvictionAborted = ''pod eviction aborted''"

definition ErrUndefinedPod :: string where
  "ErrUndefinedPod = ''cannot get pod %s/%s, reason: %v''"

definition ErrCannotEvictPod :: string where
  "ErrCannotEvictPod = ''cannot evict pod %s/%s, reason: %v''"

definition ErrUnableToConfirmPodEviction :: string where
  "ErrUnableToConfirmPodEviction = ''cannot confirm pod %s/%s was deleted, reason: %v''"

definition ErrUnableToGetPodListOnNode :: string where
  "ErrUnableToGetPodListOnNode = ''cannot get pods for node %s, reason: %v''"

definition ErrUnableEvictAllPodsOnNode :: string where
  "ErrUnableEvictAllPodsOnNode = ''cannot evict all pods on node: %s, reason: %v''"

definition ErrTimeoutWhenWaitingEvictions :: string where
  "ErrTimeoutWhenWaitingEvictions = ''timed out waiting for evictions to complete on node: %s''"

definition ErrFatalMissingSSHKey :: string where
  "ErrFatalMissingSSHKey = ''%s ssh key not found''"

definition ErrFatalEtcdMissingOrUnreadable :: string where
  "ErrFatalEtcdMissingOrUnreadable = ''%s etcd certs directory is missing or unreadable''"

definition ErrFatalKubernetesPKIMissingOrUnreadable :: string where
  "ErrFatalKubernetesPKIMissingOrUnreadable = ''%s kubernetes pki directory is missing or unreadable''"

definition ErrCantCopyFileToNode :: string where
  "ErrCantCopyFileToNode = ''unable to transfer file: %s to %s, reason: %v''"

definition ErrUpdateStatusNodeFailed :: string where
  "ErrUpdateStatusNodeFailed = ''update status managed node %s failed, reason: %v''"

definition InfoManagedNodeIsDeleted :: string where
  "InfoManagedNodeIsDeleted = ''ManagedNode '%s' is deleted, delete associated node %s''"

definition ErrInstanceIsNotAttachedToCloudProvider :: string where
  "ErrInstanceIsNotAttachedToCloudProvider = ''instance is not attached to cloud provider''"

definition ErrMachineSpecsNotFound :: string where
  "ErrMachineSpecsNotFound = ''machine specs could not be loaded: %s, %v''"

definition ErrImageCredentialProviderConfigNotFound :: string where
  "ErrImageCredentialProviderConfigNotFound = ''credential provider plugin config file could not be loaded: %s, %v''"

definition ErrNodeInternalIPNotFound :: string where
  "ErrNodeInternalIPNotFound = ''unable to find internal ip for node: %s''"

definition ErrUnableToDeleteControlPlaneNode :: string where
  "ErrUnableToDeleteControlPlaneNode = ''unable to delete control plane node: %s''"

definition ErrNetworkInterfaceNotFoundToConfigure :: string where
  "ErrNetworkInterfaceNotFoundToConfigure = ''network interface not found: %s''"

definition WarnNetworkInterfaceIsDisabled :: string where
  "WarnNetworkInterfaceIsDisabled = ''network interface is disabled: %s''"


section \<open>Resource names, labels and annotations\<close>

definition ResourceNameCores :: string where
  "ResourceNameCores = ''cpu''"

definition ResourceNameMemory :: string where
  "ResourceNameMemory = ''memory''"

definition ResourceNameNodes :: string where
  "ResourceNameNodes = ''nodes''"

definition ResourceNameManagedNodeDisk :: string where
  "ResourceNameManagedNodeDisk = ''disk''"

definition ResourceNameManagedNodeMemory :: string where
  "ResourceNameManagedNodeMemory = ''memory''"

definition ResourceNameManagedNodeCores :: string where
  "ResourceNameManagedNodeCores = ''cpus''"

definition NodeLabelControlPlaneRole :: string where
  "NodeLabelControlPlaneRole = ''node-role.kubernetes.io/control-plane''"

definition NodeLabelMasterRole :: string where
  "NodeLabelMasterRole = ''node-role.kubernetes.io/master''"

definition NodeLabelWorkerRole :: string where
  "NodeLabelWorkerRole = ''node-role.kubernetes.io/worker''"

definition NodeLabelTopologyRegion :: string where
  "NodeLabelTopologyRegion = ''topology.kubernetes.io/region''"

definition NodeLabelTopologyZone :: string where
  "NodeLabelTopologyZone = ''topology.kubernetes.io/zone''"

definition NodeLabelVMWareCSIRegion :: string where
  "NodeLabelVMWareCSIRegion = ''topology.csi.vmware.com/k8s-region''"

definition NodeLabelVMWareCSIZone :: string where
  "NodeLabelVMWareCSIZone = ''topology.csi.vmware.com/k8s-zone''"

definition AnnotationNodeGroupName :: string where
  "AnnotationNodeGroupName = ''cluster.autoscaler.nodegroup/name''"

definition AnnotationNodeIndex :: string where
  "AnnotationNodeIndex = ''cluster.autoscaler.nodegroup/node-index''"

definition AnnotationInstanceName :: string where
  "AnnotationInstanceName = ''cluster.autoscaler.nodegroup/instance-name''"

definition AnnotationInstanceID :: string where
  "AnnotationInstanceID = ''cluster.autoscaler.nodegroup/instance-id''"

definition AnnotationNodeAutoProvisionned :: string where
  "AnnotationNodeAutoProvisionned = ''cluster.autoscaler.nodegroup/autoprovision''"

definition AnnotationNodeManaged :: string where
  "AnnotationNodeManaged = ''cluster.autoscaler.nodegroup/managed''"

definition AnnotationScaleDownDisabled :: string where
  "AnnotationScaleDownDisabled = ''cluster-autoscaler.kubernetes.io/scale-down-disabled''"

end
