(* ===== verification/Types.thy ===== *)
theory Types
  imports Constantes
begin

text \<open>
  Model of \<^verbatim>\<open>types/types.go\<close> (labels, resource limits, the server configuration and its
  accessors) and of the machine types of \<^verbatim>\<open>providers/types.go\<close>. A Go pointer that the code
  tests against nil is an \<open>option\<close>. A \<open>float64\<close>, which the program only copies, is its bit
  pattern. Parsing a duration (\<^verbatim>\<open>time.ParseDuration\<close>) is an argument of the one definition that
  needs it.
\<close>

type_synonym float64 = int
type_synonym labels = "(string, string) gomap"
type_synonym limits = "(string, int) gomap"

section \<open>Labels\<close>

definition MergeKubernetesLabel :: "labels list \<Rightarrow> labels" where
  "MergeKubernetesLabel ls = fold gmerge ls gmake"

lemma gwf_MergeKubernetesLabel [simp]: "gwf (MergeKubernetesLabel ls)"
proof -
  have "gwf m \<Longrightarrow> gwf (fold gmerge ls m)" for m :: labels
    by (induction ls arbitrary: m) auto
  then show ?thesis by (simp add: MergeKubernetesLabel_def)
qed

lemma MergeKubernetesLabel_Nil [simp]: "gget (MergeKubernetesLabel []) k = None"
  by (simp add: MergeKubernetesLabel_def)

lemma MergeKubernetesLabel_snoc:
  assumes "gwf l"
  shows "gget (MergeKubernetesLabel (ls @ [l])) k =
     (case gget l k of Some v \<Rightarrow> Some v | None \<Rightarrow> gget (MergeKubernetesLabel ls) k)"
  using gget_gmerge [OF assms, of "MergeKubernetesLabel ls" k]
  by (simp add: MergeKubernetesLabel_def)

section \<open>Resource limits\<close>

record resource_limiter =
  MinLimits :: limits
  MaxLimits :: limits

record request_limiter =
  rq_MinLimits :: limits
  rq_MaxLimits :: limits

definition merge_limits :: "limits \<Rightarrow> limits \<Rightarrow> limits" where
  "merge_limits old new =
     (if old = None then new else gmerge new old)"

definition MergeRequestResourceLimiter ::
  "resource_limiter \<Rightarrow> request_limiter \<Rightarrow> resource_limiter" where
  "MergeRequestResourceLimiter l r =
     (let l = l\<lparr>MaxLimits := merge_limits (MaxLimits l) (rq_MaxLimits r)\<rparr>
      in l\<lparr>MinLimits := merge_limits (MinLimits l) (rq_MinLimits r)\<rparr>)"

definition SetMaxValue64 :: "string \<Rightarrow> int \<Rightarrow> resource_limiter \<Rightarrow> resource_limiter" where
  "SetMaxValue64 key v l =
     (let l = (if MaxLimits l = None then l\<lparr>MaxLimits := gmake\<rparr> else l)
      in l\<lparr>MaxLimits := gset key v (MaxLimits l)\<rparr>)"

definition SetMinValue64 :: "string \<Rightarrow> int \<Rightarrow> resource_limiter \<Rightarrow> resource_limiter" where
  "SetMinValue64 key v l =
     (let l = (if MinLimits l = None then l\<lparr>MinLimits := gmake\<rparr> else l)
      in l\<lparr>MinLimits := gset key v (MinLimits l)\<rparr>)"

definition GetMaxValue64 :: "resource_limiter \<Rightarrow> string \<Rightarrow> int \<Rightarrow> int" where
  "GetMaxValue64 l key def =
     (if MaxLimits l \<noteq> None
      then (case gget (MaxLimits l) key of Some v \<Rightarrow> v | None \<Rightarrow> def) else def)"

definition GetMinValue64 :: "resource_limiter \<Rightarrow> string \<Rightarrow> int \<Rightarrow> int" where
  "GetMinValue64 l key def =
     (if MinLimits l \<noteq> None
      then (case gget (MinLimits l) key of Some v \<Rightarrow> v | None \<Rightarrow> def) else def)"

text \<open>\<open>int\<close> has 64 bits on the platforms the program is built for, so the \<open>int\<close> variants
  convert without loss.\<close>

definition SetMaxValue :: "string \<Rightarrow> int \<Rightarrow> resource_limiter \<Rightarrow> resource_limiter" where
  "SetMaxValue key v l =
     (let l = (if MaxLimits l = None then l\<lparr>MaxLimits := gmake\<rparr> else l)
      in l\<lparr>MaxLimits := gset key v (MaxLimits l)\<rparr>)"

definition SetMinValue :: "string \<Rightarrow> int \<Rightarrow> resource_limiter \<Rightarrow> resource_limiter" where
  "SetMinValue key v l =
     (let l = (if MinLimits l = None then l\<lparr>MinLimits := gmake\<rparr> else l)
      in l\<lparr>MinLimits := gset key v (MinLimits l)\<rparr>)"

definition GetMaxValue :: "resource_limiter \<Rightarrow> string \<Rightarrow> int \<Rightarrow> int" where
  "GetMaxValue l key def =
     (if MaxLimits l \<noteq> None
      then (case gget (MaxLimits l) key of Some v \<Rightarrow> v | None \<Rightarrow> def) else def)"

definition GetMinValue :: "resource_limiter \<Rightarrow> string \<Rightarrow> int \<Rightarrow> int" where
  "GetMinValue l key def =
     (if MinLimits l \<noteq> None
      then (case gget (MinLimits l) key of Some v \<Rightarrow> v | None \<Rightarrow> def) else def)"

text \<open>Limits as a client sees them: a bound per resource with a default.\<close>

locale limit_table =
  fixes get :: "'l \<Rightarrow> string \<Rightarrow> int \<Rightarrow> int"
    and set_to :: "string \<Rightarrow> int \<Rightarrow> 'l \<Rightarrow> 'l"
  assumes get_set: "get (set_to k v l) k' d = (if k' = k then v else get l k' d)"
begin

lemma set_last_wins: "get (set_to k v (set_to k u l)) k' d = get (set_to k v l) k' d"
  by (simp add: get_set)

lemma set_commute:
  "k \<noteq> k2 \<Longrightarrow> get (set_to k v (set_to k2 u l)) k' d = get (set_to k2 u (set_to k v l)) k' d"
  by (simp add: get_set)

end

lemmas limit_defs = SetMaxValue64_def SetMinValue64_def GetMaxValue64_def GetMinValue64_def
  SetMaxValue_def SetMinValue_def GetMaxValue_def GetMinValue_def

interpretation max64: limit_table GetMaxValue64 SetMaxValue64
  by unfold_locales (auto simp: limit_defs Let_def split: option.splits)

interpretation min64: limit_table GetMinValue64 SetMinValue64
  by unfold_locales (auto simp: limit_defs Let_def split: option.splits)

interpretation maxint: limit_table GetMaxValue SetMaxValue
  by unfold_locales (auto simp: limit_defs Let_def split: option.splits)

interpretation minint: limit_table GetMinValue SetMinValue
  by unfold_locales (auto simp: limit_defs Let_def split: option.splits)

lemma gget_merge_limits:
  "gwf new \<Longrightarrow> gget (merge_limits old new) k = (case gget new k of Some v \<Rightarrow> Some v | None \<Rightarrow> gget old k)"
  by (auto simp: merge_limits_def gget_gmerge split: option.splits)

section \<open>Machine types\<close>

record machine =
  Price :: float64
  Memory_mb :: int
  Vcpu :: int
  Disk :: "int option"

definition GetDiskSize :: "machine \<Rightarrow> int" where
  "GetDiskSize m = (case Disk m of Some d \<Rightarrow> d | None \<Rightarrow> 10240)"

type_synonym machines = "(string, machine) gomap"

section \<open>Command line configuration\<close>

record flags =
  MinNode :: int
  MaxNode :: int
  MinCpus :: int
  MaxCpus :: int
  MinMemory :: int
  MaxMemory :: int
  ManagedNodeMinCpus :: int
  ManagedNodeMaxCpus :: int
  ManagedNodeMinMemory :: int
  ManagedNodeMaxMemory :: int
  ManagedNodeMinDiskSize :: int
  ManagedNodeMaxDiskSize :: int

definition GetResourceLimiter :: "flags \<Rightarrow> resource_limiter" where
  "GetResourceLimiter c =
     \<lparr>MinLimits = Some [(ResourceNameCores, MinCpus c),
                        (ResourceNameMemory, wrap64 (MinMemory c * 1024 * 1024)),
                        (ResourceNameNodes, MinNode c)],
      MaxLimits = Some [(ResourceNameCores, MaxCpus c),
                        (ResourceNameMemory, wrap64 (MaxMemory c * 1024 * 1024)),
                        (ResourceNameNodes, MaxNode c)]\<rparr>"

definition GetManagedNodeResourceLimiter :: "flags \<Rightarrow> resource_limiter" where
  "GetManagedNodeResourceLimiter c =
     \<lparr>MinLimits = Some [(ResourceNameManagedNodeDisk, ManagedNodeMinDiskSize c),
                        (ResourceNameManagedNodeMemory, ManagedNodeMinMemory c),
                        (ResourceNameManagedNodeCores, ManagedNodeMinCpus c)],
      MaxLimits = Some [(ResourceNameManagedNodeDisk, ManagedNodeMaxDiskSize c),
                        (ResourceNameManagedNodeMemory, ManagedNodeMaxMemory c),
                        (ResourceNameManagedNodeCores, ManagedNodeMaxCpus c)]\<rparr>"

definition ManagedNodeMinDiskSizeDefault :: int where
  "ManagedNodeMinDiskSizeDefault = 10 * 1024"

definition ManagedNodeMaxDiskSizeDefault :: int where
  "ManagedNodeMaxDiskSizeDefault = 1024 * 1024"

section \<open>Utilities\<close>

definition MinInt :: "int \<Rightarrow> int \<Rightarrow> int" where
  "MinInt x y = (if x < y then x else y)"

definition MaxInt :: "int \<Rightarrow> int \<Rightarrow> int" where
  "MaxInt x y = (if x > y then x else y)"

end
