(* ===== verification/CloudInit.thy ===== *)
theory CloudInit
  imports Types
begin

text \<open>
  Model of \<^verbatim>\<open>cloudinit/cloudinit.go\<close>: cloud-init documents (\<^verbatim>\<open>map[string]any\<close>), the operations
  that append commands and files to them, vendor and user data, and the conversion of an address
  and a netmask to CIDR notation. The YAML, gzip, base64 and file system functions are
  parameters (\<open>codec\<close>). Compression writes to memory, which fails only for a file name that has no
  Latin-1 form; that error is not modelled: \<open>gzip64\<close> is total.
\<close>

section \<open>Documents\<close>

datatype ci = CNull | CBool bool | CInt int | CStr string | CList "ci list" | CMap "(string \<times> ci) list"

type_synonym cloud_init = "(string, ci) gomap"

definition GzipBase64 :: string where
  "GzipBase64 = ''gzip+base64''"

record codec =
  gzip64 :: "string \<Rightarrow> string \<Rightarrow> string"
  yaml :: "ci \<Rightarrow> error + string"
  public_key :: "string \<Rightarrow> error + string"

text \<open>\<^verbatim>\<open>AddRunCommand\<close>: the existing commands, if any, followed by the new ones.\<close>

definition AddRunCommand :: "string list \<Rightarrow> cloud_init \<Rightarrow> cloud_init go" where
  "AddRunCommand command c =
     (case gget c ''runcmd'' of
        None \<Rightarrow> gput ''runcmd'' (CList (map CStr command)) c
      | Some (CList v) \<Rightarrow> gput ''runcmd'' (CList (v @ map CStr command)) c
      | Some _ \<Rightarrow> Panic BadTypeAssertion)"

definition file_entry :: "codec \<Rightarrow> string \<Rightarrow> string \<Rightarrow> string \<Rightarrow> int \<Rightarrow> ci" where
  "file_entry cd content destination owner permissions =
     CMap [(''encoding'', CStr GzipBase64), (''owner'', CStr owner), (''path'', CStr destination),
           (''permissions'', CInt permissions), (''content'', CStr (gzip64 cd destination content))]"

definition AddToWriteFile ::
  "codec \<Rightarrow> string \<Rightarrow> string \<Rightarrow> string \<Rightarrow> int \<Rightarrow> cloud_init \<Rightarrow> cloud_init go" where
  "AddToWriteFile cd content destination owner permissions c =
     (let entry = file_entry cd content destination owner permissions
      in case gget c ''write_files'' of
           None \<Rightarrow> gput ''write_files'' (CList [entry]) c
         | Some (CList oarr) \<Rightarrow> gput ''write_files'' (CList (oarr @ [entry])) c
         | Some _ \<Rightarrow> Panic BadTypeAssertion)"

definition AddTextToWriteFile ::
  "codec \<Rightarrow> string \<Rightarrow> string \<Rightarrow> string \<Rightarrow> int \<Rightarrow> cloud_init \<Rightarrow> cloud_init go" where
  "AddTextToWriteFile cd text destination owner permissions c =
     AddToWriteFile cd text destination owner permissions c"

definition AddObjectToWriteFile ::
  "codec \<Rightarrow> ci \<Rightarrow> string \<Rightarrow> string \<Rightarrow> int \<Rightarrow> cloud_init \<Rightarrow> (error option \<times> cloud_init) go" where
  "AddObjectToWriteFile cd object destination owner permissions c =
     (case yaml cd object of
        Inl err \<Rightarrow> Ret (Some err, c)
      | Inr out \<Rightarrow> gbind (AddToWriteFile cd out destination owner permissions c) (\<lambda>c. Ret (None, c)))"

section \<open>Vendor data and user data\<close>

record cloud_init_input =
  ci_InstanceName :: string
  ci_UserName :: string
  ci_AuthKey :: string
  ci_TimeZone :: string
  ci_AllowUpgrade :: bool
  ci_Network :: ci
  ci_CloudInit :: cloud_init

definition BuildVendorData :: "codec \<Rightarrow> cloud_init_input \<Rightarrow> cloud_init" where
  "BuildVendorData cd i =
     (let plain = Some [(''package_update'', CBool (ci_AllowUpgrade i)),
                        (''package_upgrade'', CBool (ci_AllowUpgrade i)),
                        (''timezone'', CStr (ci_TimeZone i))]
      in if ci_UserName i \<noteq> [] \<and> ci_AuthKey i \<noteq> []
         then (case public_key cd (ci_AuthKey i) of
             Inr pubKey \<Rightarrow> Some
               [(''package_update'', CBool (ci_AllowUpgrade i)),
                (''package_upgrade'', CBool (ci_AllowUpgrade i)),
                (''timezone'', CStr (ci_TimeZone i)),
                (''users'', CList [CStr ''default'']),
                (''ssh_authorized_keys'', CList [CStr pubKey]),
                (''system_info'', CMap [(''default_user'', CMap [(''name'', CStr (ci_UserName i))])])]
           | Inl err \<Rightarrow> plain)
         else plain)"

definition BuildUserData ::
  "codec \<Rightarrow> cloud_init_input \<Rightarrow> string \<Rightarrow> (error option \<times> cloud_init) go" where
  "BuildUserData cd i netplan =
     (let netplan = (if netplan = [] then ''51-custom.yaml'' else netplan);
          vendorData = Some [(''package_update'', CBool (ci_AllowUpgrade i)),
                             (''package_upgrade'', CBool (ci_AllowUpgrade i)),
                             (''timezone'', CStr (ci_TimeZone i))];
          vendorData = gmerge (ci_CloudInit i) vendorData
      in gbind (AddRunCommand [''netplan apply''] vendorData)
           (AddObjectToWriteFile cd (CMap [(''network'', ci_Network i)])
              (''/etc/netplan/'' @ netplan) ''root:root'' 420))"

section \<open>Addresses\<close>

text \<open>\<^verbatim>\<open>net.ParseIP(s).To4()\<close> on dotted decimal: four numbers of at most three digits, at most
  255, without a leading zero.\<close>

definition octet :: "string \<Rightarrow> nat option" where
  "octet s =
     (if s = [] \<or> 3 < length s \<or> \<not> list_all is_digit s \<or> (1 < length s \<and> hd s = CHR ''0'')
         \<or> 255 < dec_val s
      then None else Some (dec_val s))"

definition To4 :: "string \<Rightarrow> nat list option" where
  "To4 s = (case map octet (Split (CHR ''.'') s) of
              [Some a, Some b, Some c, Some d] \<Rightarrow> Some [a, b, c, d]
            | _ \<Rightarrow> None)"

definition DefaultMask :: "nat list \<Rightarrow> nat list" where
  "DefaultMask ip =
     (if hd ip < 128 then [255, 0, 0, 0]
      else if hd ip < 192 then [255, 255, 0, 0]
      else [255, 255, 255, 0])"

fun ones :: "nat \<Rightarrow> nat" where
  "ones n = (if n = 0 then 0 else n mod 2 + ones (n div 2))"

declare ones.simps [simp del]

definition addressToInteger :: "nat list \<Rightarrow> nat" where
  "addressToInteger m = foldl (\<lambda>i b. i * 256 + b) 0 m"

text \<open>
  \<^verbatim>\<open>ToCIDR\<close>. Without a netmask the class mask of the address is used, and indexing the nil mask of
  a malformed address panics; a malformed netmask reads as 0. The prefix length is the number of
  ones in the binary numeral of the mask.
\<close>

definition ToCIDR :: "string \<Rightarrow> string \<Rightarrow> string go" where
  "ToCIDR address netmask =
     (if netmask = []
      then (case To4 address of
          None \<Rightarrow> Panic IndexOutOfRange
        | Some ip \<Rightarrow>
            Ret (address @ ''/'' @ Itoa (int (ones (addressToInteger (DefaultMask ip))))))
      else (case To4 netmask of
          None \<Rightarrow> Ret (address @ ''/'' @ Itoa 0)
        | Some m \<Rightarrow> Ret (address @ ''/'' @ Itoa (int (ones (addressToInteger m))))))"

section \<open>Lemmas\<close>

lemma AddRunCommand_appends:
  "AddRunCommand command c = Ret c' \<Longrightarrow>
   \<exists>v. gget c' ''runcmd'' = Some (CList (v @ map CStr command)) \<and>
       (gget c ''runcmd'' = Some (CList v) \<or> gget c ''runcmd'' = None \<and> v = [])"
  by (auto simp: AddRunCommand_def gput_Ret split: option.splits ci.splits)

lemma AddRunCommand_others:
  "AddRunCommand command c = Ret c' \<Longrightarrow> k \<noteq> ''runcmd'' \<Longrightarrow> gget c' k = gget c k"
  by (auto simp: AddRunCommand_def gput_Ret split: option.splits ci.splits)

lemma AddRunCommand_compose:
  assumes "AddRunCommand xs c = Ret c1" "AddRunCommand ys c1 = Ret c2"
    and "AddRunCommand (xs @ ys) c = Ret c3"
  shows "gget c3 = gget c2"
proof -
  from assms(1) obtain v where v: "gget c1 ''runcmd'' = Some (CList (v @ map CStr xs))"
    "gget c ''runcmd'' = Some (CList v) \<or> gget c ''runcmd'' = None \<and> v = []"
    by (blast dest: AddRunCommand_appends)
  with assms show ?thesis
    by (intro ext) (auto simp: AddRunCommand_def gput_Ret)
qed

lemma ones_bound: "n < 2 ^ k \<Longrightarrow> ones n \<le> k"
proof (induction k arbitrary: n)
  case 0
  then show ?case by (simp add: ones.simps)
next
  case (Suc k)
  from Suc have "ones (n div 2) \<le> k" by simp
  then show ?case by (subst ones.simps) auto
qed

lemma To4_octets: "To4 s = Some ip \<Longrightarrow> length ip = 4 \<and> (\<forall>x \<in> set ip. x \<le> 255)"
proof -
  have "octet x = Some v \<Longrightarrow> v \<le> 255" for x v
    by (auto simp: octet_def split: if_splits)
  then show "To4 s = Some ip \<Longrightarrow> length ip = 4 \<and> (\<forall>x \<in> set ip. x \<le> 255)"
    unfolding To4_def by (auto split: list.splits option.splits)
qed

lemma addressToInteger_bound:
  assumes "length ip = 4" "\<forall>x \<in> set ip. x \<le> 255"
  shows "addressToInteger ip < 2 ^ 32"
proof -
  from assms obtain a b c d where ip: "ip = [a, b, c, d]"
    by (auto simp: length_Suc_conv numeral_eq_Suc)
  with assms show ?thesis by (simp add: addressToInteger_def)
qed

text \<open>Whatever \<open>ToCIDR\<close> returns is the address with a prefix length of at most 32.\<close>

lemma ToCIDR_prefix:
  assumes "ToCIDR address netmask = Ret r"
  shows "\<exists>n \<le> 32. r = address @ ''/'' @ Itoa (int n)"
proof -
  have ok: "\<exists>n \<le> 32. address @ ''/'' @ Itoa (int (ones (addressToInteger m))) = address @ ''/'' @ Itoa (int n)"
    if "length m = 4" "\<forall>x \<in> set m. x \<le> 255" for m
    using that by (blast intro: ones_bound addressToInteger_bound)
  have dm: "length (DefaultMask ip) = 4" "\<forall>x \<in> set (DefaultMask ip). x \<le> 255" for ip
    by (simp_all add: DefaultMask_def)
  show ?thesis
  proof (cases "netmask = []")
    case True
    with assms show ?thesis
      using ok [OF dm] by (auto simp: ToCIDR_def split: option.splits)
  next
    case False
    show ?thesis
    proof (cases "To4 netmask")
      case None
      with False assms show ?thesis by (auto simp: ToCIDR_def intro: exI [of _ 0])
    next
      case (Some m)
      with False assms To4_octets [OF Some] ok [of m] show ?thesis by (simp add: ToCIDR_def)
    qed
  qed
qed

end
