(* ===== verification/Network.thy ===== *)
theory Network
  imports CloudInit
begin

text \<open>
  Model of \<^verbatim>\<open>providers/network.go\<close> and of the managed network types of
  \<^verbatim>\<open>pkg/apis/nodemanager/v1alpha2/types.go\<close>: the network interfaces of a node, their clones for
  the n-th node of a group, the override by a managed node, the table of MAC addresses and the
  cloud-init network declaration. The conversions of the \<^verbatim>\<open>ipconv\<close> package and the random bytes of a
  generated MAC address are parameters.
\<close>

section \<open>Managed networks\<close>

record network_route =
  route_To :: string
  route_Via :: string
  route_Metric :: int

record common_network =
  cn_NetworkName :: string
  cn_DHCP :: bool
  cn_IPV4Address :: string
  cn_Netmask :: string

text \<open>The Go types behind the interface \<^verbatim>\<open>ManagedNetworkInterface\<close>. OpenStack and CloudStack embed
  the common type and inherit all its methods.\<close>

datatype managed_network =
    CommonNet common_network
  | VMWareNet common_network string "bool option" string "network_route list"
  | MultipassNet common_network "bool option" string "network_route list"

record lxd_network =
  lxd_NetworkName :: string
  lxd_DHCP :: bool
  lxd_IPV4Address :: string

record aws_network =
  aws_SubnetID :: string
  aws_SecurityGroupID :: string
  aws_NetworkInterfaceID :: string
  aws_PrivateAddress :: string
  aws_PublicIP :: bool

record managed_network_config =
  net_OpenStack :: "common_network list"
  net_CloudStack :: "common_network list"
  net_VMWare :: "managed_network list"
  net_Multipass :: "managed_network list"
  net_Lxd :: "lxd_network list"
  net_ENI :: "aws_network option"

definition OpenStack_Managed :: "common_network list \<Rightarrow> managed_network list" where
  "OpenStack_Managed m = map CommonNet m"

definition CloudStack_Managed :: "common_network list \<Rightarrow> managed_network list" where
  "CloudStack_Managed m = map CommonNet m"

definition Lxd_Managed :: "lxd_network list \<Rightarrow> managed_network list" where
  "Lxd_Managed m =
     map (\<lambda>n. CommonNet \<lparr>cn_NetworkName = lxd_NetworkName n, cn_DHCP = lxd_DHCP n,
                         cn_IPV4Address = lxd_IPV4Address n, cn_Netmask = []\<rparr>) m"

fun common_part :: "managed_network \<Rightarrow> common_network" where
  "common_part (CommonNet c) = c"
| "common_part (VMWareNet c _ _ _ _) = c"
| "common_part (MultipassNet c _ _ _) = c"

definition IsDHCP :: "managed_network \<Rightarrow> bool" where
  "IsDHCP m = cn_DHCP (common_part m)"

definition GetNetworkName :: "managed_network \<Rightarrow> string" where
  "GetNetworkName m = cn_NetworkName (common_part m)"

definition GetIPV4Address :: "managed_network \<Rightarrow> string" where
  "GetIPV4Address m = cn_IPV4Address (common_part m)"

text \<open>\<^verbatim>\<open>GetNetmask\<close> returns the address, not the netmask.\<close>

definition GetNetmask :: "managed_network \<Rightarrow> string" where
  "GetNetmask m = cn_IPV4Address (common_part m)"

fun GetAdapter :: "managed_network \<Rightarrow> string" where
  "GetAdapter (VMWareNet _ adapter _ _ _) = adapter"
| "GetAdapter _ = []"

fun GetUseDhcpRoutes :: "managed_network \<Rightarrow> bool option" where
  "GetUseDhcpRoutes (CommonNet _) = Some True"
| "GetUseDhcpRoutes (VMWareNet _ _ use_routes _ _) = use_routes"
| "GetUseDhcpRoutes (MultipassNet _ use_routes _ _) = use_routes"

fun GetRoutes :: "managed_network \<Rightarrow> network_route list" where
  "GetRoutes (CommonNet _) = []"
| "GetRoutes (VMWareNet _ _ _ _ routes) = routes"
| "GetRoutes (MultipassNet _ _ _ routes) = routes"

fun Managed_GetMacAddress :: "managed_network \<Rightarrow> string" where
  "Managed_GetMacAddress (CommonNet _) = []"
| "Managed_GetMacAddress (VMWareNet _ _ _ mac _) = mac"
| "Managed_GetMacAddress (MultipassNet _ _ mac _) = mac"

section \<open>Interfaces\<close>

record net_interface =
  Enabled :: "bool option"
  Primary :: bool
  Existing :: "bool option"
  ConnectionType :: string
  BsdName :: string
  DisplayName :: string
  NetworkName :: string
  Adapter :: string
  MacAddress :: string
  NicName :: string
  DHCP :: bool
  UseDhcpRoutes :: "bool option"
  if_IPAddress :: string
  Netmask :: string
  Routes :: "network_route list"
  if_nodeIndex :: int

record network =
  Domain :: string
  Interfaces :: "net_interface list"
  DNS :: "(string list \<times> string list) option"  \<comment> \<open>search list and name servers\<close>
  net_nodeIndex :: int
  net_controlPlane :: bool

definition IsEnabled :: "net_interface \<Rightarrow> bool" where
  "IsEnabled i = (case Enabled i of Some b \<Rightarrow> b | None \<Rightarrow> True)"

definition IsExisting :: "net_interface \<Rightarrow> bool" where
  "IsExisting i = (case Existing i of Some b \<Rightarrow> b | None \<Rightarrow> True)"

definition IsUseRoutes :: "net_interface \<Rightarrow> bool" where
  "IsUseRoutes i = (case UseDhcpRoutes i of Some b \<Rightarrow> b | None \<Rightarrow> True)"

definition Usable :: "net_interface \<Rightarrow> bool" where
  "Usable i \<longleftrightarrow> IsEnabled i \<and> IsExisting i"

definition CreateIt :: "net_interface \<Rightarrow> bool" where
  "CreateIt i \<longleftrightarrow> IsEnabled i \<and> \<not> IsExisting i"

definition netName :: "net_interface \<Rightarrow> string" where
  "netName i = Sprintf ''%s-%d'' [NicName i, Itoa (if_nodeIndex i)]"

section \<open>Cloning for the n-th node\<close>

text \<open>
  \<^verbatim>\<open>ipconv\<close>: \<open>to_int\<close> reads the four bytes of an address, \<open>of_int\<close> formats the address of a
  32-bit number. The sum is computed in \<^verbatim>\<open>uint32\<close>.
\<close>

record ipconv =
  IPv4ToInt :: "nat list \<Rightarrow> int option"
  IntToIPv4 :: "int \<Rightarrow> string"

definition clone_address :: "ipconv \<Rightarrow> bool \<Rightarrow> int \<Rightarrow> net_interface \<Rightarrow> string" where
  "clone_address ip controlPlane nodeIndex inet =
     (let address = if_IPAddress inet
      in if \<not> controlPlane \<and> 0 < nodeIndex
         then if \<not> DHCP inet \<or> address \<noteq> []
              then (case To4 address of
                  None \<Rightarrow> address
                | Some bytes \<Rightarrow> (case IPv4ToInt ip bytes of
                      None \<Rightarrow> address
                    | Some n \<Rightarrow> IntToIPv4 ip ((n + (nodeIndex - 1) mod 2 ^ 32) mod 2 ^ 32)))
              else address
         else address)"

definition Network_Clone :: "ipconv \<Rightarrow> bool \<Rightarrow> int \<Rightarrow> network \<Rightarrow> network" where
  "Network_Clone ip controlPlane nodeIndex vnet =
     \<lparr>Domain = Domain vnet,
      Interfaces = map (\<lambda>inet. inet\<lparr>if_IPAddress := clone_address ip controlPlane nodeIndex inet,
                                     if_nodeIndex := nodeIndex\<rparr>) (Interfaces vnet),
      DNS = DNS vnet, net_nodeIndex = nodeIndex, net_controlPlane = controlPlane\<rparr>"

definition PrimaryInterface :: "network \<Rightarrow> net_interface option" where
  "PrimaryInterface vnet = find (\<lambda>n. IsEnabled n \<and> Primary n) (Interfaces vnet)"

definition PrimaryAddressIP :: "network \<Rightarrow> string" where
  "PrimaryAddressIP vnet =
     (case find (\<lambda>n. IsEnabled n \<and> Primary n) (Interfaces vnet) of
        None \<Rightarrow> []
      | Some n \<Rightarrow>
          if \<not> DHCP n \<and> if_IPAddress n \<noteq> ''dhcp'' \<and> if_IPAddress n \<noteq> ''none''
          then if_IPAddress n else [])"

definition GetDeclaredExistingInterfaces :: "network \<Rightarrow> net_interface list" where
  "GetDeclaredExistingInterfaces vnet = filter Usable (Interfaces vnet)"

definition InterfaceByName :: "network \<Rightarrow> string \<Rightarrow> net_interface option" where
  "InterfaceByName vnet name =
     find (\<lambda>i. IsEnabled i \<and> NetworkName i = name) (Interfaces vnet)"

section \<open>Configuration\<close>

definition did_load :: "net_interface \<Rightarrow> net_interface" where
  "did_load i =
     (let i = (if ToLower (if_IPAddress i) = ''none'' then i\<lparr>if_IPAddress := [], Enabled := Some False\<rparr>
               else if ToLower (if_IPAddress i) = ''dhcp'' then i\<lparr>DHCP := True, if_IPAddress := []\<rparr>
               else if if_IPAddress i = [] then i\<lparr>DHCP := True\<rparr>
               else i)
      in if DHCP i \<and> Routes i = [] then i\<lparr>UseDhcpRoutes := None\<rparr> else i)"

definition ConfigurationDidLoad :: "network \<Rightarrow> network" where
  "ConfigurationDidLoad vnet = vnet\<lparr>Interfaces := map did_load (Interfaces vnet)\<rparr>"

text \<open>What a managed network changes in the interface of the same name.\<close>

definition configure_interface :: "managed_network \<Rightarrow> net_interface \<Rightarrow> net_interface" where
  "configure_interface m i =
     (let address = GetIPV4Address m;
          i = i\<lparr>DHCP := IsDHCP m, UseDhcpRoutes := GetUseDhcpRoutes m\<rparr>;
          i = (if DHCP i then i\<lparr>if_IPAddress := []\<rparr>
               else if ToLower address = ''none'' then i\<lparr>Enabled := Some False, if_IPAddress := []\<rparr>
               else if ToLower address = ''dhcp'' then i\<lparr>DHCP := True, if_IPAddress := []\<rparr>
               else if address \<noteq> []
               then (let i = i\<lparr>if_IPAddress := address\<rparr>
                     in if GetNetmask m \<noteq> [] then i\<lparr>Netmask := GetNetmask m\<rparr> else i)
               else i);
          i = (if Managed_GetMacAddress m \<noteq> [] then i\<lparr>MacAddress := Managed_GetMacAddress m\<rparr> else i)
      in if GetAdapter m \<noteq> [] then i\<lparr>Adapter := GetAdapter m\<rparr> else i)"

text \<open>The pointer that \<^verbatim>\<open>InterfaceByName\<close> returns: the first enabled interface of that name is
  updated in place.\<close>

fun update_first :: "('a \<Rightarrow> bool) \<Rightarrow> ('a \<Rightarrow> 'a) \<Rightarrow> 'a list \<Rightarrow> 'a list" where
  "update_first p f [] = []"
| "update_first p f (x # xs) = (if p x then f x # xs else x # update_first p f xs)"

definition ConfigureManagedNetwork :: "managed_network list \<Rightarrow> network \<Rightarrow> network" where
  "ConfigureManagedNetwork managed vnet =
     fold (\<lambda>m vnet. vnet\<lparr>Interfaces :=
             update_first (\<lambda>i. IsEnabled i \<and> NetworkName i = GetNetworkName m)
               (configure_interface m) (Interfaces vnet)\<rparr>)
       managed vnet"

section \<open>MAC addresses\<close>

type_synonym mac_table = "(string, string) gomap"

definition setMacAddress :: "string \<Rightarrow> string \<Rightarrow> mac_table \<Rightarrow> mac_table" where
  "setMacAddress net_name address t = gset net_name address t"

definition hex_digit :: "nat \<Rightarrow> char" where
  "hex_digit d = (if d < 10 then char_of (48 + d) else char_of (87 + d))"

definition hex2 :: "nat \<Rightarrow> string" where
  "hex2 n = [hex_digit (n div 16), hex_digit (n mod 16)]"

text \<open>\<open>rnd\<close> is what \<^verbatim>\<open>crypto/rand\<close> delivers: three bytes, or an error.\<close>

definition generateMacAddress ::
  "(nat \<times> nat \<times> nat) option \<Rightarrow> string \<Rightarrow> mac_table \<Rightarrow> string \<times> mac_table" where
  "generateMacAddress rnd net_name t =
     (case gget t net_name of
        Some address \<Rightarrow> (address, t)
      | None \<Rightarrow> (case rnd of
            None \<Rightarrow> ([], t)
          | Some (a, b, c) \<Rightarrow>
              let address = Sprintf ''00:16:3e:%02x:%02x:%02x'' [hex2 a, hex2 b, hex2 c]
              in (address, gset net_name address t)))"

definition updateMacAddressTable :: "net_interface \<Rightarrow> mac_table \<Rightarrow> mac_table" where
  "updateMacAddressTable i t =
     (let address = MacAddress i
      in if address \<noteq> [] \<and> ToLower address \<noteq> ''generate'' \<and> ToLower address \<noteq> ''ignore''
         then setMacAddress (netName i) address t else t)"

definition AttachMacAddress :: "net_interface \<Rightarrow> string \<Rightarrow> mac_table \<Rightarrow> mac_table" where
  "AttachMacAddress i address t = setMacAddress (netName i) address t"

definition Network_UpdateMacAddressTable :: "network \<Rightarrow> mac_table \<Rightarrow> network \<times> mac_table" where
  "Network_UpdateMacAddressTable vnet t =
     (let ifs = map (\<lambda>i. i\<lparr>if_nodeIndex := net_nodeIndex vnet\<rparr>) (Interfaces vnet)
      in (vnet\<lparr>Interfaces := ifs\<rparr>,
          fold (\<lambda>i t. if IsEnabled i then updateMacAddressTable i t else t) ifs t))"

definition Interface_GetMacAddress ::
  "(nat \<times> nat \<times> nat) option \<Rightarrow> net_interface \<Rightarrow> mac_table \<Rightarrow> string \<times> net_interface \<times> mac_table" where
  "Interface_GetMacAddress rnd i t =
     (if if_nodeIndex i < 0 \<or> \<not> IsEnabled i then ([], i, t)
      else let address = MacAddress i;
               (address, t) =
                 (if ToLower address = ''generate'' then generateMacAddress rnd (netName i) t
                  else if ToLower address = ''ignore'' then ([], t)
                  else (address, t))
           in (address, i\<lparr>MacAddress := address\<rparr>, t))"

section \<open>The cloud-init network declaration\<close>

fun StringBefore :: "string \<Rightarrow> char \<Rightarrow> string" where
  "StringBefore [] c = []"
| "StringBefore (x # s) c = (if x = c then [] else x # StringBefore s c)"

definition StringAfter :: "string \<Rightarrow> char \<Rightarrow> string" where
  "StringAfter s c = (if c \<in> set s then rev (StringBefore (rev s) c) else [])"

record net_adapter =
  na_DHCP4 :: bool
  na_NicName :: "string option"
  na_Match :: "string option"
  na_Addresses :: "ci list"
  na_Nameservers :: "(string list \<times> string list) option"
  na_DHCPOverrides :: "cloud_init"
  na_Routes :: "network_route list"

definition empty_adapter :: net_adapter where
  "empty_adapter = \<lparr>na_DHCP4 = False, na_NicName = None, na_Match = None, na_Addresses = [],
     na_Nameservers = None, na_DHCPOverrides = None, na_Routes = []\<rparr>"

text \<open>
  One interface of the loop of \<^verbatim>\<open>GetCloudInitNetwork\<close>: \<open>ethernet\<close> starts as the nil pointer, and a
  field assigned through it while it is nil would panic.
\<close>

definition ethernet_base :: "net_interface \<Rightarrow> string \<Rightarrow> net_adapter option go" where
  "ethernet_base n label =
     (let address = if_IPAddress n;
          eth = (if DHCP n \<or> if_IPAddress n = []
                 then Some (let e = empty_adapter\<lparr>na_DHCP4 := DHCP n\<rparr>
                            in if \<not> IsUseRoutes n
                               then e\<lparr>na_DHCPOverrides := Some [(''use-routes'', CBool False)]\<rparr> else e)
                 else None)
      in if address \<noteq> []
         then gbind (ToCIDR address (Netmask n)) (\<lambda>cidr.
                if label \<noteq> []
                then Ret (Some (empty_adapter\<lparr>na_Addresses :=
                       [CMap [(cidr, CMap [(''label'', CStr (NicName n))])]]\<rparr>))
                else Ret (Some (empty_adapter\<lparr>na_Addresses := [CStr cidr]\<rparr>)))
         else Ret eth)"

definition assign_field :: "bool \<Rightarrow> (net_adapter \<Rightarrow> net_adapter) \<Rightarrow> net_adapter option \<Rightarrow> net_adapter option go" where
  "assign_field c f eth =
     (if \<not> c then Ret eth else case eth of None \<Rightarrow> Panic NilDeref | Some e \<Rightarrow> Ret (Some (f e)))"

definition cloud_init_ethernet ::
  "(string list \<times> string list) option \<Rightarrow> string \<Rightarrow> string \<Rightarrow> net_interface \<Rightarrow> net_adapter option go" where
  "cloud_init_ethernet dns macAddress nicName n =
     gbind (ethernet_base n (StringAfter (NicName n) (CHR '':''))) (\<lambda>eth.
     gbind (assign_field (macAddress \<noteq> []) (\<lambda>e. e\<lparr>na_Match := Some macAddress,
              na_NicName := (if nicName \<noteq> [] then Some nicName else na_NicName e)\<rparr>) eth) (\<lambda>eth.
     gbind (assign_field (Routes n \<noteq> []) (\<lambda>e. e\<lparr>na_Routes := Routes n\<rparr>) eth) (\<lambda>eth.
     assign_field (dns \<noteq> None) (\<lambda>e. e\<lparr>na_Nameservers := dns\<rparr>) eth)))"

primrec GetCloudInitNetwork_loop ::
  "(string \<Rightarrow> (nat \<times> nat \<times> nat) option) \<Rightarrow> bool \<Rightarrow> (string list \<times> string list) option \<Rightarrow>
   net_interface list \<Rightarrow> net_interface list \<times> (string, net_adapter option) gomap \<times> mac_table \<Rightarrow>
   (net_interface list \<times> (string, net_adapter option) gomap \<times> mac_table) go" where
  "GetCloudInitNetwork_loop rnd useMac dns [] s = Ret s"
| "GetCloudInitNetwork_loop rnd useMac dns (n # ns) s =
     (case s of (ifs, eths, t) \<Rightarrow>
       let nicName = StringBefore (NicName n) (CHR '':'') in
       if IsEnabled n \<and> nicName \<noteq> []
       then (case (if useMac then Interface_GetMacAddress (rnd (netName n)) n t else ([], n, t)) of
          (macAddress, n', t') \<Rightarrow>
             gbind (cloud_init_ethernet dns macAddress nicName n') (\<lambda>eth.
               GetCloudInitNetwork_loop rnd useMac dns ns (ifs @ [n'], gset nicName eth eths, t')))
       else GetCloudInitNetwork_loop rnd useMac dns ns (ifs @ [n], eths, t))"

definition GetCloudInitNetwork ::
  "(string \<Rightarrow> (nat \<times> nat \<times> nat) option) \<Rightarrow> bool \<Rightarrow> network \<Rightarrow> mac_table \<Rightarrow>
   ((string, net_adapter option) gomap \<times> network \<times> mac_table) go" where
  "GetCloudInitNetwork rnd useMac vnet t =
     gbind (GetCloudInitNetwork_loop rnd useMac (DNS vnet) (Interfaces vnet) ([], gmake, t))
       (\<lambda>(ifs, eths, t). Ret (eths, vnet\<lparr>Interfaces := ifs\<rparr>, t))"

section \<open>Lemmas\<close>

lemma ethernet_base_set: "ethernet_base n label = Ret eth \<Longrightarrow> eth \<noteq> None"
  by (auto simp: ethernet_base_def Let_def split: if_splits)

lemma assign_field_Some [simp]:
  "assign_field c f (Some e) = Ret (Some (if c then f e else e))"
  by (simp add: assign_field_def)

text \<open>The adapter is never nil when a field is assigned, so the only panic is the one of \<open>ToCIDR\<close>
  on a malformed address without a netmask.\<close>

lemma cloud_init_ethernet_no_nil:
  "cloud_init_ethernet dns mac nic n \<noteq> Panic NilDeref"
  "cloud_init_ethernet dns mac nic n = Ret eth \<Longrightarrow> eth \<noteq> None"
proof -
  have "ToCIDR a m \<noteq> Panic NilDeref" for a m
    by (auto simp: ToCIDR_def split: option.splits)
  then have base: "ethernet_base n l \<noteq> Panic NilDeref" for l
    by (cases "ToCIDR (if_IPAddress n) (Netmask n)") (auto simp: ethernet_base_def Let_def)
  show "cloud_init_ethernet dns mac nic n \<noteq> Panic NilDeref"
    using base by (cases "ethernet_base n (StringAfter (NicName n) (CHR '':''))")
      (auto simp: cloud_init_ethernet_def dest!: ethernet_base_set)
  show "cloud_init_ethernet dns mac nic n = Ret eth \<Longrightarrow> eth \<noteq> None"
    by (auto simp: cloud_init_ethernet_def dest!: ethernet_base_set)
qed

text \<open>Cloning keeps every field but the address and the index, for every interface.\<close>

lemma Network_Clone_interfaces:
  "length (Interfaces (Network_Clone ip cp n vnet)) = length (Interfaces vnet)"
  "map NicName (Interfaces (Network_Clone ip cp n vnet)) = map NicName (Interfaces vnet)"
  by (simp_all add: Network_Clone_def)

lemma clone_address_control_plane [simp]: "clone_address ip True n i = if_IPAddress i"
  by (simp add: clone_address_def)

text \<open>Two workers of a group with a static address get different addresses.\<close>

lemma clone_address_distinct:
  assumes "inj_on (IntToIPv4 ip) {0..<2 ^ 32}"
    and "To4 (if_IPAddress i) = Some bytes" "IPv4ToInt ip bytes = Some n"
    and "\<not> DHCP i" "0 < a" "a \<le> 2 ^ 32" "0 < b" "b \<le> 2 ^ 32" "a \<noteq> b"
  shows "clone_address ip False a i \<noteq> clone_address ip False b i"
proof
  define M :: int where "M = 2 ^ 32"
  have M: "0 < M" by (simp add: M_def)
  have val: "clone_address ip False k i = IntToIPv4 ip ((n + (k - 1)) mod M)"
    if "0 < k" "k \<le> 2 ^ 32" for k
    using that assms(2-4) by (simp add: clone_address_def M_def mod_pos_pos_trivial)
  assume "clone_address ip False a i = clone_address ip False b i"
  then have "IntToIPv4 ip ((n + (a - 1)) mod M) = IntToIPv4 ip ((n + (b - 1)) mod M)"
    using val assms by simp
  then have "(n + (a - 1)) mod M = (n + (b - 1)) mod M"
    using assms(1) M by (simp add: inj_on_eq_iff M_def)
  then have "M dvd (a - b)"
    by (simp add: mod_eq_dvd_iff)
  moreover have "\<bar>a - b\<bar> < M" "a - b \<noteq> 0"
    using assms by (auto simp: M_def)
  ultimately show False
    using dvd_imp_le_int [of "a - b" M] M by simp
qed

text \<open>A generated MAC address is stable: asking again returns the same one.\<close>

lemma generateMacAddress_stable:
  assumes "generateMacAddress rnd name t = (address, t')" "address \<noteq> []"
  shows "generateMacAddress rnd2 name t' = (address, t')"
  using assms
  by (auto simp: generateMacAddress_def Let_def split: option.splits prod.splits)

end
