(* ===== verification/Config.thy ===== *)
theory Config
  imports Network
begin

text \<open>
  Model of the server configuration, \<^verbatim>\<open>AutoScalerServerConfig\<close> of \<^verbatim>\<open>types/types.go\<close>: the fields
  the server reads, its accessors, and the autoscaling options with their cache. The fields
  \<^verbatim>\<open>MinNode\<close>, \<^verbatim>\<open>MaxNode\<close>, \<^verbatim>\<open>MaxPods\<close>, \<^verbatim>\<open>NodeGroup\<close> and \<^verbatim>\<open>CloudInitFileOwner\<close> are pointers that
  \<^verbatim>\<open>StartServer\<close> always sets before the server runs; they are plain values here.
\<close>

definition RKE2DistributionName :: string where "RKE2DistributionName = ''rke2''"
definition K3SDistributionName :: string where "K3SDistributionName = ''k3s''"
definition KubeAdmDistributionName :: string where "KubeAdmDistributionName = ''kubeadm''"
definition MicroK8SDistributionName :: string where "MicroK8SDistributionName = ''microk8s''"
definition ExternalDistributionName :: string where "ExternalDistributionName = ''external''"

lemmas distribution_defs = RKE2DistributionName_def K3SDistributionName_def
  KubeAdmDistributionName_def MicroK8SDistributionName_def ExternalDistributionName_def

record optionals =
  opt_Pricing :: bool
  opt_GetAvailableMachineTypes :: bool
  opt_NewNodeGroup :: bool
  opt_TemplateNodeInfo :: bool
  opt_Create :: bool
  opt_Delete :: bool

text \<open>The options in the configuration file, and the message sent to the autoscaler.\<close>

record file_options =
  fo_ScaleDownUtilizationThreshold :: float64
  fo_ScaleDownGpuUtilizationThreshold :: float64
  fo_ScaleDownUnneededTime :: string
  fo_ScaleDownUnreadyTime :: string
  fo_MaxNodeProvisionTime :: string
  fo_ZeroOrMaxNodeScaling :: bool
  fo_IgnoreDaemonSetsUtilization :: bool

record autoscaling_options =
  ScaleDownUtilizationThreshold :: float64
  ScaleDownGpuUtilizationThreshold :: float64
  ScaleDownUnneededTime :: "int option"
  ScaleDownUnreadyTime :: "int option"
  MaxNodeProvisionTime :: "int option"
  ZeroOrMaxNodeScaling :: bool
  IgnoreDaemonSetsUtilization :: bool

record config =
  cfg_Distribution :: "string option"
  cfg_UseExternalEtdc :: "bool option"
  cfg_UseEtcHosts :: "bool option"
  cfg_UseCloudInitConfig :: "bool option"
  cfg_CloudInitFileOwner :: string
  cfg_CloudProvider :: "string option"
  cfg_ExtDestinationEtcdSslDir :: string
  cfg_ExtSourceEtcdSslDir :: string
  cfg_KubernetesPKISourceDir :: string
  cfg_KubernetesPKIDestDir :: string
  cfg_ServiceIdentifier :: string
  cfg_NodeGroup :: string
  cfg_MinNode :: int
  cfg_MaxNode :: int
  cfg_MaxPods :: int
  cfg_MaxCreatedNodePerCycle :: int
  cfg_ProvisionnedNodeNamePrefix :: string
  cfg_ManagedNodeNamePrefix :: string
  cfg_ControlPlaneNamePrefix :: string
  cfg_NodePrice :: float64
  cfg_PodPrice :: float64
  cfg_DefaultMachineType :: string
  cfg_NodeLabels :: labels
  cfg_CloudInit :: cloud_init
  cfg_Optionals :: "optionals option"
  cfg_ManagedNodeResourceLimiter :: resource_limiter
  cfg_WaitSshReadyInSeconds :: int
  cfg_UserName :: string
  cfg_AuthKeys :: string
  cfg_AutoScalingOptions :: "file_options option"
  cfg_DebugMode :: "bool option"
  cfg_AllowUpgrade :: "bool option"
  cfg_ImageCredentialProviderConfig :: "string option"
  cfg_cached_options :: "autoscaling_options option"

definition GetAllowUpgrade :: "config \<Rightarrow> bool" where
  "GetAllowUpgrade c = (case cfg_AllowUpgrade c of None \<Rightarrow> False | Some b \<Rightarrow> b)"

definition KubernetesDistribution :: "config \<Rightarrow> string" where
  "KubernetesDistribution c =
     (case cfg_Distribution c of None \<Rightarrow> KubeAdmDistributionName | Some d \<Rightarrow> d)"

definition UseEtcHostsToConfigure :: "config \<Rightarrow> bool" where
  "UseEtcHostsToConfigure c = (case cfg_UseEtcHosts c of None \<Rightarrow> False | Some b \<Rightarrow> b)"

definition UseCloudInitToConfigure :: "config \<Rightarrow> bool" where
  "UseCloudInitToConfigure c = (case cfg_UseCloudInitConfig c of None \<Rightarrow> False | Some b \<Rightarrow> b)"

definition UseControllerManager :: "config \<Rightarrow> bool" where
  "UseControllerManager c = (case cfg_CloudProvider c of None \<Rightarrow> False | Some p \<Rightarrow> p \<noteq> [])"

definition DisableCloudController :: "config \<Rightarrow> bool" where
  "DisableCloudController c =
     (case cfg_CloudProvider c of None \<Rightarrow> False | Some p \<Rightarrow> p = ''external'')"

definition GetCloudProviderName :: "config \<Rightarrow> string" where
  "GetCloudProviderName c = (case cfg_CloudProvider c of None \<Rightarrow> [] | Some p \<Rightarrow> p)"

definition UseImageCredentialProviderConfig :: "config \<Rightarrow> bool" where
  "UseImageCredentialProviderConfig c =
     (case cfg_ImageCredentialProviderConfig c of None \<Rightarrow> False | Some p \<Rightarrow> p \<noteq> [])"

definition UseExternalEtdcServer :: "config \<Rightarrow> bool" where
  "UseExternalEtdcServer c = (case cfg_UseExternalEtdc c of None \<Rightarrow> False | Some b \<Rightarrow> b)"

text \<open>
  \<^verbatim>\<open>GetAutoScalingOptions\<close> parses the three durations once and caches the message; \<open>dur\<close> is
  \<^verbatim>\<open>time.ParseDuration\<close>. Returns the options (nil when there are none), the error, and the
  configuration with its cache.
\<close>

definition GetAutoScalingOptions ::
  "(string \<Rightarrow> error + int) \<Rightarrow> config \<Rightarrow> (autoscaling_options option \<times> error option) \<times> config" where
  "GetAutoScalingOptions dur c =
     (if cfg_cached_options c = None
      then (case cfg_AutoScalingOptions c of
          None \<Rightarrow> ((cfg_cached_options c, None), c)
        | Some fo \<Rightarrow> (case dur (fo_ScaleDownUnneededTime fo) of
            Inl err \<Rightarrow> ((None, Some (Errorf ''unable to parse scaleDownUnneededTime: %v'' [err_text err])), c)
          | Inr unneeded \<Rightarrow> (case dur (fo_ScaleDownUnreadyTime fo) of
              Inl err \<Rightarrow> ((None, Some (Errorf ''unable to parse scaleDownUnreadyTime: %v'' [err_text err])), c)
            | Inr unready \<Rightarrow> (case dur (fo_MaxNodeProvisionTime fo) of
                Inl err \<Rightarrow> ((None, Some (Errorf ''unable to parse maxNodeProvisionTime: %v'' [err_text err])), c)
              | Inr provision \<Rightarrow>
                  let c = c\<lparr>cfg_cached_options := Some
                        \<lparr>ScaleDownUtilizationThreshold = fo_ScaleDownUtilizationThreshold fo,
                         ScaleDownGpuUtilizationThreshold = fo_ScaleDownGpuUtilizationThreshold fo,
                         ScaleDownUnneededTime = Some unneeded,
                         ScaleDownUnreadyTime = Some unready,
                         MaxNodeProvisionTime = Some provision,
                         ZeroOrMaxNodeScaling = fo_ZeroOrMaxNodeScaling fo,
                         IgnoreDaemonSetsUtilization = fo_IgnoreDaemonSetsUtilization fo\<rparr>\<rparr>
                  in ((cfg_cached_options c, None), c)))))
      else ((cfg_cached_options c, None), c))"

text \<open>Once the options have been parsed, asking again gives the same answer and changes nothing.\<close>

lemma GetAutoScalingOptions_idempotent:
  assumes "GetAutoScalingOptions dur c = ((opts, None), c')"
  shows "GetAutoScalingOptions dur c' = ((opts, None), c')"
  using assms
  by (auto simp: GetAutoScalingOptions_def Let_def split: if_splits option.splits sum.splits)

lemma GetAutoScalingOptions_error:
  assumes "GetAutoScalingOptions dur c = ((opts, Some e), c')"
  shows "opts = None" "c' = c"
  using assms
  by (auto simp: GetAutoScalingOptions_def Let_def split: if_splits option.splits sum.splits)

end
