(* ===== verification/Environment.thy ===== *)
theory Environment
  imports Config
begin

text \<open>
  Everything outside the server process: the Go interfaces \<^verbatim>\<open>ProviderHandler\<close>,
  \<^verbatim>\<open>ProviderConfiguration\<close> (\<^verbatim>\<open>providers/types.go\<close>), \<^verbatim>\<open>ClientGenerator\<close> (\<^verbatim>\<open>client/types.go\<close>) and
  \<^verbatim>\<open>KubernetesProvider\<close> (\<^verbatim>\<open>kubernetes/types.go\<close>), and the remote shell. Each method call is a
  value of type \<open>call\<close>; the state threads the list of the calls made so far, newest first; and
  the environment \<open>env\<close> answers a call with any function of that list. A theorem about every
  \<open>env\<close> therefore holds for every behaviour of the cloud provider and of the cluster, and a
  theorem about the list of calls is a theorem about the order of the effects.
\<close>

section \<open>Kubernetes objects\<close>

record taint =
  taint_Key :: string
  taint_Effect :: string

record owner_ref =
  o_Kind :: string
  o_Name :: string
  o_UID :: string
  o_Controller :: "bool option"
  o_BlockOwnerDeletion :: "bool option"

record knode =
  k_Name :: string
  k_Annotations :: labels
  k_Labels :: labels
  k_Owners :: "owner_ref list"
  k_Taints :: "taint list"
  k_Addresses :: "(string \<times> string) list"
  k_Cpu :: int
  k_Memory :: int
  k_Storage :: int

text \<open>\<^verbatim>\<open>metav1.GetControllerOf\<close>\<close>

definition GetControllerOf :: "owner_ref list \<Rightarrow> owner_ref option" where
  "GetControllerOf os = find (\<lambda>r. o_Controller r = Some True) os"

definition NodeInternalIP :: string where
  "NodeInternalIP = ''InternalIP''"

record managed_node_status =
  ms_LastUpdateTime :: int
  ms_NodeName :: string
  ms_InstanceName :: string
  ms_InstanceID :: string
  ms_Message :: string
  ms_Reason :: string
  ms_Code :: int

record managed_node =
  mn_Name :: string
  mn_UID :: string
  mn_Nodegroup :: string
  mn_ControlPlane :: bool
  mn_AllowDeployment :: bool
  mn_InstanceType :: string
  mn_DiskSizeInMB :: int
  mn_Labels :: "string list"
  mn_Annotations :: "string list"
  mn_Networking :: managed_network_config
  mn_Status :: managed_node_status

section \<open>Calls\<close>

text \<open>A handler is the reference a provider returns; \<open>nilHandler\<close> is the nil interface.\<close>

type_synonym handler = nat

definition nilHandler :: handler where
  "nilHandler = 0"

record instance_status =
  Address :: string
  Powered :: bool

text \<open>The provider of a Kubernetes distribution, with what it captured when it was built.\<close>

record kube_provider =
  kp_controlPlane :: bool
  kp_maxPods :: int

record instance_input =
  in_ControlPlane :: bool
  in_AllowUpgrade :: bool
  in_NodeGroup :: string
  in_UserName :: string
  in_AuthKey :: string
  in_CloudInit :: cloud_init
  in_Memory :: int
  in_Vcpu :: int
  in_DiskSize :: int

text \<open>
  The methods of \<^verbatim>\<open>ProviderHandler\<close> that the server calls. \<^verbatim>\<open>InstanceShutdownGuest\<close>, \<^verbatim>\<open>InstanceWaitForPowered\<close>,
  \<^verbatim>\<open>PrivateDNSName\<close> and \<^verbatim>\<open>UUID\<close> are never called by it; \<^verbatim>\<open>GetTimeout\<close> reads a field that is only handed on to
  the remote shell and the distribution.
\<close>

datatype handler_call =
    ConfigureNetwork managed_network_config
  | RetrieveNetworkInfos
  | UpdateMacAddressTable
  | GenerateProviderID
  | GetTopologyLabels
  | InstanceCreate instance_input
  | InstanceWaitReady
  | InstancePrimaryAddressIP
  | InstanceID
  | InstanceAutoStart
  | InstancePowerOn
  | InstancePowerOff
  | InstanceDelete
  | InstanceCreated
  | InstanceStatus
  | InstanceWaitForToolsRunning
  | InstanceMaxPods int
  | RegisterDNS string
  | UnregisterDNS string

text \<open>\<^verbatim>\<open>ProviderConfiguration\<close>: a machine to create (name, type, control plane, index), a machine to
  attach (name, control plane, index), the existence of a machine.\<close>

datatype provider_call =
    CreateInstance string string bool int
  | AttachInstance string bool int
  | InstanceExists string

text \<open>The part of \<^verbatim>\<open>ClientGenerator\<close> that acts on the nodes of the cluster\<close>

datatype client_call =
    NodeList
  | GetNode string
  | SetProviderID string string
  | UncordonNode string
  | CordonNode string
  | MarkDrainNode string
  | DrainNode string bool bool
  | DeleteNode string
  | AnnoteNode string labels
  | LabelNode string labels
  | TaintNode string "taint list"
  | WaitNodeToBeReady string

text \<open>\<^verbatim>\<open>KubernetesProvider\<close>\<close>

datatype distribution_call =
    PrepareNodeCreation string
  | PrepareNodeDeletion string bool
  | UploadImageCredentialProviderConfig string
  | JoinCluster string
  | PutImageCredentialProviderConfigInCloudInit string
  | PutConfigInCloudInit string

text \<open>The informers and the client of the custom resource \<^verbatim>\<open>ManagedNode\<close>\<close>

datatype api_call =
    NodesListerList
  | NodesListerGet string
  | ManagedNodesListerGet string
  | ManagedNodesListerList
  | ManagedNodeGet string
  | ManagedNodeUpdateStatus string managed_node_status
  | ManagedNodeDelete string
  | NodeUpdate string "owner_ref list"
  | RecordEvent string string string
  | WaitForCacheSync
  | NodeManagerClient
  | CrdCreate
  | CrdGet string

text \<open>The remote shell, the polling clock, the files of the server\<close>

datatype call =
    On handler handler_call
  | Provider provider_call
  | Client client_call
  | Distribution kube_provider distribution_call
  | Api api_call
  | Scp string string string
  | Sudo string string
  | PollStart
  | CloneCloudInit
  | AddDirectoryToWriteFile string string string
  | SaveState
  | TimeNow

type_synonym calls = "call list"

section \<open>Answers\<close>

text \<open>
  One field per type of answer. The list an answer depends on starts with the call that is
  answered, with its arguments. \<open>attempts\<close> is the number of further attempts a polling loop gets
  before its timeout; \<open>order\<close> chooses the order of the next iteration over a map (or of the
  completion of goroutines started together), from the number of iterations so far.
\<close>

record env =
  ans_err :: "calls \<Rightarrow> error option"
  ans_str :: "calls \<Rightarrow> string \<times> error option"
  ans_int :: "calls \<Rightarrow> int \<times> error option"
  ans_bool :: "calls \<Rightarrow> bool"
  ans_labels :: "calls \<Rightarrow> labels"
  ans_handler :: "calls \<Rightarrow> error + handler"
  ans_status :: "calls \<Rightarrow> instance_status option \<times> error option"
  ans_node :: "calls \<Rightarrow> error + knode"
  ans_nodes :: "calls \<Rightarrow> error + knode list"
  ans_managed :: "calls \<Rightarrow> error + managed_node"
  ans_manageds :: "calls \<Rightarrow> error + managed_node list"
  ans_conditions :: "calls \<Rightarrow> error + (string \<times> string) list"
  ans_cloud_init :: "calls \<Rightarrow> cloud_init \<times> error option"
  ans_duration :: "string \<Rightarrow> error + int"
  attempts :: "calls \<Rightarrow> nat"
  order :: "nat \<Rightarrow> nat \<Rightarrow> nat list"

definition ask :: "(calls \<Rightarrow> 'a) \<Rightarrow> call \<Rightarrow> calls \<Rightarrow> 'a \<times> calls" where
  "ask answer c h = (answer (c # h), c # h)"

lemma ask_snd [simp]: "snd (ask f c h) = c # h"
  by (simp add: ask_def)

text \<open>\<^verbatim>\<open>context.PollImmediate\<close>: one attempt at once, and as many more as the environment allows;
  a timeout of 0 means no timeout.\<close>

definition timeout_error :: error where
  "timeout_error = Plain ''context deadline exceeded''"

definition PollImmediate ::
  "env \<Rightarrow> int \<Rightarrow> ('s \<times> calls \<Rightarrow> (bool \<times> error option) \<times> 's \<times> calls) \<Rightarrow> 's \<times> calls \<Rightarrow>
   (error option \<times> 's \<times> calls) go" where
  "PollImmediate E timeout cond s =
     poll_loop (Suc (attempts E (PollStart # snd s))) (timeout = 0) timeout_error cond s"

text \<open>The new calls of a step that leads from \<open>h\<close> to \<open>h'\<close>, oldest first.\<close>

definition new_calls :: "calls \<Rightarrow> calls \<Rightarrow> calls" where
  "new_calls h h' = rev (take (length h' - length h) h')"

definition extends :: "calls \<Rightarrow> calls \<Rightarrow> bool" where
  "extends h h' \<longleftrightarrow> (\<exists>new. h' = new @ h)"

lemma extends_refl [simp, intro]: "extends h h"
  by (simp add: extends_def)

lemma extends_Cons [simp, intro]: "extends h h' \<Longrightarrow> extends h (c # h')"
  by (auto simp: extends_def)

lemma extends_trans [trans]: "extends h h' \<Longrightarrow> extends h' h'' \<Longrightarrow> extends h h''"
  by (auto simp: extends_def)

lemma extends_new_calls: "extends h h' \<Longrightarrow> h' = rev (new_calls h h') @ h"
  by (auto simp: extends_def new_calls_def)

lemma new_calls_same [simp]: "new_calls h h = []"
  by (simp add: new_calls_def)

lemma new_calls_append [simp]: "new_calls h (new @ h) = rev new"
  by (simp add: new_calls_def)

lemma new_calls_Cons: "extends h h' \<Longrightarrow> new_calls h (c # h') = new_calls h h' @ [c]"
  by (auto simp: extends_def new_calls_def)

end
