(* ===== verification/Samples.thy ===== *)
theory Samples
  imports Environment
begin

text \<open>
  A concrete environment and configuration at which the theorems of the other theories are
  applied: a cloud provider and a cluster where every call succeeds.
\<close>

definition sample_knode :: knode where
  "sample_knode = \<lparr>k_Name = ''n1'', k_Annotations = None, k_Labels = None, k_Owners = [], k_Taints = [],
     k_Addresses = [(''InternalIP'', ''10.0.0.1'')], k_Cpu = 2, k_Memory = 4294967296, k_Storage = 0\<rparr>"

definition sample_managed_node :: managed_node where
  "sample_managed_node = \<lparr>mn_Name = ''m1'', mn_UID = ''u1'', mn_Nodegroup = ''g'', mn_ControlPlane = False,
     mn_AllowDeployment = True, mn_InstanceType = '''', mn_DiskSizeInMB = 0, mn_Labels = [], mn_Annotations = [],
     mn_Networking = \<lparr>net_OpenStack = [], net_CloudStack = [], net_VMWare = [], net_Multipass = [], net_Lxd = [], net_ENI = None\<rparr>,
     mn_Status = \<lparr>ms_LastUpdateTime = 0, ms_NodeName = '''', ms_InstanceName = '''', ms_InstanceID = '''',
       ms_Message = '''', ms_Reason = '''', ms_Code = 0\<rparr>\<rparr>"

definition sample_env :: env where
  "sample_env = \<lparr>
     ans_err = \<lambda>_. None, ans_str = \<lambda>_. (''id'', None), ans_int = \<lambda>_. (110, None), ans_bool = \<lambda>_. True,
     ans_labels = \<lambda>_. None, ans_handler = \<lambda>_. Inr 1,
     ans_status = \<lambda>_. (Some \<lparr>Address = ''10.0.0.1'', Powered = True\<rparr>, None),
     ans_node = \<lambda>_. Inr sample_knode, ans_nodes = \<lambda>_. Inr [], ans_managed = \<lambda>_. Inr sample_managed_node,
     ans_manageds = \<lambda>_. Inr [], ans_conditions = \<lambda>_. Inr [],
     ans_cloud_init = \<lambda>_. (gmake, None), ans_duration = \<lambda>_. Inr 0,
     attempts = \<lambda>_. 0, order = \<lambda>_ n. [0..<n]\<rparr>"

definition sample_config :: config where
  "sample_config = \<lparr>cfg_Distribution = None, cfg_UseExternalEtdc = None, cfg_UseEtcHosts = None,
     cfg_UseCloudInitConfig = Some True, cfg_CloudInitFileOwner = ''root'', cfg_CloudProvider = None,
     cfg_ExtDestinationEtcdSslDir = '''', cfg_ExtSourceEtcdSslDir = '''', cfg_KubernetesPKISourceDir = '''',
     cfg_KubernetesPKIDestDir = '''', cfg_ServiceIdentifier = ''s'', cfg_NodeGroup = ''g'', cfg_MinNode = 0,
     cfg_MaxNode = 3, cfg_MaxPods = 110, cfg_MaxCreatedNodePerCycle = 2, cfg_ProvisionnedNodeNamePrefix = '''',
     cfg_ManagedNodeNamePrefix = '''', cfg_ControlPlaneNamePrefix = '''', cfg_NodePrice = 0, cfg_PodPrice = 0,
     cfg_DefaultMachineType = ''t'', cfg_NodeLabels = None, cfg_CloudInit = None, cfg_Optionals = None,
     cfg_ManagedNodeResourceLimiter = \<lparr>MinLimits = None, MaxLimits = None\<rparr>, cfg_WaitSshReadyInSeconds = 60,
     cfg_UserName = '''', cfg_AuthKeys = '''', cfg_AutoScalingOptions = None, cfg_DebugMode = None,
     cfg_AllowUpgrade = None, cfg_ImageCredentialProviderConfig = None, cfg_cached_options = None\<rparr>"

end
