(* ===== verification/Node.thy ===== *)
theory Node
  imports Samples "HOL-Library.Sublist"
begin

text \<open>
  Model of \<^verbatim>\<open>server/node.go\<close>: one virtual machine of a node group and the operations that launch,
  start, stop, inspect and delete it. Each operation takes the node and the calls made so far and
  returns its results, the updated node and the extended list of calls. The lemmas say which
  fields an operation may change (\<open>same_identity\<close>), that the list of calls only grows, and in which
  order the effects come.
\<close>

section \<open>States and types\<close>

datatype node_state = NotCreated | Creating | Running | Stopped | Deleted | Deleting | Undefined

datatype node_type = NodeExternal | NodeAutoscaled | NodeManaged

fun state_code :: "node_state \<Rightarrow> nat" where
  "state_code NotCreated = 0"
| "state_code Creating = 1"
| "state_code Running = 2"
| "state_code Stopped = 3"
| "state_code Deleted = 4"
| "state_code Deleting = 5"
| "state_code Undefined = 6"

lemma state_code_inject [simp]: "state_code a = state_code b \<longleftrightarrow> a = b"
  by (cases a; cases b) auto

text \<open>The states are compared with \<^verbatim>\<open><\<close> and \<^verbatim>\<open>></\<close> in the code: they are ordered by their numbers.\<close>

instantiation node_state :: linorder
begin

definition less_eq_node_state :: "node_state \<Rightarrow> node_state \<Rightarrow> bool" where
  "less_eq_node_state a b \<longleftrightarrow> state_code a \<le> state_code b"

definition less_node_state :: "node_state \<Rightarrow> node_state \<Rightarrow> bool" where
  "less_node_state a b \<longleftrightarrow> state_code a < state_code b"

instance
  by standard (auto simp: less_eq_node_state_def less_node_state_def)

end

lemmas node_state_order = less_eq_node_state_def less_node_state_def

text \<open>The table of state names has one entry less than there are states.\<close>

definition autoScalerServerNodeStateString :: "string list" where
  "autoScalerServerNodeStateString =
     [''AutoScalerServerNodeStateNotCreated'', ''AutoScalerServerNodeStateCreating'',
      ''AutoScalerServerNodeStateRunning'', ''AutoScalerServerNodeStateStopped'',
      ''AutoScalerServerNodeStateDeleted'', ''AutoScalerServerNodeStateUndefined'']"

definition state_String :: "node_state \<Rightarrow> string go" where
  "state_String s =
     (if state_code s < length autoScalerServerNodeStateString
      then Ret (autoScalerServerNodeStateString ! state_code s) else Panic IndexOutOfRange)"

record node =
  NodeGroup :: string
  NodeName :: string
  NodeIndex :: int
  InstanceName :: string
  VMUUID :: string
  CRDUID :: string
  Memory :: int
  CPU :: int
  DiskSize :: int
  IPAddress :: string
  State :: node_state
  NodeType :: node_type
  ControlPlaneNode :: bool
  AllowDeployment :: bool
  ExtraLabels :: labels
  ExtraAnnotations :: labels
  CloudInit :: cloud_init
  MaxPods :: int
  providerHandler :: handler
  kubernetesProvider :: "kube_provider option"
  serverConfig :: config

text \<open>What no operation on an existing machine changes.\<close>

definition same_identity :: "node \<Rightarrow> node \<Rightarrow> bool" where
  "same_identity n n' \<longleftrightarrow>
     NodeGroup n' = NodeGroup n \<and> NodeName n' = NodeName n \<and> NodeIndex n' = NodeIndex n \<and>
     InstanceName n' = InstanceName n \<and> CRDUID n' = CRDUID n \<and> NodeType n' = NodeType n \<and>
     ControlPlaneNode n' = ControlPlaneNode n \<and> AllowDeployment n' = AllowDeployment n \<and>
     ExtraLabels n' = ExtraLabels n \<and> ExtraAnnotations n' = ExtraAnnotations n \<and>
     providerHandler n' = providerHandler n \<and> serverConfig n' = serverConfig n"

lemma same_identity_refl [simp, intro]: "same_identity n n"
  by (simp add: same_identity_def)

lemma same_identity_trans [trans]:
  "same_identity a b \<Longrightarrow> same_identity b c \<Longrightarrow> same_identity a c"
  by (simp add: same_identity_def)

lemma same_identity_updates [simp]:
  "same_identity n (n'\<lparr>State := s\<rparr>) = same_identity n n'"
  "same_identity n (n'\<lparr>IPAddress := a\<rparr>) = same_identity n n'"
  "same_identity n (n'\<lparr>VMUUID := u\<rparr>) = same_identity n n'"
  "same_identity n (n'\<lparr>CPU := c\<rparr>) = same_identity n n'"
  "same_identity n (n'\<lparr>Memory := m\<rparr>) = same_identity n n'"
  "same_identity n (n'\<lparr>DiskSize := d\<rparr>) = same_identity n n'"
  "same_identity n (n'\<lparr>CloudInit := ci\<rparr>) = same_identity n n'"
  "same_identity n (n'\<lparr>MaxPods := p\<rparr>) = same_identity n n'"
  "same_identity n (n'\<lparr>kubernetesProvider := k\<rparr>) = same_identity n n'"
  by (simp_all add: same_identity_def)

definition owned :: "node \<Rightarrow> bool" where
  "owned n \<longleftrightarrow> NodeType n = NodeAutoscaled \<or> NodeType n = NodeManaged"

section \<open>Status\<close>

definition statusVM ::
  "env \<Rightarrow> node \<Rightarrow> calls \<Rightarrow> (node_state \<times> error option) \<times> node \<times> calls" where
  "statusVM E n h =
     (let ((status, err), h) = ask (ans_status E) (On (providerHandler n) InstanceStatus) h
      in case err of
           Some e \<Rightarrow> ((Undefined, Some e), n, h)
         | None \<Rightarrow> (case status of
               Some st \<Rightarrow>
                 let n = n\<lparr>IPAddress := Address st, State := (if Powered st then Running else Stopped)\<rparr>
                 in ((State n, None), n, h)
             | None \<Rightarrow> ((Undefined, Some (Errorf ErrAutoScalerInfoNotFound [InstanceName n])), n, h)))"

section \<open>Preparing a node\<close>

definition getKubernetesProvider :: "node \<Rightarrow> kube_provider \<times> node" where
  "getKubernetesProvider n =
     (case kubernetesProvider n of
        Some k \<Rightarrow> (k, n)
      | None \<Rightarrow>
          let k = \<lparr>kp_controlPlane = ControlPlaneNode n, kp_maxPods = MaxPods n\<rparr>
          in (k, n\<lparr>kubernetesProvider := Some k\<rparr>))"

definition mebibyte :: int where
  "mebibyte = 1024 * 1024"

definition read_capacity :: "knode \<Rightarrow> node \<Rightarrow> node" where
  "read_capacity k n =
     n\<lparr>CPU := k_Cpu k, Memory := godiv (k_Memory k) mebibyte, DiskSize := godiv (k_Storage k) mebibyte\<rparr>"

definition internal_address :: "knode \<Rightarrow> string option" where
  "internal_address k = map_option snd (find (\<lambda>a. fst a = NodeInternalIP) (k_Addresses k))"

text \<open>The condition that \<^verbatim>\<open>waitReady\<close> polls.\<close>

definition joined_condition ::
  "env \<Rightarrow> node \<times> calls \<Rightarrow> (bool \<times> error option) \<times> node \<times> calls" where
  "joined_condition E s =
     (let (n, h) = s; (r, h) = ask (ans_node E) (Client (GetNode (NodeName n))) h
      in case r of
           Inl e \<Rightarrow> ((False, None), n, h)
         | Inr k \<Rightarrow>
             let n = read_capacity k n;
                 n = (case internal_address k of
                        None \<Rightarrow> n | Some a \<Rightarrow> n\<lparr>State := Running, IPAddress := a\<rparr>)
             in ((True, None), n, h))"

definition waitReady :: "env \<Rightarrow> node \<Rightarrow> calls \<Rightarrow> (error option \<times> node \<times> calls) go" where
  "waitReady E n h =
     gbind (if UseCloudInitToConfigure (serverConfig n)
            then PollImmediate E (cfg_WaitSshReadyInSeconds (serverConfig n)) (joined_condition E) (n, h)
            else Ret (None, n, h))
       (\<lambda>(err, n, h).
          if err \<noteq> None then Ret (Some (Errorf ErrNodeIsNotReady [NodeName n]), n, h)
          else let (e, h) = ask (ans_err E) (Client (WaitNodeToBeReady (NodeName n))) h in Ret (e, n, h))"

definition recopyDirectory ::
  "env \<Rightarrow> string \<Rightarrow> string \<Rightarrow> node \<Rightarrow> calls \<Rightarrow> error option \<times> calls" where
  "recopyDirectory E srcDir dstDir n h =
     (let (err, h) = ask (ans_err E) (Scp (IPAddress n) srcDir ''/tmp'') h
      in if err \<noteq> None then (err, h) else
      let (err, h) = ask (ans_err E) (Sudo (IPAddress n) (Sprintf ''mkdir -p %s'' [dstDir])) h
      in if err \<noteq> None then (err, h) else
      let (err, h) = ask (ans_err E)
            (Sudo (IPAddress n) (Sprintf ''cp -r /tmp/%s/* %s'' [path_Base srcDir, dstDir])) h
      in if err \<noteq> None then (err, h) else
      ask (ans_err E) (Sudo (IPAddress n)
        (Sprintf ''chown -R %s %s'' [cfg_CloudInitFileOwner (serverConfig n), dstDir])) h)"

definition recopyEtcdSslFilesIfNeeded :: "env \<Rightarrow> node \<Rightarrow> calls \<Rightarrow> error option \<times> calls" where
  "recopyEtcdSslFilesIfNeeded E n h =
     (let config = serverConfig n
      in if \<not> UseCloudInitToConfigure config
         then if KubernetesDistribution config \<noteq> RKE2DistributionName \<and> ControlPlaneNode n
                 \<and> UseExternalEtdcServer config
              then recopyDirectory E (cfg_ExtSourceEtcdSslDir config) (cfg_ExtDestinationEtcdSslDir config) n h
              else (None, h)
         else (None, h))"

definition recopyKubernetesPKIIfNeeded :: "env \<Rightarrow> node \<Rightarrow> calls \<Rightarrow> error option \<times> calls" where
  "recopyKubernetesPKIIfNeeded E n h =
     (let config = serverConfig n
      in if \<not> UseCloudInitToConfigure config
         then if KubernetesDistribution config = KubeAdmDistributionName \<and> ControlPlaneNode n
              then recopyDirectory E (cfg_KubernetesPKISourceDir config) (cfg_KubernetesPKIDestDir config) n h
              else (None, h)
         else (None, h))"

definition retrieveNodeInfo :: "env \<Rightarrow> node \<Rightarrow> calls \<Rightarrow> error option \<times> node \<times> calls" where
  "retrieveNodeInfo E n h =
     (let (r, h) = ask (ans_node E) (Client (GetNode (NodeName n))) h
      in case r of Inl e \<Rightarrow> (Some e, n, h) | Inr k \<Rightarrow> (None, read_capacity k n, h))"

definition joinCluster :: "env \<Rightarrow> node \<Rightarrow> calls \<Rightarrow> error option \<times> node \<times> calls" where
  "joinCluster E n h =
     (let (k, n) = getKubernetesProvider n;
          (err, h) = ask (ans_err E) (Distribution k (UploadImageCredentialProviderConfig (NodeName n))) h
      in if err = None
         then let (err, h) = ask (ans_err E) (Distribution k (JoinCluster (NodeName n))) h in (err, n, h)
         else (err, n, h))"

section \<open>Labels and annotations of the cluster node\<close>

definition node_annotations :: "node \<Rightarrow> labels" where
  "node_annotations n = Some
     [(AnnotationNodeGroupName, NodeGroup n),
      (AnnotationScaleDownDisabled, FormatBool (NodeType n \<noteq> NodeAutoscaled)),
      (AnnotationNodeAutoProvisionned, FormatBool (NodeType n = NodeAutoscaled)),
      (AnnotationNodeManaged, FormatBool (NodeType n = NodeManaged)),
      (AnnotationNodeIndex, Itoa (NodeIndex n)),
      (AnnotationInstanceName, InstanceName n),
      (AnnotationInstanceID, VMUUID n)]"

definition control_plane_taints :: "taint list" where
  "control_plane_taints =
     [\<lparr>taint_Key = NodeLabelControlPlaneRole, taint_Effect = ''NoSchedule''\<rparr>,
      \<lparr>taint_Key = NodeLabelMasterRole, taint_Effect = ''NoSchedule''\<rparr>]"

definition setNodeLabels ::
  "env \<Rightarrow> labels \<Rightarrow> labels \<Rightarrow> node \<Rightarrow> calls \<Rightarrow> error option \<times> calls" where
  "setNodeLabels E nodeLabels systemLabels n h =
     (let (topology, h) = ask (ans_labels E) (On (providerHandler n) GetTopologyLabels) h;
          labels = MergeKubernetesLabel [nodeLabels, topology, systemLabels, ExtraLabels n];
          (err, h) = ask (ans_err E) (Client (LabelNode (NodeName n) labels)) h
      in if err \<noteq> None
         then (Some (Errorf ErrLabelNodeReturnError [NodeName n, err_v err]), h)
         else
      let annotations = MergeKubernetesLabel [node_annotations n, ExtraAnnotations n];
          (err, h) = ask (ans_err E) (Client (AnnoteNode (NodeName n) annotations)) h
      in if err \<noteq> None
         then (Some (Errorf ErrAnnoteNodeReturnError [NodeName n, err_v err]), h)
         else if ControlPlaneNode n \<and> AllowDeployment n
         then let (err, h) = ask (ans_err E) (Client (TaintNode (NodeName n) control_plane_taints)) h
              in if err \<noteq> None
                 then (Some (Errorf ErrTaintNodeReturnError [NodeName n, err_v err]), h)
                 else (None, h)
         else (None, h))"

text \<open>The condition that \<^verbatim>\<open>WaitSSHReady\<close> polls: some connection errors mean that the machine is
  still booting, every other error ends the wait.\<close>

definition still_booting :: "string \<Rightarrow> bool" where
  "still_booting m \<longleftrightarrow>
     HasSuffix m ''connection refused'' \<or> HasSuffix m ''i/o timeout''
     \<or> Contains m ''handshake failed: EOF'' \<or> Contains m ''connect: no route to host''"

definition ssh_condition ::
  "env \<Rightarrow> string \<Rightarrow> string \<Rightarrow> unit \<times> calls \<Rightarrow> (bool \<times> error option) \<times> unit \<times> calls" where
  "ssh_condition E nodename address s =
     (let (err, h) = ask (ans_err E)
            (Sudo address (Sprintf ''hostnamectl set-hostname %s'' [nodename])) (snd s)
      in case err of
           Some e \<Rightarrow> if still_booting (err_text e) then ((False, None), (), h) else ((False, Some e), (), h)
         | None \<Rightarrow> ((True, None), (), h))"

definition WaitSSHReady ::
  "env \<Rightarrow> string \<Rightarrow> string \<Rightarrow> node \<Rightarrow> calls \<Rightarrow> (error option \<times> calls) go" where
  "WaitSSHReady E nodename address n h =
     (if UseCloudInitToConfigure (serverConfig n) then Ret (None, h)
      else gbind (PollImmediate E (cfg_WaitSshReadyInSeconds (serverConfig n))
                    (ssh_condition E nodename address) ((), h))
             (\<lambda>(err, u, h). Ret (err, h)))"

section \<open>Chains of fallible calls\<close>

text \<open>
  The code chains fallible calls with \<^verbatim>\<open>if err = f(); err != nil { err = ... } else if\<close>. \<open>or_fail m
  wrap k\<close> is one link of such a chain: run \<open>m\<close>; if it fails the result is the wrapped error, else
  \<open>k\<close> goes on.
\<close>

type_synonym vm = "node \<times> calls"

type_synonym vm_result = "(error option \<times> vm) go"

definition or_fail :: "vm_result \<Rightarrow> (error option \<Rightarrow> error option) \<Rightarrow> (vm \<Rightarrow> vm_result) \<Rightarrow> vm_result" where
  "or_fail m wrap k = gbind m (\<lambda>(err, s). if err \<noteq> None then Ret (wrap err, s) else k s)"

definition wrapped :: "string \<Rightarrow> string \<Rightarrow> error option \<Rightarrow> error option" where
  "wrapped format name err = Some (Errorf format [name, err_v err])"

text \<open>A call of the node's provider handler that returns only an error.\<close>

definition on_handler :: "env \<Rightarrow> handler_call \<Rightarrow> vm \<Rightarrow> vm_result" where
  "on_handler E c s =
     (let (err, h) = ask (ans_err E) (On (providerHandler (fst s)) c) (snd s) in Ret (err, fst s, h))"

text \<open>A provider call whose string result is stored in the node, even when it fails.\<close>

definition on_handler_str ::
  "env \<Rightarrow> handler_call \<Rightarrow> (string \<Rightarrow> node \<Rightarrow> node) \<Rightarrow> vm \<Rightarrow> vm_result" where
  "on_handler_str E c store s =
     (let ((v, err), h) = ask (ans_str E) (On (providerHandler (fst s)) c) (snd s)
      in Ret (err, store v (fst s), h))"

definition set_VMUUID :: "string \<Rightarrow> node \<Rightarrow> node" where
  "set_VMUUID v n = n\<lparr>VMUUID := v\<rparr>"

definition set_IPAddress :: "string \<Rightarrow> node \<Rightarrow> node" where
  "set_IPAddress v n = n\<lparr>IPAddress := v\<rparr>"

text \<open>The callers of \<^verbatim>\<open>WaitForIP\<close> store its result in \<^verbatim>\<open>vm.IPAddress\<close>.\<close>

definition WaitForIP :: "env \<Rightarrow> vm \<Rightarrow> vm_result" where
  "WaitForIP E s = on_handler_str E InstanceWaitReady set_IPAddress s"

section \<open>Launching\<close>

definition appendEtcdSslFilesIfNeededInCloudInit :: "env \<Rightarrow> vm \<Rightarrow> vm_result" where
  "appendEtcdSslFilesIfNeededInCloudInit E s =
     (let (n, h) = s; config = serverConfig n
      in if KubernetesDistribution config \<noteq> RKE2DistributionName
            \<and> (ControlPlaneNode n \<and> UseExternalEtdcServer config)
         then let ((doc, err), h) = ask (ans_cloud_init E)
                    (AddDirectoryToWriteFile (cfg_ExtSourceEtcdSslDir config)
                       (cfg_ExtDestinationEtcdSslDir config) (cfg_CloudInitFileOwner config)) h
              in Ret (err, n\<lparr>CloudInit := doc\<rparr>, h)
         else Ret (None, n, h))"

definition appendKubernetesPKIIfNeededInCloudInit :: "env \<Rightarrow> vm \<Rightarrow> vm_result" where
  "appendKubernetesPKIIfNeededInCloudInit E s =
     (let (n, h) = s; config = serverConfig n
      in if KubernetesDistribution config \<noteq> RKE2DistributionName \<and> ControlPlaneNode n
         then let ((doc, err), h) = ask (ans_cloud_init E)
                    (AddDirectoryToWriteFile (cfg_KubernetesPKISourceDir config)
                       (cfg_KubernetesPKIDestDir config) (cfg_CloudInitFileOwner config)) h
              in Ret (err, n\<lparr>CloudInit := doc\<rparr>, h)
         else Ret (None, n, h))"

text \<open>The distribution writes its own files into the node's cloud-init document.\<close>

definition put_in_cloud_init :: "env \<Rightarrow> (string \<Rightarrow> distribution_call) \<Rightarrow> vm \<Rightarrow> vm_result" where
  "put_in_cloud_init E c s =
     (let (n, h) = s; (k, n) = getKubernetesProvider n;
          ((doc, err), h) = ask (ans_cloud_init E) (Distribution k (c (NodeName n))) h
      in Ret (err, n\<lparr>CloudInit := doc\<rparr>, h))"

definition prepareCloudInit :: "env \<Rightarrow> vm \<Rightarrow> vm_result" where
  "prepareCloudInit E s =
     (let (n, h) = s; config = serverConfig n
      in or_fail
           (if cfg_CloudInit config = None
            then Ret (None, n\<lparr>CloudInit := Some
                   [(''package_update'', CBool (GetAllowUpgrade config)),
                    (''package_upgrade'', CBool (GetAllowUpgrade config))]\<rparr>, h)
            else let ((doc, err), h) = ask (ans_cloud_init E) CloneCloudInit h
                 in Ret (err, n\<lparr>CloudInit := doc\<rparr>, h)) id
         (\<lambda>s. if UseCloudInitToConfigure config
              then or_fail (appendEtcdSslFilesIfNeededInCloudInit E s) id (\<lambda>s.
                   or_fail (appendKubernetesPKIIfNeededInCloudInit E s) id (\<lambda>s.
                   or_fail (put_in_cloud_init E PutImageCredentialProviderConfigInCloudInit s) id (\<lambda>s.
                   put_in_cloud_init E PutConfigInCloudInit s)))
              else Ret (None, s)))"

definition create_input :: "node \<Rightarrow> instance_input" where
  "create_input n =
     \<lparr>in_ControlPlane = ControlPlaneNode n, in_AllowUpgrade = GetAllowUpgrade (serverConfig n),
      in_NodeGroup = NodeGroup n, in_UserName = cfg_UserName (serverConfig n),
      in_AuthKey = cfg_AuthKeys (serverConfig n), in_CloudInit = CloudInit n,
      in_Memory = Memory n, in_Vcpu = CPU n, in_DiskSize = DiskSize n\<rparr>"

text \<open>The last part of \<^verbatim>\<open>createInstance\<close>: the machine is created, identified and started, unless it is
  external.\<close>

definition create_and_start :: "env \<Rightarrow> vm \<Rightarrow> vm_result" where
  "create_and_start E s =
     (let (n, h) = s; createInput = create_input n; n = n\<lparr>State := Creating\<rparr>; name = InstanceName n
      in if NodeType n \<noteq> NodeAutoscaled \<and> NodeType n \<noteq> NodeManaged
         then Ret (Some (Errorf ErrVMNotProvisionnedByMe [name]), n, h)
         else or_fail (on_handler_str E (InstanceCreate createInput) set_VMUUID (n, h))
                (wrapped ErrUnableToLaunchVM name) (\<lambda>s.
              or_fail (on_handler_str E InstanceID set_VMUUID s) (wrapped ErrStartVMFailed name) (\<lambda>s.
              or_fail (on_handler E InstancePowerOn s) (wrapped ErrStartVMFailed name) (\<lambda>s.
              or_fail (on_handler E InstanceAutoStart s) (wrapped ErrStartVMFailed name) (\<lambda>s.
              Ret (None, s))))))"

text \<open>The failure of \<^verbatim>\<open>PrepareNodeCreation\<close> is only logged.\<close>

definition createInstance :: "env \<Rightarrow> vm \<Rightarrow> vm_result" where
  "createInstance E s =
     (let (n, h) = s;
          ((pods, err), h) = ask (ans_int E)
             (On (providerHandler n) (InstanceMaxPods (cfg_MaxPods (serverConfig n)))) h;
          n = n\<lparr>MaxPods := pods\<rparr>
      in if err \<noteq> None
         then Ret (wrapped ErrUnableToRetrieveMaxPodsForInstanceType (InstanceName n) err, n, h) else
      let (k, n) = getKubernetesProvider n;
          (err, h) = ask (ans_err E) (Distribution k (PrepareNodeCreation (NodeName n))) h
      in or_fail (prepareCloudInit E (n, h))
           (\<lambda>err. Some (Errorf ''prepare cloud-init failed: %v'' [err_v err]))
           (create_and_start E))"

definition generateProviderID :: "env \<Rightarrow> node \<Rightarrow> calls \<Rightarrow> string \<times> calls" where
  "generateProviderID E n h =
     (let config = serverConfig n
      in if DisableCloudController config
         then let ((v, u), h) = ask (ans_str E) (On (providerHandler n) GenerateProviderID) h in (v, h)
         else case cfg_Distribution config of
             None \<Rightarrow> ([], h)
           | Some d \<Rightarrow> if d = K3SDistributionName then (Sprintf ''k3s://%s'' [NodeName n], h)
                       else if d = RKE2DistributionName then (Sprintf ''rke2://%s'' [NodeName n], h)
                       else ([], h))"

text \<open>The error of \<^verbatim>\<open>SetProviderID\<close> is ignored: the controller may have set it earlier.\<close>

definition setProviderID :: "env \<Rightarrow> vm \<Rightarrow> vm_result" where
  "setProviderID E s =
     (let (n, h) = s
      in if DisableCloudController (serverConfig n) \<and> UseCloudInitToConfigure (serverConfig n)
         then let ((providerID, u), h) = ask (ans_str E) (On (providerHandler n) GenerateProviderID) h
              in if 0 < length providerID
                 then let (err, h) = ask (ans_err E) (Client (SetProviderID (NodeName n) providerID)) h
                      in Ret (None, n, h)
                 else Ret (None, n, h)
         else Ret (None, n, h))"

definition postCloudInitConfiguration :: "env \<Rightarrow> vm \<Rightarrow> vm_result" where
  "postCloudInitConfiguration E s =
     or_fail (waitReady E (fst s) (snd s)) (wrapped ErrNodeJoinClusterFailed (NodeName (fst s))) (\<lambda>(n, h).
       if State n \<noteq> Running then Ret (Some (Errorf ErrNodeInternalIPNotFound [NodeName n]), n, h)
       else or_fail (setProviderID E (n, h)) (wrapped ErrProviderIDNotConfigured (InstanceName n)) (\<lambda>s.
            or_fail (on_handler E (RegisterDNS (IPAddress (fst s))) s)
              (wrapped ErrRegisterDNSVMFailed (InstanceName (fst s))) (\<lambda>s. Ret (None, s))))"

text \<open>Operations that return their state and error together, as links of a chain.\<close>

definition status_link :: "env \<Rightarrow> vm \<Rightarrow> (node_state \<Rightarrow> vm \<Rightarrow> vm_result) \<Rightarrow> (error option \<Rightarrow> error option) \<Rightarrow> vm_result" where
  "status_link E s k wrap =
     (let ((status, err), s) = statusVM E (fst s) (snd s)
      in if err \<noteq> None then Ret (wrap err, s) else k status s)"

definition keep_node :: "(node \<Rightarrow> calls \<Rightarrow> error option \<times> calls) \<Rightarrow> vm \<Rightarrow> vm_result" where
  "keep_node f s = (let (err, h) = f (fst s) (snd s) in Ret (err, fst s, h))"

text \<open>\<^verbatim>\<open>InstanceWaitForToolsRunning\<close> also returns whether the tools run; the callers ignore it.\<close>

definition wait_tools :: "env \<Rightarrow> vm \<Rightarrow> vm_result" where
  "wait_tools E s = on_handler E InstanceWaitForToolsRunning s"

definition postSshConfiguration :: "env \<Rightarrow> vm \<Rightarrow> vm_result" where
  "postSshConfiguration E s =
     (let name = InstanceName (fst s);
          not_ready = (\<lambda>err. Some (Errorf ErrNodeIsNotReady [name]))
      in or_fail (wait_tools E s) (wrapped ErrStartVMFailed name) (\<lambda>s.
         or_fail (WaitForIP E s) (wrapped ErrStartVMFailed name) (\<lambda>s.
         or_fail (on_handler E (RegisterDNS (IPAddress (fst s))) s) (wrapped ErrRegisterDNSVMFailed name) (\<lambda>s.
         status_link E s (\<lambda>status s.
           if status \<noteq> Running then Ret (wrapped ErrStartVMFailed name None, s) else
           or_fail (keep_node (recopyKubernetesPKIIfNeeded E) s) (wrapped ErrRecopyKubernetesPKIFailed name) (\<lambda>s.
           or_fail (keep_node (recopyEtcdSslFilesIfNeeded E) s) (wrapped ErrUpdateEtcdSslFailed name) (\<lambda>s.
           or_fail (Ret (joinCluster E (fst s) (snd s))) (wrapped ErrNodeJoinClusterFailed name) (\<lambda>s.
           or_fail (waitReady E (fst s) (snd s)) not_ready (\<lambda>s.
           or_fail (Ret (retrieveNodeInfo E (fst s) (snd s))) not_ready (\<lambda>s.
           or_fail (setProviderID E s) (wrapped ErrProviderIDNotConfigured name) (\<lambda>s.
           Ret (None, s))))))))
         (wrapped ErrGetVMInfoFailed name)))))"

definition launchVM :: "env \<Rightarrow> labels \<Rightarrow> labels \<Rightarrow> vm \<Rightarrow> vm_result" where
  "launchVM E nodeLabels systemLabels s =
     (if State (fst s) \<noteq> NotCreated
      then Ret (Some (Errorf ErrVMAlreadyCreated [InstanceName (fst s)]), s)
      else or_fail (createInstance E s) id (\<lambda>s.
           or_fail (if UseCloudInitToConfigure (serverConfig (fst s))
                    then postCloudInitConfiguration E s else postSshConfiguration E s) id (\<lambda>s.
           keep_node (setNodeLabels E nodeLabels systemLabels) s)))"

section \<open>Starting and stopping\<close>

definition unexpected_state :: "string \<Rightarrow> string \<Rightarrow> node_state \<Rightarrow> error option" where
  "unexpected_state format name state =
     Some (Errorf format [name, Sprintf ''Unexpected state: %d'' [Itoa (int (state_code state))]])"

definition startVM :: "env \<Rightarrow> vm \<Rightarrow> vm_result" where
  "startVM E s =
     (let name = InstanceName (fst s); failed = wrapped ErrStartVMFailed name
      in if NodeType (fst s) \<noteq> NodeAutoscaled \<and> NodeType (fst s) \<noteq> NodeManaged
         then Ret (Some (Errorf ErrVMNotProvisionnedByMe [name]), s)
         else status_link E s (\<lambda>state s.
           if state = Stopped
           then or_fail (on_handler E InstancePowerOn s) failed (\<lambda>s.
                or_fail (wait_tools E s) failed (\<lambda>s.
                or_fail (WaitForIP E s) failed (\<lambda>s.
                status_link E s (\<lambda>state s.
                  if state \<noteq> Running then Ret (failed None, s)
                  else let (n, h) = s;
                           (err, h) = ask (ans_err E) (Client (UncordonNode (NodeName n))) h
                       in Ret (None, n\<lparr>State := Running\<rparr>, h)) failed)))
           else if state \<noteq> Running then Ret (unexpected_state ErrStartVMFailed name state, s)
           else Ret (None, s)) failed)"

text \<open>The failure to cordon the node is only logged.\<close>

definition stopVM :: "env \<Rightarrow> vm \<Rightarrow> vm_result" where
  "stopVM E s =
     (let name = InstanceName (fst s); failed = wrapped ErrStopVMFailed name
      in if NodeType (fst s) \<noteq> NodeAutoscaled \<and> NodeType (fst s) \<noteq> NodeManaged
         then Ret (Some (Errorf ErrVMNotProvisionnedByMe [name]), s)
         else status_link E s (\<lambda>state s.
           if state = Running
           then let (n, h) = s;
                    (err, h) = ask (ans_err E) (Client (CordonNode (NodeName n))) h
                in or_fail (on_handler E InstancePowerOff (n, h)) failed (\<lambda>(n, h).
                     Ret (None, n\<lparr>State := Stopped\<rparr>, h))
           else if state \<noteq> Stopped then Ret (unexpected_state ErrStopVMFailed name state, s)
           else Ret (None, s)) failed)"

section \<open>Deleting\<close>

text \<open>The Kubernetes node of a powered machine is drained and deleted, each failure being logged.\<close>

definition drain_and_delete :: "env \<Rightarrow> node \<Rightarrow> calls \<Rightarrow> calls" where
  "drain_and_delete E n h =
     (let (r, h) = ask (ans_node E) (Client (GetNode (NodeName n))) h
      in case r of
           Inl e \<Rightarrow> h
         | Inr k \<Rightarrow>
             let (e1, h) = ask (ans_err E) (Client (MarkDrainNode (NodeName n))) h;
                 (e2, h) = ask (ans_err E) (Client (DrainNode (NodeName n) True True)) h;
                 (e3, h) = ask (ans_err E) (Client (DeleteNode (NodeName n))) h
             in h)"

text \<open>The body of \<^verbatim>\<open>deleteVM\<close> once the status of the machine is known.\<close>

definition delete_known :: "env \<Rightarrow> instance_status \<Rightarrow> vm \<Rightarrow> error option \<times> vm" where
  "delete_known E status s =
     (let (n, h) = s; name = InstanceName n;
          n = n\<lparr>State := Deleting\<rparr>;
          (e1, h) = ask (ans_err E) (On (providerHandler n) (UnregisterDNS (Address status))) h;
          (k, n) = getKubernetesProvider n;
          (e2, h) = ask (ans_err E) (Distribution k (PrepareNodeDeletion (NodeName n) (Powered status))) h
      in if Powered status
         then let h = drain_and_delete E n h;
                  (err, h) = ask (ans_err E) (On (providerHandler n) InstancePowerOff) h
              in if err \<noteq> None then (wrapped ErrStopVMFailed name err, n, h)
                 else let n = n\<lparr>State := Stopped\<rparr>;
                          (err, h) = ask (ans_err E) (On (providerHandler n) InstanceDelete) h
                      in (if err \<noteq> None then wrapped ErrDeleteVMFailed name err else None, n, h)
         else let (err, h) = ask (ans_err E) (On (providerHandler n) InstanceDelete) h
              in (if err \<noteq> None then wrapped ErrDeleteVMFailed name err else None, n, h))"

definition instance_missing :: string where
  "instance_missing = ''InvalidInstanceID.NotFound: The instance ID''"

definition delete_attempt :: "env \<Rightarrow> vm \<Rightarrow> vm_result" where
  "delete_attempt E s =
     (let (n, h) = s
      in if NodeType n \<noteq> NodeAutoscaled \<and> NodeType n \<noteq> NodeManaged
         then Ret (Some (Errorf ErrVMNotProvisionnedByMe [InstanceName n]), n, h)
         else if State n \<noteq> Deleting
         then let (created, h) = ask (ans_bool E) (On (providerHandler n) InstanceCreated) h
              in if \<not> created then Ret (Some (Errorf ErrVMNotFound [InstanceName n]), n, h)
                 else let ((status, err), h) = ask (ans_status E) (On (providerHandler n) InstanceStatus) h
                      in (case err of
                            Some e \<Rightarrow> Ret (Some e, n, h)
                          | None \<Rightarrow> (case status of
                                None \<Rightarrow> Panic NilDeref
                              | Some st \<Rightarrow> Ret (delete_known E st (n, h))))
         else Ret (Some (Errorf ErrVMAlreadyDeleting [InstanceName n]), n, h))"

text \<open>A machine the provider no longer knows is reported as not found.\<close>

definition deleteVM :: "env \<Rightarrow> vm \<Rightarrow> vm_result" where
  "deleteVM E s = gbind (delete_attempt E s) (\<lambda>(err, n, h).
     case err of
       None \<Rightarrow> Ret (None, n\<lparr>State := Deleted\<rparr>, h)
     | Some e \<Rightarrow> Ret (Some (if HasPrefix (err_text e) instance_missing
                           then Errorf ErrVMNotFound [InstanceName n] else e), n, h))"

section \<open>Attaching and cleaning\<close>

definition findInstanceUUID :: "env \<Rightarrow> vm \<Rightarrow> string \<times> vm" where
  "findInstanceUUID E s =
     (let (n, h) = s; ((vmUUID, err), h) = ask (ans_str E) (On (providerHandler n) InstanceID) h
      in if err = None then (vmUUID, n\<lparr>VMUUID := vmUUID\<rparr>, h) else ([], n, h))"

text \<open>When the machine cannot be attached the node is left with the nil handler.\<close>

definition setServerConfiguration :: "env \<Rightarrow> config \<Rightarrow> vm \<Rightarrow> error option \<times> vm" where
  "setServerConfiguration E config s =
     (let (n, h) = s;
          (r, h) = ask (ans_handler E) (Provider (AttachInstance (InstanceName n) (ControlPlaneNode n) (NodeIndex n))) h
      in case r of
           Inl e \<Rightarrow> (Some e, n\<lparr>providerHandler := nilHandler\<rparr>, h)
         | Inr p \<Rightarrow>
             let n = n\<lparr>providerHandler := p, serverConfig := config\<rparr>;
                 (e, h) = ask (ans_err E) (On p UpdateMacAddressTable) h
             in (None, n, h))"

definition retrieveNetworkInfos :: "env \<Rightarrow> vm \<Rightarrow> error option \<times> vm" where
  "retrieveNetworkInfos E s =
     (let (err, h) = ask (ans_err E) (On (providerHandler (fst s)) RetrieveNetworkInfos) (snd s)
      in (err, fst s, h))"

text \<open>Called when a launch failed: nothing happens if the machine existed before, or in debug mode;
  otherwise the machine is deleted unless its state is not created, and the error is logged.\<close>

definition cleanOnLaunchError :: "env \<Rightarrow> error \<Rightarrow> vm \<Rightarrow> vm go" where
  "cleanOnLaunchError E err s =
     (if err_text err \<noteq> Sprintf ErrVMAlreadyExists [InstanceName (fst s)]
      then if cfg_DebugMode (serverConfig (fst s)) = Some True then Ret s
           else let ((status, e), s) = statusVM E (fst s) (snd s)
                in if status \<noteq> NotCreated then gbind (deleteVM E s) (\<lambda>(e, s). Ret s) else Ret s
      else Ret s)"

section \<open>What every operation preserves\<close>

text \<open>
  No operation on a machine changes its identity (names, index, type, labels, handler,
  configuration), and the calls made before it stay made. \<open>keeps s m\<close>: whatever \<open>m\<close> returns is a
  machine with the identity of \<open>s\<close> and an extension of its calls.
\<close>

definition vm_frame :: "vm \<Rightarrow> vm \<Rightarrow> bool" where
  "vm_frame s s' \<longleftrightarrow> same_identity (fst s) (fst s') \<and> extends (snd s) (snd s')"

definition keeps :: "vm \<Rightarrow> vm_result \<Rightarrow> bool" where
  "keeps s m \<longleftrightarrow> holds (\<lambda>(e, s'). vm_frame s s') m"

lemma vm_frame_refl [simp, intro]: "vm_frame s s"
  by (simp add: vm_frame_def)

lemma vm_frame_trans [trans]: "vm_frame a b \<Longrightarrow> vm_frame b c \<Longrightarrow> vm_frame a c"
  by (auto simp: vm_frame_def intro: same_identity_trans extends_trans)

lemma vm_frame_pair: "vm_frame s (n, h) \<longleftrightarrow> same_identity (fst s) n \<and> extends (snd s) h"
  by (simp add: vm_frame_def)

lemma keeps_Ret [simp]: "keeps s (Ret (e, s')) = vm_frame s s'"
  by (simp add: keeps_def)

lemma keeps_Panic [simp]: "keeps s (Panic p)" "keeps s Diverge"
  by (simp_all add: keeps_def)

lemma keeps_or_fail [intro]:
  assumes "keeps s m" "\<And>s'. vm_frame s s' \<Longrightarrow> keeps s (k s')"
  shows "keeps s (or_fail m w k)"
  unfolding or_fail_def keeps_def holds_gbind
  by (rule holds_mono [OF assms(1) [unfolded keeps_def]])
    (auto simp: assms(2) [unfolded keeps_def])

lemma keeps_gbind:
  assumes "keeps s m" "\<And>e s'. vm_frame s s' \<Longrightarrow> keeps s (k (e, s'))"
  shows "keeps s (gbind m k)"
  unfolding keeps_def holds_gbind
  by (rule holds_mono [OF assms(1) [unfolded keeps_def]]) (auto simp: assms(2) [unfolded keeps_def])

named_theorems vm_keeps "the operations of a machine keep its identity and the calls made"

lemmas keeps_unfold = Let_def ask_def vm_frame_pair keeps_Ret

lemma keeps_on_handler [vm_keeps]: "vm_frame s s' \<Longrightarrow> keeps s (on_handler E c s')"
  by (simp add: on_handler_def ask_def vm_frame_def extends_Cons)

lemma keeps_on_handler_VMUUID [vm_keeps]:
  "vm_frame s s' \<Longrightarrow> keeps s (on_handler_str E c set_VMUUID s')"
  by (simp add: on_handler_str_def ask_def vm_frame_def set_VMUUID_def split: prod.splits)

lemma keeps_WaitForIP [vm_keeps]: "vm_frame s s' \<Longrightarrow> keeps s (WaitForIP E s')"
  by (simp add: WaitForIP_def on_handler_str_def ask_def vm_frame_def set_IPAddress_def
      split: prod.splits)

lemma keeps_wait_tools [vm_keeps]: "vm_frame s s' \<Longrightarrow> keeps s (wait_tools E s')"
  by (simp add: wait_tools_def keeps_on_handler)

lemma getKubernetesProvider_identity [simp]:
  "getKubernetesProvider n = (k, n') \<Longrightarrow> same_identity m n' = same_identity m n"
  by (auto simp: getKubernetesProvider_def Let_def split: option.splits)

lemma statusVM_frame [simp]:
  "statusVM E n h = (r, n', h') \<Longrightarrow> vm_frame s (n, h) \<Longrightarrow> vm_frame s (n', h')"
  by (auto simp: statusVM_def Let_def ask_def vm_frame_def split: prod.splits option.splits)

lemma keeps_status_link [intro]:
  assumes "vm_frame s s'" "\<And>st s''. vm_frame s s'' \<Longrightarrow> keeps s (k st s'')"
  shows "keeps s (status_link E s' k w)"
proof -
  obtain st err n h where st: "statusVM E (fst s') (snd s') = ((st, err), n, h)"
    by (metis prod.collapse)
  with assms(1) have "vm_frame s (n, h)" by (auto intro: statusVM_frame)
  with assms(2) st show ?thesis by (simp add: status_link_def)
qed

lemma keeps_append_etcd [vm_keeps]:
  "vm_frame s s' \<Longrightarrow> keeps s (appendEtcdSslFilesIfNeededInCloudInit E s')"
  by (auto simp: appendEtcdSslFilesIfNeededInCloudInit_def keeps_unfold vm_frame_def split: prod.splits)

lemma keeps_append_pki [vm_keeps]:
  "vm_frame s s' \<Longrightarrow> keeps s (appendKubernetesPKIIfNeededInCloudInit E s')"
  by (auto simp: appendKubernetesPKIIfNeededInCloudInit_def keeps_unfold vm_frame_def split: prod.splits)

lemma keeps_put_in_cloud_init [vm_keeps]: "vm_frame s s' \<Longrightarrow> keeps s (put_in_cloud_init E c s')"
  by (auto simp: put_in_cloud_init_def keeps_unfold vm_frame_def split: prod.splits)

lemma keeps_prepareCloudInit [vm_keeps]:
  assumes "vm_frame s s'"
  shows "keeps s (prepareCloudInit E s')"
proof -
  obtain n h where s': "s' = (n, h)" by (cases s')
  show ?thesis
    unfolding s' prepareCloudInit_def Let_def prod.case
  proof (rule keeps_or_fail, goal_cases)
    case 1
    show ?case using assms s' by (auto simp: keeps_unfold split: prod.splits)
  next
    case (2 s')
    then show ?case by (auto intro!: vm_keeps)
  qed
qed

lemma keeps_create_and_start [vm_keeps]:
  assumes "vm_frame s s'"
  shows "keeps s (create_and_start E s')"
proof -
  obtain n h where s': "s' = (n, h)" by (cases s')
  with assms have "vm_frame s (n\<lparr>State := Creating\<rparr>, h)" by (simp add: vm_frame_pair)
  with assms s' show ?thesis
    by (auto simp: create_and_start_def Let_def intro!: vm_keeps keeps_or_fail)
qed

lemma keeps_createInstance [vm_keeps]: "vm_frame s s' \<Longrightarrow> keeps s (createInstance E s')"
  by (auto simp: createInstance_def keeps_unfold vm_frame_def split: prod.splits
      intro!: keeps_or_fail keeps_prepareCloudInit keeps_create_and_start)

lemma keeps_waitReady [vm_keeps]:
  assumes "vm_frame s s'"
  shows "keeps s (waitReady E (fst s') (snd s'))"
proof -
  have step: "vm_frame s t \<Longrightarrow> joined_condition E t = ((d, e), t') \<Longrightarrow> vm_frame s t'" for t d e t'
    by (auto simp: joined_condition_def read_capacity_def Let_def ask_def vm_frame_def
        split: prod.splits sum.splits option.splits)
  have poll: "keeps s (PollImmediate E tm (joined_condition E) s')" for tm
    unfolding keeps_def PollImmediate_def by (rule poll_loop_holds) (erule (1) step, rule assms)
  show ?thesis
    unfolding waitReady_def
    by (rule keeps_gbind) (use assms poll in \<open>auto simp: keeps_unfold split: prod.splits if_splits\<close>)
qed

lemma keeps_setProviderID [vm_keeps]: "vm_frame s s' \<Longrightarrow> keeps s (setProviderID E s')"
  by (auto simp: setProviderID_def keeps_unfold vm_frame_def split: prod.splits)

lemma keeps_keep_node:
  assumes "vm_frame s s'" "\<And>n h. extends h (snd (f n h))"
  shows "keeps s (keep_node f s')"
  using assms(1) assms(2) [of "snd s'" "fst s'"]
  by (auto simp: keep_node_def Let_def vm_frame_def split: prod.splits intro: extends_trans)

lemma recopyDirectory_extends: "extends h (snd (recopyDirectory E a b n h))"
  by (simp add: recopyDirectory_def Let_def ask_def)

lemma keeps_recopy [vm_keeps]:
  "vm_frame s s' \<Longrightarrow> keeps s (keep_node (recopyKubernetesPKIIfNeeded E) s')"
  "vm_frame s s' \<Longrightarrow> keeps s (keep_node (recopyEtcdSslFilesIfNeeded E) s')"
  by (auto intro!: keeps_keep_node
      simp: recopyKubernetesPKIIfNeeded_def recopyEtcdSslFilesIfNeeded_def Let_def recopyDirectory_extends)

lemma keeps_setNodeLabels [vm_keeps]:
  "vm_frame s s' \<Longrightarrow> keeps s (keep_node (setNodeLabels E nodeLabels systemLabels) s')"
  by (auto intro!: keeps_keep_node simp: setNodeLabels_def Let_def ask_def)

lemma keeps_joinCluster [vm_keeps]:
  "vm_frame s s' \<Longrightarrow> keeps s (Ret (joinCluster E (fst s') (snd s')))"
  by (auto simp: joinCluster_def keeps_unfold vm_frame_def split: prod.splits)

lemma keeps_retrieveNodeInfo [vm_keeps]:
  "vm_frame s s' \<Longrightarrow> keeps s (Ret (retrieveNodeInfo E (fst s') (snd s')))"
  by (auto simp: retrieveNodeInfo_def read_capacity_def keeps_unfold vm_frame_def split: prod.splits sum.splits)

lemma keeps_postCloudInit [vm_keeps]: "vm_frame s s' \<Longrightarrow> keeps s (postCloudInitConfiguration E s')"
  by (auto simp: postCloudInitConfiguration_def intro!: vm_keeps keeps_or_fail)

lemma keeps_postSsh [vm_keeps]: "vm_frame s s' \<Longrightarrow> keeps s (postSshConfiguration E s')"
  by (auto simp: postSshConfiguration_def Let_def intro!: vm_keeps keeps_or_fail keeps_status_link)

lemma keeps_launchVM [vm_keeps]: "vm_frame s s' \<Longrightarrow> keeps s (launchVM E nodeLabels systemLabels s')"
  by (auto simp: launchVM_def intro!: vm_keeps keeps_or_fail)

lemma keeps_startVM [vm_keeps]: "vm_frame s s' \<Longrightarrow> keeps s (startVM E s')"
  by (auto simp: startVM_def Let_def ask_def vm_frame_def split: prod.splits
      intro!: vm_keeps keeps_or_fail keeps_status_link)

lemma keeps_stopVM [vm_keeps]: "vm_frame s s' \<Longrightarrow> keeps s (stopVM E s')"
  by (auto simp: stopVM_def Let_def ask_def vm_frame_def split: prod.splits
      intro!: vm_keeps keeps_or_fail keeps_status_link)

lemma drain_and_delete_extends [simp]: "extends h0 h \<Longrightarrow> extends h0 (drain_and_delete E n h)"
  by (auto simp: drain_and_delete_def Let_def ask_def split: sum.splits)

lemma delete_known_frame:
  "delete_known E st s = (e, s') \<Longrightarrow> vm_frame s s'"
  by (auto simp: delete_known_def Let_def ask_def vm_frame_def split: prod.splits if_splits)

text \<open>The four ways an attempt to delete ends.\<close>

lemma delete_attempt_cases:
  assumes "delete_attempt E (n, h) = Ret (e, s)"
  obtains (external) "\<not> owned n" "e = Some (Errorf ErrVMNotProvisionnedByMe [InstanceName n])" "s = (n, h)"
    | (deleting) "owned n" "State n = Deleting" "e = Some (Errorf ErrVMAlreadyDeleting [InstanceName n])" "s = (n, h)"
    | (missing) "owned n" "State n \<noteq> Deleting" "e = Some (Errorf ErrVMNotFound [InstanceName n])"
        "s = (n, On (providerHandler n) InstanceCreated # h)"
    | (no_status) x where "owned n" "State n \<noteq> Deleting" "e = Some x"
        "s = (n, On (providerHandler n) InstanceStatus # On (providerHandler n) InstanceCreated # h)"
    | (known) st where "owned n" "State n \<noteq> Deleting"
        "delete_known E st (n, On (providerHandler n) InstanceStatus # On (providerHandler n) InstanceCreated # h)
           = (e, s)"
  using assms unfolding delete_attempt_def Let_def ask_def prod.case owned_def
  by (simp split: if_splits prod.splits option.splits) blast+

lemma keeps_delete_attempt [vm_keeps]:
  assumes "vm_frame s s'"
  shows "keeps s (delete_attempt E s')"
proof (cases "delete_attempt E s'")
  case (Ret r)
  obtain n h where s': "s' = (n, h)" by (cases s')
  obtain e t where r: "r = (e, t)" by (cases r)
  have "vm_frame (n, h) t"
    using Ret unfolding s' r
    by (cases rule: delete_attempt_cases)
      (auto simp: vm_frame_pair dest!: delete_known_frame elim: vm_frame_trans [rotated])
  with assms s' Ret r show ?thesis by (auto intro: vm_frame_trans)
qed simp_all

lemma keeps_deleteVM [vm_keeps]: "vm_frame s s' \<Longrightarrow> keeps s (deleteVM E s')"
  by (auto simp: deleteVM_def vm_frame_pair intro!: keeps_gbind keeps_delete_attempt split: option.splits)

section \<open>The contract of the operations\<close>

text \<open>
  The callers of a machine's operations rely on two contracts: an operation keeps the identity of
  the machine and only adds calls; and the operations on machines the server owns refuse the
  others without any effect.
\<close>

locale vm_operation =
  fixes operation :: "vm \<Rightarrow> vm_result"
  assumes frame: "keeps s (operation s)"
begin

lemma identity: "operation (n, h) = Ret (e, n', h') \<Longrightarrow> same_identity n n'"
  using frame [of "(n, h)"] by (simp add: vm_frame_def)

lemma grows: "operation (n, h) = Ret (e, n', h') \<Longrightarrow> extends h h'"
  using frame [of "(n, h)"] by (simp add: vm_frame_def)

lemma keeps_after: "vm_frame s s' \<Longrightarrow> keeps s (operation s')"
  using frame [of s'] unfolding keeps_def by (rule holds_mono) (auto intro: vm_frame_trans)

end

locale owned_operation = vm_operation +
  assumes refuses: "\<not> owned n \<Longrightarrow>
    operation (n, h) = Ret (Some (Errorf ErrVMNotProvisionnedByMe [InstanceName n]), n, h)"
begin

lemma effect_owned: "operation (n, h) = Ret (e, n', h') \<Longrightarrow> h' \<noteq> h \<Longrightarrow> owned n"
  using refuses by fastforce

lemma success_owned: "operation (n, h) = Ret (None, n', h') \<Longrightarrow> owned n"
  using refuses by fastforce

end

interpretation launch: vm_operation "launchVM E nodeLabels systemLabels" for E nodeLabels systemLabels
  by unfold_locales (simp add: keeps_launchVM)

interpretation start: owned_operation "startVM E" for E
  by unfold_locales (simp_all add: keeps_startVM, simp add: startVM_def owned_def)

interpretation stop: owned_operation "stopVM E" for E
  by unfold_locales (simp_all add: keeps_stopVM, simp add: stopVM_def owned_def)

lemma not_owned_text: "\<not> HasPrefix (err_text (Errorf ErrVMNotProvisionnedByMe [name])) instance_missing"
  by (simp add: Errorf_def ErrVMNotProvisionnedByMe_def instance_missing_def HasPrefix_def)

interpretation delete: owned_operation "deleteVM E" for E
  by unfold_locales (simp_all add: keeps_deleteVM, simp add: deleteVM_def delete_attempt_def owned_def not_owned_text)

section \<open>What a successful operation establishes\<close>

definition ensures :: "(vm \<Rightarrow> bool) \<Rightarrow> vm_result \<Rightarrow> bool" where
  "ensures P m \<longleftrightarrow> holds (\<lambda>(e, s'). e = None \<longrightarrow> P s') m"

lemma ensures_Ret [simp]: "ensures P (Ret (e, s)) = (e = None \<longrightarrow> P s)"
  by (simp add: ensures_def)

lemma ensures_or_fail:
  assumes "ensures Q m" "\<And>s. Q s \<Longrightarrow> ensures P (k s)" "\<And>e. e \<noteq> None \<Longrightarrow> w e \<noteq> None"
  shows "ensures P (or_fail m w k)"
proof (cases m)
  case (Ret r)
  obtain e s where r: "r = (e, s)" by (cases r)
  show ?thesis
  proof (cases e)
    case None
    with assms(1,2) Ret r show ?thesis by (simp add: or_fail_def)
  next
    case (Some x)
    with assms(3) [of e] Ret r show ?thesis by (auto simp: or_fail_def)
  qed
qed (simp_all add: or_fail_def ensures_def)

lemma wrapped_not_None [simp]: "wrapped f n e \<noteq> None" "\<exists>y. wrapped f n e = Some y"
  by (simp_all add: wrapped_def)

lemma keeps_ensures: "keeps s m \<Longrightarrow> ensures (vm_frame s) m"
  by (cases m) (auto simp: keeps_def ensures_def)

lemma ensures_mono: "ensures P m \<Longrightarrow> (\<And>s. P s \<Longrightarrow> Q s) \<Longrightarrow> ensures Q m"
  by (cases m) (auto simp: ensures_def)

lemma ensures_conj: "ensures P m \<Longrightarrow> ensures Q m \<Longrightarrow> ensures (\<lambda>s. P s \<and> Q s) m"
  by (cases m) (auto simp: ensures_def)

section \<open>Lemmas on launching\<close>

text \<open>After the configuration the machine runs.\<close>

lemma waitReady_running:
  assumes "State n = Running"
  shows "holds (\<lambda>(e, n', h'). State n' = Running) (waitReady E n h)"
proof -
  have step: "State (fst t) = Running \<Longrightarrow> joined_condition E t = ((d, e), t') \<Longrightarrow> State (fst t') = Running"
    for t d e t'
    by (auto simp: joined_condition_def read_capacity_def Let_def ask_def
        split: prod.splits sum.splits option.splits)
  have poll: "holds (\<lambda>(e, s). State (fst s) = Running) (PollImmediate E tm (joined_condition E) (n, h))" for tm
    unfolding PollImmediate_def by (rule poll_loop_holds) (erule (1) step, simp add: assms)
  show ?thesis
  proof (cases "UseCloudInitToConfigure (serverConfig n)")
    case True
    show ?thesis
      unfolding waitReady_def holds_gbind
      using True by simp (rule holds_mono [OF poll], auto simp: Let_def split: prod.splits)
  qed (simp add: waitReady_def assms Let_def split: prod.splits)
qed

definition running :: "vm \<Rightarrow> bool" where
  "running s \<longleftrightarrow> State (fst s) = Running"

lemma ensures_running [intro]:
  "running s \<Longrightarrow> ensures running (on_handler E c s)"
  "running s \<Longrightarrow> ensures running (setProviderID E s)"
  "running s \<Longrightarrow> ensures running (keep_node f s)"
  "running s \<Longrightarrow> ensures running (Ret (joinCluster E (fst s) (snd s)))"
  "running s \<Longrightarrow> ensures running (Ret (retrieveNodeInfo E (fst s) (snd s)))"
  "running s \<Longrightarrow> ensures running (waitReady E (fst s) (snd s))"
  using waitReady_running [of "fst s" E "snd s"]
  by (auto simp: running_def on_handler_def setProviderID_def keep_node_def joinCluster_def ensures_def
      retrieveNodeInfo_def getKubernetesProvider_def read_capacity_def Let_def ask_def
      split: prod.splits sum.splits option.splits elim!: holds_mono)

lemma ensures_True [simp, intro]: "ensures (\<lambda>_. True) m"
  by (cases m) (auto simp: ensures_def)

lemma ensures_running_status:
  assumes "\<And>s. running s \<Longrightarrow> ensures running (k Running s)"
    "\<And>st s. st \<noteq> Running \<Longrightarrow> ensures running (k st s)" "\<And>e. e \<noteq> None \<Longrightarrow> w e \<noteq> None"
  shows "ensures running (status_link E s k w)"
proof -
  obtain st e n h where r: "statusVM E (fst s) (snd s) = ((st, e), n, h)" by (metis prod.collapse)
  then have "e = None \<Longrightarrow> st = Running \<Longrightarrow> State n = Running"
    by (auto simp: statusVM_def Let_def split: prod.splits option.splits if_splits)
  with r assms(1,2) assms(3) [of e] show ?thesis
    by (cases "st = Running"; cases e) (auto simp: status_link_def running_def)
qed

lemmas ensures_or_fail_running = ensures_or_fail [where Q = running]

lemma postCloudInit_running: "ensures running (postCloudInitConfiguration E s)"
  unfolding postCloudInitConfiguration_def
proof (rule ensures_or_fail [OF ensures_True], goal_cases)
  case (1 s)
  obtain n h where s: "s = (n, h)" by (cases s)
  show ?case
  proof (cases "State n = Running")
    case True
    then have "running (n, h)" by (simp add: running_def)
    with True s show ?thesis by (auto intro!: ensures_or_fail_running)
  qed (simp add: s)
qed simp

lemma postSsh_running: "ensures running (postSshConfiguration E s)"
  unfolding postSshConfiguration_def Let_def
  by (rule ensures_or_fail [OF ensures_True], rule ensures_or_fail [OF ensures_True],
      rule ensures_or_fail [OF ensures_True], rule ensures_running_status)
    (auto intro!: ensures_or_fail_running)

section \<open>Properties\<close>

definition sample_node :: node where
  "sample_node = \<lparr>NodeGroup = ''g'', NodeName = ''g-autoscaled-01'', NodeIndex = 0,
     InstanceName = ''g-autoscaled-01'', VMUUID = '''', CRDUID = '''', Memory = 4096, CPU = 2, DiskSize = 10240,
     IPAddress = '''', State = NotCreated, NodeType = NodeAutoscaled, ControlPlaneNode = False,
     AllowDeployment = True, ExtraLabels = gmake, ExtraAnnotations = gmake, CloudInit = None, MaxPods = 0,
     providerHandler = 1, kubernetesProvider = None, serverConfig = sample_config\<rparr>"

definition success :: "vm_result \<Rightarrow> bool" where
  "success m \<longleftrightarrow> (case m of Ret (e, s) \<Rightarrow> e = None | Panic _ \<Rightarrow> False | Diverge \<Rightarrow> False)"

lemma successE: "success m \<Longrightarrow> (\<And>n h. m = Ret (None, n, h) \<Longrightarrow> P) \<Longrightarrow> P"
  by (cases m) (auto simp: success_def)

lemma or_fail_Ret [simp]:
  "or_fail (Ret (None, s)) w k = k s" "or_fail (Ret (Some x, s)) w k = Ret (w (Some x), s)"
  by (simp_all add: or_fail_def)

lemma or_fail_success:
  assumes "or_fail m w k = Ret (None, t)" "\<And>e. e \<noteq> None \<Longrightarrow> w e \<noteq> None"
  obtains s where "m = Ret (None, s)" "k s = Ret (None, t)"
proof (cases m)
  case (Ret r)
  then show ?thesis using assms(1) assms(2) [of "fst r"] that
    by (cases r; cases "fst r") (auto simp: or_fail_def)
qed (use assms(1) in \<open>simp_all add: or_fail_def\<close>)

lemma keep_node_success:
  "keep_node f s = Ret (e, t) \<longleftrightarrow> f (fst s) (snd s) = (e, snd t) \<and> fst t = fst s"
  by (cases t) (auto simp: keep_node_def Let_def split: prod.splits)

section \<open>The calls of a launch\<close>

text \<open>What preparing the cloud-init document may ask for.\<close>

fun document_call :: "call \<Rightarrow> bool" where
  "document_call CloneCloudInit = True"
| "document_call (AddDirectoryToWriteFile src dst owner) = True"
| "document_call (Distribution k (PutImageCredentialProviderConfigInCloudInit name)) = True"
| "document_call (Distribution k (PutConfigInCloudInit name)) = True"
| "document_call c = False"

definition document_calls :: "calls \<Rightarrow> calls \<Rightarrow> bool" where
  "document_calls h h' \<longleftrightarrow> (\<exists>prep. h' = rev prep @ h \<and> list_all document_call prep)"

lemma document_calls_refl [simp]: "document_calls h h"
  by (auto simp: document_calls_def intro: exI [of _ "[]"])

lemma document_calls_Cons: "document_calls h h' \<Longrightarrow> document_call c \<Longrightarrow> document_calls h (c # h')"
  by (auto simp: document_calls_def intro: exI [of _ "prep @ [c]" for prep])

text \<open>The node with another document, and the distribution it remembers.\<close>

definition with_document :: "node \<Rightarrow> node \<Rightarrow> bool" where
  "with_document n n' \<longleftrightarrow> (\<exists>doc k. n' = n\<lparr>CloudInit := doc, kubernetesProvider := k\<rparr>)"

lemma with_document_refl [simp]: "with_document n n"
  unfolding with_document_def by (rule exI [of _ "CloudInit n"], rule exI [of _ "kubernetesProvider n"]) simp

lemma with_document_update [simp]:
  "with_document n n' \<Longrightarrow> with_document n (n'\<lparr>CloudInit := doc\<rparr>)"
  "with_document n n' \<Longrightarrow> with_document n (n'\<lparr>kubernetesProvider := k\<rparr>)"
proof -
  assume "with_document n n'"
  then obtain d x where n': "n' = n\<lparr>CloudInit := d, kubernetesProvider := x\<rparr>" by (auto simp: with_document_def)
  have "n'\<lparr>CloudInit := doc\<rparr> = n\<lparr>CloudInit := doc, kubernetesProvider := x\<rparr>"
    "n'\<lparr>kubernetesProvider := k\<rparr> = n\<lparr>CloudInit := d, kubernetesProvider := k\<rparr>" by (simp_all add: n')
  then show "with_document n (n'\<lparr>CloudInit := doc\<rparr>)" "with_document n (n'\<lparr>kubernetesProvider := k\<rparr>)"
    unfolding with_document_def by blast+
qed

lemma with_document_provider: "getKubernetesProvider n' = (k, n'') \<Longrightarrow> with_document n n' \<Longrightarrow> with_document n n''"
  by (auto simp: getKubernetesProvider_def Let_def split: option.splits)

definition documents :: "vm \<Rightarrow> vm \<Rightarrow> bool" where
  "documents s s' \<longleftrightarrow> with_document (fst s) (fst s') \<and> document_calls (snd s) (snd s')"

lemma documents_append:
  "documents s s' \<Longrightarrow> ensures (documents s) (appendEtcdSslFilesIfNeededInCloudInit E s')"
  "documents s s' \<Longrightarrow> ensures (documents s) (appendKubernetesPKIIfNeededInCloudInit E s')"
  by (auto simp: documents_def appendEtcdSslFilesIfNeededInCloudInit_def appendKubernetesPKIIfNeededInCloudInit_def Let_def ask_def
      intro: document_calls_Cons split: prod.splits)

lemma documents_put:
  assumes "documents s s'" "\<And>k name. document_call (Distribution k (c name))"
  shows "ensures (documents s) (put_in_cloud_init E c s')"
proof -
  obtain n h where s': "s' = (n, h)" by (cases s')
  obtain k n' where k: "getKubernetesProvider n = (k, n')" by fastforce
  with assms(1) s' have "with_document (fst s) n'" by (auto simp: documents_def intro: with_document_provider)
  with assms s' k show ?thesis
    by (auto simp: documents_def put_in_cloud_init_def Let_def ask_def intro: document_calls_Cons split: prod.splits)
qed

lemma prepareCloudInit_documents: "ensures (documents s) (prepareCloudInit E s)"
proof -
  obtain n h where s: "s = (n, h)" by (cases s)
  show ?thesis
    unfolding s prepareCloudInit_def Let_def prod.case
  proof (rule ensures_or_fail [of "documents (n, h)"], goal_cases)
    case 1
    show ?case by (auto simp: documents_def ask_def intro: document_calls_Cons split: prod.splits)
  next
    case (2 s')
    then show ?case by (auto intro!: documents_append documents_put ensures_or_fail [of "documents (n, h)"])
  qed simp
qed

text \<open>A machine that was created, in this order: the provider was asked for the number of pods, the distribution to
  prepare the node, the document was written, then the provider created the instance, gave its identifier, started it
  and registered it to start with its host.\<close>

definition creation_calls :: "handler \<Rightarrow> kube_provider \<Rightarrow> string \<Rightarrow> int \<Rightarrow> call list \<Rightarrow> instance_input \<Rightarrow> call list" where
  "creation_calls p k name pods prep input =
     [On p (InstanceMaxPods pods), Distribution k (PrepareNodeCreation name)] @ prep @
     [On p (InstanceCreate input), On p InstanceID, On p InstancePowerOn, On p InstanceAutoStart]"

lemma createInstance_calls:
  assumes "createInstance E (n, h) = Ret (None, s')"
  shows "owned n \<and> State (fst s') = Creating \<and> same_identity n (fst s') \<and>
    (\<exists>k prep doc. list_all document_call prep \<and> snd s' = rev (creation_calls (providerHandler n) k (NodeName n)
       (cfg_MaxPods (serverConfig n)) prep (create_input (n\<lparr>CloudInit := doc\<rparr>))) @ h)"
proof -
  let ?p = "providerHandler n" and ?h1 = "On (providerHandler n) (InstanceMaxPods (cfg_MaxPods (serverConfig n))) # h"
  obtain pods err where pods: "ans_int E ?h1 = (pods, err)" by fastforce
  obtain k n1 where k: "getKubernetesProvider (n\<lparr>MaxPods := pods\<rparr>) = (k, n1)" by fastforce
  then have n1: "NodeName n1 = NodeName n" "\<exists>x. n1 = n\<lparr>MaxPods := pods, kubernetesProvider := x\<rparr>"
    by (auto simp: getKubernetesProvider_def Let_def split: option.splits intro: exI [of _ "kubernetesProvider n"])
  let ?h2 = "Distribution k (PrepareNodeCreation (NodeName n)) # ?h1"
  from assms pods k n1(1) obtain s2 where prep: "prepareCloudInit E (n1, ?h2) = Ret (None, s2)"
    and create: "create_and_start E s2 = Ret (None, s')"
    by (auto simp: createInstance_def Let_def ask_def split: if_splits elim!: or_fail_success)
  obtain n2 h2 where s2: "s2 = (n2, h2)" by (cases s2)
  from prepareCloudInit_documents [of "(n1, ?h2)" E] prep s2 obtain doc x prep where
    doc: "n2 = n1\<lparr>CloudInit := doc, kubernetesProvider := x\<rparr>" "h2 = rev prep @ ?h2" "list_all document_call prep"
    by (auto simp: documents_def with_document_def document_calls_def)
  with n1(2) have input: "create_input n2 = create_input (n\<lparr>CloudInit := doc\<rparr>)" and "NodeType n2 = NodeType n"
    "providerHandler n2 = providerHandler n" and id: "same_identity n n2"
    by (auto simp: create_input_def same_identity_def)
  with create s2 doc(2) have "owned n" "State (fst s') = Creating" "same_identity n (fst s')"
    "snd s' = On ?p InstanceAutoStart # On ?p InstancePowerOn # On ?p InstanceID # On ?p (InstanceCreate (create_input n2)) # rev prep @ ?h2"
    by (auto simp: create_and_start_def Let_def owned_def on_handler_str_def on_handler_def ask_def set_VMUUID_def
        split: if_splits prod.splits elim!: or_fail_success)
  with input doc(3) show ?thesis
    by (auto simp: creation_calls_def intro!: exI [of _ k] exI [of _ prep] exI [of _ doc])
qed

text \<open>After the creation nothing asks for another one.\<close>

fun creates :: "call \<Rightarrow> bool" where
  "creates (On p (InstanceCreate input)) = True"
| "creates c = False"

definition creates_no_more :: "calls \<Rightarrow> calls \<Rightarrow> bool" where
  "creates_no_more h h' \<longleftrightarrow> (\<exists>later. h' = rev later @ h \<and> \<not> (\<exists>c\<in>set later. creates c))"

lemma creates_no_more_refl [simp]: "creates_no_more h h"
  by (auto simp: creates_no_more_def intro: exI [of _ "[]"])

lemma creates_no_more_Cons [simp]: "creates_no_more h h' \<Longrightarrow> \<not> creates c \<Longrightarrow> creates_no_more h (c # h')"
proof -
  assume "creates_no_more h h'" "\<not> creates c"
  then obtain later where "h' = rev later @ h" "\<not> (\<exists>c\<in>set later. creates c)" by (auto simp: creates_no_more_def)
  with \<open>\<not> creates c\<close> show ?thesis
    unfolding creates_no_more_def by (intro exI [of _ "later @ [c]"]) auto
qed

definition settles :: "calls \<Rightarrow> vm_result \<Rightarrow> bool" where
  "settles h m \<longleftrightarrow> holds (\<lambda>(e, s). creates_no_more h (snd s)) m"

lemma settles_Ret [simp]: "settles h (Ret (e, s)) = creates_no_more h (snd s)"
  by (simp add: settles_def)

lemma settles_or_fail [intro]:
  assumes "settles h m" "\<And>s. creates_no_more h (snd s) \<Longrightarrow> settles h (k s)"
  shows "settles h (or_fail m w k)"
  unfolding or_fail_def settles_def holds_gbind
  by (rule holds_mono [OF assms(1) [unfolded settles_def]]) (auto simp: assms(2) [unfolded settles_def])

named_theorems settling

lemma settles_on_handler [settling]:
  "creates_no_more h (snd s) \<Longrightarrow> \<not> creates (On (providerHandler (fst s)) c) \<Longrightarrow> settles h (on_handler E c s)"
  "creates_no_more h (snd s) \<Longrightarrow> settles h (wait_tools E s)" "creates_no_more h (snd s) \<Longrightarrow> settles h (WaitForIP E s)"
  by (auto simp: on_handler_def wait_tools_def WaitForIP_def on_handler_str_def ask_def split: prod.splits)

lemma settles_status_link [intro]:
  assumes "creates_no_more h (snd s)" "\<And>st s. creates_no_more h (snd s) \<Longrightarrow> settles h (k st s)"
  shows "settles h (status_link E s k w)"
proof -
  obtain st err n h' where st: "statusVM E (fst s) (snd s) = ((st, err), n, h')" by (metis prod.collapse)
  with assms(1) have "creates_no_more h h'"
    by (auto simp: statusVM_def Let_def ask_def split: prod.splits option.splits)
  with assms(2) [of "(n, h')" st] st show ?thesis by (simp add: status_link_def)
qed

lemma settles_waitReady [settling]:
  assumes "creates_no_more h (snd s)"
  shows "settles h (waitReady E (fst s) (snd s))"
proof -
  have step: "creates_no_more h (snd t) \<Longrightarrow> joined_condition E t = ((d, e), t') \<Longrightarrow> creates_no_more h (snd t')" for t d e t'
    by (auto simp: joined_condition_def Let_def ask_def split: prod.splits sum.splits)
  have poll: "settles h (PollImmediate E tm (joined_condition E) s)" for tm
    unfolding settles_def PollImmediate_def by (rule poll_loop_holds) (erule (1) step, simp add: assms)
  show ?thesis
    unfolding waitReady_def settles_def holds_gbind
    by (rule holds_mono [where P = "\<lambda>(e, s). creates_no_more h (snd s)"])
      (use poll assms in \<open>auto simp: settles_def ask_def Let_def split: prod.splits if_splits\<close>)
qed

lemma settles_rest [settling]:
  assumes "creates_no_more h (snd s)"
  shows "settles h (setProviderID E s)" "settles h (keep_node (recopyKubernetesPKIIfNeeded E) s)"
    "settles h (keep_node (recopyEtcdSslFilesIfNeeded E) s)" "settles h (Ret (joinCluster E (fst s) (snd s)))"
    "settles h (Ret (retrieveNodeInfo E (fst s) (snd s)))"
  using assms
  by (auto simp: setProviderID_def keep_node_def recopyKubernetesPKIIfNeeded_def recopyEtcdSslFilesIfNeeded_def recopyDirectory_def
      joinCluster_def retrieveNodeInfo_def Let_def ask_def split: prod.splits sum.splits)

lemma settles_configuration [settling]:
  assumes "creates_no_more h (snd s)"
  shows "settles h (postCloudInitConfiguration E s)" "settles h (postSshConfiguration E s)"
  unfolding postCloudInitConfiguration_def postSshConfiguration_def Let_def
  using assms by (auto intro!: settling settles_or_fail settles_status_link)

text \<open>The last calls of a launch.\<close>

definition label_calls :: "env \<Rightarrow> labels \<Rightarrow> labels \<Rightarrow> node \<Rightarrow> calls \<Rightarrow> call list" where
  "label_calls E nodeLabels systemLabels n h =
     (let topology = On (providerHandler n) GetTopologyLabels
      in [topology,
          Client (LabelNode (NodeName n) (MergeKubernetesLabel [nodeLabels, ans_labels E (topology # h), systemLabels, ExtraLabels n])),
          Client (AnnoteNode (NodeName n) (MergeKubernetesLabel [node_annotations n, ExtraAnnotations n]))] @
         (if ControlPlaneNode n \<and> AllowDeployment n then [Client (TaintNode (NodeName n) control_plane_taints)] else []))"

lemma setNodeLabels_calls:
  "setNodeLabels E nodeLabels systemLabels n h = (None, h') \<Longrightarrow> h' = rev (label_calls E nodeLabels systemLabels n h) @ h"
  by (auto simp: setNodeLabels_def label_calls_def Let_def ask_def split: if_splits)

lemma launchVM_establishes:
  assumes "launchVM E nodeLabels systemLabels (n, h) = Ret (None, n', h')"
  shows "State n = NotCreated \<and> owned n \<and> State n' = Running \<and> same_identity n n' \<and>
    (\<exists>k prep doc later. list_all document_call prep \<and> \<not> (\<exists>c\<in>set later. creates c) \<and>
       (let created = creation_calls (providerHandler n) k (NodeName n) (cfg_MaxPods (serverConfig n)) prep
              (create_input (n\<lparr>CloudInit := doc\<rparr>)) @ later
        in h' = rev (created @ label_calls E nodeLabels systemLabels n' (rev created @ h)) @ h))"
proof -
  from assms have st: "State n = NotCreated" by (auto simp: launchVM_def split: if_splits)
  let ?post = "\<lambda>s. if UseCloudInitToConfigure (serverConfig (fst s))
                   then postCloudInitConfiguration E s else postSshConfiguration E s"
  from assms st obtain s1 where c: "createInstance E (n, h) = Ret (None, s1)"
    and "or_fail (?post s1) id (keep_node (setNodeLabels E nodeLabels systemLabels)) = Ret (None, n', h')"
    by (auto simp: launchVM_def elim!: or_fail_success)
  then obtain s2 where p: "?post s1 = Ret (None, s2)"
    and l: "setNodeLabels E nodeLabels systemLabels n' (snd s2) = (None, h')" "n' = fst s2"
    by (auto simp: keep_node_success elim!: or_fail_success)
  from createInstance_calls [OF c] obtain k prep doc where own: "owned n" and id1: "same_identity n (fst s1)"
    and prep: "list_all document_call prep" and created: "snd s1 = rev (creation_calls (providerHandler n) k (NodeName n)
       (cfg_MaxPods (serverConfig n)) prep (create_input (n\<lparr>CloudInit := doc\<rparr>))) @ h"
    by blast
  have run: "State n' = Running"
    using p l(2) postCloudInit_running [of E s1] postSsh_running [of E s1]
    by (auto simp: running_def split: if_splits)
  have "vm_frame s1 s2"
    using p keeps_postCloudInit [of s1 s1 E] keeps_postSsh [of s1 s1 E] by (auto split: if_splits)
  with id1 l(2) have id: "same_identity n n'" by (auto simp: vm_frame_def intro: same_identity_trans)
  have "settles (snd s1) (?post s1)" by (simp add: settling)
  with p obtain later where "snd s2 = rev later @ snd s1" "\<not> (\<exists>c\<in>set later. creates c)"
    by (auto simp: creates_no_more_def)
  with setNodeLabels_calls [OF l(1)] st own run id prep created show ?thesis
    unfolding Let_def by (intro conjI exI [of _ k] exI [of _ prep] exI [of _ doc] exI [of _ later]) simp_all
qed



definition deletion_calls :: "handler \<Rightarrow> kube_provider \<Rightarrow> string \<Rightarrow> instance_status \<Rightarrow> bool \<Rightarrow> call list" where
  "deletion_calls p k name st found =
     [On p InstanceCreated, On p InstanceStatus, On p (UnregisterDNS (Address st)),
      Distribution k (PrepareNodeDeletion name (Powered st))] @
     (if Powered st
      then Client (GetNode name) #
           (if found then [Client (MarkDrainNode name), Client (DrainNode name True True), Client (DeleteNode name)]
            else []) @ [On p InstancePowerOff]
      else []) @ [On p InstanceDelete]"

lemma new_calls_iff: "extends h h' \<Longrightarrow> new_calls h h' = cs \<longleftrightarrow> h' = rev cs @ h"
  by (auto simp: extends_def)

lemma extends_rev_append [simp]: "extends h (xs @ h)"
  by (auto simp: extends_def)

lemma drain_and_delete_calls:
  "drain_and_delete E n h = rev (Client (GetNode (NodeName n)) #
     (if \<exists>k. ans_node E (Client (GetNode (NodeName n)) # h) = Inr k
      then [Client (MarkDrainNode (NodeName n)), Client (DrainNode (NodeName n) True True),
            Client (DeleteNode (NodeName n))] else [])) @ h"
  by (auto simp: drain_and_delete_def ask_def split: sum.splits)





lemma delete_known_failure:
  "delete_known E st (n, h) = (Some e, n', h') \<Longrightarrow>
   State n' = Stopped \<and> hd h' = On (providerHandler n) InstanceDelete \<or>
   State n' = Deleting \<and> (hd h' = On (providerHandler n) InstancePowerOff \<or> hd h' = On (providerHandler n) InstanceDelete)"
  by (auto simp: delete_known_def Let_def ask_def getKubernetesProvider_def
      split: if_splits option.splits prod.splits)

lemma deleting_text: "\<not> HasPrefix (err_text (Errorf ErrVMAlreadyDeleting [name])) instance_missing"
  by (simp add: Errorf_def ErrVMAlreadyDeleting_def instance_missing_def HasPrefix_def)

theorem deleteVM_stuck:
  assumes "deleteVM E (n, h) = Ret (Some e, n', h')" and "State n \<noteq> Deleting" and "State n' = Deleting"
  shows "(hd h' = On (providerHandler n) InstancePowerOff \<or> hd h' = On (providerHandler n) InstanceDelete) \<and>
    (\<forall>E' h''. deleteVM E' (n', h'') = Ret (Some (Errorf ErrVMAlreadyDeleting [InstanceName n]), n', h''))"
proof -
  have own: "owned n" using assms delete.refuses [of n E h] by fastforce
  have id: "same_identity n n'" using assms(1) by (rule delete.identity)
  from assms(1) obtain x where "delete_attempt E (n, h) = Ret (Some x, n', h')"
    by (auto simp: deleteVM_def split: option.splits)
  then have "hd h' = On (providerHandler n) InstancePowerOff \<or> hd h' = On (providerHandler n) InstanceDelete"
    by (cases rule: delete_attempt_cases) (use assms in \<open>auto dest: delete_known_failure\<close>)
  moreover have "deleteVM E' (n', h'') = Ret (Some (Errorf ErrVMAlreadyDeleting [InstanceName n]), n', h'')" for E' h''
    using own id assms(3)
    by (auto simp: deleteVM_def delete_attempt_def deleting_text owned_def same_identity_def)
  ultimately show ?thesis by blast
qed

definition failing_power_off :: env where
  "failing_power_off = sample_env\<lparr>ans_err := \<lambda>h. if hd h = On 1 InstancePowerOff then Some (Plain ''busy'') else None\<rparr>"

theorem deleteVM_stuck_witness:
  "\<exists>n' h'. State n' = Deleting \<and> hd h' = On 1 InstancePowerOff \<and> State sample_node \<noteq> Deleting \<and>
    (\<forall>E' h''. deleteVM E' (n', h'') = Ret (Some (Errorf ErrVMAlreadyDeleting [InstanceName sample_node]), n', h''))"
proof -
  have 0: "case deleteVM failing_power_off (sample_node, []) of
      Ret (e, n, h) \<Rightarrow> e \<noteq> None \<and> State n = Deleting \<and> hd h = On 1 InstancePowerOff | _ \<Rightarrow> False"
    by code_simp
  then obtain e n' h' where "deleteVM failing_power_off (sample_node, []) = Ret (Some e, n', h')"
    "State n' = Deleting" "hd h' = On 1 InstancePowerOff"
    by (auto split: go.splits)
  moreover have "State sample_node \<noteq> Deleting" by (simp add: sample_node_def)
  ultimately show ?thesis using deleteVM_stuck by blast
qed



lemma status_link_success:
  assumes "status_link E (n, h) k w = Ret (None, t)" "\<And>e. e \<noteq> None \<Longrightarrow> w e \<noteq> None"
  obtains st n1 where "k st (n1, On (providerHandler n) InstanceStatus # h) = Ret (None, t)"
    "same_identity n n1" "State n1 = st" "st = Running \<or> st = Stopped"
    "\<exists>status. ans_status E (On (providerHandler n) InstanceStatus # h) = (Some status, None) \<and> (Powered status \<longleftrightarrow> st = Running)"
  using assms(1) assms(2) [of "snd (fst (statusVM E n h))"] that
  by (auto simp: status_link_def statusVM_def Let_def ask_def split: prod.splits option.splits if_splits)

lemma on_handler_success:
  "on_handler E c (n, h) = Ret (None, s) \<Longrightarrow> s = (n, On (providerHandler n) c # h)"
  by (simp add: on_handler_def ask_def)

lemma WaitForIP_success:
  "WaitForIP E (n, h) = Ret (None, s) \<Longrightarrow>
   \<exists>a. s = (n\<lparr>IPAddress := a\<rparr>, On (providerHandler n) InstanceWaitReady # h)"
  by (auto simp: WaitForIP_def on_handler_str_def ask_def set_IPAddress_def split: prod.splits)

text \<open>\<open>shows_power\<close>: the last call asked for the status of the machine, and the answer was that it is powered or not.\<close>

definition shows_power :: "env \<Rightarrow> calls \<Rightarrow> bool \<Rightarrow> bool" where
  "shows_power E h powered \<longleftrightarrow> (\<exists>status. ans_status E h = (Some status, None) \<and> Powered status = powered)"


theorem stopVM_success:
  assumes "stopVM E (n, h) = Ret (None, n', h')"
  shows "owned n \<and> State n' = Stopped \<and> same_identity n n' \<and>
    (let p = providerHandler n
     in new_calls h h' = [On p InstanceStatus] \<or>
        new_calls h h' = [On p InstanceStatus, Client (CordonNode (NodeName n)), On p InstancePowerOff])"
proof -
  have own: "owned n" using assms by (rule stop.success_owned)
  let ?h = "On (providerHandler n) InstanceStatus # h"
  from assms own obtain st n1 where n1: "same_identity n n1" "State n1 = st" "st = Running \<or> st = Stopped"
    and k: "(if st = Running
       then let (err, h) = ask (ans_err E) (Client (CordonNode (NodeName n1))) ?h
            in or_fail (on_handler E InstancePowerOff (n1, h)) (wrapped ErrStopVMFailed (InstanceName n))
                 (\<lambda>(n, h). Ret (None, n\<lparr>State := Stopped\<rparr>, h))
       else Ret (None, n1, ?h)) = Ret (None, n', h')"
    by (auto simp: stopVM_def owned_def Let_def elim!: status_link_success split: if_splits)
  then have "State n' = Stopped" 
    by (auto simp: ask_def elim!: or_fail_success dest!: on_handler_success split: if_splits)
  moreover have "new_calls h h' = [On (providerHandler n) InstanceStatus] \<or>
     new_calls h h' = [On (providerHandler n) InstanceStatus, Client (CordonNode (NodeName n)), On (providerHandler n) InstancePowerOff]"
    using k n1 by (auto simp: ask_def new_calls_iff same_identity_def elim!: or_fail_success
       dest!: on_handler_success split: if_splits)
  ultimately show ?thesis using own stop.identity [OF assms] by (simp add: Let_def)
qed

definition stopped_env :: env where
  "stopped_env = sample_env\<lparr>ans_status := \<lambda>h. (Some \<lparr>Address = ''10.0.0.1'', Powered = 1 < length h\<rparr>, None)\<rparr>"


theorem stopVM_success_witness:
  "\<exists>n' h'. stopVM sample_env (sample_node, []) = Ret (None, n', h') \<and> State n' = Stopped"
proof -
  have "success (stopVM sample_env (sample_node, []))" by code_simp
  then show ?thesis by (rule successE) (use stopVM_success in blast)
qed

end
