(* ===== verification/NodeGroup.thy ===== *)
theory NodeGroup
  imports Node
begin

text \<open>
  Model of \<^verbatim>\<open>server/nodegroup.go\<close>: a group of machines and the operations that grow it, shrink it,
  discover it from the cluster and delete it. Nodes are shared between the tables of a group and
  the slices its operations return, so they live in a heap: a \<open>world\<close> holds the nodes by address,
  the calls made so far and the number of map iterations so far (each takes its order from the
  environment). An operation takes the group and the world and returns its result and both,
  updated.

  Go's \<^verbatim>\<open>int\<close> is \<open>int\<close> here: sizes and indexes stay far from \<^verbatim>\<open>2^63\<close>. The goroutines that
  \<^verbatim>\<open>createNodes\<close> starts together are run one after another in an order the environment chooses: each of
  them is one step here, so a race between two of them is not part of the model.
\<close>

section \<open>State\<close>

datatype group_status = NodegroupNotCreated | NodegroupCreating | NodegroupCreated
  | NodegroupDeleting | NodegroupDeleted

datatype run_state = ServerNodeStateNotRunning | ServerNodeStateDeleted | ServerNodeStateCreating
  | ServerNodeStateRunning | ServerNodeStateDeleting

fun run_code :: "run_state \<Rightarrow> nat" where
  "run_code ServerNodeStateNotRunning = 0"
| "run_code ServerNodeStateDeleted = 1"
| "run_code ServerNodeStateCreating = 2"
| "run_code ServerNodeStateRunning = 3"
| "run_code ServerNodeStateDeleting = 4"

type_synonym addr = nat

record group =
  NodeGroupIdentifier :: string
  ServiceIdentifier :: string
  ProvisionnedNodeNamePrefix :: string
  ManagedNodeNamePrefix :: string
  ControlPlaneNamePrefix :: string
  InstanceType :: string
  Status :: group_status
  MinNodeSize :: int
  MaxNodeSize :: int
  Nodes :: "(string, addr) gomap"
  NodeLabels :: labels
  SystemLabels :: labels
  AutoProvision :: bool
  LastCreatedNodeIndex :: int
  RunningNodes :: "(int, run_state) gomap"
  pendingNodes :: "(string, addr) gomap"
  pendingNodesWG :: int
  numOfControlPlanes :: int
  numOfExternalNodes :: int
  numOfProvisionnedNodes :: int
  numOfManagedNodes :: int
  configuration :: config
  group_machines :: machines

record world =
  heap :: "addr \<Rightarrow> node option"
  fresh :: addr
  trace :: calls
  iters :: nat

text \<open>The parameters of a new group.\<close>

record nodegroupCreateInput =
  nodeGroupID :: string
  minNodeSize :: int
  maxNodeSize :: int
  machineType :: string
  input_labels :: labels
  systemLabels :: labels
  autoProvision :: bool
  input_configuration :: config
  input_machines :: machines

text \<open>\<^verbatim>\<open>RunningNodes\<close> is not initialised: it stays the nil map until nodes are discovered.\<close>

definition NewAutoScalerServerNodeGroup :: "nodegroupCreateInput \<Rightarrow> group" where
  "NewAutoScalerServerNodeGroup s =
     \<lparr>NodeGroupIdentifier = nodeGroupID s,
      ServiceIdentifier = cfg_ServiceIdentifier (input_configuration s),
      ProvisionnedNodeNamePrefix = cfg_ProvisionnedNodeNamePrefix (input_configuration s),
      ManagedNodeNamePrefix = cfg_ManagedNodeNamePrefix (input_configuration s),
      ControlPlaneNamePrefix = cfg_ControlPlaneNamePrefix (input_configuration s),
      InstanceType = machineType s, Status = NodegroupNotCreated,
      MinNodeSize = minNodeSize s, MaxNodeSize = maxNodeSize s, Nodes = gmake,
      NodeLabels = input_labels s, SystemLabels = systemLabels s, AutoProvision = autoProvision s,
      LastCreatedNodeIndex = 0, RunningNodes = None, pendingNodes = gmake, pendingNodesWG = 0,
      numOfControlPlanes = 0, numOfExternalNodes = 0, numOfProvisionnedNodes = 0, numOfManagedNodes = 0,
      configuration = input_configuration s, group_machines = input_machines s\<rparr>"

section \<open>The heap of nodes\<close>

type_synonym 'a group_result = "('a \<times> group \<times> world) go"

definition load :: "addr \<Rightarrow> world \<Rightarrow> node go" where
  "load p w = (case heap w p of None \<Rightarrow> Panic NilDeref | Some n \<Rightarrow> Ret n)"

definition store :: "addr \<Rightarrow> node \<Rightarrow> world \<Rightarrow> world" where
  "store p n w = w\<lparr>heap := (heap w)(p \<mapsto> n)\<rparr>"

definition alloc :: "node \<Rightarrow> world \<Rightarrow> addr \<times> world" where
  "alloc n w = (fresh w, w\<lparr>heap := (heap w)(fresh w \<mapsto> n), fresh := Suc (fresh w)\<rparr>)"

text \<open>Asking the environment.\<close>

definition wask :: "(calls \<Rightarrow> 'a) \<Rightarrow> call \<Rightarrow> world \<Rightarrow> 'a \<times> world" where
  "wask answer c w = (let (a, h) = ask answer c (trace w) in (a, w\<lparr>trace := h\<rparr>))"

text \<open>Running an operation of a node on the node at an address.\<close>

definition run_vm :: "(vm \<Rightarrow> ('a \<times> vm) go) \<Rightarrow> addr \<Rightarrow> world \<Rightarrow> ('a \<times> world) go" where
  "run_vm f p w = gbind (load p w) (\<lambda>n.
     gbind (f (n, trace w)) (\<lambda>(r, n, h). Ret (r, (store p n w)\<lparr>trace := h\<rparr>)))"

definition node_statusVM :: "env \<Rightarrow> addr \<Rightarrow> world \<Rightarrow> ((node_state \<times> error option) \<times> world) go" where
  "node_statusVM E p w = run_vm (\<lambda>s. Ret (statusVM E (fst s) (snd s))) p w"

text \<open>
  Ranging over a map. Each range takes the next of the orders that the environment gives, an arbitrary
  sequence of permutations; what is proved for every environment holds for every order of every range.
\<close>

definition iterate :: "env \<Rightarrow> 'a list \<Rightarrow> world \<Rightarrow> 'a list \<times> world" where
  "iterate E xs w = (reorder (order E (iters w)) xs, w\<lparr>iters := Suc (iters w)\<rparr>)"

definition Values :: "env \<Rightarrow> (string, addr) gomap \<Rightarrow> world \<Rightarrow> addr list \<times> world" where
  "Values E m w = iterate E (gvals m) w"

section \<open>Reading the group\<close>

fun label_parts :: "string list \<Rightarrow> string \<times> string" where
  "label_parts [] = ([], [])"
| "label_parts [k] = (k, [])"
| "label_parts (k # v # rest) = (k, v)"

definition CreateLabelOrAnnotation :: "string list \<Rightarrow> labels" where
  "CreateLabelOrAnnotation values = fold (\<lambda>v result.
     if 0 < length v
     then let (key, label) = label_parts (Split (CHR ''='') v) in gset key label result
     else result) values gmake"

definition Machine :: "group \<Rightarrow> machine option" where
  "Machine g = gget (group_machines g) (InstanceType g)"

definition targetSize :: "group \<Rightarrow> int" where
  "targetSize g = glen (pendingNodes g) + glen (Nodes g)"

definition AllNodes :: "env \<Rightarrow> group \<Rightarrow> world \<Rightarrow> addr list \<times> world" where
  "AllNodes E g w =
     (let (ns, w) = Values E (Nodes g) w; (ps, w) = Values E (pendingNodes g) w in (ns @ ps, w))"

definition findNamedNode :: "group \<Rightarrow> string \<Rightarrow> addr option" where
  "findNamedNode g name =
     (case gget (Nodes g) name of Some p \<Rightarrow> Some p | None \<Rightarrow> gget (pendingNodes g) name)"

definition removeNamedNode :: "string \<Rightarrow> group \<Rightarrow> group" where
  "removeNamedNode name g =
     g\<lparr>Nodes := gdel name (Nodes g), pendingNodes := gdel name (pendingNodes g)\<rparr>"

definition set_running :: "int \<Rightarrow> run_state \<Rightarrow> group \<Rightarrow> group go" where
  "set_running i r g = gbind (gput i r (RunningNodes g)) (\<lambda>m. Ret (g\<lparr>RunningNodes := m\<rparr>))"

definition add_pending :: "string \<Rightarrow> addr \<Rightarrow> group \<Rightarrow> group go" where
  "add_pending name p g = gbind (gput name p (pendingNodes g)) (\<lambda>m. Ret (g\<lparr>pendingNodes := m\<rparr>))"

definition nodeAllowDeployment :: "knode \<Rightarrow> bool" where
  "nodeAllowDeployment k =
     (if \<exists>t \<in> set (k_Taints k).
           (taint_Key t = NodeLabelMasterRole \<or> taint_Key t = NodeLabelControlPlaneRole)
           \<and> taint_Effect t = ''NoSchedule''
      then True else True)"

definition getProvisionnedNodePrefix :: "group \<Rightarrow> string" where
  "getProvisionnedNodePrefix g =
     (if length (ProvisionnedNodeNamePrefix g) = 0 then ''autoscaled'' else ProvisionnedNodeNamePrefix g)"

definition getControlPlanePrefix :: "group \<Rightarrow> string" where
  "getControlPlanePrefix g =
     (if length (ControlPlaneNamePrefix g) = 0 then ''master'' else ControlPlaneNamePrefix g)"

definition getManagedNodePrefix :: "group \<Rightarrow> string" where
  "getManagedNodePrefix g =
     (if length (ManagedNodeNamePrefix g) = 0 then ''worker'' else ManagedNodeNamePrefix g)"

definition findNodeByCRDUID :: "env \<Rightarrow> group \<Rightarrow> string \<Rightarrow> world \<Rightarrow> ((error + addr) \<times> world) go" where
  "findNodeByCRDUID E g uid w =
     (let (ps, w) = AllNodes E g w
      in gbind (gfold (\<lambda>p found. if found \<noteq> None then Ret found
                  else gbind (load p w) (\<lambda>n. Ret (if CRDUID n = uid then Some p else None))) ps None)
           (\<lambda>found. Ret (case found of
              Some p \<Rightarrow> Inr p | None \<Rightarrow> Inl (Errorf ErrManagedNodeNotFound [uid]), w)))"

definition group_GetOptions ::
  "env \<Rightarrow> autoscaling_options option \<Rightarrow> group \<Rightarrow> (autoscaling_options option \<times> error option) \<times> group" where
  "group_GetOptions E defaults g =
     (let ((options, err), c) = GetAutoScalingOptions (ans_duration E) (configuration g);
          g = g\<lparr>configuration := c\<rparr>
      in if options \<noteq> None then ((options, err), g) else ((defaults, None), g))"

definition havingDeletingNodes :: "group \<Rightarrow> world \<Rightarrow> bool" where
  "havingDeletingNodes g w =
     list_ex (\<lambda>p. case heap w p of None \<Rightarrow> False | Some n \<Rightarrow> State n = Deleting) (gvals (Nodes g))"

section \<open>Names and indexes\<close>

text \<open>The first index below the maximum size that no running node uses, else a new one.\<close>

definition free_index :: "group \<Rightarrow> int \<Rightarrow> bool" where
  "free_index g i =
     (case gget (RunningNodes g) i of
        None \<Rightarrow> True | Some run \<Rightarrow> run_code run < run_code ServerNodeStateCreating)"

definition findNextNodeIndex :: "group \<Rightarrow> int \<times> group" where
  "findNextNodeIndex g =
     (case find (free_index g) (map int [0..<nat (MaxNodeSize g)]) of
        Some i \<Rightarrow> (i, g)
      | None \<Rightarrow> let g = g\<lparr>LastCreatedNodeIndex := LastCreatedNodeIndex g + 1\<rparr>
                in (LastCreatedNodeIndex g, g))"

definition node_name :: "group \<Rightarrow> bool \<Rightarrow> bool \<Rightarrow> int \<Rightarrow> string" where
  "node_name g controlplane managed index =
     Sprintf ''%s-%s-%02d'' [NodeGroupIdentifier g,
       (if controlplane then getControlPlanePrefix g
        else if managed then getManagedNodePrefix g else getProvisionnedNodePrefix g), pad2 index]"

definition fallback_index :: "group \<Rightarrow> bool \<Rightarrow> bool \<Rightarrow> int \<Rightarrow> int" where
  "fallback_index g controlplane managed vmIndex =
     (if controlplane
      then vmIndex - numOfExternalNodes g - numOfProvisionnedNodes g - numOfManagedNodes g
             + numOfControlPlanes g + 1
      else if managed then vmIndex - numOfExternalNodes g - numOfProvisionnedNodes g + 1
      else vmIndex - numOfExternalNodes g - numOfManagedNodes g + 1)"

text \<open>
  The first name that neither the group nor the cloud knows. Each name the cloud knows and the
  group does not marks the machine's index as running and moves to the next index.
\<close>

primrec nodeName_loop ::
  "env \<Rightarrow> bool \<Rightarrow> bool \<Rightarrow> int list \<Rightarrow> int \<Rightarrow> group \<Rightarrow> world \<Rightarrow> (string \<times> int) group_result" where
  "nodeName_loop E controlplane managed [] vmIndex g w =
     Ret ((node_name g controlplane managed (fallback_index g controlplane managed vmIndex), vmIndex), g, w)"
| "nodeName_loop E controlplane managed (index # rest) vmIndex g w =
     (let name = node_name g controlplane managed index
      in if findNamedNode g name = None
         then let (exists, w) = wask (ans_bool E) (Provider (InstanceExists name)) w
              in if \<not> exists then Ret ((name, vmIndex), g, w)
                 else gbind (set_running vmIndex ServerNodeStateRunning g)
                        (\<lambda>g. nodeName_loop E controlplane managed rest (vmIndex + 1) g w)
         else nodeName_loop E controlplane managed rest vmIndex g w)"

definition nodeName ::
  "env \<Rightarrow> int \<Rightarrow> bool \<Rightarrow> bool \<Rightarrow> group \<Rightarrow> world \<Rightarrow> (string \<times> int) group_result" where
  "nodeName E vmIndex controlplane managed g w =
     nodeName_loop E controlplane managed [(if controlplane then 2 else 1)..MaxNodeSize g] vmIndex g w"

section \<open>Preparing nodes\<close>

definition annoteMaster :: "config \<Rightarrow> string" where
  "annoteMaster c =
     (case cfg_Distribution c of
        None \<Rightarrow> [] | Some d \<Rightarrow> if d \<noteq> KubeAdmDistributionName then ''true'' else [])"

definition new_autoscaled_node :: "group \<Rightarrow> machine \<Rightarrow> string \<Rightarrow> int \<Rightarrow> string \<Rightarrow> handler \<Rightarrow> node" where
  "new_autoscaled_node g m name index address p =
     \<lparr>NodeGroup = NodeGroupIdentifier g, NodeName = name, NodeIndex = index, InstanceName = name,
      VMUUID = [], CRDUID = [], Memory = Memory_mb m, CPU = Vcpu m, DiskSize = GetDiskSize m,
      IPAddress = address, State = NotCreated, NodeType = NodeAutoscaled, ControlPlaneNode = False,
      AllowDeployment = True,
      ExtraLabels = Some [(NodeLabelWorkerRole, annoteMaster (configuration g)), (''worker'', ''true'')],
      ExtraAnnotations = gmake, CloudInit = None, MaxPods = 0, providerHandler = p,
      kubernetesProvider = None, serverConfig = configuration g\<rparr>"

text \<open>One turn of the loop of \<^verbatim>\<open>prepareNodes\<close>: the prepared node, or the error that ends the loop.\<close>

definition prepare_one :: "env \<Rightarrow> group \<Rightarrow> world \<Rightarrow> (error + addr) group_result" where
  "prepare_one E g w =
     (let (next_index, g) = findNextNodeIndex g
      in gbind (nodeName E next_index False False g w) (\<lambda>((name, index), g, w).
         let (r, w) = wask (ans_handler E) (Provider (CreateInstance name (InstanceType g) False index)) w
         in case r of
              Inl err \<Rightarrow> Ret (Inl err, g, w)
            | Inr p \<Rightarrow>
                gbind (set_running index ServerNodeStateCreating g) (\<lambda>g.
                case Machine g of
                  None \<Rightarrow> Panic NilDeref
                | Some m \<Rightarrow>
                    let ((address, u), w) = wask (ans_str E) (On p InstancePrimaryAddressIP) w;
                        node = new_autoscaled_node g m name index address p;
                        (a, w) = alloc node w
                    in gbind (add_pending name a g) (\<lambda>g. Ret (Inr a, g, w)))))"

text \<open>
  The loop ends when \<open>delta\<close> has been counted down to 0, so with \<open>delta = 0\<close> it would only end by an
  error; its callers pass a positive \<open>delta\<close>. An error forgets every pending node.
\<close>

primrec prepare_loop ::
  "env \<Rightarrow> nat \<Rightarrow> addr list \<Rightarrow> group \<Rightarrow> world \<Rightarrow> (addr list \<times> error option) group_result" where
  "prepare_loop E 0 tempNodes g w = Ret ((tempNodes, None), g, w)"
| "prepare_loop E (Suc delta) tempNodes g w =
     gbind (prepare_one E g w) (\<lambda>(r, g, w).
       case r of
         Inl err \<Rightarrow> Ret (([], Some err), g\<lparr>pendingNodes := gmake\<rparr>, w)
       | Inr a \<Rightarrow> prepare_loop E delta (tempNodes @ [a]) g w)"

definition prepareNodes :: "env \<Rightarrow> int \<Rightarrow> group \<Rightarrow> world \<Rightarrow> (addr list \<times> error option) group_result" where
  "prepareNodes E delta g w =
     (if delta < 0 then Panic MakeSliceCap
      else if Status g \<noteq> NodegroupCreated
      then Ret (([], Some (Errorf ErrNodeGroupNotFound [NodeGroupIdentifier g])), g, w)
      else if delta = 0 then Diverge
      else prepare_loop E (nat delta) [] g w)"

text \<open>The labels of a managed node: those of the resource, then those of its role.\<close>

definition managed_labels :: "managed_node \<Rightarrow> string \<Rightarrow> labels" where
  "managed_labels crd annote =
     (let l = CreateLabelOrAnnotation (mn_Labels crd)
      in if mn_ControlPlane crd
         then gset ''master'' ''true'' (gset NodeLabelControlPlaneRole annote (gset NodeLabelMasterRole annote l))
         else gset ''worker'' ''true'' (gset NodeLabelWorkerRole annote l))"

definition managed_disk_size :: "config \<Rightarrow> machine \<Rightarrow> int \<Rightarrow> int" where
  "managed_disk_size c m asked =
     (let resLimit = cfg_ManagedNodeResourceLimiter c;
          diskSize = (if asked = 0 then GetDiskSize m else asked)
      in MaxInt (MinInt diskSize (GetMaxValue resLimit ResourceNameManagedNodeDisk ManagedNodeMaxDiskSizeDefault))
           (GetMinValue resLimit ResourceNameManagedNodeDisk ManagedNodeMinDiskSizeDefault))"

definition addManagedNode :: "env \<Rightarrow> managed_node \<Rightarrow> group \<Rightarrow> world \<Rightarrow> (error + addr) group_result" where
  "addManagedNode E crd g w =
     (let controlPlane = mn_ControlPlane crd; (next_index, g) = findNextNodeIndex g
      in gbind (nodeName E next_index controlPlane True g w) (\<lambda>((name, index), g, w).
         let instanceType = (if length (mn_InstanceType crd) = 0 then InstanceType g else mn_InstanceType crd)
         in case gget (group_machines g) instanceType of
              None \<Rightarrow> Ret (Inl (Errorf ErrMachineTypeNotFound [instanceType]), g, w)
            | Some m \<Rightarrow>
                let (r, w) = wask (ans_handler E)
                               (Provider (CreateInstance name instanceType controlPlane index)) w
                in case r of
                     Inl err \<Rightarrow> Ret (Inl err, g, w)
                   | Inr p \<Rightarrow>
                       gbind (set_running index ServerNodeStateCreating g) (\<lambda>g.
                         let diskSize = managed_disk_size (configuration g) m (mn_DiskSizeInMB crd);
                             (e, w) = wask (ans_err E) (On p (ConfigureNetwork (mn_Networking crd))) w;
                             ((address, u), w) = wask (ans_str E) (On p InstancePrimaryAddressIP) w;
                             node = \<lparr>NodeGroup = NodeGroupIdentifier g, NodeName = name, NodeIndex = index,
                                InstanceName = name, VMUUID = [], CRDUID = mn_UID crd, Memory = Memory_mb m,
                                CPU = Vcpu m, DiskSize = diskSize, IPAddress = address, State = NotCreated,
                                NodeType = NodeManaged, ControlPlaneNode = controlPlane,
                                AllowDeployment = mn_AllowDeployment crd,
                                ExtraLabels = managed_labels crd (annoteMaster (configuration g)),
                                ExtraAnnotations = CreateLabelOrAnnotation (mn_Annotations crd),
                                CloudInit = None, MaxPods = 0, providerHandler = p,
                                kubernetesProvider = None, serverConfig = configuration g\<rparr>;
                             (a, w) = alloc node w
                         in gbind (add_pending name a g) (\<lambda>g. Ret (Inr a, g, w)))))"

section \<open>Creating nodes\<close>

text \<open>\<^verbatim>\<open>sync.WaitGroup\<close>: \<^verbatim>\<open>Done\<close> panics below zero, \<^verbatim>\<open>Wait\<close> blocks above zero.\<close>

definition wg_Add :: "int \<Rightarrow> group \<Rightarrow> group" where
  "wg_Add n g = g\<lparr>pendingNodesWG := pendingNodesWG g + n\<rparr>"

definition wg_Done :: "group \<Rightarrow> group go" where
  "wg_Done g = (if pendingNodesWG g \<le> 0 then Panic NegativeWaitGroup
                else Ret (g\<lparr>pendingNodesWG := pendingNodesWG g - 1\<rparr>))"

definition wg_Wait :: "group \<Rightarrow> unit go" where
  "wg_Wait g = (if 0 < pendingNodesWG g then Diverge else Ret ())"

text \<open>The counters and tables of a group after a machine was launched.\<close>

definition count_created :: "node \<Rightarrow> group \<Rightarrow> group" where
  "count_created n g =
     (if NodeType n = NodeAutoscaled then g\<lparr>numOfProvisionnedNodes := numOfProvisionnedNodes g + 1\<rparr>
      else if NodeType n = NodeManaged
      then let g = g\<lparr>numOfManagedNodes := numOfManagedNodes g + 1\<rparr>
           in if ControlPlaneNode n then g\<lparr>numOfControlPlanes := numOfControlPlanes g + 1\<rparr> else g
      else g)"

text \<open>The state of \<^verbatim>\<open>createNodes\<close>: the nodes created so far and the number of successes.\<close>

type_synonym creation = "(addr list \<times> nat) \<times> group \<times> world"

definition createNode :: "env \<Rightarrow> addr \<Rightarrow> creation \<Rightarrow> creation go" where
  "createNode E p s =
     (let ((created, successful), g, w) = s
      in gbind (load p w) (\<lambda>n.
         if Status g \<noteq> NodegroupCreated
         then gbind (set_running (NodeIndex n) ServerNodeStateNotRunning g) (\<lambda>g.
              gbind (wg_Done g) (\<lambda>g. Ret ((created, successful), g, w)))
         else gbind (run_vm (launchVM E (NodeLabels g) (SystemLabels g)) p w) (\<lambda>(err, w).
              case err of
                Some e \<Rightarrow>
                  gbind (run_vm (\<lambda>s. gbind (cleanOnLaunchError E e s) (\<lambda>s. Ret ((), s))) p w) (\<lambda>(u, w).
                  gbind (set_running (NodeIndex n) ServerNodeStateDeleted g) (\<lambda>g.
                  gbind (wg_Done (g\<lparr>pendingNodes := gdel (InstanceName n) (pendingNodes g)\<rparr>)) (\<lambda>g.
                  Ret ((created, successful), g, w))))
              | None \<Rightarrow>
                  gbind (gput (InstanceName n) p (Nodes g)) (\<lambda>m.
                  gbind (set_running (NodeIndex n) ServerNodeStateRunning (g\<lparr>Nodes := m\<rparr>)) (\<lambda>g.
                  gbind (wg_Done ((count_created n g)\<lparr>pendingNodes := gdel (InstanceName n) (pendingNodes g)\<rparr>)) (\<lambda>g.
                  Ret ((created @ [p], Suc successful), g, w)))))))"

text \<open>A cycle launches several nodes together, in any order, or one node alone.\<close>

primrec create_cycles :: "env \<Rightarrow> addr list \<Rightarrow> nat \<Rightarrow> nat \<Rightarrow> nat \<Rightarrow> creation \<Rightarrow> creation go" where
  "create_cycles E nodes per_cycle 0 current s = Ret s"
| "create_cycles E nodes per_cycle (Suc cycles) current s =
     (let numberOfNodeInCycle = min per_cycle (length nodes - current);
          batch = take numberOfNodeInCycle (drop current nodes)
      in if 1 < numberOfNodeInCycle
         then let (r, g, w) = s; (batch, w) = iterate E batch w
              in gbind (gfold (createNode E) batch (r, g, w))
                   (create_cycles E nodes per_cycle cycles (current + numberOfNodeInCycle))
         else if 0 < numberOfNodeInCycle
         then gbind (createNode E (nodes ! current) s)
                (create_cycles E nodes per_cycle cycles (current + 1))
         else Ret s)"

definition createNodes :: "env \<Rightarrow> addr list \<Rightarrow> group \<Rightarrow> world \<Rightarrow> (addr list \<times> error option) group_result" where
  "createNodes E nodes g w =
     (let numberOfNodesToCreate = length nodes;
          s = (([], 0), wg_Add (int numberOfNodesToCreate) g, w)
      in gbind
           (if numberOfNodesToCreate = 1 then createNode E (nodes ! 0) s
            else let maxCreatedNodePerCycle =
                       (if cfg_MaxCreatedNodePerCycle (configuration g) \<le> 0 then numberOfNodesToCreate
                        else nat (cfg_MaxCreatedNodePerCycle (configuration g)))
                 in if maxCreatedNodePerCycle = 0 then Panic DivideByZero
                    else let totalLoop = numberOfNodesToCreate div maxCreatedNodePerCycle;
                             totalLoop = (if 0 < numberOfNodesToCreate mod maxCreatedNodePerCycle
                                          then totalLoop + 1 else totalLoop)
                         in create_cycles E nodes maxCreatedNodePerCycle totalLoop 0 s)
         (\<lambda>((created, successful), g, w).
            gbind (wg_Wait g) (\<lambda>u.
            Ret ((created,
                  if Status g \<noteq> NodegroupCreated
                  then Some (Errorf ErrUnableToLaunchNodeGroupNotCreated [NodeGroupIdentifier g])
                  else if successful = 0
                  then Some (Errorf ErrUnableToLaunchNodeGroup [NodeGroupIdentifier g])
                  else None), g, w))))"

definition addNodes :: "env \<Rightarrow> int \<Rightarrow> group \<Rightarrow> world \<Rightarrow> (addr list \<times> error option) group_result" where
  "addNodes E delta g w =
     gbind (prepareNodes E delta g w) (\<lambda>((tempNodes, err), g, w).
       if err = None then createNodes E tempNodes g w else Ret ((tempNodes, err), g, w))"

section \<open>Deleting nodes\<close>

text \<open>Counting down from the last pending node; the loop stops before index 0.\<close>

primrec prepare_delete_loop :: "addr list \<Rightarrow> int \<Rightarrow> addr list \<Rightarrow> world \<Rightarrow> addr list go" where
  "prepare_delete_loop [] delta tempNodes w = Ret tempNodes"
| "prepare_delete_loop (p # ps) delta tempNodes w =
     gbind (load p w) (\<lambda>n.
       let owned = (NodeType n = NodeAutoscaled);
           delta = (if owned then delta + 1 else delta);
           tempNodes = (if owned then tempNodes @ [p] else tempNodes)
       in if delta = 0 then Ret tempNodes else prepare_delete_loop ps delta tempNodes w)"

definition prepareDeleteNodes :: "env \<Rightarrow> int \<Rightarrow> group \<Rightarrow> world \<Rightarrow> (addr list \<times> world) go" where
  "prepareDeleteNodes E delta g w =
     (let (pending, w) = Values E (pendingNodes g) w
      in if - delta < 0 then Panic MakeSliceCap
         else gbind (prepare_delete_loop (rev (drop 1 pending)) delta [] w) (\<lambda>ps. Ret (ps, w)))"

definition destroyNode :: "env \<Rightarrow> addr \<Rightarrow> group \<Rightarrow> world \<Rightarrow> (error option) group_result" where
  "destroyNode E p g w =
     gbind (load p w) (\<lambda>n.
     gbind (set_running (NodeIndex n) ServerNodeStateDeleting g) (\<lambda>g.
     gbind (run_vm (deleteVM E) p w) (\<lambda>(e, w).
     gbind (set_running (NodeIndex n) ServerNodeStateDeleted g) (\<lambda>g.
     Ret (e, removeNamedNode (InstanceName n) g, w)))))"

text \<open>The error of the last node is the one returned.\<close>

definition destroyNodes :: "env \<Rightarrow> addr list \<Rightarrow> group \<Rightarrow> world \<Rightarrow> (addr list \<times> error option) group_result" where
  "destroyNodes E nodes g w =
     gfold (\<lambda>p ((deletedNodes, err), g, w).
       gbind (destroyNode E p g w) (\<lambda>(err, g, w).
         Ret ((if err = None then deletedNodes @ [p] else deletedNodes, err), g, w)))
       nodes (([], None), g, w)"

definition deleteNodes :: "env \<Rightarrow> int \<Rightarrow> group \<Rightarrow> world \<Rightarrow> (addr list \<times> error option) group_result" where
  "deleteNodes E delta g w =
     gbind (prepareDeleteNodes E (- delta) g w) (\<lambda>(ps, w). destroyNodes E ps g w)"

definition setNodeGroupSize ::
  "env \<Rightarrow> int \<Rightarrow> bool \<Rightarrow> group \<Rightarrow> world \<Rightarrow> (addr list \<times> error option) group_result" where
  "setNodeGroupSize E newSize prepareOnly g w =
     (let delta = newSize - targetSize g
      in if delta < 0
         then if prepareOnly
              then gbind (prepareDeleteNodes E delta g w) (\<lambda>(ps, w). Ret ((ps, None), g, w))
              else deleteNodes E delta g w
         else if 0 < delta
         then if prepareOnly then prepareNodes E delta g w else addNodes E delta g w
         else Ret (([], None), g, w))"

definition deleteNode :: "env \<Rightarrow> addr \<Rightarrow> group \<Rightarrow> world \<Rightarrow> (error option) group_result" where
  "deleteNode E p g w =
     gbind (load p w) (\<lambda>n.
     if ControlPlaneNode n then Ret (Some (Errorf ErrUnableToDeleteControlPlaneNode [NodeName n]), g, w)
     else gbind (set_running (NodeIndex n) ServerNodeStateDeleting g) (\<lambda>g.
          gbind (run_vm (deleteVM E) p w) (\<lambda>(err, w).
          gbind (set_running (NodeIndex n) ServerNodeStateDeleted g) (\<lambda>g.
          let g = removeNamedNode (InstanceName n) g
          in Ret (err, (if NodeType n = NodeAutoscaled
                        then g\<lparr>numOfProvisionnedNodes := numOfProvisionnedNodes g - 1\<rparr>
                        else g\<lparr>numOfManagedNodes := numOfManagedNodes g - 1\<rparr>), w)))))"

definition deleteNodeByName :: "env \<Rightarrow> string \<Rightarrow> group \<Rightarrow> world \<Rightarrow> (error option) group_result" where
  "deleteNodeByName E name g w =
     (case findNamedNode g name of
        Some p \<Rightarrow> deleteNode E p g w
      | None \<Rightarrow> Ret (Some (Errorf ErrNodeNotFoundInNodeGroup [name, NodeGroupIdentifier g]), g, w))"

text \<open>One turn of the loop of \<^verbatim>\<open>cleanup\<close>; a machine that is not found is not an error.\<close>

definition cleanup_one :: "env \<Rightarrow> addr \<Rightarrow> error option \<times> world \<Rightarrow> (error option \<times> world) go" where
  "cleanup_one E p s =
     (let (lastError, w) = s
      in gbind (load p w) (\<lambda>n.
         if NodeType n = NodeAutoscaled
         then gbind (run_vm (deleteVM E) p w) (\<lambda>(err, w).
              Ret (case err of
                     None \<Rightarrow> (None, w)
                   | Some e \<Rightarrow> if err_text e = Sprintf ErrVMNotFound [InstanceName n] then (None, w)
                               else (Some e, w)))
         else Ret (lastError, w)))"

definition cleanup :: "env \<Rightarrow> group \<Rightarrow> world \<Rightarrow> (error option) group_result" where
  "cleanup E g w =
     (let g = g\<lparr>Status := NodegroupDeleting\<rparr>
      in gbind (wg_Wait g) (\<lambda>u.
         let (ps, w) = AllNodes E g w
         in gbind (gfold (cleanup_one E) ps (None, w)) (\<lambda>(lastError, w).
            Ret (lastError,
                 g\<lparr>RunningNodes := gmake, Nodes := gmake, pendingNodes := gmake,
                   numOfControlPlanes := 0, numOfExternalNodes := 0, numOfManagedNodes := 0,
                   numOfProvisionnedNodes := 0, Status := NodegroupDeleted\<rparr>, w))))"

definition group_deleteNodeGroup :: "env \<Rightarrow> group \<Rightarrow> world \<Rightarrow> (error option) group_result" where
  "group_deleteNodeGroup E g w = cleanup E g w"

section \<open>Refreshing and discovering\<close>

definition refresh :: "env \<Rightarrow> group \<Rightarrow> world \<Rightarrow> world go" where
  "refresh E g w =
     (let (ps, w) = AllNodes E g w
      in gfold (\<lambda>p w. gbind (load p w) (\<lambda>n.
           if Creating < State n then gbind (node_statusVM E p w) (\<lambda>(r, w). Ret w) else Ret w)) ps w)"

definition hasInstance :: "env \<Rightarrow> string \<Rightarrow> group \<Rightarrow> world \<Rightarrow> ((bool \<times> error option) \<times> world) go" where
  "hasInstance E name g w =
     (case findNamedNode g name of
        Some p \<Rightarrow> gbind (node_statusVM E p w) (\<lambda>((status, err), w).
          if err \<noteq> None then Ret ((False, err), w) else Ret ((status = Running, None), w))
      | None \<Rightarrow> Ret ((False, Some (Errorf ErrNodeNotFoundInNodeGroup [name, NodeGroupIdentifier g])), w))"

text \<open>The machines of nodes that were in the group and are no longer in it are deleted.\<close>

definition findManagedNodeDeleted ::
  "env \<Rightarrow> (string, addr) gomap \<Rightarrow> group \<Rightarrow> world \<Rightarrow> world go" where
  "findManagedNodeDeleted E formerNodes g w =
     (let (entries, w) = iterate E (gentries formerNodes) w
      in gfold (\<lambda>(name, p) w.
           if findNamedNode g name = None
           then gbind (node_statusVM E p w) (\<lambda>((status, err), w).
                if err = None then gbind (run_vm (deleteVM E) p w) (\<lambda>(e, w). Ret w) else Ret w)
           else Ret w) entries w)"

definition group_setConfiguration ::
  "env \<Rightarrow> config \<Rightarrow> machines \<Rightarrow> group \<Rightarrow> world \<Rightarrow> (error option) group_result" where
  "group_setConfiguration E config machines g w =
     (let g = g\<lparr>configuration := config, group_machines := machines\<rparr>; (ps, w) = AllNodes E g w
      in gfold (\<lambda>p (err, g, w).
           if err \<noteq> None then Ret (err, g, w)
           else gbind (run_vm (\<lambda>s. Ret (setServerConfiguration E config s)) p w) (\<lambda>(err, w).
                Ret (err, g, w))) ps (None, g, w))"

text \<open>What the discovery reads in a node of the cluster.\<close>

definition annotation_bool :: "knode \<Rightarrow> string \<Rightarrow> bool" where
  "annotation_bool k key =
     (case gget (k_Annotations k) key of None \<Rightarrow> False | Some v \<Rightarrow> fst (ParseBool v))"

definition is_control_plane :: "knode \<Rightarrow> bool" where
  "is_control_plane k \<longleftrightarrow>
     gget (k_Labels k) NodeLabelControlPlaneRole \<noteq> None \<or> gget (k_Labels k) NodeLabelMasterRole \<noteq> None"

definition discovered_type :: "knode \<Rightarrow> node_type" where
  "discovered_type k =
     (if annotation_bool k AnnotationNodeAutoProvisionned then NodeAutoscaled
      else if annotation_bool k AnnotationNodeManaged then NodeManaged else NodeExternal)"

definition running_ip :: "knode \<Rightarrow> string" where
  "running_ip k = (case internal_address k of None \<Rightarrow> [] | Some a \<Rightarrow> a)"

definition discovered_node ::
  "group \<Rightarrow> knode \<Rightarrow> int \<Rightarrow> string \<Rightarrow> string \<Rightarrow> string \<Rightarrow> handler \<Rightarrow> node" where
  "discovered_node g k index name vmUUID crdUID p =
     \<lparr>NodeGroup = NodeGroupIdentifier g, NodeName = k_Name k, NodeIndex = index, InstanceName = name,
      VMUUID = vmUUID, CRDUID = crdUID, Memory = godiv (k_Memory k) mebibyte, CPU = k_Cpu k,
      DiskSize = godiv (k_Storage k) mebibyte, IPAddress = running_ip k, State = Running,
      NodeType = discovered_type k, ControlPlaneNode = is_control_plane k,
      AllowDeployment = nodeAllowDeployment k, ExtraLabels = None, ExtraAnnotations = None,
      CloudInit = None, MaxPods = 0, providerHandler = p, kubernetesProvider = None,
      serverConfig = configuration g\<rparr>"

definition discovery_annotations :: "group \<Rightarrow> knode \<Rightarrow> string \<Rightarrow> string \<Rightarrow> int \<Rightarrow> labels" where
  "discovery_annotations g k name vmUUID index = Some
     [(AnnotationNodeGroupName, NodeGroupIdentifier g),
      (AnnotationInstanceName, name),
      (AnnotationInstanceID, vmUUID),
      (AnnotationScaleDownDisabled, FormatBool (discovered_type k \<noteq> NodeAutoscaled)),
      (AnnotationNodeAutoProvisionned, FormatBool (annotation_bool k AnnotationNodeAutoProvisionned)),
      (AnnotationNodeManaged, FormatBool (annotation_bool k AnnotationNodeManaged)),
      (AnnotationNodeIndex, Itoa index)]"

definition count_discovered :: "knode \<Rightarrow> group \<Rightarrow> group" where
  "count_discovered k g =
     (let autoProvisionned = annotation_bool k AnnotationNodeAutoProvisionned;
          managedNode = annotation_bool k AnnotationNodeManaged
      in if is_control_plane k
         then let g = (if managedNode then g\<lparr>numOfManagedNodes := numOfManagedNodes g + 1\<rparr>
                       else g\<lparr>numOfExternalNodes := numOfExternalNodes g + 1\<rparr>)
              in g\<lparr>numOfControlPlanes := numOfControlPlanes g + 1\<rparr>
         else if autoProvisionned then g\<lparr>numOfProvisionnedNodes := numOfProvisionnedNodes g + 1\<rparr>
         else if managedNode then g\<lparr>numOfManagedNodes := numOfManagedNodes g + 1\<rparr>
         else g\<lparr>numOfExternalNodes := numOfExternalNodes g + 1\<rparr>)"

text \<open>The kind of the custom resource that owns a managed node.\<close>

definition ManagedNodeKind :: string where
  "ManagedNodeKind = ''ManagedNode''"

text \<open>The node a discovered machine is represented by: a new one, or the former one with a new
  handler.\<close>

definition discovered_addr ::
  "env \<Rightarrow> addr option \<Rightarrow> knode \<Rightarrow> string \<Rightarrow> int \<Rightarrow> string \<Rightarrow> string \<Rightarrow> handler \<Rightarrow> group \<Rightarrow> world \<Rightarrow> (addr \<times> world) go" where
  "discovered_addr E former k name i vmUUID crdUID p g w =
     (case former of
        None \<Rightarrow>
          let (a, w) = alloc (discovered_node g k i name vmUUID crdUID p) w;
              (e1, w) = wask (ans_err E) (Client (AnnoteNode (k_Name k)
                 (discovery_annotations g k name vmUUID i))) w;
              (e2, w) = wask (ans_err E) (Client (LabelNode (k_Name k)
                 (Some [(AnnotationNodeGroupName, NodeGroupIdentifier g)]))) w
          in Ret (a, w)
      | Some a \<Rightarrow> gbind (load a w) (\<lambda>n. Ret (a, store a (n\<lparr>providerHandler := p\<rparr>) w)))"

text \<open>The machine is attached and its node entered in the tables of the group.\<close>

definition discover_attach ::
  "env \<Rightarrow> addr option \<Rightarrow> knode \<Rightarrow> string \<Rightarrow> int \<Rightarrow> string \<Rightarrow> string \<Rightarrow> group \<Rightarrow> world \<Rightarrow> int group_result" where
  "discover_attach E former k name lastNodeIndex vmUUID crdUID g w =
     (let (r, w) = wask (ans_handler E) (Provider (AttachInstance name (is_control_plane k) lastNodeIndex)) w
      in case r of
           Inl err \<Rightarrow> Ret (lastNodeIndex, g, w)
         | Inr p \<Rightarrow>
             gbind (discovered_addr E former k name lastNodeIndex vmUUID crdUID p g w) (\<lambda>(a, w).
             gbind (run_vm (\<lambda>s. Ret (retrieveNetworkInfos E s)) a w) (\<lambda>(e, w).
             gbind (gput (k_Name k) a (Nodes g)) (\<lambda>m.
             gbind (set_running lastNodeIndex ServerNodeStateRunning (g\<lparr>Nodes := m\<rparr>)) (\<lambda>g.
             gbind (node_statusVM E a w) (\<lambda>(r, w).
             Ret (lastNodeIndex + 1, count_discovered k g, w)))))))"

text \<open>The identifier of the instance is read in the annotations, else asked to the former node; the
  index too, else it follows the last one. The loop carries the index that the next node without an
  index annotation gets.\<close>

definition discovered_index :: "knode \<Rightarrow> int \<Rightarrow> int" where
  "discovered_index k lastNodeIndex =
     (case gget (k_Annotations k) AnnotationNodeIndex of None \<Rightarrow> lastNodeIndex | Some v \<Rightarrow> fst (Atoi v))"

definition discovered_owner :: "knode \<Rightarrow> string" where
  "discovered_owner k =
     (case GetControllerOf (k_Owners k) of
        None \<Rightarrow> [] | Some ref \<Rightarrow> if o_Kind ref = ManagedNodeKind then o_UID ref else [])"

definition discover_instance ::
  "env \<Rightarrow> (string, addr) gomap \<Rightarrow> knode \<Rightarrow> string \<Rightarrow> int \<Rightarrow> group \<Rightarrow> world \<Rightarrow> int group_result" where
  "discover_instance E formerNodes k name lastNodeIndex g w =
     (let former = gget formerNodes name
      in gbind (case gget (k_Annotations k) AnnotationInstanceID of
                  Some v \<Rightarrow> Ret (v, w)
                | None \<Rightarrow> (case former of
                      None \<Rightarrow> Panic NilDeref
                    | Some p \<Rightarrow> run_vm (\<lambda>s. Ret (findInstanceUUID E s)) p w)) (\<lambda>(vmUUID, w).
         let lastNodeIndex = discovered_index k lastNodeIndex;
             g = g\<lparr>LastCreatedNodeIndex := MaxInt (LastCreatedNodeIndex g) lastNodeIndex\<rparr>
         in discover_attach E former k name lastNodeIndex vmUUID (discovered_owner k) g w))"

definition discover_one ::
  "env \<Rightarrow> (string, addr) gomap \<Rightarrow> bool \<Rightarrow> knode \<Rightarrow> int \<times> group \<times> world \<Rightarrow> int group_result" where
  "discover_one E formerNodes includeExistingNode k s =
     (let (lastNodeIndex, g, w) = s
      in case gget (k_Annotations k) AnnotationNodeGroupName of
           None \<Rightarrow> Ret (lastNodeIndex, g, w)
         | Some nodegroupName \<Rightarrow>
             if nodegroupName = NodeGroupIdentifier g
                \<and> (annotation_bool k AnnotationNodeAutoProvisionned \<or> includeExistingNode)
             then (case gget (k_Annotations k) AnnotationInstanceName of
                     None \<Rightarrow> Ret (lastNodeIndex, g, w)
                   | Some name \<Rightarrow> discover_instance E formerNodes k name lastNodeIndex g w)
             else Ret (lastNodeIndex, g, w))"

definition autoDiscoveryNodes ::
  "env \<Rightarrow> bool \<Rightarrow> group \<Rightarrow> world \<Rightarrow> (error + (string, addr) gomap) group_result" where
  "autoDiscoveryNodes E includeExistingNode g w =
     (let (r, w) = wask (ans_nodes E) (Client NodeList) w
      in case r of
           Inl err \<Rightarrow> Ret (Inl err, g, w)
         | Inr ks \<Rightarrow>
             let formerNodes = Nodes g;
                 g = g\<lparr>Nodes := gmake, pendingNodes := gmake, RunningNodes := gmake,
                       LastCreatedNodeIndex := 0, numOfExternalNodes := 0, numOfManagedNodes := 0,
                       numOfProvisionnedNodes := 0, numOfControlPlanes := 0\<rparr>
             in gbind (gfold (discover_one E formerNodes includeExistingNode) ks (0, g, w))
                  (\<lambda>(i, g, w). Ret (Inr formerNodes, g, w)))"

end
