(* ===== verification/NodeGroup_Invariant.thy ===== *)
theory NodeGroup_Invariant
  imports NodeGroup
begin

text \<open>
  The well-formedness invariant of a node group and of the heap of its nodes, and its preservation
  by every operation of \<^verbatim>\<open>server/nodegroup.go\<close>. The contract \<open>group_operation\<close> states it once; it is
  interpreted on each operation.
\<close>

section \<open>The invariant\<close>

text \<open>What never changes in a node: its names, its index and its role.\<close>

definition same_names :: "node \<Rightarrow> node \<Rightarrow> bool" where
  "same_names n n' \<longleftrightarrow>
     NodeGroup n' = NodeGroup n \<and> NodeName n' = NodeName n \<and> NodeIndex n' = NodeIndex n \<and>
     InstanceName n' = InstanceName n \<and> CRDUID n' = CRDUID n \<and> NodeType n' = NodeType n \<and>
     ControlPlaneNode n' = ControlPlaneNode n"

definition evolves :: "world \<Rightarrow> world \<Rightarrow> bool" where
  "evolves w w' \<longleftrightarrow>
     extends (trace w) (trace w') \<and> fresh w \<le> fresh w' \<and>
     (\<forall>p n. heap w p = Some n \<longrightarrow> (\<exists>n'. heap w' p = Some n' \<and> same_names n n'))"

definition heap_wf :: "world \<Rightarrow> bool" where
  "heap_wf w \<longleftrightarrow> (\<forall>p. heap w p \<noteq> None \<longleftrightarrow> p < fresh w)"

definition group_inv :: "group \<Rightarrow> world \<Rightarrow> bool" where
  "group_inv g w \<longleftrightarrow>
     heap_wf w \<and> gwf (Nodes g) \<and> gwf (pendingNodes g) \<and> gwf (RunningNodes g) \<and>
     (\<forall>name p. gget (Nodes g) name = Some p \<longrightarrow> p < fresh w) \<and>
     (\<forall>name p. gget (pendingNodes g) name = Some p \<longrightarrow>
        (\<exists>n. heap w p = Some n \<and> InstanceName n = name)) \<and>
     0 \<le> pendingNodesWG g"

text \<open>The maps of the group may be written.\<close>

definition initialised :: "group \<Rightarrow> bool" where
  "initialised g \<longleftrightarrow> Nodes g \<noteq> None \<and> pendingNodes g \<noteq> None \<and> RunningNodes g \<noteq> None"

definition same_settings :: "group \<Rightarrow> group \<Rightarrow> bool" where
  "same_settings g g' \<longleftrightarrow>
     NodeGroupIdentifier g' = NodeGroupIdentifier g \<and> InstanceType g' = InstanceType g \<and>
     ProvisionnedNodeNamePrefix g' = ProvisionnedNodeNamePrefix g \<and>
     ManagedNodeNamePrefix g' = ManagedNodeNamePrefix g \<and>
     ControlPlaneNamePrefix g' = ControlPlaneNamePrefix g \<and>
     MinNodeSize g' = MinNodeSize g \<and> MaxNodeSize g' = MaxNodeSize g \<and>
     NodeLabels g' = NodeLabels g \<and> SystemLabels g' = SystemLabels g \<and>
     configuration g' = configuration g \<and> group_machines g' = group_machines g"

definition gframe :: "group \<times> world \<Rightarrow> group \<times> world \<Rightarrow> bool" where
  "gframe s s' \<longleftrightarrow>
     group_inv (fst s') (snd s') \<and> evolves (snd s) (snd s') \<and> same_settings (fst s) (fst s') \<and>
     (initialised (fst s) \<longrightarrow> initialised (fst s'))"

lemma same_names_refl [simp, intro]: "same_names n n"
  by (simp add: same_names_def)

lemma same_identity_names: "same_identity n n' \<Longrightarrow> same_names n n'"
  by (simp add: same_identity_def same_names_def)

lemma evolves_refl [simp, intro]: "evolves w w"
  by (auto simp: evolves_def)

lemma evolves_trans [trans]: "evolves a b \<Longrightarrow> evolves b c \<Longrightarrow> evolves a c"
  unfolding evolves_def same_names_def by (fastforce intro: extends_trans)

definition wframe :: "world \<Rightarrow> world \<Rightarrow> bool" where
  "wframe w w' \<longleftrightarrow> evolves w w' \<and> (heap_wf w \<longrightarrow> heap_wf w')"

lemma wframe_refl [simp, intro]: "wframe w w"
  by (simp add: wframe_def)

lemma wframe_trans [trans]: "wframe a b \<Longrightarrow> wframe b c \<Longrightarrow> wframe a c"
  by (auto simp: wframe_def intro: evolves_trans)

lemma wframe_evolves: "wframe w w' \<Longrightarrow> evolves w w'"
  by (simp add: wframe_def)

lemma evolves_load: "evolves w w' \<Longrightarrow> heap w p = Some n \<Longrightarrow> \<exists>n'. heap w' p = Some n' \<and> same_names n n'"
  by (simp add: evolves_def)

lemma group_inv_wframe:
  assumes "group_inv g w" "wframe w w'"
  shows "group_inv g w'"
proof -
  from assms(1) have inv: "heap_wf w" "gwf (Nodes g)" "gwf (pendingNodes g)" "gwf (RunningNodes g)"
    "\<And>name p. gget (Nodes g) name = Some p \<Longrightarrow> p < fresh w"
    "\<And>name p. gget (pendingNodes g) name = Some p \<Longrightarrow> \<exists>n. heap w p = Some n \<and> InstanceName n = name"
    "0 \<le> pendingNodesWG g"
    unfolding group_inv_def by blast+
  from assms(2) inv(1) have ev: "evolves w w'" and wf: "heap_wf w'" by (simp_all add: wframe_def)
  have "fresh w \<le> fresh w'" using ev by (simp add: evolves_def)
  then have "gget (Nodes g) name = Some p \<Longrightarrow> p < fresh w'" for name p
    using inv(5) by fastforce
  moreover have "gget (pendingNodes g) name = Some p \<Longrightarrow> \<exists>n. heap w' p = Some n \<and> InstanceName n = name" for name p
    using inv(6) evolves_load [OF ev] by (force simp: same_names_def)
  ultimately show ?thesis using inv wf unfolding group_inv_def by blast
qed

lemma gframe_refl: "group_inv g w \<Longrightarrow> gframe (g, w) (g, w)"
  by (simp add: gframe_def same_settings_def)

lemma gframe_trans [trans]: "gframe a b \<Longrightarrow> gframe b c \<Longrightarrow> gframe a c"
  by (auto simp: gframe_def same_settings_def intro: evolves_trans)

lemma gframe_inv: "gframe s (g, w) \<Longrightarrow> group_inv g w"
  by (simp add: gframe_def)

lemma gframe_world: "gframe s (g, w) \<Longrightarrow> wframe w w' \<Longrightarrow> gframe s (g, w')"
  by (auto simp: gframe_def intro: group_inv_wframe wframe_evolves evolves_trans)

text \<open>Updates of the group that only touch counters and status.\<close>

lemma gframe_counters [simp]:
  "gframe s (g\<lparr>numOfControlPlanes := a\<rparr>, w) = gframe s (g, w)"
  "gframe s (g\<lparr>numOfExternalNodes := a\<rparr>, w) = gframe s (g, w)"
  "gframe s (g\<lparr>numOfProvisionnedNodes := a\<rparr>, w) = gframe s (g, w)"
  "gframe s (g\<lparr>numOfManagedNodes := a\<rparr>, w) = gframe s (g, w)"
  "gframe s (g\<lparr>LastCreatedNodeIndex := a\<rparr>, w) = gframe s (g, w)"
  "gframe s (g\<lparr>Status := st\<rparr>, w) = gframe s (g, w)"
  by (simp_all add: gframe_def group_inv_def same_settings_def initialised_def)

lemma gframe_running:
  "gframe s (g, w) \<Longrightarrow> gwf m \<Longrightarrow> m \<noteq> None \<Longrightarrow> gframe s (g\<lparr>RunningNodes := m\<rparr>, w)"
  by (simp add: gframe_def group_inv_def same_settings_def initialised_def)

lemma gframe_pendingNodes:
  "gframe s (g, w) \<Longrightarrow> gwf m \<Longrightarrow> (initialised g \<Longrightarrow> m \<noteq> None) \<Longrightarrow>
   (\<And>name p. gget m name = Some p \<Longrightarrow> \<exists>n. heap w p = Some n \<and> InstanceName n = name) \<Longrightarrow>
   gframe s (g\<lparr>pendingNodes := m\<rparr>, w)"
  by (auto simp: gframe_def group_inv_def same_settings_def initialised_def)

lemma gframe_Nodes:
  "gframe s (g, w) \<Longrightarrow> gwf m \<Longrightarrow> (initialised g \<Longrightarrow> m \<noteq> None) \<Longrightarrow>
   (\<And>name p. gget m name = Some p \<Longrightarrow> p < fresh w) \<Longrightarrow> gframe s (g\<lparr>Nodes := m\<rparr>, w)"
  by (auto simp: gframe_def group_inv_def same_settings_def initialised_def)

lemma gframe_WG:
  "gframe s (g, w) \<Longrightarrow> 0 \<le> a \<Longrightarrow> gframe s (g\<lparr>pendingNodesWG := a\<rparr>, w)"
  by (simp add: gframe_def group_inv_def same_settings_def initialised_def)

lemma group_inv_pending:
  "group_inv g w \<Longrightarrow> gget (pendingNodes g) name = Some p \<Longrightarrow>
   \<exists>n. heap w p = Some n \<and> InstanceName n = name"
  by (simp add: group_inv_def)

lemma gframe_del_pending:
  "gframe s (g, w) \<Longrightarrow> gframe s (g\<lparr>pendingNodes := gdel name (pendingNodes g)\<rparr>, w)"
  by (rule gframe_pendingNodes)
    (auto simp: initialised_def gframe_def group_inv_def split: if_splits)

lemma gframe_removeNamedNode:
  assumes "gframe s (g, w)"
  shows "gframe s (removeNamedNode name g, w)"
proof -
  have "gframe s (g\<lparr>Nodes := gdel name (Nodes g)\<rparr>, w)"
    using assms by (intro gframe_Nodes) (auto simp: initialised_def gframe_def group_inv_def split: if_splits)
  from gframe_del_pending [OF this, of name] show ?thesis by (simp add: removeNamedNode_def)
qed

section \<open>The elementary steps\<close>

text \<open>\<open>gkeeps s m\<close>: from \<open>s\<close>, what \<open>m\<close> returns satisfies the invariant and only extends the world.\<close>

definition gkeeps :: "group \<times> world \<Rightarrow> ('a \<times> group \<times> world) go \<Rightarrow> bool" where
  "gkeeps s m \<longleftrightarrow> holds (\<lambda>(r, s'). gframe s s') m"

definition wkeeps :: "world \<Rightarrow> ('a \<times> world) go \<Rightarrow> bool" where
  "wkeeps w m \<longleftrightarrow> holds (\<lambda>(r, w'). wframe w w') m"

named_theorems group_keeps "the elementary steps of the group operations"

lemma gkeeps_simps [simp]:
  "gkeeps s (Ret (r, s')) = gframe s s'" "gkeeps s (Panic p)" "gkeeps s Diverge"
  by (simp_all add: gkeeps_def)

lemma gkeeps_bind:
  assumes "gkeeps s m" "\<And>r g w. gframe s (g, w) \<Longrightarrow> gkeeps s (k (r, g, w))"
  shows "gkeeps s (gbind m k)"
  using assms by (cases m) (auto simp: gkeeps_def)

lemma gkeeps_world:
  assumes "gframe s (g, w)" "wkeeps w m" "\<And>r w'. gframe s (g, w') \<Longrightarrow> gkeeps s (k (r, w'))"
  shows "gkeeps s (gbind m k)"
  using assms by (cases m) (auto simp: gkeeps_def wkeeps_def intro: gframe_world)

lemma gkeeps_set_running [intro]:
  assumes "gframe s (g, w)" "\<And>g'. gframe s (g', w) \<Longrightarrow> gkeeps s (k g')"
  shows "gkeeps s (gbind (set_running i r g) k)"
proof (cases "set_running i r g")
  case (Ret g')
  then have "g' = g\<lparr>RunningNodes := gset i r (RunningNodes g)\<rparr>"
    by (auto simp: set_running_def gput_Ret)
  then have "gframe s (g', w)"
    using assms(1) gframe_running [of s g w "gset i r (RunningNodes g)"]
    by (simp add: gframe_def group_inv_def)
  with Ret assms(2) show ?thesis by simp
qed simp_all

lemma gkeeps_add_pending:
  assumes "gframe s (g, w)" "heap w p = Some n" "InstanceName n = name"
    "\<And>g'. gframe s (g', w) \<Longrightarrow> gkeeps s (k g')"
  shows "gkeeps s (gbind (add_pending name p g) k)"
proof (cases "add_pending name p g")
  case (Ret g')
  then have "g' = g\<lparr>pendingNodes := gset name p (pendingNodes g)\<rparr>"
    by (auto simp: add_pending_def gput_Ret)
  moreover have "gframe s (g\<lparr>pendingNodes := gset name p (pendingNodes g)\<rparr>, w)"
    using assms(1-3) by (intro gframe_pendingNodes) (auto simp: gframe_def group_inv_def split: if_splits)
  ultimately show ?thesis using Ret assms(4) by simp
qed simp_all

lemma gkeeps_put_Nodes:
  assumes "gframe s (g, w)" "p < fresh w"
    "\<And>m. gframe s (g\<lparr>Nodes := m\<rparr>, w) \<Longrightarrow> gkeeps s (k m)"
  shows "gkeeps s (gbind (gput name p (Nodes g)) k)"
proof (cases "gput name p (Nodes g)")
  case (Ret m)
  then have "m = gset name p (Nodes g)" by (simp add: gput_Ret)
  moreover have "gframe s (g\<lparr>Nodes := gset name p (Nodes g)\<rparr>, w)"
    using assms(1,2) by (intro gframe_Nodes) (auto simp: gframe_def group_inv_def split: if_splits)
  ultimately show ?thesis using Ret assms(3) by simp
qed simp_all

lemma wframe_iters [simp]: "wframe w (w'\<lparr>iters := k\<rparr>) = wframe w w'"
  by (simp add: wframe_def evolves_def heap_wf_def)

lemma wframe_wask [simp]: "wask f c w = (r, w') \<Longrightarrow> wframe w w'"
  by (auto simp: wask_def ask_def wframe_def evolves_def heap_wf_def)

lemma wframe_iterate [simp]: "iterate E xs w = (ys, w') \<Longrightarrow> wframe w w'"
  by (auto simp: iterate_def)

lemma wframe_Values [simp]: "Values E m w = (ys, w') \<Longrightarrow> wframe w w'"
  by (simp add: Values_def)

lemma wframe_AllNodes [simp]: "AllNodes E g w = (ys, w') \<Longrightarrow> wframe w w'"
  by (auto simp: AllNodes_def Let_def split: prod.splits intro: wframe_trans dest!: wframe_Values)

lemma wframe_store:
  "heap w p = Some n \<Longrightarrow> same_names n n' \<Longrightarrow> extends (trace w) h \<Longrightarrow>
   wframe w ((store p n' w)\<lparr>trace := h\<rparr>)"
  by (auto simp: wframe_def evolves_def store_def heap_wf_def)

lemma wframe_alloc:
  "alloc n w = (p, w') \<Longrightarrow> heap_wf w \<Longrightarrow> wframe w w' \<and> heap w' p = Some n \<and> p < fresh w'"
  by (force simp: alloc_def wframe_def evolves_def heap_wf_def less_Suc_eq)

lemma wkeeps_run_vm:
  assumes "\<And>s. holds (\<lambda>(r, s'). vm_frame s s') (f s)"
  shows "wkeeps w (run_vm f p w)"
proof (cases "heap w p")
  case (Some n)
  have "holds (\<lambda>(r, n', h). wframe w ((store p n' w)\<lparr>trace := h\<rparr>)) (f (n, trace w))"
    by (rule holds_mono [OF assms])
      (use Some in \<open>auto simp: vm_frame_def intro!: wframe_store dest: same_identity_names\<close>)
  then show ?thesis
    by (simp add: wkeeps_def run_vm_def load_def Some case_prod_unfold)
qed (simp add: wkeeps_def run_vm_def load_def)

lemma wkeeps_deleteVM [group_keeps]: "wkeeps w (run_vm (deleteVM E) p w)"
  using keeps_deleteVM by (intro wkeeps_run_vm) (simp add: keeps_def)

lemma wkeeps_launchVM [group_keeps]: "wkeeps w (run_vm (launchVM E nl sl) p w)"
  using keeps_launchVM by (intro wkeeps_run_vm) (simp add: keeps_def)

lemma statusVM_keeps: "vm_frame s (fst s', snd s') \<Longrightarrow> vm_frame s (snd (statusVM E (fst s') (snd s')))"
  by (cases "statusVM E (fst s') (snd s')") (auto dest: statusVM_frame)

lemma wkeeps_statusVM [group_keeps]: "wkeeps w (node_statusVM E p w)"
  unfolding node_statusVM_def
  by (rule wkeeps_run_vm) (simp add: case_prod_unfold statusVM_keeps)

lemma wkeeps_cleanOnLaunchError [group_keeps]:
  "wkeeps w (run_vm (\<lambda>s. gbind (cleanOnLaunchError E e s) (\<lambda>s. Ret ((), s))) p w)"
proof (rule wkeeps_run_vm)
  fix s
  have del: "holds (\<lambda>r. vm_frame s (snd r)) (deleteVM E s')" if "vm_frame s s'" for s'
    using keeps_deleteVM [OF that] by (simp add: keeps_def case_prod_unfold)
  show "holds (\<lambda>(r, s'). vm_frame s s') (gbind (cleanOnLaunchError E e s) (\<lambda>s. Ret ((), s)))"
    by (auto simp: cleanOnLaunchError_def Let_def case_prod_unfold
        intro!: del statusVM_keeps)
qed

section \<open>The operations\<close>

text \<open>
  One rule per elementary step, all with the frame of the current group and world as their major
  premise: an operation is checked by applying them in the order of its code.
\<close>

lemma gkeeps_wask:
  "gframe s (g, w) \<Longrightarrow> (\<And>r w'. gframe s (g, w') \<Longrightarrow> gkeeps s (k r w')) \<Longrightarrow>
   gkeeps s (case wask f c w of (r, w') \<Rightarrow> k r w')"
  by (cases "wask f c w") (auto intro: gframe_world dest: wframe_wask)

lemma gkeeps_AllNodes:
  "gframe s (g, w) \<Longrightarrow> (\<And>r w'. gframe s (g, w') \<Longrightarrow> gkeeps s (k r w')) \<Longrightarrow>
   gkeeps s (case AllNodes E g' w of (r, w') \<Rightarrow> k r w')"
  by (cases "AllNodes E g' w") (auto intro: gframe_world dest: wframe_AllNodes)

lemma gkeeps_iterate:
  "gframe s (g, w) \<Longrightarrow> (\<And>r w'. gframe s (g, w') \<Longrightarrow> gkeeps s (k r w')) \<Longrightarrow>
   gkeeps s (case iterate E xs w of (r, w') \<Rightarrow> k r w')"
  by (cases "iterate E xs w") (auto intro: gframe_world dest: wframe_iterate)

lemma gkeeps_findNextNodeIndex:
  "gframe s (g, w) \<Longrightarrow> (\<And>i g'. gframe s (g', w) \<Longrightarrow> gkeeps s (k i g')) \<Longrightarrow>
   gkeeps s (case findNextNodeIndex g of (i, g') \<Rightarrow> k i g')"
  by (auto simp: findNextNodeIndex_def Let_def split: option.splits)

text \<open>Allocating a node and entering it in the pending table under its name.\<close>

lemma gkeeps_new_pending:
  assumes "gframe s (g, w)" "InstanceName n = name" "\<And>a g w. gframe s (g, w) \<Longrightarrow> gkeeps s (k a w g)"
  shows "gkeeps s (case alloc n w of (a, w') \<Rightarrow> gbind (add_pending name a g) (k a w'))"
proof -
  obtain a w' where a: "alloc n w = (a, w')" by (cases "alloc n w")
  have "heap_wf w" using assms(1) by (simp add: gframe_def group_inv_def)
  with a wframe_alloc have w': "wframe w w'" "heap w' a = Some n" by blast+
  with assms(1) have "gframe s (g, w')" by (blast intro: gframe_world)
  then show ?thesis
    using a w'(2) assms(2,3) by (auto intro!: gkeeps_add_pending [where n = n and w = w'])
qed

lemma gkeeps_load:
  "gframe s (g, w) \<Longrightarrow> (\<And>n. gframe s (g, w) \<Longrightarrow> heap w p = Some n \<Longrightarrow> gkeeps s (k n)) \<Longrightarrow>
   gkeeps s (gbind (load p w) k)"
  by (simp add: load_def split: option.splits)

lemma gkeeps_vm:
  assumes "gframe s (g, w)" "wkeeps w (m w)" "\<And>r w'. gframe s (g, w') \<Longrightarrow> gkeeps s (k (r, w'))"
  shows "gkeeps s (gbind (m w) k)"
  using assms by (rule gkeeps_world)

lemmas gkeeps_delete = gkeeps_vm [OF _ wkeeps_deleteVM]
lemmas gkeeps_launch = gkeeps_vm [OF _ wkeeps_launchVM]
lemmas gkeeps_status = gkeeps_vm [OF _ wkeeps_statusVM]
lemmas gkeeps_clean = gkeeps_vm [OF _ wkeeps_cleanOnLaunchError]

lemmas group_steps = gkeeps_wask gkeeps_AllNodes gkeeps_iterate gkeeps_findNextNodeIndex
  gkeeps_new_pending gkeeps_load gkeeps_delete gkeeps_launch gkeeps_status gkeeps_clean
  gkeeps_set_running

lemma gkeeps_nodeName_loop: "gframe s (g, w) \<Longrightarrow> gkeeps s (nodeName_loop E cp m is i g w)"
proof (induction "is" arbitrary: i g w)
  case (Cons a "is")
  show ?case
    using Cons.prems by (clarsimp simp: Let_def) (safe; (erule group_steps | clarsimp | erule Cons.IH)+)
qed simp

lemma gkeeps_nodeName: "gframe s (g, w) \<Longrightarrow> gkeeps s (nodeName E i cp m g w)"
  by (simp add: nodeName_def gkeeps_nodeName_loop)

text \<open>An operation as a step of another one.\<close>

lemmas gkeeps_nodeName_step = gkeeps_bind [OF gkeeps_nodeName]

lemma gkeeps_prepare_one: "gframe s (g, w) \<Longrightarrow> gkeeps s (prepare_one E g w)"
  unfolding prepare_one_def Let_def
  by ((erule group_steps gkeeps_nodeName_step
       | clarsimp simp: new_autoscaled_node_def split: sum.splits option.splits | (rule conjI impI allI)+)+)

lemmas gkeeps_prepare_one_step = gkeeps_bind [OF gkeeps_prepare_one]

lemma gmake_not_nil [simp]: "gmake \<noteq> None" "\<exists>y. gmake = Some y"
  by (simp_all add: gmake_def)

lemma gkeeps_forget_pending: "gframe s (g, w) \<Longrightarrow> gframe s (g\<lparr>pendingNodes := gmake\<rparr>, w)"
  by (rule gframe_pendingNodes) simp_all

lemma gkeeps_prepare_loop: "gframe s (g, w) \<Longrightarrow> gkeeps s (prepare_loop E k ps g w)"
proof (induction k arbitrary: ps g w)
  case (Suc k)
  show ?case
    using Suc.prems unfolding prepare_loop.simps
    by - ((erule gkeeps_prepare_one_step Suc.IH
         | clarsimp simp: gkeeps_forget_pending split: sum.splits | (rule conjI impI allI)+)+)
qed simp

lemma gkeeps_prepareNodes: "gframe s (g, w) \<Longrightarrow> gkeeps s (prepareNodes E d g w)"
  by (simp add: prepareNodes_def gkeeps_prepare_loop)

lemma gkeeps_addManagedNode: "gframe s (g, w) \<Longrightarrow> gkeeps s (addManagedNode E crd g w)"
  unfolding addManagedNode_def Let_def
  by ((erule group_steps gkeeps_nodeName_step
       | clarsimp split: sum.splits option.splits | (rule conjI impI allI)+)+)

lemma gframe_count_created [simp]: "gframe s (count_created n g, w) = gframe s (g, w)"
  by (simp add: count_created_def Let_def)

lemma gkeeps_wg_Done:
  "gframe s (g, w) \<Longrightarrow> (\<And>g'. gframe s (g', w) \<Longrightarrow> gkeeps s (k g')) \<Longrightarrow> gkeeps s (gbind (wg_Done g) k)"
  by (simp add: wg_Done_def gframe_WG)

lemma gkeeps_Nodes_step:
  "gframe s (g, w) \<Longrightarrow> heap w p \<noteq> None \<Longrightarrow> (\<And>m. gframe s (g\<lparr>Nodes := m\<rparr>, w) \<Longrightarrow> gkeeps s (k m)) \<Longrightarrow>
   gkeeps s (gbind (gput name p (Nodes g)) k)"
  by (rule gkeeps_put_Nodes) (auto simp: gframe_def group_inv_def heap_wf_def)

text \<open>The address of a node stays an address.\<close>

lemma run_vm_heap: "run_vm f p w = Ret (r, w') \<Longrightarrow> \<exists>n. heap w' p = Some n"
  by (auto simp: run_vm_def store_def)

lemma gkeeps_launch_heap:
  assumes "gframe s (g, w)"
    "\<And>r w' n. gframe s (g, w') \<Longrightarrow> heap w' p = Some n \<Longrightarrow> gkeeps s (k (r, w'))"
  shows "gkeeps s (gbind (run_vm (launchVM E nl sl) p w) k)"
proof (cases "run_vm (launchVM E nl sl) p w")
  case (Ret r)
  moreover have "wframe w (snd r)"
    using wkeeps_launchVM [of w E nl sl p] Ret by (simp add: wkeeps_def case_prod_unfold)
  ultimately show ?thesis
    using assms run_vm_heap [of "launchVM E nl sl" p w "fst r" "snd r"]
    by (cases r) (auto intro: gframe_world)
qed simp_all

lemma gframe_created:
  assumes "gframe s (g, w)"
  shows "gframe s ((count_created n g)\<lparr>pendingNodes := gdel name (pendingNodes g)\<rparr>, w)"
proof -
  have "pendingNodes (count_created n g) = pendingNodes g" by (simp add: count_created_def Let_def)
  with gframe_del_pending [of s "count_created n g" w name] assms show ?thesis by simp
qed

lemmas gkeeps_Done_created = gkeeps_wg_Done [OF gframe_created]
lemmas gkeeps_Done_deleted = gkeeps_wg_Done [OF gframe_del_pending]

lemma gkeeps_createNode:
  assumes "gframe s (g, w)"
  shows "gkeeps s (createNode E p (r, g, w))"
proof -
  obtain created successful where r: "r = (created, successful)" by (cases r)
  show ?thesis
    using assms unfolding createNode_def Let_def prod.case r
    by - ((erule gkeeps_load, thin_tac "heap w p = _", simp),
      (rule conjI impI allI | erule gkeeps_launch_heap gkeeps_clean gkeeps_Nodes_step gkeeps_set_running
         gkeeps_Done_created gkeeps_Done_deleted gkeeps_wg_Done | clarsimp split: option.splits)+)
qed

lemma gfold_gkeeps:
  assumes "gframe s (g, w)" "\<And>x r g w. gframe s (g, w) \<Longrightarrow> gkeeps s (f x (r, g, w))"
  shows "gkeeps s (gfold f xs (r, g, w))"
proof -
  have "holds (\<lambda>(r, s'). gframe s s') (gfold f xs (r, g, w))"
    by (rule gfold_holds) (use assms in \<open>auto simp: gkeeps_def\<close>)
  then show ?thesis by (simp add: gkeeps_def)
qed

lemma gkeeps_create_cycles:
  "gframe s (g, w) \<Longrightarrow> gkeeps s (create_cycles E nodes m k c (r, g, w))"
proof (induction k arbitrary: c r g w)
  case (Suc k)
  have batch: "gkeeps s (gbind (gfold (createNode E) xs (r, g, w)) (create_cycles E nodes m k c))"
    if "gframe s (g, w)" for xs c g w
    by (rule gkeeps_bind, rule gfold_gkeeps, rule that, erule gkeeps_createNode, erule Suc.IH)
  have one: "gkeeps s (gbind (createNode E p (r, g, w)) (create_cycles E nodes m k c))" for p c
    by (rule gkeeps_bind, rule gkeeps_createNode [OF Suc.prems], erule Suc.IH)
  have "gframe s (g, w\<lparr>iters := j\<rparr>)" for j
    using Suc.prems by (rule gframe_world) simp
  then show ?case
    using Suc.prems one batch by (simp add: Let_def iterate_def)
qed simp

lemma gkeeps_createNodes:
  assumes "gframe s (g, w)"
  shows "gkeeps s (createNodes E nodes g w)"
proof -
  have wg: "gframe s (wg_Add (int (length nodes)) g, w)"
    using assms by (simp add: wg_Add_def gframe_WG gframe_def group_inv_def initialised_def same_settings_def)
  show ?thesis
    unfolding createNodes_def Let_def
  proof (rule gkeeps_bind, goal_cases)
    case 1
    show ?case using wg by (auto simp del: create_cycles.simps intro: gkeeps_createNode gkeeps_create_cycles)
  next
    case (2 r g w)
    then show ?case by (auto simp: wg_Wait_def split: prod.splits)
  qed
qed

lemma gkeeps_addNodes: "gframe s (g, w) \<Longrightarrow> gkeeps s (addNodes E d g w)"
  unfolding addNodes_def
  by (rule gkeeps_bind, erule gkeeps_prepareNodes) (auto intro: gkeeps_createNodes split: prod.splits)

lemma gkeeps_destroyNode: "gframe s (g, w) \<Longrightarrow> gkeeps s (destroyNode E p g w)"
  unfolding destroyNode_def
  by ((erule gkeeps_load, thin_tac "heap w p = _"),
      (erule gkeeps_delete gkeeps_set_running | clarsimp simp: gframe_removeNamedNode)+)

lemma gkeeps_destroyNodes: "gframe s (g, w) \<Longrightarrow> gkeeps s (destroyNodes E ps g w)"
  unfolding destroyNodes_def
  by (rule gfold_gkeeps) (auto intro!: gkeeps_bind [OF gkeeps_destroyNode])

lemma wkeeps_prepareDeleteNodes: "wkeeps w (prepareDeleteNodes E d g w)"
  by (auto simp: prepareDeleteNodes_def wkeeps_def holds_def dest: wframe_Values split: prod.splits go.splits)

lemma gkeeps_deleteNodes: "gframe s (g, w) \<Longrightarrow> gkeeps s (deleteNodes E d g w)"
  unfolding deleteNodes_def
  by (rule gkeeps_world [OF _ wkeeps_prepareDeleteNodes]) (auto intro: gkeeps_destroyNodes)

lemma gkeeps_setNodeGroupSize: "gframe s (g, w) \<Longrightarrow> gkeeps s (setNodeGroupSize E n p g w)"
  unfolding setNodeGroupSize_def Let_def
  by (auto intro!: gkeeps_deleteNodes gkeeps_addNodes gkeeps_prepareNodes
      gkeeps_world [OF _ wkeeps_prepareDeleteNodes])

lemma gkeeps_deleteNode: "gframe s (g, w) \<Longrightarrow> gkeeps s (deleteNode E p g w)"
  unfolding deleteNode_def Let_def
  by ((erule gkeeps_load, thin_tac "heap w p = _"),
      (rule conjI impI | erule gkeeps_delete gkeeps_set_running | clarsimp simp: gframe_removeNamedNode)+)

lemma gkeeps_deleteNodeByName: "gframe s (g, w) \<Longrightarrow> gkeeps s (deleteNodeByName E name g w)"
  by (simp add: deleteNodeByName_def gkeeps_deleteNode split: option.splits)

lemma wkeeps_gfold:
  assumes "\<And>x r w. wkeeps w (f x (r, w))"
  shows "wkeeps w (gfold f xs (r, w))"
proof -
  have "holds (\<lambda>(r, w'). wframe w w') (gfold f xs (r, w))"
  proof (rule gfold_holds, clarify)
    fix x r' w' assume "wframe w w'"
    with assms [of w' x r'] show "holds (\<lambda>(r, w'). wframe w w') (f x (r', w'))"
      unfolding wkeeps_def by (auto elim!: holds_mono intro: wframe_trans)
  qed simp
  then show ?thesis by (simp add: wkeeps_def)
qed

lemma wkeeps_cleanup_one: "wkeeps w (cleanup_one E p (r, w))"
  using wkeeps_deleteVM [of w E p]
  by (auto simp: cleanup_one_def load_def wkeeps_def elim!: holds_mono split: option.splits)

lemma gframe_reset:
  "gframe s (g, w) \<Longrightarrow> gframe s (g\<lparr>RunningNodes := gmake, Nodes := gmake, pendingNodes := gmake\<rparr>, w)"
  by (simp add: gframe_def group_inv_def same_settings_def initialised_def)

lemma gkeeps_cleanup:
  assumes "gframe s (g, w)"
  shows "gkeeps s (cleanup E g w)"
proof -
  have fold: "gkeeps s (gbind (gfold (cleanup_one E) ps (None, w)) (\<lambda>(lastError, w). Ret (lastError,
      g\<lparr>Status := NodegroupDeleting, RunningNodes := gmake, Nodes := gmake, pendingNodes := gmake,
        numOfControlPlanes := 0, numOfExternalNodes := 0, numOfManagedNodes := 0,
        numOfProvisionnedNodes := 0, Status := NodegroupDeleted\<rparr>, w)))" if "gframe s (g, w)" for ps w
    by (rule gkeeps_world [OF that wkeeps_gfold]) (auto intro: wkeeps_cleanup_one gframe_reset)
  show ?thesis
    using assms unfolding cleanup_def Let_def
    by (cases "wg_Wait (g\<lparr>Status := NodegroupDeleting\<rparr>)")
      (auto intro!: fold [simplified] intro: gframe_world [OF _ wframe_AllNodes] split: prod.splits)
qed

section \<open>Discovery\<close>

lemma wkeeps_bind_world:
  "wkeeps w m \<Longrightarrow> (\<And>r w'. wframe w w' \<Longrightarrow> wkeeps w (k (r, w'))) \<Longrightarrow> wkeeps w (gbind m k)"
  by (cases m) (auto simp: wkeeps_def)

lemma gkeeps_uuid: "wkeeps w (run_vm (\<lambda>s. Ret (findInstanceUUID E s)) p w)"
  by (rule wkeeps_run_vm)
    (auto simp: findInstanceUUID_def Let_def ask_def vm_frame_def split: prod.splits)

lemma wkeeps_networkInfos: "wkeeps w (run_vm (\<lambda>s. Ret (retrieveNetworkInfos E s)) p w)"
  by (rule wkeeps_run_vm) (auto simp: retrieveNetworkInfos_def Let_def ask_def vm_frame_def)

lemma gframe_count_discovered [simp]: "gframe s (count_discovered k g, w) = gframe s (g, w)"
  by (simp add: count_discovered_def Let_def)

lemma wframe_store_handler:
  assumes "heap w a = Some n"
  shows "wframe w (store a (n\<lparr>providerHandler := p\<rparr>) w)"
  using wframe_store [of w a n "n\<lparr>providerHandler := p\<rparr>" "trace w"] assms
  by (simp add: same_names_def store_def)

lemma discovered_addr_frame:
  assumes "heap_wf w" "discovered_addr E former k name i u c p g w = Ret (a, w')"
  shows "wframe w w' \<and> heap w' a \<noteq> None"
proof (cases former)
  case None
  obtain a1 w1 where a: "alloc (discovered_node g k i name u c p) w = (a1, w1)" by fastforce
  then have "wframe w w1" "heap w1 a1 \<noteq> None" using wframe_alloc assms(1) by blast+
  with None a assms(2) show ?thesis
    by (auto simp: discovered_addr_def wask_def ask_def wframe_def evolves_def heap_wf_def)
next
  case (Some b)
  with assms(2) show ?thesis
    by (auto simp: discovered_addr_def load_def store_def split: option.splits
        dest: wframe_store_handler [unfolded store_def])
qed

lemma gkeeps_discovered_step:
  assumes "gframe s (g, w)" "\<And>a w'. gframe s (g, w') \<Longrightarrow> heap w' a \<noteq> None \<Longrightarrow> gkeeps s (k' (a, w'))"
  shows "gkeeps s (gbind (discovered_addr E former k name i u c p g w) k')"
proof (cases "discovered_addr E former k name i u c p g w")
  case (Ret r)
  have "heap_wf w" using assms(1) by (simp add: gframe_def group_inv_def)
  with discovered_addr_frame Ret have "wframe w (snd r)" "heap (snd r) (fst r) \<noteq> None"
    by (metis prod.collapse)+
  with assms Ret show ?thesis by (cases r) (auto intro: gframe_world)
qed simp_all

lemma gkeeps_networkInfos_heap:
  assumes "gframe s (g, w)" "\<And>r w'. gframe s (g, w') \<Longrightarrow> heap w' p \<noteq> None \<Longrightarrow> gkeeps s (k (r, w'))"
  shows "gkeeps s (gbind (run_vm (\<lambda>s. Ret (retrieveNetworkInfos E s)) p w) k)"
proof (cases "run_vm (\<lambda>s. Ret (retrieveNetworkInfos E s)) p w")
  case (Ret r)
  have "wframe w (snd r)"
    using wkeeps_networkInfos [of w E p] Ret by (simp add: wkeeps_def case_prod_unfold)
  moreover have "\<exists>n. heap (snd r) p = Some n" using run_vm_heap Ret by (metis prod.collapse)
  ultimately show ?thesis using assms Ret by (cases r) (auto intro: gframe_world)
qed simp_all

lemma gkeeps_discover_attach:
  "gframe s (g, w) \<Longrightarrow> gkeeps s (discover_attach E former k name i u crd g w)"
  unfolding discover_attach_def Let_def
  by ((rule conjI impI allI | erule gkeeps_wask gkeeps_discovered_step gkeeps_networkInfos_heap gkeeps_Nodes_step
       gkeeps_set_running gkeeps_status | clarsimp split: sum.splits)+)

lemma gkeeps_discover_instance:
  assumes "gframe s (g, w)"
  shows "gkeeps s (discover_instance E former k name i g w)"
proof -
  have uuid: "wkeeps w (case gget (k_Annotations k) AnnotationInstanceID of
       Some v \<Rightarrow> Ret (v, w)
     | None \<Rightarrow> (case gget former name of
           None \<Rightarrow> Panic NilDeref | Some p \<Rightarrow> run_vm (\<lambda>s. Ret (findInstanceUUID E s)) p w))"
    using gkeeps_uuid by (auto simp: wkeeps_def split: option.splits)
  show ?thesis
    unfolding discover_instance_def Let_def
    by (rule gkeeps_world [OF assms uuid], unfold prod.case, rule gkeeps_discover_attach) simp
qed

lemma gkeeps_discover_one: "gframe s (g, w) \<Longrightarrow> gkeeps s (discover_one E former b k (i, g, w))"
  by (auto simp: discover_one_def intro: gkeeps_discover_instance split: option.splits)

lemma gkeeps_autoDiscoveryNodes:
  assumes "gframe s (g, w)"
  shows "gkeeps s (autoDiscoveryNodes E b g w)"
proof -
  have reset: "gframe s (g\<lparr>Nodes := gmake, pendingNodes := gmake, RunningNodes := gmake,
      LastCreatedNodeIndex := 0, numOfExternalNodes := 0, numOfManagedNodes := 0,
      numOfProvisionnedNodes := 0, numOfControlPlanes := 0\<rparr>, w)" if "gframe s (g, w)" for w
    using that by (simp add: gframe_def group_inv_def same_settings_def initialised_def)
  have loop: "gkeeps s (gbind (gfold (discover_one E former b) ks (0, g, w)) (\<lambda>(i, g, w). Ret (Inr former, g, w)))"
    if "gframe s (g, w)" for g w former ks
    by (rule gkeeps_bind, rule gfold_gkeeps, rule that, erule gkeeps_discover_one) simp
  show ?thesis
    using assms unfolding autoDiscoveryNodes_def Let_def
    by - ((erule gkeeps_wask), auto intro!: loop reset split: sum.splits)
qed

text \<open>Operations that only read the group.\<close>

lemma world_step:
  assumes "wframe w w'" "wkeeps w' m" "\<And>r w''. wframe w w'' \<Longrightarrow> holds (wframe w) (k (r, w''))"
  shows "holds (wframe w) (gbind m k)"
  using assms by (cases m) (auto simp: wkeeps_def intro: wframe_trans)

lemma refresh_frame: "holds (wframe w) (refresh E g w)"
proof -
  obtain ps w1 where ps: "AllNodes E g w = (ps, w1)" by fastforce
  have step: "holds (wframe w) (gbind (load p w') (\<lambda>n.
      if Creating < State n then gbind (node_statusVM E p w') (\<lambda>(r, w). Ret w) else Ret w'))"
    if "wframe w w'" for p w'
    using that by (auto simp: load_def simp del: holds_gbind intro!: world_step [OF _ wkeeps_statusVM] split: option.splits)
  have "holds (wframe w) (gfold (\<lambda>p w. gbind (load p w) (\<lambda>n.
      if Creating < State n then gbind (node_statusVM E p w) (\<lambda>(r, w). Ret w) else Ret w)) ps w1)"
    by (rule gfold_holds) (use wframe_AllNodes [OF ps] step in auto)
  with ps show ?thesis by (simp add: refresh_def)
qed

lemma findManagedNodeDeleted_frame: "holds (wframe w) (findManagedNodeDeleted E former g w)"
proof -
  obtain es w1 where es: "iterate E (gentries former) w = (es, w1)" by fastforce
  have step: "holds (wframe w) (case e of (name, p) \<Rightarrow>
      if findNamedNode g name = None
      then gbind (node_statusVM E p w') (\<lambda>((status, err), w).
             if err = None then gbind (run_vm (deleteVM E) p w) (\<lambda>(e, w). Ret w) else Ret w)
      else Ret w')" if "wframe w w'" for e w'
  proof -
    have del: "holds (wframe w) (gbind (run_vm (deleteVM E) p w2) (\<lambda>(e, w). Ret w))" if "wframe w w2" for p w2
      by (rule world_step [OF that wkeeps_deleteVM]) simp
    have "holds (wframe w) (gbind (node_statusVM E p w') (\<lambda>((status, err), w).
        if err = None then gbind (run_vm (deleteVM E) p w) (\<lambda>(e, w). Ret w) else Ret w))" for p
      by (rule world_step [OF that wkeeps_statusVM]) (auto simp del: holds_gbind intro!: del)
    with that show ?thesis by (cases e) simp
  qed
  have "holds (wframe w) (gfold (\<lambda>(name, p) w'.
      if findNamedNode g name = None
      then gbind (node_statusVM E p w') (\<lambda>((status, err), w).
             if err = None then gbind (run_vm (deleteVM E) p w) (\<lambda>(e, w). Ret w) else Ret w)
      else Ret w') es w1)"
    by (rule gfold_holds) (use wframe_iterate [OF es] step in auto)
  with es show ?thesis by (simp add: findManagedNodeDeleted_def)
qed

lemma wkeeps_hasInstance: "wkeeps w (hasInstance E name g w)"
  by (auto simp: hasInstance_def intro!: wkeeps_bind_world wkeeps_statusVM split: option.splits)
    (auto simp: wkeeps_def)

section \<open>The contract of the group operations\<close>

text \<open>
  The servers rely on this contract of every operation of a group: the invariant holds after it,
  the settings of the group are unchanged, maps that could be written still can, nodes keep their
  names and their addresses, and calls are only added.
\<close>

locale group_operation =
  fixes operation :: "group \<Rightarrow> world \<Rightarrow> 'a group_result"
  assumes contract: "gframe s (g, w) \<Longrightarrow> gkeeps s (operation g w)"
begin

lemma frame: "group_inv g w \<Longrightarrow> operation g w = Ret (r, g', w') \<Longrightarrow> gframe (g, w) (g', w')"
  using contract [of "(g, w)" g w] by (auto simp: gframe_refl)

lemma invariant: "group_inv g w \<Longrightarrow> operation g w = Ret (r, g', w') \<Longrightarrow> group_inv g' w'"
  using frame by (blast dest: gframe_inv)

lemma settings: "group_inv g w \<Longrightarrow> operation g w = Ret (r, g', w') \<Longrightarrow> same_settings g g'"
  using frame by (fastforce simp: gframe_def)

lemma writable: "group_inv g w \<Longrightarrow> initialised g \<Longrightarrow> operation g w = Ret (r, g', w') \<Longrightarrow> initialised g'"
  using frame by (fastforce simp: gframe_def)

lemma world: "group_inv g w \<Longrightarrow> operation g w = Ret (r, g', w') \<Longrightarrow> evolves w w'"
  using frame by (fastforce simp: gframe_def)

text \<open>Two operations in a row, whatever the second one makes of the first one's result.\<close>

lemma sequence:
  assumes "gframe s (g, w)" "\<And>r g w. gframe s (g, w) \<Longrightarrow> gkeeps s (k (r, g, w))"
  shows "gkeeps s (gbind (operation g w) k)"
  using assms by (blast intro: gkeeps_bind contract)

end

interpretation prepare: group_operation "prepareNodes E delta" for E delta
  by unfold_locales (rule gkeeps_prepareNodes)

interpretation add_managed: group_operation "addManagedNode E crd" for E crd
  by unfold_locales (rule gkeeps_addManagedNode)

interpretation create_nodes: group_operation "createNodes E nodes" for E nodes
  by unfold_locales (rule gkeeps_createNodes)

interpretation set_size: group_operation "setNodeGroupSize E size prepareOnly" for E size prepareOnly
  by unfold_locales (rule gkeeps_setNodeGroupSize)

interpretation destroy: group_operation "destroyNodes E nodes" for E nodes
  by unfold_locales (rule gkeeps_destroyNodes)

interpretation delete_node: group_operation "deleteNode E p" for E p
  by unfold_locales (rule gkeeps_deleteNode)

interpretation delete_named: group_operation "deleteNodeByName E name" for E name
  by unfold_locales (rule gkeeps_deleteNodeByName)

interpretation clean: group_operation "cleanup E" for E
  by unfold_locales (rule gkeeps_cleanup)

interpretation discovery: group_operation "autoDiscoveryNodes E b" for E b
  by unfold_locales (rule gkeeps_autoDiscoveryNodes)

end
