(* ===== verification/NodeGroup_Growth.thy ===== *)
theory NodeGroup_Growth
  imports NodeGroup_Invariant
begin

text \<open>
  How a node group grows: the indexes and names it gives to new nodes, the nodes it prepares and
  the nodes it creates, cycle by cycle.
\<close>

section \<open>Indexes and names\<close>


lemma node_name_inject:
  "0 \<le> i \<Longrightarrow> 0 \<le> j \<Longrightarrow> node_name g cp m i = node_name g cp m j \<longleftrightarrow> i = j"
  by (simp add: node_name_def pad2_inject)

text \<open>Whatever the cloud answers, the name is new: the group does not know it and the cloud has just
  said that it does not exist. Only when the group and the cloud know every name of the range is
  the name computed from the counters.\<close>

lemma findNamedNode_running [simp]: "findNamedNode (g\<lparr>RunningNodes := m\<rparr>) = findNamedNode g"
  by (rule ext) (simp add: findNamedNode_def split: option.splits)

lemma node_name_running [simp]: "node_name (g\<lparr>RunningNodes := m\<rparr>) = node_name g"
  by (intro ext) (simp add: node_name_def getControlPlanePrefix_def getManagedNodePrefix_def
      getProvisionnedNodePrefix_def)


text \<open>When the cloud has no machine the group does not know, the first free name is taken.\<close>

definition no_orphans :: "env \<Rightarrow> bool" where
  "no_orphans E \<longleftrightarrow> (\<forall>name h. \<not> ans_bool E (Provider (InstanceExists name) # h))"

lemma nodeName_loop_first_free:
  assumes "no_orphans E"
  shows "nodeName_loop E cp managed is k g w =
    (case find (\<lambda>i. findNamedNode g (node_name g cp managed i) = None) is of
       Some i \<Rightarrow> Ret ((node_name g cp managed i, k), g,
         w\<lparr>trace := Provider (InstanceExists (node_name g cp managed i)) # trace w\<rparr>)
     | None \<Rightarrow> Ret ((node_name g cp managed (fallback_index g cp managed k), k), g, w))"
  using assms
  by (induction "is" arbitrary: g w) (auto simp: wask_def ask_def no_orphans_def Let_def)

text \<open>The names the group knows are at most as many as its target size, so below the maximum size a
  name is free.\<close>

definition known_names :: "group \<Rightarrow> string set" where
  "known_names g = gkeys (Nodes g) \<union> gkeys (pendingNodes g)"

lemma findNamedNode_known: "findNamedNode g name = None \<longleftrightarrow> name \<notin> known_names g"
  by (auto simp: findNamedNode_def known_names_def gm.keys_lookup split: option.splits)

lemma card_known_names:
  assumes "gwf (Nodes g)" "gwf (pendingNodes g)"
  shows "int (card (known_names g)) \<le> targetSize g" "finite (known_names g)"
proof -
  have "card (known_names g) \<le> card (gkeys (Nodes g)) + card (gkeys (pendingNodes g))"
    unfolding known_names_def by (rule card_Un_le)
  then show "int (card (known_names g)) \<le> targetSize g"
    by (simp add: targetSize_def gm.size_wf assms)
  show "finite (known_names g)" by (simp add: known_names_def gm.finite_keys)
qed

lemma free_name_exists:
  assumes "gwf (Nodes g)" "gwf (pendingNodes g)" "targetSize g < MaxNodeSize g"
  shows "\<exists>i. find (\<lambda>i. findNamedNode g (node_name g False managed i) = None) [1..MaxNodeSize g] = Some i"
proof (rule ccontr)
  assume "\<not> ?thesis"
  then have "find (\<lambda>i. findNamedNode g (node_name g False managed i) = None) [1..MaxNodeSize g] = None"
    by auto
  then have sub: "node_name g False managed ` {1..MaxNodeSize g} \<subseteq> known_names g"
    by (auto simp: find_None_iff findNamedNode_known)
  have "inj_on (node_name g False managed) {1..MaxNodeSize g}"
    by (auto simp: inj_on_def node_name_inject)
  then have "card (node_name g False managed ` {1..MaxNodeSize g}) = nat (MaxNodeSize g)"
    by (simp add: card_image)
  with sub card_known_names [OF assms(1,2)] have "nat (MaxNodeSize g) \<le> card (known_names g)"
    by (metis card_mono)
  with card_known_names(1) [OF assms(1,2)] assms(3) show False by simp
qed

section \<open>Preparing nodes\<close>

text \<open>A provider that creates every machine it is asked for.\<close>

definition creates_all :: "env \<Rightarrow> bool" where
  "creates_all E \<longleftrightarrow>
     (\<forall>name t cp i h. \<exists>p. ans_handler E (Provider (CreateInstance name t cp i) # h) = Inr p)"

text \<open>A group that can grow: created, its maps initialised, its machine type known.\<close>

definition can_grow :: "group \<Rightarrow> bool" where
  "can_grow g \<longleftrightarrow> Status g = NodegroupCreated \<and> initialised g \<and> Machine g \<noteq> None"

lemma targetSize_pending:
  assumes "gwf (pendingNodes g)" "name \<notin> known_names g"
  shows "targetSize (g\<lparr>pendingNodes := gset name p (pendingNodes g)\<rparr>) = targetSize g + 1"
proof -
  have "gget (pendingNodes g) name = None"
    using assms(2) by (simp add: known_names_def gm.keys_lookup)
  with assms(1) show ?thesis by (simp add: targetSize_def gm.size_store)
qed

lemma findNextNodeIndex_group:
  "findNextNodeIndex g = (i, g') \<Longrightarrow> \<exists>l. g' = g\<lparr>LastCreatedNodeIndex := l\<rparr>"
  by (auto simp: findNextNodeIndex_def Let_def split: option.splits intro: exI [of _ "LastCreatedNodeIndex g"])

text \<open>What one turn of the loop does when the cloud has no orphan and creates the machine.\<close>

lemma prepare_one_grows:
  assumes "no_orphans E" "creates_all E" "can_grow g" "group_inv g w" "targetSize g < MaxNodeSize g"
  shows "\<exists>a g' w' i. prepare_one E g w = Ret (Inr a, g', w') \<and> 1 \<le> i \<and> i \<le> MaxNodeSize g \<and>
    node_name g False False i \<notin> known_names g \<and> Nodes g' = Nodes g \<and>
    pendingNodes g' = gset (node_name g False False i) a (pendingNodes g) \<and>
    can_grow g' \<and> targetSize g' = targetSize g + 1 \<and> a = fresh w \<and>
    (\<exists>n. heap w' a = Some n \<and> NodeType n = NodeAutoscaled \<and> State n = NotCreated)"
proof -
  obtain ni g1 where index: "findNextNodeIndex g = (ni, g1)" by fastforce
  then obtain l where g1: "g1 = g\<lparr>LastCreatedNodeIndex := l\<rparr>" using findNextNodeIndex_group by blast
  have same: "findNamedNode g1 = findNamedNode g" "node_name g1 = node_name g" "MaxNodeSize g1 = MaxNodeSize g"
    by (auto simp: g1 fun_eq_iff findNamedNode_def node_name_def getControlPlanePrefix_def
        getManagedNodePrefix_def getProvisionnedNodePrefix_def split: option.splits)
  have wf: "gwf (Nodes g)" "gwf (pendingNodes g)" using assms(4) by (simp_all add: group_inv_def)
  obtain i where i: "find (\<lambda>i. findNamedNode g (node_name g False False i) = None) [1..MaxNodeSize g] = Some i"
    using free_name_exists [OF wf assms(5)] by blast
  let ?name = "node_name g False False i"
  have free: "?name \<notin> known_names g" "1 \<le> i" "i \<le> MaxNodeSize g"
    using i by (auto simp: find_Some_iff findNamedNode_known dest!: nth_mem)
  have name: "nodeName E ni False False g1 w = Ret ((?name, ni), g1,
      w\<lparr>trace := Provider (InstanceExists ?name) # trace w\<rparr>)"
    using i by (simp add: nodeName_def nodeName_loop_first_free [OF assms(1)] same)
  obtain m rs where m: "Machine g = Some m" "RunningNodes g = Some rs" and p: "pendingNodes g \<noteq> None"
    using assms(3) by (auto simp: can_grow_def initialised_def)
  obtain h where h: "ans_handler E (Provider (CreateInstance ?name (InstanceType g) False ni)
      # Provider (InstanceExists ?name) # trace w) = Inr h"
    using assms(2) unfolding creates_all_def by blast
  have m1: "Machine (g\<lparr>LastCreatedNodeIndex := l, RunningNodes := r\<rparr>) = Some m" for r
    using m by (simp add: Machine_def)
  show ?thesis
    using index name g1 m p free h m1 assms(3) targetSize_pending [OF wf(2) free(1)]
    by (auto simp: prepare_one_def wask_def ask_def set_running_def add_pending_def gput_not_nil alloc_def
        can_grow_def initialised_def new_autoscaled_node_def Machine_def targetSize_def Let_def
        split: prod.splits intro!: exI [of _ i])
qed

lemma prepare_loop_grows:
  assumes "no_orphans E" "creates_all E"
  shows "can_grow g \<Longrightarrow> group_inv g w \<Longrightarrow> targetSize g + int k \<le> MaxNodeSize g \<Longrightarrow>
    \<exists>ps g' w'. prepare_loop E k acc g w = Ret ((acc @ ps, None), g', w') \<and> length ps = k \<and>
      targetSize g' = targetSize g + int k \<and> Nodes g' = Nodes g \<and> distinct ps \<and>
      (\<forall>p \<in> set ps. fresh w \<le> p \<and> (\<exists>name. gget (pendingNodes g') name = Some p)) \<and>
      (\<forall>name p. gget (pendingNodes g) name = Some p \<longrightarrow> gget (pendingNodes g') name = Some p)"
proof (induction k arbitrary: acc g w)
  case (Suc k)
  from Suc.prems have "targetSize g < MaxNodeSize g" by simp
  from prepare_one_grows [OF assms Suc.prems(1,2) this] obtain a g1 w1 i where
    one: "prepare_one E g w = Ret (Inr a, g1, w1)" "node_name g False False i \<notin> known_names g"
      "Nodes g1 = Nodes g" "pendingNodes g1 = gset (node_name g False False i) a (pendingNodes g)"
      "can_grow g1" "targetSize g1 = targetSize g + 1" "a = fresh w" "heap w1 a \<noteq> None"
    by blast
  have f: "gframe (g, w) (g1, w1)"
    using gkeeps_prepare_one [OF gframe_refl [OF Suc.prems(2)], of E] one(1) by simp
  then have inv: "group_inv g1 w1" and max: "MaxNodeSize g1 = MaxNodeSize g"
    by (simp_all add: gframe_def same_settings_def)
  have "targetSize g1 + int k \<le> MaxNodeSize g1" using one(6) max Suc.prems(3) by simp
  from Suc.IH [OF one(5) inv this, of "acc @ [a]"] obtain ps g' w' where
    rest: "prepare_loop E k (acc @ [a]) g1 w1 = Ret ((acc @ [a] @ ps, None), g', w')" "length ps = k"
      "targetSize g' = targetSize g1 + int k" "Nodes g' = Nodes g1" "distinct ps"
      "\<forall>p \<in> set ps. fresh w1 \<le> p \<and> (\<exists>name. gget (pendingNodes g') name = Some p)"
      "\<forall>name p. gget (pendingNodes g1) name = Some p \<longrightarrow> gget (pendingNodes g') name = Some p"
    by auto
  have lt: "a < fresh w1" using inv one(8) by (simp add: group_inv_def heap_wf_def)
  have old: "gget (pendingNodes g') name = Some p" if "gget (pendingNodes g) name = Some p" for name p
  proof -
    have "name \<noteq> node_name g False False i"
      using that one(2) by (auto simp: known_names_def gm.keys_lookup)
    with that one(4) rest(7) show ?thesis by simp
  qed
  have new: "gget (pendingNodes g') (node_name g False False i) = Some a" using one(4) rest(7) by simp
  have "distinct (a # ps)" using rest(5,6) lt by fastforce
  moreover have "\<forall>p \<in> set (a # ps). fresh w \<le> p \<and> (\<exists>name. gget (pendingNodes g') name = Some p)"
    using rest(6) lt one(7) new by fastforce
  ultimately show ?case
    using one(1,3,6) rest(1-4) old by (intro exI [of _ "a # ps"] exI [of _ g'] exI [of _ w']) auto
qed simp

lemma prepareNodes_delta:
  assumes "no_orphans E" "creates_all E" "can_grow g" "group_inv g w"
    and "0 < delta" "targetSize g + delta \<le> MaxNodeSize g"
  shows "\<exists>ps g' w'. prepareNodes E delta g w = Ret ((ps, None), g', w') \<and> int (length ps) = delta \<and>
    distinct ps \<and> targetSize g' = targetSize g + delta \<and> Nodes g' = Nodes g \<and>
    (\<forall>p \<in> set ps. heap w p = None \<and> (\<exists>name. gget (pendingNodes g') name = Some p)) \<and>
    (\<forall>name p. gget (pendingNodes g) name = Some p \<longrightarrow> gget (pendingNodes g') name = Some p)"
proof -
  have "targetSize g + int (nat delta) \<le> MaxNodeSize g" using assms(5,6) by simp
  from prepare_loop_grows [OF assms(1-4) this, of "[]"] obtain ps g' w' where
    l: "prepare_loop E (nat delta) [] g w = Ret ((ps, None), g', w')" "length ps = nat delta"
      "targetSize g' = targetSize g + int (nat delta)" "Nodes g' = Nodes g" "distinct ps"
      "\<forall>p \<in> set ps. fresh w \<le> p \<and> (\<exists>name. gget (pendingNodes g') name = Some p)"
      "\<forall>name p. gget (pendingNodes g) name = Some p \<longrightarrow> gget (pendingNodes g') name = Some p"
    by auto
  have "heap w p = None" if "fresh w \<le> p" for p
    using assms(4) that unfolding group_inv_def heap_wf_def by (metis linorder_not_le)
  then show ?thesis
    using l assms(3,5) by (auto simp: prepareNodes_def can_grow_def)
qed

text \<open>The samples: a created group of up to three machines, none of them yet.\<close>

definition sample_machine :: machine where
  "sample_machine = \<lparr>Price = 0, Memory_mb = 4096, Vcpu = 2, Disk = None\<rparr>"

definition sample_input :: nodegroupCreateInput where
  "sample_input = \<lparr>nodeGroupID = ''g'', minNodeSize = 0, maxNodeSize = 3, machineType = ''t'',
     input_labels = gmake, systemLabels = gmake, autoProvision = False,
     input_configuration = sample_config, input_machines = Some [(''t'', sample_machine)]\<rparr>"

definition sample_group :: group where
  "sample_group = (NewAutoScalerServerNodeGroup sample_input)\<lparr>Status := NodegroupCreated, RunningNodes := gmake\<rparr>"

definition empty_world :: world where
  "empty_world = \<lparr>heap = \<lambda>_. None, fresh = 0, trace = [], iters = 0\<rparr>"

text \<open>A cloud whose machines are all created, and where no machine has a name to be given.\<close>

definition quiet_env :: env where
  "quiet_env = sample_env\<lparr>ans_bool := \<lambda>h. case h of Provider (InstanceExists name) # t \<Rightarrow> False | _ \<Rightarrow> True\<rparr>"

lemmas sample_group_defs = sample_group_def sample_input_def NewAutoScalerServerNodeGroup_def

lemma sample_group_inv: "group_inv sample_group empty_world"
  by (simp add: group_inv_def sample_group_defs empty_world_def heap_wf_def)

lemma sample_can_grow: "can_grow sample_group"
  by (simp add: can_grow_def initialised_def sample_group_defs Machine_def gget_def gentries_def)

lemma quiet_env_cloud: "no_orphans quiet_env" "creates_all quiet_env"
  by (simp_all add: no_orphans_def creates_all_def quiet_env_def sample_env_def)

section \<open>Creating nodes\<close>

text \<open>
  The reference: the nodes are created one after another. The cycles of \<^verbatim>\<open>createNodes\<close> do the same
  in some order of the nodes, whatever the number of nodes per cycle; only the count of the map
  iterations, from which the orders are taken, differs.
\<close>

definition finish_creation :: "creation \<Rightarrow> (addr list \<times> error option) group_result" where
  "finish_creation s =
     (let ((created, successful), g, w) = s
      in gbind (wg_Wait g) (\<lambda>u.
         Ret ((created,
               if Status g \<noteq> NodegroupCreated
               then Some (Errorf ErrUnableToLaunchNodeGroupNotCreated [NodeGroupIdentifier g])
               else if successful = 0
               then Some (Errorf ErrUnableToLaunchNodeGroup [NodeGroupIdentifier g])
               else None), g, w)))"

definition create_sequentially ::
  "env \<Rightarrow> addr list \<Rightarrow> group \<Rightarrow> world \<Rightarrow> (addr list \<times> error option) group_result" where
  "create_sequentially E nodes g w =
     gbind (gfold (createNode E) nodes (([], 0), wg_Add (int (length nodes)) g, w)) finish_creation"

definition with_iters :: "nat \<Rightarrow> ('a \<times> group \<times> world) go \<Rightarrow> ('a \<times> group \<times> world) go" where
  "with_iters j m = gbind m (\<lambda>(r, g, w). Ret (r, g, w\<lparr>iters := j\<rparr>))"

lemma with_iters_simps [simp]:
  "with_iters j (Ret (r, g, w)) = Ret (r, g, w\<lparr>iters := j\<rparr>)"
  "with_iters j (Panic p) = Panic p" "with_iters j Diverge = Diverge"
  "with_iters j (with_iters i m) = with_iters j m"
  by (simp_all add: with_iters_def gbind_assoc) (cases m; simp add: case_prod_unfold)

lemma with_iters_gbind:
  assumes "\<And>r g w. k (r, g, w\<lparr>iters := j\<rparr>) = with_iters j (k (r, g, w))"
  shows "gbind (with_iters j m) k = with_iters j (gbind m k)"
proof (cases m)
  case (Ret t)
  then show ?thesis using assms by (cases t) simp
qed simp_all

lemma run_vm_iters:
  "run_vm f p (w\<lparr>iters := j\<rparr>) = gbind (run_vm f p w) (\<lambda>(r, w). Ret (r, w\<lparr>iters := j\<rparr>))"
proof (cases "heap w p")
  case (Some n)
  then show ?thesis
    by (cases "f (n, trace w)") (auto simp: run_vm_def load_def store_def)
qed (simp add: run_vm_def load_def)

lemma createNode_iters: "createNode E p (r, g, w\<lparr>iters := j\<rparr>) = with_iters j (createNode E p (r, g, w))"
proof -
  obtain created successful where r: "r = (created, successful)" by (cases r)
  have bind: "with_iters j (gbind m k) = gbind m (\<lambda>x. with_iters j (k x))" for m :: "'b go" and k :: "'b \<Rightarrow> creation go"
    by (cases m) simp_all
  show ?thesis
    unfolding createNode_def Let_def prod.case r
    by (cases "heap w p")
      (auto simp: load_def run_vm_iters bind gbind_assoc intro!: gbind_cong split: option.splits)
qed

lemma gfold_createNode_iters:
  "gfold (createNode E) ps (r, g, w\<lparr>iters := j\<rparr>) = with_iters j (gfold (createNode E) ps (r, g, w))"
proof (induction ps arbitrary: r g w)
  case (Cons p ps)
  show ?case
    unfolding gfold.simps createNode_iters
    by (rule with_iters_gbind) (rule Cons.IH)
qed simp

lemma gfold_Nil [simp]: "gfold f [] = Ret"
  by (rule ext) simp

text \<open>One cycle, whatever the order it takes.\<close>

lemma batch_order:
  assumes "\<And>s. \<exists>qs j. mset qs = mset ys \<and> k s = with_iters j (gfold (createNode E) qs s)"
  shows "\<exists>qs j. mset qs = mset (xs @ ys) \<and>
    gbind (gfold (createNode E) xs (r, g, w\<lparr>iters := i\<rparr>)) k = with_iters j (gfold (createNode E) qs (r, g, w))"
proof (cases "gfold (createNode E) xs (r, g, w)")
  case (Ret t)
  obtain r1 g1 w1 where t: "t = (r1, g1, w1)" by (cases t)
  from assms [of "(r1, g1, w1\<lparr>iters := i\<rparr>)"] obtain qs j where
    "mset qs = mset ys" "k (r1, g1, w1\<lparr>iters := i\<rparr>) = with_iters j (gfold (createNode E) qs (r1, g1, w1\<lparr>iters := i\<rparr>))"
    by blast
  then show ?thesis
    using Ret t by (intro exI [of _ "xs @ qs"] exI [of _ j]) (simp add: gfold_createNode_iters gfold_append)
qed (auto simp: gfold_createNode_iters gfold_append intro!: exI [of _ "xs @ ys"])

lemma create_cycles_sequential:
  assumes "0 < m"
  shows "length nodes \<le> current + k * m \<Longrightarrow> current \<le> length nodes \<Longrightarrow>
    \<exists>qs j. mset qs = mset (drop current nodes) \<and>
      create_cycles E nodes m k current s = with_iters j (gfold (createNode E) qs s)"
proof (induction k arbitrary: current s)
  case 0
  obtain r g w where "s = (r, g, w)" by (cases s)
  with 0 show ?case by (auto intro!: exI [of _ "[]"] exI [of _ "iters w"])
next
  case (Suc k)
  obtain r g w where s: "s = (r, g, w)" by (cases s)
  define n where "n = min m (length nodes - current)"
  have le: "length nodes \<le> current + n + k * m" "current + n \<le> length nodes"
    using Suc.prems by (auto simp: n_def)
  note IH = Suc.IH [OF le]
  have split: "drop current nodes = take n (drop current nodes) @ drop (current + n) nodes"
    by (metis append_take_drop_id drop_drop add.commute)
  consider "1 < n" | "n = 1" | "n = 0" by linarith
  then show ?case
  proof cases
    case 1
    let ?b = "reorder (order E (iters w)) (take n (drop current nodes))"
    have "create_cycles E nodes m (Suc k) current s =
        gbind (gfold (createNode E) ?b (r, g, w\<lparr>iters := Suc (iters w)\<rparr>)) (create_cycles E nodes m k (current + n))"
      using 1 by (simp add: s n_def Let_def iterate_def)
    moreover have "mset (?b @ drop (current + n) nodes) = mset (drop current nodes)"
      by (subst split) simp
    ultimately show ?thesis
      using batch_order [OF IH, where xs = ?b and r = r and g = g and w = w and i = "Suc (iters w)"] s by metis
  next
    case 2
    then have cur: "current < length nodes" by (auto simp: n_def)
    then have "take n (drop current nodes) = [nodes ! current]"
      using 2 by (simp add: take_Suc_conv_app_nth)
    then have "mset ([nodes ! current] @ drop (current + n) nodes) = mset (drop current nodes)"
      by (metis split)
    moreover have "create_cycles E nodes m (Suc k) current s =
        gbind (gfold (createNode E) [nodes ! current] (r, g, w\<lparr>iters := iters w\<rparr>)) (create_cycles E nodes m k (current + n))"
      using 2 by (simp add: s n_def [symmetric] Let_def)
    ultimately show ?thesis
      using batch_order [OF IH, where xs = "[nodes ! current]" and r = r and g = g and w = w and i = "iters w"] s by metis
  next
    case 3
    then have "drop current nodes = []" using assms Suc.prems by (auto simp: n_def)
    with 3 show ?thesis
      by (auto simp: s n_def [symmetric] Let_def intro!: exI [of _ "[]"] exI [of _ "iters w"])
  qed
qed

lemma finish_creation_iters: "finish_creation (r, g, w\<lparr>iters := j\<rparr>) = with_iters j (finish_creation (r, g, w))"
  by (cases r) (auto simp: finish_creation_def wg_Wait_def)

lemma createNodes_in_order:
  assumes "nodes \<noteq> []"
  shows "\<exists>qs j. mset qs = mset nodes \<and>
    createNodes E nodes g w = with_iters j (create_sequentially E qs g w)"
proof -
  let ?s = "(([], 0), wg_Add (int (length nodes)) g, w)"
  let ?m = "if cfg_MaxCreatedNodePerCycle (configuration g) \<le> 0 then length nodes
            else nat (cfg_MaxCreatedNodePerCycle (configuration g))"
  have m: "0 < ?m" using assms by auto
  let ?k = "length nodes div ?m + (if 0 < length nodes mod ?m then 1 else 0)"
  have "length nodes \<le> 0 + ?k * ?m"
  proof (cases "0 < length nodes mod ?m")
    case True
    then have "?k * ?m = length nodes div ?m * ?m + ?m" by simp
    moreover have "length nodes mod ?m < ?m" using m by simp
    ultimately show ?thesis using div_mult_mod_eq [of "length nodes" ?m] by linarith
  next
    case False
    then show ?thesis using div_mult_mod_eq [of "length nodes" ?m] by simp
  qed
  from create_cycles_sequential [OF m this, of E ?s] obtain qs j where cycles: "mset qs = mset nodes"
    "create_cycles E nodes ?m ?k 0 ?s = with_iters j (gfold (createNode E) qs ?s)"
    by auto
  have fin: "finish_creation = (\<lambda>((created, successful), g, w). gbind (wg_Wait g) (\<lambda>u.
      Ret ((created, if Status g \<noteq> NodegroupCreated
         then Some (Errorf ErrUnableToLaunchNodeGroupNotCreated [NodeGroupIdentifier g])
         else if successful = 0 then Some (Errorf ErrUnableToLaunchNodeGroup [NodeGroupIdentifier g])
         else None), g, w)))"
    by (rule ext) (simp add: finish_creation_def Let_def)
  have len: "length qs = length nodes" using cycles(1) by (rule mset_eq_length)
  show ?thesis
  proof (cases "length nodes = 1")
    case True
    then have "createNodes E nodes g w = gbind (gfold (createNode E) nodes ?s) finish_creation"
      unfolding fin by (cases nodes) (simp_all add: createNodes_def Let_def)
    then show ?thesis
      by (intro exI [of _ nodes] exI [of _ "iters w"])
        (simp add: create_sequentially_def with_iters_gbind [symmetric] finish_creation_iters
          gfold_createNode_iters [symmetric])
  next
    case False
    with m have "createNodes E nodes g w = gbind (create_cycles E nodes ?m ?k 0 ?s) finish_creation"
      unfolding fin by (simp add: createNodes_def Let_def)
    with cycles len show ?thesis
      by (intro exI [of _ qs] exI [of _ j])
        (simp add: create_sequentially_def with_iters_gbind finish_creation_iters)
  qed
qed

section \<open>What creating nodes establishes\<close>

lemma run_vm_other: "run_vm f p w = Ret (r, w') \<Longrightarrow> q \<noteq> p \<Longrightarrow> heap w' q = heap w q"
  by (auto simp: run_vm_def store_def)

lemma run_vm_wframe:
  assumes "run_vm f p w = Ret (r, w')" "wkeeps w (run_vm f p w)"
  shows "wframe w w'"
  using assms by (simp add: wkeeps_def)

text \<open>The nodes the server manages.\<close>

definition tally :: "group \<Rightarrow> int" where
  "tally g = numOfProvisionnedNodes g + numOfManagedNodes g"

lemma count_created_simps [simp]:
  "Nodes (count_created n g) = Nodes g" "pendingNodes (count_created n g) = pendingNodes g"
  "Status (count_created n g) = Status g" "pendingNodesWG (count_created n g) = pendingNodesWG g"
  "NodeGroupIdentifier (count_created n g) = NodeGroupIdentifier g"
  "RunningNodes (count_created n g) = RunningNodes g"
  by (simp_all add: count_created_def Let_def)

lemma tally_count_created: "owned n \<Longrightarrow> tally (count_created n g) = tally g + 1"
  by (auto simp: tally_def count_created_def owned_def Let_def)

lemma tally_updates [simp]:
  "tally (g\<lparr>Nodes := m\<rparr>) = tally g" "tally (g\<lparr>RunningNodes := r\<rparr>) = tally g"
  "tally (g\<lparr>pendingNodes := m\<rparr>) = tally g" "tally (g\<lparr>pendingNodesWG := k\<rparr>) = tally g"
  by (simp_all add: tally_def)

lemma createNode_outcome:
  assumes "createNode E p ((created, k), g, w) = Ret (r, g', w')" "Status g = NodegroupCreated"
    "heap w p = Some n"
  shows "Status g' = Status g \<and> pendingNodesWG g' = pendingNodesWG g - 1 \<and>
    pendingNodes g' = gdel (InstanceName n) (pendingNodes g) \<and>
    NodeGroupIdentifier g' = NodeGroupIdentifier g \<and>
    wframe w w' \<and> (\<forall>q. q \<noteq> p \<longrightarrow> heap w' q = heap w q) \<and>
    (r = (created, k) \<and> Nodes g' = Nodes g \<and> tally g' = tally g \<or>
     r = (created @ [p], Suc k) \<and> Nodes g' = gset (InstanceName n) p (Nodes g) \<and> tally g' = tally g + 1 \<and>
     (\<exists>n'. heap w' p = Some n' \<and> State n' = Running))"
proof -
  from assms obtain err w1 where l: "run_vm (launchVM E (NodeLabels g) (SystemLabels g)) p w = Ret (err, w1)"
    by (auto simp: createNode_def load_def split: prod.splits)
  have f1: "wframe w w1" using l by (rule run_vm_wframe) (rule wkeeps_launchVM)
  have o1: "heap w1 q = heap w q" if "q \<noteq> p" for q using l that by (rule run_vm_other)
  show ?thesis
  proof (cases err)
    case None
    from l None assms(3) obtain n' h' where
      "launchVM E (NodeLabels g) (SystemLabels g) (n, trace w) = Ret (None, n', h')" "heap w1 p = Some n'"
      by (auto simp: run_vm_def load_def store_def)
    then have "owned n" "heap w1 p = Some n'" "State n' = Running"
      using launchVM_establishes by blast+
    with None l assms f1 o1 show ?thesis
      by (auto simp: createNode_def load_def set_running_def gput_Ret wg_Done_def tally_count_created
          split: if_splits)
  next
    case (Some e)
    from Some l assms obtain u w2 where
      c: "run_vm (\<lambda>s. gbind (cleanOnLaunchError E e s) (\<lambda>s. Ret ((), s))) p w1 = Ret (u, w2)"
      by (auto simp: createNode_def load_def)
    have "wframe w1 w2" using c by (rule run_vm_wframe) (rule wkeeps_cleanOnLaunchError)
    moreover have "heap w2 q = heap w1 q" if "q \<noteq> p" for q using c that by (rule run_vm_other)
    ultimately show ?thesis
      using Some l c assms f1 o1
      by (auto simp: createNode_def load_def set_running_def gput_Ret wg_Done_def
          intro: wframe_trans split: if_splits)
  qed
qed

text \<open>The invariant of the loop: what holds when \<open>tried\<close> of the \<open>planned\<close> nodes have been tried.\<close>

definition creation_inv :: "group \<Rightarrow> world \<Rightarrow> nat \<Rightarrow> addr list \<Rightarrow> creation \<Rightarrow> bool" where
  "creation_inv g w planned tried s \<longleftrightarrow>
     (let ((created, k), g1, w1) = s; name = (\<lambda>p. InstanceName (the (heap w p)))
      in k = length created \<and> set created \<subseteq> set tried \<and> distinct created \<and>
         Status g1 = NodegroupCreated \<and> pendingNodesWG g1 = pendingNodesWG g + int planned - int (length tried) \<and>
         wframe w w1 \<and> (\<forall>p. p \<notin> set tried \<longrightarrow> heap w1 p = heap w p) \<and>
         (\<forall>nm. gget (pendingNodes g1) nm = (if nm \<in> name ` set tried then None else gget (pendingNodes g) nm)) \<and>
         (\<forall>p \<in> set created. gget (Nodes g1) (name p) = Some p \<and> (\<exists>n. heap w1 p = Some n \<and> State n = Running)) \<and>
         (\<forall>nm. nm \<notin> name ` set created \<longrightarrow> gget (Nodes g1) nm = gget (Nodes g) nm) \<and>
         tally g1 = tally g + int (length created))"

lemma creation_step:
  assumes "creation_inv g w planned tried s" "x \<notin> set tried" "heap w x = Some n"
    and inj: "inj_on (\<lambda>p. InstanceName (the (heap w p))) (insert x (set tried))"
  shows "holds (creation_inv g w planned (tried @ [x])) (createNode E x s)"
proof (cases "createNode E x s")
  case (Ret t)
  obtain created k g1 w1 where s: "s = ((created, k), g1, w1)" by (metis prod.collapse)
  obtain r g2 w2 where t: "t = (r, g2, w2)" by (metis prod.collapse)
  let ?name = "\<lambda>p. InstanceName (the (heap w p))"
  have i: "k = length created" "set created \<subseteq> set tried" "distinct created" "Status g1 = NodegroupCreated"
    "pendingNodesWG g1 = pendingNodesWG g + int planned - int (length tried)" "wframe w w1"
    "\<forall>p. p \<notin> set tried \<longrightarrow> heap w1 p = heap w p"
    "\<forall>nm. gget (pendingNodes g1) nm = (if nm \<in> ?name ` set tried then None else gget (pendingNodes g) nm)"
    "\<forall>p \<in> set created. gget (Nodes g1) (?name p) = Some p \<and> (\<exists>n. heap w1 p = Some n \<and> State n = Running)"
    "\<forall>nm. nm \<notin> ?name ` set created \<longrightarrow> gget (Nodes g1) nm = gget (Nodes g) nm"
    "tally g1 = tally g + int (length created)"
    using assms(1) unfolding creation_inv_def s Let_def prod.case by blast+
  have hx: "heap w1 x = Some n" using i(7) assms(2,3) by simp
  from createNode_outcome [OF Ret [unfolded s t] i(4) hx]
  have o: "Status g2 = NodegroupCreated" "pendingNodesWG g2 = pendingNodesWG g1 - 1"
    "pendingNodes g2 = gdel (InstanceName n) (pendingNodes g1)" "wframe w1 w2"
    "\<forall>q. q \<noteq> x \<longrightarrow> heap w2 q = heap w1 q" 
    and alt: "r = (created, k) \<and> Nodes g2 = Nodes g1 \<and> tally g2 = tally g1 \<or>
     r = (created @ [x], Suc k) \<and> Nodes g2 = gset (InstanceName n) x (Nodes g1) \<and> tally g2 = tally g1 + 1 \<and>
     (\<exists>n'. heap w2 x = Some n' \<and> State n' = Running)"
    using i(4) by simp_all
  have nx: "?name x = InstanceName n" using assms(3) by simp
  have fresh_name: "?name p \<noteq> InstanceName n" if "p \<in> set tried" for p
    using inj that assms(2) nx by (metis inj_on_contraD insertCI)
  have w02: "wframe w w2" using i(6) o(4) by (rule wframe_trans)
  have pend: "gget (pendingNodes g2) nm =
      (if nm \<in> ?name ` set (tried @ [x]) then None else gget (pendingNodes g) nm)" for nm
    using i(8) o(3) nx by auto
  have heap: "heap w2 p = heap w p" if "p \<notin> set (tried @ [x])" for p
    using that o(5) i(7) by auto
  have kept: "gget (Nodes g1) (?name p) = Some p \<and> (\<exists>n. heap w2 p = Some n \<and> State n = Running)"
    if "p \<in> set created" for p
    using that i(2,9) o(5) assms(2) by (metis subsetD)
  have alt': "case r of (created', k') \<Rightarrow> k' = length created' \<and> set created' \<subseteq> set (tried @ [x]) \<and> distinct created' \<and>
      (\<forall>p \<in> set created'. gget (Nodes g2) (?name p) = Some p \<and> (\<exists>n. heap w2 p = Some n \<and> State n = Running)) \<and>
      (\<forall>nm. nm \<notin> ?name ` set created' \<longrightarrow> gget (Nodes g2) nm = gget (Nodes g) nm) \<and>
      tally g2 = tally g + int (length created')"
    using alt
  proof
    assume "r = (created, k) \<and> Nodes g2 = Nodes g1 \<and> tally g2 = tally g1"
    with i(1-3,10,11) kept show ?thesis by auto
  next
    assume a: "r = (created @ [x], Suc k) \<and> Nodes g2 = gset (InstanceName n) x (Nodes g1) \<and>
      tally g2 = tally g1 + 1 \<and> (\<exists>n'. heap w2 x = Some n' \<and> State n' = Running)"
    have "?name p \<noteq> InstanceName n" if "p \<in> set created" for p
      using that i(2) fresh_name by blast
    with a i(1-3,10,11) kept assms(2) nx show ?thesis by auto
  qed
  show ?thesis
    unfolding Ret t holds_simps creation_inv_def
    using alt' o(1,2) i(5) w02 heap pend by (auto simp: Let_def split: prod.splits)
qed simp_all

lemma creation_loop:
  assumes inv: "creation_inv g w planned [] s"
    and nodes: "\<And>p. p \<in> set qs \<Longrightarrow> heap w p \<noteq> None" "distinct qs"
      "inj_on (\<lambda>p. InstanceName (the (heap w p))) (set qs)"
  shows "holds (creation_inv g w planned qs) (gfold (createNode E) qs s)"
proof -
  have "holds ((\<lambda>tried s. prefix tried qs \<longrightarrow> creation_inv g w planned tried s) ([] @ qs)) (gfold (createNode E) qs s)"
  proof (rule gfold_holds_seen)
    fix x tried s assume I: "prefix tried qs \<longrightarrow> creation_inv g w planned tried s"
    show "holds (\<lambda>s. prefix (tried @ [x]) qs \<longrightarrow> creation_inv g w planned (tried @ [x]) s) (createNode E x s)"
    proof (cases "prefix (tried @ [x]) qs")
      case True
      then obtain zs where qs: "qs = tried @ x # zs" by (auto simp: prefix_def)
      then obtain n where n: "heap w x = Some n" using nodes(1) [of x] by auto
      have inj: "inj_on (\<lambda>p. InstanceName (the (heap w p))) (insert x (set tried))"
        using nodes(3) by (rule inj_on_subset) (auto simp: qs)
      have "holds (creation_inv g w planned (tried @ [x])) (createNode E x s)"
        using I qs nodes(2) by (intro creation_step [OF _ _ n inj]) auto
      then show ?thesis by (rule holds_mono) simp
    next
      case False
      then show ?thesis by (simp add: holds_def split: go.splits)
    qed
  qed (use inv in simp)
  then show ?thesis by simp
qed

lemma creation_inv_mset:
  "creation_inv g w planned qs s \<Longrightarrow> mset qs = mset nodes \<Longrightarrow> creation_inv g w planned nodes s"
  by (auto simp: creation_inv_def Let_def dest: mset_eq_setD mset_eq_length split: prod.splits)

text \<open>The nodes are pending under their own names.\<close>

definition pending_nodes :: "group \<Rightarrow> addr list \<Rightarrow> bool" where
  "pending_nodes g ps \<longleftrightarrow> distinct ps \<and> (\<forall>p \<in> set ps. \<exists>name. gget (pendingNodes g) name = Some p)"

lemma pending_nodes_heap:
  assumes "group_inv g w" "pending_nodes g ps"
  shows "\<And>p. p \<in> set ps \<Longrightarrow> heap w p \<noteq> None"
    "inj_on (\<lambda>p. InstanceName (the (heap w p))) (set ps)"
proof -
  have h: "\<exists>n. heap w p = Some n \<and> gget (pendingNodes g) (InstanceName n) = Some p" if "p \<in> set ps" for p
    using assms that unfolding pending_nodes_def by (metis group_inv_pending)
  then show "\<And>p. p \<in> set ps \<Longrightarrow> heap w p \<noteq> None" by fastforce
  show "inj_on (\<lambda>p. InstanceName (the (heap w p))) (set ps)"
    using h by (intro inj_onI) (metis option.inject option.sel)
qed

lemma createNodes_establishes:
  assumes "createNodes E nodes g w = Ret ((created, err), g', w')"
    and "nodes \<noteq> []" "Status g = NodegroupCreated" "group_inv g w" "pending_nodes g nodes"
  shows "set created \<subseteq> set nodes \<and> distinct created \<and> (err = None \<longleftrightarrow> created \<noteq> []) \<and>
    Status g' = NodegroupCreated \<and> pendingNodesWG g' = pendingNodesWG g \<and>
    tally g' = tally g + int (length created) \<and>
    (let name = (\<lambda>p. InstanceName (the (heap w p)))
     in (\<forall>nm. gget (pendingNodes g') nm = (if nm \<in> name ` set nodes then None else gget (pendingNodes g) nm)) \<and>
        (\<forall>p \<in> set created. gget (Nodes g') (name p) = Some p \<and> (\<exists>n. heap w' p = Some n \<and> State n = Running)) \<and>
        (\<forall>nm. nm \<notin> name ` set created \<longrightarrow> gget (Nodes g') nm = gget (Nodes g) nm))"
proof -
  from createNodes_in_order [OF assms(2), of E g w] obtain qs j where qs: "mset qs = mset nodes"
    "createNodes E nodes g w = with_iters j (create_sequentially E qs g w)" by blast
  from qs(2) assms(1) obtain w1 where "create_sequentially E qs g w = Ret ((created, err), g', w1)"
    and w': "w' = w1\<lparr>iters := j\<rparr>"
    by (auto simp: with_iters_def split: prod.splits)
  then obtain k where fold: "gfold (createNode E) qs (([], 0), wg_Add (int (length qs)) g, w) = Ret ((created, k), g', w1)"
    and err: "err = (if Status g' \<noteq> NodegroupCreated
         then Some (Errorf ErrUnableToLaunchNodeGroupNotCreated [NodeGroupIdentifier g'])
         else if k = 0 then Some (Errorf ErrUnableToLaunchNodeGroup [NodeGroupIdentifier g']) else None)"
    by (auto simp: create_sequentially_def finish_creation_def Let_def split: prod.splits)
  have len: "length qs = length nodes" and set: "set qs = set nodes" and dist: "distinct qs"
    using qs(1) assms(5) mset_eq_imp_distinct_iff
    by (auto simp: pending_nodes_def dest: mset_eq_length mset_eq_setD)
  have start: "creation_inv g w (length qs) [] (([], 0), wg_Add (int (length qs)) g, w)"
    using assms(3) by (simp add: creation_inv_def wg_Add_def tally_def)
  have "creation_inv g w (length qs) qs ((created, k), g', w1)"
    using creation_loop [OF start, of qs E] pending_nodes_heap [OF assms(4,5)] dist set fold by auto
  then have "creation_inv g w (length nodes) nodes ((created, k), g', w1)"
    using creation_inv_mset qs(1) len by metis
  then show ?thesis
    unfolding creation_inv_def w' err by (auto simp: Let_def)
qed

section \<open>Properties\<close>


lemma sample_room: "targetSize sample_group + 2 \<le> MaxNodeSize sample_group"
  by (simp add: targetSize_def sample_group_defs)



lemma prepare_pending_nodes:
  assumes "prepareNodes E delta g w = Ret ((ps, None), g', w')" "no_orphans E" "creates_all E" "can_grow g"
    "group_inv g w" "0 < delta" "targetSize g + delta \<le> MaxNodeSize g"
  shows "pending_nodes g' ps \<and> group_inv g' w' \<and> int (length ps) = delta"
  using prepareNodes_delta [OF assms(2-7)] prepare.invariant [OF assms(5,1)] assms(1)
  by (auto simp: pending_nodes_def)


text \<open>A group whose index 0 is taken: the next index is 1; once all three are taken it is the
  one after the last created.\<close>

definition running_at :: "int list \<Rightarrow> group" where
  "running_at is = sample_group\<lparr>RunningNodes := Some (map (\<lambda>i. (i, ServerNodeStateRunning)) is)\<rparr>"



end
