(* ===== verification/NodeGroup_Shrink.thy ===== *)
theory NodeGroup_Shrink
  imports NodeGroup_Growth
begin

text \<open>
  How a node group shrinks: resizing it to a smaller size, deleting one node, cleaning the whole
  group.
\<close>

section \<open>Resizing\<close>

text \<open>The size of the slice that \<^verbatim>\<open>deleteNodes\<close> asks for is negative: the negation is applied twice.\<close>

theorem setNodeGroupSize_shrink_panics:
  assumes "newSize < targetSize g"
  shows "setNodeGroupSize E newSize False g w = Panic MakeSliceCap"
  using assms
  by (simp add: setNodeGroupSize_def deleteNodes_def prepareDeleteNodes_def Values_def iterate_def)

theorem setNodeGroupSize_shrink_panics_witness:
  "\<exists>g w. targetSize g = 1 \<and> setNodeGroupSize sample_env 0 False g w = Panic MakeSliceCap"
proof -
  have "targetSize (sample_group\<lparr>Nodes := Some [(''n'', 0)]\<rparr>) = 1"
    by (simp add: targetSize_def sample_group_defs glen_def)
  with setNodeGroupSize_shrink_panics [of 0 "sample_group\<lparr>Nodes := Some [(''n'', 0)]\<rparr>"]
  show ?thesis by (metis zero_less_one)
qed

lemma subseq_subset: "subseq xs ys \<Longrightarrow> set xs \<subseteq> set ys"
  by (induction rule: list_emb.induct) auto

lemma subseq_distinct: "subseq xs ys \<Longrightarrow> distinct ys \<Longrightarrow> distinct xs"
  by (induction rule: list_emb.induct) (auto dest: subseq_subset)

lemma prepare_delete_loop_bounds:
  "prepare_delete_loop ps delta acc w = Ret qs \<Longrightarrow> delta < 0 \<Longrightarrow>
   \<exists>rs. qs = acc @ rs \<and> subseq rs ps \<and> int (length rs) \<le> - delta \<and>
     (\<forall>p \<in> set rs. \<exists>n. heap w p = Some n \<and> NodeType n = NodeAutoscaled)"
proof (induction ps arbitrary: delta acc)
  case (Cons p ps)
  from Cons.prems(1) obtain n where n: "heap w p = Some n"
    by (auto simp: load_def split: option.splits)
  consider (own_last) "NodeType n = NodeAutoscaled" "delta + 1 = 0"
    | (own) "NodeType n = NodeAutoscaled" "delta + 1 < 0" | (other) "NodeType n \<noteq> NodeAutoscaled"
    using Cons.prems(2) by linarith
  then show ?case
  proof cases
    case own_last
    with Cons.prems n show ?thesis by (auto simp: load_def intro!: exI [of _ "[p]"])
  next
    case own
    with Cons.prems n have "prepare_delete_loop ps (delta + 1) (acc @ [p]) w = Ret qs"
      by (simp add: load_def)
    from Cons.IH [OF this own(2)] obtain rs where "qs = (acc @ [p]) @ rs" "subseq rs ps"
      "int (length rs) \<le> - (delta + 1)" "\<forall>p \<in> set rs. \<exists>n. heap w p = Some n \<and> NodeType n = NodeAutoscaled"
      by blast
    with own n show ?thesis by (intro exI [of _ "p # rs"]) auto
  next
    case other
    with Cons.prems n have "prepare_delete_loop ps delta acc w = Ret qs"
      by (simp add: load_def)
    from Cons.IH [OF this Cons.prems(2)] show ?thesis by auto
  qed
qed auto

text \<open>
  What \<^verbatim>\<open>prepareDeleteNodes\<close> selects when it returns: pending nodes of the autoscaler only, at most
  as many as asked for, and never all of them, since the loop stops before the first one.
\<close>

text \<open>C14: prepareDeleteNodes selects distinct pending nodes provisioned by the autoscaler, at most as many as asked, and never all of the pending nodes: the first is never considered.\<close>

theorem prepareDeleteNodes_bounds:
  assumes "prepareDeleteNodes E delta g w = Ret (ps, w')" and "delta < 0" "group_inv g w"
  shows "distinct ps \<and> int (length ps) \<le> - delta \<and>
    (\<forall>p \<in> set ps. (\<exists>name. gget (pendingNodes g) name = Some p) \<and>
       (\<exists>n. heap w p = Some n \<and> NodeType n = NodeAutoscaled)) \<and>
    (0 < glen (pendingNodes g) \<longrightarrow> int (length ps) < glen (pendingNodes g))"
proof -
  let ?vs = "reorder (order E (iters w)) (gvals (pendingNodes g))"
  from assms(1,2) have "prepare_delete_loop (rev (drop 1 ?vs)) delta [] (w\<lparr>iters := Suc (iters w)\<rparr>) = Ret ps"
    by (auto simp: prepareDeleteNodes_def Values_def iterate_def split: if_splits)
  from prepare_delete_loop_bounds [OF this assms(2)]
  have ps: "subseq ps (rev (drop 1 ?vs))" "int (length ps) \<le> - delta"
    "\<forall>p \<in> set ps. \<exists>n. heap w p = Some n \<and> NodeType n = NodeAutoscaled"
    by auto
  have inv: "gwf (pendingNodes g)" using assms(3) by (simp add: group_inv_def)
  have keys: "inj_on snd (set (gentries (pendingNodes g)))"
  proof (rule inj_onI)
    fix x y assume xy: "x \<in> set (gentries (pendingNodes g))" "y \<in> set (gentries (pendingNodes g))" "snd x = snd y"
    have "gget (pendingNodes g) (fst z) = Some (snd z)" if "z \<in> set (gentries (pendingNodes g))" for z
      using inv that by (simp add: gget_def gwf_def)
    with xy have "gget (pendingNodes g) (fst x) = Some (snd x)" "gget (pendingNodes g) (fst y) = Some (snd x)"
      by metis+
    then have "fst x = fst y" using group_inv_pending [OF assms(3)] by (metis option.inject)
    with xy(3) show "x = y" by (simp add: prod_eq_iff)
  qed
  have "distinct (gentries (pendingNodes g))"
    using inv by (simp add: gwf_def distinct_map)
  with keys have "distinct ?vs" by (simp add: gvals_def distinct_map)
  then have "distinct (rev (drop 1 ?vs))" by (simp add: distinct_drop)
  then have "distinct ps" using ps(1) by (blast intro: subseq_distinct distinct_drop)
  moreover have "set ps \<subseteq> set ?vs" 
    using subseq_subset [OF ps(1)] set_drop_subset [of 1 ?vs] by (auto simp del: set_reorder)
  moreover have "length ps \<le> length (gvals (pendingNodes g)) - 1"
    using list_emb_length [OF ps(1)] by simp
  ultimately show ?thesis
    using ps(2,3) length_gvals [of "pendingNodes g"] gvals_lookup [OF inv] by auto
qed

definition pending_pair :: group where
  "pending_pair = sample_group\<lparr>pendingNodes := Some [(''g-autoscaled-01'', 0), (''g-autoscaled-02'', 1)]\<rparr>"

definition pair_world :: world where
  "pair_world = empty_world\<lparr>heap := [0 \<mapsto> sample_node, 1 \<mapsto> sample_node\<lparr>InstanceName := ''g-autoscaled-02''\<rparr>], fresh := 2\<rparr>"

lemma pending_pair_inv: "group_inv pending_pair pair_world"
  by (auto simp: group_inv_def pending_pair_def pair_world_def sample_group_defs empty_world_def heap_wf_def
      gwf_def gget_def sample_node_def split: if_splits)

theorem prepareDeleteNodes_bounds_witness:
  "\<exists>ps w'. prepareDeleteNodes sample_env (-2) pending_pair pair_world = Ret (ps, w') \<and> length ps < 2"
proof -
  have "yields (\<lambda>(ps, w'). True) (prepareDeleteNodes sample_env (-2) pending_pair pair_world)" by code_simp
  then obtain ps w' where r: "prepareDeleteNodes sample_env (-2) pending_pair pair_world = Ret (ps, w')"
    by (auto simp: yields_iff)
  have "glen (pendingNodes pending_pair) = 2" by (simp add: pending_pair_def glen_def)
  with prepareDeleteNodes_bounds [OF r _ pending_pair_inv] r show ?thesis by simp
qed

section \<open>Deleting one node\<close>

lemma deleteVM_deleted: "deleteVM E (n, h) = Ret (None, n', h') \<Longrightarrow> State n' = Deleted"
  by (auto simp: deleteVM_def split: option.splits)

text \<open>
  A control plane node is never deleted. For every other node the deletion may fail; the group
  forgets the node under the name of its instance all the same, and no other name changes.
\<close>

lemma deleteNode_effect:
  assumes "deleteNode E p g w = Ret (err, g', w')" "heap w p = Some n"
  shows "if ControlPlaneNode n
    then err = Some (Errorf ErrUnableToDeleteControlPlaneNode [NodeName n]) \<and> g' = g \<and> w' = w
    else run_vm (deleteVM E) p w = Ret (err, w') \<and>
      (\<exists>n'. heap w' p = Some n' \<and> (err = None \<longrightarrow> State n' = Deleted)) \<and>
      (\<forall>q. q \<noteq> p \<longrightarrow> heap w' q = heap w q) \<and>
      gget (RunningNodes g') (NodeIndex n) = Some ServerNodeStateDeleted \<and>
      findNamedNode g' (InstanceName n) = None \<and>
      (\<forall>name. name \<noteq> InstanceName n \<longrightarrow> findNamedNode g' name = findNamedNode g name) \<and>
      tally g' = tally g - 1 \<and> numOfExternalNodes g' = numOfExternalNodes g"
proof (cases "ControlPlaneNode n")
  case True
  with assms show ?thesis by (simp add: deleteNode_def load_def)
next
  case False
  with assms obtain w1 where r: "run_vm (deleteVM E) p w = Ret (err, w1)" and w: "w' = w1"
    by (auto simp: deleteNode_def load_def Let_def)
  with assms(2) obtain n' where n': "heap w' p = Some n'" "err = None \<longrightarrow> State n' = Deleted"
    by (cases err) (auto simp: run_vm_def load_def store_def dest: deleteVM_deleted)
  have other: "q \<noteq> p \<Longrightarrow> heap w' q = heap w q" for q using run_vm_other [OF r] w by blast
  have gw: "gget (RunningNodes g') (NodeIndex n) = Some ServerNodeStateDeleted \<and>
      findNamedNode g' (InstanceName n) = None \<and>
      (\<forall>name. name \<noteq> InstanceName n \<longrightarrow> findNamedNode g' name = findNamedNode g name) \<and>
      tally g' = tally g - 1 \<and> numOfExternalNodes g' = numOfExternalNodes g"
    using assms False r
    by (auto simp: deleteNode_def load_def Let_def set_running_def gput_Ret removeNamedNode_def
        findNamedNode_def tally_def split: if_splits option.splits)
  with n' other r w False show ?thesis by auto
qed

text \<open>C12: deleteNode refuses a control plane node and changes nothing; of any other node it runs the deletion of the machine and returns its error, drops the entry under the instance name of the machine and no other (a node known under another name stays), marks its index as deleted, changes no other machine and decrements the counters by one, whether or not the deletion of the machine succeeded.\<close>

theorem deleteNode_outcome:
  assumes "deleteNode E p g w = Ret (err, g', w')" "heap w p = Some n"
  shows "if ControlPlaneNode n
    then err = Some (Errorf ErrUnableToDeleteControlPlaneNode [NodeName n]) \<and> g' = g \<and> w' = w
    else run_vm (deleteVM E) p w = Ret (err, w') \<and>
      (\<exists>n'. heap w' p = Some n' \<and> (err = None \<longrightarrow> State n' = Deleted)) \<and>
      (\<forall>q. q \<noteq> p \<longrightarrow> heap w' q = heap w q) \<and>
      gget (RunningNodes g') (NodeIndex n) = Some ServerNodeStateDeleted \<and>
      findNamedNode g' (InstanceName n) = None \<and>
      (\<forall>name. name \<noteq> InstanceName n \<longrightarrow> findNamedNode g' name = findNamedNode g name) \<and>
      tally g' = tally g - 1 \<and> numOfExternalNodes g' = numOfExternalNodes g"
  using assms by (rule deleteNode_effect)

theorem deleteNode_outcome_witness:
  "\<exists>g' w'. deleteNode sample_env 0 pending_pair pair_world = Ret (None, g', w') \<and>
     findNamedNode g' ''g-autoscaled-01'' = None \<and> findNamedNode g' ''g-autoscaled-02'' = Some 1"
proof -
  have "yields (\<lambda>(e, g', w'). e = None) (deleteNode sample_env 0 pending_pair pair_world)" by code_simp
  then obtain g' w' where r: "deleteNode sample_env 0 pending_pair pair_world = Ret (None, g', w')"
    by (auto simp: yields_iff)
  have n: "heap pair_world 0 = Some sample_node" by (simp add: pair_world_def)
  have "findNamedNode pending_pair ''g-autoscaled-02'' = Some 1"
    by (simp add: findNamedNode_def pending_pair_def sample_group_defs gget_def)
  with deleteNode_outcome [OF r n] r show ?thesis by (auto simp: sample_node_def)
qed

text \<open>
  A discovered node is registered under its Kubernetes name. When this is not the name of its
  instance, deleting it by name succeeds but the group still knows it.
\<close>

theorem deleteNodeByName_stale:
  assumes "deleteNodeByName E name g w = Ret (None, g', w')" and "findNamedNode g name = Some p"
    and "heap w p = Some n" "\<not> ControlPlaneNode n" "InstanceName n \<noteq> name"
  shows "findNamedNode g' name = Some p \<and> (\<exists>n'. heap w' p = Some n' \<and> State n' = Deleted)"
  using deleteNode_effect [of E p g w None g' w' n] assms by (auto simp: deleteNodeByName_def)

theorem deleteNodeByName_stale_witness:
  "\<exists>g w g' w'. deleteNodeByName sample_env ''ip-10-0-0-1'' g w = Ret (None, g', w') \<and>
     findNamedNode g' ''ip-10-0-0-1'' = Some 0"
proof -
  let ?g = "sample_group\<lparr>Nodes := Some [(''ip-10-0-0-1'', 0)]\<rparr>"
  have "yields (\<lambda>(e, g', w'). e = None) (deleteNodeByName sample_env ''ip-10-0-0-1'' ?g pair_world)" by code_simp
  then obtain g' w' where r: "deleteNodeByName sample_env ''ip-10-0-0-1'' ?g pair_world = Ret (None, g', w')"
    by (auto simp: yields_iff)
  have "findNamedNode ?g ''ip-10-0-0-1'' = Some 0" "heap pair_world 0 = Some sample_node"
    "\<not> ControlPlaneNode sample_node" "InstanceName sample_node \<noteq> ''ip-10-0-0-1''"
    by (simp_all add: findNamedNode_def gget_def pair_world_def sample_node_def)
  from deleteNodeByName_stale [OF r this] r show ?thesis by blast
qed

section \<open>Cleaning the group\<close>

lemma cleanup_one_others:
  assumes "cleanup_one E p (e, w) = Ret (e', w')" "heap w q = Some n" "NodeType n \<noteq> NodeAutoscaled"
  shows "heap w' q = Some n"
proof -
  from assms(1) obtain m where m: "heap w p = Some m"
    by (auto simp: cleanup_one_def load_def split: option.splits)
  show ?thesis
  proof (cases "NodeType m = NodeAutoscaled")
    case True
    with m assms(1) obtain r where "run_vm (deleteVM E) p w = Ret (r, w')"
      by (auto simp: cleanup_one_def load_def split: option.splits if_splits)
    moreover have "q \<noteq> p" using True m assms(2,3) by auto
    ultimately show ?thesis using assms(2) run_vm_other by metis
  next
    case False
    with m assms show ?thesis by (simp add: cleanup_one_def load_def)
  qed
qed

lemma cleanup_effect:
  assumes "cleanup E g w = Ret (err, g', w')"
  shows "Status g' = NodegroupDeleted \<and> targetSize g' = 0 \<and> initialised g' \<and> tally g' = 0 \<and>
    numOfExternalNodes g' = 0 \<and> numOfControlPlanes g' = 0 \<and> pendingNodesWG g' \<le> 0 \<and>
    (\<forall>q n. heap w q = Some n \<and> NodeType n \<noteq> NodeAutoscaled \<longrightarrow> heap w' q = Some n)"
proof -
  obtain ps w1 where ps: "AllNodes E (g\<lparr>Status := NodegroupDeleting\<rparr>) w = (ps, w1)" by fastforce
  with assms have wg: "pendingNodesWG g \<le> 0"
    and fold: "gfold (cleanup_one E) ps (None, w1) = Ret (err, w')"
    and g': "g' = g\<lparr>RunningNodes := gmake, Nodes := gmake, pendingNodes := gmake,
                   numOfControlPlanes := 0, numOfExternalNodes := 0, numOfManagedNodes := 0,
                   numOfProvisionnedNodes := 0, Status := NodegroupDeleted\<rparr>"
    by (auto simp: cleanup_def wg_Wait_def split: if_splits)
  have w1: "heap w1 = heap w" using ps by (auto simp: AllNodes_def Values_def iterate_def)
  have "holds (\<lambda>(e, w'). \<forall>q n. heap w q = Some n \<and> NodeType n \<noteq> NodeAutoscaled \<longrightarrow> heap w' q = Some n)
      (gfold (cleanup_one E) ps (None, w1))"
  proof (rule gfold_holds)
    fix p and s :: "error option \<times> world"
    assume I: "case s of (e, w') \<Rightarrow> \<forall>q n. heap w q = Some n \<and> NodeType n \<noteq> NodeAutoscaled \<longrightarrow> heap w' q = Some n"
    obtain e w2 where s: "s = (e, w2)" by (cases s)
    show "holds (\<lambda>(e, w'). \<forall>q n. heap w q = Some n \<and> NodeType n \<noteq> NodeAutoscaled \<longrightarrow> heap w' q = Some n)
        (cleanup_one E p s)"
      unfolding s by (rule holdsI) (use I s in \<open>auto dest: cleanup_one_others\<close>)
  qed (simp add: w1)
  with fold wg g' show ?thesis by (auto simp: targetSize_def initialised_def tally_def)
qed

text \<open>C13: Cleaning a group up leaves it deleted, empty, with every counter at zero, and touches no machine that the autoscaler has not provisioned itself, whatever errors the deletions return.\<close>

theorem cleanup_outcome:
  assumes "cleanup E g w = Ret (err, g', w')"
  shows "Status g' = NodegroupDeleted \<and> targetSize g' = 0 \<and> initialised g' \<and> tally g' = 0 \<and>
    numOfExternalNodes g' = 0 \<and> numOfControlPlanes g' = 0 \<and> pendingNodesWG g' \<le> 0 \<and>
    (\<forall>q n. heap w q = Some n \<and> NodeType n \<noteq> NodeAutoscaled \<longrightarrow> heap w' q = Some n)"
  using assms by (rule cleanup_effect)

theorem cleanup_outcome_witness:
  "\<exists>g' w'. cleanup sample_env pending_pair pair_world = Ret (None, g', w') \<and> targetSize g' = 0"
proof -
  have "yields (\<lambda>(e, g', w'). e = None) (cleanup sample_env pending_pair pair_world)" by code_simp
  then obtain g' w' where "cleanup sample_env pending_pair pair_world = Ret (None, g', w')"
    by (auto simp: yields_iff)
  with cleanup_outcome show ?thesis by blast
qed

end
