(* ===== verification/NodeGroup_Discovery.thy ===== *)
theory NodeGroup_Discovery
  imports NodeGroup_Shrink
begin

text \<open>
  How a node group is rebuilt from the nodes of the cluster: which nodes join it, how they are
  counted, and that the annotations written when a machine was launched describe the machine
  that is discovered from them.
\<close>

section \<open>Which nodes join the group\<close>

text \<open>A node of the cluster that belongs to the group.\<close>

definition belongs :: "string \<Rightarrow> bool \<Rightarrow> knode \<Rightarrow> bool" where
  "belongs identifier includeExistingNode k \<longleftrightarrow>
     gget (k_Annotations k) AnnotationNodeGroupName = Some identifier \<and>
     (annotation_bool k AnnotationNodeAutoProvisionned \<or> includeExistingNode) \<and>
     gget (k_Annotations k) AnnotationInstanceName \<noteq> None"

definition counted :: "group \<Rightarrow> int" where
  "counted g = tally g + numOfExternalNodes g"

lemma count_discovered_simps [simp]:
  "Nodes (count_discovered k g) = Nodes g" "NodeGroupIdentifier (count_discovered k g) = NodeGroupIdentifier g"
  "pendingNodes (count_discovered k g) = pendingNodes g" "RunningNodes (count_discovered k g) = RunningNodes g"
  "counted (count_discovered k g) = counted g + 1"
  by (simp_all add: count_discovered_def counted_def tally_def Let_def)

lemma counted_updates [simp]:
  "counted (g\<lparr>Nodes := m\<rparr>) = counted g" "counted (g\<lparr>RunningNodes := r\<rparr>) = counted g"
  "counted (g\<lparr>LastCreatedNodeIndex := i\<rparr>) = counted g"
  by (simp_all add: counted_def tally_def)

lemma discover_attach_effect:
  assumes "discover_attach E former k name i u crd g w = Ret (i', g', w')"
  shows "NodeGroupIdentifier g' = NodeGroupIdentifier g \<and> pendingNodes g' = pendingNodes g \<and>
    (Nodes g' = Nodes g \<and> counted g' = counted g \<or>
     (\<exists>a. Nodes g' = gset (k_Name k) a (Nodes g) \<and> counted g' = counted g + 1))"
  using assms
  by (cases "wask (ans_handler E) (Provider (AttachInstance name (is_control_plane k) i)) w")
    (auto simp: discover_attach_def set_running_def gput_Ret split: sum.splits)

lemma discover_instance_effect:
  assumes "discover_instance E former k name i g w = Ret (i', g', w')"
  shows "NodeGroupIdentifier g' = NodeGroupIdentifier g \<and> pendingNodes g' = pendingNodes g \<and>
    (Nodes g' = Nodes g \<and> counted g' = counted g \<or>
     (\<exists>a. Nodes g' = gset (k_Name k) a (Nodes g) \<and> counted g' = counted g + 1))"
  using assms
  by (auto simp: discover_instance_def Let_def dest!: discover_attach_effect)

lemma discover_one_effect:
  assumes "discover_one E former b k (i, g, w) = Ret (i', g', w')"
  shows "NodeGroupIdentifier g' = NodeGroupIdentifier g \<and> pendingNodes g' = pendingNodes g \<and>
    (Nodes g' = Nodes g \<and> counted g' = counted g \<or>
     (\<exists>a. Nodes g' = gset (k_Name k) a (Nodes g) \<and> counted g' = counted g + 1 \<and>
        belongs (NodeGroupIdentifier g) b k))"
  using assms discover_instance_effect
  by (auto simp: discover_one_def belongs_def split: option.splits if_splits)

definition discovery_inv :: "string \<Rightarrow> bool \<Rightarrow> knode list \<Rightarrow> int \<times> group \<times> world \<Rightarrow> bool" where
  "discovery_inv identifier b seen s \<longleftrightarrow>
     (let (i, g, w) = s
      in NodeGroupIdentifier g = identifier \<and> pendingNodes g = gmake \<and> gwf (Nodes g) \<and>
         (\<forall>name \<in> gkeys (Nodes g). \<exists>k \<in> set seen. k_Name k = name \<and> belongs identifier b k) \<and>
         (distinct (map k_Name seen) \<longrightarrow> glen (Nodes g) = counted g))"

lemma discovery_step:
  assumes "discovery_inv identifier b seen s"
  shows "holds (discovery_inv identifier b (seen @ [k])) (discover_one E former b k s)"
proof (rule holdsI)
  fix t assume r: "discover_one E former b k s = Ret t"
  obtain i g w where s: "s = (i, g, w)" by (metis prod.collapse)
  obtain i' g' w' where t: "t = (i', g', w')" by (metis prod.collapse)
  from discover_one_effect [OF r [unfolded s t]] consider
    (same) "Nodes g' = Nodes g" "counted g' = counted g"
    | (joined) a where "Nodes g' = gset (k_Name k) a (Nodes g)" "counted g' = counted g + 1"
        "belongs (NodeGroupIdentifier g) b k"
    by blast
  then show "discovery_inv identifier b (seen @ [k]) t"
  proof cases
    case same
    with assms discover_one_effect [OF r [unfolded s t]] show ?thesis
      by (auto simp: discovery_inv_def s t)
  next
    case joined
    have "\<forall>name \<in> gkeys (Nodes g). \<exists>k \<in> set seen. k_Name k = name"
      using assms by (auto simp: discovery_inv_def s)
    then have "gkeys (Nodes g) \<subseteq> k_Name ` set seen" by (intro subsetI) (drule (1) bspec, erule bexE, hypsubst, rule imageI)
    then have "k_Name k \<notin> gkeys (Nodes g)" if "distinct (map k_Name (seen @ [k]))"
      using that by auto
    then have "gget (Nodes g) (k_Name k) = None" if "distinct (map k_Name (seen @ [k]))"
      using that by (simp add: gm.keys_lookup)
    with joined assms discover_one_effect [OF r [unfolded s t]] show ?thesis
      by (auto simp: discovery_inv_def s t gm.size_store)
  qed
qed

text \<open>C11: After discovery every node of the group is a node of the cluster annotated with the group (and provisioned by the autoscaler, unless existing nodes are included), no node is pending, and with distinct node names the counters add up to the number of nodes.\<close>

theorem autoDiscoveryNodes_members:
  assumes "autoDiscoveryNodes E b g w = Ret (Inr former, g', w')"
  shows "\<exists>ks. ans_nodes E (Client NodeList # trace w) = Inr ks \<and> former = Nodes g \<and> pendingNodes g' = gmake \<and>
    (\<forall>name p. gget (Nodes g') name = Some p \<longrightarrow>
       (\<exists>k \<in> set ks. k_Name k = name \<and> belongs (NodeGroupIdentifier g) b k)) \<and>
    (distinct (map k_Name ks) \<longrightarrow>
       glen (Nodes g') = numOfProvisionnedNodes g' + numOfManagedNodes g' + numOfExternalNodes g')"
proof -
  let ?g = "g\<lparr>Nodes := gmake, pendingNodes := gmake, RunningNodes := gmake,
      LastCreatedNodeIndex := 0, numOfExternalNodes := 0, numOfManagedNodes := 0,
      numOfProvisionnedNodes := 0, numOfControlPlanes := 0\<rparr>"
  let ?w = "w\<lparr>trace := Client NodeList # trace w\<rparr>"
  from assms obtain ks i where ks: "ans_nodes E (Client NodeList # trace w) = Inr ks" "former = Nodes g"
    "gfold (discover_one E (Nodes g) b) ks (0, ?g, ?w) = Ret (i, g', w')"
    by (auto simp: autoDiscoveryNodes_def wask_def ask_def Let_def split: sum.splits)
  have "holds (discovery_inv (NodeGroupIdentifier g) b ([] @ ks)) (gfold (discover_one E (Nodes g) b) ks (0, ?g, ?w))"
    by (rule gfold_holds_seen, erule discovery_step)
      (simp add: discovery_inv_def counted_def tally_def)
  with ks(3) have "discovery_inv (NodeGroupIdentifier g) b ks (i, g', w')" by simp
  then have "pendingNodes g' = gmake"
    "\<forall>name p. gget (Nodes g') name = Some p \<longrightarrow> (\<exists>k \<in> set ks. k_Name k = name \<and> belongs (NodeGroupIdentifier g) b k)"
    "distinct (map k_Name ks) \<longrightarrow> glen (Nodes g') = counted g'"
    by (auto simp: discovery_inv_def gm.keys_lookup)
  with ks show ?thesis by (simp add: counted_def tally_def)
qed

section \<open>The annotations describe the machine\<close>

text \<open>A node of the cluster as the launch of the machine \<open>n\<close> annotated it.\<close>

definition described_by :: "knode \<Rightarrow> node \<Rightarrow> bool" where
  "described_by k n \<longleftrightarrow>
     k_Name k = NodeName n \<and>
     k_Annotations k = MergeKubernetesLabel [node_annotations n, ExtraAnnotations n]"

text \<open>The extra annotations do not use the keys of the autoscaler.\<close>

definition reserved_keys :: "string list" where
  "reserved_keys = [AnnotationNodeGroupName, AnnotationScaleDownDisabled, AnnotationNodeAutoProvisionned,
     AnnotationNodeManaged, AnnotationNodeIndex, AnnotationInstanceName, AnnotationInstanceID]"

lemmas annotation_defs = AnnotationNodeGroupName_def AnnotationScaleDownDisabled_def
  AnnotationNodeAutoProvisionned_def AnnotationNodeManaged_def AnnotationNodeIndex_def
  AnnotationInstanceName_def AnnotationInstanceID_def

lemma node_annotations_wf: "gwf (node_annotations n)"
  by (simp add: node_annotations_def gwf_def annotation_defs)

lemma described_annotation:
  assumes "described_by k n" "gwf (ExtraAnnotations n)" "key \<in> set reserved_keys"
    "\<forall>key \<in> set reserved_keys. gget (ExtraAnnotations n) key = None"
  shows "gget (k_Annotations k) key = gget (node_annotations n) key"
  using assms MergeKubernetesLabel_snoc [of "node_annotations n" "[]" key]
    MergeKubernetesLabel_snoc [of "ExtraAnnotations n" "[node_annotations n]" key] node_annotations_wf [of n]
  by (auto simp: described_by_def split: option.splits)

lemma node_annotations_lookup:
  "gget (node_annotations n) AnnotationNodeGroupName = Some (NodeGroup n)"
  "gget (node_annotations n) AnnotationNodeAutoProvisionned = Some (FormatBool (NodeType n = NodeAutoscaled))"
  "gget (node_annotations n) AnnotationNodeManaged = Some (FormatBool (NodeType n = NodeManaged))"
  "gget (node_annotations n) AnnotationNodeIndex = Some (Itoa (NodeIndex n))"
  "gget (node_annotations n) AnnotationInstanceName = Some (InstanceName n)"
  "gget (node_annotations n) AnnotationInstanceID = Some (VMUUID n)"
  by (simp_all add: node_annotations_def gget_def annotation_defs)

lemma described_type:
  assumes "described_by k n" "gwf (ExtraAnnotations n)"
    "\<forall>key \<in> set reserved_keys. gget (ExtraAnnotations n) key = None"
  shows "discovered_type k = NodeType n"
proof -
  have "annotation_bool k AnnotationNodeAutoProvisionned = (NodeType n = NodeAutoscaled)"
    "annotation_bool k AnnotationNodeManaged = (NodeType n = NodeManaged)"
    using described_annotation [OF assms(1,2) _ assms(3)]
    by (simp_all add: annotation_bool_def reserved_keys_def node_annotations_lookup ParseBool_FormatBool)
  then show ?thesis by (cases "NodeType n") (simp_all add: discovered_type_def)
qed

lemma statusVM_keeps_UUID: "VMUUID (fst (snd (statusVM E n h))) = VMUUID n"
  by (auto simp: statusVM_def Let_def split: prod.splits option.splits)

lemma node_statusVM_keeps:
  assumes "node_statusVM E a w = Ret (r, w')" "heap w a = Some m"
  shows "\<exists>m'. heap w' a = Some m' \<and> same_names m m' \<and> VMUUID m' = VMUUID m"
proof -
  obtain st m1 h where s: "statusVM E m (trace w) = (st, m1, h)" by (metis prod.collapse)
  with assms have "w' = (store a m1 w)\<lparr>trace := h\<rparr>"
    by (auto simp: node_statusVM_def run_vm_def load_def)
  moreover have "same_names m m1"
    using statusVM_frame [OF s, of "(m, trace w)"] by (auto simp: vm_frame_def same_identity_names)
  moreover have "VMUUID m1 = VMUUID m" using statusVM_keeps_UUID [of E m "trace w"] s by simp
  ultimately show ?thesis by (simp add: store_def)
qed

lemma networkInfos_keeps:
  "run_vm (\<lambda>s. Ret (retrieveNetworkInfos E s)) a w = Ret (r, w') \<Longrightarrow> heap w a = Some m \<Longrightarrow> heap w' a = Some m"
  by (auto simp: run_vm_def load_def store_def retrieveNetworkInfos_def Let_def ask_def)

text \<open>A machine without a former node gets a node built from the annotations.\<close>

lemma discover_attach_new:
  assumes "discover_attach E None k name i u crd g w = Ret (i', g', w')"
    and "ans_handler E (Provider (AttachInstance name (is_control_plane k) i) # trace w) = Inr p"
  shows "\<exists>a m. gget (Nodes g') (k_Name k) = Some a \<and> heap w' a = Some m \<and>
    same_names (discovered_node g k i name u crd p) m \<and> VMUUID m = u \<and>
    gget (RunningNodes g') i = Some ServerNodeStateRunning"
proof -
  let ?w = "w\<lparr>trace := Provider (AttachInstance name (is_control_plane k) i) # trace w\<rparr>"
  from assms obtain a w1 e w2 r where
    d: "discovered_addr E None k name i u crd p g ?w = Ret (a, w1)"
    and net: "run_vm (\<lambda>s. Ret (retrieveNetworkInfos E s)) a w1 = Ret (e, w2)"
    and st: "node_statusVM E a w2 = Ret (r, w')"
    and g': "gget (Nodes g') (k_Name k) = Some a" "gget (RunningNodes g') i = Some ServerNodeStateRunning"
    by (auto simp: discover_attach_def wask_def ask_def set_running_def gput_Ret)
  have "heap w1 a = Some (discovered_node g k i name u crd p)"
    using d by (auto simp: discovered_addr_def alloc_def wask_def ask_def)
  with net have "heap w2 a = Some (discovered_node g k i name u crd p)" by (rule networkInfos_keeps)
  from node_statusVM_keeps [OF st this] g' show ?thesis by (auto simp: discovered_node_def)
qed

text \<open>
  The round trip: the node discovered from the labels and annotations that the launch of a machine
  wrote has the names, the index, the type, the role and the instance identifier of that machine.
\<close>

text \<open>C10: Reading back a node of the cluster that carries the annotations and labels the launch of a machine wrote recovers the group, the names, the index, the type and the identifier of that machine, takes its control plane flag from the role labels of the node, and marks its index as running; provided that the extra annotations of the machine use no reserved key, its index fits in 64 bits, the group is this one, a machine that is not autoscaled is only read when existing nodes are included, no former node has its instance name, and the provider attaches the machine.\<close>

theorem discovery_roundtrip:
  assumes "described_by k n" "gwf (ExtraAnnotations n)"
    and "\<forall>key \<in> set reserved_keys. gget (ExtraAnnotations n) key = None"
    and "- (2 ^ 63) \<le> NodeIndex n" "NodeIndex n < 2 ^ 63"
    and "NodeGroup n = NodeGroupIdentifier g" "NodeType n = NodeAutoscaled \<or> b"
    and "gget former (InstanceName n) = None"
    and "ans_handler E (Provider (AttachInstance (InstanceName n) (is_control_plane k) (NodeIndex n)) # trace w) = Inr p"
    and "discover_one E former b k (i, g, w) = Ret (i', g', w')"
  shows "\<exists>a m. gget (Nodes g') (NodeName n) = Some a \<and> heap w' a = Some m \<and>
    NodeGroup m = NodeGroup n \<and> NodeName m = NodeName n \<and> NodeIndex m = NodeIndex n \<and>
    InstanceName m = InstanceName n \<and> NodeType m = NodeType n \<and>
    ControlPlaneNode m = is_control_plane k \<and> VMUUID m = VMUUID n \<and>
    gget (RunningNodes g') (NodeIndex n) = Some ServerNodeStateRunning"
proof -
  note look = described_annotation [OF assms(1,2) _ assms(3)]
  have ann: "gget (k_Annotations k) AnnotationNodeGroupName = Some (NodeGroup n)"
    "gget (k_Annotations k) AnnotationInstanceName = Some (InstanceName n)"
    "gget (k_Annotations k) AnnotationInstanceID = Some (VMUUID n)"
    "gget (k_Annotations k) AnnotationNodeIndex = Some (Itoa (NodeIndex n))"
    "annotation_bool k AnnotationNodeAutoProvisionned = (NodeType n = NodeAutoscaled)"
    using look by (simp_all add: reserved_keys_def node_annotations_lookup annotation_bool_def)
  have index: "discovered_index k i = NodeIndex n"
    using ann(4) assms(4,5) by (simp add: discovered_index_def Atoi_Itoa)
  have k: "k_Name k = NodeName n"
    using assms(1) by (simp add: described_by_def)
  let ?g = "g\<lparr>LastCreatedNodeIndex := MaxInt (LastCreatedNodeIndex g) (NodeIndex n)\<rparr>"
  have "discover_attach E None k (InstanceName n) (NodeIndex n) (VMUUID n) (discovered_owner k) ?g w = Ret (i', g', w')"
    using assms(6-8,10) ann index by (auto simp: discover_one_def discover_instance_def Let_def)
  from discover_attach_new [OF this, of p] assms(9) k obtain a m where
    "gget (Nodes g') (NodeName n) = Some a" "heap w' a = Some m"
    "same_names (discovered_node ?g k (NodeIndex n) (InstanceName n) (VMUUID n) (discovered_owner k) p) m"
    "VMUUID m = VMUUID n" "gget (RunningNodes g') (NodeIndex n) = Some ServerNodeStateRunning"
    by auto
  then show ?thesis
    using described_type [OF assms(1-3)] k assms(6) by (auto simp: same_names_def discovered_node_def)
qed

definition described_knode :: knode where
  "described_knode = sample_knode\<lparr>k_Name := NodeName sample_node,
     k_Annotations := MergeKubernetesLabel [node_annotations sample_node, ExtraAnnotations sample_node]\<rparr>"

theorem discovery_roundtrip_witness:
  "\<exists>g' w' a m. discover_one sample_env None False described_knode (0, sample_group, empty_world) = Ret (1, g', w') \<and>
     gget (Nodes g') (NodeName sample_node) = Some a \<and> heap w' a = Some m \<and> NodeType m = NodeAutoscaled"
proof -
  have "yields (\<lambda>(i, g', w'). i = 1) (discover_one sample_env None False described_knode (0, sample_group, empty_world))"
    by code_simp
  then obtain g' w' where r: "discover_one sample_env None False described_knode (0, sample_group, empty_world) = Ret (1, g', w')"
    by (auto simp: yields_iff)
  have d: "described_by described_knode sample_node"
    by (simp add: described_by_def described_knode_def sample_knode_def sample_node_def)
  have n: "gwf (ExtraAnnotations sample_node)"
    "\<forall>key \<in> set reserved_keys. gget (ExtraAnnotations sample_node) key = None"
    "- (2 ^ 63) \<le> NodeIndex sample_node" "NodeIndex sample_node < 2 ^ 63"
    "NodeGroup sample_node = NodeGroupIdentifier sample_group"
    "NodeType sample_node = NodeAutoscaled \<or> False" "gget None (InstanceName sample_node) = None"
    by (simp_all add: sample_node_def sample_group_defs)
  have a: "ans_handler sample_env c = Inr 1" for c by (simp add: sample_env_def)
  have "NodeType sample_node = NodeAutoscaled" by (simp add: sample_node_def)
  moreover obtain x m where "gget (Nodes g') (NodeName sample_node) = Some x" "heap w' x = Some m"
    "NodeType m = NodeType sample_node"
    using discovery_roundtrip [OF d n a r] by blast
  ultimately show ?thesis using r by metis
qed

text \<open>A node of the group that carries no instance identifier and that the group did not know stops
  the server: the code asks a nil node for the identifier.\<close>

theorem discovery_without_identifier_panics:
  assumes "belongs (NodeGroupIdentifier g) b k" "gget (k_Annotations k) AnnotationInstanceID = None"
    and "gget (k_Annotations k) AnnotationInstanceName = Some name" "gget former name = None"
  shows "discover_one E former b k (i, g, w) = Panic NilDeref"
  using assms by (auto simp: discover_one_def belongs_def discover_instance_def)

theorem discovery_without_identifier_panics_witness:
  "discover_one sample_env None False
     (sample_knode\<lparr>k_Annotations := Some [(AnnotationNodeGroupName, ''g''), (AnnotationInstanceName, ''vm'')]\<rparr>)
     (0, sample_group, empty_world) \<noteq> Panic NilDeref \<and>
   discover_one sample_env None True
     (sample_knode\<lparr>k_Annotations := Some [(AnnotationNodeGroupName, ''g''), (AnnotationInstanceName, ''vm'')]\<rparr>)
     (0, sample_group, empty_world) = Panic NilDeref"
  by (rule conjI, simp add: discover_one_def sample_group_defs gget_def annotation_bool_def annotation_defs,
      rule discovery_without_identifier_panics [where name = "''vm''"])
    (simp_all add: belongs_def sample_group_defs gget_def annotation_defs)

text \<open>A cluster with one node, the one that \<open>described_knode\<close> describes.\<close>

definition one_node_env :: env where
  "one_node_env = sample_env\<lparr>ans_nodes := \<lambda>_. Inr [described_knode]\<rparr>"

theorem autoDiscoveryNodes_members_witness:
  "\<exists>g' w'. autoDiscoveryNodes one_node_env False sample_group empty_world = Ret (Inr gmake, g', w') \<and>
    glen (Nodes g') = 1 \<and> numOfProvisionnedNodes g' + numOfManagedNodes g' + numOfExternalNodes g' = 1"
proof -
  have "yields (\<lambda>(r, g, w). r = Inr gmake \<and> glen (Nodes g) = 1) (autoDiscoveryNodes one_node_env False sample_group empty_world)"
    by code_simp
  then obtain g' w' where r: "autoDiscoveryNodes one_node_env False sample_group empty_world = Ret (Inr gmake, g', w')"
    "glen (Nodes g') = 1"
    by (auto simp: yields_iff)
  obtain ks where ks: "ans_nodes one_node_env (Client NodeList # trace empty_world) = Inr ks"
    "distinct (map k_Name ks) \<longrightarrow>
      glen (Nodes g') = numOfProvisionnedNodes g' + numOfManagedNodes g' + numOfExternalNodes g'"
    using autoDiscoveryNodes_members [OF r(1)] by (elim exE conjE)
  have "ks = [described_knode]" using ks(1) by (simp add: one_node_env_def)
  then have "numOfProvisionnedNodes g' + numOfManagedNodes g' + numOfExternalNodes g' = 1"
    using ks(2) r(2) by simp
  with r show ?thesis by (intro exI conjI)
qed

end
