(* ===== verification/App.thy ===== *)
theory App
  imports NodeGroup_Discovery
begin

text \<open>
  Model of the application state and operations of \<^verbatim>\<open>server/server.go\<close>: the table of node groups, the
  creation and deletion of groups, automatic provisioning and the refresh of the groups. The
  groups are reached only through the table, so the table holds them by value. Saving the state to
  a file is a call; the set up of the process (\<^verbatim>\<open>StartServer\<close>, TLS, listeners) is not modelled.
\<close>

section \<open>State\<close>

record node_group_def =
  def_NodeGroupID :: string
  def_MinSize :: int
  def_MaxSize :: int
  def_IncludeExistingNode :: bool
  def_Labels :: labels
  def_Provisionned :: bool

record app =
  app_machines :: machines
  ResourceLimiter :: "resource_limiter option"
  Groups :: "(string, group) gomap"
  NodesDefinition :: "node_group_def list"
  app_AutoProvision :: bool
  app_configuration :: config
  phSaveState :: bool

type_synonym 'a app_result = "('a \<times> app \<times> world) go"

definition isNodegroupDiscovered :: "app \<Rightarrow> bool" where
  "isNodegroupDiscovered a \<longleftrightarrow> 0 < glen (Groups a)"

definition getNodeGroup :: "string \<Rightarrow> app \<Rightarrow> error + group" where
  "getNodeGroup name a =
     (case gget (Groups a) name of
        Some ng \<Rightarrow> Inr ng | None \<Rightarrow> Inl (Errorf ErrNodeGroupNotFound [name]))"

definition getMachineType :: "string \<Rightarrow> app \<Rightarrow> machine option" where
  "getMachineType t a = gget (app_machines a) t"

definition put_group :: "string \<Rightarrow> group \<Rightarrow> app \<Rightarrow> app" where
  "put_group name g a = a\<lparr>Groups := gset name g (Groups a)\<rparr>"

text \<open>Running an operation of a group on the group of that name.\<close>

definition on_group :: "string \<Rightarrow> (group \<Rightarrow> world \<Rightarrow> 'a group_result) \<Rightarrow> app \<Rightarrow> world \<Rightarrow> 'a app_result" where
  "on_group name f a w =
     (case gget (Groups a) name of
        None \<Rightarrow> Panic NilDeref
      | Some g \<Rightarrow> gbind (f g w) (\<lambda>(r, g, w). Ret (r, put_group name g a, w)))"

definition generateNodeGroupName :: "env \<Rightarrow> world \<Rightarrow> string \<times> world" where
  "generateNodeGroupName E w =
     (let ((now, u), w) = wask (ans_int E) TimeNow w in (Sprintf ''ng-%d'' [Itoa now], w))"

section \<open>Creating and deleting groups\<close>

definition newNodeGroup :: "nodegroupCreateInput \<Rightarrow> app \<Rightarrow> ((error + group) \<times> app) go" where
  "newNodeGroup i a =
     (case gget (app_machines a) (machineType i) of
        None \<Rightarrow> Ret (Inl (Errorf ErrMachineTypeNotFound [machineType i]), a)
      | Some m \<Rightarrow>
          if gget (Groups a) (nodeGroupID i) \<noteq> None
          then Ret (Inl (Errorf ErrNodeGroupAlreadyExists [nodeGroupID i]), a)
          else let i = i\<lparr>input_labels := MergeKubernetesLabel [cfg_NodeLabels (app_configuration a), input_labels i],
                         input_configuration := app_configuration a, input_machines := app_machines a\<rparr>;
                   nodeGroup = NewAutoScalerServerNodeGroup i
               in gbind (gput (nodeGroupID i) nodeGroup (Groups a)) (\<lambda>m.
                  Ret (Inr nodeGroup, a\<lparr>Groups := m\<rparr>)))"

definition deleteNodeGroup :: "env \<Rightarrow> string \<Rightarrow> app \<Rightarrow> world \<Rightarrow> (error option) app_result" where
  "deleteNodeGroup E name a w =
     (if gget (Groups a) name = None then Ret (Some (Errorf ErrNodeGroupNotFound [name]), a, w)
      else gbind (on_group name (group_deleteNodeGroup E) a w) (\<lambda>(err, a, w).
           if err \<noteq> None then Ret (err, a, w)
           else Ret (None, a\<lparr>Groups := gdel name (Groups a)\<rparr>, w)))"

text \<open>The group is marked as being created while its first nodes are added.\<close>

definition createNodeGroup :: "env \<Rightarrow> string \<Rightarrow> app \<Rightarrow> world \<Rightarrow> (error option) app_result" where
  "createNodeGroup E name a w =
     (case gget (Groups a) name of
        None \<Rightarrow> Ret (Some (Errorf ErrNodeGroupNotFound [name]), a, w)
      | Some g \<Rightarrow>
          if Status g = NodegroupNotCreated
          then let numberOfNodesToCreate = MinNodeSize g - glen (Nodes g);
                   g = g\<lparr>Status := NodegroupCreating\<rparr>
               in if 0 < numberOfNodesToCreate
                  then gbind (addNodes E numberOfNodesToCreate g w) (\<lambda>((ns, err), g, w).
                       if err \<noteq> None
                       then Ret (err, put_group name (g\<lparr>Status := NodegroupNotCreated\<rparr>) a, w)
                       else Ret (None, put_group name (g\<lparr>Status := NodegroupCreated\<rparr>) a, w))
                  else Ret (None, put_group name (g\<lparr>Status := NodegroupCreated\<rparr>) a, w)
          else Ret (None, a, w))"

section \<open>Provisioning\<close>

definition provision_input :: "node_group_def \<Rightarrow> app \<Rightarrow> nodegroupCreateInput" where
  "provision_input d a =
     \<lparr>nodeGroupID = def_NodeGroupID d, minNodeSize = def_MinSize d, maxNodeSize = def_MaxSize d,
      machineType = cfg_DefaultMachineType (app_configuration a),
      input_labels = gmerge (def_Labels d) gmake, systemLabels = gmake, autoProvision = True,
      input_configuration = app_configuration a, input_machines = app_machines a\<rparr>"

text \<open>The nodes of a group are read again from the cluster, and the machines of the nodes that are no
  longer there are deleted.\<close>

definition rediscover :: "env \<Rightarrow> node_group_def \<Rightarrow> app \<Rightarrow> world \<Rightarrow> (error option) app_result" where
  "rediscover E d a w =
     on_group (def_NodeGroupID d) (\<lambda>g w.
       gbind (autoDiscoveryNodes E (def_IncludeExistingNode d) g w) (\<lambda>(r, g, w).
         case r of
           Inl err \<Rightarrow> Ret (Some err, g, w)
         | Inr formerNodes \<Rightarrow>
             gbind (findManagedNodeDeleted E formerNodes g w) (\<lambda>w. Ret (None, g, w)))) a w"

definition provision_one :: "env \<Rightarrow> node_group_def \<Rightarrow> error option \<times> app \<times> world \<Rightarrow> (error option) app_result" where
  "provision_one E d s =
     (let (err, a, w) = s; name = def_NodeGroupID d
      in if err \<noteq> None \<or> length name = 0 then Ret s
         else if gget (Groups a) name = None
         then gbind (newNodeGroup (provision_input d a) a) (\<lambda>(r, a).
              case r of
                Inl e \<Rightarrow> Ret (Some e, a, w)
              | Inr g \<Rightarrow> gbind (createNodeGroup E name a w) (\<lambda>(err, a, w).
                  if err \<noteq> None then Ret (err, a, w) else rediscover E d a w))
         else rediscover E d a w)"

definition doAutoProvision :: "env \<Rightarrow> app \<Rightarrow> world \<Rightarrow> (error option) app_result" where
  "doAutoProvision E a w = gfold (provision_one E) (NodesDefinition a) (None, a, w)"

section \<open>Refreshing and saving\<close>

definition saveState :: "env \<Rightarrow> app \<Rightarrow> world \<Rightarrow> world" where
  "saveState E a w = (if phSaveState a then snd (wask (ans_err E) SaveState w) else w)"

definition refresh_groups :: "env \<Rightarrow> app \<Rightarrow> world \<Rightarrow> world go" where
  "refresh_groups E a w =
     (let (gs, w) = iterate E (gvals (Groups a)) w in gfold (refresh E) gs w)"

definition syncState :: "env \<Rightarrow> app \<Rightarrow> world \<Rightarrow> world go" where
  "syncState E a w = gbind (refresh_groups E a w) (\<lambda>w. Ret (saveState E a w))"

text \<open>What \<^verbatim>\<open>Load\<close> does with the state it has decoded.\<close>

definition configure_group :: "env \<Rightarrow> string \<Rightarrow> error option \<times> app \<times> world \<Rightarrow> (error option) app_result" where
  "configure_group E name s =
     (let (err, a, w) = s
      in if err \<noteq> None then Ret s
         else on_group name (group_setConfiguration E (app_configuration a) (app_machines a)) a w)"

definition Load :: "env \<Rightarrow> app \<Rightarrow> world \<Rightarrow> (error option) app_result" where
  "Load E a w =
     (let (names, w) = iterate E (map fst (gentries (Groups a))) w
      in gbind (gfold (configure_group E) names (None, a, w)) (\<lambda>(err, a, w).
         if err \<noteq> None then Ret (err, a, w)
         else if app_AutoProvision a then doAutoProvision E a w else Ret (None, a, w)))"

text \<open>\<^verbatim>\<open>doAutoProvision\<close> of the external gRPC server: one group, from the configuration.\<close>

definition external_doAutoProvision :: "env \<Rightarrow> app \<Rightarrow> world \<Rightarrow> (error option) app_result" where
  "external_doAutoProvision E a w =
     (if \<not> app_AutoProvision a
      then let c = app_configuration a;
               a = a\<lparr>NodesDefinition :=
                 [\<lparr>def_NodeGroupID = cfg_NodeGroup c, def_MinSize = wrap32 (cfg_MinNode c),
                   def_MaxSize = wrap32 (cfg_MaxNode c), def_IncludeExistingNode = True,
                   def_Labels = cfg_NodeLabels c, def_Provisionned = True\<rparr>]\<rparr>
           in gbind (doAutoProvision E a w) (\<lambda>(err, a, w).
              if err \<noteq> None then Ret (err, a, w)
              else gbind (syncState E a w) (\<lambda>w. Ret (None, a, w)))
      else Ret (None, a, w))"

end
