(* ===== verification/Grpc.thy ===== *)
theory Grpc
  imports App
begin

text \<open>
  Model of \<^verbatim>\<open>server/grpc.go\<close>: the handlers of the service the cluster autoscaler calls. A handler takes
  the application state and returns a transport error, an error in its reply, or a reply. The
  messages of the nodes are decoded by the parameter \<open>node_json\<close> (\<^verbatim>\<open>encoding/json\<close>), which returns
  a nil node for the text \<^verbatim>\<open>null\<close>.
\<close>

section \<open>Replies\<close>

datatype grpc_error = GrpcError (Code: string) (Reason: string)

type_synonym 'a reply = "error + (grpc_error + 'a)"

type_synonym 'a handler_result = "('a reply) app_result"

type_synonym node_json = "string \<Rightarrow> error + knode option"

definition accept :: "'a \<Rightarrow> 'a reply" where
  "accept r = Inr (Inr r)"

definition cloud_error :: "string \<Rightarrow> 'a reply" where
  "cloud_error reason = Inr (Inl (GrpcError CloudProviderError reason))"

definition isCallDenied :: "string \<Rightarrow> app \<Rightarrow> bool" where
  "isCallDenied providerID a \<longleftrightarrow> providerID \<noteq> cfg_ServiceIdentifier (app_configuration a)"

text \<open>Every handler but the optional ones starts with this check.\<close>

definition guarded :: "string \<Rightarrow> app \<Rightarrow> world \<Rightarrow> 'a handler_result \<Rightarrow> 'a handler_result" where
  "guarded providerID a w body =
     (if isCallDenied providerID a then Ret (Inl (Plain ErrMismatchingProvider), a, w) else body)"

definition optional :: "(optionals \<Rightarrow> bool) \<Rightarrow> app \<Rightarrow> world \<Rightarrow> 'a handler_result \<Rightarrow> 'a handler_result" where
  "optional flag a w body =
     (case cfg_Optionals (app_configuration a) of
        Some opts \<Rightarrow> if flag opts then Ret (Inl (Plain ErrNotImplemented), a, w) else body
      | None \<Rightarrow> body)"

definition not_found :: "string \<Rightarrow> 'a reply" where
  "not_found name = cloud_error (Sprintf ErrNodeGroupNotFound [name])"

section \<open>The cloud provider service\<close>

text \<open>The limits of the request are merged into those of the server, or become them.\<close>

definition connect_limits :: "request_limiter option \<Rightarrow> app \<Rightarrow> app" where
  "connect_limits limiter a =
     (case limiter of
        None \<Rightarrow> a
      | Some r \<Rightarrow> (case ResourceLimiter a of
          Some l \<Rightarrow> a\<lparr>ResourceLimiter := Some (MergeRequestResourceLimiter l r)\<rparr>
        | None \<Rightarrow>
            let l = \<lparr>MinLimits = rq_MinLimits r, MaxLimits = rq_MaxLimits r\<rparr>;
                l = SetMaxValue64 ResourceNameNodes (cfg_MaxNode (app_configuration a)) l;
                l = SetMinValue64 ResourceNameNodes (cfg_MinNode (app_configuration a)) l
            in a\<lparr>ResourceLimiter := Some l\<rparr>))"

definition grpc_Connect ::
  "env \<Rightarrow> string \<Rightarrow> request_limiter option \<Rightarrow> node_group_def list \<Rightarrow> bool \<Rightarrow> app \<Rightarrow> world \<Rightarrow> bool handler_result" where
  "grpc_Connect E providerID limiter nodes autoProvisionned a w =
     guarded providerID a w
       (let a = connect_limits limiter a;
            a = a\<lparr>NodesDefinition := nodes, app_AutoProvision := autoProvisionned\<rparr>
        in if app_AutoProvision a
           then gbind (doAutoProvision E a w) (\<lambda>(err, a, w).
                case err of Some e \<Rightarrow> Ret (Inl e, a, w) | None \<Rightarrow> Ret (accept True, a, w))
           else Ret (accept True, a, w))"

definition grpc_Name :: "string \<Rightarrow> app \<Rightarrow> world \<Rightarrow> string handler_result" where
  "grpc_Name providerID a w = guarded providerID a w (Ret (accept ProviderName, a, w))"

text \<open>The names of the groups that are created.\<close>

definition created_groups :: "(string \<times> group) list \<Rightarrow> string list" where
  "created_groups entries = map fst (filter (\<lambda>(name, g). Status g = NodegroupCreated) entries)"

definition grpc_NodeGroups :: "env \<Rightarrow> string \<Rightarrow> app \<Rightarrow> world \<Rightarrow> (string list) handler_result" where
  "grpc_NodeGroups E providerID a w =
     guarded providerID a w
       (let (entries, w) = iterate E (gentries (Groups a)) w
        in Ret (accept (created_groups entries), a, w))"

text \<open>The group of a node; the empty name for a node without the annotation.\<close>

definition grpc_NodeGroupForNode :: "node_json \<Rightarrow> string \<Rightarrow> string \<Rightarrow> app \<Rightarrow> world \<Rightarrow> string handler_result" where
  "grpc_NodeGroupForNode json providerID text a w =
     guarded providerID a w
       (case json text of
          Inl err \<Rightarrow> Ret (cloud_error (err_text err), a, w)
        | Inr None \<Rightarrow> Panic NilDeref
        | Inr (Some k) \<Rightarrow> (case gget (k_Annotations k) AnnotationNodeGroupName of
            Some nodegroupName \<Rightarrow> (case getNodeGroup nodegroupName a of
                Inl err \<Rightarrow> Ret (cloud_error (err_text err), a, w)
              | Inr g \<Rightarrow> Ret (accept (NodeGroupIdentifier g), a, w))
          | None \<Rightarrow> Ret (accept [], a, w)))"

definition grpc_Pricing :: "string \<Rightarrow> app \<Rightarrow> world \<Rightarrow> string handler_result" where
  "grpc_Pricing providerID a w =
     optional opt_Pricing a w (guarded providerID a w
       (Ret (accept (cfg_ServiceIdentifier (app_configuration a)), a, w)))"

definition grpc_GetAvailableMachineTypes :: "env \<Rightarrow> string \<Rightarrow> app \<Rightarrow> world \<Rightarrow> (string list) handler_result" where
  "grpc_GetAvailableMachineTypes E providerID a w =
     optional opt_GetAvailableMachineTypes a w (guarded providerID a w
       (let (names, w) = iterate E (map fst (gentries (app_machines a))) w
        in Ret (accept names, a, w)))"

record new_group_request =
  rq_NodeGroupID :: string
  rq_MachineType :: string
  rq_MinNodeSize :: int
  rq_MaxNodeSize :: int
  rq_Labels :: labels
  rq_SystemLabels :: labels

definition grpc_NewNodeGroup :: "env \<Rightarrow> string \<Rightarrow> new_group_request \<Rightarrow> app \<Rightarrow> world \<Rightarrow> string handler_result" where
  "grpc_NewNodeGroup E providerID request a w =
     optional opt_NewNodeGroup a w (guarded providerID a w
       (let instanceType = (if length (rq_MachineType request) = 0
              then cfg_DefaultMachineType (app_configuration a) else rq_MachineType request)
        in if gget (app_machines a) instanceType = None
           then Ret (cloud_error (Sprintf ErrMachineTypeNotFound [rq_MachineType request]), a, w)
           else let (name, w) = (if length (rq_NodeGroupID request) = 0 then generateNodeGroupName E w
                                 else (rq_NodeGroupID request, w));
                    input = \<lparr>nodeGroupID = name, minNodeSize = rq_MinNodeSize request,
                             maxNodeSize = rq_MaxNodeSize request, machineType = instanceType,
                             input_labels = gmerge (rq_Labels request) gmake,
                             systemLabels = gmerge (rq_SystemLabels request) gmake, autoProvision = False,
                             input_configuration = app_configuration a, input_machines = app_machines a\<rparr>
                in gbind (newNodeGroup input a) (\<lambda>(r, a).
                   case r of
                     Inl err \<Rightarrow> Ret (cloud_error (Sprintf ErrUnableToCreateNodeGroup [name, err_text err]), a, w)
                   | Inr g \<Rightarrow> Ret (accept (NodeGroupIdentifier g), a, w))))"

definition grpc_GetResourceLimiter :: "string \<Rightarrow> app \<Rightarrow> world \<Rightarrow> resource_limiter handler_result" where
  "grpc_GetResourceLimiter providerID a w =
     guarded providerID a w
       (case ResourceLimiter a of None \<Rightarrow> Panic NilDeref | Some l \<Rightarrow> Ret (accept l, a, w))"

definition grpc_GPULabel :: "string \<Rightarrow> app \<Rightarrow> world \<Rightarrow> string handler_result" where
  "grpc_GPULabel providerID a w = guarded providerID a w (Ret (accept [], a, w))"

text \<open>The error of the last group that could not be cleaned is in the reply.\<close>

definition cleanup_group :: "env \<Rightarrow> string \<Rightarrow> error option \<times> app \<times> world \<Rightarrow> (error option) app_result" where
  "cleanup_group E name s =
     (let (lastError, a, w) = s
      in gbind (on_group name (cleanup E) a w) (\<lambda>(err, a, w).
         Ret (if err \<noteq> None then err else lastError, a, w)))"

definition cleanup_groups :: "env \<Rightarrow> app \<Rightarrow> world \<Rightarrow> (error option) app_result" where
  "cleanup_groups E a w =
     (let (names, w) = iterate E (map fst (gentries (Groups a))) w
      in gbind (gfold (cleanup_group E) names (None, a, w)) (\<lambda>(lastError, a, w).
         Ret (lastError, a\<lparr>Groups := gmake\<rparr>, w)))"

definition grpc_Cleanup :: "env \<Rightarrow> string \<Rightarrow> app \<Rightarrow> world \<Rightarrow> (grpc_error option) handler_result" where
  "grpc_Cleanup E providerID a w =
     guarded providerID a w
       (gbind (cleanup_groups E a w) (\<lambda>(lastError, a, w).
          Ret (accept (map_option (\<lambda>e. GrpcError CloudProviderError (err_text e)) lastError), a, w)))"

definition grpc_Refresh :: "env \<Rightarrow> string \<Rightarrow> app \<Rightarrow> world \<Rightarrow> unit handler_result" where
  "grpc_Refresh E providerID a w =
     guarded providerID a w
       (gbind (refresh_groups E a w) (\<lambda>w. Ret (accept (), a, saveState E a w)))"

definition grpc_HasInstance :: "env \<Rightarrow> node_json \<Rightarrow> string \<Rightarrow> string \<Rightarrow> app \<Rightarrow> world \<Rightarrow> bool handler_result" where
  "grpc_HasInstance E json providerID text a w =
     guarded providerID a w
       (case json text of
          Inl err \<Rightarrow> Ret (cloud_error (err_text err), a, w)
        | Inr None \<Rightarrow> Panic NilDeref
        | Inr (Some k) \<Rightarrow> (case gget (k_Annotations k) AnnotationNodeGroupName of
            Some nodegroupName \<Rightarrow> (case getNodeGroup nodegroupName a of
                Inl err \<Rightarrow> Ret (cloud_error (err_text err), a, w)
              | Inr g \<Rightarrow> gbind (hasInstance E (k_Name k) g w) (\<lambda>((b, err), w).
                  case err of
                    Some e \<Rightarrow> Ret (cloud_error (err_text e), a, w)
                  | None \<Rightarrow> Ret (accept b, a, w)))
          | None \<Rightarrow> Ret (cloud_error (Sprintf ErrMissingNodeAnnotationError [k_Name k]), a, w)))"

section \<open>The node group service\<close>

text \<open>A size is sent as an \<open>int32\<close>; the size of an unknown group is 0.\<close>

definition size_of_group :: "(group \<Rightarrow> int) \<Rightarrow> string \<Rightarrow> app \<Rightarrow> int" where
  "size_of_group f gid a =
     (case getNodeGroup gid a of Inl err \<Rightarrow> 0 | Inr g \<Rightarrow> f g)"

definition grpc_MaxSize :: "string \<Rightarrow> string \<Rightarrow> app \<Rightarrow> world \<Rightarrow> int handler_result" where
  "grpc_MaxSize providerID gid a w =
     guarded providerID a w (Ret (accept (wrap32 (size_of_group MaxNodeSize gid a)), a, w))"

definition grpc_MinSize :: "string \<Rightarrow> string \<Rightarrow> app \<Rightarrow> world \<Rightarrow> int handler_result" where
  "grpc_MinSize providerID gid a w =
     guarded providerID a w (Ret (accept (wrap32 (size_of_group MinNodeSize gid a)), a, w))"

definition with_group :: "string \<Rightarrow> app \<Rightarrow> world \<Rightarrow> (group \<Rightarrow> 'a handler_result) \<Rightarrow> 'a handler_result" where
  "with_group gid a w body =
     (case getNodeGroup gid a of Inl err \<Rightarrow> Ret (not_found gid, a, w) | Inr g \<Rightarrow> body g)"

definition reply_error :: "error option \<Rightarrow> unit reply" where
  "reply_error err = (case err of Some e \<Rightarrow> cloud_error (err_text e) | None \<Rightarrow> accept ())"

definition grpc_TargetSize :: "string \<Rightarrow> string \<Rightarrow> app \<Rightarrow> world \<Rightarrow> int handler_result" where
  "grpc_TargetSize providerID gid a w =
     guarded providerID a w
       (with_group gid a w (\<lambda>g. Ret (accept (wrap32 (targetSize g)), a, w)))"

definition grpc_IncreaseSize :: "env \<Rightarrow> string \<Rightarrow> string \<Rightarrow> int \<Rightarrow> app \<Rightarrow> world \<Rightarrow> unit handler_result" where
  "grpc_IncreaseSize E providerID gid delta a w =
     guarded providerID a w
       (with_group gid a w (\<lambda>g.
          if delta \<le> 0 then Ret (cloud_error ErrIncreaseSizeMustBePositive, a, w)
          else let newSize = targetSize g + delta
               in if MaxNodeSize g < newSize
                  then Ret (cloud_error (Sprintf ErrIncreaseSizeTooLarge [Itoa newSize, Itoa (MaxNodeSize g)]), a, w)
                  else gbind (on_group gid (setNodeGroupSize E newSize False) a w) (\<lambda>((nodes, err), a, w).
                       Ret (reply_error err, a, w))))"

text \<open>
  The nodes are deleted in turn, each in the group its annotation names, until one fails; \<open>owner\<close>
  is the identifier of the last group that was looked up.
\<close>

fun delete_nodes_loop ::
  "env \<Rightarrow> node_json \<Rightarrow> string \<Rightarrow> string list \<Rightarrow> nat \<Rightarrow> string \<Rightarrow> app \<Rightarrow> world \<Rightarrow> unit handler_result" where
  "delete_nodes_loop E json gid [] idx owner a w = Ret (accept (), a, w)"
| "delete_nodes_loop E json gid (text # rest) idx owner a w =
     (case json text of
        Inr (Some k) \<Rightarrow> (case gget (k_Annotations k) AnnotationNodeGroupName of
            Some nodegroupName \<Rightarrow> (case getNodeGroup nodegroupName a of
                Inl err \<Rightarrow> Ret (cloud_error (err_text err), a, w)
              | Inr g \<Rightarrow> gbind (on_group nodegroupName (deleteNodeByName E (k_Name k)) a w) (\<lambda>(err, a, w).
                  case err of
                    Some e \<Rightarrow> Ret (cloud_error (err_text e), a, w)
                  | None \<Rightarrow> delete_nodes_loop E json gid rest (Suc idx) (NodeGroupIdentifier g) a w))
          | None \<Rightarrow> Ret (cloud_error (Sprintf ErrUnableToDeleteNode [k_Name k, owner]), a, w))
      | Inr None \<Rightarrow> Ret (cloud_error (Sprintf ErrCantUnmarshallNode [Itoa (int idx), gid]), a, w)
      | Inl err \<Rightarrow> Ret (cloud_error (Sprintf ErrCantUnmarshallNode [Itoa (int idx), gid]), a, w))"

definition grpc_DeleteNodes ::
  "env \<Rightarrow> node_json \<Rightarrow> string \<Rightarrow> string \<Rightarrow> string list \<Rightarrow> app \<Rightarrow> world \<Rightarrow> unit handler_result" where
  "grpc_DeleteNodes E json providerID gid nodes a w =
     guarded providerID a w
       (with_group gid a w (\<lambda>g.
          if targetSize g - int (length nodes) < MinNodeSize g
          then Ret (cloud_error (Sprintf ErrMinSizeReached [gid]), a, w)
          else delete_nodes_loop E json gid nodes 0 (NodeGroupIdentifier g) a w))"

definition grpc_DecreaseTargetSize :: "env \<Rightarrow> string \<Rightarrow> string \<Rightarrow> int \<Rightarrow> app \<Rightarrow> world \<Rightarrow> unit handler_result" where
  "grpc_DecreaseTargetSize E providerID gid delta a w =
     guarded providerID a w
       (with_group gid a w (\<lambda>g.
          if 0 \<le> delta then Ret (cloud_error ErrDecreaseSizeMustBeNegative, a, w)
          else let newSize = targetSize g + delta
               in if newSize < glen (Nodes g)
                  then if havingDeletingNodes g w then Ret (accept (), a, w)
                       else Ret (cloud_error (Sprintf ErrDecreaseSizeAttemptDeleteNodes
                                   [Itoa (targetSize g), Itoa delta, Itoa newSize]), a, w)
                  else gbind (on_group gid (setNodeGroupSize E newSize False) a w) (\<lambda>((nodes, err), a, w).
                       Ret (reply_error err, a, w))))"

definition grpc_Id :: "string \<Rightarrow> string \<Rightarrow> app \<Rightarrow> world \<Rightarrow> string handler_result" where
  "grpc_Id providerID gid a w =
     guarded providerID a w
       (case getNodeGroup gid a of
          Inl err \<Rightarrow> Ret (Inl (Errorf ErrNodeGroupNotFound [gid]), a, w)
        | Inr g \<Rightarrow> Ret (accept (NodeGroupIdentifier g), a, w))"

definition grpc_Debug :: "string \<Rightarrow> string \<Rightarrow> app \<Rightarrow> world \<Rightarrow> string handler_result" where
  "grpc_Debug providerID gid a w =
     guarded providerID a w
       (case getNodeGroup gid a of
          Inl err \<Rightarrow> Ret (Inl (Errorf ErrNodeGroupNotFound [gid]), a, w)
        | Inr g \<Rightarrow> Ret (accept (Sprintf ''%s-%s'' [providerID, NodeGroupIdentifier g]), a, w))"

text \<open>The states of the instances, common to the two services.\<close>

datatype instance_state = StateUndefined | StateRunning | StateBeingCreated | StateBeingDeleted

fun instance_state_of :: "node_state \<Rightarrow> instance_state" where
  "instance_state_of Running = StateRunning"
| "instance_state_of Creating = StateBeingCreated"
| "instance_state_of Deleted = StateBeingDeleted"
| "instance_state_of s = StateUndefined"

definition list_instances :: "env \<Rightarrow> group \<Rightarrow> world \<Rightarrow> ((string \<times> instance_state) list \<times> world) go" where
  "list_instances E g w =
     (let (ps, w) = AllNodes E g w
      in gfold (\<lambda>p (instances, w). gbind (load p w) (\<lambda>n.
           let (gid, h) = generateProviderID E n (trace w)
           in Ret (instances @ [(gid, instance_state_of (State n))], w\<lparr>trace := h\<rparr>))) ps ([], w))"

definition grpc_Nodes :: "env \<Rightarrow> string \<Rightarrow> string \<Rightarrow> app \<Rightarrow> world \<Rightarrow> (string \<times> instance_state) list handler_result" where
  "grpc_Nodes E providerID gid a w =
     guarded providerID a w
       (with_group gid a w (\<lambda>g. gbind (list_instances E g w) (\<lambda>(instances, w).
          Ret (accept instances, a, w))))"

text \<open>The labels and annotations of the node that describes a group.\<close>

definition node_template :: "string \<Rightarrow> group \<Rightarrow> labels \<times> labels" where
  "node_template gid g =
     (MergeKubernetesLabel [NodeLabels g, SystemLabels g],
      Some [(AnnotationNodeGroupName, gid), (AnnotationScaleDownDisabled, ''false''),
            (AnnotationNodeAutoProvisionned, ''true''), (AnnotationNodeManaged, ''false'')])"

definition grpc_TemplateNodeInfo :: "string \<Rightarrow> string \<Rightarrow> app \<Rightarrow> world \<Rightarrow> (labels \<times> labels) handler_result" where
  "grpc_TemplateNodeInfo providerID gid a w =
     optional opt_TemplateNodeInfo a w (guarded providerID a w
       (with_group gid a w (\<lambda>g. Ret (accept (node_template gid g), a, w))))"

definition grpc_Exist :: "string \<Rightarrow> string \<Rightarrow> app \<Rightarrow> world \<Rightarrow> bool handler_result" where
  "grpc_Exist providerID gid a w =
     guarded providerID a w (Ret (accept (gget (Groups a) gid \<noteq> None), a, w))"

definition grpc_Create :: "env \<Rightarrow> string \<Rightarrow> string \<Rightarrow> app \<Rightarrow> world \<Rightarrow> string handler_result" where
  "grpc_Create E providerID gid a w =
     optional opt_Create a w (guarded providerID a w
       (gbind (createNodeGroup E gid a w) (\<lambda>(err, a, w).
          case err of
            Some e \<Rightarrow> Ret (cloud_error (err_text e), a, w)
          | None \<Rightarrow> (case gget (Groups a) gid of
              None \<Rightarrow> Panic NilDeref | Some g \<Rightarrow> Ret (accept (NodeGroupIdentifier g), a, w)))))"

definition grpc_Delete :: "env \<Rightarrow> string \<Rightarrow> string \<Rightarrow> app \<Rightarrow> world \<Rightarrow> unit handler_result" where
  "grpc_Delete E providerID gid a w =
     optional opt_Delete a w (guarded providerID a w
       (gbind (deleteNodeGroup E gid a w) (\<lambda>(err, a, w). Ret (reply_error err, a, w))))"

definition grpc_Autoprovisioned :: "string \<Rightarrow> string \<Rightarrow> app \<Rightarrow> world \<Rightarrow> bool handler_result" where
  "grpc_Autoprovisioned providerID gid a w =
     guarded providerID a w
       (Ret (accept (case gget (Groups a) gid of Some g \<Rightarrow> AutoProvision g | None \<Rightarrow> False), a, w))"

definition grpc_Belongs :: "node_json \<Rightarrow> string \<Rightarrow> string \<Rightarrow> app \<Rightarrow> world \<Rightarrow> bool handler_result" where
  "grpc_Belongs json providerID text a w =
     guarded providerID a w
       (case json text of
          Inl err \<Rightarrow> Ret (cloud_error (err_text err), a, w)
        | Inr None \<Rightarrow> Panic NilDeref
        | Inr (Some k) \<Rightarrow> (case gget (k_Annotations k) AnnotationNodeGroupName of
            Some nodegroupName \<Rightarrow> (case getNodeGroup nodegroupName a of
                Inl err \<Rightarrow> Ret (cloud_error (err_text err), a, w)
              | Inr g \<Rightarrow> Ret (accept (findNamedNode g (k_Name k) \<noteq> None), a, w))
          | None \<Rightarrow> Ret (cloud_error (Sprintf ''Node annotation[%s] is empty'' [AnnotationNodeGroupName]), a, w)))"

text \<open>The defaults as the handler copies them, fields that it takes from another one included.\<close>

definition copied_defaults :: "autoscaling_options \<Rightarrow> autoscaling_options" where
  "copied_defaults d =
     \<lparr>ScaleDownUtilizationThreshold = ScaleDownGpuUtilizationThreshold d,
      ScaleDownGpuUtilizationThreshold = ScaleDownGpuUtilizationThreshold d,
      ScaleDownUnneededTime = ScaleDownUnneededTime d,
      ScaleDownUnreadyTime = ScaleDownUnneededTime d,
      MaxNodeProvisionTime = MaxNodeProvisionTime d,
      ZeroOrMaxNodeScaling = ZeroOrMaxNodeScaling d,
      IgnoreDaemonSetsUtilization = IgnoreDaemonSetsUtilization d\<rparr>"

definition grpc_GetOptions ::
  "env \<Rightarrow> string \<Rightarrow> string \<Rightarrow> autoscaling_options option \<Rightarrow> app \<Rightarrow> world \<Rightarrow> autoscaling_options handler_result" where
  "grpc_GetOptions E providerID gid defaults a w =
     guarded providerID a w
       (case defaults of
          None \<Rightarrow> Ret (cloud_error ''request fields were nil'', a, w)
        | Some d \<Rightarrow> with_group gid a w (\<lambda>g.
            let ((opts, err), g) = group_GetOptions E (Some (copied_defaults d)) g; a = put_group gid g a
            in case err of
                 Some e \<Rightarrow> Ret (cloud_error (err_text e), a, w)
               | None \<Rightarrow> (case opts of None \<Rightarrow> Panic NilDeref | Some opts \<Rightarrow> Ret (accept opts, a, w))))"

definition grpc_NodePrice :: "string \<Rightarrow> app \<Rightarrow> world \<Rightarrow> float64 handler_result" where
  "grpc_NodePrice providerID a w =
     guarded providerID a w (Ret (accept (cfg_NodePrice (app_configuration a)), a, w))"

definition grpc_PodPrice :: "string \<Rightarrow> app \<Rightarrow> world \<Rightarrow> float64 handler_result" where
  "grpc_PodPrice providerID a w =
     guarded providerID a w (Ret (accept (cfg_PodPrice (app_configuration a)), a, w))"

end
