(* ===== verification/ExternalGrpc.thy ===== *)
theory ExternalGrpc
  imports Grpc
begin

text \<open>
  Model of \<^verbatim>\<open>server/externalgrpc.go\<close>: the same service for the external gRPC provider of the cluster
  autoscaler. It has no check of the caller, returns plain errors, and leaves the slow part of a
  handler to a goroutine: the handler then also returns the \<open>task\<close> it has started, and \<open>run_task\<close>
  is the body of that goroutine, run on whatever the state has become. The goroutine holds its
  group by reference; a task whose group has been removed from the table in the meantime is not
  followed (\<open>Diverge\<close>).
\<close>

section \<open>Replies and tasks\<close>

type_synonym 'a ext_result = "(error + 'a) app_result"

datatype task =
    CreateNodesTask string "addr list"
  | DestroyNodesTask string "addr list"
  | DeleteNodesTask "knode list"

type_synonym ext_async = "((error + unit) \<times> task option) app_result"

text \<open>The goroutine of \<^verbatim>\<open>NodeGroupDeleteNodes\<close> logs the errors; an unknown group is a nil pointer.\<close>

definition delete_node_task :: "env \<Rightarrow> knode \<Rightarrow> app \<times> world \<Rightarrow> (app \<times> world) go" where
  "delete_node_task E k s =
     (let (a, w) = s
      in case gget (k_Annotations k) AnnotationNodeGroupName of
           Some nodegroupName \<Rightarrow> (case getNodeGroup nodegroupName a of
               Inl err \<Rightarrow> Panic NilDeref
             | Inr g \<Rightarrow> gbind (on_group nodegroupName (deleteNodeByName E (k_Name k)) a w) (\<lambda>(err, a, w).
                 Ret (a, w)))
         | None \<Rightarrow> Ret (a, w))"

fun run_task :: "env \<Rightarrow> task \<Rightarrow> app \<Rightarrow> world \<Rightarrow> (app \<times> world) go" where
  "run_task E (CreateNodesTask gid nodes) a w =
     (if gget (Groups a) gid = None then Diverge
      else gbind (on_group gid (createNodes E nodes) a w) (\<lambda>(r, a, w). Ret (a, w)))"
| "run_task E (DestroyNodesTask gid nodes) a w =
     (if gget (Groups a) gid = None then Diverge
      else gbind (on_group gid (destroyNodes E nodes) a w) (\<lambda>(r, a, w). Ret (a, w)))"
| "run_task E (DeleteNodesTask nodes) a w = gfold (delete_node_task E) nodes (a, w)"

section \<open>The cloud provider service\<close>

record ext_group =
  eg_Id :: string
  eg_MinSize :: int
  eg_MaxSize :: int

definition ext_NodeGroups :: "env \<Rightarrow> app \<Rightarrow> world \<Rightarrow> (ext_group list) ext_result" where
  "ext_NodeGroups E a w =
     (let (entries, w) = iterate E (gentries (Groups a)) w
      in Ret (Inr (map (\<lambda>(name, g). \<lparr>eg_Id = name, eg_MinSize = wrap32 (MinNodeSize g),
                                      eg_MaxSize = wrap32 (MaxNodeSize g)\<rparr>)
                  (filter (\<lambda>(name, g). Status g = NodegroupCreated) entries)), a, w))"

definition ext_NodeGroupForNode :: "knode option \<Rightarrow> app \<Rightarrow> world \<Rightarrow> (ext_group option) ext_result" where
  "ext_NodeGroupForNode node a w =
     (case node of
        None \<Rightarrow> Panic NilDeref
      | Some k \<Rightarrow> (case gget (k_Annotations k) AnnotationNodeGroupName of
          Some nodegroupName \<Rightarrow> (case getNodeGroup nodegroupName a of
              Inl err \<Rightarrow> Ret (Inl err, a, w)
            | Inr g \<Rightarrow> Ret (Inr (Some \<lparr>eg_Id = NodeGroupIdentifier g, eg_MinSize = wrap32 (MinNodeSize g),
                                     eg_MaxSize = wrap32 (MaxNodeSize g)\<rparr>), a, w))
        | None \<Rightarrow> Ret (Inr None, a, w)))"

definition ext_PricingNodePrice :: "app \<Rightarrow> world \<Rightarrow> float64 ext_result" where
  "ext_PricingNodePrice a w = Ret (Inr (cfg_NodePrice (app_configuration a)), a, w)"

definition ext_PricingPodPrice :: "app \<Rightarrow> world \<Rightarrow> float64 ext_result" where
  "ext_PricingPodPrice a w = Ret (Inr (cfg_PodPrice (app_configuration a)), a, w)"

definition ext_GPULabel :: "app \<Rightarrow> world \<Rightarrow> string ext_result" where
  "ext_GPULabel a w = Ret (Inr [], a, w)"

definition ext_Cleanup :: "env \<Rightarrow> app \<Rightarrow> world \<Rightarrow> unit ext_result" where
  "ext_Cleanup E a w =
     gbind (cleanup_groups E a w) (\<lambda>(lastError, a, w).
       Ret (case lastError of Some e \<Rightarrow> Inl e | None \<Rightarrow> Inr (), a, w))"

definition ext_Refresh :: "env \<Rightarrow> app \<Rightarrow> world \<Rightarrow> unit ext_result" where
  "ext_Refresh E a w =
     gbind (refresh_groups E a w) (\<lambda>w. Ret (Inr (), a, saveState E a w))"

section \<open>The node group service\<close>

definition with_ext_group :: "string \<Rightarrow> app \<Rightarrow> world \<Rightarrow> 'r \<Rightarrow> (group \<Rightarrow> 'r app_result) \<Rightarrow> 'r app_result" where
  "with_ext_group gid a w missing body =
     (case gget (Groups a) gid of None \<Rightarrow> Ret (missing, a, w) | Some g \<Rightarrow> body g)"

definition missing_group :: "string \<Rightarrow> error" where
  "missing_group gid = Errorf ErrNodeGroupNotFound [gid]"

definition refuse :: "error \<Rightarrow> app \<Rightarrow> world \<Rightarrow> ext_async" where
  "refuse err a w = Ret ((Inl err, None), a, w)"

definition ext_NodeGroupTargetSize :: "string \<Rightarrow> app \<Rightarrow> world \<Rightarrow> int ext_result" where
  "ext_NodeGroupTargetSize gid a w =
     with_ext_group gid a w (Inl (missing_group gid)) (\<lambda>g. Ret (Inr (wrap32 (targetSize g)), a, w))"

definition ext_NodeGroupIncreaseSize :: "env \<Rightarrow> string \<Rightarrow> int \<Rightarrow> app \<Rightarrow> world \<Rightarrow> ext_async" where
  "ext_NodeGroupIncreaseSize E gid delta a w =
     with_ext_group gid a w (Inl (missing_group gid), None) (\<lambda>g.
       if delta \<le> 0 then refuse (Plain ErrIncreaseSizeMustBePositive) a w
       else let newSize = targetSize g + delta
            in if MaxNodeSize g < newSize
               then refuse (Errorf ErrIncreaseSizeTooLarge [Itoa newSize, Itoa (MaxNodeSize g)]) a w
               else gbind (on_group gid (setNodeGroupSize E newSize True) a w) (\<lambda>((nodes, err), a, w).
                    case err of
                      Some e \<Rightarrow> refuse e a w
                    | None \<Rightarrow> Ret ((Inr (), Some (CreateNodesTask gid nodes)), a, w)))"

definition ext_NodeGroupDeleteNodes :: "string \<Rightarrow> knode list \<Rightarrow> app \<Rightarrow> world \<Rightarrow> ext_async" where
  "ext_NodeGroupDeleteNodes gid nodes a w =
     with_ext_group gid a w (Inl (missing_group gid), None) (\<lambda>g.
       if targetSize g - int (length nodes) < MinNodeSize g
       then refuse (Errorf ErrMinSizeReached [gid]) a w
       else Ret ((Inr (), Some (DeleteNodesTask nodes)), a, w))"

text \<open>The error of \<^verbatim>\<open>setNodeGroupSize\<close> is dropped.\<close>

definition ext_NodeGroupDecreaseTargetSize :: "env \<Rightarrow> string \<Rightarrow> int \<Rightarrow> app \<Rightarrow> world \<Rightarrow> ext_async" where
  "ext_NodeGroupDecreaseTargetSize E gid delta a w =
     with_ext_group gid a w (Inl (missing_group gid), None) (\<lambda>g.
       if 0 \<le> delta then refuse (Plain ErrDecreaseSizeMustBeNegative) a w
       else let newSize = targetSize g + delta
            in if newSize < glen (Nodes g)
               then if havingDeletingNodes g w then Ret ((Inr (), None), a, w)
                    else refuse (Errorf ErrDecreaseSizeAttemptDeleteNodes
                           [Itoa (targetSize g), Itoa delta, Itoa newSize]) a w
               else gbind (on_group gid (setNodeGroupSize E newSize True) a w) (\<lambda>((nodes, err), a, w).
                    Ret ((Inr (), if err = None then Some (DestroyNodesTask gid nodes) else None), a, w)))"

definition ext_NodeGroupNodes :: "env \<Rightarrow> string \<Rightarrow> app \<Rightarrow> world \<Rightarrow> (string \<times> instance_state) list ext_result" where
  "ext_NodeGroupNodes E gid a w =
     with_ext_group gid a w (Inl (missing_group gid)) (\<lambda>g.
       gbind (list_instances E g w) (\<lambda>(instances, w). Ret (Inr instances, a, w)))"

definition ext_NodeGroupTemplateNodeInfo :: "string \<Rightarrow> app \<Rightarrow> world \<Rightarrow> (labels \<times> labels) ext_result" where
  "ext_NodeGroupTemplateNodeInfo gid a w =
     with_ext_group gid a w (Inl (missing_group gid)) (\<lambda>g. Ret (Inr (node_template gid g), a, w))"

record ext_options =
  eo_ScaleDownUtilizationThreshold :: float64
  eo_ScaleDownGpuUtilizationThreshold :: float64
  eo_ScaleDownUnneededTime :: "int option"
  eo_ScaleDownUnreadyTime :: "int option"
  eo_MaxNodeProvisionTime :: "int option"

definition from_ext_options :: "ext_options \<Rightarrow> autoscaling_options" where
  "from_ext_options d =
     \<lparr>ScaleDownUtilizationThreshold = eo_ScaleDownUtilizationThreshold d,
      ScaleDownGpuUtilizationThreshold = eo_ScaleDownGpuUtilizationThreshold d,
      ScaleDownUnneededTime = eo_ScaleDownUnneededTime d,
      ScaleDownUnreadyTime = eo_ScaleDownUnreadyTime d,
      MaxNodeProvisionTime = eo_MaxNodeProvisionTime d,
      ZeroOrMaxNodeScaling = False, IgnoreDaemonSetsUtilization = False\<rparr>"

definition to_ext_options :: "autoscaling_options \<Rightarrow> ext_options" where
  "to_ext_options o1 =
     \<lparr>eo_ScaleDownUtilizationThreshold = ScaleDownUtilizationThreshold o1,
      eo_ScaleDownGpuUtilizationThreshold = ScaleDownGpuUtilizationThreshold o1,
      eo_ScaleDownUnneededTime = ScaleDownUnneededTime o1,
      eo_ScaleDownUnreadyTime = ScaleDownUnreadyTime o1,
      eo_MaxNodeProvisionTime = MaxNodeProvisionTime o1\<rparr>"

definition ext_NodeGroupGetOptions ::
  "env \<Rightarrow> string \<Rightarrow> ext_options option \<Rightarrow> app \<Rightarrow> world \<Rightarrow> ext_options ext_result" where
  "ext_NodeGroupGetOptions E gid defaults a w =
     with_ext_group gid a w (Inl (missing_group gid)) (\<lambda>g.
       case defaults of
         None \<Rightarrow> Ret (Inl (Plain ''request fields were nil''), a, w)
       | Some d \<Rightarrow>
           let ((opts, err), g) = group_GetOptions E (Some (from_ext_options d)) g; a = put_group gid g a
           in case err of
                Some e \<Rightarrow> Ret (Inl e, a, w)
              | None \<Rightarrow> (case opts of
                  None \<Rightarrow> Ret (Inl (Plain ''GetOptions not implemented''), a, w)
                | Some opts \<Rightarrow> Ret (Inr (to_ext_options opts), a, w)))"

end
