(* ===== verification/Controller.thy ===== *)
theory Controller
  imports ExternalGrpc
begin

text \<open>
  Model of \<^verbatim>\<open>server/controller.go\<close>: the controller of the custom resource \<^verbatim>\<open>ManagedNode\<close>, which
  creates and deletes machines when resources and nodes of the cluster come and go, and of the
  status codes of \<^verbatim>\<open>pkg/apis/nodemanager/register.go\<close>. The informers' caches, the API server and
  the recorder of events are calls. The work queue of client-go is represented by what it hands to
  the controller: the keys of one round, and whether it has been shut down. The two functions of
  client-go that translate between a resource and its key are the argument \<open>key_codec\<close>.
\<close>

section \<open>Status codes\<close>

definition StatusManagedNodeNeedToCreated :: int where "StatusManagedNodeNeedToCreated = 0"
definition StatusManagedNodeCreation :: int where "StatusManagedNodeCreation = 1"
definition StatusManagedNodeCreated :: int where "StatusManagedNodeCreated = 2"
definition StatusManagedNodeCreationFailed :: int where "StatusManagedNodeCreationFailed = 3"
definition StatusManagedNodeDeletion :: int where "StatusManagedNodeDeletion = 4"
definition StatusManagedNodeDeleted :: int where "StatusManagedNodeDeleted = 5"
definition StatusManagedNodeGroupNotFound :: int where "StatusManagedNodeGroupNotFound = 6"
definition StatusManagedNodeNiceLimitReached :: int where "StatusManagedNodeNiceLimitReached = 7"
definition StatusManagedNodeInstanceTypeNotRegistred :: int where "StatusManagedNodeInstanceTypeNotRegistred = 8"

lemmas status_codes = StatusManagedNodeNeedToCreated_def StatusManagedNodeCreation_def
  StatusManagedNodeCreated_def StatusManagedNodeCreationFailed_def StatusManagedNodeDeletion_def
  StatusManagedNodeDeleted_def StatusManagedNodeGroupNotFound_def
  StatusManagedNodeNiceLimitReached_def StatusManagedNodeInstanceTypeNotRegistred_def

definition phStatusManagedNodeReason :: "string list" where
  "phStatusManagedNodeReason =
     [''StatusManagedNodeNeedToCreated'', ''StatusManagedNodeCreation'', ''StatusManagedNodeCreated'',
      ''StatusManagedNodeCreationFailed'', ''StatusManagedNodeDeletion'', ''StatusManagedNodeDeleted'',
      ''StatusManagedNodeGroupNotFound'', ''StatusManagedNodeNiceLimitReached'',
      ''StatusManagedNodeInstanceTypeNotRegistred'']"

definition StatusManagedNodeReason :: "int \<Rightarrow> string" where
  "StatusManagedNodeReason code =
     (if StatusManagedNodeNeedToCreated \<le> code \<and> code \<le> StatusManagedNodeInstanceTypeNotRegistred
      then phStatusManagedNodeReason ! nat code else ''StatusManagedNodeUndefined'')"

definition CRDKind :: string where "CRDKind = ''ManagedNode''"

definition FullCRDName :: string where "FullCRDName = ''managednodes.nodemanager.aldunelabs.com''"

text \<open>A status with another code, its reason and a message.\<close>

definition set_status :: "int \<Rightarrow> string \<Rightarrow> managed_node_status \<Rightarrow> managed_node_status" where
  "set_status code message st =
     st\<lparr>ms_Code := code, ms_Reason := StatusManagedNodeReason code, ms_Message := message\<rparr>"

section \<open>Keys, events and statuses\<close>

record key_codec =
  SplitKey :: "string \<Rightarrow> error + string"
  KeyOf :: "managed_node \<Rightarrow> error + string"

definition generateKey :: "key_codec \<Rightarrow> managed_node \<Rightarrow> string" where
  "generateKey K m = (case KeyOf K m of Inr key \<Rightarrow> key | Inl err \<Rightarrow> [])"

definition getManagedNodeFromKey ::
  "env \<Rightarrow> key_codec \<Rightarrow> string \<Rightarrow> world \<Rightarrow> (error + managed_node) \<times> world" where
  "getManagedNodeFromKey E K key w =
     (case SplitKey K key of
        Inr name \<Rightarrow> wask (ans_managed E) (Api (ManagedNodesListerGet name)) w
      | Inl err \<Rightarrow> (Inl err, w))"

definition EventTypeNormal :: string where "EventTypeNormal = ''Normal''"
definition EventTypeWarning :: string where "EventTypeWarning = ''Warning''"
definition FailedEvent :: string where "FailedEvent = ''Failed''"
definition SuccessEvent :: string where "SuccessEvent = ''Success''"
definition WarningEvent :: string where "WarningEvent = ''Warning''"
definition ErrorEvent :: string where "ErrorEvent = ''Error''"

definition note_call :: "call \<Rightarrow> world \<Rightarrow> world" where
  "note_call c w = w\<lparr>trace := c # trace w\<rparr>"

definition event :: "string \<Rightarrow> string \<Rightarrow> string \<Rightarrow> world \<Rightarrow> world" where
  "event kind reason message w = note_call (Api (RecordEvent kind reason message)) w"

definition updateManagedNodeStatus ::
  "env \<Rightarrow> managed_node \<Rightarrow> managed_node_status \<Rightarrow> world \<Rightarrow> error option \<times> world" where
  "updateManagedNodeStatus E m newStatus w =
     (let ((now, u), w) = wask (ans_int E) TimeNow w;
          newStatus = newStatus\<lparr>ms_LastUpdateTime := now\<rparr>;
          (r, w) = wask (ans_managed E) (Api (ManagedNodeGet (mn_Name m))) w
      in case r of
           Inl err \<Rightarrow> (Some err, w)
         | Inr copy \<Rightarrow> wask (ans_err E) (Api (ManagedNodeUpdateStatus (mn_Name copy) newStatus)) w)"

text \<open>The status is written when its code has changed; a failure is only logged.\<close>

definition write_status :: "env \<Rightarrow> managed_node \<Rightarrow> managed_node_status \<Rightarrow> world \<Rightarrow> world" where
  "write_status E m newStatus w =
     (if ms_Code (mn_Status m) \<noteq> ms_Code newStatus then snd (updateManagedNodeStatus E m newStatus w) else w)"

section \<open>The custom resource definition\<close>

definition crd_condition :: "env \<Rightarrow> unit \<times> calls \<Rightarrow> (bool \<times> error option) \<times> unit \<times> calls" where
  "crd_condition E s =
     (let (r, h) = ask (ans_conditions E) (Api (CrdGet FullCRDName)) (snd s)
      in case r of
           Inl err \<Rightarrow> ((False, Some err), (), h)
         | Inr conditions \<Rightarrow>
             if length conditions = 0 then ((False, None), (), h)
             else let (accepted, established) = fold (\<lambda>(kind, status) (a, e).
                        if kind = ''NamesAccepted'' then (status = ''True'', e)
                        else if kind = ''Established'' then (a, status = ''True'') else (a, e))
                        conditions (False, False)
                  in if accepted then ((established, None), (), h)
                     else ((False, Some (Plain ''CRD is not accepted'')), (), h))"

definition waitCRDAccepted :: "env \<Rightarrow> world \<Rightarrow> (error option \<times> world) go" where
  "waitCRDAccepted E w =
     gbind (PollImmediate E 10 (crd_condition E) ((), trace w)) (\<lambda>(err, u, h). Ret (err, w\<lparr>trace := h\<rparr>))"

fun IsAlreadyExists :: "error \<Rightarrow> bool" where
  "IsAlreadyExists (ApiAlreadyExists s) = True"
| "IsAlreadyExists e = False"

definition CreateCRD :: "env \<Rightarrow> world \<Rightarrow> (error option \<times> world) go" where
  "CreateCRD E w =
     (let (err, w) = wask (ans_err E) (Api CrdCreate) w
      in case err of
           Some e \<Rightarrow> Ret (if IsAlreadyExists e then None else Some e, w)
         | None \<Rightarrow> waitCRDAccepted E w)"

section \<open>Limits\<close>

datatype limits_status = LimitsNice | MaxCpuReached | MaxMemoryReached | MaxNodesReached

text \<open>Sums of capacities are far below \<open>2 ^ 63\<close> and are kept as integers.\<close>

definition checkRessourceLimits :: "env \<Rightarrow> machine \<Rightarrow> app \<Rightarrow> world \<Rightarrow> (limits_status \<times> world) go" where
  "checkRessourceLimits E machineSpec a w =
     (let (r, w) = wask (ans_nodes E) (Api NodesListerList) w
      in case r of
           Inl err \<Rightarrow> Ret (LimitsNice, w)
         | Inr nodeList \<Rightarrow> (case ResourceLimiter a of
             None \<Rightarrow> Panic NilDeref
           | Some limiter \<Rightarrow>
               let maxNodes = GetMaxValue limiter ResourceNameNodes 32
               in if maxNodes < int (length nodeList) + 1 then Ret (MaxNodesReached, w)
                  else let maxCores = GetMaxValue limiter ResourceNameCores 128;
                           maxMemory = GetMaxValue64 limiter ResourceNameMemory (1024 * 1024 * 1024);
                           currentAllocatedMemorySize = sum_list (map k_Memory nodeList);
                           currentAllocatedCores = sum_list (map k_Cpu nodeList)
                       in Ret (if maxCores < Vcpu machineSpec + currentAllocatedCores then MaxCpuReached
                               else if maxMemory < Memory_mb machineSpec + currentAllocatedMemorySize
                               then MaxMemoryReached else LimitsNice, w)))"

fun limit_message :: "limits_status \<Rightarrow> string \<Rightarrow> string" where
  "limit_message MaxCpuReached m = ''Cpus resource limit reached''"
| "limit_message MaxMemoryReached m = ''Memory resource limit reached''"
| "limit_message MaxNodesReached m = ''Nodes resource limit reached''"
| "limit_message LimitsNice m = m"

section \<open>Handling a managed node\<close>

text \<open>The two tables of a round: the key of each resource by its UID, and the nodes to create by group.\<close>

type_synonym round_tables = "(string, string) gomap \<times> (string, addr list) gomap"

type_synonym handled = "((managed_node_status \<times> error option) \<times> round_tables) app_result"

definition group_missing_status :: "app \<Rightarrow> managed_node \<Rightarrow> managed_node_status" where
  "group_missing_status a m =
     set_status (if isNodegroupDiscovered a then StatusManagedNodeCreationFailed
                 else StatusManagedNodeGroupNotFound)
       (Sprintf ErrNodeGroupNotFound [mn_Nodegroup m]) (mn_Status m)"

definition handle_missing_group :: "env \<Rightarrow> managed_node \<Rightarrow> app \<Rightarrow> world \<Rightarrow> managed_node_status \<times> world" where
  "handle_missing_group E m a w =
     (let newStatus = group_missing_status a m
      in (newStatus,
          if ms_Code (mn_Status m) \<noteq> ms_Code newStatus
          then write_status E m newStatus
                 (event EventTypeWarning
                    (if ms_Code newStatus = StatusManagedNodeGroupNotFound then WarningEvent else ErrorEvent)
                    (ms_Message newStatus) w)
          else w))"

definition needs_creation :: "managed_node_status \<Rightarrow> bool" where
  "needs_creation st \<longleftrightarrow> ms_Code st = StatusManagedNodeNeedToCreated
     \<or> ms_Code st = StatusManagedNodeGroupNotFound \<or> ms_Code st = StatusManagedNodeNiceLimitReached"

text \<open>The node is prepared in the group and put in the table of the nodes to create.\<close>

definition prepare_managed ::
  "env \<Rightarrow> managed_node \<Rightarrow> round_tables \<Rightarrow> app \<Rightarrow> world \<Rightarrow> handled" where
  "prepare_managed E m T a w =
     (let old = mn_Status m
      in gbind (on_group (mn_Nodegroup m) (addManagedNode E m) a w) (\<lambda>(r, a, w).
         case r of
           Inr p \<Rightarrow> gbind (load p w) (\<lambda>n.
             let nodesList = (case gget (snd T) (mn_Nodegroup m) of None \<Rightarrow> [p] | Some ps \<Rightarrow> ps @ [p]);
                 T = (fst T, gset (mn_Nodegroup m) nodesList (snd T));
                 newStatus = set_status StatusManagedNodeCreation (Sprintf ''Node %s in creation'' [NodeName n])
                   (old\<lparr>ms_NodeName := NodeName n, ms_InstanceName := InstanceName n\<rparr>)
             in Ret (((newStatus, None), T), a, event EventTypeNormal SuccessEvent (ms_Message newStatus) w))
         | Inl err \<Rightarrow>
             let newStatus = set_status StatusManagedNodeCreationFailed (err_text err) old
             in Ret (((newStatus, Some err), T), a, event EventTypeWarning ErrorEvent (ms_Message newStatus) w)))"

definition create_managed ::
  "env \<Rightarrow> string \<Rightarrow> managed_node \<Rightarrow> round_tables \<Rightarrow> app \<Rightarrow> world \<Rightarrow> handled" where
  "create_managed E key m T a w =
     (let old = mn_Status m
      in case getMachineType (mn_InstanceType m) a of
           None \<Rightarrow>
             let newStatus = set_status StatusManagedNodeInstanceTypeNotRegistred
                   (Sprintf ''managed node %s use unregistered instance type: %s'' [key, mn_InstanceType m]) old
             in Ret (((newStatus, None), T), a, event EventTypeWarning ErrorEvent (ms_Message newStatus) w)
         | Some machineSpec \<Rightarrow>
             gbind (checkRessourceLimits E machineSpec a w) (\<lambda>(limitStatus, w).
               if limitStatus \<noteq> LimitsNice
               then if ms_Code old \<noteq> StatusManagedNodeNiceLimitReached
                    then let newStatus = set_status StatusManagedNodeNiceLimitReached
                               (limit_message limitStatus (ms_Message old)) old
                         in Ret (((newStatus, None), T), a,
                                 event EventTypeWarning ErrorEvent (ms_Message newStatus) w)
                    else Ret (((old, None), T), a, w)
               else prepare_managed E m T a w))"

definition deleted_status :: "managed_node_status \<Rightarrow> managed_node_status" where
  "deleted_status old =
     set_status StatusManagedNodeDeleted
       (Sprintf ''the node %s hosted by instance %s was deleted'' [ms_NodeName old, ms_InstanceName old]) old"

definition handle_missing_node ::
  "env \<Rightarrow> string \<Rightarrow> managed_node \<Rightarrow> round_tables \<Rightarrow> app \<Rightarrow> world \<Rightarrow> handled" where
  "handle_missing_node E key m T a w =
     (let old = mn_Status m
      in gbind (if needs_creation old then create_managed E key m T a w
                else if ms_Code old = StatusManagedNodeCreated
                then let newStatus = deleted_status old
                     in Ret (((newStatus, None), T), a, event EventTypeWarning WarningEvent (ms_Message newStatus) w)
                else Ret (((old, None), T), a, w))
           (\<lambda>(((newStatus, err), T), a, w). Ret (((newStatus, err), T), a, write_status E m newStatus w)))"

definition recyclable :: "managed_node_status \<Rightarrow> bool" where
  "recyclable st \<longleftrightarrow> ms_Code st = StatusManagedNodeGroupNotFound \<or> ms_Code st = StatusManagedNodeNiceLimitReached"

text \<open>
  Returns whether the key may be queued again, the error, and the tables. When the lister does not
  find the resource it returns a nil resource, so the code that would delete its node is dead.
\<close>

definition handleManagedNode ::
  "env \<Rightarrow> key_codec \<Rightarrow> string \<Rightarrow> round_tables \<Rightarrow> app \<Rightarrow> world \<Rightarrow> ((bool \<times> error option) \<times> round_tables) app_result" where
  "handleManagedNode E K key T a w =
     (let (r, w) = getManagedNodeFromKey E K key w
      in case r of
           Inl err \<Rightarrow> Ret (((False, None), T), a, w)
         | Inr m \<Rightarrow>
             let T = (gset (mn_UID m) (generateKey K m) (fst T), snd T)
             in case getNodeGroup (mn_Nodegroup m) a of
                  Inl err \<Rightarrow>
                    let (newStatus, w) = handle_missing_group E m a w
                    in Ret (((recyclable newStatus, Some err), T), a, w)
                | Inr g \<Rightarrow> gbind (findNodeByCRDUID E g (mn_UID m) w) (\<lambda>(found, w).
                    case found of
                      Inr p \<Rightarrow> Ret (((recyclable (mn_Status m), None), T), a, w)
                    | Inl err \<Rightarrow>
                        gbind (handle_missing_node E key m T a w) (\<lambda>(((newStatus, err), T), a, w).
                        Ret (((recyclable newStatus, err), T), a, w))))"

section \<open>Rounds of the worker\<close>

definition process_item ::
  "env \<Rightarrow> key_codec \<Rightarrow> string \<Rightarrow> (round_tables \<times> string list) \<times> app \<times> world \<Rightarrow> (round_tables \<times> string list) app_result" where
  "process_item E K key s =
     (let ((T, recycled), a, w) = s
      in gbind (handleManagedNode E K key T a w) (\<lambda>(((ok, err), T), a, w).
         Ret ((T, if err \<noteq> None \<and> ok then recycled @ [key] else recycled), a, w)))"

text \<open>Returns the tables, the keys that are queued again, and whether the queue is still open.\<close>

definition processAllItems ::
  "env \<Rightarrow> key_codec \<Rightarrow> string list \<Rightarrow> bool \<Rightarrow> app \<Rightarrow> world \<Rightarrow> (round_tables \<times> string list \<times> bool) app_result" where
  "processAllItems E K keys shutdown a w =
     gbind (gfold (process_item E K) keys (((gmake, gmake), []), a, w)) (\<lambda>((T, recycled), a, w).
     Ret ((T, if shutdown then [] else recycled, \<not> shutdown), a, w))"

definition newControllerRef :: "managed_node \<Rightarrow> owner_ref" where
  "newControllerRef m =
     \<lparr>o_Kind = CRDKind, o_Name = mn_Name m, o_UID = mn_UID m, o_Controller = Some True,
      o_BlockOwnerDeletion = Some False\<rparr>"

text \<open>The Kubernetes node of a started machine gets the resource as its owner.\<close>

definition own_node :: "env \<Rightarrow> managed_node \<Rightarrow> node \<Rightarrow> world \<Rightarrow> world" where
  "own_node E m n w =
     (let (r, w) = wask (ans_node E) (Client (GetNode (NodeName n))) w
      in case r of
           Inl err \<Rightarrow> event EventTypeWarning ErrorEvent
             (Sprintf ''unable to find core node %s, reason: %v'' [NodeName n, err_text err]) w
         | Inr k \<Rightarrow>
             let ((name, err), w) = wask (ans_str E)
                   (Api (NodeUpdate (k_Name k) (k_Owners k @ [newControllerRef m]))) w
             in case err of
                  Some e \<Rightarrow> event EventTypeWarning ErrorEvent
                    (Sprintf ''failed to update owner reference for core node: %s, reason: %v''
                       [name, err_text e]) w
                | None \<Rightarrow> w)"

definition started_status :: "managed_node \<Rightarrow> node \<Rightarrow> managed_node_status" where
  "started_status m n =
     (if State n = Running
      then (set_status StatusManagedNodeCreated (Sprintf ''Node %s creation successful'' [NodeName n]) (mn_Status m))
             \<lparr>ms_NodeName := NodeName n, ms_InstanceName := InstanceName n, ms_InstanceID := VMUUID n\<rparr>
      else (set_status StatusManagedNodeCreationFailed (Sprintf ''Node %s creation failed'' [NodeName n]) (mn_Status m))
             \<lparr>ms_NodeName := NodeName n, ms_InstanceName := NodeName n\<rparr>)"

definition report_started :: "env \<Rightarrow> managed_node \<Rightarrow> node \<Rightarrow> world \<Rightarrow> world" where
  "report_started E m n w =
     (let newStatus = started_status m n;
          w = (if State n = Running
               then own_node E m n (note_call (Api WaitForCacheSync)
                      (event EventTypeNormal SuccessEvent (ms_Message newStatus) w))
               else event EventTypeWarning FailedEvent (ms_Message newStatus) w)
      in snd (updateManagedNodeStatus E m newStatus w))"

definition report_node :: "env \<Rightarrow> key_codec \<Rightarrow> (string, string) gomap \<Rightarrow> addr \<Rightarrow> world \<Rightarrow> world go" where
  "report_node E K managedNodesByUID p w =
     gbind (load p w) (\<lambda>n.
       case gget managedNodesByUID (CRDUID n) of
         None \<Rightarrow> Ret w
       | Some key \<Rightarrow>
           let (r, w) = getManagedNodeFromKey E K key w
           in case r of Inl err \<Rightarrow> Ret w | Inr m \<Rightarrow> Ret (report_started E m n w))"

definition start_group ::
  "env \<Rightarrow> key_codec \<Rightarrow> (string, string) gomap \<Rightarrow> string \<times> addr list \<Rightarrow> app \<times> world \<Rightarrow> (app \<times> world) go" where
  "start_group E K managedNodesByUID entry s =
     (let (nodeGroupName, nodesList) = entry; (a, w) = s
      in case getNodeGroup nodeGroupName a of
           Inl err \<Rightarrow> Ret (a, w)
         | Inr g \<Rightarrow> gbind (on_group nodeGroupName (createNodes E nodesList) a w) (\<lambda>(r, a, w).
             gbind (gfold (report_node E K managedNodesByUID) nodesList w) (\<lambda>w. Ret (a, w))))"

definition startManagedNodes :: "env \<Rightarrow> key_codec \<Rightarrow> round_tables \<Rightarrow> app \<Rightarrow> world \<Rightarrow> (app \<times> world) go" where
  "startManagedNodes E K T a w =
     (let (entries, w) = iterate E (gentries (snd T)) w
      in gfold (start_group E K (fst T)) entries (a, w))"

section \<open>Deletions\<close>

text \<open>Deleting the node of a resource; the flag tells whether the node was found.\<close>

definition delete_owned :: "env \<Rightarrow> string \<Rightarrow> string \<Rightarrow> app \<Rightarrow> world \<Rightarrow> bool app_result" where
  "delete_owned E nodegroup uid a w =
     (case getNodeGroup nodegroup a of
        Inl err \<Rightarrow> Ret (False, a, w)
      | Inr g \<Rightarrow> gbind (findNodeByCRDUID E g uid w) (\<lambda>(found, w).
          case found of
            Inl err \<Rightarrow> Ret (False, a, w)
          | Inr p \<Rightarrow> gbind (on_group nodegroup (deleteNode E p) a w) (\<lambda>(err, a, w). Ret (True, a, w))))"

definition deleteManagedNode :: "env \<Rightarrow> managed_node \<Rightarrow> app \<Rightarrow> world \<Rightarrow> (app \<times> world) go" where
  "deleteManagedNode E m a w =
     gbind (delete_owned E (mn_Nodegroup m) (mn_UID m) a w) (\<lambda>(found, a, w).
       if found then gbind (syncState E a w) (\<lambda>w. Ret (a, w)) else Ret (a, w))"

definition drop_orphan :: "env \<Rightarrow> key_codec \<Rightarrow> knode \<Rightarrow> nat \<times> app \<times> world \<Rightarrow> (nat \<times> app \<times> world) go" where
  "drop_orphan E K k s =
     (let (deleted, a, w) = s
      in case GetControllerOf (k_Owners k) of
           None \<Rightarrow> Ret s
         | Some ownerRef \<Rightarrow>
             if o_Kind ownerRef \<noteq> CRDKind then Ret s
             else let (r, w) = getManagedNodeFromKey E K (o_Name ownerRef) w
                  in if IsNotFound (case r of Inl err \<Rightarrow> Some err | Inr m \<Rightarrow> None)
                     then (case gget (k_Annotations k) AnnotationNodeGroupName of
                         None \<Rightarrow> Ret (deleted, a, w)
                       | Some nodegroup \<Rightarrow>
                           gbind (delete_owned E nodegroup (o_UID ownerRef) a w) (\<lambda>(found, a, w).
                           Ret (if found then Suc deleted else deleted, a, w)))
                     else Ret (deleted, a, w))"

text \<open>The new status of the resource is computed for the event; it is not written.\<close>

definition drop_vanished :: "env \<Rightarrow> managed_node \<Rightarrow> nat \<times> app \<times> world \<Rightarrow> (nat \<times> app \<times> world) go" where
  "drop_vanished E m s =
     (let (deleted, a, w) = s; st = mn_Status m
      in if ms_Code st = StatusManagedNodeCreated \<and> 0 < length (ms_NodeName st)
         then let (r, w) = wask (ans_node E) (Api (NodesListerGet (ms_NodeName st))) w
              in if IsNotFound (case r of Inl err \<Rightarrow> Some err | Inr k \<Rightarrow> None)
                 then let w = event EventTypeWarning WarningEvent (ms_Message (deleted_status st)) w
                      in gbind (delete_owned E (mn_Nodegroup m) (mn_UID m) a w) (\<lambda>(found, a, w).
                         Ret (if found then Suc deleted else deleted, a, w))
                 else Ret (deleted, a, w)
         else Ret s)"

definition controller_findManagedNodeDeleted :: "env \<Rightarrow> key_codec \<Rightarrow> app \<Rightarrow> world \<Rightarrow> (app \<times> world) go" where
  "controller_findManagedNodeDeleted E K a w =
     (let (nodes, w) = wask (ans_nodes E) (Api NodesListerList) w
      in gbind (case nodes of Inl err \<Rightarrow> Ret (0, a, w)
                | Inr nodeList \<Rightarrow> gfold (drop_orphan E K) nodeList (0, a, w)) (\<lambda>(deleted, a, w).
         let (manageds, w) = wask (ans_manageds E) (Api ManagedNodesListerList) w
         in gbind (case manageds of Inl err \<Rightarrow> Ret (deleted, a, w)
                   | Inr managedNodeList \<Rightarrow> gfold (drop_vanished E) managedNodeList (deleted, a, w))
              (\<lambda>(deleted, a, w).
                 if 0 < deleted then gbind (syncState E a w) (\<lambda>w. Ret (a, w)) else Ret (a, w))))"

definition deleteOwnerRef :: "env \<Rightarrow> key_codec \<Rightarrow> owner_ref \<Rightarrow> app \<Rightarrow> world \<Rightarrow> (app \<times> world) go" where
  "deleteOwnerRef E K ownerRef a w =
     (let (r, w) = getManagedNodeFromKey E K (o_Name ownerRef) w
      in case r of
           Inl err \<Rightarrow> Ret (a, w)
         | Inr m \<Rightarrow> gbind (deleteManagedNode E m a w) (\<lambda>(a, w).
             if o_BlockOwnerDeletion ownerRef = Some False
             then let (err, w) = wask (ans_err E) (Api NodeManagerClient) w
                  in if err = None
                     then Ret (a, snd (wask (ans_err E) (Api (ManagedNodeDelete (mn_Name m))) w))
                     else Ret (a, w)
             else Ret (a, w)))"

text \<open>What an informer hands to \<^verbatim>\<open>handleNode\<close>: a node, a tombstone (with its object if it has a usable one), or
  something else.\<close>

datatype informer_object = NodeObject knode | Tombstone "knode option" | OtherObject

fun informer_node :: "informer_object \<Rightarrow> knode option" where
  "informer_node (NodeObject k) = Some k"
| "informer_node (Tombstone k) = k"
| "informer_node OtherObject = None"

definition handleNode :: "env \<Rightarrow> key_codec \<Rightarrow> informer_object \<Rightarrow> app \<Rightarrow> world \<Rightarrow> (app \<times> world) go" where
  "handleNode E K obj a w =
     (case informer_node obj of
        None \<Rightarrow> Ret (a, w)
      | Some k \<Rightarrow> (case GetControllerOf (k_Owners k) of
          None \<Rightarrow> Ret (a, w)
        | Some ownerRef \<Rightarrow>
            if o_Kind ownerRef \<noteq> CRDKind then Ret (a, w)
            else let (r, w) = getManagedNodeFromKey E K (o_Name ownerRef) w
                 in case r of
                      Inl err \<Rightarrow> Ret (a, w)
                    | Inr m \<Rightarrow>
                        let (k', w) = wask (ans_node E) (Client (GetNode (ms_NodeName (mn_Status m)))) w
                        in if IsNotFound (case k' of Inl err \<Rightarrow> Some err | Inr n \<Rightarrow> None)
                           then deleteOwnerRef E K ownerRef a w else Ret (a, w)))"

section \<open>The worker\<close>

text \<open>One round of the loop: whether to go on, and the keys that are queued again.\<close>

definition worker_round ::
  "env \<Rightarrow> key_codec \<Rightarrow> string list \<Rightarrow> bool \<Rightarrow> app \<Rightarrow> world \<Rightarrow> (bool \<times> string list) app_result" where
  "worker_round E K keys shutdown a w =
     gbind (processAllItems E K keys shutdown a w) (\<lambda>((T, recycled, ok), a, w).
       if ok
       then if 0 < glen (snd T)
            then let w = note_call (Api WaitForCacheSync) w
                 in gbind (startManagedNodes E K T a w) (\<lambda>(a, w).
                    gbind (syncState E a w) (\<lambda>w. Ret ((True, recycled), a, w)))
            else Ret ((True, recycled), a, w)
       else Ret ((False, recycled), a, w))"

text \<open>The worker, given what the queue holds in each round, until it is shut down.\<close>

primrec run_rounds :: "env \<Rightarrow> key_codec \<Rightarrow> (string list \<times> bool) list \<Rightarrow> app \<Rightarrow> world \<Rightarrow> (app \<times> world) go" where
  "run_rounds E K [] a w = Ret (a, w)"
| "run_rounds E K (r # rounds) a w =
     gbind (worker_round E K (fst r) (snd r) a w) (\<lambda>((go_on, recycled), a, w).
       if go_on then run_rounds E K rounds a w else Ret (a, w))"

definition runWorker :: "env \<Rightarrow> key_codec \<Rightarrow> (string list \<times> bool) list \<Rightarrow> app \<Rightarrow> world \<Rightarrow> (app \<times> world) go" where
  "runWorker E K rounds a w =
     gbind (controller_findManagedNodeDeleted E K a w) (\<lambda>(a, w). run_rounds E K rounds a w)"

end
