(* ===== verification/App_Invariant.thy ===== *)
theory App_Invariant
  imports Controller
begin

text \<open>
  The invariant of the server: the table of groups has one entry per name, each entry is the group
  of that name, every group satisfies its own invariant on the shared heap of nodes. The contract
  \<open>app_operation\<close> says that an operation keeps it and only adds calls; it is interpreted on the
  operations of \<^verbatim>\<open>server/server.go\<close>, on the handlers of the two services and on the controller.
\<close>

section \<open>The invariant\<close>

definition app_inv :: "app \<Rightarrow> world \<Rightarrow> bool" where
  "app_inv a w \<longleftrightarrow>
     heap_wf w \<and> gwf (Groups a) \<and>
     (\<forall>name g. gget (Groups a) name = Some g \<longrightarrow> group_inv g w \<and> NodeGroupIdentifier g = name)"

definition aframe :: "app \<times> world \<Rightarrow> app \<times> world \<Rightarrow> bool" where
  "aframe s s' \<longleftrightarrow>
     app_inv (fst s') (snd s') \<and> evolves (snd s) (snd s') \<and>
     app_machines (fst s') = app_machines (fst s) \<and> app_configuration (fst s') = app_configuration (fst s)"

definition akeeps :: "app \<times> world \<Rightarrow> 'a app_result \<Rightarrow> bool" where
  "akeeps s m \<longleftrightarrow> holds (\<lambda>(r, s'). aframe s s') m"

definition skeeps :: "app \<times> world \<Rightarrow> (app \<times> world) go \<Rightarrow> bool" where
  "skeeps s m \<longleftrightarrow> holds (aframe s) m"

lemma aframe_refl: "app_inv a w \<Longrightarrow> aframe (a, w) (a, w)"
  by (simp add: aframe_def)

lemma aframe_trans [trans]: "aframe s t \<Longrightarrow> aframe t u \<Longrightarrow> aframe s u"
  by (auto simp: aframe_def intro: evolves_trans)

lemma aframe_inv: "aframe s (a, w) \<Longrightarrow> app_inv a w"
  by (simp add: aframe_def)

lemma wframe_heap: "wframe w w' \<Longrightarrow> heap_wf w \<Longrightarrow> heap_wf w'"
  by (simp add: wframe_def)

lemma app_inv_world: "app_inv a w \<Longrightarrow> wframe w w' \<Longrightarrow> app_inv a w'"
  unfolding app_inv_def by (auto intro: group_inv_wframe wframe_heap)

lemma aframe_world: "aframe s (a, w) \<Longrightarrow> wframe w w' \<Longrightarrow> aframe s (a, w')"
  using app_inv_world [of a w w'] by (auto simp: aframe_def intro: evolves_trans wframe_evolves)

lemma aframe_fields [simp]:
  "aframe s (a\<lparr>NodesDefinition := ds\<rparr>, w) = aframe s (a, w)"
  "aframe s (a\<lparr>app_AutoProvision := b\<rparr>, w) = aframe s (a, w)"
  "aframe s (a\<lparr>ResourceLimiter := l\<rparr>, w) = aframe s (a, w)"
  by (simp_all add: aframe_def app_inv_def)

lemma aframe_groups:
  "aframe s (a, w) \<Longrightarrow> gwf m \<Longrightarrow>
   (\<And>name g. gget m name = Some g \<Longrightarrow> group_inv g w \<and> NodeGroupIdentifier g = name) \<Longrightarrow>
   aframe s (a\<lparr>Groups := m\<rparr>, w)"
  by (simp add: aframe_def app_inv_def)

lemma aframe_lookup: "aframe s (a, w) \<Longrightarrow> gget (Groups a) name = Some g \<Longrightarrow> group_inv g w \<and> NodeGroupIdentifier g = name"
  by (simp add: aframe_def app_inv_def)

lemma aframe_remove: "aframe s (a, w) \<Longrightarrow> aframe s (a\<lparr>Groups := gdel name (Groups a)\<rparr>, w)"
  by (rule aframe_groups) (auto simp: aframe_def app_inv_def split: if_splits)

lemma aframe_reset: "aframe s (a, w) \<Longrightarrow> aframe s (a\<lparr>Groups := gmake\<rparr>, w)"
  by (rule aframe_groups) auto

text \<open>Replacing a group by what an operation made of it.\<close>

definition regroup :: "group \<times> world \<Rightarrow> group \<times> world \<Rightarrow> bool" where
  "regroup s s' \<longleftrightarrow>
     group_inv (fst s') (snd s') \<and> wframe (snd s) (snd s') \<and>
     NodeGroupIdentifier (fst s') = NodeGroupIdentifier (fst s)"

lemma gframe_regroup: "gframe s (g, w) \<Longrightarrow> regroup s (g, w)"
  by (auto simp: gframe_def regroup_def wframe_def group_inv_def same_settings_def)

lemma regroup_refl: "group_inv g w \<Longrightarrow> regroup (g, w) (g, w)"
  by (simp add: regroup_def)

lemma regroup_trans: "regroup s t \<Longrightarrow> regroup t u \<Longrightarrow> regroup s u"
  by (auto simp: regroup_def intro: wframe_trans)

lemma aframe_put:
  assumes "aframe s (a, w)" "gget (Groups a) name = Some g" "regroup (g, w) (g', w')"
  shows "aframe s (put_group name g' a, w')"
proof -
  have ev: "wframe w w'" and g': "group_inv g' w'" "NodeGroupIdentifier g' = NodeGroupIdentifier g"
    using assms(3) by (auto simp: regroup_def)
  from assms(1) ev have a: "aframe s (a, w')" by (rule aframe_world)
  have "NodeGroupIdentifier g = name" using aframe_lookup [OF assms(1,2)] by simp
  with a g' show ?thesis
    unfolding put_group_def by (intro aframe_groups) (auto simp: aframe_def app_inv_def split: if_splits)
qed

section \<open>The elementary steps\<close>

lemma akeeps_simps [simp]:
  "akeeps s (Ret (r, s')) = aframe s s'" "akeeps s (Panic p)" "akeeps s Diverge"
  by (simp_all add: akeeps_def)

lemma skeeps_simps [simp]:
  "skeeps s (Ret s') = aframe s s'" "skeeps s (Panic p)" "skeeps s Diverge"
  by (simp_all add: skeeps_def)

lemma akeeps_bind:
  "akeeps s m \<Longrightarrow> (\<And>r a w. aframe s (a, w) \<Longrightarrow> akeeps s (k (r, a, w))) \<Longrightarrow> akeeps s (gbind m k)"
  by (cases m) (auto simp: akeeps_def)

lemma skeeps_abind:
  "akeeps s m \<Longrightarrow> (\<And>r a w. aframe s (a, w) \<Longrightarrow> skeeps s (k (r, a, w))) \<Longrightarrow> skeeps s (gbind m k)"
  by (cases m) (auto simp: akeeps_def)

lemma skeeps_bind:
  "skeeps s m \<Longrightarrow> (\<And>a w. aframe s (a, w) \<Longrightarrow> skeeps s (k (a, w))) \<Longrightarrow> skeeps s (gbind m k)"
  by (cases m) (auto simp: skeeps_def)

lemma akeeps_sbind:
  "skeeps s m \<Longrightarrow> (\<And>a w. aframe s (a, w) \<Longrightarrow> akeeps s (k (a, w))) \<Longrightarrow> akeeps s (gbind m k)"
  by (cases m) (auto simp: skeeps_def)

lemma akeeps_world:
  "aframe s (a, w) \<Longrightarrow> holds (wframe w) m \<Longrightarrow> (\<And>w'. aframe s (a, w') \<Longrightarrow> akeeps s (k w')) \<Longrightarrow>
   akeeps s (gbind m k)"
  by (cases m) (auto intro: aframe_world)

lemma skeeps_world:
  "aframe s (a, w) \<Longrightarrow> holds (wframe w) m \<Longrightarrow> (\<And>w'. aframe s (a, w') \<Longrightarrow> skeeps s (k w')) \<Longrightarrow>
   skeeps s (gbind m k)"
  by (cases m) (auto intro: aframe_world)

lemma akeeps_wkeeps:
  "aframe s (a, w) \<Longrightarrow> wkeeps w m \<Longrightarrow> (\<And>r w'. aframe s (a, w') \<Longrightarrow> akeeps s (k (r, w'))) \<Longrightarrow>
   akeeps s (gbind m k)"
  by (cases m) (auto simp: wkeeps_def intro: aframe_world)

lemma akeeps_load:
  "aframe s (a, w) \<Longrightarrow> (\<And>n. aframe s (a, w) \<Longrightarrow> akeeps s (k n)) \<Longrightarrow> akeeps s (gbind (load p w) k)"
  by (auto simp: load_def split: option.splits)

lemma akeeps_wask:
  "aframe s (a, w) \<Longrightarrow> (\<And>r w'. aframe s (a, w') \<Longrightarrow> akeeps s (k r w')) \<Longrightarrow>
   akeeps s (case wask f c w of (r, w') \<Rightarrow> k r w')"
  by (cases "wask f c w") (auto intro: aframe_world dest: wframe_wask)

lemma akeeps_iterate:
  "aframe s (a, w) \<Longrightarrow> (\<And>r w'. aframe s (a, w') \<Longrightarrow> akeeps s (k r w')) \<Longrightarrow>
   akeeps s (case iterate E xs w of (r, w') \<Rightarrow> k r w')"
  by (cases "iterate E xs w") (auto intro: aframe_world dest: wframe_iterate)

lemma gfold_akeeps:
  assumes "\<And>x r a w. x \<in> set xs \<Longrightarrow> aframe s (a, w) \<Longrightarrow> akeeps s (f x (r, a, w))" "aframe s (a, w)"
  shows "akeeps s (gfold f xs (r, a, w))"
  unfolding akeeps_def
  by (rule gfold_holds) (use assms in \<open>auto simp: akeeps_def\<close>)

lemma gfold_skeeps:
  assumes "\<And>x a w. x \<in> set xs \<Longrightarrow> aframe s (a, w) \<Longrightarrow> skeeps s (f x (a, w))" "aframe s (a, w)"
  shows "skeeps s (gfold f xs (a, w))"
  unfolding skeeps_def
  by (rule gfold_holds) (use assms in \<open>auto simp: skeeps_def\<close>)

lemma akeeps_group:
  "holds (\<lambda>(r, s'). regroup (g, w) s') m \<Longrightarrow>
   (\<And>r g' w'. regroup (g, w) (g', w') \<Longrightarrow> akeeps s (k (r, g', w'))) \<Longrightarrow> akeeps s (gbind m k)"
  by (cases m) auto

text \<open>Running an operation of a group, from its contract.\<close>

lemma akeeps_on_group:
  assumes "aframe s (a, w)"
    "\<And>g. group_inv g w \<Longrightarrow> holds (\<lambda>(r, s'). regroup (g, w) s') (f g w)"
  shows "akeeps s (on_group name f a w)"
proof (cases "gget (Groups a) name")
  case (Some g)
  have inv: "group_inv g w" using aframe_lookup [OF assms(1) Some] by simp
  show ?thesis
  proof (cases "f g w")
    case (Ret res)
    obtain r g' w' where res: "res = (r, g', w')" by (cases res)
    with assms(2) [OF inv] Ret have "regroup (g, w) (g', w')" by simp
    from aframe_put [OF assms(1) Some this] show ?thesis by (simp add: on_group_def Some Ret res)
  qed (simp_all add: on_group_def Some)
qed (simp add: on_group_def)

context group_operation
begin

lemma regroups: "group_inv g w \<Longrightarrow> holds (\<lambda>(r, s'). regroup (g, w) s') (operation g w)"
  by (rule holdsI) (auto dest: frame intro: gframe_regroup)

lemma on_app: "aframe s (a, w) \<Longrightarrow> akeeps s (on_group name operation a w)"
  by (rule akeeps_on_group, assumption, rule regroups)

end

section \<open>The operations of the server\<close>

lemma akeeps_deleteNodeGroup: "aframe s (a, w) \<Longrightarrow> akeeps s (deleteNodeGroup E name a w)"
  unfolding deleteNodeGroup_def group_deleteNodeGroup_def
  by (auto intro!: akeeps_bind clean.on_app aframe_remove)

text \<open>The steps that first mark the group and then run an operation on it.\<close>

lemma group_inv_Status [simp]: "group_inv (g\<lparr>Status := st\<rparr>) w = group_inv g w"
  by (simp add: group_inv_def)

lemma regroup_Status [simp]:
  "regroup (g\<lparr>Status := st\<rparr>, w) s' = regroup (g, w) s'"
  "regroup s (g\<lparr>Status := st\<rparr>, w) = regroup s (g, w)"
  by (simp_all add: regroup_def)

lemma akeeps_createNodeGroup:
  assumes "aframe s (a, w)"
  shows "akeeps s (createNodeGroup E name a w)"
proof (cases "gget (Groups a) name")
  case (Some g)
  have inv: "group_inv g w" using aframe_lookup [OF assms Some] by simp
  have grow: "holds (\<lambda>(r, s'). regroup (g, w) s') (addNodes E d (g\<lparr>Status := NodegroupCreating\<rparr>) w)" for d
  proof (rule holdsI)
    fix res assume "addNodes E d (g\<lparr>Status := NodegroupCreating\<rparr>) w = Ret res"
    with gkeeps_addNodes [of "(g, w)" "g\<lparr>Status := NodegroupCreating\<rparr>" w E d] inv
    show "case res of (r, s') \<Rightarrow> regroup (g, w) s'"
      by (auto simp: gframe_refl intro: gframe_regroup split: prod.splits)
  qed
  have put: "aframe s (put_group name (g'\<lparr>Status := st\<rparr>) a, w')" if "regroup (g, w) (g', w')" for g' w' st
    by (rule aframe_put [OF assms Some]) (simp add: that)
  show ?thesis
    using put regroup_refl [OF inv] assms
    by (auto simp: createNodeGroup_def Some Let_def intro!: akeeps_group [OF grow])
qed (use assms in \<open>simp add: createNodeGroup_def\<close>)

lemma group_inv_new: "heap_wf w \<Longrightarrow> group_inv (NewAutoScalerServerNodeGroup i) w"
  by (simp add: NewAutoScalerServerNodeGroup_def group_inv_def)

lemma newNodeGroup_frame:
  assumes "aframe s (a, w)"
  shows "holds (\<lambda>(r, a'). aframe s (a', w)) (newNodeGroup i a)"
proof -
  have wf: "heap_wf w" using assms by (simp add: aframe_def app_inv_def)
  have id: "NodeGroupIdentifier (NewAutoScalerServerNodeGroup j) = nodeGroupID j" for j
    by (simp add: NewAutoScalerServerNodeGroup_def)
  show ?thesis
    using assms group_inv_new [OF wf]
    by (auto simp: newNodeGroup_def Let_def holds_gput id aframe_def app_inv_def split: option.splits)
qed

lemma akeeps_newNodeGroup:
  "aframe s (a, w) \<Longrightarrow> (\<And>r a'. aframe s (a', w) \<Longrightarrow> akeeps s (k (r, a'))) \<Longrightarrow>
   akeeps s (gbind (newNodeGroup i a) k)"
  using newNodeGroup_frame [of s a w i] by (cases "newNodeGroup i a") auto

lemma regroup_rediscover:
  assumes "group_inv g w"
  shows "holds (\<lambda>(r, s'). regroup (g, w) s') (gbind (autoDiscoveryNodes E b g w) (\<lambda>(r, g, w). case r of
           Inl err \<Rightarrow> Ret (Some err, g, w)
         | Inr formerNodes \<Rightarrow> gbind (findManagedNodeDeleted E formerNodes g w) (\<lambda>w. Ret (None, g, w))))"
proof -
  have drop: "holds (\<lambda>(r, s'). regroup (g, w) s')
      (gbind (findManagedNodeDeleted E former g' w') (\<lambda>w. Ret (None, g', w)))"
    if "regroup (g, w) (g', w')" for former g' w'
    using findManagedNodeDeleted_frame [of w' E former g'] that
    by (cases "findManagedNodeDeleted E former g' w'")
      (auto simp: regroup_def intro: wframe_trans group_inv_wframe)
  have "holds (\<lambda>(r, s'). regroup (g, w) s') (autoDiscoveryNodes E b g w)"
    by (rule discovery.regroups [OF assms])
  then have "holds (\<lambda>x. holds (\<lambda>(r, s'). regroup (g, w) s') (case x of (r, g, w) \<Rightarrow> (case r of
           Inl err \<Rightarrow> Ret (Some err, g, w)
         | Inr formerNodes \<Rightarrow> gbind (findManagedNodeDeleted E formerNodes g w) (\<lambda>w. Ret (None, g, w)))))
      (autoDiscoveryNodes E b g w)"
    by (rule holds_mono) (auto simp del: holds_gbind intro: drop split: sum.splits)
  then show ?thesis by simp
qed

lemma akeeps_rediscover: "aframe s (a, w) \<Longrightarrow> akeeps s (rediscover E d a w)"
  unfolding rediscover_def by (rule akeeps_on_group, assumption, rule regroup_rediscover)

lemma akeeps_provision_one: "aframe s (a, w) \<Longrightarrow> akeeps s (provision_one E d (r, a, w))"
  by (auto simp: provision_one_def Let_def
      intro!: akeeps_rediscover akeeps_newNodeGroup akeeps_bind [OF akeeps_createNodeGroup] split: sum.splits)

lemma akeeps_doAutoProvision: "aframe s (a, w) \<Longrightarrow> akeeps s (doAutoProvision E a w)"
  unfolding doAutoProvision_def by (auto intro: gfold_akeeps akeeps_provision_one)

lemma wframe_saveState [simp, intro]: "wframe w w' \<Longrightarrow> wframe w (saveState E a w')"
  by (auto simp: saveState_def split: prod.splits intro: wframe_trans dest: wframe_wask)
    (metis snd_conv surj_pair wframe_trans wframe_wask)

lemma refresh_groups_frame: "holds (wframe w) (refresh_groups E a w)"
proof -
  obtain gs w1 where gs: "iterate E (gvals (Groups a)) w = (gs, w1)" by fastforce
  have "holds (wframe w) (gfold (refresh E) gs w1)"
  proof (rule gfold_holds)
    show "wframe w w1" by (rule wframe_iterate [OF gs])
    show "holds (wframe w) (refresh E g w')" if "wframe w w'" for g w'
      using refresh_frame [of w' E g] that by (auto elim!: holds_mono intro: wframe_trans)
  qed
  with gs show ?thesis by (simp add: refresh_groups_def)
qed

lemma syncState_frame: "holds (wframe w) (syncState E a w)"
  using refresh_groups_frame [of w E a] by (auto simp: syncState_def elim!: holds_mono)

lemma akeeps_refresh:
  "aframe s (a, w) \<Longrightarrow> (\<And>w'. aframe s (a, w') \<Longrightarrow> akeeps s (k w')) \<Longrightarrow>
   akeeps s (gbind (refresh_groups E a w) k)"
  by (rule akeeps_world [OF _ refresh_groups_frame])

lemma akeeps_sync:
  "aframe s (a, w) \<Longrightarrow> (\<And>w'. aframe s (a, w') \<Longrightarrow> akeeps s (k w')) \<Longrightarrow>
   akeeps s (gbind (syncState E a w) k)"
  by (rule akeeps_world [OF _ syncState_frame])

lemma skeeps_sync: "aframe s (a, w) \<Longrightarrow> skeeps s (gbind (syncState E a w) (\<lambda>w. Ret (a, w)))"
  by (rule skeeps_world [OF _ syncState_frame]) auto

lemma aframe_saveState [intro]: "aframe s (a, w) \<Longrightarrow> aframe s (a, saveState E a' w)"
  by (rule aframe_world) auto

section \<open>Loading a saved state\<close>

lemma wkeeps_setServerConfiguration:
  "wkeeps w (run_vm (\<lambda>s. Ret (setServerConfiguration E config s)) p w)"
proof (cases "heap w p")
  case (Some n)
  obtain err n' h where r: "setServerConfiguration E config (n, trace w) = (err, n', h)"
    by (metis surj_pair)
  then have "same_names n n'" "extends (trace w) h"
    by (auto simp: setServerConfiguration_def ask_def Let_def same_names_def split: sum.splits)
  with Some r show ?thesis
    by (simp add: wkeeps_def run_vm_def load_def wframe_store)
qed (simp add: wkeeps_def run_vm_def load_def)

lemma regroup_setConfiguration:
  assumes "group_inv g w"
  shows "holds (\<lambda>(r, s'). regroup (g, w) s') (group_setConfiguration E config machines g w)"
proof -
  define g1 where "g1 = g\<lparr>configuration := config, group_machines := machines\<rparr>"
  obtain ps w1 where ps: "AllNodes E g1 w = (ps, w1)" by fastforce
  have g1: "group_inv g1 w" "NodeGroupIdentifier g1 = NodeGroupIdentifier g"
    using assms by (simp_all add: g1_def group_inv_def)
  have step: "holds (\<lambda>(r, s'). regroup (g, w) s') (if err \<noteq> None then Ret (err, g', w')
      else gbind (run_vm (\<lambda>s. Ret (setServerConfiguration E config s)) p w') (\<lambda>(err, w). Ret (err, g', w)))"
    if "regroup (g, w) (g', w')" for err p g' w'
    using wkeeps_setServerConfiguration [of w' E config p] that
    by (cases "run_vm (\<lambda>s. Ret (setServerConfiguration E config s)) p w'")
      (auto simp: regroup_def wkeeps_def intro: wframe_trans group_inv_wframe)
  have "regroup (g, w) (g1, w1)"
    using wframe_AllNodes [OF ps] g1 by (auto simp: regroup_def intro: group_inv_wframe)
  then have "holds (\<lambda>(r, s'). regroup (g, w) s') (gfold (\<lambda>p (err, g, w).
      if err \<noteq> None then Ret (err, g, w)
      else gbind (run_vm (\<lambda>s. Ret (setServerConfiguration E config s)) p w) (\<lambda>(err, w). Ret (err, g, w)))
      ps (None, g1, w1))"
    by (intro gfold_holds) (use step in \<open>auto simp del: holds_gbind\<close>)
  with ps show ?thesis by (simp add: group_setConfiguration_def g1_def)
qed

lemma akeeps_configure_group: "aframe s (a, w) \<Longrightarrow> akeeps s (configure_group E name (r, a, w))"
  unfolding configure_group_def
  by (auto intro!: akeeps_on_group regroup_setConfiguration)

lemma akeeps_Load: "aframe s (a, w) \<Longrightarrow> akeeps s (Load E a w)"
  unfolding Load_def Let_def
  by (erule akeeps_iterate, rule akeeps_bind, rule gfold_akeeps)
    (auto intro: akeeps_configure_group akeeps_doAutoProvision)

lemma akeeps_external_doAutoProvision: "aframe s (a, w) \<Longrightarrow> akeeps s (external_doAutoProvision E a w)"
  by (auto simp: external_doAutoProvision_def Let_def
      intro!: akeeps_bind [OF akeeps_doAutoProvision] akeeps_sync)

section \<open>The handlers of the two services\<close>

lemma akeeps_guarded: "aframe s (a, w) \<Longrightarrow> akeeps s m \<Longrightarrow> akeeps s (guarded providerID a w m)"
  by (simp add: guarded_def)

lemma akeeps_optional: "aframe s (a, w) \<Longrightarrow> akeeps s m \<Longrightarrow> akeeps s (optional flag a w m)"
  by (auto simp: optional_def split: option.splits)

lemma akeeps_with_group:
  "aframe s (a, w) \<Longrightarrow> (\<And>g. gget (Groups a) gid = Some g \<Longrightarrow> akeeps s (body g)) \<Longrightarrow>
   akeeps s (with_group gid a w body)"
  by (auto simp: with_group_def getNodeGroup_def split: option.splits)

lemma akeeps_with_ext_group:
  "aframe s (a, w) \<Longrightarrow> (\<And>g. gget (Groups a) gid = Some g \<Longrightarrow> akeeps s (body g)) \<Longrightarrow>
   akeeps s (with_ext_group gid a w missing body)"
  by (auto simp: with_ext_group_def split: option.splits)

lemmas handler_steps = akeeps_guarded akeeps_optional akeeps_with_group akeeps_with_ext_group

lemma akeeps_connect: "aframe s (a, w) \<Longrightarrow> akeeps s (grpc_Connect E pid limiter nodes auto a w)"
  by (auto simp: grpc_Connect_def connect_limits_def Let_def split: option.splits
      intro!: handler_steps akeeps_bind [OF akeeps_doAutoProvision])

lemma aframe_generateName: "aframe s (a, w) \<Longrightarrow> generateNodeGroupName E w = (name, w') \<Longrightarrow> aframe s (a, w')"
  by (auto simp: generateNodeGroupName_def Let_def split: prod.splits intro: aframe_world dest: wframe_wask)

lemma akeeps_NewNodeGroup: "aframe s (a, w) \<Longrightarrow> akeeps s (grpc_NewNodeGroup E pid request a w)"
  by (auto simp: grpc_NewNodeGroup_def Let_def split: prod.splits sum.splits
      intro!: handler_steps akeeps_newNodeGroup dest: aframe_generateName)

lemma akeeps_cleanup_groups: "aframe s (a, w) \<Longrightarrow> akeeps s (cleanup_groups E a w)"
  unfolding cleanup_groups_def Let_def
  by (erule akeeps_iterate, rule akeeps_bind, rule gfold_akeeps)
    (auto simp: cleanup_group_def intro!: akeeps_bind clean.on_app aframe_reset)

lemma akeeps_Cleanup: "aframe s (a, w) \<Longrightarrow> akeeps s (grpc_Cleanup E pid a w)"
  by (auto simp: grpc_Cleanup_def intro!: handler_steps akeeps_bind [OF akeeps_cleanup_groups])

lemma akeeps_Refresh: "aframe s (a, w) \<Longrightarrow> akeeps s (grpc_Refresh E pid a w)"
  by (auto simp: grpc_Refresh_def intro!: handler_steps akeeps_refresh intro: aframe_world)

lemma akeeps_HasInstance: "aframe s (a, w) \<Longrightarrow> akeeps s (grpc_HasInstance E json pid text a w)"
  by (auto simp: grpc_HasInstance_def intro!: handler_steps akeeps_wkeeps [OF _ wkeeps_hasInstance]
      split: sum.splits option.splits)

lemma akeeps_IncreaseSize: "aframe s (a, w) \<Longrightarrow> akeeps s (grpc_IncreaseSize E pid gid delta a w)"
  by (auto simp: grpc_IncreaseSize_def Let_def intro!: handler_steps akeeps_bind [OF set_size.on_app])

lemma akeeps_delete_nodes_loop:
  "aframe s (a, w) \<Longrightarrow> akeeps s (delete_nodes_loop E json gid nodes idx owner a w)"
proof (induction nodes arbitrary: idx owner a w)
  case (Cons t rest)
  then show ?case
    by (auto intro!: akeeps_bind [OF delete_named.on_app] split: sum.splits option.splits)
qed simp

lemma akeeps_DeleteNodes: "aframe s (a, w) \<Longrightarrow> akeeps s (grpc_DeleteNodes E json pid gid nodes a w)"
  by (auto simp: grpc_DeleteNodes_def intro!: handler_steps akeeps_delete_nodes_loop)

lemma akeeps_DecreaseTargetSize: "aframe s (a, w) \<Longrightarrow> akeeps s (grpc_DecreaseTargetSize E pid gid delta a w)"
  by (auto simp: grpc_DecreaseTargetSize_def Let_def intro!: handler_steps akeeps_bind [OF set_size.on_app])

lemma list_instances_frame: "wkeeps w (list_instances E g w)"
proof -
  obtain ps w1 where ps: "AllNodes E g w = (ps, w1)" by fastforce
  have ext: "extends h (snd (generateProviderID E n h))" for n h
    by (auto simp: generateProviderID_def Let_def ask_def split: option.splits prod.splits)
  have step: "holds (\<lambda>(r, w'). wframe w w') (gbind (load p w') (\<lambda>n.
      let (pid, h) = generateProviderID E n (trace w')
      in Ret (instances @ [(pid, instance_state_of (State n))], w'\<lparr>trace := h\<rparr>)))"
    if "wframe w w'" for p w' instances
    using that ext [of "trace w'"]
    by (auto simp: load_def wframe_def evolves_def heap_wf_def Let_def case_prod_unfold
        split: option.splits intro: extends_trans)
  have "wkeeps w (gfold (\<lambda>p (instances, w). gbind (load p w) (\<lambda>n.
      let (pid, h) = generateProviderID E n (trace w)
      in Ret (instances @ [(pid, instance_state_of (State n))], w\<lparr>trace := h\<rparr>))) ps ([], w1))"
    unfolding wkeeps_def
    by (rule gfold_holds) (use step wframe_AllNodes [OF ps] in \<open>auto simp del: holds_gbind\<close>)
  with ps show ?thesis by (simp add: list_instances_def)
qed

lemma akeeps_Nodes: "aframe s (a, w) \<Longrightarrow> akeeps s (grpc_Nodes E pid gid a w)"
  by (auto simp: grpc_Nodes_def intro!: handler_steps akeeps_wkeeps [OF _ list_instances_frame])

lemma akeeps_Create: "aframe s (a, w) \<Longrightarrow> akeeps s (grpc_Create E pid gid a w)"
  by (auto simp: grpc_Create_def intro!: handler_steps akeeps_bind [OF akeeps_createNodeGroup] split: option.splits)

lemma akeeps_Delete: "aframe s (a, w) \<Longrightarrow> akeeps s (grpc_Delete E pid gid a w)"
  by (auto simp: grpc_Delete_def intro!: handler_steps akeeps_bind [OF akeeps_deleteNodeGroup])

lemma aframe_GetOptions:
  assumes "aframe s (a, w)" "gget (Groups a) gid = Some g" "group_GetOptions E d g = (r, g')"
  shows "aframe s (put_group gid g' a, w)"
proof -
  have "\<exists>c. g' = g\<lparr>configuration := c\<rparr>"
    using assms(3) by (auto simp: group_GetOptions_def Let_def split: prod.splits if_splits)
  then have "regroup (g, w) (g', w)"
    using aframe_lookup [OF assms(1,2)] by (auto simp: regroup_def group_inv_def)
  from aframe_put [OF assms(1,2) this] show ?thesis .
qed

lemma akeeps_GetOptions: "aframe s (a, w) \<Longrightarrow> akeeps s (grpc_GetOptions E pid gid d a w)"
  by (auto simp: grpc_GetOptions_def Let_def intro!: handler_steps dest: aframe_GetOptions
      split: option.splits prod.splits)

section \<open>The goroutines of the external service\<close>

lemma skeeps_on_group:
  "akeeps s m \<Longrightarrow> skeeps s (gbind m (\<lambda>(r, s). Ret s))"
  by (cases m) (auto simp: akeeps_def)

lemma skeeps_run_task: "aframe s (a, w) \<Longrightarrow> skeeps s (run_task E t a w)"
proof (cases t)
  case (DeleteNodesTask nodes)
  have "skeeps s (delete_node_task E k (a, w))" if "aframe s (a, w)" for k a w
    using that by (auto simp: delete_node_task_def intro!: skeeps_on_group delete_named.on_app
        split: option.splits sum.splits)
  then show "aframe s (a, w) \<Longrightarrow> ?thesis"
    using DeleteNodesTask by (auto intro: gfold_skeeps)
qed (auto intro!: skeeps_on_group create_nodes.on_app destroy.on_app)

lemma akeeps_ext_Cleanup: "aframe s (a, w) \<Longrightarrow> akeeps s (ext_Cleanup E a w)"
  by (auto simp: ext_Cleanup_def intro!: akeeps_bind [OF akeeps_cleanup_groups])

lemma akeeps_ext_Refresh: "aframe s (a, w) \<Longrightarrow> akeeps s (ext_Refresh E a w)"
  by (auto simp: ext_Refresh_def intro!: akeeps_refresh)

lemma akeeps_ext_IncreaseSize: "aframe s (a, w) \<Longrightarrow> akeeps s (ext_NodeGroupIncreaseSize E gid delta a w)"
  by (auto simp: ext_NodeGroupIncreaseSize_def Let_def refuse_def split: option.splits
      intro!: handler_steps akeeps_bind [OF set_size.on_app])

lemma akeeps_ext_DecreaseTargetSize: "aframe s (a, w) \<Longrightarrow> akeeps s (ext_NodeGroupDecreaseTargetSize E gid delta a w)"
  by (auto simp: ext_NodeGroupDecreaseTargetSize_def Let_def refuse_def
      intro!: handler_steps akeeps_bind [OF set_size.on_app])

lemma akeeps_ext_DeleteNodes: "aframe s (a, w) \<Longrightarrow> akeeps s (ext_NodeGroupDeleteNodes gid nodes a w)"
  by (auto simp: ext_NodeGroupDeleteNodes_def refuse_def intro!: handler_steps)

lemma akeeps_ext_Nodes: "aframe s (a, w) \<Longrightarrow> akeeps s (ext_NodeGroupNodes E gid a w)"
  by (auto simp: ext_NodeGroupNodes_def intro!: handler_steps akeeps_wkeeps [OF _ list_instances_frame])

lemma akeeps_ext_GetOptions: "aframe s (a, w) \<Longrightarrow> akeeps s (ext_NodeGroupGetOptions E gid d a w)"
  by (auto simp: ext_NodeGroupGetOptions_def Let_def intro!: handler_steps dest: aframe_GetOptions
      split: option.splits prod.splits)

section \<open>The controller\<close>

lemma wframe_note_call [simp]: "wframe w (note_call c w') = wframe w (w'\<lparr>trace := c # trace w'\<rparr>)"
  by (simp add: note_call_def)

lemma wframe_call: "wframe w (w\<lparr>trace := c # trace w\<rparr>)"
  by (auto simp: wframe_def evolves_def heap_wf_def)

lemma aframe_note_call [intro!]: "aframe s (a, w) \<Longrightarrow> aframe s (a, note_call c w)"
  by (erule aframe_world) (simp add: wframe_call)

lemma aframe_event [intro!]: "aframe s (a, w) \<Longrightarrow> aframe s (a, event kind reason message w)"
  unfolding event_def by (rule aframe_note_call)

lemma aframe_wask: "aframe s (a, w) \<Longrightarrow> wask f c w = (r, w') \<Longrightarrow> aframe s (a, w')"
  by (blast intro: aframe_world dest: wframe_wask)

lemma aframe_getManaged:
  "aframe s (a, w) \<Longrightarrow> getManagedNodeFromKey E K key w = (r, w') \<Longrightarrow> aframe s (a, w')"
  by (auto simp: getManagedNodeFromKey_def intro: aframe_wask split: sum.splits)

lemma aframe_updateStatus:
  assumes "aframe s (a, w)" "updateManagedNodeStatus E m st w = (r, w')"
  shows "aframe s (a, w')"
proof -
  obtain now w1 where now: "wask (ans_int E) TimeNow w = (now, w1)" by fastforce
  obtain copy w2 where copy: "wask (ans_managed E) (Api (ManagedNodeGet (mn_Name m))) w1 = (copy, w2)" by fastforce
  have "aframe s (a, w2)"
    using assms(1) now copy by (blast dest: aframe_wask)
  then show ?thesis
    using assms(2) now copy aframe_wask [of s a w2]
    by (auto simp: updateManagedNodeStatus_def Let_def split: prod.splits sum.splits)
qed

lemma aframe_write_status [intro!]: "aframe s (a, w) \<Longrightarrow> aframe s (a, write_status E m st w)"
  by (auto simp: write_status_def intro: aframe_updateStatus prod.collapse [symmetric])

lemma akeeps_checkLimits:
  "aframe s (a, w) \<Longrightarrow> (\<And>r w'. aframe s (a, w') \<Longrightarrow> akeeps s (k (r, w'))) \<Longrightarrow>
   akeeps s (gbind (checkRessourceLimits E m a w) k)"
  by (auto simp: checkRessourceLimits_def Let_def intro: aframe_wask split: prod.splits sum.splits option.splits)

lemma wkeeps_findNodeByCRDUID: "wkeeps w (findNodeByCRDUID E g uid w)"
proof -
  obtain ps w1 where ps: "AllNodes E g w = (ps, w1)" by fastforce
  show ?thesis
    by (cases "gfold (\<lambda>p found. if found \<noteq> None then Ret found
          else gbind (load p w1) (\<lambda>n. Ret (if CRDUID n = uid then Some p else None))) ps None")
      (auto simp: findNodeByCRDUID_def ps wkeeps_def intro: wframe_AllNodes [OF ps])
qed

lemmas akeeps_findNode = akeeps_wkeeps [OF _ wkeeps_findNodeByCRDUID]

lemma akeeps_prepare_managed: "aframe s (a, w) \<Longrightarrow> akeeps s (prepare_managed E m T a w)"
  by (auto simp: prepare_managed_def Let_def intro!: akeeps_bind [OF add_managed.on_app] akeeps_load
      split: sum.splits)

lemma akeeps_create_managed: "aframe s (a, w) \<Longrightarrow> akeeps s (create_managed E key m T a w)"
  by (auto simp: create_managed_def Let_def intro!: akeeps_checkLimits akeeps_prepare_managed
      split: option.splits)

lemma akeeps_missing_node: "aframe s (a, w) \<Longrightarrow> akeeps s (handle_missing_node E key m T a w)"
  unfolding handle_missing_node_def Let_def
  by (rule akeeps_bind) (auto intro: akeeps_create_managed)

lemma aframe_missing_group:
  "aframe s (a, w) \<Longrightarrow> handle_missing_group E m a w = (st, w') \<Longrightarrow> aframe s (a, w')"
  by (auto simp: handle_missing_group_def Let_def split: if_splits)

lemma akeeps_handleManagedNode: "aframe s (a, w) \<Longrightarrow> akeeps s (handleManagedNode E K key T a w)"
  by (auto simp: handleManagedNode_def Let_def split: prod.splits sum.splits
      intro!: akeeps_findNode akeeps_bind [OF akeeps_missing_node]
      intro: aframe_getManaged aframe_missing_group)

lemma akeeps_process_item: "aframe s (a, w) \<Longrightarrow> akeeps s (process_item E K key (r, a, w))"
  by (auto simp: process_item_def intro!: akeeps_bind [OF akeeps_handleManagedNode] split: prod.splits)

lemma akeeps_processAllItems: "aframe s (a, w) \<Longrightarrow> akeeps s (processAllItems E K keys shutdown a w)"
  unfolding processAllItems_def
  by (rule akeeps_bind, rule gfold_akeeps) (auto intro: akeeps_process_item)

lemma aframe_own_node [intro!]: "aframe s (a, w) \<Longrightarrow> aframe s (a, own_node E m n w)"
  by (auto simp: own_node_def Let_def split: prod.splits sum.splits option.splits dest: aframe_wask)

lemma aframe_report_started [intro!]: "aframe s (a, w) \<Longrightarrow> aframe s (a, report_started E m n w)"
  unfolding report_started_def Let_def
  by (rule aframe_updateStatus [OF _ prod.collapse [symmetric]]) auto

lemma report_node_frame:
  "aframe s (a, w) \<Longrightarrow> holds (\<lambda>w'. aframe s (a, w')) (report_node E K uids p w)"
  by (auto simp: report_node_def Let_def load_def dest: aframe_getManaged
      split: option.splits prod.splits sum.splits)

lemma skeeps_start_group: "aframe s (a, w) \<Longrightarrow> skeeps s (start_group E K uids entry (a, w))"
proof -
  have report: "skeeps s (gbind (gfold (report_node E K uids) ps w) (\<lambda>w. Ret (a, w)))"
    if "aframe s (a, w)" for ps a w
    using gfold_holds [of ps "\<lambda>w. aframe s (a, w)" "report_node E K uids" w] that
    by (cases "gfold (report_node E K uids) ps w") (auto intro: report_node_frame)
  show "aframe s (a, w) \<Longrightarrow> ?thesis"
    by (auto simp: start_group_def intro!: skeeps_abind [OF create_nodes.on_app] report
        split: prod.splits sum.splits)
qed

lemma skeeps_startManagedNodes: "aframe s (a, w) \<Longrightarrow> skeeps s (startManagedNodes E K T a w)"
  by (auto simp: startManagedNodes_def Let_def intro!: gfold_skeeps skeeps_start_group
      intro: aframe_world dest: wframe_iterate split: prod.splits)

lemma akeeps_delete_owned: "aframe s (a, w) \<Longrightarrow> akeeps s (delete_owned E nodegroup uid a w)"
  by (auto simp: delete_owned_def intro!: akeeps_findNode akeeps_bind [OF delete_node.on_app] split: sum.splits)

lemma skeeps_deleteManagedNode: "aframe s (a, w) \<Longrightarrow> skeeps s (deleteManagedNode E m a w)"
  by (auto simp: deleteManagedNode_def intro!: skeeps_abind [OF akeeps_delete_owned] skeeps_sync)

lemma akeeps_drop_orphan: "aframe s (a, w) \<Longrightarrow> akeeps s (drop_orphan E K k (r, a, w))"
  by (auto simp: drop_orphan_def Let_def intro!: akeeps_bind [OF akeeps_delete_owned]
      split: option.splits prod.splits dest: aframe_getManaged)

lemma akeeps_drop_vanished: "aframe s (a, w) \<Longrightarrow> akeeps s (drop_vanished E m (r, a, w))"
  by (auto simp: drop_vanished_def Let_def intro!: akeeps_bind [OF akeeps_delete_owned]
      split: prod.splits dest: aframe_wask)

lemma skeeps_controller_findManagedNodeDeleted:
  assumes "aframe s (a, w)"
  shows "skeeps s (controller_findManagedNodeDeleted E K a w)"
proof -
  have second: "skeeps s (let (manageds, w) = wask (ans_manageds E) (Api ManagedNodesListerList) w
         in gbind (case manageds of Inl err \<Rightarrow> Ret (deleted, a, w)
                   | Inr managedNodeList \<Rightarrow> gfold (drop_vanished E) managedNodeList (deleted, a, w))
              (\<lambda>(deleted, a, w).
                 if 0 < deleted then gbind (syncState E a w) (\<lambda>w. Ret (a, w)) else Ret (a, w)))"
    if "aframe s (a, w)" for a w and deleted :: nat
  proof -
    obtain r w1 where r: "wask (ans_manageds E) (Api ManagedNodesListerList) w = (r, w1)" by fastforce
    have "akeeps s (case r of Inl err \<Rightarrow> Ret (deleted, a, w1)
        | Inr ms \<Rightarrow> gfold (drop_vanished E) ms (deleted, a, w1))"
      using aframe_wask [OF that r] by (auto intro: gfold_akeeps akeeps_drop_vanished split: sum.splits)
    then show ?thesis
      unfolding r Let_def prod.case by (rule skeeps_abind) (auto intro: skeeps_sync)
  qed
  obtain r w1 where r: "wask (ans_nodes E) (Api NodesListerList) w = (r, w1)" by fastforce
  have "akeeps s (case r of Inl err \<Rightarrow> Ret (0, a, w1) | Inr ks \<Rightarrow> gfold (drop_orphan E K) ks (0, a, w1))"
    using aframe_wask [OF assms r] by (auto intro: gfold_akeeps akeeps_drop_orphan split: sum.splits)
  then show ?thesis
    unfolding controller_findManagedNodeDeleted_def r Let_def prod.case
    by (rule skeeps_abind) (simp only: prod.case, rule second [unfolded Let_def])
qed

lemma aframe_wask_snd: "aframe s (a, w) \<Longrightarrow> aframe s (a, snd (wask f c w))"
  by (rule aframe_wask [OF _ prod.collapse [symmetric]])

lemma skeeps_deleteOwnerRef: "aframe s (a, w) \<Longrightarrow> skeeps s (deleteOwnerRef E K ref a w)"
  by (auto simp: deleteOwnerRef_def Let_def intro!: skeeps_bind [OF skeeps_deleteManagedNode] aframe_wask_snd
      dest: aframe_getManaged aframe_wask [rotated] split: prod.splits sum.splits)

lemma skeeps_handleNode: "aframe s (a, w) \<Longrightarrow> skeeps s (handleNode E K obj a w)"
  by (auto simp: handleNode_def Let_def intro!: skeeps_deleteOwnerRef
      dest: aframe_getManaged aframe_wask split: option.splits prod.splits sum.splits)

lemma akeeps_worker_round: "aframe s (a, w) \<Longrightarrow> akeeps s (worker_round E K keys shutdown a w)"
  by (auto simp: worker_round_def Let_def intro!: akeeps_bind [OF akeeps_processAllItems]
      akeeps_sbind [OF skeeps_startManagedNodes] akeeps_sync split: prod.splits)

lemma skeeps_run_rounds: "aframe s (a, w) \<Longrightarrow> skeeps s (run_rounds E K rounds a w)"
proof (induction rounds arbitrary: a w)
  case (Cons r rounds)
  then show ?case by (auto intro!: skeeps_abind [OF akeeps_worker_round])
qed simp

lemma skeeps_runWorker: "aframe s (a, w) \<Longrightarrow> skeeps s (runWorker E K rounds a w)"
  unfolding runWorker_def
  by (rule skeeps_bind [OF skeeps_controller_findManagedNodeDeleted]) (auto intro: skeeps_run_rounds)

section \<open>The contract of the server's operations\<close>

text \<open>
  What every operation of the server promises, as its callers rely on it: the invariant holds
  after it, the machine types and the configuration are unchanged, nodes keep their names and
  their addresses, and calls are only added.
\<close>

locale app_operation =
  fixes operation :: "app \<Rightarrow> world \<Rightarrow> 'a app_result"
  assumes app_contract: "aframe s (a, w) \<Longrightarrow> akeeps s (operation a w)"
begin

lemma frame: "app_inv a w \<Longrightarrow> operation a w = Ret (r, a', w') \<Longrightarrow> aframe (a, w) (a', w')"
  using app_contract [of "(a, w)" a w] by (auto simp: aframe_refl)

lemma invariant: "app_inv a w \<Longrightarrow> operation a w = Ret (r, a', w') \<Longrightarrow> app_inv a' w'"
  using frame by (blast dest: aframe_inv)

lemma calls: "app_inv a w \<Longrightarrow> operation a w = Ret (r, a', w') \<Longrightarrow> extends (trace w) (trace w')"
  using frame [of a w r a' w'] by (simp add: aframe_def evolves_def)

lemma nodes:
  "app_inv a w \<Longrightarrow> operation a w = Ret (r, a', w') \<Longrightarrow> heap w p = Some n \<Longrightarrow>
   \<exists>n'. heap w' p = Some n' \<and> same_names n n'"
  using frame [of a w r a' w'] by (simp add: aframe_def evolves_def)

end

interpretation delete_group: app_operation "deleteNodeGroup E name" for E name
  by unfold_locales (rule akeeps_deleteNodeGroup)

interpretation create_group: app_operation "createNodeGroup E name" for E name
  by unfold_locales (rule akeeps_createNodeGroup)

interpretation provisioning: app_operation "doAutoProvision E" for E
  by unfold_locales (rule akeeps_doAutoProvision)

interpretation loading: app_operation "Load E" for E
  by unfold_locales (rule akeeps_Load)

interpretation increase: app_operation "grpc_IncreaseSize E pid gid delta" for E pid gid delta
  by unfold_locales (rule akeeps_IncreaseSize)

interpretation delete_nodes: app_operation "grpc_DeleteNodes E json pid gid nodes" for E json pid gid nodes
  by unfold_locales (rule akeeps_DeleteNodes)

interpretation controller_round: app_operation "worker_round E K keys shutdown" for E K keys shutdown
  by unfold_locales (rule akeeps_worker_round)

end
