(* ===== verification/Server.thy ===== *)
theory Server
  imports App_Invariant
begin

text \<open>
  The server as a state machine. An event is a request of one of the two services, the completion
  of a goroutine the external service has started, or a callback or round of the controller; \<open>react\<close>
  handles one event, and any event may follow any other. Handlers are atomic steps here: the
  interleaving of two handlers of the same group inside one another is not modelled.
\<close>

section \<open>Requests\<close>

datatype grpc_request =
    ConnectRequest "request_limiter option" "node_group_def list" bool
  | NameRequest
  | NodeGroupsRequest
  | NodeGroupForNodeRequest string
  | PricingRequest
  | GetAvailableMachineTypesRequest
  | NewNodeGroupRequest new_group_request
  | GetResourceLimiterRequest
  | GPULabelRequest
  | CleanupRequest
  | RefreshRequest
  | HasInstanceRequest string
  | MaxSizeRequest string
  | MinSizeRequest string
  | TargetSizeRequest string
  | IncreaseSizeRequest string int
  | DeleteNodesRequest string "string list"
  | DecreaseTargetSizeRequest string int
  | IdRequest string
  | DebugRequest string
  | NodesRequest string
  | TemplateNodeInfoRequest string
  | ExistRequest string
  | CreateRequest string
  | DeleteRequest string
  | AutoprovisionedRequest string
  | BelongsRequest string
  | GetOptionsRequest string "autoscaling_options option"
  | NodePriceRequest
  | PodPriceRequest

datatype ext_request =
    ExtNodeGroups
  | ExtNodeGroupForNode "knode option"
  | ExtPricingNodePrice
  | ExtPricingPodPrice
  | ExtGPULabel
  | ExtCleanup
  | ExtRefresh
  | ExtTargetSize string
  | ExtIncreaseSize string int
  | ExtDeleteNodes string "knode list"
  | ExtDecreaseTargetSize string int
  | ExtNodes string
  | ExtTemplateNodeInfo string
  | ExtGetOptions string "ext_options option"

text \<open>A handler without the content of its reply.\<close>

definition forget :: "'a handler_result \<Rightarrow> unit handler_result" where
  "forget m = gbind m (\<lambda>(r, a, w). Ret (map_sum (\<lambda>e. e) (map_sum (\<lambda>e. e) (\<lambda>_. ())) r, a, w))"

definition at_once :: "'a ext_result \<Rightarrow> ext_async" where
  "at_once m = gbind m (\<lambda>(r, a, w). Ret ((map_sum (\<lambda>e. e) (\<lambda>_. ()) r, None), a, w))"

fun serve_grpc :: "env \<Rightarrow> node_json \<Rightarrow> string \<Rightarrow> grpc_request \<Rightarrow> app \<Rightarrow> world \<Rightarrow> unit handler_result" where
  "serve_grpc E json pid (ConnectRequest l nodes auto) a w = forget (grpc_Connect E pid l nodes auto a w)"
| "serve_grpc E json pid NameRequest a w = forget (grpc_Name pid a w)"
| "serve_grpc E json pid NodeGroupsRequest a w = forget (grpc_NodeGroups E pid a w)"
| "serve_grpc E json pid (NodeGroupForNodeRequest t) a w = forget (grpc_NodeGroupForNode json pid t a w)"
| "serve_grpc E json pid PricingRequest a w = forget (grpc_Pricing pid a w)"
| "serve_grpc E json pid GetAvailableMachineTypesRequest a w = forget (grpc_GetAvailableMachineTypes E pid a w)"
| "serve_grpc E json pid (NewNodeGroupRequest r) a w = forget (grpc_NewNodeGroup E pid r a w)"
| "serve_grpc E json pid GetResourceLimiterRequest a w = forget (grpc_GetResourceLimiter pid a w)"
| "serve_grpc E json pid GPULabelRequest a w = forget (grpc_GPULabel pid a w)"
| "serve_grpc E json pid CleanupRequest a w = forget (grpc_Cleanup E pid a w)"
| "serve_grpc E json pid RefreshRequest a w = forget (grpc_Refresh E pid a w)"
| "serve_grpc E json pid (HasInstanceRequest t) a w = forget (grpc_HasInstance E json pid t a w)"
| "serve_grpc E json pid (MaxSizeRequest gid) a w = forget (grpc_MaxSize pid gid a w)"
| "serve_grpc E json pid (MinSizeRequest gid) a w = forget (grpc_MinSize pid gid a w)"
| "serve_grpc E json pid (TargetSizeRequest gid) a w = forget (grpc_TargetSize pid gid a w)"
| "serve_grpc E json pid (IncreaseSizeRequest gid delta) a w = forget (grpc_IncreaseSize E pid gid delta a w)"
| "serve_grpc E json pid (DeleteNodesRequest gid nodes) a w = forget (grpc_DeleteNodes E json pid gid nodes a w)"
| "serve_grpc E json pid (DecreaseTargetSizeRequest gid delta) a w = forget (grpc_DecreaseTargetSize E pid gid delta a w)"
| "serve_grpc E json pid (IdRequest gid) a w = forget (grpc_Id pid gid a w)"
| "serve_grpc E json pid (DebugRequest gid) a w = forget (grpc_Debug pid gid a w)"
| "serve_grpc E json pid (NodesRequest gid) a w = forget (grpc_Nodes E pid gid a w)"
| "serve_grpc E json pid (TemplateNodeInfoRequest gid) a w = forget (grpc_TemplateNodeInfo pid gid a w)"
| "serve_grpc E json pid (ExistRequest gid) a w = forget (grpc_Exist pid gid a w)"
| "serve_grpc E json pid (CreateRequest gid) a w = forget (grpc_Create E pid gid a w)"
| "serve_grpc E json pid (DeleteRequest gid) a w = forget (grpc_Delete E pid gid a w)"
| "serve_grpc E json pid (AutoprovisionedRequest gid) a w = forget (grpc_Autoprovisioned pid gid a w)"
| "serve_grpc E json pid (BelongsRequest t) a w = forget (grpc_Belongs json pid t a w)"
| "serve_grpc E json pid (GetOptionsRequest gid d) a w = forget (grpc_GetOptions E pid gid d a w)"
| "serve_grpc E json pid NodePriceRequest a w = forget (grpc_NodePrice pid a w)"
| "serve_grpc E json pid PodPriceRequest a w = forget (grpc_PodPrice pid a w)"

fun serve_ext :: "env \<Rightarrow> ext_request \<Rightarrow> app \<Rightarrow> world \<Rightarrow> ext_async" where
  "serve_ext E ExtNodeGroups a w = at_once (ext_NodeGroups E a w)"
| "serve_ext E (ExtNodeGroupForNode k) a w = at_once (ext_NodeGroupForNode k a w)"
| "serve_ext E ExtPricingNodePrice a w = at_once (ext_PricingNodePrice a w)"
| "serve_ext E ExtPricingPodPrice a w = at_once (ext_PricingPodPrice a w)"
| "serve_ext E ExtGPULabel a w = at_once (ext_GPULabel a w)"
| "serve_ext E ExtCleanup a w = at_once (ext_Cleanup E a w)"
| "serve_ext E ExtRefresh a w = at_once (ext_Refresh E a w)"
| "serve_ext E (ExtTargetSize gid) a w = at_once (ext_NodeGroupTargetSize gid a w)"
| "serve_ext E (ExtIncreaseSize gid delta) a w = ext_NodeGroupIncreaseSize E gid delta a w"
| "serve_ext E (ExtDeleteNodes gid nodes) a w = ext_NodeGroupDeleteNodes gid nodes a w"
| "serve_ext E (ExtDecreaseTargetSize gid delta) a w = ext_NodeGroupDecreaseTargetSize E gid delta a w"
| "serve_ext E (ExtNodes gid) a w = at_once (ext_NodeGroupNodes E gid a w)"
| "serve_ext E (ExtTemplateNodeInfo gid) a w = at_once (ext_NodeGroupTemplateNodeInfo gid a w)"
| "serve_ext E (ExtGetOptions gid d) a w = at_once (ext_NodeGroupGetOptions E gid d a w)"

section \<open>Events\<close>

text \<open>A task is finished by its position among those still running.\<close>

datatype server_event =
    GrpcCall string grpc_request
  | ExtCall ext_request
  | TaskRuns nat
  | ControllerRound "string list" bool
  | NodeChanged informer_object
  | ResourceDeleted managed_node

type_synonym server = "(app \<times> world) \<times> task list"

fun react :: "env \<Rightarrow> node_json \<Rightarrow> key_codec \<Rightarrow> server_event \<Rightarrow> server \<Rightarrow> server go" where
  "react E json K (GrpcCall pid req) ((a, w), ts) =
     gbind (serve_grpc E json pid req a w) (\<lambda>(r, s). Ret (s, ts))"
| "react E json K (ExtCall req) ((a, w), ts) =
     gbind (serve_ext E req a w) (\<lambda>((r, t), s). Ret (s, case t of None \<Rightarrow> ts | Some t \<Rightarrow> ts @ [t]))"
| "react E json K (TaskRuns i) ((a, w), ts) =
     (if i < length ts
      then gbind (run_task E (ts ! i) a w) (\<lambda>s. Ret (s, take i ts @ drop (Suc i) ts))
      else Diverge)"
| "react E json K (ControllerRound keys shutdown) ((a, w), ts) =
     gbind (worker_round E K keys shutdown a w) (\<lambda>(r, s). Ret (s, ts))"
| "react E json K (NodeChanged obj) ((a, w), ts) =
     gbind (handleNode E K obj a w) (\<lambda>s. Ret (s, ts))"
| "react E json K (ResourceDeleted m) ((a, w), ts) =
     gbind (deleteManagedNode E m a w) (\<lambda>s. Ret (s, ts))"

inductive server_step :: "env \<Rightarrow> node_json \<Rightarrow> key_codec \<Rightarrow> server \<Rightarrow> server \<Rightarrow> bool"
  for E json K where
  step: "react E json K ev s = Ret s' \<Longrightarrow> server_step E json K s s'"

inductive_cases server_stepE: "server_step E json K s s'"

text \<open>The states the server reaches from a state.\<close>

inductive reaches :: "env \<Rightarrow> node_json \<Rightarrow> key_codec \<Rightarrow> server \<Rightarrow> server \<Rightarrow> bool"
  for E json K s where
  start: "reaches E json K s s"
| event: "reaches E json K s t \<Longrightarrow> server_step E json K t u \<Longrightarrow> reaches E json K s u"

text \<open>A run of the server, from the list of its events.\<close>

definition run_server :: "env \<Rightarrow> node_json \<Rightarrow> key_codec \<Rightarrow> server_event list \<Rightarrow> server \<Rightarrow> server go" where
  "run_server E json K evs s = gfold (react E json K) evs s"

lemma run_server_from:
  "run_server E json K evs t = Ret s' \<Longrightarrow> reaches E json K s t \<Longrightarrow> reaches E json K s s'"
proof (induction evs arbitrary: t)
  case (Cons ev evs)
  then obtain u where u: "react E json K ev t = Ret u" "run_server E json K evs u = Ret s'"
    by (auto simp: run_server_def)
  then have "reaches E json K s u" using Cons.prems(2) by (blast intro: reaches.event server_step.step)
  with u(2) show ?case by (rule Cons.IH)
qed (simp add: run_server_def)

lemma run_server_reaches: "run_server E json K evs s = Ret s' \<Longrightarrow> reaches E json K s s'"
  by (rule run_server_from [OF _ reaches.start])

section \<open>The invariant of the server\<close>

lemma akeeps_forget: "akeeps s m \<Longrightarrow> akeeps s (forget m)"
  by (cases m) (auto simp: forget_def akeeps_def)

lemma akeeps_at_once: "akeeps s m \<Longrightarrow> akeeps s (at_once m)"
  by (cases m) (auto simp: at_once_def akeeps_def)

lemmas reading_handlers = grpc_Name_def grpc_NodeGroups_def grpc_NodeGroupForNode_def grpc_Pricing_def
  grpc_GetAvailableMachineTypes_def grpc_GetResourceLimiter_def grpc_GPULabel_def grpc_MaxSize_def
  grpc_MinSize_def grpc_TargetSize_def grpc_Id_def grpc_Debug_def grpc_TemplateNodeInfo_def grpc_Exist_def
  grpc_Autoprovisioned_def grpc_Belongs_def grpc_NodePrice_def grpc_PodPrice_def

lemmas changing_handlers = akeeps_connect akeeps_NewNodeGroup akeeps_Cleanup akeeps_Refresh
  akeeps_HasInstance akeeps_IncreaseSize akeeps_DeleteNodes akeeps_DecreaseTargetSize akeeps_Nodes
  akeeps_Create akeeps_Delete akeeps_GetOptions

lemma akeeps_serve_grpc: "aframe s (a, w) \<Longrightarrow> akeeps s (serve_grpc E json pid req a w)"
proof -
  assume s: "aframe s (a, w)"
  have "aframe s (a, w')" if "iterate E xs w = (ys, w')" for xs ys w'
    by (rule aframe_world [OF s wframe_iterate [OF that]])
  with s show ?thesis
    by (cases req)
      (auto intro!: akeeps_forget changing_handlers,
       auto simp: reading_handlers Let_def intro!: handler_steps akeeps_iterate split: sum.splits option.splits)
qed

lemma akeeps_serve_ext: "aframe s (a, w) \<Longrightarrow> akeeps s (serve_ext E req a w)"
  by (cases req)
    (auto intro!: akeeps_at_once akeeps_ext_Cleanup akeeps_ext_Refresh akeeps_ext_IncreaseSize
        akeeps_ext_DecreaseTargetSize akeeps_ext_DeleteNodes akeeps_ext_Nodes akeeps_ext_GetOptions,
     auto simp: ext_NodeGroups_def ext_NodeGroupForNode_def ext_PricingNodePrice_def ext_PricingPodPrice_def
        ext_GPULabel_def ext_NodeGroupTargetSize_def ext_NodeGroupTemplateNodeInfo_def Let_def
      intro!: akeeps_iterate akeeps_with_ext_group split: option.splits sum.splits)

interpretation grpc_service: app_operation "serve_grpc E json pid req" for E json pid req
  by unfold_locales (rule akeeps_serve_grpc)

interpretation external_service: app_operation "serve_ext E req" for E req
  by unfold_locales (rule akeeps_serve_ext)

lemma holds_skeeps:
  "skeeps s m \<Longrightarrow> holds (\<lambda>(s', ts'). aframe s s') (gbind m (\<lambda>t. Ret (t, ts)))"
  by (cases m) auto

lemma holds_akeeps:
  "akeeps s m \<Longrightarrow> holds (\<lambda>(s', ts'). aframe s s') (gbind m (\<lambda>(r, t). Ret (t, f r)))"
  by (cases m) (auto simp: akeeps_def)

lemma react_frame:
  assumes "aframe s (a, w)"
  shows "holds (\<lambda>(s', ts'). aframe s s') (react E json K ev ((a, w), ts))"
proof (cases ev)
  case (ExtCall req)
  then show ?thesis
    using akeeps_serve_ext [OF assms, of E req] by (cases "serve_ext E req a w") (auto simp: akeeps_def)
next
  case (GrpcCall pid req)
  show ?thesis unfolding GrpcCall react.simps by (rule holds_akeeps [OF akeeps_serve_grpc [OF assms]])
next
  case (ControllerRound keys shutdown)
  show ?thesis unfolding ControllerRound react.simps by (rule holds_akeeps [OF akeeps_worker_round [OF assms]])
next
  case (TaskRuns i)
  show ?thesis unfolding TaskRuns react.simps
    by (auto simp del: holds_gbind intro: holds_skeeps [OF skeeps_run_task [OF assms]])
next
  case (NodeChanged obj)
  show ?thesis unfolding NodeChanged react.simps by (rule holds_skeeps [OF skeeps_handleNode [OF assms]])
next
  case (ResourceDeleted m)
  show ?thesis unfolding ResourceDeleted react.simps by (rule holds_skeeps [OF skeeps_deleteManagedNode [OF assms]])
qed

lemma reaches_frame:
  assumes "reaches E json K (s, ts) s'" "aframe s0 s"
  shows "aframe s0 (fst s')"
  using assms(1)
proof (induction rule: reaches.induct)
  case start
  show ?case using assms(2) by simp
next
  case (event t u)
  from event.hyps(2) obtain ev where "react E json K ev t = Ret u" by (auto elim: server_stepE)
  then show ?case
    using react_frame [of s0 "fst (fst t)" "snd (fst t)" E json K ev "snd t"] event.IH by (cases u) auto
qed

section \<open>Properties\<close>

text \<open>The samples: a server with one machine type and no group, and a client it answers.\<close>

definition sample_app :: app where
  "sample_app = \<lparr>app_machines = Some [(''t'', sample_machine)],
     ResourceLimiter = Some \<lparr>MinLimits = gmake, MaxLimits = gmake\<rparr>, Groups = gmake, NodesDefinition = [],
     app_AutoProvision = False, app_configuration = sample_config, phSaveState = False\<rparr>"

definition sample_json :: node_json where
  "sample_json t = Inr (Some (sample_knode\<lparr>k_Name := t, k_Annotations := Some [(AnnotationNodeGroupName, ''g'')]\<rparr>))"

definition sample_codec :: key_codec where
  "sample_codec = \<lparr>SplitKey = Inr, KeyOf = \<lambda>m. Inr (mn_Name m)\<rparr>"

definition sample_new_group :: new_group_request where
  "sample_new_group = \<lparr>rq_NodeGroupID = ''g'', rq_MachineType = ''t'', rq_MinNodeSize = 0, rq_MaxNodeSize = 3,
     rq_Labels = gmake, rq_SystemLabels = gmake\<rparr>"

lemma sample_app_inv: "app_inv sample_app empty_world"
  by (simp add: app_inv_def sample_app_def heap_wf_def empty_world_def)

text \<open>C1: From any state that satisfies the invariant of the application, every state the server reaches by any sequence of gRPC requests, external requests, goroutine completions, controller rounds, node events and resource deletions satisfies it again: the calls already made are a prefix of the calls made so far, the configuration is the same, and every machine the server knew keeps its names, group and index.\<close>

theorem reachable_invariant:
  assumes "app_inv a w" "reaches E json K ((a, w), ts) ((a', w'), ts')"
  shows "app_inv a' w' \<and> extends (trace w) (trace w') \<and> app_configuration a' = app_configuration a \<and>
    (\<forall>p n. heap w p = Some n \<longrightarrow> (\<exists>n'. heap w' p = Some n' \<and> same_names n n'))"
  using reaches_frame [OF assms(2) aframe_refl [OF assms(1)]] by (simp add: aframe_def evolves_def)

definition sample_events :: "server_event list" where
  "sample_events = [GrpcCall ''s'' (NewNodeGroupRequest sample_new_group), GrpcCall ''s'' (CreateRequest ''g''),
     ExtCall (ExtDeleteNodes ''g'' []), TaskRuns 0, NodeChanged (NodeObject sample_knode)]"

theorem reachable_invariant_witness:
  "\<exists>a w. run_server quiet_env sample_json sample_codec sample_events ((sample_app, empty_world), []) = Ret ((a, w), [])
     \<and> app_inv a w \<and> glen (Groups a) = 1"
proof -
  have "yields (\<lambda>((a, w), ts). ts = [] \<and> glen (Groups a) = 1)
    (run_server quiet_env sample_json sample_codec sample_events ((sample_app, empty_world), []))"
    by code_simp
  then obtain a w where r: "run_server quiet_env sample_json sample_codec sample_events
      ((sample_app, empty_world), []) = Ret ((a, w), [])" "glen (Groups a) = 1"
    by (auto simp: yields_iff)
  from reachable_invariant [OF sample_app_inv run_server_reaches [OF r(1)]] r show ?thesis by blast
qed

theorem denied_changes_nothing:
  assumes "isCallDenied pid a"
  shows "\<exists>e. serve_grpc E json pid req a w = Ret (Inl e, a, w)"
  using assms
  by (cases req)
    (auto simp: forget_def guarded_def optional_def grpc_Connect_def grpc_NewNodeGroup_def grpc_Cleanup_def
      grpc_Refresh_def grpc_HasInstance_def grpc_IncreaseSize_def grpc_DeleteNodes_def
      grpc_DecreaseTargetSize_def grpc_Nodes_def grpc_Create_def grpc_Delete_def grpc_GetOptions_def
      reading_handlers split: option.splits)

theorem denied_changes_nothing_witness:
  "\<exists>e. serve_grpc quiet_env sample_json ''other'' (DeleteRequest ''g'') sample_app empty_world
     = Ret (Inl e, sample_app, empty_world)"
  by (rule denied_changes_nothing) (simp add: isCallDenied_def sample_app_def sample_config_def)

end
