(* ===== verification/Growth_Bounds.thy ===== *)
theory Growth_Bounds
  imports Server
begin

text \<open>
  A bound on the growth of a group that holds for every cloud and every cluster, and what follows
  for the requests that resize a group: a request to increase never takes the group beyond its
  maximum size, and a request to decrease changes nothing or panics.
\<close>

section \<open>Preparing nodes\<close>

lemma nodeName_loop_frame:
  "nodeName_loop E cp managed is k g w = Ret (r, g', w') \<Longrightarrow>
   (\<exists>m. g' = g\<lparr>RunningNodes := m\<rparr>) \<and> heap w' = heap w \<and> fresh w' = fresh w"
proof (induction "is" arbitrary: k g w)
  case Nil
  then show ?case by (auto intro: exI [of _ "RunningNodes g"])
next
  case (Cons i "is")
  show ?case
  proof (cases "findNamedNode g (node_name g cp managed i) = None
      \<and> ans_bool E (Provider (InstanceExists (node_name g cp managed i)) # trace w)")
    case True
    with Cons.prems obtain m h where
      "nodeName_loop E cp managed is (k + 1) (g\<lparr>RunningNodes := m\<rparr>) (w\<lparr>trace := h\<rparr>) = Ret (r, g', w')"
      by (auto simp: Let_def wask_def ask_def set_running_def)
    from Cons.IH [OF this] show ?thesis by auto
  next
    case False
    with Cons.prems show ?thesis
      by (auto simp: Let_def wask_def ask_def intro: exI [of _ "RunningNodes g"] dest: Cons.IH split: if_splits)
  qed
qed

lemma prepare_one_effect:
  assumes "prepare_one E g w = Ret (r, g', w')"
  shows "Nodes g' = Nodes g \<and>
    (case r of Inl err \<Rightarrow> pendingNodes g' = pendingNodes g
     | Inr a \<Rightarrow> \<exists>n. heap w' a = Some n \<and> pendingNodes g' = gset (InstanceName n) a (pendingNodes g))"
proof -
  obtain i g1 where i: "findNextNodeIndex g = (i, g1)" by fastforce
  then have g1: "Nodes g1 = Nodes g" "pendingNodes g1 = pendingNodes g"
    using findNextNodeIndex_group by fastforce+
  from assms i obtain name k g2 w2 where
    n: "nodeName E i False False g1 w = Ret ((name, k), g2, w2)"
    by (auto simp: prepare_one_def)
  from nodeName_loop_frame [OF this [unfolded nodeName_def]] g1
  have g2: "Nodes g2 = Nodes g" "pendingNodes g2 = pendingNodes g" by auto
  show ?thesis
    using assms i n g2
    by (auto simp: prepare_one_def wask_def ask_def set_running_def add_pending_def gput_Ret alloc_def Let_def
        new_autoscaled_node_def split: sum.splits option.splits prod.splits)
qed

text \<open>The prepared nodes are pending under their names, and each adds at most one to the group.\<close>

definition named_in :: "string set \<Rightarrow> world \<Rightarrow> addr list \<Rightarrow> bool" where
  "named_in S w ps \<longleftrightarrow> (\<forall>p \<in> set ps. \<exists>n. heap w p = Some n \<and> InstanceName n \<in> S)"

lemma named_in_evolves: "named_in S w ps \<Longrightarrow> evolves w w' \<Longrightarrow> S \<subseteq> S' \<Longrightarrow> named_in S' w' ps"
  unfolding named_in_def evolves_def same_names_def by (metis subsetD)

lemma prepare_loop_bound:
  "prepare_loop E k acc g w = Ret ((ps, err), g', w') \<Longrightarrow> group_inv g w \<Longrightarrow>
   named_in (gkeys (pendingNodes g)) w acc \<Longrightarrow>
   Nodes g' = Nodes g \<and> glen (pendingNodes g') \<le> glen (pendingNodes g) + int k \<and> group_inv g' w' \<and>
   (err = None \<longrightarrow> named_in (gkeys (pendingNodes g')) w' ps)"
proof (induction k arbitrary: acc g w)
  case (Suc k)
  from Suc.prems(1) obtain r g1 w1 where one: "prepare_one E g w = Ret (r, g1, w1)"
    by auto
  have f: "gframe (g, w) (g1, w1)"
    using gkeeps_prepare_one [OF gframe_refl [OF Suc.prems(2)], of E] one by simp
  then have inv: "group_inv g1 w1" and ev: "evolves w w1" by (simp_all add: gframe_def)
  note eff = prepare_one_effect [OF one]
  show ?case
  proof (cases r)
    case (Inl e)
    with Suc.prems(1) one have "g' = g1\<lparr>pendingNodes := gmake\<rparr>" "w' = w1" "err = Some e" by auto
    with eff Inl inv show ?thesis by (simp add: group_inv_def)
  next
    case (Inr a)
    from eff Inr obtain n where n: "heap w1 a = Some n"
      "pendingNodes g1 = gset (InstanceName n) a (pendingNodes g)" by auto
    have wf: "gwf (pendingNodes g)" using Suc.prems(2) by (simp add: group_inv_def)
    have named: "named_in (gkeys (pendingNodes g1)) w1 (acc @ [a])"
      using named_in_evolves [OF Suc.prems(3) ev, of "gkeys (pendingNodes g1)"] n
      by (auto simp: named_in_def)
    from Suc.prems(1) one Inr have "prepare_loop E k (acc @ [a]) g1 w1 = Ret ((ps, err), g', w')" by simp
    from Suc.IH [OF this inv named] show ?thesis
      using eff n gm.size_store [OF wf, of "InstanceName n" a] by (auto split: if_splits)
  qed
qed (auto simp: group_inv_def)

section \<open>Creating nodes\<close>

text \<open>
  The number of nodes of a group, and of the names in \<open>S\<close> that it does not know: creating a node
  whose name is in \<open>S\<close> never increases it.
\<close>

definition potential :: "string set \<Rightarrow> group \<Rightarrow> int" where
  "potential S g = targetSize g + int (card (S - (gkeys (Nodes g) \<union> gkeys (pendingNodes g))))"

lemma potential_step:
  assumes "finite S" "name \<in> S" "gwf (Nodes g)" "gwf (pendingNodes g)"
    and "pendingNodes g' = gdel name (pendingNodes g)"
    and "Nodes g' = Nodes g \<or> Nodes g' = gset name p (Nodes g)"
  shows "potential S g' \<le> potential S g"
proof -
  let ?K = "\<lambda>g. gkeys (Nodes g) \<union> gkeys (pendingNodes g)"
  have p: "glen (pendingNodes g') =
      (if name \<in> gkeys (pendingNodes g) then glen (pendingNodes g) - 1 else glen (pendingNodes g))"
    using assms(4,5) by (simp add: gm.size_remove gm.keys_lookup)
  have keys: "gkeys (pendingNodes g') = gkeys (pendingNodes g) - {name}" using assms(5) by simp
  have fin: "finite (S - X)" for X using assms(1) by simp
  have drop: "card (S - (X - {name})) \<le> card (S - X) + 1" for X
  proof -
    have "S - (X - {name}) \<subseteq> insert name (S - X)" by auto
    then have "card (S - (X - {name})) \<le> card (insert name (S - X))" by (simp add: card_mono fin)
    also have "\<dots> \<le> card (S - X) + 1" by (simp add: card_insert_if fin)
    finally show ?thesis .
  qed
  from assms(6) show ?thesis
  proof
    assume N: "Nodes g' = Nodes g"
    show ?thesis
    proof (cases "name \<in> gkeys (pendingNodes g)")
      case True
      have "S - ?K g' \<subseteq> S - (?K g - {name})" using N keys by auto
      then have "card (S - ?K g') \<le> card (S - (?K g - {name}))" by (simp add: card_mono fin)
      with drop [of "?K g"] True p N show ?thesis by (simp add: potential_def targetSize_def)
    next
      case False
      with N keys p show ?thesis by (simp add: potential_def targetSize_def)
    qed
  next
    assume N: "Nodes g' = gset name p (Nodes g)"
    have len: "glen (Nodes g') = (if name \<in> gkeys (Nodes g) then glen (Nodes g) else glen (Nodes g) + 1)"
      using assms(3) N by (simp add: gm.size_store gm.keys_lookup)
    have K: "?K g' = insert name (?K g)" using N keys by auto
    show ?thesis
    proof (cases "name \<in> ?K g")
      case True
      then have "?K g' = ?K g" using K by auto
      with len p True show ?thesis by (auto simp: potential_def targetSize_def)
    next
      case False
      then have "S - ?K g = insert name (S - ?K g')" "name \<notin> S - ?K g'" using K assms(2) by auto
      then have "card (S - ?K g) = card (S - ?K g') + 1" by (simp add: fin)
      with len p False show ?thesis by (auto simp: potential_def targetSize_def)
    qed
  qed
qed

lemma createNode_potential:
  assumes "createNode E p (c, g, w) = Ret (c', g', w')" "heap w p = Some n" "InstanceName n \<in> S"
    "finite S" "gwf (Nodes g)" "gwf (pendingNodes g)"
  shows "potential S g' \<le> potential S g \<and> wframe w w' \<and> gwf (Nodes g') \<and> gwf (pendingNodes g')"
proof (cases "Status g = NodegroupCreated")
  case True
  obtain created k where c: "c = (created, k)" by (cases c)
  from createNode_outcome [OF assms(1) [unfolded c] True assms(2)]
  have o: "pendingNodes g' = gdel (InstanceName n) (pendingNodes g)" "wframe w w'"
    "Nodes g' = Nodes g \<or> Nodes g' = gset (InstanceName n) p (Nodes g)" by auto
  with potential_step [OF assms(4,3,5,6) o(1,3)] assms(5,6) show ?thesis by auto
next
  case False
  obtain created k where c: "c = (created, k)" by (cases c)
  from False assms(1,2) have "Nodes g' = Nodes g" "pendingNodes g' = pendingNodes g" "w' = w"
    by (auto simp: c createNode_def load_def set_running_def gput_Ret wg_Done_def split: if_splits)
  with assms(5,6) show ?thesis by (simp add: potential_def targetSize_def)
qed

lemma creation_potential:
  assumes "finite S" "named_in S w qs" "gwf (Nodes g)" "gwf (pendingNodes g)"
  shows "holds (\<lambda>(c', g', w'). potential S g' \<le> potential S g) (gfold (createNode E) qs (c, g, w))"
proof -
  let ?I = "\<lambda>(c', g', w'). potential S g' \<le> potential S g \<and> named_in S w' qs \<and>
    gwf (Nodes g') \<and> gwf (pendingNodes g')"
  have "holds ?I (gfold (createNode E) qs (c, g, w))"
  proof (rule gfold_holds)
    fix x and s :: creation assume x: "x \<in> set qs" and I: "?I s"
    obtain c1 g1 w1 where s: "s = (c1, g1, w1)" by (metis prod.collapse)
    from I x s obtain n where n: "heap w1 x = Some n" "InstanceName n \<in> S" by (auto simp: named_in_def)
    show "holds ?I (createNode E x s)"
    proof (rule holdsI)
      fix t assume t: "createNode E x s = Ret t"
      obtain c2 g2 w2 where t2: "t = (c2, g2, w2)" by (metis prod.collapse)
      have "gwf (Nodes g1)" "gwf (pendingNodes g1)" using I s by auto
      from createNode_potential [OF t [unfolded s t2] n assms(1) this]
      have "potential S g2 \<le> potential S g1" "wframe w1 w2" "gwf (Nodes g2)" "gwf (pendingNodes g2)" by auto
      moreover have "named_in S w2 qs" if "wframe w1 w2"
        using I s named_in_evolves wframe_evolves [OF that] by fastforce
      ultimately show "?I t" using I s t2 by auto
    qed
  qed (use assms in auto)
  then show ?thesis by (rule holds_mono) auto
qed

lemma createNodes_potential:
  assumes "createNodes E nodes g w = Ret (r, g', w')" "nodes \<noteq> []"
    "finite S" "named_in S w nodes" "gwf (Nodes g)" "gwf (pendingNodes g)"
  shows "potential S g' \<le> potential S g"
proof -
  from createNodes_in_order [OF assms(2), of E g w] obtain qs j where qs: "mset qs = mset nodes"
    "createNodes E nodes g w = with_iters j (create_sequentially E qs g w)" by blast
  from qs(2) assms(1) obtain w1 where "create_sequentially E qs g w = Ret (r, g', w1)"
    by (auto simp: with_iters_def split: prod.splits)
  then obtain c where fold: "gfold (createNode E) qs (([], 0), wg_Add (int (length qs)) g, w) = Ret (c, g', w1)"
    by (auto simp: create_sequentially_def finish_creation_def Let_def split: prod.splits)
  have "named_in S w qs" using assms(4) qs(1) by (auto simp: named_in_def dest: mset_eq_setD)
  from creation_potential [OF assms(3) this, of "wg_Add (int (length qs)) g" E "([], 0)"] fold assms(5,6)
  have "potential S g' \<le> potential S (wg_Add (int (length qs)) g)" by (simp add: wg_Add_def)
  then show ?thesis by (simp add: potential_def targetSize_def wg_Add_def)
qed

lemma addNodes_bound:
  assumes "addNodes E delta g w = Ret (r, g', w')" "group_inv g w"
  shows "targetSize g' \<le> targetSize g + max 0 delta"
proof -
  from assms(1) obtain ps err g1 w1 where prep: "prepareNodes E delta g w = Ret ((ps, err), g1, w1)"
    and next_step: "(if err = None then createNodes E ps g1 w1 else Ret ((ps, err), g1, w1)) = Ret (r, g', w')"
    by (auto simp: addNodes_def)
  consider (refused) "g1 = g" "err \<noteq> None"
    | (loop) "0 < delta" "prepare_loop E (nat delta) [] g w = Ret ((ps, err), g1, w1)"
    using prep by (auto simp: prepareNodes_def split: if_splits)
  then show ?thesis
  proof cases
    case refused
    with next_step show ?thesis by simp
  next
    case loop
    have b: "Nodes g1 = Nodes g" "glen (pendingNodes g1) \<le> glen (pendingNodes g) + delta" "group_inv g1 w1"
      "err = None \<Longrightarrow> named_in (gkeys (pendingNodes g1)) w1 ps"
      using prepare_loop_bound [OF loop(2) assms(2)] loop(1) by (auto simp: named_in_def)
    then have size: "targetSize g1 \<le> targetSize g + delta" by (simp add: targetSize_def)
    show ?thesis
    proof (cases "err = None \<and> ps \<noteq> []")
      case True
      let ?S = "gkeys (pendingNodes g1)"
      have wf: "gwf (Nodes g1)" "gwf (pendingNodes g1)" using b(3) by (simp_all add: group_inv_def)
      from True next_step have c: "createNodes E ps g1 w1 = Ret (r, g', w')" by simp
      have "potential ?S g' \<le> potential ?S g1"
        using createNodes_potential [OF c _ _ b(4) wf] True gm.finite_keys by blast
      moreover have "?S - (gkeys (Nodes g1) \<union> ?S) = {}" by auto
      then have "potential ?S g1 = targetSize g1" by (simp only: potential_def card.empty)
      moreover have "targetSize g' \<le> potential ?S g'" by (simp add: potential_def)
      ultimately show ?thesis using size by simp
    next
      case False
      then consider "err \<noteq> None" | "err = None" "ps = []" by auto
      then show ?thesis
      proof cases
        case 1
        with next_step size show ?thesis by simp
      next
        case 2
        with next_step have "targetSize g' = targetSize g1"
          by (auto simp: createNodes_def wg_Add_def wg_Wait_def targetSize_def Let_def split: if_splits)
        with size show ?thesis by simp
      qed
    qed
  qed
qed

section \<open>Resizing requests\<close>

lemma setNodeGroupSize_bound:
  assumes "setNodeGroupSize E newSize prepareOnly g w = Ret (r, g', w')" "group_inv g w"
    "targetSize g \<le> newSize" "\<not> prepareOnly"
  shows "targetSize g' \<le> newSize"
proof (cases "targetSize g < newSize")
  case True
  with assms have "addNodes E (newSize - targetSize g) g w = Ret (r, g', w')"
    by (simp add: setNodeGroupSize_def)
  from addNodes_bound [OF this assms(2)] True show ?thesis by simp
next
  case False
  with assms show ?thesis by (simp add: setNodeGroupSize_def)
qed

lemma on_group_Ret:
  assumes "on_group name f a w = Ret (r, a', w')"
  obtains g g' where "gget (Groups a) name = Some g" "f g w = Ret (r, g', w')" "a' = put_group name g' a"
  using assms by (auto simp: on_group_def split: option.splits)

lemma put_group_lookup [simp]:
  "gget (Groups (put_group name g a)) name' = (if name' = name then Some g else gget (Groups a) name')"
  by (simp add: put_group_def)

text \<open>C2: IncreaseSize of the gRPC service never takes the target size of a group past the larger of its former target size and its maximum, never past the size that was asked for, changes nothing when the request is refused, and leaves every other group alone.\<close>

theorem IncreaseSize_bounded:
  assumes "app_inv a w" "\<not> isCallDenied pid a" "gget (Groups a) gid = Some g"
    and "grpc_IncreaseSize E pid gid delta a w = Ret (reply, a', w')"
  shows "\<exists>g'. gget (Groups a') gid = Some g' \<and> targetSize g' \<le> max (targetSize g) (MaxNodeSize g) \<and>
    (if 0 < delta \<and> targetSize g + delta \<le> MaxNodeSize g then targetSize g' \<le> targetSize g + delta
     else a' = a \<and> w' = w \<and> reply \<noteq> accept ()) \<and>
    (\<forall>name. name \<noteq> gid \<longrightarrow> gget (Groups a') name = gget (Groups a) name)"
proof (cases "0 < delta \<and> targetSize g + delta \<le> MaxNodeSize g")
  case True
  with assms(2-4) obtain r where
    "on_group gid (setNodeGroupSize E (targetSize g + delta) False) a w = Ret (r, a', w')"
    by (auto simp: grpc_IncreaseSize_def guarded_def with_group_def getNodeGroup_def Let_def)
  then obtain g' where g': "setNodeGroupSize E (targetSize g + delta) False g w = Ret (r, g', w')"
    "a' = put_group gid g' a"
    using assms(3) by (auto elim: on_group_Ret)
  have "group_inv g w" using assms(1,3) by (simp add: app_inv_def)
  from setNodeGroupSize_bound [OF g'(1) this] True have "targetSize g' \<le> targetSize g + delta" by simp
  with g'(2) True show ?thesis by auto
next
  case False
  with assms(2-4) show ?thesis
    by (auto simp: grpc_IncreaseSize_def guarded_def with_group_def getNodeGroup_def accept_def cloud_error_def
        Let_def split: if_splits)
qed

text \<open>The sample: a server whose group of up to three machines is created, with its maps initialised.\<close>

definition grown_app :: app where
  "grown_app = sample_app\<lparr>Groups := Some [(''g'', sample_group)]\<rparr>"

lemma grown_app_inv: "app_inv grown_app empty_world"
  using sample_group_inv
  by (auto simp: app_inv_def grown_app_def gget_def gwf_def sample_group_defs group_inv_def split: if_splits)

lemma grown_app_open: "\<not> isCallDenied ''s'' grown_app"
  by (simp add: isCallDenied_def grown_app_def sample_app_def sample_config_def)

lemma grown_app_group: "gget (Groups grown_app) ''g'' = Some sample_group"
  by (simp add: grown_app_def gget_def)

theorem IncreaseSize_bounded_witness:
  "\<exists>a w g. grpc_IncreaseSize quiet_env ''s'' ''g'' 2 grown_app empty_world = Ret (accept (), a, w) \<and>
     gget (Groups a) ''g'' = Some g \<and> targetSize g \<le> 3"
proof -
  have "yields (\<lambda>(r, a, w). r = accept ()) (grpc_IncreaseSize quiet_env ''s'' ''g'' 2 grown_app empty_world)"
    by code_simp
  then obtain a w where r: "grpc_IncreaseSize quiet_env ''s'' ''g'' 2 grown_app empty_world = Ret (accept (), a, w)"
    by (auto simp: yields_iff)
  from IncreaseSize_bounded [OF grown_app_inv grown_app_open grown_app_group r] r show ?thesis
    by (auto simp: sample_group_defs targetSize_def)
qed

text \<open>A request to decrease: refused or accepted without any effect, or a panic.\<close>

text \<open>C15: DecreaseTargetSize with a negative delta changes nothing when it would go below the number of existing nodes (it is refused, or accepted without effect while nodes of the group are being deleted), and in every other case ends in a panic: the group never shrinks.\<close>

theorem DecreaseTargetSize_never_shrinks:
  assumes "\<not> isCallDenied pid a" "gget (Groups a) gid = Some g" "delta < 0"
  shows "grpc_DecreaseTargetSize E pid gid delta a w =
    (if targetSize g + delta < glen (Nodes g)
     then Ret (if havingDeletingNodes g w then accept ()
               else cloud_error (Sprintf ErrDecreaseSizeAttemptDeleteNodes
                      [Itoa (targetSize g), Itoa delta, Itoa (targetSize g + delta)]), a, w)
     else Panic MakeSliceCap)"
  using assms
  by (auto simp: grpc_DecreaseTargetSize_def guarded_def with_group_def getNodeGroup_def on_group_def Let_def
      setNodeGroupSize_def deleteNodes_def prepareDeleteNodes_def Values_def iterate_def)

text \<open>The sample: two machines are pending, as after an interrupted request to increase.\<close>

definition pending_app :: app where
  "pending_app = sample_app\<lparr>Groups := Some [(''g'', pending_pair)]\<rparr>"

theorem DecreaseTargetSize_never_shrinks_witness:
  "grpc_DecreaseTargetSize sample_env ''s'' ''g'' (- 1) pending_app pair_world = Panic MakeSliceCap"
proof -
  have p: "\<not> isCallDenied ''s'' pending_app" "gget (Groups pending_app) ''g'' = Some pending_pair"
    "\<not> targetSize pending_pair - 1 < glen (Nodes pending_pair)"
    by (simp_all add: isCallDenied_def pending_app_def sample_app_def sample_config_def gget_def targetSize_def
        pending_pair_def sample_group_defs glen_def)
  from DecreaseTargetSize_never_shrinks [OF p(1,2), of "- 1"] p(3) show ?thesis by simp
qed

end
