(* ===== verification/Lifecycle.thy ===== *)
theory Lifecycle
  imports Growth_Bounds
begin

text \<open>
  The life of a group in the server: it is entered in the table, created, provisioned, resized,
  deleted. What the operations of \<^verbatim>\<open>server/server.go\<close> and the handlers of the two services do on each
  branch, where the two services differ, and the paths that fail.
\<close>

section \<open>New groups\<close>

lemma newNodeGroup_effect:
  assumes "newNodeGroup i a = Ret (r, a')"
  shows "case r of
      Inl err \<Rightarrow> a' = a \<and> (gget (app_machines a) (machineType i) = None \<or> gget (Groups a) (nodeGroupID i) \<noteq> None)
    | Inr g \<Rightarrow> gget (app_machines a) (machineType i) \<noteq> None \<and> gget (Groups a) (nodeGroupID i) = None \<and>
        a' = put_group (nodeGroupID i) g a \<and> NodeGroupIdentifier g = nodeGroupID i \<and>
        MinNodeSize g = minNodeSize i \<and> MaxNodeSize g = maxNodeSize i \<and> InstanceType g = machineType i \<and>
        AutoProvision g = autoProvision i \<and> Status g = NodegroupNotCreated \<and> targetSize g = 0 \<and>
        RunningNodes g = None"
  using assms
  by (auto simp: newNodeGroup_def Let_def NewAutoScalerServerNodeGroup_def gput_Ret put_group_def targetSize_def
      split: option.splits if_splits)

theorem newNodeGroup_outcome:
  assumes "newNodeGroup i a = Ret (r, a')"
  shows "case r of
      Inl err \<Rightarrow> a' = a \<and> (gget (app_machines a) (machineType i) = None \<or> gget (Groups a) (nodeGroupID i) \<noteq> None)
    | Inr g \<Rightarrow> gget (app_machines a) (machineType i) \<noteq> None \<and> gget (Groups a) (nodeGroupID i) = None \<and>
        a' = put_group (nodeGroupID i) g a \<and> NodeGroupIdentifier g = nodeGroupID i \<and>
        MinNodeSize g = minNodeSize i \<and> MaxNodeSize g = maxNodeSize i \<and> InstanceType g = machineType i \<and>
        AutoProvision g = autoProvision i \<and> Status g = NodegroupNotCreated \<and> targetSize g = 0 \<and>
        RunningNodes g = None"
  using assms by (rule newNodeGroup_effect)

theorem newNodeGroup_outcome_witness:
  "\<exists>g a. newNodeGroup sample_input sample_app = Ret (Inr g, a) \<and> targetSize g = 0 \<and> MaxNodeSize g = 3"
proof -
  have "yields (\<lambda>(r, a). \<not> isl r) (newNodeGroup sample_input sample_app)"
    by code_simp
  then obtain g a where r: "newNodeGroup sample_input sample_app = Ret (Inr g, a)"
    by (auto simp: yields_iff isl_def) (metis sum.exhaust)
  from newNodeGroup_outcome [OF r] r show ?thesis by (simp add: sample_input_def)
qed

text \<open>
  Creating a group: the group is marked as being created before its first nodes are added, and
  nodes are only added to a created group. So no call is ever made, and a group whose minimum
  size exceeds the number of its nodes is refused and stays as it was.
\<close>

lemma createNodeGroup_effect:
  "createNodeGroup E name a w =
    (case gget (Groups a) name of
       None \<Rightarrow> Ret (Some (Errorf ErrNodeGroupNotFound [name]), a, w)
     | Some g \<Rightarrow>
         if Status g \<noteq> NodegroupNotCreated then Ret (None, a, w)
         else if glen (Nodes g) < MinNodeSize g
         then Ret (Some (Errorf ErrNodeGroupNotFound [NodeGroupIdentifier g]), put_group name g a, w)
         else Ret (None, put_group name (g\<lparr>Status := NodegroupCreated\<rparr>) a, w))"
proof (cases "gget (Groups a) name")
  case (Some g)
  show ?thesis
  proof (cases "Status g = NodegroupNotCreated")
    case True
    then have "put_group name (g\<lparr>Status := NodegroupNotCreated\<rparr>) a = put_group name g a" by (cases g) simp
    with Some True show ?thesis
      by (simp add: createNodeGroup_def addNodes_def prepareNodes_def Let_def)
  qed (simp add: createNodeGroup_def Some)
qed (simp add: createNodeGroup_def)

text \<open>C37: createNodeGroup never launches a machine: a group that needs nodes to reach its minimum is refused, because the status it sets is not the one prepareNodes requires; only a group that needs none becomes created.\<close>

theorem createNodeGroup_launches_nothing:
  "createNodeGroup E name a w =
    (case gget (Groups a) name of
       None \<Rightarrow> Ret (Some (Errorf ErrNodeGroupNotFound [name]), a, w)
     | Some g \<Rightarrow>
         if Status g \<noteq> NodegroupNotCreated then Ret (None, a, w)
         else if glen (Nodes g) < MinNodeSize g
         then Ret (Some (Errorf ErrNodeGroupNotFound [NodeGroupIdentifier g]), put_group name g a, w)
         else Ret (None, put_group name (g\<lparr>Status := NodegroupCreated\<rparr>) a, w))"
  by (rule createNodeGroup_effect)

section \<open>Provisioning\<close>

lemma provision_minimum:
  assumes "def_NodeGroupID d \<noteq> []" "gget (Groups a) (def_NodeGroupID d) = None" "Groups a \<noteq> None"
    "gget (app_machines a) (cfg_DefaultMachineType (app_configuration a)) \<noteq> None" "0 < def_MinSize d"
  shows "\<exists>a'. provision_one E d (None, a, w)
    = Ret (Some (Errorf ErrNodeGroupNotFound [def_NodeGroupID d]), a', w)"
  using assms
  by (auto simp: provision_one_def newNodeGroup_def provision_input_def NewAutoScalerServerNodeGroup_def
      gput_not_nil createNodeGroup_effect Let_def)

lemma provision_stops: "gfold (provision_one E) ds (Some e, a, w) = Ret (Some e, a, w)"
  by (induction ds) (simp_all add: provision_one_def)

text \<open>The external server provisions its group when it starts; with a positive minimum size it fails.\<close>



section \<open>Growing a new group\<close>

text \<open>
  The map of the indexes in use is not initialised when a group is made. Until nodes have been
  discovered, the first machine that the cloud creates for the group makes the server panic.
\<close>

lemma nodeName_loop_nil:
  "RunningNodes g = None \<Longrightarrow>
   nodeName_loop E cp managed is k g w = Panic NilMapWrite \<or>
   (\<exists>r w'. nodeName_loop E cp managed is k g w = Ret (r, g, w'))"
proof (induction "is" arbitrary: k w)
  case (Cons i "is")
  then show ?case by (auto simp: Let_def set_running_def wask_def ask_def)
qed simp

lemma prepare_one_nil:
  assumes "RunningNodes g = None" "creates_all E"
  shows "prepare_one E g w = Panic NilMapWrite"
proof -
  obtain i g1 where i: "findNextNodeIndex g = (i, g1)" by fastforce
  then have g1: "RunningNodes g1 = None" using findNextNodeIndex_group assms(1) by fastforce
  from nodeName_loop_nil [OF this, of E False False "[1..MaxNodeSize g1]" i w]
  show ?thesis
  proof
    assume "nodeName_loop E False False [1..MaxNodeSize g1] i g1 w = Panic NilMapWrite"
    then show ?thesis by (simp add: prepare_one_def i nodeName_def)
  next
    assume "\<exists>r w'. nodeName_loop E False False [1..MaxNodeSize g1] i g1 w = Ret (r, g1, w')"
    then obtain name k w1 where n: "nodeName_loop E False False [1..MaxNodeSize g1] i g1 w = Ret ((name, k), g1, w1)"
      by auto
    obtain p where "ans_handler E (Provider (CreateInstance name (InstanceType g1) False k) # trace w1) = Inr p"
      using assms(2) unfolding creates_all_def by blast
    with n g1 i show ?thesis by (simp add: prepare_one_def nodeName_def wask_def ask_def set_running_def)
  qed
qed

theorem new_group_growth_panics:
  assumes "creates_all E" "\<not> isCallDenied pid a" "gget (Groups a) gid = Some g"
    and "RunningNodes g = None" "Status g = NodegroupCreated" "0 < delta" "targetSize g + delta \<le> MaxNodeSize g"
  shows "grpc_IncreaseSize E pid gid delta a w = Panic NilMapWrite"
proof -
  obtain k where k: "nat delta = Suc k" using assms(6) by (cases "nat delta") auto
  have "addNodes E delta g w = Panic NilMapWrite"
    using assms(5,6) k prepare_one_nil [OF assms(4,1)] by (simp add: addNodes_def prepareNodes_def)
  with assms show ?thesis
    by (simp add: grpc_IncreaseSize_def guarded_def with_group_def getNodeGroup_def on_group_def
        setNodeGroupSize_def Let_def)
qed

text \<open>The group of the sample has just been made and created by requests.\<close>

theorem new_group_growth_panics_witness:
  "\<exists>a w. run_server quiet_env sample_json sample_codec
      [GrpcCall ''s'' (NewNodeGroupRequest sample_new_group), GrpcCall ''s'' (CreateRequest ''g'')]
      ((sample_app, empty_world), []) = Ret ((a, w), []) \<and>
    grpc_IncreaseSize quiet_env ''s'' ''g'' 1 a w = Panic NilMapWrite"
proof -
  have "yields (\<lambda>((a, w), ts). ts = [] \<and> \<not> isCallDenied ''s'' a \<and>
      (case gget (Groups a) ''g'' of None \<Rightarrow> False | Some g \<Rightarrow> Option.is_none (RunningNodes g) \<and>
         Status g = NodegroupCreated \<and> targetSize g + 1 \<le> MaxNodeSize g))
    (run_server quiet_env sample_json sample_codec
      [GrpcCall ''s'' (NewNodeGroupRequest sample_new_group), GrpcCall ''s'' (CreateRequest ''g'')]
      ((sample_app, empty_world), []))"
    by code_simp
  then obtain a w g where r: "run_server quiet_env sample_json sample_codec
      [GrpcCall ''s'' (NewNodeGroupRequest sample_new_group), GrpcCall ''s'' (CreateRequest ''g'')]
      ((sample_app, empty_world), []) = Ret ((a, w), [])"
    and g: "\<not> isCallDenied ''s'' a" "gget (Groups a) ''g'' = Some g" "RunningNodes g = None"
      "Status g = NodegroupCreated" "targetSize g + 1 \<le> MaxNodeSize g"
    by (auto simp: yields_iff Option.is_none_def split: option.splits)
  have "grpc_IncreaseSize quiet_env ''s'' ''g'' 1 a w = Panic NilMapWrite"
    by (rule new_group_growth_panics [OF quiet_env_cloud(2) g(1-4) _ g(5)]) simp
  with r show ?thesis by blast
qed

section \<open>Deleting a group\<close>

lemma reorder_Nil [simp]: "reorder ord [] = []"
  by (rule length_0_conv [THEN iffD1]) (simp only: length_reorder list.size)

lemma empty_cleanup:
  assumes "targetSize g = 0" "pendingNodesWG g \<le> 0"
  shows "\<exists>g' w'. cleanup E g w = Ret (None, g', w') \<and> trace w' = trace w \<and> heap w' = heap w"
proof -
  have "glen (Nodes g) = 0" "glen (pendingNodes g) = 0"
    using assms(1) glen_nonneg [of "Nodes g"] glen_nonneg [of "pendingNodes g"]
    unfolding targetSize_def by linarith+
  then have "gvals (Nodes g) = []" "gvals (pendingNodes g) = []" by (simp_all add: gvals_def glen_def)
  then show ?thesis
    using assms(2)
    by (simp add: cleanup_def wg_Wait_def AllNodes_def Values_def iterate_def Let_def)
qed

text \<open>
  A group whose deletion fails stays in the table, but it has forgotten its nodes: deleting it again
  succeeds without a single call, and its machines are never deleted.
\<close>

theorem deleteNodeGroup_retry:
  assumes "deleteNodeGroup E name a w = Ret (Some e, a', w')" "gget (Groups a) name \<noteq> None"
  shows "\<exists>a'' w''. deleteNodeGroup E name a' w' = Ret (None, a'', w'') \<and> trace w'' = trace w' \<and>
    heap w'' = heap w' \<and> gget (Groups a'') name = None \<and>
    (\<forall>other. other \<noteq> name \<longrightarrow> gget (Groups a'') other = gget (Groups a) other)"
proof -
  from assms obtain g g1 where g: "gget (Groups a) name = Some g" "cleanup E g w = Ret (Some e, g1, w')"
    "a' = put_group name g1 a"
    by (auto simp: deleteNodeGroup_def group_deleteNodeGroup_def elim!: on_group_Ret split: if_splits)
  from cleanup_effect [OF g(2)] have "targetSize g1 = 0" "pendingNodesWG g1 \<le> 0" by auto
  from empty_cleanup [OF this, of E w'] obtain g2 w2 where
    c: "cleanup E g1 w' = Ret (None, g2, w2)" "trace w2 = trace w'" "heap w2 = heap w'" by blast
  let ?a = "put_group name g2 a'"
  have "deleteNodeGroup E name a' w' = Ret (None, ?a\<lparr>Groups := gdel name (Groups ?a)\<rparr>, w2)"
    using c(1) g(3) by (simp add: deleteNodeGroup_def group_deleteNodeGroup_def on_group_def)
  with c(2,3) g(3) show ?thesis by auto
qed

theorem deleteNodeGroup_retry_witness:
  "\<exists>e a w a' w'. deleteNodeGroup failing_power_off ''g'' pending_app pair_world = Ret (Some e, a, w) \<and>
     deleteNodeGroup failing_power_off ''g'' a w = Ret (None, a', w') \<and> trace w' = trace w"
proof -
  have "yields (\<lambda>(err, a, w). \<not> Option.is_none err)
      (deleteNodeGroup failing_power_off ''g'' pending_app pair_world)"
    by code_simp
  then obtain e a w where r: "deleteNodeGroup failing_power_off ''g'' pending_app pair_world = Ret (Some e, a, w)"
    by (auto simp: yields_iff Option.is_none_def)
  have "gget (Groups pending_app) ''g'' \<noteq> None" by (simp add: pending_app_def gget_def)
  from deleteNodeGroup_retry [OF r this] obtain a2 w2 where
    "deleteNodeGroup failing_power_off ''g'' a w = Ret (None, a2, w2)" "trace w2 = trace w"
    by (elim exE conjE)
  with r show ?thesis by (intro exI conjI)
qed

section \<open>Listing the groups\<close>

lemma created_groups_set:
  assumes "gwf (Groups a)" "set entries = set (gentries (Groups a))"
  shows "name \<in> set (created_groups entries) \<longleftrightarrow>
    (\<exists>g. gget (Groups a) name = Some g \<and> Status g = NodegroupCreated)"
proof -
  have "name \<in> set (created_groups entries) \<longleftrightarrow>
      (\<exists>g. (name, g) \<in> set (gentries (Groups a)) \<and> Status g = NodegroupCreated)"
    using assms(2) by (auto simp: created_groups_def image_iff)
  with assms(1) show ?thesis by (simp add: gget_def gwf_def map_of_eq_Some_iff)
qed

text \<open>A range over the groups visits each of them once, in an order that no two ranges need to share.\<close>

lemma iterated_groups:
  assumes "gwf (Groups a)" "iterate E (gentries (Groups a)) w = (entries, w')"
  shows "set entries = set (gentries (Groups a)) \<and> trace w' = trace w \<and> distinct (created_groups entries)"
proof -
  have set: "set entries = set (gentries (Groups a))" and mset: "mset entries = mset (gentries (Groups a))"
    and tr: "trace w' = trace w"
    using assms(2) by (auto simp: iterate_def)
  have "mset (map fst entries) = mset (map fst (gentries (Groups a)))" using mset by simp
  then have "distinct (map fst entries)"
    using assms(1) mset_eq_imp_distinct_iff unfolding gwf_def by blast
  then have "distinct (created_groups entries)"
    unfolding created_groups_def by (rule distinct_map_filter)
  with set tr show ?thesis by simp
qed

text \<open>C35: Both services list exactly the groups whose status is created, each once, whatever the orders in which the map is ranged over, which two requests need not share; the external service gives each group the bounds of its size as 32-bit integers. Neither makes a call.\<close>

theorem NodeGroups_lists_created:
  assumes "gwf (Groups a)" "\<not> isCallDenied pid a"
  shows "\<exists>names w' gs v'. grpc_NodeGroups E pid a w = Ret (accept names, a, w') \<and> trace w' = trace w \<and>
    distinct names \<and>
    (\<forall>name. name \<in> set names \<longleftrightarrow> (\<exists>g. gget (Groups a) name = Some g \<and> Status g = NodegroupCreated)) \<and>
    ext_NodeGroups F a v = Ret (Inr gs, a, v') \<and> trace v' = trace v \<and> distinct (map eg_Id gs) \<and>
    (\<forall>x. x \<in> set gs \<longleftrightarrow> (\<exists>g. gget (Groups a) (eg_Id x) = Some g \<and> Status g = NodegroupCreated \<and>
       eg_MinSize x = wrap32 (MinNodeSize g) \<and> eg_MaxSize x = wrap32 (MaxNodeSize g)))"
proof -
  obtain names w' where "iterate E (gentries (Groups a)) w = (names, w')" by fastforce
  then have n: "grpc_NodeGroups E pid a w = Ret (accept (created_groups names), a, w')" "trace w' = trace w"
    "distinct (created_groups names)" "set names = set (gentries (Groups a))"
    using iterated_groups [of a E w names w'] assms by (simp_all add: grpc_NodeGroups_def guarded_def)
  obtain entries v' where it: "iterate F (gentries (Groups a)) v = (entries, v')" by fastforce
  define gs where "gs = map (\<lambda>(name, g). \<lparr>eg_Id = name, eg_MinSize = wrap32 (MinNodeSize g), eg_MaxSize = wrap32 (MaxNodeSize g)\<rparr>)
    (filter (\<lambda>(name, g). Status g = NodegroupCreated) entries)"
  have "map eg_Id gs = created_groups entries"
    by (simp add: gs_def created_groups_def case_prod_unfold comp_def)
  then have g: "ext_NodeGroups F a v = Ret (Inr gs, a, v')" "trace v' = trace v" "distinct (map eg_Id gs)"
    "set entries = set (gentries (Groups a))"
    using iterated_groups [OF assms(1) it] it by (simp_all add: ext_NodeGroups_def gs_def)
  have m: "x \<in> set gs \<longleftrightarrow> (\<exists>g. gget (Groups a) (eg_Id x) = Some g \<and> Status g = NodegroupCreated \<and>
       eg_MinSize x = wrap32 (MinNodeSize g) \<and> eg_MaxSize x = wrap32 (MaxNodeSize g))" for x
  proof -
    have "x \<in> set gs \<longleftrightarrow> (\<exists>name g. (name, g) \<in> set (gentries (Groups a)) \<and> Status g = NodegroupCreated \<and>
        x = \<lparr>eg_Id = name, eg_MinSize = wrap32 (MinNodeSize g), eg_MaxSize = wrap32 (MaxNodeSize g)\<rparr>)"
      by (auto simp: gs_def g(4) image_iff)
    with assms(1) show ?thesis by (cases x) (auto simp: gget_def gwf_def map_of_eq_Some_iff)
  qed
  from n g m created_groups_set [OF assms(1) n(4)] show ?thesis by blast
qed

theorem NodeGroups_lists_created_witness:
  "\<exists>names w gs v. grpc_NodeGroups quiet_env ''s'' grown_app empty_world = Ret (accept names, grown_app, w) \<and>
     ''g'' \<in> set names \<and> ext_NodeGroups sample_env grown_app pair_world = Ret (Inr gs, grown_app, v) \<and>
     ''g'' \<in> eg_Id ` set gs"
proof -
  have "gwf (Groups grown_app)" using grown_app_inv by (simp add: app_inv_def)
  from NodeGroups_lists_created [OF this grown_app_open, of quiet_env empty_world sample_env pair_world] obtain names w gs v where
    l: "grpc_NodeGroups quiet_env ''s'' grown_app empty_world = Ret (accept names, grown_app, w)"
      "\<And>name. name \<in> set names \<longleftrightarrow> (\<exists>g. gget (Groups grown_app) name = Some g \<and> Status g = NodegroupCreated)"
      "ext_NodeGroups sample_env grown_app pair_world = Ret (Inr gs, grown_app, v)"
      "\<And>x. x \<in> set gs \<longleftrightarrow> (\<exists>g. gget (Groups grown_app) (eg_Id x) = Some g \<and> Status g = NodegroupCreated \<and>
         eg_MinSize x = wrap32 (MinNodeSize g) \<and> eg_MaxSize x = wrap32 (MaxNodeSize g))"
    by blast
  have c: "Status sample_group = NodegroupCreated" by (simp add: sample_group_defs)
  let ?x = "\<lparr>eg_Id = ''g'', eg_MinSize = wrap32 (MinNodeSize sample_group), eg_MaxSize = wrap32 (MaxNodeSize sample_group)\<rparr>"
  have "?x \<in> set gs" using grown_app_group c by (simp add: l(4))
  then have "eg_Id ?x \<in> eg_Id ` set gs" by (rule imageI)
  then have "''g'' \<in> eg_Id ` set gs" by simp
  moreover have "''g'' \<in> set names" using grown_app_group c by (simp add: l(2))
  ultimately show ?thesis using l(1,3) by blast
qed

section \<open>The two services\<close>

lemma gset_gset: "gset k v (gset k u m) = gset k v m"
proof -
  have "AList.update k v (AList.update k u xs) = AList.update k v xs" for xs
    by (induction xs) auto
  then show ?thesis by (simp add: gset_def)
qed

lemma put_group_twice [simp]: "put_group name g (put_group name h a) = put_group name g a"
  by (simp add: put_group_def gset_gset)

text \<open>
  A request to increase has the same effect in both services, once the goroutine of the external
  service has run: the external handler only answers earlier.
\<close>

text \<open>C36: The external service, once its goroutine has run, leaves the same state, the same machines and the same calls as the synchronous IncreaseSize of the gRPC service.\<close>

theorem IncreaseSize_services_agree:
  assumes "\<not> isCallDenied pid a"
  shows "gbind (ext_NodeGroupIncreaseSize E gid delta a w)
      (\<lambda>((r, t), a, w). case t of None \<Rightarrow> Ret (a, w) | Some t \<Rightarrow> run_task E t a w) =
    gbind (grpc_IncreaseSize E pid gid delta a w) (\<lambda>(r, s). Ret s)"
proof (cases "gget (Groups a) gid")
  case None
  with assms show ?thesis
    by (simp add: ext_NodeGroupIncreaseSize_def with_ext_group_def grpc_IncreaseSize_def guarded_def
        with_group_def getNodeGroup_def)
next
  case (Some g)
  show ?thesis
  proof (cases "0 < delta \<and> targetSize g + delta \<le> MaxNodeSize g")
    case True
    then show ?thesis
      using assms Some
      by (cases "prepareNodes E delta g w")
        (auto simp: ext_NodeGroupIncreaseSize_def with_ext_group_def grpc_IncreaseSize_def guarded_def
          with_group_def getNodeGroup_def on_group_def setNodeGroupSize_def addNodes_def refuse_def
          gbind_assoc Let_def split: prod.splits option.splits intro!: gbind_cong)
  next
    case False
    with assms Some show ?thesis
      by (auto simp: ext_NodeGroupIncreaseSize_def with_ext_group_def grpc_IncreaseSize_def guarded_def
          with_group_def getNodeGroup_def refuse_def Let_def)
  qed
qed

theorem IncreaseSize_services_agree_witness:
  "gbind (ext_NodeGroupIncreaseSize quiet_env ''g'' 2 grown_app empty_world)
      (\<lambda>((r, t), a, w). case t of None \<Rightarrow> Ret (a, w) | Some t \<Rightarrow> run_task quiet_env t a w) =
    gbind (grpc_IncreaseSize quiet_env ''s'' ''g'' 2 grown_app empty_world) (\<lambda>(r, s). Ret s)"
  by (rule IncreaseSize_services_agree [OF grown_app_open])

text \<open>
  The minimum size is checked for the group of the request, but each node is deleted in the group
  its annotation names, whatever the minimum size of that group.
\<close>

theorem DeleteNodes_other_group:
  assumes "\<not> isCallDenied pid a" "gget (Groups a) gid = Some g" "MinNodeSize g < targetSize g"
    and "json t = Inr (Some k)" "gget (k_Annotations k) AnnotationNodeGroupName = Some other"
    and "gget (Groups a) other = Some h" "deleteNodeByName E (k_Name k) h w = Ret (None, h', w')"
  shows "grpc_DeleteNodes E json pid gid [t] a w = Ret (accept (), put_group other h' a, w')"
  using assms
  by (simp add: grpc_DeleteNodes_def guarded_def with_group_def getNodeGroup_def on_group_def)

text \<open>A node of an unknown group: one service returns an error, the other one's goroutine panics.\<close>

theorem DeleteNodes_unknown_group:
  assumes "\<not> isCallDenied pid a" "gget (Groups a) gid = Some g"
    and "MinNodeSize g \<le> targetSize g - int (length (k # ks))"
    and "gget (k_Annotations k) AnnotationNodeGroupName = Some other" "gget (Groups a) other = None"
    and "json t = Inr (Some k)" "length ts = length ks"
  shows "ext_NodeGroupDeleteNodes gid (k # ks) a w = Ret ((Inr (), Some (DeleteNodesTask (k # ks))), a, w) \<and>
    run_task E (DeleteNodesTask (k # ks)) a w = Panic NilDeref \<and>
    grpc_DeleteNodes E json pid gid (t # ts) a w = Ret (cloud_error (Sprintf ErrNodeGroupNotFound [other]), a, w)"
  using assms
  by (simp add: ext_NodeGroupDeleteNodes_def with_ext_group_def refuse_def delete_node_task_def getNodeGroup_def
      grpc_DeleteNodes_def guarded_def with_group_def Errorf_def)

text \<open>
  A group without options of its own answers with the defaults of the request. One service returns
  them, the other one returns the threshold for GPUs as the threshold for every resource, and the
  time after which an unneeded node is removed as the time after which an unready one is.
\<close>

theorem GetOptions_defaults:
  assumes "\<not> isCallDenied pid a" "gget (Groups a) gid = Some g"
    and "cfg_AutoScalingOptions (configuration g) = None" "cfg_cached_options (configuration g) = None"
  shows "\<exists>a' opts. grpc_GetOptions E pid gid (Some d) a w = Ret (accept opts, a', w) \<and>
    ScaleDownUtilizationThreshold opts = ScaleDownGpuUtilizationThreshold d \<and>
    ScaleDownUnreadyTime opts = ScaleDownUnneededTime d \<and>
    ext_NodeGroupGetOptions E gid (Some (to_ext_options d)) a w = Ret (Inr (to_ext_options d), a', w)"
  using assms
  by (auto simp: grpc_GetOptions_def guarded_def with_group_def getNodeGroup_def group_GetOptions_def
      GetAutoScalingOptions_def ext_NodeGroupGetOptions_def with_ext_group_def copied_defaults_def
      from_ext_options_def to_ext_options_def Let_def)

text \<open>The samples: a group with room, and a group of two machines that may not lose one.\<close>

definition full_pair :: group where
  "full_pair = pending_pair\<lparr>MinNodeSize := 2\<rparr>"

definition two_groups :: app where
  "two_groups = sample_app\<lparr>Groups :=
     Some [(''a'', sample_group\<lparr>pendingNodes := Some [(''x'', 5)]\<rparr>), (''g'', full_pair)]\<rparr>"

lemma two_groups_simps:
  "\<not> isCallDenied ''s'' two_groups"
  "gget (Groups two_groups) ''a'' = Some (sample_group\<lparr>pendingNodes := Some [(''x'', 5)]\<rparr>)"
  "gget (Groups two_groups) ''g'' = Some full_pair" "gget (Groups two_groups) ''b'' = None"
  by (simp_all add: two_groups_def gget_def isCallDenied_def sample_app_def sample_config_def)

lemma sample_json_simps:
  "sample_json t = Inr (Some (sample_knode\<lparr>k_Name := t, k_Annotations := Some [(AnnotationNodeGroupName, ''g'')]\<rparr>))"
  by (simp add: sample_json_def)

theorem DeleteNodes_other_group_witness:
  "\<exists>a w. MinNodeSize full_pair = targetSize full_pair \<and> gget (Groups two_groups) ''g'' = Some full_pair \<and>
     grpc_DeleteNodes sample_env sample_json ''s'' ''a'' [''g-autoscaled-01''] two_groups pair_world
       = Ret (accept (), a, w)"
proof -
  have "yields (\<lambda>(err, g, w). Option.is_none err)
      (deleteNodeByName sample_env ''g-autoscaled-01'' full_pair pair_world)"
    by code_simp
  then obtain h w where d: "deleteNodeByName sample_env ''g-autoscaled-01'' full_pair pair_world = Ret (None, h, w)"
    by (auto simp: yields_iff Option.is_none_def)
  have min: "MinNodeSize (sample_group\<lparr>pendingNodes := Some [(''x'', 5)]\<rparr>)
      < targetSize (sample_group\<lparr>pendingNodes := Some [(''x'', 5)]\<rparr>)"
    by (simp add: targetSize_def sample_group_defs glen_def)
  have k: "gget (k_Annotations (sample_knode\<lparr>k_Name := ''g-autoscaled-01'',
      k_Annotations := Some [(AnnotationNodeGroupName, ''g'')]\<rparr>)) AnnotationNodeGroupName = Some ''g''"
    by (simp add: gget_def)
  have "grpc_DeleteNodes sample_env sample_json ''s'' ''a'' [''g-autoscaled-01''] two_groups pair_world
      = Ret (accept (), put_group ''g'' h two_groups, w)"
    by (rule DeleteNodes_other_group [OF two_groups_simps(1,2) min])
      (rule sample_json_simps, rule k, rule two_groups_simps(3), simp add: d)
  moreover have "MinNodeSize full_pair = targetSize full_pair"
    by (simp add: full_pair_def pending_pair_def targetSize_def sample_group_defs glen_def)
  ultimately show ?thesis using two_groups_simps(3) by blast
qed

theorem DeleteNodes_unknown_group_witness:
  "run_task sample_env (DeleteNodesTask [sample_knode\<lparr>k_Annotations := Some [(AnnotationNodeGroupName, ''b'')]\<rparr>])
     two_groups pair_world = Panic NilDeref"
proof -
  let ?k = "sample_knode\<lparr>k_Annotations := Some [(AnnotationNodeGroupName, ''b'')]\<rparr>"
  let ?g = "sample_group\<lparr>pendingNodes := Some [(''x'', 5)]\<rparr>"
  have room: "MinNodeSize ?g \<le> targetSize ?g - int (length [?k])"
    by (simp add: targetSize_def sample_group_defs glen_def)
  have k: "gget (k_Annotations ?k) AnnotationNodeGroupName = Some ''b''" by (simp add: gget_def)
  show ?thesis
    by (rule DeleteNodes_unknown_group [where json = "\<lambda>t. Inr (Some ?k)" and t = "''n''" and ts = "[]",
          OF two_groups_simps(1,2) room k two_groups_simps(4) refl, THEN conjunct2, THEN conjunct1]) simp
qed

definition sample_options :: autoscaling_options where
  "sample_options = \<lparr>ScaleDownUtilizationThreshold = 5, ScaleDownGpuUtilizationThreshold = 7,
     ScaleDownUnneededTime = Some 600, ScaleDownUnreadyTime = Some 1200, MaxNodeProvisionTime = Some 900,
     ZeroOrMaxNodeScaling = False, IgnoreDaemonSetsUtilization = False\<rparr>"

theorem GetOptions_defaults_witness:
  "\<exists>a opts. grpc_GetOptions sample_env ''s'' ''g'' (Some sample_options) grown_app empty_world
     = Ret (accept opts, a, empty_world) \<and> ScaleDownUtilizationThreshold opts = 7"
proof -
  have "cfg_AutoScalingOptions (configuration sample_group) = None"
    "cfg_cached_options (configuration sample_group) = None"
    by (simp_all add: sample_group_defs sample_config_def)
  from GetOptions_defaults [OF grown_app_open grown_app_group this, of sample_env sample_options empty_world]
  show ?thesis by (auto simp: sample_options_def)
qed

end
