(* ===== verification/Managed.thy ===== *)
theory Managed
  imports Lifecycle
begin

text \<open>
  What the controller of \<^verbatim>\<open>server/controller.go\<close> does to a managed node: the transitions of its status,
  the limits of the cluster, the nodes it deletes.
\<close>

section \<open>The transitions of the status\<close>

text \<open>
  The contract between the controller and the user of a resource: from which code to which code
  handling the resource may take it. Codes of a machine that runs are written later, when the
  machine has been started.
\<close>

inductive status_step :: "int \<Rightarrow> int \<Rightarrow> bool" where
  unknown_group: "c' = StatusManagedNodeGroupNotFound \<or> c' = StatusManagedNodeCreationFailed \<Longrightarrow> c \<noteq> c' \<Longrightarrow>
    status_step c c'"
| create: "c \<in> {StatusManagedNodeNeedToCreated, StatusManagedNodeGroupNotFound, StatusManagedNodeNiceLimitReached} \<Longrightarrow>
    c' \<in> {StatusManagedNodeCreation, StatusManagedNodeCreationFailed, StatusManagedNodeNiceLimitReached,
           StatusManagedNodeInstanceTypeNotRegistred} \<Longrightarrow> c \<noteq> c' \<Longrightarrow> status_step c c'"
| vanished: "status_step StatusManagedNodeCreated StatusManagedNodeDeleted"

inductive_simps status_step_iff: "status_step c c'"

definition status_write :: "call \<Rightarrow> managed_node_status list" where
  "status_write c = (case c of Api (ManagedNodeUpdateStatus name st) \<Rightarrow> [st] | _ \<Rightarrow> [])"

text \<open>The statuses written so far, newest first.\<close>

definition status_writes :: "calls \<Rightarrow> managed_node_status list" where
  "status_writes h = concat (map status_write h)"

lemma status_writes_simps [simp]:
  "status_writes [] = []" "status_writes (c # h) = status_write c @ status_writes h"
  by (simp_all add: status_writes_def)

lemma status_write_simps [simp]:
  "status_write (Api (ManagedNodeUpdateStatus name st)) = [st]"
  "status_write (On p x) = []" "status_write (Provider y) = []" "status_write (Client z) = []"
  "status_write TimeNow = []" "status_write (Api NodesListerList) = []"
  "status_write (Api (ManagedNodesListerGet name)) = []" "status_write (Api (ManagedNodeGet name)) = []"
  "status_write (Api (RecordEvent k r m)) = []"
  by (simp_all add: status_write_def)

abbreviation writes :: "world \<Rightarrow> managed_node_status list" where
  "writes w \<equiv> status_writes (trace w)"

lemma writes_wask: "wask f c w = (r, w') \<Longrightarrow> writes w' = status_write c @ writes w"
  by (auto simp: wask_def ask_def)

lemma writes_iterate: "iterate E xs w = (ys, w') \<Longrightarrow> trace w' = trace w"
  by (auto simp: iterate_def)

lemma writes_event [simp]: "writes (event k r m w) = writes w"
  by (simp add: event_def note_call_def)

lemma writes_getManaged: "getManagedNodeFromKey E K key w = (r, w') \<Longrightarrow> writes w' = writes w"
  by (auto simp: getManagedNodeFromKey_def dest: writes_wask split: sum.splits)

lemma trace_findNode: "findNodeByCRDUID E g uid w = Ret (r, w') \<Longrightarrow> trace w' = trace w"
  by (auto simp: findNodeByCRDUID_def AllNodes_def Values_def iterate_def Let_def)

lemma writes_checkLimits: "checkRessourceLimits E m a w = Ret (r, w') \<Longrightarrow> writes w' = writes w"
  by (auto simp: checkRessourceLimits_def Let_def wask_def ask_def split: sum.splits option.splits if_splits)

lemma writes_nodeName_loop: "nodeName_loop E cp managed is k g w = Ret (r, g', w') \<Longrightarrow> writes w' = writes w"
proof (induction "is" arbitrary: k g w)
  case (Cons i "is")
  then show ?case
    by (auto simp: Let_def wask_def ask_def set_running_def split: if_splits)
qed auto

lemma writes_addManagedNode:
  assumes "addManagedNode E m g w = Ret (r, g', w')"
  shows "writes w' = writes w"
proof -
  obtain i g1 where i: "findNextNodeIndex g = (i, g1)" by fastforce
  from assms i obtain name k g2 w2 where n: "nodeName E i (mn_ControlPlane m) True g1 w = Ret ((name, k), g2, w2)"
    unfolding addManagedNode_def Let_def by auto
  then have "writes w2 = writes w" unfolding nodeName_def by (rule writes_nodeName_loop)
  with assms i n show ?thesis
    by (auto simp: addManagedNode_def wask_def ask_def set_running_def add_pending_def alloc_def Let_def
        case_prod_unfold split: option.splits sum.splits)
qed

lemma updateStatus_writes:
  "updateManagedNodeStatus E m st w = (r, w') \<Longrightarrow>
   \<exists>sts. writes w' = sts @ writes w \<and> length sts \<le> 1 \<and> (\<forall>s \<in> set sts. ms_Code s = ms_Code st)"
  by (auto simp: updateManagedNodeStatus_def Let_def wask_def ask_def split: prod.splits sum.splits)

lemma write_status_writes:
  "\<exists>sts. writes (write_status E m st w) = sts @ writes w \<and> length sts \<le> 1 \<and>
     (\<forall>s \<in> set sts. ms_Code s = ms_Code st \<and> ms_Code (mn_Status m) \<noteq> ms_Code st)"
proof (cases "ms_Code (mn_Status m) = ms_Code st")
  case False
  then show ?thesis
    using updateStatus_writes [of E m st w "fst (updateManagedNodeStatus E m st w)"]
    by (auto simp: write_status_def)
qed (simp add: write_status_def)

lemma set_status_code [simp]: "ms_Code (set_status c msg st) = c"
  by (simp add: set_status_def)

text \<open>The new status of a node that is to be created, and the table of the nodes to create.\<close>

lemma prepare_managed_status:
  assumes "prepare_managed E m T a w = Ret (((st, err), T'), a', w')"
  shows "writes w' = writes w \<and> ms_Code st \<in> {StatusManagedNodeCreation, StatusManagedNodeCreationFailed}"
proof -
  from assms obtain r a1 w1 where o1: "on_group (mn_Nodegroup m) (addManagedNode E m) a w = Ret (r, a1, w1)"
    unfolding prepare_managed_def Let_def by auto
  then have "writes w1 = writes w" by (auto elim!: on_group_Ret dest: writes_addManagedNode)
  with assms o1 show ?thesis
    by (cases r) (auto simp: prepare_managed_def Let_def load_def split: option.splits)
qed

lemma create_managed_status:
  assumes "create_managed E key m T a w = Ret (((st, err), T'), a', w')"
  shows "writes w' = writes w \<and>
    (st = mn_Status m \<or> ms_Code st \<in> {StatusManagedNodeCreation, StatusManagedNodeCreationFailed,
       StatusManagedNodeNiceLimitReached, StatusManagedNodeInstanceTypeNotRegistred})"
  using assms
  by (auto simp: create_managed_def Let_def dest!: writes_checkLimits prepare_managed_status
      split: option.splits if_splits)

lemma missing_node_writes:
  assumes "handle_missing_node E key m T a w = Ret (((st, err), T'), a', w')"
  shows "\<exists>sts. writes w' = sts @ writes w \<and> length sts \<le> 1 \<and>
    (\<forall>s \<in> set sts. status_step (ms_Code (mn_Status m)) (ms_Code s))"
proof -
  let ?old = "mn_Status m"
  from assms obtain w1 where
    w': "w' = write_status E m st w1" and
    body: "(if needs_creation ?old then create_managed E key m T a w
            else if ms_Code ?old = StatusManagedNodeCreated
            then Ret (((deleted_status ?old, None), T), a,
                   event EventTypeWarning WarningEvent (ms_Message (deleted_status ?old)) w)
            else Ret (((?old, None), T), a, w)) = Ret (((st, err), T'), a', w1)"
    unfolding handle_missing_node_def Let_def by (auto simp del: Ret_eq_gbind split del: if_split)
  have "writes w1 = writes w \<and> (ms_Code ?old \<noteq> ms_Code st \<longrightarrow> status_step (ms_Code ?old) (ms_Code st))"
  proof (cases "needs_creation ?old")
    case True
    with body have c: "create_managed E key m T a w = Ret (((st, err), T'), a', w1)" by simp
    from create_managed_status [OF this] True show ?thesis
      by (auto simp: needs_creation_def intro: status_step.create)
  next
    case False
    with body show ?thesis
      by (auto simp: deleted_status_def intro: status_step.vanished split: if_splits)
  qed
  with write_status_writes [of E m st w1] w' show ?thesis by auto
qed

lemma missing_group_writes:
  assumes "handle_missing_group E m a w = (st, w')"
  shows "\<exists>sts. writes w' = sts @ writes w \<and> length sts \<le> 1 \<and>
    (\<forall>s \<in> set sts. status_step (ms_Code (mn_Status m)) (ms_Code s))"
proof (cases "ms_Code (mn_Status m) = ms_Code (group_missing_status a m)")
  case False
  have "status_step (ms_Code (mn_Status m)) (ms_Code (group_missing_status a m))"
    using False by (auto simp: group_missing_status_def intro!: status_step.unknown_group)
  with assms False show ?thesis
    using write_status_writes [of E m "group_missing_status a m"]
    by (auto simp: handle_missing_group_def Let_def) (metis writes_event)+
qed (use assms in \<open>auto simp: handle_missing_group_def Let_def\<close>)

lemma handle_writes:
  assumes "handleManagedNode E K key T a w = Ret (((recycled, err), T'), a', w')"
    and "getManagedNodeFromKey E K key w = (Inr m, w0)"
  shows "\<exists>sts. writes w' = sts @ writes w \<and> length sts \<le> 1 \<and>
    (\<forall>s \<in> set sts. status_step (ms_Code (mn_Status m)) (ms_Code s))"
proof -
  have w0: "writes w0 = writes w" using assms(2) by (rule writes_getManaged)
  show ?thesis
  proof (cases "getNodeGroup (mn_Nodegroup m) a")
    case (Inl e)
    obtain st w1 where g: "handle_missing_group E m a w0 = (st, w1)" by fastforce
    with assms Inl have "w' = w1" by (simp add: handleManagedNode_def Let_def)
    with missing_group_writes [OF g] w0 show ?thesis by simp
  next
    case (Inr g)
    from assms Inr obtain found w1 where f: "findNodeByCRDUID E g (mn_UID m) w0 = Ret (found, w1)"
      by (auto simp: handleManagedNode_def Let_def)
    then have w1: "writes w1 = writes w" using w0 by (simp add: trace_findNode)
    show ?thesis
    proof (cases found)
      case (Inl e)
      with assms Inr f obtain st e' T2 where
        "handle_missing_node E key m (gset (mn_UID m) (generateKey K m) (fst T), snd T) a w1
           = Ret (((st, e'), T2), a', w')"
        by (auto simp: handleManagedNode_def Let_def)
      from missing_node_writes [OF this] w1 show ?thesis by simp
    next
      case (Inr p)
      with assms \<open>getNodeGroup (mn_Nodegroup m) a = Inr g\<close> f w1 show ?thesis
        by (auto simp: handleManagedNode_def Let_def)
    qed
  qed
qed

text \<open>C16: Handling a managed node writes at most one status, and only along the transitions of the state machine of its status codes.\<close>

theorem managed_status_transitions:
  assumes "handleManagedNode E K key T a w = Ret (((recycled, err), T'), a', w')"
    and "getManagedNodeFromKey E K key w = (Inr m, w0)"
  shows "\<exists>sts. status_writes (trace w') = sts @ status_writes (trace w) \<and> length sts \<le> 1 \<and>
    (\<forall>s \<in> set sts. status_step (ms_Code (mn_Status m)) (ms_Code s))"
  using assms by (rule handle_writes)

text \<open>The sample: a resource of the group of the sample, with a new name for each machine.\<close>

definition sample_managed :: "string \<Rightarrow> managed_node" where
  "sample_managed t = sample_managed_node\<lparr>mn_InstanceType := t, mn_Labels := [''tier=gold'']\<rparr>"

definition managed_env :: "string \<Rightarrow> env" where
  "managed_env t = quiet_env\<lparr>ans_managed := \<lambda>_. Inr (sample_managed t)\<rparr>"

lemma managed_lookup:
  "getManagedNodeFromKey (managed_env t) sample_codec ''m1'' w
    = (Inr (sample_managed t), w\<lparr>trace := Api (ManagedNodesListerGet ''m1'') # trace w\<rparr>)"
  by (simp add: getManagedNodeFromKey_def sample_codec_def managed_env_def wask_def ask_def)

theorem managed_status_transitions_witness:
  "\<exists>T a w st. handleManagedNode (managed_env ''t'') sample_codec ''m1'' (gmake, gmake) grown_app empty_world
      = Ret (((False, None), T), a, w) \<and>
    status_writes (trace w) = [st] \<and> ms_Code st = StatusManagedNodeCreation \<and> status_step 0 (ms_Code st)"
proof -
  have "yields (\<lambda>(((r, e), T), a, w). \<not> r \<and> Option.is_none e \<and>
      map ms_Code (status_writes (trace w)) = [StatusManagedNodeCreation])
    (handleManagedNode (managed_env ''t'') sample_codec ''m1'' (gmake, gmake) grown_app empty_world)"
    by code_simp
  then obtain T a w st where r: "handleManagedNode (managed_env ''t'') sample_codec ''m1'' (gmake, gmake)
      grown_app empty_world = Ret (((False, None), T), a, w)"
    "status_writes (trace w) = [st]" "ms_Code st = StatusManagedNodeCreation"
    by (auto simp: yields_iff Option.is_none_def)
  have "ms_Code (mn_Status (sample_managed ''t'')) = 0"
    by (simp add: sample_managed_def sample_managed_node_def)
  with managed_status_transitions [OF r(1) managed_lookup] r(2)
  have "status_step 0 (ms_Code st)" by (auto simp: empty_world_def)
  with r show ?thesis by blast
qed

section \<open>The limits of the cluster\<close>

definition within_limits :: "resource_limiter \<Rightarrow> machine \<Rightarrow> knode list \<Rightarrow> bool" where
  "within_limits l m nodes \<longleftrightarrow>
     int (length nodes) + 1 \<le> GetMaxValue l ResourceNameNodes 32 \<and>
     Vcpu m + sum_list (map k_Cpu nodes) \<le> GetMaxValue l ResourceNameCores 128 \<and>
     Memory_mb m + sum_list (map k_Memory nodes) \<le> GetMaxValue64 l ResourceNameMemory (1024 * 1024 * 1024)"

lemma checkLimits_nice:
  assumes "ans_nodes E (Api NodesListerList # trace w) = Inr nodes" "ResourceLimiter a = Some l"
  shows "\<exists>r. checkRessourceLimits E m a w = Ret (r, w\<lparr>trace := Api NodesListerList # trace w\<rparr>) \<and>
    (r = LimitsNice \<longleftrightarrow> within_limits l m nodes)"
  using assms by (auto simp: checkRessourceLimits_def Let_def wask_def ask_def within_limits_def)

text \<open>
  A resource whose machine would break the limits of the cluster: nothing is created and no call
  reaches the cloud. The handler flags the resource as one to try again, but it returns no error,
  and the round only queues again what came with an error: the key is dropped.
\<close>

text \<open>C17: A managed node that would break the resource limits creates no machine; it is marked as recyclable, but as no error is returned the worker does not queue its key again.\<close>

theorem over_limit_creates_nothing:
  assumes "getManagedNodeFromKey E K key w = (Inr m, w0)" "gget (Groups a) (mn_Nodegroup m) = Some g"
    and "findNodeByCRDUID E g (mn_UID m) w0 = Ret (Inl e, w1)" "needs_creation (mn_Status m)"
    and "gget (app_machines a) (mn_InstanceType m) = Some spec"
    and "ans_nodes E (Api NodesListerList # trace w1) = Inr nodes" "ResourceLimiter a = Some l"
    and "\<not> within_limits l spec nodes"
  shows "\<exists>T' w'. handleManagedNode E K key T a w = Ret (((True, None), T'), a, w') \<and> snd T' = snd T \<and>
    heap w' = heap w1 \<and> process_item E K key ((T, recycled), a, w) = Ret ((T', recycled), a, w')"
proof -
  from checkLimits_nice [OF assms(6,7), of spec] assms(8) obtain r where
    limits: "checkRessourceLimits E spec a w1 = Ret (r, w1\<lparr>trace := Api NodesListerList # trace w1\<rparr>)"
    "r \<noteq> LimitsNice" by blast
  let ?T = "(gset (mn_UID m) (generateKey K m) (fst T), snd T)"
  have heap: "heap (event k r msg w) = heap w" for k r msg w by (simp add: event_def note_call_def)
  have "\<exists>st w2. create_managed E key m ?T a w1 = Ret (((st, None), ?T), a, w2) \<and> heap w2 = heap w1 \<and>
      ms_Code st = StatusManagedNodeNiceLimitReached"
    using limits assms(5) by (auto simp: create_managed_def getMachineType_def Let_def heap)
  then obtain st w2 where c: "create_managed E key m ?T a w1 = Ret (((st, None), ?T), a, w2)"
    "heap w2 = heap w1" "ms_Code st = StatusManagedNodeNiceLimitReached" by blast
  have heap_update: "heap (snd (updateManagedNodeStatus E m st w2)) = heap w2"
    by (auto simp: updateManagedNodeStatus_def Let_def wask_def ask_def split: prod.splits sum.splits)
  have "handleManagedNode E K key T a w = Ret (((True, None), ?T), a, write_status E m st w2)"
    using assms(1-4) c by (simp add: handleManagedNode_def getNodeGroup_def handle_missing_node_def recyclable_def Let_def)
  moreover have "heap (write_status E m st w2) = heap w1"
    using heap_update c(2) by (simp add: write_status_def)
  ultimately show ?thesis by (simp add: process_item_def)
qed

text \<open>The sample: a server that allows no node at all.\<close>

definition full_app :: app where
  "full_app = grown_app\<lparr>ResourceLimiter :=
     Some \<lparr>MinLimits = gmake, MaxLimits = Some [(ResourceNameNodes, 0)]\<rparr>\<rparr>"

theorem over_limit_creates_nothing_witness:
  "\<exists>T w. process_item (managed_env ''t'') sample_codec ''m1'' (((gmake, gmake), []), full_app, empty_world)
     = Ret ((T, []), full_app, w) \<and> snd T = gmake"
proof -
  let ?E = "managed_env ''t''"
  define w0 where "w0 = empty_world\<lparr>trace := [Api (ManagedNodesListerGet ''m1'')]\<rparr>"
  have l: "getManagedNodeFromKey ?E sample_codec ''m1'' empty_world = (Inr (sample_managed ''t''), w0)"
    by (simp add: managed_lookup w0_def empty_world_def)
  have g: "gget (Groups full_app) (mn_Nodegroup (sample_managed ''t'')) = Some sample_group"
    by (simp add: full_app_def grown_app_def sample_managed_def sample_managed_node_def gget_def)
  have "yields (\<lambda>(r, w). isl r) (findNodeByCRDUID ?E sample_group ''u1'' (empty_world\<lparr>trace := [Api (ManagedNodesListerGet ''m1'')]\<rparr>))"
    by code_simp
  then obtain e w1 where f: "findNodeByCRDUID ?E sample_group (mn_UID (sample_managed ''t'')) w0 = Ret (Inl e, w1)"
    by (auto simp: yields_iff isl_def w0_def sample_managed_def sample_managed_node_def)
  have rest: "needs_creation (mn_Status (sample_managed ''t''))"
    "gget (app_machines full_app) (mn_InstanceType (sample_managed ''t'')) = Some sample_machine"
    "ans_nodes ?E (Api NodesListerList # trace w1) = Inr []"
    "ResourceLimiter full_app = Some \<lparr>MinLimits = gmake, MaxLimits = Some [(ResourceNameNodes, 0)]\<rparr>"
    "\<not> within_limits \<lparr>MinLimits = gmake, MaxLimits = Some [(ResourceNameNodes, 0)]\<rparr> sample_machine []"
    by (simp_all add: needs_creation_def sample_managed_def sample_managed_node_def status_codes full_app_def
        grown_app_def sample_app_def gget_def managed_env_def quiet_env_def sample_env_def within_limits_def
        GetMaxValue_def)
  from over_limit_creates_nothing [OF l g f rest, of "(gmake, gmake)" "[]"] show ?thesis
    by (metis snd_conv)
qed

text \<open>
  A resource without instance type: its group would supply one (\<^verbatim>\<open>addManagedNode\<close> falls back to the
  type of the group), but the controller looks the empty name up first and gives up.
\<close>

theorem empty_instance_type_rejected:
  assumes "getManagedNodeFromKey E K key w = (Inr m, w0)" "gget (Groups a) (mn_Nodegroup m) = Some g"
    and "findNodeByCRDUID E g (mn_UID m) w0 = Ret (Inl e, w1)" "needs_creation (mn_Status m)"
    and "mn_InstanceType m = []" "gget (app_machines a) [] = None"
  shows "\<exists>T' w' st. handleManagedNode E K key T a w = Ret (((False, None), T'), a, w') \<and> snd T' = snd T \<and>
    w' = write_status E m st (event EventTypeWarning ErrorEvent (ms_Message st) w1) \<and>
    ms_Code st = StatusManagedNodeInstanceTypeNotRegistred"
  using assms
  by (simp add: handleManagedNode_def getNodeGroup_def handle_missing_node_def create_managed_def
      getMachineType_def recyclable_def status_codes Let_def) (rule exI, rule conjI, rule refl, simp)

theorem empty_instance_type_rejected_witness:
  "\<exists>T a w1 st. handleManagedNode (managed_env []) sample_codec ''m1'' (gmake, gmake) grown_app empty_world
      = Ret (((False, None), T), a, write_status (managed_env []) (sample_managed []) st w1) \<and>
    ms_Code st = StatusManagedNodeInstanceTypeNotRegistred \<and> gget (group_machines sample_group) (InstanceType sample_group) \<noteq> None"
proof -
  let ?E = "managed_env ''''"
  define w0 where "w0 = empty_world\<lparr>trace := [Api (ManagedNodesListerGet ''m1'')]\<rparr>"
  have l: "getManagedNodeFromKey ?E sample_codec ''m1'' empty_world = (Inr (sample_managed ''''), w0)"
    by (simp add: managed_lookup w0_def empty_world_def)
  have g: "gget (Groups grown_app) (mn_Nodegroup (sample_managed '''')) = Some sample_group"
    by (simp add: grown_app_def sample_managed_def sample_managed_node_def gget_def)
  have "yields (\<lambda>(r, w). isl r) (findNodeByCRDUID ?E sample_group ''u1'' (empty_world\<lparr>trace := [Api (ManagedNodesListerGet ''m1'')]\<rparr>))"
    by code_simp
  then obtain e w1 where f: "findNodeByCRDUID ?E sample_group (mn_UID (sample_managed '''')) w0 = Ret (Inl e, w1)"
    by (auto simp: yields_iff isl_def w0_def sample_managed_def sample_managed_node_def)
  have rest: "needs_creation (mn_Status (sample_managed ''''))" "mn_InstanceType (sample_managed '''') = []"
    "gget (app_machines grown_app) [] = None"
    by (simp_all add: needs_creation_def sample_managed_def sample_managed_node_def status_codes
        grown_app_def sample_app_def gget_def)
  have known: "gget (group_machines sample_group) (InstanceType sample_group) \<noteq> None"
    by (simp add: sample_group_defs gget_def)
  obtain T' w' and st :: managed_node_status where c: "handleManagedNode ?E sample_codec ''m1'' (gmake, gmake) grown_app empty_world
      = Ret (((False, None), T'), grown_app, w')"
    "w' = write_status ?E (sample_managed []) st (event EventTypeWarning ErrorEvent (ms_Message st) w1)"
    "ms_Code st = StatusManagedNodeInstanceTypeNotRegistred"
    using empty_instance_type_rejected [OF l g f rest, of "(gmake, gmake)"] by (elim exE conjE) (rule that)
  show ?thesis
    by (intro exI conjI, rule c(1) [unfolded c(2)], rule c(3), rule known)
qed

section \<open>Deletions\<close>

lemma findNode_sound:
  assumes "findNodeByCRDUID E g uid w = Ret (Inr p, w')"
  shows "heap w' = heap w \<and> p \<in> set (gvals (Nodes g)) \<union> set (gvals (pendingNodes g)) \<and>
    (\<exists>n. heap w p = Some n \<and> CRDUID n = uid)"
proof -
  obtain ps w1 where ps: "AllNodes E g w = (ps, w1)" by fastforce
  then have w1: "heap w1 = heap w" and set: "set ps = set (gvals (Nodes g)) \<union> set (gvals (pendingNodes g))"
    by (auto simp: AllNodes_def Values_def iterate_def Let_def)
  let ?f = "\<lambda>p found. if found \<noteq> None then Ret found
      else gbind (load p w1) (\<lambda>n. Ret (if CRDUID n = uid then Some p else None))"
  let ?I = "\<lambda>found. \<forall>p. found = Some p \<longrightarrow> p \<in> set ps \<and> (\<exists>n. heap w1 p = Some n \<and> CRDUID n = uid)"
  have "holds ?I (gfold ?f ps None)"
    by (rule gfold_holds) (auto simp: load_def split: option.splits)
  moreover have "gfold ?f ps None = Ret (Some p)" "w' = w1"
    using assms ps by (auto simp: findNodeByCRDUID_def split: option.splits)
  ultimately show ?thesis using w1 set by auto
qed

text \<open>
  When a resource is deleted, its machine is deleted and the group forgets it, unless it is a
  control plane node, which stays as it is.
\<close>

text \<open>C18: Deleting a managed node runs the deletion of the machine that carries its UID, which is deleted when that reports no error, drops the entry under the instance name of that machine and no other from its group, marks its index as deleted and saves the state, unless the machine is a control plane node, which stays with its group unchanged.\<close>

theorem deleteManagedNode_outcome:
  assumes "deleteManagedNode E m a w = Ret (a', w')" "gget (Groups a) (mn_Nodegroup m) = Some g"
    and "findNodeByCRDUID E g (mn_UID m) w = Ret (Inr p, w1)"
  shows "\<exists>n g'. heap w p = Some n \<and> CRDUID n = mn_UID m \<and> a' = put_group (mn_Nodegroup m) g' a \<and>
    (if ControlPlaneNode n then g' = g \<and> syncState E a' w1 = Ret w'
     else (\<exists>err w2 n'. run_vm (deleteVM E) p w1 = Ret (err, w2) \<and> syncState E a' w2 = Ret w' \<and>
         heap w2 p = Some n' \<and> (err = None \<longrightarrow> State n' = Deleted)) \<and>
       findNamedNode g' (InstanceName n) = None \<and>
       gget (RunningNodes g') (NodeIndex n) = Some ServerNodeStateDeleted \<and>
       (\<forall>name. name \<noteq> InstanceName n \<longrightarrow> findNamedNode g' name = findNamedNode g name))"
proof -
  from findNode_sound [OF assms(3)] obtain n where n: "heap w1 p = Some n" "heap w p = Some n" "CRDUID n = mn_UID m"
    by auto
  from assms obtain err g' w2 where d: "deleteNode E p g w1 = Ret (err, g', w2)"
    and a': "a' = put_group (mn_Nodegroup m) g' a" and sync: "syncState E a' w2 = Ret w'"
    by (auto simp: deleteManagedNode_def delete_owned_def getNodeGroup_def on_group_def)
  from deleteNode_effect [OF d n(1)] a' n sync show ?thesis
    by (intro exI [of _ n] exI [of _ g']) (auto split: if_splits)
qed

definition owned_world :: world where
  "owned_world = pair_world\<lparr>heap := (heap pair_world)(0 \<mapsto> sample_node\<lparr>CRDUID := ''u1''\<rparr>)\<rparr>"

theorem deleteManagedNode_outcome_witness:
  "\<exists>a g w. deleteManagedNode sample_env (sample_managed ''t'') pending_app owned_world
      = Ret (put_group ''g'' g a, w) \<and> findNamedNode g (InstanceName sample_node) = None"
proof -
  have "yields (\<lambda>(r, w). r = Inr 0) (findNodeByCRDUID sample_env pending_pair ''u1'' owned_world)"
    by code_simp
  then obtain w1 where f: "findNodeByCRDUID sample_env pending_pair (mn_UID (sample_managed ''t'')) owned_world
      = Ret (Inr 0, w1)"
    by (auto simp: yields_iff sample_managed_def sample_managed_node_def)
  have "yields (\<lambda>(a, w). True) (deleteManagedNode sample_env (sample_managed ''t'') pending_app owned_world)"
    by code_simp
  then obtain a w where d: "deleteManagedNode sample_env (sample_managed ''t'') pending_app owned_world = Ret (a, w)"
    by (auto simp: yields_iff)
  have g: "gget (Groups pending_app) (mn_Nodegroup (sample_managed ''t'')) = Some pending_pair"
    by (simp add: pending_app_def sample_managed_def sample_managed_node_def gget_def)
  have grp: "mn_Nodegroup (sample_managed ''t'') = ''g''" by (simp add: sample_managed_def sample_managed_node_def)
  have "heap owned_world 0 = Some (sample_node\<lparr>CRDUID := ''u1''\<rparr>)" "\<not> ControlPlaneNode sample_node"
    by (simp_all add: owned_world_def sample_node_def)
  then have "\<exists>g'. a = put_group ''g'' g' pending_app \<and> findNamedNode g' (InstanceName sample_node) = None"
    using deleteManagedNode_outcome [OF d g f] grp by auto
  with d show ?thesis by blast
qed

text \<open>
  An event about a node deletes nothing as long as the cluster knows the node that the resource
  names: the only calls are the two that look them up.
\<close>

theorem handleNode_spares_known_nodes:
  assumes "informer_node obj = Some k" "GetControllerOf (k_Owners k) = Some ref" "o_Kind ref = CRDKind"
    and "getManagedNodeFromKey E K (o_Name ref) w = (Inr m, w1)"
    and "ans_node E (Client (GetNode (ms_NodeName (mn_Status m))) # trace w1) = Inr k'"
  shows "handleNode E K obj a w
    = Ret (a, w1\<lparr>trace := Client (GetNode (ms_NodeName (mn_Status m))) # trace w1\<rparr>)"
  using assms by (simp add: handleNode_def wask_def ask_def)

theorem handleNode_spares_known_nodes_witness:
  "\<exists>w. handleNode (managed_env ''t'') sample_codec
      (NodeObject (sample_knode\<lparr>k_Owners := [newControllerRef (sample_managed ''t'')]\<rparr>)) pending_app pair_world
    = Ret (pending_app, w)"
proof -
  let ?k = "sample_knode\<lparr>k_Owners := [newControllerRef (sample_managed ''t'')]\<rparr>"
  have r: "informer_node (NodeObject ?k) = Some ?k"
    "GetControllerOf (k_Owners ?k) = Some (newControllerRef (sample_managed ''t''))"
    "o_Kind (newControllerRef (sample_managed ''t'')) = CRDKind"
    by (simp_all add: GetControllerOf_def newControllerRef_def)
  have l: "getManagedNodeFromKey (managed_env ''t'') sample_codec (o_Name (newControllerRef (sample_managed ''t''))) w
    = (Inr (sample_managed ''t''), w\<lparr>trace := Api (ManagedNodesListerGet ''m1'') # trace w\<rparr>)" for w
    by (simp add: newControllerRef_def sample_managed_def sample_managed_node_def getManagedNodeFromKey_def
        sample_codec_def managed_env_def wask_def ask_def)
  have n: "ans_node (managed_env ''t'') h = Inr sample_knode" for h
    by (simp add: managed_env_def quiet_env_def sample_env_def)
  show ?thesis using handleNode_spares_known_nodes [OF r l n] by blast
qed

end
