(* ===== verification/Cluster_Client.thy ===== *)
theory Cluster_Client
  imports Samples
begin

text \<open>
  Model of \<^verbatim>\<open>client/client.go\<close> and \<^verbatim>\<open>client/podfilters.go\<close>: the client of the Kubernetes API behind
  the interface \<^verbatim>\<open>ClientGenerator\<close>. The requests to the API server are values of type \<open>kube_call\<close>; the
  state is the client with the list of the requests made so far, newest first; the API
  server and the clock are an arbitrary \<open>kube_env\<close>. The goroutines that evict the pods of a node
  run one after the other, in an order the environment chooses.
\<close>

section \<open>Objects of the API\<close>

record condition =
  cond_Type :: string
  cond_Status :: string
  cond_Heartbeat :: string
  cond_Transition :: string
  cond_Reason :: string
  cond_Message :: string

record cluster_node = knode +
  k_Unschedulable :: bool
  k_ProviderID :: string
  k_Conditions :: "condition list"

text \<open>Of the volumes of a pod only whether each is an \<^verbatim>\<open>emptyDir\<close> matters.\<close>

record pod =
  p_Namespace :: string
  p_Name :: string
  p_UID :: string
  p_Annotations :: labels
  p_Owners :: "owner_ref list"
  p_EmptyDirs :: "bool list"
  p_Phase :: string
  p_GracePeriod :: "int option"

section \<open>Requests and answers\<close>

datatype kube_call =
    KBuildConfig
  | KNewClientset
  | KNewNodeManagerClientset
  | KNewApiExtensionClientset
  | KPoll
  | KNow
  | KNodeGet string
  | KNodesList
  | KNodeUpdate cluster_node
  | KNodeUpdateStatus cluster_node
  | KNodePatchProviderID string string
  | KNodeDelete string
  | KPodsList string
  | KPodGet string string
  | KPodEvict string string int
  | KEvictionStart string string
  | KDeadline
  | KDaemonSetGet string string
  | KStatefulSetGet string string
  | KSecretGet string string
  | KSecretDelete string string

type_synonym kube_calls = "kube_call list"

text \<open>
  \<open>kans_node\<close> and \<open>kans_pod\<close> give the pointer and the error that a request returns. \<open>kretries\<close> is the
  number of further attempts a loop gets before it is stopped, \<open>kexpired\<close> tells whether the
  deadline of a drain comes before the next result, \<open>korder\<close> the order in which evictions finish.
\<close>

record kube_env =
  kans_err :: "kube_calls \<Rightarrow> error option"
  kans_node :: "kube_calls \<Rightarrow> cluster_node option \<times> error option"
  kans_nodes :: "kube_calls \<Rightarrow> error + cluster_node list"
  kans_pod :: "kube_calls \<Rightarrow> pod option \<times> error option"
  kans_pods :: "kube_calls \<Rightarrow> error + pod list"
  kans_secret :: "kube_calls \<Rightarrow> error + string"
  kans_time :: "kube_calls \<Rightarrow> string"
  kretries :: "kube_calls \<Rightarrow> nat"
  kexpired :: "kube_calls \<Rightarrow> bool"
  korder :: "kube_calls \<Rightarrow> nat \<Rightarrow> nat list"

section \<open>The client\<close>

text \<open>Durations are in nanoseconds. A clientset is the nil interface or not.\<close>

record singletonClientGenerator =
  cl_KubeConfig :: string
  cl_APIServerURL :: string
  RequestTimeout :: int
  DeletionTimeout :: int
  MaxGracePeriod :: int
  NodeReadyTimeout :: int
  kubeClient :: bool
  nodeManagerClientset :: bool
  apiExtensionClient :: bool
  kubeOnce :: bool  \<comment> \<open>whether the once has been done\<close>

type_synonym kube_state = "singletonClientGenerator \<times> kube_calls"
type_synonym 'a kube_result = "('a \<times> kube_state) go"

definition NewClientGenerator :: "string \<Rightarrow> string \<Rightarrow> int \<Rightarrow> int \<Rightarrow> int \<Rightarrow> int \<Rightarrow> singletonClientGenerator" where
  "NewClientGenerator config url request ready deletion grace =
     \<lparr>cl_KubeConfig = config, cl_APIServerURL = url, RequestTimeout = request, DeletionTimeout = deletion,
      MaxGracePeriod = grace, NodeReadyTimeout = ready, kubeClient = False, nodeManagerClientset = False,
      apiExtensionClient = False, kubeOnce = False\<rparr>"

definition kask :: "(kube_calls \<Rightarrow> 'a) \<Rightarrow> kube_call \<Rightarrow> kube_state \<Rightarrow> 'a \<times> kube_state" where
  "kask answer c s = (answer (c # snd s), fst s, c # snd s)"

text \<open>The clientsets that could be created, up to the first failure.\<close>

definition newKubeClient :: "kube_env \<Rightarrow> kube_state \<Rightarrow> ((bool \<times> bool \<times> bool) \<times> error option) \<times> kube_state" where
  "newKubeClient E s =
     (let (err, s) = kask (kans_err E) KBuildConfig s
      in if err \<noteq> None then (((False, False, False), err), s)
         else let (err, s) = kask (kans_err E) KNewClientset s
      in if err \<noteq> None then (((False, False, False), err), s)
         else let (err, s) = kask (kans_err E) KNewNodeManagerClientset s
      in if err \<noteq> None then (((True, False, False), err), s)
         else let (err, s) = kask (kans_err E) KNewApiExtensionClientset s
      in if err \<noteq> None then (((True, True, False), err), s) else (((True, True, True), None), s))"

text \<open>The body of \<^verbatim>\<open>kubeOnce.Do\<close> runs once; the error is a local variable of the caller.\<close>

definition kube_once :: "kube_env \<Rightarrow> kube_state \<Rightarrow> error option \<times> kube_state" where
  "kube_once E s =
     (if kubeOnce (fst s) then (None, s)
      else let (((k, m, a), err), c, h) = newKubeClient E s
           in (err, c\<lparr>kubeOnce := True, kubeClient := k, nodeManagerClientset := m, apiExtensionClient := a\<rparr>, h))"

definition KubeClient :: "kube_env \<Rightarrow> kube_state \<Rightarrow> (bool \<times> error option) \<times> kube_state" where
  "KubeClient E s = (let (err, s) = kube_once E s in ((kubeClient (fst s), err), s))"

definition NodeManagerClient_clientset :: "kube_env \<Rightarrow> kube_state \<Rightarrow> (bool \<times> error option) \<times> kube_state" where
  "NodeManagerClient_clientset E s = (let (err, s) = kube_once E s in ((nodeManagerClientset (fst s), err), s))"

definition ApiExtentionClient_clientset :: "kube_env \<Rightarrow> kube_state \<Rightarrow> (bool \<times> error option) \<times> kube_state" where
  "ApiExtentionClient_clientset E s = (let (err, s) = kube_once E s in ((apiExtensionClient (fst s), err), s))"

text \<open>
  The opening of the operations: an error of \<^verbatim>\<open>KubeClient\<close> is returned, and the first request
  through a nil clientset panics.
\<close>

definition with_kube :: "kube_env \<Rightarrow> (error \<Rightarrow> 'a) \<Rightarrow> (kube_state \<Rightarrow> 'a kube_result) \<Rightarrow> kube_state \<Rightarrow> 'a kube_result" where
  "with_kube E failed body s =
     (let ((client, err), s) = KubeClient E s
      in case err of
           Some e \<Rightarrow> Ret (failed e, s)
         | None \<Rightarrow> if client then body s else Panic NilDeref)"

section \<open>Polling\<close>

text \<open>
  \<^verbatim>\<open>context.PollImmediate\<close> with a condition that may panic. With timeout 0 the loop only ends by its
  condition; a negative timeout has expired before the second attempt.
\<close>

primrec gpoll ::
  "nat \<Rightarrow> bool \<Rightarrow> 'e \<Rightarrow> ('s \<Rightarrow> ((bool \<times> 'e option) \<times> 's) go) \<Rightarrow> 's \<Rightarrow> ('e option \<times> 's) go" where
  "gpoll 0 forever timeout_err cond s = (if forever then Diverge else Ret (Some timeout_err, s))"
| "gpoll (Suc k) forever timeout_err cond s =
     gbind (cond s) (\<lambda>((finished, err), s).
       if err \<noteq> None then Ret (err, s)
       else if finished then Ret (None, s)
       else gpoll k forever timeout_err cond s)"

definition kube_PollImmediate ::
  "kube_env \<Rightarrow> int \<Rightarrow> (kube_state \<Rightarrow> (bool \<times> error option) kube_result) \<Rightarrow> kube_state \<Rightarrow> error option kube_result" where
  "kube_PollImmediate E timeout cond s =
     (let (n, s) = kask (kretries E) KPoll s
      in gpoll (if timeout < 0 then 1 else Suc n) (timeout = 0) timeout_error cond s)"

definition second :: int where
  "second = 1000000000"

text \<open>
  The loops that cordon a node, mark it, or set its provider identifier multiply the timeout, which
  is a duration already, by a second; the product wraps around.
\<close>

definition scaled_timeout :: "singletonClientGenerator \<Rightarrow> int" where
  "scaled_timeout c = wrap64 (RequestTimeout c * second)"

definition DefaultMaxRequestTimeout :: int where
  "DefaultMaxRequestTimeout = 120 * second"

section \<open>Reading and deleting objects\<close>

definition client_NodeList :: "kube_env \<Rightarrow> kube_state \<Rightarrow> (error + cluster_node list) kube_result" where
  "client_NodeList E = with_kube E Inl (\<lambda>s. Ret (kask (kans_nodes E) KNodesList s))"

definition client_GetNode :: "kube_env \<Rightarrow> string \<Rightarrow> kube_state \<Rightarrow> (cluster_node option \<times> error option) kube_result" where
  "client_GetNode E nodeName =
     with_kube E (\<lambda>e. (None, Some e)) (\<lambda>s. Ret (kask (kans_node E) (KNodeGet nodeName) s))"

definition client_DeleteNode :: "kube_env \<Rightarrow> string \<Rightarrow> kube_state \<Rightarrow> error option kube_result" where
  "client_DeleteNode E nodeName = with_kube E Some (\<lambda>s. Ret (kask (kans_err E) (KNodeDelete nodeName) s))"

definition client_GetSecret :: "kube_env \<Rightarrow> string \<Rightarrow> string \<Rightarrow> kube_state \<Rightarrow> (error + string) kube_result" where
  "client_GetSecret E secretName namespace =
     with_kube E Inl (\<lambda>s. Ret (kask (kans_secret E) (KSecretGet namespace secretName) s))"

definition client_DeleteSecret :: "kube_env \<Rightarrow> string \<Rightarrow> string \<Rightarrow> kube_state \<Rightarrow> error option kube_result" where
  "client_DeleteSecret E secretName namespace =
     with_kube E Some (\<lambda>s. Ret (kask (kans_err E) (KSecretDelete namespace secretName) s))"

section \<open>Changing a node\<close>

text \<open>
  The condition of the loops that change a node: read it, then unless \<open>change\<close> says that nothing is
  to be done, request the change. An error of the read ends the loop, one of the change does not.
\<close>

definition attempt_change ::
  "kube_env \<Rightarrow> string \<Rightarrow> (cluster_node \<Rightarrow> kube_call option) \<Rightarrow> kube_state \<Rightarrow> (bool \<times> error option) kube_result" where
  "attempt_change E nodeName change =
     with_kube E (\<lambda>e. (False, Some e)) (\<lambda>s.
       let ((node, err), s) = kask (kans_node E) (KNodeGet nodeName) s
       in if err \<noteq> None then Ret ((False, err), s)
          else case node of
                 None \<Rightarrow> Panic NilDeref
               | Some n \<Rightarrow> (case change n of
                     None \<Rightarrow> Ret ((True, None), s)
                   | Some c \<Rightarrow> let (err, s) = kask (kans_err E) c s in Ret ((err = None, None), s)))"

definition cordonOrUncordonNode :: "kube_env \<Rightarrow> string \<Rightarrow> bool \<Rightarrow> kube_state \<Rightarrow> error option kube_result" where
  "cordonOrUncordonNode E nodeName flag s =
     kube_PollImmediate E (scaled_timeout (fst s))
       (attempt_change E nodeName (\<lambda>n.
          if k_Unschedulable n = flag then None else Some (KNodeUpdate (n\<lparr>k_Unschedulable := flag\<rparr>)))) s"

definition client_UncordonNode :: "kube_env \<Rightarrow> string \<Rightarrow> kube_state \<Rightarrow> error option kube_result" where
  "client_UncordonNode E nodeName = cordonOrUncordonNode E nodeName False"

definition client_CordonNode :: "kube_env \<Rightarrow> string \<Rightarrow> kube_state \<Rightarrow> error option kube_result" where
  "client_CordonNode E nodeName = cordonOrUncordonNode E nodeName True"

definition client_SetProviderID :: "kube_env \<Rightarrow> string \<Rightarrow> string \<Rightarrow> kube_state \<Rightarrow> error option kube_result" where
  "client_SetProviderID E nodeName providerID s =
     kube_PollImmediate E (scaled_timeout (fst s))
       (attempt_change E nodeName (\<lambda>n.
          if k_ProviderID n = providerID then None else Some (KNodePatchProviderID nodeName providerID))) s"

text \<open>\<open>len(m) == 0\<close> replaces the map, else the entries are written over it.\<close>

definition merge_into :: "labels \<Rightarrow> labels \<Rightarrow> labels" where
  "merge_into new old = (if glen old = 0 then new else gmerge new old)"

definition client_AnnoteNode :: "kube_env \<Rightarrow> string \<Rightarrow> labels \<Rightarrow> kube_state \<Rightarrow> error option kube_result" where
  "client_AnnoteNode E nodeName annotations s =
     kube_PollImmediate E (RequestTimeout (fst s))
       (attempt_change E nodeName (\<lambda>n.
          Some (KNodeUpdate (n\<lparr>k_Annotations := merge_into annotations (k_Annotations n)\<rparr>)))) s"

definition client_LabelNode :: "kube_env \<Rightarrow> string \<Rightarrow> labels \<Rightarrow> kube_state \<Rightarrow> error option kube_result" where
  "client_LabelNode E nodeName labels s =
     kube_PollImmediate E (RequestTimeout (fst s))
       (attempt_change E nodeName (\<lambda>n.
          Some (KNodeUpdate (n\<lparr>k_Labels := merge_into labels (k_Labels n)\<rparr>)))) s"

text \<open>The position of the first taint with a key.\<close>

fun containTaint :: "string \<Rightarrow> taint list \<Rightarrow> nat option" where
  "containTaint key [] = None"
| "containTaint key (t # ts) = (if taint_Key t = key then Some 0 else map_option Suc (containTaint key ts))"

text \<open>A taint whose key is present replaces it; the others are appended after the loop.\<close>

definition merge_taint :: "taint \<Rightarrow> taint list \<times> taint list \<Rightarrow> taint list \<times> taint list" where
  "merge_taint t s =
     (let (old, merged) = s
      in case containTaint (taint_Key t) old of
           Some i \<Rightarrow> (old[i := t], merged)
         | None \<Rightarrow> (old, merged @ [t]))"

definition merge_taints :: "taint list \<Rightarrow> taint list \<Rightarrow> taint list" where
  "merge_taints taints old = (let (old, merged) = fold merge_taint taints (old, []) in old @ merged)"

definition client_TaintNode :: "kube_env \<Rightarrow> string \<Rightarrow> taint list \<Rightarrow> kube_state \<Rightarrow> error option kube_result" where
  "client_TaintNode E nodeName taints s =
     kube_PollImmediate E (RequestTimeout (fst s))
       (attempt_change E nodeName (\<lambda>n.
          Some (KNodeUpdate (n\<lparr>k_Taints := merge_taints taints (k_Taints n)\<rparr>)))) s"

definition conditionDrainedScheduled :: string where
  "conditionDrainedScheduled = ''DrainScheduled''"

text \<open>The condition is updated in place, or appended.\<close>

fun schedule_drain :: "string \<Rightarrow> condition list \<Rightarrow> condition list" where
  "schedule_drain now [] =
     [\<lparr>cond_Type = conditionDrainedScheduled, cond_Status = ''True'', cond_Heartbeat = now, cond_Transition = now,
       cond_Reason = ''Draino'', cond_Message = ''Drain activity scheduled '' @ now\<rparr>]"
| "schedule_drain now (c # cs) =
     (if cond_Type c = conditionDrainedScheduled
      then c\<lparr>cond_Heartbeat := now, cond_Message := ''Drain activity scheduled '' @ now, cond_Status := ''True''\<rparr> # cs
      else c # schedule_drain now cs)"

text \<open>A node that is not found does not end the loop: whatever the request returned is updated.\<close>

definition mark_attempt :: "kube_env \<Rightarrow> string \<Rightarrow> kube_state \<Rightarrow> (bool \<times> error option) kube_result" where
  "mark_attempt E nodeName =
     with_kube E (\<lambda>e. (False, Some e)) (\<lambda>s.
       let (now, s) = kask (kans_time E) KNow s;
           ((node, err), s) = kask (kans_node E) (KNodeGet nodeName) s
       in if err \<noteq> None \<and> \<not> IsNotFound err then Ret ((False, err), s)
          else case node of
                 None \<Rightarrow> Panic NilDeref
               | Some n \<Rightarrow>
                   let (err, s) = kask (kans_err E)
                         (KNodeUpdateStatus (n\<lparr>k_Conditions := schedule_drain now (k_Conditions n)\<rparr>)) s
                   in Ret ((err = None, None), s))"

definition client_MarkDrainNode :: "kube_env \<Rightarrow> string \<Rightarrow> kube_state \<Rightarrow> error option kube_result" where
  "client_MarkDrainNode E nodeName s =
     kube_PollImmediate E (scaled_timeout (fst s)) (mark_attempt E nodeName) s"

section \<open>Waiting for a node\<close>

definition is_ready :: "cluster_node \<Rightarrow> bool" where
  "is_ready n \<longleftrightarrow> list_ex (\<lambda>c. cond_Type c = ''Ready'' \<and> ParseBool (cond_Status c) = (True, True)) (k_Conditions n)"

definition ready_attempt :: "kube_env \<Rightarrow> string \<Rightarrow> kube_state \<Rightarrow> (bool \<times> error option) kube_result" where
  "ready_attempt E nodeName s =
     (let ((node, err), s) = kask (kans_node E) (KNodeGet nodeName) s
      in if err \<noteq> None then Ret ((False, err), s)
         else case node of None \<Rightarrow> Panic NilDeref | Some n \<Rightarrow> Ret ((is_ready n, None), s))"

definition client_WaitNodeToBeReady :: "kube_env \<Rightarrow> string \<Rightarrow> kube_state \<Rightarrow> error option kube_result" where
  "client_WaitNodeToBeReady E nodeName =
     with_kube E Some (\<lambda>s.
       gbind (kube_PollImmediate E (NodeReadyTimeout (fst s)) (ready_attempt E nodeName) s) (\<lambda>(err, s).
         Ret (if err = None then None else Some (Errorf ErrNodeIsNotReady [nodeName]), s)))"

section \<open>Evicting pods\<close>

fun IsTooManyRequests :: "error option \<Rightarrow> bool" where
  "IsTooManyRequests (Some (ApiTooManyRequests s)) = True"
| "IsTooManyRequests _ = False"

definition deletion_attempt :: "kube_env \<Rightarrow> pod \<Rightarrow> kube_state \<Rightarrow> (bool \<times> error option) kube_result" where
  "deletion_attempt E p s =
     (let ((got, err), s) = kask (kans_pod E) (KPodGet (p_Namespace p) (p_Name p)) s
      in if IsNotFound err then Ret ((True, None), s)
         else case err of
                Some e \<Rightarrow> Ret ((False, Some (Errorf ErrUndefinedPod [p_Namespace p, p_Name p, err_text e])), s)
              | None \<Rightarrow> (case got of
                    None \<Rightarrow> Panic NilDeref
                  | Some q \<Rightarrow> Ret ((p_UID q \<noteq> p_UID p, None), s)))"

definition awaitDeletion :: "kube_env \<Rightarrow> pod \<Rightarrow> int \<Rightarrow> kube_state \<Rightarrow> error option kube_result" where
  "awaitDeletion E p timeout =
     with_kube E Some (kube_PollImmediate E timeout (deletion_attempt E p))"

text \<open>A 429 means that the pod cannot be evicted now: the loop goes on until it is aborted.\<close>

primrec evict_loop :: "kube_env \<Rightarrow> pod \<Rightarrow> int \<Rightarrow> nat \<Rightarrow> kube_state \<Rightarrow> error option kube_result" where
  "evict_loop E p gracePeriod 0 s = Ret (Some (Plain ErrPodEvictionAborted), s)"
| "evict_loop E p gracePeriod (Suc k) s =
     (let (err, s) = kask (kans_err E) (KPodEvict (p_Namespace p) (p_Name p) gracePeriod) s
      in if IsTooManyRequests err then evict_loop E p gracePeriod k s
         else if IsNotFound err then Ret (None, s)
         else case err of
                Some e \<Rightarrow> Ret (Some (Errorf ErrCannotEvictPod [p_Namespace p, p_Name p, err_text e]), s)
              | None \<Rightarrow> gbind (awaitDeletion E p (DeletionTimeout (fst s)) s) (\<lambda>(err, s).
                  Ret (case err of
                         Some e \<Rightarrow> Some (Errorf ErrUnableToConfirmPodEviction [p_Namespace p, p_Name p, err_text e])
                       | None \<Rightarrow> None, s)))"

definition grace_period :: "singletonClientGenerator \<Rightarrow> pod \<Rightarrow> int" where
  "grace_period c p =
     (let gracePeriod = godiv (MaxGracePeriod c) second
      in case p_GracePeriod p of
           Some own \<Rightarrow> if own < gracePeriod then own else gracePeriod
         | None \<Rightarrow> gracePeriod)"

text \<open>The number of attempts that start before the abort is seen is the choice of the environment.\<close>

definition evictPod :: "kube_env \<Rightarrow> pod \<Rightarrow> kube_state \<Rightarrow> error option kube_result" where
  "evictPod E p s =
     (let gracePeriod = grace_period (fst s) p
      in with_kube E Some (\<lambda>s.
           let (tries, s) = kask (kretries E) (KEvictionStart (p_Namespace p) (p_Name p)) s
           in evict_loop E p gracePeriod tries s) s)"

section \<open>Pod filters\<close>

type_synonym pod_filter = "pod \<Rightarrow> kube_state \<Rightarrow> (bool \<times> error option) kube_result"

definition MirrorPodAnnotationKey :: string where
  "MirrorPodAnnotationKey = ''kubernetes.io/config.mirror''"

definition MirrorPodFilter :: pod_filter where
  "MirrorPodFilter p s = Ret ((gget (p_Annotations p) MirrorPodAnnotationKey = None, None), s)"

definition LocalStoragePodFilter :: pod_filter where
  "LocalStoragePodFilter p s = Ret ((\<not> list_ex (\<lambda>e. e) (p_EmptyDirs p), None), s)"

definition UnreplicatedPodFilter :: pod_filter where
  "UnreplicatedPodFilter p s =
     (if p_Phase p = ''Succeeded'' \<or> p_Phase p = ''Failed'' then Ret ((True, None), s)
      else if GetControllerOf (p_Owners p) = None then Ret ((False, None), s)
      else Ret ((True, None), s))"

definition kindDaemonSet :: string where
  "kindDaemonSet = ''DaemonSet''"

definition kindStatefulSet :: string where
  "kindStatefulSet = ''StatefulSet''"

text \<open>The filter of the pods of a controller that still exists; \<open>client\<close> is the clientset it captured.\<close>

definition controller_filter ::
  "string \<Rightarrow> (string \<Rightarrow> string \<Rightarrow> kube_call) \<Rightarrow> string \<Rightarrow> kube_env \<Rightarrow> bool \<Rightarrow> pod_filter" where
  "controller_filter kind request format E client p s =
     (case GetControllerOf (p_Owners p) of
        None \<Rightarrow> Ret ((True, None), s)
      | Some c \<Rightarrow>
          if o_Kind c \<noteq> kind then Ret ((True, None), s)
          else if \<not> client then Panic NilDeref
          else let (err, s) = kask (kans_err E) (request (p_Namespace p) (o_Name c)) s
               in case err of
                    None \<Rightarrow> Ret ((False, None), s)
                  | Some e \<Rightarrow>
                      if IsNotFound err then Ret ((True, None), s)
                      else Ret ((False, Some (Errorf format [p_Namespace p, o_Name c, err_text e])), s))"

definition NewDaemonSetPodFilter :: "kube_env \<Rightarrow> bool \<Rightarrow> pod_filter" where
  "NewDaemonSetPodFilter =
     controller_filter kindDaemonSet KDaemonSetGet ''cannot get DaemonSet %s/%s, reason: %v''"

definition NewStatefulSetPodFilter :: "kube_env \<Rightarrow> bool \<Rightarrow> pod_filter" where
  "NewStatefulSetPodFilter =
     controller_filter kindStatefulSet KStatefulSetGet ''cannot get StatefulSet %s/%s, reason: %v''"

text \<open>\<open>SplitN\<close> at the first equal sign.\<close>

definition protected_by :: "string \<Rightarrow> pod \<Rightarrow> bool" where
  "protected_by annot p =
     (let key = takeWhile (\<lambda>c. c \<noteq> CHR ''='') annot
      in if CHR ''='' \<notin> set annot then gget (p_Annotations p) key \<noteq> None
         else gget (p_Annotations p) key = Some (tl (dropWhile (\<lambda>c. c \<noteq> CHR ''='') annot)))"

definition UnprotectedPodFilter :: "string list \<Rightarrow> pod_filter" where
  "UnprotectedPodFilter annotations p s = Ret ((\<not> list_ex (\<lambda>a. protected_by a p) annotations, None), s)"

fun NewPodFilters :: "pod_filter list \<Rightarrow> pod_filter" where
  "NewPodFilters [] p s = Ret ((True, None), s)"
| "NewPodFilters (f # fs) p s =
     gbind (f p s) (\<lambda>((passes, err), s).
       case err of
         Some e \<Rightarrow> Ret ((False, Some (Errorf ''cannot apply filters, reason: %v'' [err_text e])), s)
       | None \<Rightarrow> if \<not> passes then Ret ((False, None), s) else NewPodFilters fs p s)"

section \<open>Listing and draining\<close>

fun filter_pods :: "pod_filter \<Rightarrow> pod list \<Rightarrow> pod list \<Rightarrow> kube_state \<Rightarrow> (error + pod list) kube_result" where
  "filter_pods podFilter [] included s = Ret (Inr included, s)"
| "filter_pods podFilter (p # ps) included s =
     gbind (podFilter p s) (\<lambda>((passes, err), s).
       case err of
         Some e \<Rightarrow> Ret (Inl (Errorf ''cannot filter pods, reason: %v'' [err_text e]), s)
       | None \<Rightarrow> filter_pods podFilter ps (if passes then included @ [p] else included) s)"

definition PodList :: "kube_env \<Rightarrow> string \<Rightarrow> pod_filter \<Rightarrow> kube_state \<Rightarrow> (error + pod list) kube_result" where
  "PodList E nodeName podFilter =
     with_kube E Inl (\<lambda>s.
       let (pods, s) = kask (kans_pods E) (KPodsList nodeName) s
       in case pods of
            Inl e \<Rightarrow> Ret (Inl (Errorf ErrPodListReturnError [nodeName, err_text e]), s)
          | Inr items \<Rightarrow> filter_pods podFilter items [] s)"

text \<open>
  Each turn waits for the next result or the deadline. After the first error or the deadline the
  other goroutines are aborted: they still run, for as many attempts as the environment grants,
  and their results are dropped.
\<close>

fun drain_pods :: "kube_env \<Rightarrow> string \<Rightarrow> pod list \<Rightarrow> error option \<Rightarrow> kube_state \<Rightarrow> error option kube_result" where
  "drain_pods E nodeName [] result s = Ret (result, s)"
| "drain_pods E nodeName (p # ps) result s =
     gbind (evictPod E p s) (\<lambda>(err, s).
       let (expired, s) = kask (kexpired E) KDeadline s;
           result = (if result \<noteq> None then result
                     else if expired then Some (Errorf ErrTimeoutWhenWaitingEvictions [nodeName])
                     else case err of
                            Some e \<Rightarrow> Some (Errorf ErrUnableEvictAllPodsOnNode [nodeName, err_text e])
                          | None \<Rightarrow> None)
       in drain_pods E nodeName ps result s)"

definition drain_filters :: "kube_env \<Rightarrow> bool \<Rightarrow> bool \<Rightarrow> bool \<Rightarrow> pod_filter list" where
  "drain_filters E client ignoreDaemonSet deleteLocalData =
     [MirrorPodFilter] @ (if ignoreDaemonSet then [NewDaemonSetPodFilter E client] else [])
       @ (if \<not> deleteLocalData then [LocalStoragePodFilter] else [])"

text \<open>The filter captures the clientset before \<^verbatim>\<open>PodList\<close> has had a chance to create it.\<close>

definition client_DrainNode :: "kube_env \<Rightarrow> string \<Rightarrow> bool \<Rightarrow> bool \<Rightarrow> kube_state \<Rightarrow> error option kube_result" where
  "client_DrainNode E nodeName ignoreDaemonSet deleteLocalData s =
     gbind (PodList E nodeName (NewPodFilters (drain_filters E (kubeClient (fst s)) ignoreDaemonSet deleteLocalData)) s)
       (\<lambda>(pods, s). case pods of
          Inl e \<Rightarrow> Ret (Some (Errorf ErrUnableToGetPodListOnNode [nodeName, err_text e]), s)
        | Inr pods \<Rightarrow> drain_pods E nodeName (reorder (korder E (snd s)) pods) None s)"

end
