(* ===== verification/Cluster_Client_Facts.thy ===== *)
theory Cluster_Client_Facts
  imports Cluster_Client
begin

text \<open>
  Properties of the client of the Kubernetes API: what a success of its operations means in terms
  of the requests and of their answers, which pods a drain evicts, and two ways in which the
  client does not do what it is written for: the retries of its loops, and the use of the client after
  a failed connection.
\<close>

section \<open>Requests and loops\<close>

lemma kask_eq [simp]: "kask f c s = (f (c # snd s), fst s, c # snd s)"
  by (simp add: kask_def)

lemma gpoll_success:
  "gpoll k forever te cond s = Ret (None, s') \<Longrightarrow> \<exists>t. cond t = Ret ((True, None), s')"
proof (induction k arbitrary: s)
  case 0
  then show ?case by (simp split: if_splits)
next
  case (Suc k)
  then show ?case by (fastforce split: if_splits)
qed

lemma gpoll_holds:
  assumes "\<And>s. I s \<Longrightarrow> holds (\<lambda>(r, s'). I s') (cond s)" and "I s"
  shows "holds (\<lambda>(e, s'). I s') (gpoll k forever te cond s)"
  using assms(2)
proof (induction k arbitrary: s)
  case (Suc k)
  from assms(1) [OF Suc.prems] have "holds (\<lambda>(r, s'). I s') (cond s)" .
  then show ?case by (cases "cond s") (auto intro: Suc.IH)
qed simp

lemma poll_success:
  "kube_PollImmediate E timeout cond s = Ret (None, s') \<Longrightarrow> \<exists>t. cond t = Ret ((True, None), s')"
  by (auto simp: kube_PollImmediate_def Let_def dest!: gpoll_success)

lemma poll_holds:
  assumes "\<And>s. I s \<Longrightarrow> holds (\<lambda>(r, s'). I s') (cond s)" and "I (fst s, KPoll # snd s)"
  shows "holds (\<lambda>(e, s'). I s') (kube_PollImmediate E timeout cond s)"
  by (simp add: kube_PollImmediate_def Let_def gpoll_holds [OF assms] split del: if_split)

lemma poll_panics:
  "cond (fst s, KPoll # snd s) = Panic p \<Longrightarrow> kube_PollImmediate E timeout cond s = Panic p"
  by (simp add: kube_PollImmediate_def Let_def)

text \<open>The new requests of an operation extend the ones made before; the client only connects.\<close>

definition kframe :: "kube_state \<Rightarrow> kube_state \<Rightarrow> bool" where
  "kframe s s' \<longleftrightarrow> (\<exists>new. snd s' = new @ snd s) \<and>
     MaxGracePeriod (fst s') = MaxGracePeriod (fst s) \<and> RequestTimeout (fst s') = RequestTimeout (fst s)"

lemma kframe_refl [simp, intro]: "kframe s s"
  by (simp add: kframe_def)

lemma kframe_trans: "kframe s t \<Longrightarrow> kframe t u \<Longrightarrow> kframe s u"
  by (force simp: kframe_def)

lemma kframe_ask [intro]: "kframe s (c, h) \<Longrightarrow> kframe s (c, x # h)"
  by (auto simp: kframe_def)

lemma kframe_ask_fst [intro]: "kframe s t \<Longrightarrow> kframe s (fst t, x # snd t)"
  by (auto simp: kframe_def)

lemma kube_once_frame: "kube_once E s = (err, s') \<Longrightarrow> kframe s s'"
  by (auto simp: kube_once_def newKubeClient_def kframe_def Let_def split: if_splits)

lemma KubeClient_frame: "KubeClient E s = (r, s') \<Longrightarrow> kframe s s'"
  by (auto simp: KubeClient_def Let_def split: prod.splits dest: kube_once_frame)

lemma with_kube_cases:
  assumes "with_kube E failed body s = Ret (r, s')"
  obtains (failed) e where "r = failed e" "kframe s s'"
  | (ready) t where "kframe s t" "kubeClient (fst t)" "body t = Ret (r, s')"
  using assms
  by (auto simp: with_kube_def Let_def KubeClient_def split: option.splits prod.splits if_splits
      dest: kube_once_frame)

lemma with_kube_holds:
  assumes "\<And>t. kframe s t \<Longrightarrow> holds Q (body t)" "\<And>e t. kframe s t \<Longrightarrow> Q (failed e, t)"
  shows "holds Q (with_kube E failed body s)"
  using assms
  by (auto simp: with_kube_def Let_def KubeClient_def split: option.splits prod.splits
      dest: kube_once_frame)

section \<open>The lost client\<close>

text \<open>The client after the only attempt to connect has failed.\<close>

definition lost :: "singletonClientGenerator \<Rightarrow> bool" where
  "lost c \<longleftrightarrow> kubeOnce c \<and> \<not> kubeClient c"

lemma lost_panics: "lost (fst s) \<Longrightarrow> with_kube E failed body s = Panic NilDeref"
  by (simp add: with_kube_def KubeClient_def kube_once_def lost_def)

text \<open>Every operation of the client that sends a request to the API server panics.\<close>

definition panics_always :: "kube_state \<Rightarrow> bool" where
  "panics_always s \<longleftrightarrow> (\<forall>E node id labels annotations taints secret namespace ignore keep.
     client_NodeList E s = Panic NilDeref \<and> client_GetNode E node s = Panic NilDeref \<and>
     client_DeleteNode E node s = Panic NilDeref \<and> client_CordonNode E node s = Panic NilDeref \<and>
     client_UncordonNode E node s = Panic NilDeref \<and> client_SetProviderID E node id s = Panic NilDeref \<and>
     client_AnnoteNode E node annotations s = Panic NilDeref \<and> client_LabelNode E node labels s = Panic NilDeref \<and>
     client_TaintNode E node taints s = Panic NilDeref \<and> client_MarkDrainNode E node s = Panic NilDeref \<and>
     client_DrainNode E node ignore keep s = Panic NilDeref \<and> client_WaitNodeToBeReady E node s = Panic NilDeref \<and>
     client_GetSecret E secret namespace s = Panic NilDeref \<and> client_DeleteSecret E secret namespace s = Panic NilDeref)"

lemma lost_panics_always:
  assumes "lost (fst s)"
  shows "panics_always s"
proof -
  have change: "lost (fst t) \<Longrightarrow> attempt_change E n f t = Panic NilDeref" for E n f t
    by (simp add: attempt_change_def lost_panics)
  have mark: "lost (fst t) \<Longrightarrow> mark_attempt E n t = Panic NilDeref" for E n t
    by (simp add: mark_attempt_def lost_panics)
  show ?thesis
    unfolding panics_always_def
    by (intro allI conjI)
      (simp_all add: client_NodeList_def client_GetNode_def client_DeleteNode_def client_CordonNode_def client_UncordonNode_def
        cordonOrUncordonNode_def client_SetProviderID_def client_AnnoteNode_def client_LabelNode_def client_TaintNode_def
        client_MarkDrainNode_def client_DrainNode_def PodList_def client_WaitNodeToBeReady_def client_GetSecret_def
        client_DeleteSecret_def lost_panics poll_panics change mark assms)
qed


section \<open>Changing a node\<close>

lemma change_success:
  assumes "kube_PollImmediate E timeout (attempt_change E name change) s = Ret (None, s')"
  shows "\<exists>n h. kans_node E (KNodeGet name # h) = (Some n, None) \<and>
    (case change n of
       None \<Rightarrow> snd s' = KNodeGet name # h
     | Some c \<Rightarrow> snd s' = c # KNodeGet name # h \<and> kans_err E (snd s') = None)"
proof -
  from poll_success [OF assms] obtain t where "attempt_change E name change t = Ret ((True, None), s')" ..
  then obtain u where u:
    "(let ((node, err), s) = kask (kans_node E) (KNodeGet name) u
       in if err \<noteq> None then Ret ((False, err), s)
          else case node of
                 None \<Rightarrow> Panic NilDeref
               | Some n \<Rightarrow> (case change n of
                     None \<Rightarrow> Ret ((True, None), s)
                   | Some c \<Rightarrow> let (err, s) = kask (kans_err E) c s in Ret ((err = None, None), s))) = Ret ((True, None), s')"
    unfolding attempt_change_def by (rule with_kube_cases) auto
  obtain node err where r: "kans_node E (KNodeGet name # snd u) = (node, err)" by fastforce
  with u obtain n where "node = Some n" "err = None"
    by (auto simp: Let_def split: option.splits if_splits)
  with u r show ?thesis
    by (intro exI [of _ n] exI [of _ "snd u"]) (auto simp: Let_def split: option.splits)
qed

lemma update_success:
  assumes "kube_PollImmediate E timeout (attempt_change E name (\<lambda>n. Some (KNodeUpdate (f n)))) s = Ret (None, s')"
  obtains n h where "kans_node E (KNodeGet name # h) = (Some n, None)"
    "snd s' = KNodeUpdate (f n) # KNodeGet name # h" "kans_err E (snd s') = None"
  using change_success [OF assms] by auto

lemma merge_into_lookup:
  assumes "gwf new"
  shows "gget (merge_into new old) key = (case gget new key of Some v \<Rightarrow> Some v | None \<Rightarrow> gget old key)"
proof (cases "glen old = 0")
  case True
  then have "gget old key = None" using gm.keys_lookup [of key old] by (simp add: glen_0_iff)
  with True show ?thesis by (simp add: merge_into_def split: option.splits)
qed (simp add: merge_into_def gget_gmerge [OF assms])

text \<open>
  An operation that writes labels or annotations and reports success has ended with one accepted
  update of the node it had just read, with the new entries over the old ones.
\<close>

theorem AnnoteNode_success:
  assumes "client_AnnoteNode E name annotations s = Ret (None, s')" "gwf annotations"
  shows "\<exists>n h m. kans_node E (KNodeGet name # h) = (Some n, None) \<and>
    snd s' = KNodeUpdate (n\<lparr>k_Annotations := m\<rparr>) # KNodeGet name # h \<and> kans_err E (snd s') = None \<and>
    (\<forall>key. gget m key = (case gget annotations key of Some v \<Rightarrow> Some v | None \<Rightarrow> gget (k_Annotations n) key))"
proof -
  obtain n h where "kans_node E (KNodeGet name # h) = (Some n, None)"
    "snd s' = KNodeUpdate (n\<lparr>k_Annotations := merge_into annotations (k_Annotations n)\<rparr>) # KNodeGet name # h"
    "kans_err E (snd s') = None"
    using assms(1) unfolding client_AnnoteNode_def by (rule update_success)
  then show ?thesis
    using merge_into_lookup [OF assms(2)] by blast
qed

section \<open>Taints\<close>

lemma containTaint_None [simp]: "containTaint key ts = None \<longleftrightarrow> key \<notin> taint_Key ` set ts"
  by (induction ts) auto

lemma containTaint_Some:
  "containTaint key ts = Some i \<Longrightarrow> i < length ts \<and> taint_Key (ts ! i) = key"
  by (induction ts arbitrary: i) (auto split: if_splits)

text \<open>Tables of taints with distinct keys, as the map from a key to its taint.\<close>

lemma keys_replace:
  assumes "containTaint (taint_Key t) ts = Some i"
  shows "map taint_Key (ts[i := t]) = map taint_Key ts"
  using containTaint_Some [OF assms] by (metis list_update_id map_update nth_map)

lemma merge_taint_simps:
  "containTaint (taint_Key t) old = None \<Longrightarrow> merge_taint t (old, merged) = (old, merged @ [t])"
  "containTaint (taint_Key t) old = Some i \<Longrightarrow> merge_taint t (old, merged) = (old[i := t], merged)"
  by (simp_all add: merge_taint_def del: containTaint_None)

text \<open>The taint that replaces one with its key, if there is one.\<close>

definition replaced :: "taint list \<Rightarrow> taint \<Rightarrow> taint" where
  "replaced taints t = (case find (\<lambda>new. taint_Key new = taint_Key t) taints of Some new \<Rightarrow> new | None \<Rightarrow> t)"

lemma replaced_key [simp]: "taint_Key (replaced taints t) = taint_Key t"
  by (auto simp: replaced_def find_Some_iff split: option.split)

lemma replaced_simps [simp]:
  "replaced [] t = t"
  "replaced (new # taints) t = (if taint_Key new = taint_Key t then new else replaced taints t)"
  by (simp_all add: replaced_def)

lemma replaced_other: "taint_Key t \<notin> taint_Key ` set taints \<Longrightarrow> replaced taints t = t"
  by (induction taints) auto

lemma replace_one:
  assumes "containTaint (taint_Key t) ts = Some i" "distinct (map taint_Key ts)"
  shows "ts[i := t] = map (\<lambda>x. if taint_Key t = taint_Key x then t else x) ts"
  using assms
proof (induction ts arbitrary: i)
  case (Cons x xs)
  show ?case
  proof (cases "taint_Key x = taint_Key t")
    case True
    then have "\<forall>y\<in>set xs. taint_Key t \<noteq> taint_Key y" using Cons.prems(2) by (metis distinct.simps(2) image_eqI list.set_map list.simps(9))
    then have "map (\<lambda>x. if taint_Key t = taint_Key x then t else x) xs = xs" by (intro map_idI) auto
    with True Cons.prems(1) show ?thesis by auto
  next
    case False
    with Cons.prems(1) obtain j where "containTaint (taint_Key t) xs = Some j" "i = Suc j" by auto
    with Cons.IH [of j] Cons.prems(2) False show ?thesis by simp
  qed
qed simp

lemma merge_taint_fold:
  assumes "distinct (map taint_Key taints)" "distinct (map taint_Key old)"
  shows "fold merge_taint taints (old, merged) =
    (map (replaced taints) old, merged @ filter (\<lambda>t. taint_Key t \<notin> taint_Key ` set old) taints)"
  using assms
proof (induction taints arbitrary: old merged)
  case (Cons t ts)
  then have rest: "distinct (map taint_Key ts)" "taint_Key t \<notin> taint_Key ` set ts" by auto
  show ?case
  proof (cases "containTaint (taint_Key t) old")
    case None
    then have new: "taint_Key t \<notin> taint_Key ` set old" by simp
    then have "map (replaced (t # ts)) old = map (replaced ts) old" by (intro map_cong) auto
    with Cons.IH [OF rest(1) Cons.prems(2), of "merged @ [t]"] merge_taint_simps(1) [OF None] new show ?thesis by simp
  next
    case (Some i)
    let ?old = "old[i := t]"
    have keys: "map taint_Key ?old = map taint_Key old" by (rule keys_replace [OF Some])
    then have sets: "taint_Key ` set ?old = taint_Key ` set old" by (metis list.set_map)
    have "taint_Key t \<in> taint_Key ` set old" using Some containTaint_None [of "taint_Key t" old] by force
    moreover have "map (replaced ts) ?old = map (replaced (t # ts)) old"
      unfolding replace_one [OF Some Cons.prems(2)] map_map using replaced_other [OF rest(2)] by (intro map_cong) auto
    moreover have "fold merge_taint ts (?old, merged) =
        (map (replaced ts) ?old, merged @ filter (\<lambda>t. taint_Key t \<notin> taint_Key ` set ?old) ts)"
      using Cons.prems(2) by (intro Cons.IH rest(1)) (simp only: keys)
    ultimately show ?thesis using merge_taint_simps(2) [OF Some] by (simp only: fold_simps sets) simp
  qed
qed (simp add: map_idI)

text \<open>
  After a merge of taints with distinct keys each of the old taints is in its place, replaced when a new one has its
  key; the new taints with other keys follow.
\<close>

lemma merge_taints_result:
  assumes "distinct (map taint_Key taints)" "distinct (map taint_Key old)"
  shows "merge_taints taints old = map (replaced taints) old @ filter (\<lambda>t. taint_Key t \<notin> taint_Key ` set old) taints"
    and "distinct (map taint_Key (merge_taints taints old))"
proof -
  show r: "merge_taints taints old = map (replaced taints) old @ filter (\<lambda>t. taint_Key t \<notin> taint_Key ` set old) taints"
    using merge_taint_fold [OF assms, of "[]"] by (simp add: merge_taints_def)
  have "distinct (map taint_Key (filter P taints))" for P using assms(1) by (rule distinct_map_filter)
  moreover have keys: "map taint_Key (map (replaced taints) old) = map taint_Key old" by simp
  ultimately show "distinct (map taint_Key (merge_taints taints old))"
    unfolding r map_append distinct_append keys using assms(2) by (auto simp: image_iff)
qed

text \<open>C21: Tainting a node, with new taints of which no two share a key, when it reports success, has ended with one accepted update of the node just read. When no two of the taints the node had share a key either, the update carries exactly the taints it had, each replaced by the new one of its key when there is one, followed by the new taints whose keys it did not have, and no key is doubled.\<close>

theorem TaintNode_success:
  assumes "client_TaintNode E name taints s = Ret (None, s')" "distinct (map taint_Key taints)"
  shows "\<exists>n h ts. kans_node E (KNodeGet name # h) = (Some n, None) \<and>
    snd s' = KNodeUpdate (n\<lparr>k_Taints := ts\<rparr>) # KNodeGet name # h \<and> kans_err E (snd s') = None \<and>
    (distinct (map taint_Key (k_Taints n)) \<longrightarrow>
       ts = map (\<lambda>t. case find (\<lambda>new. taint_Key new = taint_Key t) taints of Some new \<Rightarrow> new | None \<Rightarrow> t) (k_Taints n) @
            filter (\<lambda>t. taint_Key t \<notin> taint_Key ` set (k_Taints n)) taints \<and>
       distinct (map taint_Key ts))"
proof -
  obtain n h where "kans_node E (KNodeGet name # h) = (Some n, None)"
    "snd s' = KNodeUpdate (n\<lparr>k_Taints := merge_taints taints (k_Taints n)\<rparr>) # KNodeGet name # h"
    "kans_err E (snd s') = None"
    using assms(1) unfolding client_TaintNode_def by (rule update_success)
  then show ?thesis
    using merge_taints_result [OF assms(2)] unfolding replaced_def
    by (intro exI [of _ n] exI [of _ h] exI [of _ "merge_taints taints (k_Taints n)"]) simp
qed

section \<open>Evictions\<close>

text \<open>The requests of an operation, with a condition on the evictions among them.\<close>

definition kevicts :: "(string \<Rightarrow> string \<Rightarrow> int \<Rightarrow> bool) \<Rightarrow> kube_state \<Rightarrow> kube_state \<Rightarrow> bool" where
  "kevicts P s s' \<longleftrightarrow> kframe s s' \<and>
     (\<exists>new. snd s' = new @ snd s \<and> (\<forall>ns n g. KPodEvict ns n g \<in> set new \<longrightarrow> P ns n g))"

lemma kevicts_refl [simp, intro]: "kevicts P s s"
  by (simp add: kevicts_def)

lemma kevicts_trans: "kevicts P s t \<Longrightarrow> kevicts P t u \<Longrightarrow> kevicts P s u"
  by (fastforce simp: kevicts_def intro: kframe_trans)

lemma kevicts_mono: "kevicts P s t \<Longrightarrow> (\<And>ns n g. P ns n g \<Longrightarrow> Q ns n g) \<Longrightarrow> kevicts Q s t"
  by (fastforce simp: kevicts_def)

lemma kevicts_frame: "kevicts P s t \<Longrightarrow> kframe s t"
  by (simp add: kevicts_def)

lemma kevicts_ask:
  "kevicts P s t \<Longrightarrow> (\<And>ns n g. c = KPodEvict ns n g \<Longrightarrow> P ns n g) \<Longrightarrow> kevicts P s (fst t, c # snd t)"
  unfolding kevicts_def by (auto intro: kframe_ask_fst)

lemma kube_once_evicts: "kube_once E s = (err, s') \<Longrightarrow> kevicts P s s'"
  by (auto simp: kube_once_def newKubeClient_def kevicts_def kframe_def Let_def split: if_splits)

lemma with_kube_evicts:
  assumes "\<And>t. kevicts P s t \<Longrightarrow> holds Q (body t)" "\<And>e t. kevicts P s t \<Longrightarrow> Q (failed e, t)"
  shows "holds Q (with_kube E failed body s)"
  using assms
  by (auto simp: with_kube_def Let_def KubeClient_def split: option.splits prod.splits
      dest: kube_once_evicts [where P = P])

text \<open>A pod is gone: its eviction did not find it, or a later read no longer shows the same pod.\<close>

definition evicted :: "kube_env \<Rightarrow> pod \<Rightarrow> int \<Rightarrow> kube_calls \<Rightarrow> bool" where
  "evicted E p g h \<longleftrightarrow>
     (\<exists>h0. h = KPodEvict (p_Namespace p) (p_Name p) g # h0 \<and> IsNotFound (kans_err E h)) \<or>
     (\<exists>mid h0. h = KPodGet (p_Namespace p) (p_Name p) # mid @ KPodEvict (p_Namespace p) (p_Name p) g # h0 \<and>
        kans_err E (KPodEvict (p_Namespace p) (p_Name p) g # h0) = None \<and>
        (IsNotFound (snd (kans_pod E h)) \<or> (\<exists>q. kans_pod E h = (Some q, None) \<and> p_UID q \<noteq> p_UID p)))"

lemma holds_evicts_trans:
  assumes "kevicts P s t" "holds (\<lambda>(r, s'). kevicts P t s') m"
  shows "holds (\<lambda>(r, s'). kevicts P s s') m"
  using assms(2) by (rule holds_mono) (clarsimp, rule kevicts_trans [OF assms(1)])

lemma holds_evicts_frame:
  assumes "kframe s t" "holds (\<lambda>(r, s'). kevicts P t s') m"
  shows "holds (\<lambda>(r, s'). kframe s s') m"
  using assms(2) by (rule holds_mono) (clarsimp, rule kframe_trans [OF assms(1)], rule kevicts_frame)

text \<open>What a confirmed deletion has seen last.\<close>

lemma deletion_attempt_success:
  assumes "deletion_attempt E p s = Ret ((True, None), s')"
  shows "snd s' = KPodGet (p_Namespace p) (p_Name p) # snd s \<and>
    (IsNotFound (snd (kans_pod E (snd s'))) \<or> (\<exists>q. kans_pod E (snd s') = (Some q, None) \<and> p_UID q \<noteq> p_UID p))"
proof -
  obtain got err where r: "kans_pod E (KPodGet (p_Namespace p) (p_Name p) # snd s) = (got, err)" by fastforce
  from assms r show ?thesis
    by (cases s') (auto simp: deletion_attempt_def kask_eq split: if_splits option.splits)
qed

lemma deletion_attempt_evicts: "holds (\<lambda>(r, s'). kevicts P s s') (deletion_attempt E p s)"
  by (auto simp: deletion_attempt_def kask_eq intro!: kevicts_ask split: option.splits prod.splits)

text \<open>A successful poll reaches its last attempt through states that keep an invariant of the attempts.\<close>

lemma gpoll_success_inv:
  assumes "\<And>s. I s \<Longrightarrow> holds (\<lambda>(r, s'). I s') (cond s)" "I s"
    and "gpoll k forever te cond s = Ret (None, s')"
  shows "\<exists>t. I t \<and> cond t = Ret ((True, None), s')"
  using assms(2,3)
proof (induction k arbitrary: s)
  case 0
  then show ?case by (simp split: if_splits)
next
  case (Suc k)
  then obtain fin err t where c: "cond s = Ret ((fin, err), t)"
    and rest: "(if err \<noteq> None then Ret (err, t) else if fin then Ret (None, t) else gpoll k forever te cond t) = Ret (None, s')"
    by auto
  have "I t" using assms(1) [OF Suc.prems(1)] c by simp
  with Suc c rest show ?case by (fastforce split: if_splits)
qed

lemma poll_success_inv:
  assumes "\<And>s. I s \<Longrightarrow> holds (\<lambda>(r, s'). I s') (cond s)" "I (fst s, KPoll # snd s)"
    and "kube_PollImmediate E timeout cond s = Ret (None, s')"
  shows "\<exists>t. I t \<and> cond t = Ret ((True, None), s')"
  using gpoll_success_inv [where cond = cond, OF assms(1,2)] assms(3)
  by (auto simp: kube_PollImmediate_def Let_def)

lemma awaitDeletion_evicts: "holds (\<lambda>(r, s'). kevicts P s s') (awaitDeletion E p timeout s)"
  unfolding awaitDeletion_def
proof (rule with_kube_evicts)
  fix t assume t: "kevicts P s t"
  show "holds (\<lambda>(r, s'). kevicts P s s') (kube_PollImmediate E timeout (deletion_attempt E p) t)"
  proof (rule poll_holds [where I = "kevicts P s"])
    fix u assume "kevicts P s u"
    then show "holds (\<lambda>(r, s'). kevicts P s s') (deletion_attempt E p u)"
      by (rule holds_evicts_trans) (rule deletion_attempt_evicts)
  next
    show "kevicts P s (fst t, KPoll # snd t)" using t by (rule kevicts_ask) simp
  qed
qed simp

lemma awaitDeletion_success:
  assumes "awaitDeletion E p timeout s = Ret (None, s')"
  shows "\<exists>mid. snd s' = KPodGet (p_Namespace p) (p_Name p) # mid @ snd s \<and>
    (IsNotFound (snd (kans_pod E (snd s'))) \<or> (\<exists>q. kans_pod E (snd s') = (Some q, None) \<and> p_UID q \<noteq> p_UID p))"
proof -
  from assms obtain t where t: "kframe s t" "kube_PollImmediate E timeout (deletion_attempt E p) t = Ret (None, s')"
    unfolding awaitDeletion_def by (rule with_kube_cases) auto
  have "holds (\<lambda>(r, s'). kframe s s') (deletion_attempt E p u)" if "kframe s u" for u
    using that by (rule holds_evicts_frame) (rule deletion_attempt_evicts)
  then obtain u where "kframe s u" "deletion_attempt E p u = Ret ((True, None), s')"
    using poll_success_inv [OF _ _ t(2), of "kframe s"] kframe_ask_fst [OF t(1)] by blast
  with deletion_attempt_success [of E p u s'] show ?thesis
    by (force simp: kframe_def)
qed

lemma evict_loop_success:
  "evict_loop E p g k s = Ret (None, s') \<Longrightarrow> evicted E p g (snd s')"
proof (induction k arbitrary: s)
  case (Suc k)
  let ?h = "KPodEvict (p_Namespace p) (p_Name p) g # snd s"
  show ?case
  proof (cases "IsTooManyRequests (kans_err E ?h)")
    case True
    with Suc show ?thesis by (auto simp: Let_def)
  next
    case many: False
    show ?thesis
    proof (cases "IsNotFound (kans_err E ?h)")
      case True
      with many Suc.prems show ?thesis by (auto simp: evicted_def)
    next
      case False
      with many Suc.prems have ok: "kans_err E ?h = None"
        and "\<exists>timeout. awaitDeletion E p timeout (fst s, ?h) = Ret (None, s')"
        by (auto split: option.splits)
      then obtain mid where "snd s' = KPodGet (p_Namespace p) (p_Name p) # mid @ ?h"
        "IsNotFound (snd (kans_pod E (snd s'))) \<or> (\<exists>q. kans_pod E (snd s') = (Some q, None) \<and> p_UID q \<noteq> p_UID p)"
        using awaitDeletion_success [where s = "(fst s, ?h)" and s' = s'] by (metis snd_conv)
      with ok show ?thesis unfolding evicted_def by blast
    qed
  qed
qed simp

lemma evict_loop_evicts:
  "holds (\<lambda>(r, s'). kevicts (\<lambda>ns n g'. ns = p_Namespace p \<and> n = p_Name p \<and> g' = g) s s') (evict_loop E p g k s)"
  (is "holds (\<lambda>(r, s'). ?K s s') _")
proof (induction k arbitrary: s)
  case (Suc k)
  let ?s = "(fst s, KPodEvict (p_Namespace p) (p_Name p) g # snd s)"
  have step: "?K s ?s" by (rule kevicts_ask) auto
  have "holds (\<lambda>(r, s'). ?K s s') (evict_loop E p g k ?s)"
    using step Suc.IH by (rule holds_evicts_trans)
  moreover have "holds (\<lambda>(r, s'). ?K s s') (awaitDeletion E p timeout ?s)" for timeout
    using step awaitDeletion_evicts by (rule holds_evicts_trans)
  ultimately show ?case using step
    by (simp add: Let_def case_prod_unfold split: option.splits)
qed simp

lemma grace_period_frame: "kframe s t \<Longrightarrow> grace_period (fst t) p = grace_period (fst s) p"
  by (simp add: grace_period_def kframe_def)

lemma evictPod_success:
  "evictPod E p s = Ret (None, s') \<Longrightarrow> evicted E p (grace_period (fst s) p) (snd s')"
  by (auto simp: evictPod_def Let_def elim!: with_kube_cases dest: evict_loop_success)

lemma evictPod_evicts:
  "holds (\<lambda>(r, s'). kevicts (\<lambda>ns n g. ns = p_Namespace p \<and> n = p_Name p \<and> g = grace_period (fst s) p) s s')
     (evictPod E p s)" (is "holds (\<lambda>(r, s'). ?K s s') _")
  unfolding evictPod_def Let_def
proof (rule with_kube_evicts)
  fix t assume "?K s t"
  then have start: "?K s (fst t, KEvictionStart (p_Namespace p) (p_Name p) # snd t)"
    by (rule kevicts_ask) simp
  show "holds (\<lambda>(r, s'). ?K s s')
    (case kask (kretries E) (KEvictionStart (p_Namespace p) (p_Name p)) t of
       (tries, s') \<Rightarrow> evict_loop E p (grace_period (fst s) p) tries s')"
    by (simp add: holds_evicts_trans [OF start evict_loop_evicts])
qed simp

section \<open>Draining\<close>

text \<open>Whether a pod may be evicted, and why a pod is left alone, as far as the answers tell.\<close>

definition without_daemon_set :: "kube_env \<Rightarrow> pod \<Rightarrow> bool" where
  "without_daemon_set E p \<longleftrightarrow> (\<forall>c. GetControllerOf (p_Owners p) = Some c \<and> o_Kind c = ''DaemonSet'' \<longrightarrow>
     (\<exists>h. IsNotFound (kans_err E (KDaemonSetGet (p_Namespace p) (o_Name c) # h))))"

definition with_daemon_set :: "kube_env \<Rightarrow> pod \<Rightarrow> bool" where
  "with_daemon_set E p \<longleftrightarrow> (\<exists>c h. GetControllerOf (p_Owners p) = Some c \<and> o_Kind c = ''DaemonSet'' \<and>
     kans_err E (KDaemonSetGet (p_Namespace p) (o_Name c) # h) = None)"

definition drainable :: "kube_env \<Rightarrow> bool \<Rightarrow> bool \<Rightarrow> pod \<Rightarrow> bool" where
  "drainable E ignoreDaemonSet deleteLocalData p \<longleftrightarrow>
     gget (p_Annotations p) MirrorPodAnnotationKey = None \<and>
     (deleteLocalData \<or> True \<notin> set (p_EmptyDirs p)) \<and> (ignoreDaemonSet \<longrightarrow> without_daemon_set E p)"

definition spared :: "kube_env \<Rightarrow> bool \<Rightarrow> bool \<Rightarrow> pod \<Rightarrow> bool" where
  "spared E ignoreDaemonSet deleteLocalData p \<longleftrightarrow>
     gget (p_Annotations p) MirrorPodAnnotationKey \<noteq> None \<or>
     \<not> deleteLocalData \<and> True \<in> set (p_EmptyDirs p) \<or> ignoreDaemonSet \<and> with_daemon_set E p"

lemma daemon_filter:
  assumes "NewDaemonSetPodFilter E client p s = Ret ((b, err), s')"
  shows "kevicts P s s'" "err = None \<Longrightarrow> b \<Longrightarrow> without_daemon_set E p" "err = None \<Longrightarrow> \<not> b \<Longrightarrow> with_daemon_set E p"
  using assms
  by (auto simp: NewDaemonSetPodFilter_def controller_filter_def kindDaemonSet_def Let_def
      without_daemon_set_def with_daemon_set_def
      intro: kevicts_ask exI [of _ "snd s"] split: option.splits if_splits)

lemma drain_filter_sound:
  assumes "NewPodFilters (drain_filters E client ign del) p s = Ret ((b, None), s')"
  shows "kevicts P s s'" "b \<Longrightarrow> drainable E ign del p" "\<not> b \<Longrightarrow> spared E ign del p"
  using assms
  by (cases ign; cases del;
      auto simp: drain_filters_def MirrorPodFilter_def LocalStoragePodFilter_def drainable_def spared_def
        list_ex_iff split: if_splits option.splits dest: daemon_filter)+

lemma drain_filter_evicts: "holds (\<lambda>(r, s'). kevicts P s s') (NewPodFilters (drain_filters E client ign del) p s)"
  by (rule holdsI, cases ign; cases del)
    (auto simp: drain_filters_def MirrorPodFilter_def LocalStoragePodFilter_def
      split: option.splits if_splits dest: daemon_filter(1))

lemma filter_pods_sound:
  assumes "filter_pods (NewPodFilters (drain_filters E client ign del)) items included s = Ret (r, s')"
  shows "kevicts P s s' \<and> (\<forall>pods. r = Inr pods \<longrightarrow>
    (\<forall>p\<in>set pods. p \<in> set included \<or> p \<in> set items \<and> drainable E ign del p) \<and>
    (\<forall>p\<in>set items. p \<in> set pods \<or> spared E ign del p) \<and> set included \<subseteq> set pods)"
  using assms
proof (induction items arbitrary: included s)
  case (Cons p ps)
  then obtain b err t where f: "NewPodFilters (drain_filters E client ign del) p s = Ret ((b, err), t)"
    and rest: "(case err of Some e \<Rightarrow> Ret (Inl (Errorf ''cannot filter pods, reason: %v'' [err_text e]), t)
       | None \<Rightarrow> filter_pods (NewPodFilters (drain_filters E client ign del)) ps
           (if b then included @ [p] else included) t) = Ret (r, s')"
    by auto
  have st: "kevicts P s t" using drain_filter_evicts [of P s E client ign del p] f by simp
  show ?case
  proof (cases err)
    case (Some e)
    with rest st show ?thesis by auto
  next
    case None
    with f have "if b then drainable E ign del p else spared E ign del p"
      by (auto dest: drain_filter_sound)
    then have pass: "b \<Longrightarrow> drainable E ign del p" "\<not> b \<Longrightarrow> spared E ign del p" by (simp_all split: if_splits)
    from None rest have "filter_pods (NewPodFilters (drain_filters E client ign del)) ps
        (if b then included @ [p] else included) t = Ret (r, s')" by simp
    note ih = Cons.IH [OF this]
    then have "kevicts P s s'" using kevicts_trans [OF st] by blast
    moreover have "(\<forall>q\<in>set pods. q \<in> set included \<or> q \<in> set (p # ps) \<and> drainable E ign del q) \<and>
      (\<forall>q\<in>set (p # ps). q \<in> set pods \<or> spared E ign del q) \<and> set included \<subseteq> set pods"
      if "r = Inr pods" for pods
      using ih that pass by (cases b) auto
    ultimately show ?thesis by blast
  qed
qed auto

text \<open>What \<^verbatim>\<open>PodList\<close> returns to \<^verbatim>\<open>DrainNode\<close>.\<close>

lemma PodList_sound:
  assumes "PodList E name (NewPodFilters (drain_filters E client ign del)) s = Ret (r, s')"
  shows "kevicts P s s'"
    and "r = Inr pods \<Longrightarrow> \<exists>h items. kans_pods E (KPodsList name # h) = Inr items \<and>
      (\<forall>p\<in>set pods. p \<in> set items \<and> drainable E ign del p) \<and>
      (\<forall>p\<in>set items. p \<in> set pods \<or> spared E ign del p)"
proof -
  have "holds (\<lambda>(r, s'). kevicts P s s' \<and> (\<forall>pods. r = Inr pods \<longrightarrow>
      (\<exists>h items. kans_pods E (KPodsList name # h) = Inr items \<and>
      (\<forall>p\<in>set pods. p \<in> set items \<and> drainable E ign del p) \<and>
      (\<forall>p\<in>set items. p \<in> set pods \<or> spared E ign del p))))
    (PodList E name (NewPodFilters (drain_filters E client ign del)) s)" (is "holds ?Q _")
    unfolding PodList_def
  proof (rule with_kube_evicts)
    fix t assume t: "kevicts P s t"
    let ?t = "(fst t, KPodsList name # snd t)"
    have l: "kevicts P s ?t" using t by (rule kevicts_ask) simp
    show "holds ?Q (let (pods, s) = kask (kans_pods E) (KPodsList name) t
       in case pods of
            Inl e \<Rightarrow> Ret (Inl (Errorf ErrPodListReturnError [name, err_text e]), s)
          | Inr items \<Rightarrow> filter_pods (NewPodFilters (drain_filters E client ign del)) items [] s)"
    proof (cases "kans_pods E (KPodsList name # snd t)")
      case (Inl e)
      with l show ?thesis by simp
    next
      case (Inr items)
      have "holds ?Q (filter_pods (NewPodFilters (drain_filters E client ign del)) items [] ?t)"
      proof (rule holdsI)
        fix a assume "filter_pods (NewPodFilters (drain_filters E client ign del)) items [] ?t = Ret a"
        then have "filter_pods (NewPodFilters (drain_filters E client ign del)) items [] ?t = Ret (fst a, snd a)"
          by simp
        from filter_pods_sound [OF this, of P] kevicts_trans [OF l] Inr
        show "?Q a" by (simp add: case_prod_unfold) blast
      qed
      with Inr show ?thesis by simp
    qed
  qed simp
  with assms show "kevicts P s s'"
    and "r = Inr pods \<Longrightarrow> \<exists>h items. kans_pods E (KPodsList name # h) = Inr items \<and>
      (\<forall>p\<in>set pods. p \<in> set items \<and> drainable E ign del p) \<and>
      (\<forall>p\<in>set items. p \<in> set pods \<or> spared E ign del p)"
    by simp_all
qed

text \<open>The evictions of a drain, of the pods of a list and with their grace periods.\<close>

definition evicts_among :: "singletonClientGenerator \<Rightarrow> pod list \<Rightarrow> string \<Rightarrow> string \<Rightarrow> int \<Rightarrow> bool" where
  "evicts_among c pods ns n g \<longleftrightarrow> (\<exists>p\<in>set pods. ns = p_Namespace p \<and> n = p_Name p \<and> g = grace_period c p)"

lemma evicts_among_reorder [simp]: "evicts_among c (reorder f pods) = evicts_among c pods"
  by (intro ext) (simp add: evicts_among_def)

lemma drain_pods_sound:
  assumes "drain_pods E name pods result s = Ret (r, s')"
    "kframe s0 s"
  shows "kevicts (evicts_among (fst s0) pods) s s' \<and> (r = None \<longrightarrow> result = None \<and>
    (\<forall>p\<in>set pods. \<exists>later h. snd s' = later @ h \<and> evicted E p (grace_period (fst s0) p) h))"
  using assms
proof (induction pods arbitrary: result s)
  case (Cons p ps)
  define result' where "result' err t = (if result \<noteq> None then result
     else if kexpired E (KDeadline # snd t) then Some (Errorf ErrTimeoutWhenWaitingEvictions [name])
     else case err of
            Some e \<Rightarrow> Some (Errorf ErrUnableEvictAllPodsOnNode [name, err_text e])
          | None \<Rightarrow> None)" for err and t :: kube_state
  from Cons.prems(1) obtain err t where e: "evictPod E p s = Ret (err, t)"
    and rest: "drain_pods E name ps (result' err t) (fst t, KDeadline # snd t) = Ret (r, s')"
    by (auto simp: Let_def result'_def simp del: Ret_eq_gbind)
  have r': "result' err t = None \<longrightarrow> result = None \<and> err = None"
    by (auto simp: result'_def split: option.splits if_splits)
  let ?t = "(fst t, KDeadline # snd t)"
  have g: "grace_period (fst s) p = grace_period (fst s0) p" by (rule grace_period_frame [OF Cons.prems(2)])
  from evictPod_evicts [of p s E] e
  have "kevicts (\<lambda>ns n g. ns = p_Namespace p \<and> n = p_Name p \<and> g = grace_period (fst s) p) s t" by simp
  then have st: "kevicts (evicts_among (fst s0) (p # ps)) s t"
    by (rule kevicts_mono) (simp add: evicts_among_def g)
  then have stt: "kevicts (evicts_among (fst s0) (p # ps)) s ?t" by (rule kevicts_ask) simp
  from Cons.IH [OF rest kframe_trans [OF Cons.prems(2) kevicts_frame [OF stt]]]
  have ih: "kevicts (evicts_among (fst s0) ps) ?t s'" "r = None \<Longrightarrow> result' err t = None"
    "r = None \<Longrightarrow> \<forall>p\<in>set ps. \<exists>later h. snd s' = later @ h \<and> evicted E p (grace_period (fst s0) p) h"
    by auto
  have "kevicts (evicts_among (fst s0) (p # ps)) ?t s'"
    using ih(1) by (rule kevicts_mono) (auto simp: evicts_among_def)
  with stt have "kevicts (evicts_among (fst s0) (p # ps)) s s'" by (rule kevicts_trans)
  moreover have "\<exists>later h. snd s' = later @ h \<and> evicted E p (grace_period (fst s0) p) h" if "r = None"
  proof -
    from that ih(2) r' e have "evicted E p (grace_period (fst s) p) (snd t)"
      by (auto dest: evictPod_success)
    moreover obtain new where "snd s' = new @ KDeadline # snd t" using ih(1) by (auto simp: kevicts_def)
    ultimately show ?thesis by (metis append.assoc append_Cons append_Nil g)
  qed
  ultimately show ?case using ih(2,3) r' by simp
qed simp

lemma DrainNode_sound:
  assumes "client_DrainNode E name ign del s = Ret (r, s')"
  obtains (failed) "kevicts (\<lambda>_ _ _. False) s s'" "r \<noteq> None"
  | (drained) h items pods where "kans_pods E (KPodsList name # h) = Inr items"
    "\<forall>p\<in>set pods. p \<in> set items \<and> drainable E ign del p"
    "\<forall>p\<in>set items. p \<in> set pods \<or> spared E ign del p"
    "kevicts (evicts_among (fst s) pods) s s'"
    "r = None \<Longrightarrow> \<forall>p\<in>set pods. \<exists>later h. snd s' = later @ h \<and> evicted E p (grace_period (fst s) p) h"
proof -
  from assms obtain listed t
    where l: "PodList E name (NewPodFilters (drain_filters E (kubeClient (fst s)) ign del)) s = Ret (listed, t)"
    and rest: "(case listed of
          Inl e \<Rightarrow> Ret (Some (Errorf ErrUnableToGetPodListOnNode [name, err_text e]), t)
        | Inr pods \<Rightarrow> drain_pods E name (reorder (korder E (snd t)) pods) None t) = Ret (r, s')"
    unfolding client_DrainNode_def by auto
  note st = PodList_sound(1) [OF l, of "\<lambda>_ _ _. False"]
  show thesis
  proof (cases listed)
    case (Inl e)
    with rest st show thesis by (intro failed) auto
  next
    case (Inr pods)
    from PodList_sound(2) [OF l Inr] obtain h items where items: "kans_pods E (KPodsList name # h) = Inr items"
      "\<forall>p\<in>set pods. p \<in> set items \<and> drainable E ign del p"
      "\<forall>p\<in>set items. p \<in> set pods \<or> spared E ign del p" by blast
    from rest Inr have "drain_pods E name (reorder (korder E (snd t)) pods) None t = Ret (r, s')" by simp
    note d = drain_pods_sound [OF this kevicts_frame [OF st]]
    then have "kevicts (evicts_among (fst s) pods) t s'" by simp
    moreover have "kevicts (evicts_among (fst s) pods) s t" using st by (rule kevicts_mono) simp
    ultimately have "kevicts (evicts_among (fst s) pods) s s'" by (rule kevicts_trans [rotated])
    with items d show thesis by (intro drained [of h items pods]) auto
  qed
qed

text \<open>C20: Whatever its outcome, a drain evicts only pods that the API server has listed on the node and that pass the filters: never a mirror pod, never a pod of a DaemonSet that exists when these are ignored, never a pod with local data when these are kept.\<close>

theorem DrainNode_evicts_only:
  assumes "client_DrainNode E name ignoreDaemonSet deleteLocalData s = Ret (r, s')"
  shows "\<exists>new. snd s' = new @ snd s \<and> (\<forall>ns n g. KPodEvict ns n g \<in> set new \<longrightarrow>
    (\<exists>h items p. kans_pods E (KPodsList name # h) = Inr items \<and> p \<in> set items \<and>
       ns = p_Namespace p \<and> n = p_Name p \<and> g = grace_period (fst s) p \<and>
       drainable E ignoreDaemonSet deleteLocalData p))"
  using assms
proof (cases rule: DrainNode_sound)
  case failed
  then show ?thesis by (auto simp: kevicts_def)
next
  case (drained h items pods)
  then obtain new where "snd s' = new @ snd s"
    "\<And>ns n g. KPodEvict ns n g \<in> set new \<Longrightarrow> evicts_among (fst s) pods ns n g"
    by (auto simp: kevicts_def)
  with drained(1,2) show ?thesis
    by (intro exI [of _ new]) (fastforce simp: evicts_among_def)
qed

text \<open>C19: A drain that reports success has left alone only mirror pods, pods of a DaemonSet that exists (when these are ignored) and pods with local data (when these are kept), and has seen every other pod of the node disappear after evicting it with a grace period.\<close>

theorem DrainNode_success:
  assumes "client_DrainNode E name ignoreDaemonSet deleteLocalData s = Ret (None, s')"
  shows "\<exists>h items. kans_pods E (KPodsList name # h) = Inr items \<and>
    (\<forall>p\<in>set items. spared E ignoreDaemonSet deleteLocalData p \<or>
       drainable E ignoreDaemonSet deleteLocalData p \<and>
       (\<exists>later h. snd s' = later @ h \<and> evicted E p (grace_period (fst s) p) h))"
  using assms
proof (cases rule: DrainNode_sound)
  case failed
  then show ?thesis by simp
next
  case (drained h items pods)
  then show ?thesis by (intro exI [of _ h] exI [of _ items]) blast
qed

section \<open>Readiness and the scaled timeout\<close>

theorem WaitNodeToBeReady_success:
  assumes "client_WaitNodeToBeReady E name s = Ret (None, s')"
  shows "\<exists>n h c. snd s' = KNodeGet name # h \<and> kans_node E (snd s') = (Some n, None) \<and>
    c \<in> set (k_Conditions n) \<and> cond_Type c = ''Ready'' \<and> ParseBool (cond_Status c) = (True, True)"
proof -
  from assms obtain t where t: "kube_PollImmediate E (NodeReadyTimeout (fst t)) (ready_attempt E name) t = Ret (None, s')"
    unfolding client_WaitNodeToBeReady_def by (rule with_kube_cases) (auto split: if_splits)
  from poll_success [OF t] obtain u where u: "ready_attempt E name u = Ret ((True, None), s')" ..
  obtain node err where r: "kans_node E (KNodeGet name # snd u) = (node, err)" by fastforce
  with u obtain n where "node = Some n" "err = None" "is_ready n" "snd s' = KNodeGet name # snd u"
    by (auto simp: ready_attempt_def split: option.splits if_splits)
  with r show ?thesis unfolding is_ready_def list_ex_iff by auto
qed

theorem cordon_never_retried:
  assumes "RequestTimeout (fst s) = DefaultMaxRequestTimeout" "kubeOnce (fst s)" "kubeClient (fst s)"
    and "kans_node E (KNodeGet name # KPoll # snd s) = (Some n, None)" "k_Unschedulable n \<noteq> flag"
    and "kans_err E (KNodeUpdate (n\<lparr>k_Unschedulable := flag\<rparr>) # KNodeGet name # KPoll # snd s) = Some e"
  shows "cordonOrUncordonNode E name flag s =
    Ret (Some timeout_error, fst s, KNodeUpdate (n\<lparr>k_Unschedulable := flag\<rparr>) # KNodeGet name # KPoll # snd s)"
proof -
  have "scaled_timeout (fst s) < 0"
    using assms(1) by (simp add: scaled_timeout_def DefaultMaxRequestTimeout_def second_def wrap64_def)
  then show ?thesis using assms(2-6)
    by (simp add: cordonOrUncordonNode_def kube_PollImmediate_def attempt_change_def with_kube_def
        KubeClient_def kube_once_def)
qed

section \<open>The theorems at concrete inputs\<close>

definition sample_cluster_node :: cluster_node where
  "sample_cluster_node = \<lparr>k_Name = ''n1'', k_Annotations = Some [(''a'', ''1'')], k_Labels = None, k_Owners = [],
     k_Taints = [\<lparr>taint_Key = ''k'', taint_Effect = ''NoSchedule''\<rparr>],
     k_Addresses = [(''InternalIP'', ''10.0.0.1'')], k_Cpu = 2, k_Memory = 4294967296, k_Storage = 0,
     k_Unschedulable = False, k_ProviderID = '''',
     k_Conditions = [\<lparr>cond_Type = ''Ready'', cond_Status = ''True'', cond_Heartbeat = '''', cond_Transition = '''',
       cond_Reason = '''', cond_Message = ''''\<rparr>]\<rparr>"

definition web_pod :: pod where
  "web_pod = \<lparr>p_Namespace = ''default'', p_Name = ''web'', p_UID = ''u1'', p_Annotations = None, p_Owners = [],
     p_EmptyDirs = [False], p_Phase = ''Running'', p_GracePeriod = Some 30\<rparr>"

definition mirror_pod :: pod where
  "mirror_pod = web_pod\<lparr>p_Name := ''etcd'', p_UID := ''u2'', p_Annotations := Some [(MirrorPodAnnotationKey, ''x'')]\<rparr>"

definition sample_kube_env :: kube_env where
  "sample_kube_env = \<lparr>kans_err = \<lambda>_. None, kans_node = \<lambda>_. (Some sample_cluster_node, None), kans_nodes = \<lambda>_. Inr [],
     kans_pod = \<lambda>_. (None, Some (ApiNotFound '''')), kans_pods = \<lambda>_. Inr [mirror_pod, web_pod],
     kans_secret = \<lambda>_. Inr '''', kans_time = \<lambda>_. ''now'', kretries = \<lambda>_. 3, kexpired = \<lambda>_. False,
     korder = \<lambda>_ n. [0..<n]\<rparr>"

definition sample_kube :: kube_state where
  "sample_kube = (NewClientGenerator ''config'' '''' DefaultMaxRequestTimeout (900 * second) (30 * second) (60 * second), [])"

definition connected_kube :: kube_state where
  "connected_kube = ((fst sample_kube)\<lparr>kubeOnce := True, kubeClient := True\<rparr>, [])"

lemma no_error: "yields (\<lambda>(e, s'). e = None) m \<Longrightarrow> (\<And>s'. m = Ret (None, s') \<Longrightarrow> thesis) \<Longrightarrow> thesis"
  by (cases m) auto


theorem AnnoteNode_success_witness:
  "\<exists>n m later s'. client_AnnoteNode sample_kube_env ''n1'' (Some [(''b'', ''2'')]) sample_kube = Ret (None, s') \<and>
     snd s' = KNodeUpdate (n\<lparr>k_Annotations := m\<rparr>) # later \<and> gget m ''b'' = Some ''2''"
proof -
  have "yields (\<lambda>(e, s'). e = None) (client_AnnoteNode sample_kube_env ''n1'' (Some [(''b'', ''2'')]) sample_kube)"
    by code_simp
  then show ?thesis
  proof (rule no_error)
    fix s' assume r: "client_AnnoteNode sample_kube_env ''n1'' (Some [(''b'', ''2'')]) sample_kube = Ret (None, s')"
    have "gwf (Some [(''b'', ''2'')])" "gget (Some [(''b'', ''2'')]) ''b'' = Some ''2''" by code_simp+
    with AnnoteNode_success [OF r] r show ?thesis by (metis option.simps(5))
  qed
qed

theorem TaintNode_success_witness:
  "\<exists>later s'. client_TaintNode sample_kube_env ''n1'' [\<lparr>taint_Key = ''k'', taint_Effect = ''NoExecute''\<rparr>]
       sample_kube = Ret (None, s') \<and>
     snd s' = KNodeUpdate (sample_cluster_node\<lparr>k_Taints := [\<lparr>taint_Key = ''k'', taint_Effect = ''NoExecute''\<rparr>]\<rparr>) # later"
proof -
  let ?t = "\<lparr>taint_Key = ''k'', taint_Effect = ''NoExecute''\<rparr>"
  have "yields (\<lambda>(e, s'). e = None) (client_TaintNode sample_kube_env ''n1'' [?t] sample_kube)" by code_simp
  then show ?thesis
  proof (rule no_error)
    fix s' assume r: "client_TaintNode sample_kube_env ''n1'' [?t] sample_kube = Ret (None, s')"
    have "distinct (map taint_Key [?t])" by simp
    moreover have "k_Taints sample_cluster_node = [\<lparr>taint_Key = ''k'', taint_Effect = ''NoSchedule''\<rparr>]" by code_simp
    ultimately show ?thesis
      using TaintNode_success [OF r] r by (auto simp: sample_kube_env_def)
  qed
qed

theorem DrainNode_evicts_only_witness:
  "\<exists>s' new. client_DrainNode sample_kube_env ''n1'' True False sample_kube = Ret (None, s') \<and> snd s' = new \<and>
     KPodEvict ''default'' ''web'' 30 \<in> set new \<and>
     (\<exists>p\<in>{mirror_pod, web_pod}. p_Name p = ''web'' \<and> drainable sample_kube_env True False p)"
proof -
  have "yields (\<lambda>(e, s'). e = None \<and> list_ex (\<lambda>c. c = KPodEvict ''default'' ''web'' 30) (snd s'))
    (client_DrainNode sample_kube_env ''n1'' True False sample_kube)" by code_simp
  then obtain s' where r: "client_DrainNode sample_kube_env ''n1'' True False sample_kube = Ret (None, s')"
    and e: "KPodEvict ''default'' ''web'' 30 \<in> set (snd s')"
    by (auto simp: yields_iff list_ex_iff)
  obtain new where new: "snd s' = new @ snd sample_kube"
    "\<And>ns n g. KPodEvict ns n g \<in> set new \<Longrightarrow> \<exists>h items p. kans_pods sample_kube_env (KPodsList ''n1'' # h) = Inr items \<and>
      p \<in> set items \<and> n = p_Name p \<and> drainable sample_kube_env True False p"
    using DrainNode_evicts_only [OF r] by blast
  have "snd sample_kube = []" by (simp add: sample_kube_def)
  with new(1) e have "KPodEvict ''default'' ''web'' 30 \<in> set new" by simp
  from new(2) [OF this] have "\<exists>p\<in>{mirror_pod, web_pod}. p_Name p = ''web'' \<and> drainable sample_kube_env True False p"
    by (auto simp: sample_kube_env_def)
  with r e show ?thesis by blast
qed

theorem DrainNode_success_witness:
  "\<exists>s' later h. client_DrainNode sample_kube_env ''n1'' True False sample_kube = Ret (None, s') \<and>
     snd s' = later @ h \<and> evicted sample_kube_env web_pod (grace_period (fst sample_kube) web_pod) h"
proof -
  have "yields (\<lambda>(e, s'). e = None) (client_DrainNode sample_kube_env ''n1'' True False sample_kube)" by code_simp
  then show ?thesis
  proof (rule no_error)
    fix s' assume r: "client_DrainNode sample_kube_env ''n1'' True False sample_kube = Ret (None, s')"
    have "\<not> spared sample_kube_env True False web_pod"
      by (simp add: spared_def with_daemon_set_def web_pod_def GetControllerOf_def)
    with DrainNode_success [OF r] r show ?thesis by (force simp: sample_kube_env_def)
  qed
qed

theorem WaitNodeToBeReady_success_witness:
  "\<exists>s'. client_WaitNodeToBeReady sample_kube_env ''n1'' sample_kube = Ret (None, s') \<and>
     (\<exists>h. snd s' = KNodeGet ''n1'' # h)"
proof -
  have "yields (\<lambda>(e, s'). e = None) (client_WaitNodeToBeReady sample_kube_env ''n1'' sample_kube)" by code_simp
  then show ?thesis
    by (rule no_error) (use WaitNodeToBeReady_success in blast)
qed

theorem cordon_never_retried_witness:
  "cordonOrUncordonNode (sample_kube_env\<lparr>kans_err := \<lambda>_. Some (Plain ''conflict'')\<rparr>) ''n1'' True connected_kube =
     Ret (Some timeout_error, fst connected_kube,
       [KNodeUpdate (sample_cluster_node\<lparr>k_Unschedulable := True\<rparr>), KNodeGet ''n1'', KPoll])"
  using cordon_never_retried [of connected_kube "sample_kube_env\<lparr>kans_err := \<lambda>_. Some (Plain ''conflict'')\<rparr>" "''n1''"
      sample_cluster_node True "Plain ''conflict''"]
  by (simp add: connected_kube_def sample_kube_def NewClientGenerator_def sample_kube_env_def sample_cluster_node_def)

end
