(* ===== verification/Distributions.thy ===== *)
theory Distributions
  imports Cluster_Client_Facts
begin

text \<open>
  Model of \<^verbatim>\<open>kubernetes/\<close>: how a machine joins a cluster of each supported distribution, by commands
  over ssh or by a cloud-init document, and how the secrets of a former node are removed. The
  client is the one of \<open>Cluster_Client\<close>; the remote shell and the temporary file are calls answered
  by a \<open>shell_env\<close>, with their own list, newest first.
\<close>

section \<open>Paths\<close>

text \<open>\<^verbatim>\<open>path.Dir\<close>: everything up to the last slash, without empty, \<open>.\<close> and \<open>..\<close> elements.\<close>

fun clean_parts :: "bool \<Rightarrow> string list \<Rightarrow> string list \<Rightarrow> string list" where
  "clean_parts rooted [] out = rev out"
| "clean_parts rooted (x # xs) out =
     (if x = [] \<or> x = ''.'' then clean_parts rooted xs out
      else if x = ''..''
      then (if out \<noteq> [] \<and> hd out \<noteq> ''..'' then clean_parts rooted xs (tl out)
            else if rooted then clean_parts rooted xs out
            else clean_parts rooted xs (x # out))
      else clean_parts rooted xs (x # out))"

definition path_Clean :: "string \<Rightarrow> string" where
  "path_Clean p =
     (let rooted = (p \<noteq> [] \<and> hd p = CHR ''/'');
          joined = Join ''/'' (clean_parts rooted (Split (CHR ''/'') p) [])
      in if rooted then CHR ''/'' # joined else if joined = [] then ''.'' else joined)"

definition path_Dir :: "string \<Rightarrow> string" where
  "path_Dir p = path_Clean (rev (dropWhile (\<lambda>c. c \<noteq> CHR ''/'') (rev p)))"

section \<open>Configuration\<close>

record CommonJoinConfig =
  j_Address :: string
  j_Token :: string
  j_DatastoreEndpoint :: string

record KubeJoinConfig = CommonJoinConfig +
  j_CACert :: string
  j_ExtraArguments :: "string list"

record K3SJoinConfig = CommonJoinConfig +
  k3s_ExtraCommands :: "string list"

record RKE2JoinConfig = CommonJoinConfig +
  rke2_ExtraCommands :: "string list"

text \<open>
  A value of a map of an override has the dynamic type \<^verbatim>\<open>MapAny\<close> or another one; decoding a
  configuration file only gives values of the second kind.
\<close>

type_synonym MapAny = cloud_init

datatype dynamic = IsMapAny MapAny | NotMapAny ci

fun dynamic_value :: "dynamic \<Rightarrow> ci" where
  "dynamic_value (IsMapAny m) = CMap (gentries m)"
| "dynamic_value (NotMapAny v) = v"

record MicroK8SJoinConfig = CommonJoinConfig +
  j_UseLoadBalancer :: bool
  j_LoadBalancerAddresses :: "string list"
  j_Channel :: string
  j_OverrideConfig :: "(string, dynamic) gomap"

record ExternalJoinConfig = CommonJoinConfig +
  j_JoinCommand :: string
  j_LeaveCommand :: string
  j_ConfigPath :: string
  j_ExtraConfig :: MapAny

text \<open>The server configuration with the fields only this package reads.\<close>

record join_config =
  jc_server :: config
  jc_KubeAdm :: "KubeJoinConfig option"
  jc_K3S :: "K3SJoinConfig option"
  jc_RKE2 :: "RKE2JoinConfig option"
  jc_MicroK8S :: "MicroK8SJoinConfig option"
  jc_External :: "ExternalJoinConfig option"
  jc_CloudInitFileMode :: "int option"
  jc_ImageCredentialProviderBinDir :: "string option"
  jc_CredentialProviderConfig :: "ci option"

definition GetCloudInitFileMode :: "join_config \<Rightarrow> int" where
  "GetCloudInitFileMode c = (case jc_CloudInitFileMode c of None \<Rightarrow> 420 | Some m \<Rightarrow> m)"

definition GetImageCredentialProviderConfig :: "join_config \<Rightarrow> string" where
  "GetImageCredentialProviderConfig c =
     (case cfg_ImageCredentialProviderConfig (jc_server c) of None \<Rightarrow> [] | Some p \<Rightarrow> p)"

definition GetImageCredentialProviderBinDir :: "join_config \<Rightarrow> string" where
  "GetImageCredentialProviderBinDir c =
     (case jc_ImageCredentialProviderBinDir c of None \<Rightarrow> ''/usr/local/bin'' | Some p \<Rightarrow> p)"

section \<open>Providers\<close>

datatype distribution = Kubeadm | K3s | Rke2 | Microk8s | External

text \<open>The functions a provider captures are values here: the node does not change during an operation.\<close>

record kubernetesCommon =
  configuration :: join_config
  controlPlane :: bool
  maxPods :: int
  pv_nodeName :: string
  pv_address :: string
  pv_providerID :: string

type_synonym provider = "distribution \<times> kubernetesCommon"

definition NewKubernetesProvider ::
  "join_config \<Rightarrow> bool \<Rightarrow> int \<Rightarrow> string \<Rightarrow> string \<Rightarrow> string \<Rightarrow> provider" where
  "NewKubernetesProvider config control pods name identifier addr =
     (let d = KubernetesDistribution (jc_server config)
      in (if d = K3SDistributionName then K3s
          else if d = RKE2DistributionName then Rke2
          else if d = MicroK8SDistributionName then Microk8s
          else if d = ExternalDistributionName then External
          else Kubeadm,
          \<lparr>configuration = config, controlPlane = control, maxPods = pods, pv_nodeName = name,
           pv_address = addr, pv_providerID = identifier\<rparr>))"

text \<open>Reading the configuration of a distribution that is not configured dereferences nil.\<close>

definition deref :: "'a option \<Rightarrow> ('a \<Rightarrow> 'b go) \<Rightarrow> 'b go" where
  "deref p f = (case p of None \<Rightarrow> Panic NilDeref | Some a \<Rightarrow> f a)"

section \<open>The remote shell\<close>

datatype shell_call =
    ShCreateTemp
  | ShWriteTemp string
  | ShScp string string string
  | ShSudo string string

type_synonym shell_calls = "shell_call list"

record shell_env =
  shans_err :: "shell_calls \<Rightarrow> error option"
  shans_out :: "shell_calls \<Rightarrow> string \<times> error option"
  temp_name :: "shell_calls \<Rightarrow> string"
  to_yaml :: "ci \<Rightarrow> string"

type_synonym dist_env = "kube_env \<times> shell_env"
type_synonym dist_state = "kube_state \<times> shell_calls"

definition sh :: "(shell_calls \<Rightarrow> 'a) \<Rightarrow> shell_call \<Rightarrow> dist_state \<Rightarrow> 'a \<times> dist_state" where
  "sh answer c s = (answer (c # snd s), fst s, c # snd s)"

definition unableToExecuteCmdError :: string where
  "unableToExecuteCmdError = ''unable to execute command: %s, output: %s, reason: %v''"

definition errWriteFileErrorMsg :: string where
  "errWriteFileErrorMsg = ''unable to write file: %s, reason: %v''"

definition tmpConfigDestinationFile :: string where
  "tmpConfigDestinationFile = ''/tmp/config.yaml''"

definition mkdirCmd :: string where
  "mkdirCmd = ''mkdir -p %s''"

definition kubeSystemNamespace :: string where
  "kubeSystemNamespace = ''kube-system''"

definition k3sPasswordNodeSecret :: string where
  "k3sPasswordNodeSecret = ''%s.node-password.k3s''"

definition rke2PasswordNodeSecret :: string where
  "rke2PasswordNodeSecret = ''%s.node-password.rke2''"

definition shell_command :: "string list \<Rightarrow> string" where
  "shell_command args = Sprintf ''sh -c \"%s\"'' [Join '' && '' args]"

definition runCommands :: "dist_env \<Rightarrow> kubernetesCommon \<Rightarrow> string list \<Rightarrow> dist_state \<Rightarrow> (string \<times> error option) \<times> dist_state" where
  "runCommands E p args s =
     (let command = shell_command args;
          ((out, err), s) = sh (shans_out (snd E)) (ShSudo (pv_address p) command) s
      in case err of
           Some e \<Rightarrow> (([], Some (Errorf unableToExecuteCmdError [command, out, err_text e])), s)
         | None \<Rightarrow> ((out, None), s))"

section \<open>Operations common to the distributions\<close>

text \<open>
  The condition after the commands: the node is in the cluster; otherwise, for kubeadm, the
  kubelet is restarted.
\<close>

definition joined_attempt :: "dist_env \<Rightarrow> kubernetesCommon \<Rightarrow> bool \<Rightarrow> dist_state \<Rightarrow> ((bool \<times> error option) \<times> dist_state) go" where
  "joined_attempt E p restartKubelet s =
     gbind (client_GetNode (fst E) (pv_nodeName p) (fst s)) (\<lambda>((node, err), k).
       let s = (k, snd s)
       in if err = None \<and> node \<noteq> None then Ret ((True, None), s)
          else if restartKubelet
          then let ((out, err), s) = sh (shans_out (snd E)) (ShSudo (pv_address p) ''systemctl restart kubelet'') s
               in case err of
                    Some e \<Rightarrow> Ret ((False, Some (Errorf ''unable to restart kubelet, output: %s, reason: %v'' [out, err_text e])), s)
                  | None \<Rightarrow> Ret ((False, None), s)
          else Ret ((False, None), s))"

definition wait_joined :: "dist_env \<Rightarrow> kubernetesCommon \<Rightarrow> bool \<Rightarrow> dist_state \<Rightarrow> (error option \<times> dist_state) go" where
  "wait_joined E p restartKubelet s =
     (let timeout = wrap64 (cfg_WaitSshReadyInSeconds (jc_server (configuration p)) * second);
          (n, k) = kask (kretries (fst E)) KPoll (fst s)
      in gpoll (if timeout < 0 then 1 else Suc n) (timeout = 0) timeout_error
           (joined_attempt E p restartKubelet) (k, snd s))"

text \<open>\<open>c\<close> tells whether a client is given.\<close>

definition executeCommands ::
  "dist_env \<Rightarrow> kubernetesCommon \<Rightarrow> string list \<Rightarrow> bool \<Rightarrow> bool \<Rightarrow> dist_state \<Rightarrow> (error option \<times> dist_state) go" where
  "executeCommands E p args restartKubelet c s =
     (let ((out, err), s) = runCommands E p args s
      in if err \<noteq> None then Ret (err, s)
         else if c then wait_joined E p restartKubelet s
         else Ret (None, s))"

text \<open>The contents are nil or an object; nil is printed as nothing.\<close>

definition ToYAML :: "shell_env \<Rightarrow> ci option \<Rightarrow> string" where
  "ToYAML E v = (case v of None \<Rightarrow> [] | Some v \<Rightarrow> to_yaml E v)"

definition copy_commands :: "string \<Rightarrow> string list" where
  "copy_commands destinationFile =
     [Sprintf mkdirCmd [path_Dir destinationFile],
      Sprintf ''cp %s %s'' [tmpConfigDestinationFile, destinationFile],
      Sprintf ''rm %s'' [tmpConfigDestinationFile]]"

definition joinClusterWithConfig ::
  "dist_env \<Rightarrow> kubernetesCommon \<Rightarrow> ci option \<Rightarrow> string \<Rightarrow> bool \<Rightarrow> bool \<Rightarrow> string list \<Rightarrow> dist_state \<Rightarrow>
   (error option \<times> dist_state) go" where
  "joinClusterWithConfig E p content destinationFile c restartKubelet extraCommand s =
     (let (err, s) = sh (shans_err (snd E)) ShCreateTemp s
      in case err of
           Some e \<Rightarrow> Ret (Some (Errorf ''unable to create %s, reason: %v'' [destinationFile, err_text e]), s)
         | None \<Rightarrow>
      let file = temp_name (snd E) (snd s);
          (err, s) = sh (shans_err (snd E)) (ShWriteTemp (ToYAML (snd E) content)) s
      in case err of
           Some e \<Rightarrow> Ret (Some (Errorf errWriteFileErrorMsg [file, err_text e]), s)
         | None \<Rightarrow>
      let (err, s) = sh (shans_err (snd E)) (ShScp (pv_address p) file tmpConfigDestinationFile) s
      in case err of
           Some e \<Rightarrow> Ret (Some (Errorf ErrCantCopyFileToNode [file, tmpConfigDestinationFile, err_text e]), s)
         | None \<Rightarrow> executeCommands E p (copy_commands destinationFile @ extraCommand) restartKubelet c s)"

definition uploadFile :: "dist_env \<Rightarrow> kubernetesCommon \<Rightarrow> ci option \<Rightarrow> string \<Rightarrow> dist_state \<Rightarrow> (error option \<times> dist_state) go" where
  "uploadFile E p content destinationFile = joinClusterWithConfig E p content destinationFile False False []"

definition dist_UploadImageCredentialProviderConfig ::
  "dist_env \<Rightarrow> kubernetesCommon \<Rightarrow> dist_state \<Rightarrow> (error option \<times> dist_state) go" where
  "dist_UploadImageCredentialProviderConfig E p s =
     (if UseImageCredentialProviderConfig (jc_server (configuration p))
      then uploadFile E p (jc_CredentialProviderConfig (configuration p))
             (GetImageCredentialProviderConfig (configuration p)) s
      else Ret (None, s))"

text \<open>\<^verbatim>\<open>AddObjectToWriteFile\<close> with the owner and the mode of the configuration.\<close>

definition write_object :: "codec \<Rightarrow> kubernetesCommon \<Rightarrow> ci option \<Rightarrow> string \<Rightarrow> cloud_init \<Rightarrow> (error option \<times> cloud_init) go" where
  "write_object cd p content destination c =
     AddObjectToWriteFile cd (case content of None \<Rightarrow> CNull | Some v \<Rightarrow> v) destination
       (cfg_CloudInitFileOwner (jc_server (configuration p))) (GetCloudInitFileMode (configuration p)) c"

definition dist_PutImageCredentialProviderConfigInCloudInit ::
  "codec \<Rightarrow> kubernetesCommon \<Rightarrow> cloud_init \<Rightarrow> (error option \<times> cloud_init) go" where
  "dist_PutImageCredentialProviderConfigInCloudInit cd p c =
     (if UseImageCredentialProviderConfig (jc_server (configuration p))
      then write_object cd p (jc_CredentialProviderConfig (configuration p))
             (GetImageCredentialProviderConfig (configuration p)) c
      else Ret (None, c))"

text \<open>The secret with the password of a former node of the same name is deleted.\<close>

definition drop_password :: "dist_env \<Rightarrow> string \<Rightarrow> kubernetesCommon \<Rightarrow> dist_state \<Rightarrow> (error option \<times> dist_state) go" where
  "drop_password E format p s =
     (let passwordNode = Sprintf format [pv_nodeName p]
      in gbind (client_GetSecret (fst E) passwordNode kubeSystemNamespace (fst s)) (\<lambda>(secret, k).
           case secret of
             Inl e \<Rightarrow> Ret (None, k, snd s)
           | Inr _ \<Rightarrow> gbind (client_DeleteSecret (fst E) passwordNode kubeSystemNamespace k) (\<lambda>(err, k).
               Ret (err, k, snd s))))"

section \<open>kubeadm\<close>

definition kubeadm_patch :: string where
  "kubeadm_patch = ''/etc/kubernetes/patches/kubeletconfiguration0+merge.yaml''"

definition kubeadm_joinCommand :: "kubernetesCommon \<Rightarrow> string list go" where
  "kubeadm_joinCommand p =
     deref (jc_KubeAdm (configuration p)) (\<lambda>kubeAdm.
       let config = configuration p;
           commands = (if UseImageCredentialProviderConfig (jc_server config)
             then [Sprintf ''echo KUBELET_EXTRA_ARGS='--image-credential-provider-config=%s --image-credential-provider-bin-dir=%s' > /etc/default/kubelet''
                     [GetImageCredentialProviderConfig config, GetImageCredentialProviderBinDir config]]
             else []);
           join = [''kubeadm'', ''join'', j_Address kubeAdm, ''--node-name'', pv_nodeName p, ''--token'', j_Token kubeAdm,
                   ''--discovery-token-ca-cert-hash'', j_CACert kubeAdm, ''--patches'', ''/etc/kubernetes/patches''];
           join = join @ (if controlPlane p
             then ''--control-plane'' # (if pv_address p \<noteq> [] then [''--apiserver-advertise-address'', pv_address p] else [])
             else []);
           join = join @ j_ExtraArguments kubeAdm
       in Ret (commands @ [Join '' '' join]))"

definition kubeadm_agentConfig :: "kubernetesCommon \<Rightarrow> ci" where
  "kubeadm_agentConfig p =
     (if UseCloudInitToConfigure (jc_server (configuration p))
      then CMap [(''address'', CStr (pv_address p)), (''maxPods'', CInt (maxPods p))]
      else CMap [(''address'', CStr (pv_address p)), (''providerID'', CStr (pv_providerID p)),
                 (''maxPods'', CInt (maxPods p))])"

section \<open>k3s\<close>

definition k3s_joinCommand :: "string list" where
  "k3s_joinCommand =
     [''systemctl enable k3s.service'', ''systemctl start k3s.service --no-block'',
      ''journalctl --no-pager -xeu k3s.service'']"

definition k3s_args :: "kubernetesCommon \<Rightarrow> K3SJoinConfig \<Rightarrow> string" where
  "k3s_args p k3s =
     (let config = jc_server (configuration p)
      in if UseControllerManager config \<and> \<not> UseCloudInitToConfigure config
         then Sprintf ''echo K3S_ARGS='--kubelet-arg=max-pods=%d --node-name=%s --server=https://%s --token=%s --kubelet-arg=provider-id=%s ' > /etc/systemd/system/k3s.service.env''
                [Itoa (maxPods p), pv_nodeName p, j_Address k3s, j_Token k3s, pv_providerID p]
         else Sprintf ''echo K3S_ARGS='--kubelet-arg=max-pods=%d --node-name=%s --server=https://%s --token=%s' > /etc/systemd/system/k3s.service.env''
                [Itoa (maxPods p), pv_nodeName p, j_Address k3s, j_Token k3s])"

definition k3s_mode :: "kubernetesCommon \<Rightarrow> K3SJoinConfig \<Rightarrow> string list" where
  "k3s_mode p k3s =
     (let config = jc_server (configuration p); dir = cfg_ExtDestinationEtcdSslDir config
      in if controlPlane p
         then [''echo 'K3S_MODE=server' > /etc/default/k3s'',
               if DisableCloudController config
               then ''echo K3S_DISABLE_ARGS='--disable-cloud-controller --disable=servicelb --disable=traefik --disable=metrics-server' > /etc/systemd/system/k3s.disabled.env''
               else ''echo K3S_DISABLE_ARGS='--disable=servicelb --disable=traefik --disable=metrics-server' > /etc/systemd/system/k3s.disabled.env''] @
              (if UseExternalEtdcServer config
               then [Sprintf ''echo K3S_SERVER_ARGS='--datastore-endpoint=%s --datastore-cafile=%s/ca.pem --datastore-certfile=%s/etcd.pem --datastore-keyfile=%s/etcd-key.pem' > /etc/systemd/system/k3s.server.env''
                       [j_DatastoreEndpoint k3s, dir, dir, dir]]
               else [])
         else [''echo 'K3S_MODE=agent' > /etc/default/k3s''])"

definition k3s_agentCommand :: "kubernetesCommon \<Rightarrow> string list go" where
  "k3s_agentCommand p =
     deref (jc_K3S (configuration p)) (\<lambda>k3s.
       Ret ([k3s_args p k3s] @ k3s_mode p k3s @ k3s_ExtraCommands k3s @ k3s_joinCommand))"

section \<open>rke2\<close>

definition rke2_config_file :: string where
  "rke2_config_file = ''/etc/rancher/rke2/config.yaml''"

definition rke2_joinCommand :: "kubernetesCommon \<Rightarrow> string list" where
  "rke2_joinCommand p =
     (let service = (if controlPlane p then ''rke2-server'' else ''rke2-agent'')
      in [Sprintf ''systemctl enable %s.service'' [service], Sprintf ''systemctl start %s.service'' [service],
          Sprintf ''journalctl --no-pager -xeu %s.service'' [service]])"

definition rke2_kubelet_args :: "kubernetesCommon \<Rightarrow> string list" where
  "rke2_kubelet_args p =
     (let config = jc_server (configuration p)
      in [''fail-swap-on=false'', Sprintf ''max-pods=%d'' [Itoa (maxPods p)]] @
         (if UseControllerManager config \<and> \<not> UseCloudInitToConfigure config
          then [Sprintf ''provider-id=%s'' [pv_providerID p]] else []) @
         (if GetCloudProviderName config \<noteq> []
          then [Sprintf ''cloud-provider=%s'' [GetCloudProviderName config]] else []))"

text \<open>An extra command without an equal sign has no second part: the index is out of range.\<close>

definition rke2_extra :: "string \<Rightarrow> MapAny \<Rightarrow> MapAny go" where
  "rke2_extra cmd m =
     (case Split (CHR ''='') cmd of
        k # v # rest \<Rightarrow> gput k (CStr v) m
      | _ \<Rightarrow> Panic IndexOutOfRange)"

definition rke2_agentConfig :: "kubernetesCommon \<Rightarrow> MapAny go" where
  "rke2_agentConfig p =
     deref (jc_RKE2 (configuration p)) (\<lambda>rke2.
       let config = jc_server (configuration p);
           m = Some [(''kubelet-arg'', CList (map CStr (rke2_kubelet_args p))), (''node-name'', CStr (pv_nodeName p)),
                     (''server'', CStr (Sprintf ''https://%s'' [j_Address rke2])), (''token'', CStr (j_Token rke2))];
           m = (if pv_address p \<noteq> [] then gset ''advertise-address'' (CStr (pv_address p)) m else m);
           m = (if controlPlane p \<and> UseControllerManager config
                then gset ''cloud-provider-name'' (CStr (GetCloudProviderName config))
                       (gset ''disable-cloud-controller'' (CBool (DisableCloudController config)) m)
                else m);
           m = (if controlPlane p
                then gset ''disable'' (CList [CStr ''rke2-ingress-nginx'', CStr ''rke2-metrics-server'']) m else m)
       in gfold rke2_extra (rke2_ExtraCommands rke2) m)"

section \<open>External distribution\<close>

definition external_agentConfig :: "kubernetesCommon \<Rightarrow> ExternalJoinConfig \<Rightarrow> MapAny" where
  "external_agentConfig p external =
     (let config = jc_server (configuration p); dir = cfg_ExtDestinationEtcdSslDir config;
          m = Some [(''max-pods'', CInt (maxPods p)), (''node-name'', CStr (pv_nodeName p)),
                    (''server'', CStr (j_Address external)), (''token'', CStr (j_Token external))];
          m = (if UseControllerManager config \<and> \<not> UseCloudInitToConfigure config
               then gset ''provider-id'' (CStr (pv_providerID p)) m else m);
          m = gmerge (j_ExtraConfig external) m;
          m = (if controlPlane p \<and> UseControllerManager config
               then gset ''cloud-provider-name'' (CStr (GetCloudProviderName config))
                      (gset ''disable-cloud-controller'' (CBool (DisableCloudController config)) m)
               else m)
      in if controlPlane p \<and> UseExternalEtdcServer config
         then gset ''datastore-keyfile'' (CStr (Sprintf ''%s/etcd-key.pem'' [dir]))
                (gset ''datastore-certfile'' (CStr (Sprintf ''%s/etcd.pem'' [dir]))
                (gset ''datastore-cafile'' (CStr (Sprintf ''%s/ca.pem'' [dir]))
                (gset ''datastore-endpoint'' (CStr (j_DatastoreEndpoint external)) m)))
         else m)"

section \<open>MicroK8s\<close>

definition microk8s_config_file :: string where
  "microk8s_config_file = ''/var/snap/microk8s/common/.microk8s.yaml''"

definition microk8s_joinCommand :: "MicroK8SJoinConfig \<Rightarrow> string list" where
  "microk8s_joinCommand microk8s =
     [Sprintf ''snap install microk8s --classic --channel=%s'' [j_Channel microk8s]]"

text \<open>The configuration, the arguments of the kubelet, the arguments of the API server.\<close>

type_synonym microk8s_maps = "MapAny \<times> MapAny \<times> MapAny"

definition microk8s_kubelet_args :: "kubernetesCommon \<Rightarrow> MapAny" where
  "microk8s_kubelet_args p =
     (let config = configuration p;
          m = Some [(''--max-pods'', CInt (maxPods p)),
                    (''--cloud-provider'', CStr (GetCloudProviderName (jc_server config))),
                    (''--node-ip'', CStr (pv_address p))]
      in if UseImageCredentialProviderConfig (jc_server config)
         then gset ''--image-credential-provider-bin-dir'' (CStr (GetImageCredentialProviderBinDir config))
                (gset ''--image-credential-provider-config'' (CStr (GetImageCredentialProviderConfig config)) m)
         else m)"

definition microk8s_server_args :: "kubernetesCommon \<Rightarrow> MicroK8SJoinConfig \<Rightarrow> MapAny" where
  "microk8s_server_args p microk8s =
     (let config = jc_server (configuration p); dir = cfg_ExtDestinationEtcdSslDir config
      in if \<not> controlPlane p then gmake
         else Some ([(''--advertise-address'', CStr (pv_address p)), (''--authorization-mode'', CStr ''RBAC,Node'')] @
           (if UseExternalEtdcServer config
            then [(''--etcd-servers'', CStr (j_DatastoreEndpoint microk8s)),
                  (''--etcd-cafile'', CStr (Sprintf ''%s/ca.pem'' [dir])),
                  (''--etcd-certfile'', CStr (Sprintf ''%s/etcd.pem'' [dir])),
                  (''--etcd-keyfile'', CStr (Sprintf ''%s/etcd-key.pem'' [dir]))]
            else [])))"

definition microk8s_base :: "kubernetesCommon \<Rightarrow> MicroK8SJoinConfig \<Rightarrow> MapAny" where
  "microk8s_base p microk8s =
     Some ([(''version'', CStr ''0.1.0''), (''persistentClusterToken'', CStr (j_Token microk8s)),
            (''join'', CMap [(''url'', CStr (Sprintf ''%s/%s'' [j_Address microk8s, j_Token microk8s])),
                             (''worker'', CBool (\<not> controlPlane p))])] @
       (if controlPlane p
        then [(''addons'', CList [CMap [(''name'', CStr ''dns'')], CMap [(''name'', CStr ''rbac'')],
                                  CMap [(''name'', CStr ''hostpath-storage'')]])]
        else if j_UseLoadBalancer microk8s
        then [(''extraMicroK8sAPIServerProxyArgs'',
               CMap [(''--refresh-interval'', CStr ''0''),
                     (''--traefik-config'', CStr ''/usr/local/etc/microk8s/traefik.yaml'')])]
        else []))"

text \<open>The type assertion on the two argument maps of an override panics on any other dynamic type.\<close>

definition microk8s_override :: "string \<times> dynamic \<Rightarrow> microk8s_maps \<Rightarrow> microk8s_maps go" where
  "microk8s_override entry s =
     (let (k, v) = entry; (config, kubelet, server) = s
      in if k = ''extraKubeletArgs''
         then (case v of IsMapAny extra \<Rightarrow> Ret (config, gmerge extra kubelet, server)
               | NotMapAny _ \<Rightarrow> Panic BadTypeAssertion)
         else if k = ''extraKubeAPIServerArgs''
         then (case v of IsMapAny extra \<Rightarrow> Ret (config, kubelet, gmerge extra server)
               | NotMapAny _ \<Rightarrow> Panic BadTypeAssertion)
         else Ret (gset k (dynamic_value v) config, kubelet, server))"

definition microk8s_agentConfig :: "kubernetesCommon \<Rightarrow> MicroK8SJoinConfig \<Rightarrow> MapAny go" where
  "microk8s_agentConfig p microk8s =
     gbind (gfold microk8s_override (gentries (j_OverrideConfig microk8s))
             (microk8s_base p microk8s, microk8s_kubelet_args p, microk8s_server_args p microk8s))
       (\<lambda>(config, kubelet, server).
          let config = (if 0 < glen kubelet then gset ''extraKubeletArgs'' (CMap (gentries kubelet)) config else config)
          in Ret (if 0 < glen server then gset ''extraKubeAPIServerArgs'' (CMap (gentries server)) config else config))"

definition traefik_config :: ci where
  "traefik_config =
     CMap [(''entryPoints'', CMap [(''apiserver'', CMap [(''address'', CStr (CHR 39 # '':16443'' @ [CHR 39]))])]),
           (''providers'', CMap [(''file'', CMap [(''filename'', CStr ''/usr/local/etc/microk8s/provider.yaml''),
                                                  (''watch'', CBool True)])])]"

definition load_balancer_config :: "string list \<Rightarrow> ci" where
  "load_balancer_config addresses =
     CMap [(''tcp'', CMap [(''routers'', CMap [(''Router-1'',
              CMap [(''rule'', CStr ''HostSNI(`*`)''), (''service'', CStr ''kube-apiserver''),
                    (''tls'', CMap [(''passthrough'', CBool True)])])])]),
           (''services'', CMap [(''kube-apiserver'', CMap [(''loadBalancer'',
              CMap [(''servers'', CList (map (\<lambda>addr. CMap [(''address'', CStr addr)])
                                      (filter (\<lambda>addr. addr \<noteq> []) addresses)))])])])]"

definition join_script :: "MicroK8SJoinConfig \<Rightarrow> string" where
  "join_script microk8s =
     Join [CHR 10] ([''#!/bin/bash'', ''export PATH=/usr/local/sbin:/usr/local/bin:/usr/sbin:/usr/bin:/sbin:/bin:/snap/bin''] @
       microk8s_joinCommand microk8s)"

text \<open>The errors of the two files of the load balancer are dropped.\<close>

definition microk8s_PutConfigInCloudInit :: "codec \<Rightarrow> kubernetesCommon \<Rightarrow> cloud_init \<Rightarrow> (error option \<times> cloud_init) go" where
  "microk8s_PutConfigInCloudInit cd p c =
     deref (jc_MicroK8S (configuration p)) (\<lambda>microk8s.
       gbind (AddTextToWriteFile cd (join_script microk8s) ''/usr/local/bin/join-cluster.sh''
                (cfg_CloudInitFileOwner (jc_server (configuration p))) 493 c) (\<lambda>c.
       gbind (if \<not> controlPlane p \<and> j_UseLoadBalancer microk8s
              then gbind (write_object cd p (Some traefik_config) ''/usr/local/etc/microk8s/traefik.yaml'' c) (\<lambda>(_, c).
                   gbind (write_object cd p (Some (load_balancer_config (j_LoadBalancerAddresses microk8s)))
                            ''/usr/local/etc/microk8s/provider.yaml'' c) (\<lambda>(_, c). Ret c))
              else Ret c) (\<lambda>c.
       gbind (microk8s_agentConfig p microk8s) (\<lambda>agent.
       gbind (write_object cd p (Some (CMap (gentries agent))) microk8s_config_file c) (\<lambda>(err, c).
         if err \<noteq> None then Ret (err, c)
         else gbind (AddRunCommand [''nohup /usr/local/bin/join-cluster.sh > /var/log/join-cluster.log &''] c)
                (\<lambda>c. Ret (None, c)))))))"

section \<open>Operations of a provider\<close>

definition dist_PrepareNodeCreation :: "dist_env \<Rightarrow> provider \<Rightarrow> dist_state \<Rightarrow> (error option \<times> dist_state) go" where
  "dist_PrepareNodeCreation E pr s =
     (case fst pr of
        K3s \<Rightarrow> drop_password E k3sPasswordNodeSecret (snd pr) s
      | Rke2 \<Rightarrow> drop_password E rke2PasswordNodeSecret (snd pr) s
      | _ \<Rightarrow> Ret (None, s))"

definition dist_PrepareNodeDeletion :: "dist_env \<Rightarrow> provider \<Rightarrow> bool \<Rightarrow> dist_state \<Rightarrow> (error option \<times> dist_state) go" where
  "dist_PrepareNodeDeletion E pr powered s =
     (case fst pr of
        K3s \<Rightarrow> dist_PrepareNodeCreation E pr s
      | Rke2 \<Rightarrow> dist_PrepareNodeCreation E pr s
      | External \<Rightarrow> (case jc_External (configuration (snd pr)) of
            None \<Rightarrow> if powered then Panic NilDeref else Ret (None, s)
          | Some external \<Rightarrow>
              if powered \<and> j_LeaveCommand external \<noteq> []
              then let ((out, err), s) = runCommands E (snd pr) [j_LeaveCommand external] s in Ret (err, s)
              else Ret (None, s))
      | _ \<Rightarrow> Ret (None, s))"

definition dist_JoinCluster :: "dist_env \<Rightarrow> provider \<Rightarrow> dist_state \<Rightarrow> (error option \<times> dist_state) go" where
  "dist_JoinCluster E pr s =
     (let p = snd pr
      in case fst pr of
           Kubeadm \<Rightarrow> gbind (kubeadm_joinCommand p) (\<lambda>commands.
             joinClusterWithConfig E p (Some (kubeadm_agentConfig p)) kubeadm_patch True True commands s)
         | K3s \<Rightarrow> gbind (k3s_agentCommand p) (\<lambda>commands. executeCommands E p commands False True s)
         | Rke2 \<Rightarrow> gbind (rke2_agentConfig p) (\<lambda>agent.
             joinClusterWithConfig E p (Some (CMap (gentries agent))) rke2_config_file True False (rke2_joinCommand p) s)
         | Microk8s \<Rightarrow> deref (jc_MicroK8S (configuration p)) (\<lambda>microk8s.
             gbind (microk8s_agentConfig p microk8s) (\<lambda>agent.
               joinClusterWithConfig E p (Some (CMap (gentries agent))) microk8s_config_file True False
                 (microk8s_joinCommand microk8s) s))
         | External \<Rightarrow> deref (jc_External (configuration p)) (\<lambda>external.
             joinClusterWithConfig E p (Some (CMap (gentries (external_agentConfig p external))))
               (j_ConfigPath external) True False [j_JoinCommand external] s))"

text \<open>A file, then commands; an error of the file is returned, and no command is added.\<close>

definition put_file_and_commands ::
  "codec \<Rightarrow> kubernetesCommon \<Rightarrow> ci \<Rightarrow> string \<Rightarrow> string list \<Rightarrow> cloud_init \<Rightarrow> (error option \<times> cloud_init) go" where
  "put_file_and_commands cd p agent file commands c =
     gbind (write_object cd p (Some agent) file c) (\<lambda>(err, c).
       if err \<noteq> None then Ret (err, c)
       else gbind (AddRunCommand commands c) (\<lambda>c. Ret (None, c)))"

definition dist_PutConfigInCloudInit :: "codec \<Rightarrow> provider \<Rightarrow> cloud_init \<Rightarrow> (error option \<times> cloud_init) go" where
  "dist_PutConfigInCloudInit cd pr c =
     (let p = snd pr
      in case fst pr of
           Kubeadm \<Rightarrow> gbind (write_object cd p (Some (kubeadm_agentConfig p)) kubeadm_patch c) (\<lambda>(err, c).
             if err \<noteq> None then Ret (err, c)
             else gbind (kubeadm_joinCommand p) (\<lambda>commands.
                  gbind (AddRunCommand commands c) (\<lambda>c. Ret (None, c))))
         | K3s \<Rightarrow> gbind (k3s_agentCommand p) (\<lambda>commands. gbind (AddRunCommand commands c) (\<lambda>c. Ret (None, c)))
         | Rke2 \<Rightarrow> gbind (rke2_agentConfig p) (\<lambda>agent.
             put_file_and_commands cd p (CMap (gentries agent)) rke2_config_file (rke2_joinCommand p) c)
         | Microk8s \<Rightarrow> microk8s_PutConfigInCloudInit cd p c
         | External \<Rightarrow> deref (jc_External (configuration p)) (\<lambda>external.
             put_file_and_commands cd p (CMap (gentries (external_agentConfig p external)))
               (j_ConfigPath external) [j_JoinCommand external] c))"

end
