(* ===== verification/Distributions_Facts.thy ===== *)
theory Distributions_Facts
  imports Distributions
begin

text \<open>
  Joining a cluster: the commands over ssh and the cloud-init document carry out the same plan, a
  file and a list of commands; what a successful join has seen; the configurations that panic.
\<close>

section \<open>The plan\<close>

text \<open>The abstract contract: the file to write, if any, with its contents, and the commands to run after it.\<close>

type_synonym plan = "(string \<times> ci) option \<times> string list"

definition join_plan :: "provider \<Rightarrow> plan go" where
  "join_plan pr =
     (let p = snd pr
      in case fst pr of
           Kubeadm \<Rightarrow> gbind (kubeadm_joinCommand p) (\<lambda>commands. Ret (Some (kubeadm_patch, kubeadm_agentConfig p), commands))
         | K3s \<Rightarrow> gbind (k3s_agentCommand p) (\<lambda>commands. Ret (None, commands))
         | Rke2 \<Rightarrow> gbind (rke2_agentConfig p) (\<lambda>agent. Ret (Some (rke2_config_file, CMap (gentries agent)), rke2_joinCommand p))
         | Microk8s \<Rightarrow> deref (jc_MicroK8S (configuration p)) (\<lambda>microk8s.
             gbind (microk8s_agentConfig p microk8s) (\<lambda>agent.
               Ret (Some (microk8s_config_file, CMap (gentries agent)), microk8s_joinCommand microk8s)))
         | External \<Rightarrow> deref (jc_External (configuration p)) (\<lambda>external.
             Ret (Some (j_ConfigPath external, CMap (gentries (external_agentConfig p external))), [j_JoinCommand external])))"

definition carry_out :: "dist_env \<Rightarrow> provider \<Rightarrow> plan \<Rightarrow> dist_state \<Rightarrow> (error option \<times> dist_state) go" where
  "carry_out E pr plan =
     (let restart = (fst pr = Kubeadm)
      in case fst plan of
           None \<Rightarrow> executeCommands E (snd pr) (snd plan) restart True
         | Some (file, content) \<Rightarrow> joinClusterWithConfig E (snd pr) (Some content) file True restart (snd plan))"

lemma deref_simps [simp]: "deref None f = Panic NilDeref" "deref (Some a) f = f a"
  by (simp_all add: deref_def)

lemma deref_eq_Ret [simp]: "deref p f = Ret b \<longleftrightarrow> (\<exists>a. p = Some a \<and> f a = Ret b)"
  by (cases p) auto

lemma JoinCluster_plan: "dist_JoinCluster E pr s = gbind (join_plan pr) (\<lambda>plan. carry_out E pr plan s)"
proof -
  have assoc: "gbind (gbind m f) g = gbind m (\<lambda>a. gbind (f a) g)" for m :: "'x go" and f :: "'x \<Rightarrow> 'y go" and g :: "'y \<Rightarrow> 'z go"
    by (rule gbind_assoc)
  have push: "gbind (deref q f) g = deref q (\<lambda>a. gbind (f a) g)" for q :: "'x option" and f :: "'x \<Rightarrow> 'y go" and g :: "'y \<Rightarrow> 'z go"
    by (cases q) simp_all
  show ?thesis
    by (cases "fst pr")
      (simp_all add: dist_JoinCluster_def join_plan_def carry_out_def assoc push Let_def)
qed

section \<open>Joining by ssh\<close>

lemma sh_eq [simp]: "sh f c s = (f (c # snd s), fst s, c # snd s)"
  by (simp add: sh_def)

lemma joined_attempt_success:
  assumes "joined_attempt E p restart s = Ret ((True, None), s')"
  shows "snd s' = snd s \<and> (\<exists>n h. snd (fst s') = KNodeGet (pv_nodeName p) # h \<and> kans_node (fst E) (snd (fst s')) = (Some n, None))"
proof -
  from assms obtain node err k where g: "client_GetNode (fst E) (pv_nodeName p) (fst s) = Ret ((node, err), k)"
    and s': "err = None" "node \<noteq> None" "s' = (k, snd s)"
    by (auto simp: joined_attempt_def Let_def split: if_splits option.splits prod.splits)
  from g s' have "\<exists>h. snd k = KNodeGet (pv_nodeName p) # h \<and> kans_node (fst E) (snd k) = (node, None)"
    unfolding client_GetNode_def by (elim with_kube_cases) auto
  with s' show ?thesis by auto
qed

text \<open>The shell calls of the waiting loop restart the kubelet only.\<close>

definition restarts :: "kubernetesCommon \<Rightarrow> shell_calls \<Rightarrow> shell_calls \<Rightarrow> bool" where
  "restarts p h h' \<longleftrightarrow> (\<exists>n. h' = replicate n (ShSudo (pv_address p) ''systemctl restart kubelet'') @ h)"

lemma joined_attempt_restarts:
  assumes "restarts p h (snd s)"
  shows "holds (\<lambda>(r, s'). restarts p h (snd s')) (joined_attempt E p restart s)"
proof -
  have "restarts p h (ShSudo (pv_address p) ''systemctl restart kubelet'' # snd s)"
    using assms unfolding restarts_def by (metis append_Cons replicate_Suc)
  with assms show ?thesis
    by (auto simp: joined_attempt_def Let_def intro!: holdsI split: option.splits prod.splits if_splits)
qed

lemma wait_joined_success:
  assumes "wait_joined E p restart s = Ret (None, s')"
  shows "restarts p (snd s) (snd s')"
    "\<exists>n h. snd (fst s') = KNodeGet (pv_nodeName p) # h \<and> kans_node (fst E) (snd (fst s')) = (Some n, None)"
proof -
  obtain k forever where g: "gpoll k forever timeout_error (joined_attempt E p restart)
      ((fst (fst s), KPoll # snd (fst s)), snd s) = Ret (None, s')"
    using assms by (auto simp: wait_joined_def Let_def)
  have "restarts p (snd s) (snd ((fst (fst s), KPoll # snd (fst s)), snd s))"
    by (auto simp: restarts_def intro: exI [of _ 0])
  then obtain t where "restarts p (snd s) (snd t)" "joined_attempt E p restart t = Ret ((True, None), s')"
    using gpoll_success_inv [where I = "\<lambda>t. restarts p (snd s) (snd t)", OF joined_attempt_restarts _ g] by blast
  with joined_attempt_success [of E p restart t s'] show "restarts p (snd s) (snd s')"
    "\<exists>n h. snd (fst s') = KNodeGet (pv_nodeName p) # h \<and> kans_node (fst E) (snd (fst s')) = (Some n, None)"
    by simp_all
qed

text \<open>The shell calls of a plan, newest first: the file is copied before one shell runs everything.\<close>

definition plan_calls :: "dist_env \<Rightarrow> provider \<Rightarrow> plan \<Rightarrow> shell_calls \<Rightarrow> shell_calls" where
  "plan_calls E pr plan h =
     (let addr = pv_address (snd pr)
      in case fst plan of
           None \<Rightarrow> ShSudo addr (shell_command (snd plan)) # h
         | Some (file, content) \<Rightarrow>
             ShSudo addr (shell_command (copy_commands file @ snd plan)) #
             ShScp addr (temp_name (snd E) (ShCreateTemp # h)) tmpConfigDestinationFile # ShWriteTemp (to_yaml (snd E) content) # ShCreateTemp # h)"

text \<open>The file of a plan: created, written and copied to the address of the machine, each without an error.\<close>

definition file_copied :: "dist_env \<Rightarrow> provider \<Rightarrow> plan \<Rightarrow> shell_calls \<Rightarrow> bool" where
  "file_copied E pr plan h =
     (case fst plan of
        None \<Rightarrow> True
      | Some (file, content) \<Rightarrow>
          let created = ShCreateTemp # h;
              written = ShWriteTemp (to_yaml (snd E) content) # created
          in shans_err (snd E) created = None \<and> shans_err (snd E) written = None \<and>
             shans_err (snd E) (ShScp (pv_address (snd pr)) (temp_name (snd E) created) tmpConfigDestinationFile # written) = None)"

lemma executeCommands_success:
  assumes "executeCommands E p args restart True s = Ret (None, s')"
  shows "restarts p (ShSudo (pv_address p) (shell_command args) # snd s) (snd s')"
    "\<exists>n h. snd (fst s') = KNodeGet (pv_nodeName p) # h \<and> kans_node (fst E) (snd (fst s')) = (Some n, None)"
    "snd (shans_out (snd E) (ShSudo (pv_address p) (shell_command args) # snd s)) = None"
proof -
  let ?s = "(fst s, ShSudo (pv_address p) (shell_command args) # snd s)"
  have "wait_joined E p restart ?s = Ret (None, s') \<and> snd (shans_out (snd E) (snd ?s)) = None"
    using assms by (auto simp: executeCommands_def runCommands_def Let_def split: option.splits if_splits prod.splits)
  then show "restarts p (ShSudo (pv_address p) (shell_command args) # snd s) (snd s')"
    "\<exists>n h. snd (fst s') = KNodeGet (pv_nodeName p) # h \<and> kans_node (fst E) (snd (fst s')) = (Some n, None)"
    "snd (shans_out (snd E) (ShSudo (pv_address p) (shell_command args) # snd s)) = None"
    using wait_joined_success [of E p restart ?s s'] by auto
qed

text \<open>C23: Joining a cluster over ssh carries out the plan of the distribution: when it reports success, the configuration file of the plan, if it has one, was created and written on this side and copied to its temporary place on the machine, none of which failed, one shell has run the commands of the plan without an error, only restarts of the kubelet have followed, and the last request to the API server has found the node.\<close>

theorem JoinCluster_success:
  assumes "dist_JoinCluster E pr s = Ret (None, s')"
  shows "\<exists>plan. join_plan pr = Ret plan \<and> restarts (snd pr) (plan_calls E pr plan (snd s)) (snd s') \<and>
    file_copied E pr plan (snd s) \<and> snd (shans_out (snd E) (plan_calls E pr plan (snd s))) = None \<and>
    (\<exists>n h. snd (fst s') = KNodeGet (pv_nodeName (snd pr)) # h \<and> kans_node (fst E) (snd (fst s')) = (Some n, None))"
proof -
  from assms obtain plan where plan: "join_plan pr = Ret plan" and c: "carry_out E pr plan s = Ret (None, s')"
    by (auto simp: JoinCluster_plan)
  show ?thesis
  proof (cases "fst plan")
    case None
    with c executeCommands_success [of E "snd pr" "snd plan" "fst pr = Kubeadm" s s'] plan show ?thesis
      by (auto simp: carry_out_def plan_calls_def file_copied_def Let_def)
  next
    case (Some fc)
    obtain dest content where "fc = (dest, content)" by fastforce
    with Some have fst_plan: "fst plan = Some (dest, content)" by simp
    let ?s = "(fst s, ShScp (pv_address (snd pr)) (temp_name (snd E) (ShCreateTemp # snd s)) tmpConfigDestinationFile #
      ShWriteTemp (to_yaml (snd E) content) # ShCreateTemp # snd s)"
    have "executeCommands E (snd pr) (copy_commands dest @ snd plan) (fst pr = Kubeadm) True ?s = Ret (None, s')"
      and "file_copied E pr plan (snd s)"
      using c fst_plan by (auto simp: carry_out_def joinClusterWithConfig_def file_copied_def ToYAML_def Let_def split: option.splits)
    from executeCommands_success [OF this(1)] this(2) plan fst_plan show ?thesis
      by (auto simp: plan_calls_def Let_def)
  qed
qed

section \<open>Joining by cloud-init\<close>

text \<open>A list of a cloud-init document grows at its end; an absent list is empty.\<close>

definition appends :: "string \<Rightarrow> ci list \<Rightarrow> cloud_init \<Rightarrow> cloud_init \<Rightarrow> bool" where
  "appends key new c c' \<longleftrightarrow>
     (\<exists>v. gget c' key = Some (CList (v @ new)) \<and> (gget c key = Some (CList v) \<or> gget c key = None \<and> v = []))"

lemma appends_cong: "gget c key = gget d key \<Longrightarrow> gget c' key = gget d' key \<Longrightarrow> appends key new c c' = appends key new d d'"
  by (simp add: appends_def)

lemma AddRunCommand_adds:
  "AddRunCommand commands c = Ret c' \<Longrightarrow> appends ''runcmd'' (map CStr commands) c c'"
  by (auto simp: appends_def dest!: AddRunCommand_appends)

lemma AddToWriteFile_adds:
  assumes "AddToWriteFile cd content dest owner mode c = Ret c'"
  shows "appends ''write_files'' [file_entry cd content dest owner mode] c c'"
    "key \<noteq> ''write_files'' \<Longrightarrow> gget c' key = gget c key"
  using assms by (auto simp: AddToWriteFile_def appends_def gput_Ret Let_def split: option.splits ci.splits)

definition entry_of :: "codec \<Rightarrow> kubernetesCommon \<Rightarrow> string \<Rightarrow> string \<Rightarrow> ci" where
  "entry_of cd p out dest = file_entry cd out dest (cfg_CloudInitFileOwner (jc_server (configuration p)))
     (GetCloudInitFileMode (configuration p))"

lemma write_object_success:
  assumes "write_object cd p (Some content) dest c = Ret (None, c')"
  obtains out where "yaml cd content = Inr out" "appends ''write_files'' [entry_of cd p out dest] c c'"
    "\<And>key. key \<noteq> ''write_files'' \<Longrightarrow> gget c' key = gget c key"
  using assms
  by (auto simp: write_object_def AddObjectToWriteFile_def entry_of_def Let_def split: sum.splits
      dest: AddToWriteFile_adds)

text \<open>The document a plan asks for.\<close>

definition documented :: "codec \<Rightarrow> kubernetesCommon \<Rightarrow> plan \<Rightarrow> cloud_init \<Rightarrow> cloud_init \<Rightarrow> bool" where
  "documented cd p plan c c' \<longleftrightarrow>
     appends ''runcmd'' (map CStr (snd plan)) c c' \<and>
     (case fst plan of
        None \<Rightarrow> gget c' ''write_files'' = gget c ''write_files''
      | Some (dest, content) \<Rightarrow>
          \<exists>out. yaml cd content = Inr out \<and> appends ''write_files'' [entry_of cd p out dest] c c') \<and>
     (\<forall>key. key \<noteq> ''runcmd'' \<and> key \<noteq> ''write_files'' \<longrightarrow> gget c' key = gget c key)"

lemma documented_commands:
  "AddRunCommand commands c = Ret c' \<Longrightarrow> documented cd p (None, commands) c c'"
  by (simp add: documented_def AddRunCommand_adds AddRunCommand_others)

lemma documented_file:
  assumes "write_object cd p (Some content) dest c = Ret (None, c1)" "AddRunCommand commands c1 = Ret c'"
  shows "documented cd p (Some (dest, content), commands) c c'"
  using assms(1)
proof (rule write_object_success)
  fix out assume out: "yaml cd content = Inr out" "appends ''write_files'' [entry_of cd p out dest] c c1"
    "\<And>key. key \<noteq> ''write_files'' \<Longrightarrow> gget c1 key = gget c key"
  have "gget c' ''write_files'' = gget c1 ''write_files''" by (rule AddRunCommand_others [OF assms(2)]) simp
  then have "appends ''write_files'' [entry_of cd p out dest] c c'" using out(2) by (simp add: appends_def)
  moreover have "appends ''runcmd'' (map CStr commands) c c'"
    using AddRunCommand_adds [OF assms(2)] out(3) [of "''runcmd''"] by (simp add: appends_def)
  ultimately show ?thesis
    using out AddRunCommand_others [OF assms(2)] by (auto simp: documented_def)
qed

text \<open>C24: For every distribution but MicroK8s the cloud-init document carries out the same plan as ssh: it gains exactly the configuration file and the commands of the plan, at the end of its lists, and keeps everything else.\<close>

theorem PutConfigInCloudInit_success:
  assumes "dist_PutConfigInCloudInit cd pr c = Ret (None, c')" "fst pr \<noteq> Microk8s"
  shows "\<exists>plan. join_plan pr = Ret plan \<and> documented cd (snd pr) plan c c'"
proof (cases "fst pr")
  case Microk8s
  with assms(2) show ?thesis by simp
next
  case K3s
  with assms(1) show ?thesis
    by (auto simp: dist_PutConfigInCloudInit_def join_plan_def intro: documented_commands)
next
  case Kubeadm
  with assms(1) show ?thesis
    by (auto simp: dist_PutConfigInCloudInit_def join_plan_def Let_def split: if_splits intro: documented_file)
next
  case Rke2
  with assms(1) show ?thesis
    by (auto simp: dist_PutConfigInCloudInit_def put_file_and_commands_def join_plan_def Let_def split: if_splits
        intro: documented_file)
next
  case External
  with assms(1) show ?thesis
    by (auto simp: dist_PutConfigInCloudInit_def put_file_and_commands_def join_plan_def Let_def split: if_splits
        intro: documented_file)
qed

section \<open>Passwords of former nodes\<close>

lemma PrepareNodeCreation_success:
  assumes "dist_PrepareNodeCreation E pr s = Ret (None, s')" "fst pr = K3s \<or> fst pr = Rke2"
    and "kubeOnce (fst (fst s))" "kubeClient (fst (fst s))"
  defines "secret \<equiv> pv_nodeName (snd pr) @ (if fst pr = K3s then ''.node-password.k3s'' else ''.node-password.rke2'')"
  defines "asked \<equiv> KSecretGet ''kube-system'' secret # snd (fst s)"
  shows "snd (fst s') = asked \<and> (\<exists>e. kans_secret (fst E) asked = Inl e) \<or>
    snd (fst s') = KSecretDelete ''kube-system'' secret # asked \<and> kans_err (fst E) (snd (fst s')) = None"
proof -
  have "dist_PrepareNodeCreation E pr s = drop_password E
      (if fst pr = K3s then k3sPasswordNodeSecret else rke2PasswordNodeSecret) (snd pr) s"
    using assms(2) by (auto simp: dist_PrepareNodeCreation_def)
  moreover have "Sprintf (if fst pr = K3s then k3sPasswordNodeSecret else rke2PasswordNodeSecret) [pv_nodeName (snd pr)] = secret"
    by (simp add: secret_def k3sPasswordNodeSecret_def rke2PasswordNodeSecret_def)
  ultimately show ?thesis using assms(1,3,4)
    by (cases s) (auto simp: drop_password_def client_GetSecret_def client_DeleteSecret_def with_kube_def
        KubeClient_def kube_once_def asked_def kubeSystemNamespace_def Let_def split: sum.splits)
qed

section \<open>Configurations that panic\<close>

lemma override_panics:
  assumes "\<exists>(k, v) \<in> set entries. (k = ''extraKubeletArgs'' \<or> k = ''extraKubeAPIServerArgs'') \<and> (\<exists>c. v = NotMapAny c)"
  shows "gfold microk8s_override entries s = Panic BadTypeAssertion"
  using assms
proof (induction entries arbitrary: s)
  case (Cons e es)
  show ?case
  proof (cases "microk8s_override e s")
    case (Ret t)
    then have "\<exists>(k, v) \<in> set es. (k = ''extraKubeletArgs'' \<or> k = ''extraKubeAPIServerArgs'') \<and> (\<exists>c. v = NotMapAny c)"
      using Cons.prems by (auto simp: microk8s_override_def split: prod.splits)
    with Cons.IH Ret show ?thesis by simp
  next
    case (Panic q)
    then have "q = BadTypeAssertion"
      by (auto simp: microk8s_override_def Let_def split: prod.splits if_splits dynamic.splits)
    with Panic show ?thesis by simp
  next
    case Diverge
    then show ?thesis
      by (auto simp: microk8s_override_def Let_def split: prod.splits if_splits dynamic.splits)
  qed
qed simp

theorem microk8s_override_panics:
  assumes "fst pr = Microk8s" "jc_MicroK8S (configuration (snd pr)) = Some m"
    and "(k, NotMapAny v) \<in> set (gentries (j_OverrideConfig m))"
    and "k = ''extraKubeletArgs'' \<or> k = ''extraKubeAPIServerArgs''"
  shows "dist_JoinCluster E pr s = Panic BadTypeAssertion"
proof -
  have "gfold microk8s_override (gentries (j_OverrideConfig m)) t = Panic BadTypeAssertion" for t
    using assms(3,4) by (intro override_panics) auto
  with assms(1,2) show ?thesis by (simp add: dist_JoinCluster_def microk8s_agentConfig_def)
qed

lemma rke2_extra_simps:
  "CHR ''='' \<notin> set cmd \<Longrightarrow> rke2_extra cmd m = Panic IndexOutOfRange"
  "m \<noteq> None \<Longrightarrow> CHR ''='' \<in> set cmd \<Longrightarrow> \<exists>m'. rke2_extra cmd m = Ret m' \<and> m' \<noteq> None"
proof -
  show "CHR ''='' \<notin> set cmd \<Longrightarrow> rke2_extra cmd m = Panic IndexOutOfRange"
    by (simp add: rke2_extra_def Split_absent)
  assume m: "m \<noteq> None" and "CHR ''='' \<in> set cmd"
  then obtain k v where "cmd = k @ CHR ''='' # v" "CHR ''='' \<notin> set k" by (meson split_list_first)
  moreover obtain w ws where "Split (CHR ''='') v = w # ws" by (cases "Split (CHR ''='') v") auto
  ultimately show "\<exists>m'. rke2_extra cmd m = Ret m' \<and> m' \<noteq> None"
    using m by (simp add: rke2_extra_def Split_first gput_not_nil)
qed

lemma rke2_extras:
  "m \<noteq> None \<Longrightarrow> (if \<forall>cmd\<in>set cmds. CHR ''='' \<in> set cmd then \<exists>m'. gfold rke2_extra cmds m = Ret m'
     else gfold rke2_extra cmds m = Panic IndexOutOfRange)"
proof (induction cmds arbitrary: m)
  case (Cons c cs)
  show ?case
  proof (cases "CHR ''='' \<in> set c")
    case True
    then obtain m' where m': "rke2_extra c m = Ret m'" "m' \<noteq> None"
      using rke2_extra_simps(2) [OF Cons.prems] by blast
    from Cons.IH [OF m'(2)] m'(1) True show ?thesis by simp
  next
    case False
    then show ?thesis using rke2_extra_simps(1) [of c m] by simp
  qed
qed simp

theorem rke2_extra_commands:
  assumes "jc_RKE2 (configuration p) = Some r"
  shows "if \<forall>cmd\<in>set (rke2_ExtraCommands r). CHR ''='' \<in> set cmd then \<exists>m. rke2_agentConfig p = Ret m
    else rke2_agentConfig p = Panic IndexOutOfRange"
  unfolding rke2_agentConfig_def assms deref_simps Let_def
  by (rule rke2_extras) simp

section \<open>The theorems at concrete inputs\<close>

definition sample_k3s :: K3SJoinConfig where
  "sample_k3s = \<lparr>j_Address = ''10.0.0.2:6443'', j_Token = ''tok'', j_DatastoreEndpoint = '''', k3s_ExtraCommands = []\<rparr>"

definition sample_rke2 :: RKE2JoinConfig where
  "sample_rke2 = \<lparr>j_Address = ''10.0.0.2:9345'', j_Token = ''tok'', j_DatastoreEndpoint = '''', rke2_ExtraCommands = [''debug'']\<rparr>"

definition sample_microk8s :: MicroK8SJoinConfig where
  "sample_microk8s = \<lparr>j_Address = ''10.0.0.2:25000'', j_Token = ''tok'', j_DatastoreEndpoint = '''', j_UseLoadBalancer = False,
     j_LoadBalancerAddresses = [], j_Channel = ''latest/stable'',
     j_OverrideConfig = Some [(''extraKubeletArgs'', NotMapAny (CMap [(''--v'', CStr ''4'')]))]\<rparr>"

definition sample_join_config :: join_config where
  "sample_join_config = \<lparr>jc_server = sample_config\<lparr>cfg_Distribution := Some ''k3s''\<rparr>, jc_KubeAdm = None,
     jc_K3S = Some sample_k3s, jc_RKE2 = Some sample_rke2, jc_MicroK8S = Some sample_microk8s, jc_External = None,
     jc_CloudInitFileMode = None, jc_ImageCredentialProviderBinDir = None, jc_CredentialProviderConfig = None\<rparr>"

definition sample_provider :: provider where
  "sample_provider = NewKubernetesProvider sample_join_config False 110 ''n1'' ''provider://n1'' ''10.0.0.1''"

definition sample_shell :: shell_env where
  "sample_shell = \<lparr>shans_err = \<lambda>_. None, shans_out = \<lambda>_. ('''', None), temp_name = \<lambda>_. ''/tmp/config.1.yaml'',
     to_yaml = \<lambda>_. ''yaml''\<rparr>"

definition sample_documents :: codec where
  "sample_documents = \<lparr>gzip64 = \<lambda>_ content. content, yaml = \<lambda>_. Inr ''yaml'', public_key = \<lambda>_. Inr ''key''\<rparr>"

lemma sample_provider_K3s: "fst sample_provider = K3s" by code_simp

theorem JoinCluster_success_witness:
  "\<exists>s' plan. dist_JoinCluster (sample_kube_env, sample_shell) sample_provider (sample_kube, []) = Ret (None, s') \<and>
     join_plan sample_provider = Ret plan \<and>
     restarts (snd sample_provider) (plan_calls (sample_kube_env, sample_shell) sample_provider plan []) (snd s')"
proof -
  let ?E = "(sample_kube_env, sample_shell)"
  have "yields (\<lambda>(e, s'). e = None) (dist_JoinCluster ?E sample_provider (sample_kube, []))" by code_simp
  then show ?thesis
  proof (rule no_error)
    fix s' assume r: "dist_JoinCluster ?E sample_provider (sample_kube, []) = Ret (None, s')"
    from JoinCluster_success [OF r] r show ?thesis by auto
  qed
qed

theorem PutConfigInCloudInit_success_witness:
  "\<exists>c' plan. dist_PutConfigInCloudInit sample_documents sample_provider gmake = Ret (None, c') \<and>
     join_plan sample_provider = Ret plan \<and> documented sample_documents (snd sample_provider) plan gmake c'"
proof -
  have "yields (\<lambda>(e, s'). e = None) (dist_PutConfigInCloudInit sample_documents sample_provider gmake)" by code_simp
  then show ?thesis
  proof (rule no_error)
    fix c' assume r: "dist_PutConfigInCloudInit sample_documents sample_provider gmake = Ret (None, c')"
    have "fst sample_provider \<noteq> Microk8s" by (simp add: sample_provider_K3s)
    from PutConfigInCloudInit_success [OF r this] r show ?thesis by auto
  qed
qed

theorem microk8s_override_panics_witness:
  "dist_JoinCluster (sample_kube_env, sample_shell) (Microk8s, snd sample_provider) (sample_kube, []) = Panic BadTypeAssertion"
  by (rule microk8s_override_panics [of _ sample_microk8s "''extraKubeletArgs''" "CMap [(''--v'', CStr ''4'')]"])
    (simp_all add: sample_provider_def NewKubernetesProvider_def sample_join_config_def sample_microk8s_def Let_def)

theorem rke2_extra_commands_witness: "rke2_agentConfig (snd sample_provider) = Panic IndexOutOfRange"
  using rke2_extra_commands [of "snd sample_provider" sample_rke2]
  by (simp add: sample_provider_def NewKubernetesProvider_def sample_join_config_def sample_rke2_def Let_def)

end
