(* ===== verification/Document_Types.thy ===== *)
theory Document_Types
  imports Distributions_Facts
begin

text \<open>
  The dynamic types of a cloud-init document. The lists of commands and of files are values of type
  \<^verbatim>\<open>any\<close> that every operation asserts to be lists; a document whose two entries are lists
  passes every assertion, from the join of a distribution to the user data.
\<close>

section \<open>Well-typed documents\<close>

definition list_entry :: "string \<Rightarrow> cloud_init \<Rightarrow> bool" where
  "list_entry key c \<longleftrightarrow> (case gget c key of Some v \<Rightarrow> (case v of CList xs \<Rightarrow> True | _ \<Rightarrow> False) | None \<Rightarrow> True)"

definition doc_typed :: "cloud_init \<Rightarrow> bool" where
  "doc_typed c \<longleftrightarrow> c \<noteq> None \<and> gwf c \<and> list_entry ''runcmd'' c \<and> list_entry ''write_files'' c"

text \<open>A computation that may panic, but neither for a type assertion nor for a write to a nil map.\<close>

definition type_safe :: "('a \<Rightarrow> bool) \<Rightarrow> 'a go \<Rightarrow> bool" where
  "type_safe Q m \<longleftrightarrow> (case m of Ret a \<Rightarrow> Q a | Panic p \<Rightarrow> p \<noteq> BadTypeAssertion \<and> p \<noteq> NilMapWrite | Diverge \<Rightarrow> False)"

lemma type_safe_simps [simp]:
  "type_safe Q (Ret a) = Q a" "type_safe Q (Panic p) = (p \<noteq> BadTypeAssertion \<and> p \<noteq> NilMapWrite)" "\<not> type_safe Q Diverge"
  by (simp_all add: type_safe_def)

lemma type_safe_gbind: "type_safe P m \<Longrightarrow> (\<And>a. P a \<Longrightarrow> type_safe Q (f a)) \<Longrightarrow> type_safe Q (gbind m f)"
  by (cases m) simp_all

lemma type_safe_gfold:
  "(\<And>x s. x \<in> set xs \<Longrightarrow> I s \<Longrightarrow> type_safe I (f x s)) \<Longrightarrow> I s \<Longrightarrow> type_safe I (gfold f xs s)"
  by (induction xs arbitrary: s) (auto intro!: type_safe_gbind [where P = I])

lemma type_safe_mono: "type_safe P m \<Longrightarrow> (\<And>a. P a \<Longrightarrow> Q a) \<Longrightarrow> type_safe Q m"
  by (cases m) simp_all

lemma list_entry_gset [simp]: "list_entry key (gset k v c) = (if k = key then (\<exists>xs. v = CList xs) else list_entry key c)"
  by (auto simp: list_entry_def split: ci.splits)

section \<open>The operations on documents\<close>

lemma AddRunCommand_typed: "doc_typed c \<Longrightarrow> \<exists>d. AddRunCommand commands c = Ret d \<and> doc_typed d"
  by (auto simp: AddRunCommand_def doc_typed_def list_entry_def gput_not_nil split: option.splits ci.splits)

lemma AddToWriteFile_typed: "doc_typed c \<Longrightarrow> \<exists>d. AddToWriteFile cd out dest owner mode c = Ret d \<and> doc_typed d"
  by (auto simp: AddToWriteFile_def doc_typed_def list_entry_def gput_not_nil Let_def split: option.splits ci.splits)

lemma write_object_typed: "doc_typed c \<Longrightarrow> \<exists>err d. write_object cd p content dest c = Ret (err, d) \<and> doc_typed d"
  using AddToWriteFile_typed [of c cd _ dest]
  by (fastforce simp: write_object_def AddObjectToWriteFile_def split: sum.split)

text \<open>The user data built from a well-typed document, or from none.\<close>

lemma BuildUserData_typed:
  assumes "doc_typed (ci_CloudInit i) \<or> ci_CloudInit i = None"
  shows "\<exists>err d. BuildUserData cd i netplan = Ret (err, d) \<and> doc_typed d"
proof -
  define v where "v = gmerge (ci_CloudInit i) (Some [(''package_update'', CBool (ci_AllowUpgrade i)),
    (''package_upgrade'', CBool (ci_AllowUpgrade i)), (''timezone'', CStr (ci_TimeZone i))])"
  have "v \<noteq> None"
    unfolding v_def gmerge_def by (rule fold_invariant [where Q = "\<lambda>_. True"]) auto
  moreover have "gwf v" unfolding v_def by (rule gwf_gmerge) (simp add: gwf_def)
  moreover have "gget v key = gget (ci_CloudInit i) key" if "key = ''runcmd'' \<or> key = ''write_files''" for key
  proof -
    have "gwf (ci_CloudInit i)" using assms by (auto simp: doc_typed_def)
    from gget_gmerge [OF this] that show ?thesis
      unfolding v_def by (auto simp: gget_def split: option.split)
  qed
  moreover have "list_entry key (ci_CloudInit i)" if "key = ''runcmd'' \<or> key = ''write_files''" for key
    using assms that by (auto simp: doc_typed_def list_entry_def gget_def)
  ultimately have "doc_typed v"
    unfolding doc_typed_def list_entry_def by simp
  from AddRunCommand_typed [OF this] obtain d where d: "AddRunCommand [''netplan apply''] v = Ret d" "doc_typed d" by blast
  from AddToWriteFile_typed [OF d(2)] d show ?thesis
    by (fastforce simp: BuildUserData_def v_def Let_def AddObjectToWriteFile_def split: sum.split)
qed

section \<open>The configurations of the distributions\<close>

lemma type_safe_deref [intro!]: "(\<And>a. p = Some a \<Longrightarrow> type_safe Q (f a)) \<Longrightarrow> type_safe Q (deref p f)"
  by (cases p) (simp_all add: deref_def)

lemma rke2_agentConfig_safe: "type_safe (\<lambda>m. True) (rke2_agentConfig p)"
proof -
  have "type_safe (\<lambda>m. m \<noteq> None) (rke2_extra cmd m)" if "m \<noteq> None" for cmd m
    using that by (auto simp: rke2_extra_def gput_not_nil split: list.split)
  then have "m \<noteq> None \<Longrightarrow> type_safe (\<lambda>m. m \<noteq> None) (gfold rke2_extra xs m)" for xs m
    by (rule type_safe_gfold)
  then have "m \<noteq> None \<Longrightarrow> type_safe (\<lambda>m. True) (gfold rke2_extra xs m)" for xs m
    by (rule type_safe_mono) simp_all
  then show ?thesis by (auto simp: rke2_agentConfig_def Let_def)
qed

text \<open>The override of MicroK8s carries its arguments, if any, in maps of the type the code asserts.\<close>

definition override_typed :: "provider \<Rightarrow> bool" where
  "override_typed pr \<longleftrightarrow> (case jc_MicroK8S (configuration (snd pr)) of None \<Rightarrow> True | Some microk8s \<Rightarrow>
     list_all (\<lambda>(k, v). k \<notin> {''extraKubeletArgs'', ''extraKubeAPIServerArgs''} \<or> (case v of IsMapAny _ \<Rightarrow> True | NotMapAny _ \<Rightarrow> False))
       (gentries (j_OverrideConfig microk8s)))"

lemma microk8s_agentConfig_safe:
  assumes "override_typed pr" "jc_MicroK8S (configuration (snd pr)) = Some microk8s"
  shows "type_safe (\<lambda>m. True) (microk8s_agentConfig (snd pr) microk8s)"
proof -
  have "type_safe (\<lambda>m. True) (microk8s_override entry s)" if "entry \<in> set (gentries (j_OverrideConfig microk8s))" for entry s
    using assms that
    by (cases entry; cases s) (auto simp: override_typed_def microk8s_override_def list_all_iff split: dynamic.splits)
  then show ?thesis
    unfolding microk8s_agentConfig_def
    by (intro type_safe_gbind [where P = "\<lambda>m. True"] type_safe_gfold) (auto simp: Let_def)
qed

text \<open>A file, then commands.\<close>

lemma file_then_typed:
  assumes "doc_typed c" "\<And>d. doc_typed d \<Longrightarrow> type_safe (\<lambda>(err, d). doc_typed d) (next_step d)"
  shows "type_safe (\<lambda>(err, d). doc_typed d)
    (gbind (write_object cd p content dest c) (\<lambda>(err, d). if err \<noteq> None then Ret (err, d) else next_step d))"
proof -
  from write_object_typed [OF assms(1)] obtain err d where "write_object cd p content dest c = Ret (err, d)" "doc_typed d" by blast
  with assms(2) [of d] show ?thesis by simp
qed

lemma commands_typed:
  assumes "doc_typed c"
  shows "type_safe (\<lambda>(err, d). doc_typed d) (gbind (AddRunCommand commands c) (\<lambda>d. Ret (None, d)))"
  using AddRunCommand_typed [OF assms, of commands] by auto

lemma PutConfigInCloudInit_safe:
  assumes "doc_typed c" "fst pr = Microk8s \<Longrightarrow> override_typed pr"
  shows "type_safe (\<lambda>(err, d). doc_typed d) (dist_PutConfigInCloudInit cd pr c)"
proof (cases "fst pr")
  case Kubeadm
  have "type_safe (\<lambda>m. True) (kubeadm_joinCommand p)" for p by (auto simp: kubeadm_joinCommand_def Let_def)
  with Kubeadm assms(1) show ?thesis
    by (auto simp: dist_PutConfigInCloudInit_def Let_def simp del: not_None_eq
        intro!: file_then_typed type_safe_gbind [where P = "\<lambda>m. True" and m = "kubeadm_joinCommand _"] commands_typed)
next
  case K3s
  have "type_safe (\<lambda>m. True) (k3s_agentCommand p)" for p by (auto simp: k3s_agentCommand_def)
  with K3s assms(1) show ?thesis
    by (auto simp: dist_PutConfigInCloudInit_def Let_def
        intro!: type_safe_gbind [where P = "\<lambda>m. True" and m = "k3s_agentCommand _"] commands_typed)
next
  case Rke2
  with assms(1) show ?thesis
    by (auto simp: dist_PutConfigInCloudInit_def put_file_and_commands_def Let_def simp del: not_None_eq
        intro!: file_then_typed type_safe_gbind [OF rke2_agentConfig_safe] commands_typed)
next
  case External
  with assms(1) show ?thesis
    by (auto simp: dist_PutConfigInCloudInit_def put_file_and_commands_def Let_def simp del: not_None_eq
        intro!: file_then_typed commands_typed)
next
  case Microk8s
  have w: "type_safe doc_typed (gbind (write_object cd p content dest c) (\<lambda>(err, d). f d))"
    if "doc_typed c" "\<And>d. doc_typed d \<Longrightarrow> type_safe doc_typed (f d)" for p content dest c f
    using write_object_typed [OF that(1), of cd p content dest] that(2) by auto
  have last: "type_safe (\<lambda>(err, d). doc_typed d) (gbind (microk8s_agentConfig (snd pr) microk8s) (\<lambda>agent.
      gbind (write_object cd (snd pr) (Some (CMap (gentries agent))) microk8s_config_file d) (\<lambda>(err, d).
        if err \<noteq> None then Ret (err, d) else gbind (AddRunCommand commands d) (\<lambda>d. Ret (None, d)))))"
    if "jc_MicroK8S (configuration (snd pr)) = Some microk8s" "doc_typed d" for microk8s d commands
    by (rule type_safe_gbind [OF microk8s_agentConfig_safe [OF assms(2) [OF Microk8s] that(1)]]) (intro file_then_typed commands_typed that(2))
  show ?thesis
    unfolding dist_PutConfigInCloudInit_def microk8s_PutConfigInCloudInit_def Microk8s Let_def distribution.case
  proof (intro type_safe_deref, goal_cases)
    case (1 microk8s)
    from AddToWriteFile_typed [OF assms(1), of cd "join_script microk8s" "''/usr/local/bin/join-cluster.sh''"
        "cfg_CloudInitFileOwner (jc_server (configuration (snd pr)))" 493]
    obtain d where d: "AddTextToWriteFile cd (join_script microk8s) ''/usr/local/bin/join-cluster.sh''
        (cfg_CloudInitFileOwner (jc_server (configuration (snd pr)))) 493 c = Ret d" "doc_typed d"
      by (auto simp: AddTextToWriteFile_def)
    show ?case
      unfolding d(1) gbind.simps
      by (rule type_safe_gbind [where P = doc_typed]) (auto intro!: w d(2) last [OF 1] simp del: not_None_eq)
  qed
qed

text \<open>
  Putting the configuration of a distribution (of MicroK8s: without an override of another type) in a well-typed
  document gives a well-typed document, without a failed type assertion and without a write to a nil map; the user data built from
  the result is a document too.
\<close>


text \<open>The sample provider without an override, and the input made of a document.\<close>

definition sample_typed_provider :: provider where
  "sample_typed_provider = NewKubernetesProvider (sample_join_config\<lparr>jc_MicroK8S := None\<rparr>) False 110 ''n1'' ''provider://n1'' ''10.0.0.1''"

definition sample_init :: "cloud_init \<Rightarrow> cloud_init_input" where
  "sample_init d = \<lparr>ci_InstanceName = ''n1'', ci_UserName = [], ci_AuthKey = [], ci_TimeZone = ''UTC'', ci_AllowUpgrade = False,
     ci_Network = CNull, ci_CloudInit = d\<rparr>"


end
