(* ===== verification/Startup.thy ===== *)
theory Startup
  imports Server Cluster_Client "HOL-Library.Word"
begin

text \<open>
  Model of the start of the process: \<^verbatim>\<open>main.go\<close>, the command line of \<^verbatim>\<open>types/types.go\<close>, \<^verbatim>\<open>StartServer\<close> and
  \<^verbatim>\<open>runServer\<close> of \<^verbatim>\<open>server/server.go\<close> up to the point where requests are answered, and the checks of
  \<^verbatim>\<open>utils/utils.go\<close> on the files the server needs. A message that stops the process
  (\<^verbatim>\<open>glog.Fatalf\<close>) is the left value of a result. What the command line library has read, the decoded
  files, the sockets and the certificates are the environment \<open>boot_env\<close>.
\<close>

section \<open>The command line\<close>

record command = flags +
  cm_APIServerURL :: string
  cm_KubeConfig :: string
  cm_ProviderConfig :: string
  cm_MachineConfig :: string
  cm_Listen :: string
  cm_ExtDestinationEtcdSslDir :: string
  cm_ExtSourceEtcdSslDir :: string
  cm_KubernetesPKISourceDir :: string
  cm_KubernetesPKIDestDir :: string
  cm_Distribution :: string
  cm_UseExternalEtdc :: bool
  cm_UseEtcHosts :: bool
  cm_UseCloudInitConfig :: bool
  cm_CloudInitFileOwner :: string
  cm_CloudInitFileMode :: int
  cm_GrpcProvider :: string
  cm_CloudProvider :: string
  cm_Nodegroup :: string
  cm_RequestTimeout :: int
  cm_DeletionTimeout :: int
  cm_MaxGracePeriod :: int
  cm_NodeReadyTimeout :: int
  cm_Plateform :: string
  cm_Config :: string
  cm_SaveLocation :: string
  cm_DisplayVersion :: bool
  cm_DebugMode :: bool
  cm_AllowUpgrade :: bool
  cm_LogFormat :: string
  cm_LogLevel :: string
  cm_MaxPods :: int
  cm_ImageCredentialProviderConfig :: string
  cm_ImageCredentialProviderBinDir :: string

definition DefaultMaxGracePeriod :: int where
  "DefaultMaxGracePeriod = 120 * second"

definition DefaultMaxDeletionPeriod :: int where
  "DefaultMaxDeletionPeriod = 300 * second"

definition DefaultNodeReadyTimeout :: int where
  "DefaultNodeReadyTimeout = 300 * second"

definition NewConfig :: command where
  "NewConfig =
     \<lparr>MinNode = 0, MaxNode = 24, MinCpus = 2, MaxCpus = 24, MinMemory = 1024, MaxMemory = 24 * 1024,
      ManagedNodeMinCpus = 2, ManagedNodeMaxCpus = 32, ManagedNodeMinMemory = 2 * 1024, ManagedNodeMaxMemory = 128 * 1024,
      ManagedNodeMinDiskSize = ManagedNodeMinDiskSizeDefault, ManagedNodeMaxDiskSize = ManagedNodeMaxDiskSizeDefault,
      cm_APIServerURL = [], cm_KubeConfig = [], cm_ProviderConfig = ''/etc/cluster/provider.json'',
      cm_MachineConfig = ''/etc/cluster/machines.json'', cm_Listen = ''unix:///var/run/autoscaler.sock'',
      cm_ExtDestinationEtcdSslDir = ''/etc/etcd/ssl'', cm_ExtSourceEtcdSslDir = ''/etc/etcd/ssl'',
      cm_KubernetesPKISourceDir = ''/etc/kubernetes/pki'', cm_KubernetesPKIDestDir = ''/etc/kubernetes/pki'',
      cm_Distribution = KubeAdmDistributionName, cm_UseExternalEtdc = False, cm_UseEtcHosts = False,
      cm_UseCloudInitConfig = False, cm_CloudInitFileOwner = ''root:adm'', cm_CloudInitFileMode = 420,
      cm_GrpcProvider = ''grpc'', cm_CloudProvider = [], cm_Nodegroup = [], cm_RequestTimeout = DefaultMaxRequestTimeout,
      cm_DeletionTimeout = DefaultMaxDeletionPeriod, cm_MaxGracePeriod = DefaultMaxGracePeriod,
      cm_NodeReadyTimeout = DefaultNodeReadyTimeout, cm_Plateform = ''vsphere'', cm_Config = ''/etc/cluster/autoscaler.json'',
      cm_SaveLocation = [], cm_DisplayVersion = False, cm_DebugMode = False, cm_AllowUpgrade = False,
      cm_LogFormat = ''text'', cm_LogLevel = ''info'', cm_MaxPods = 110,
      cm_ImageCredentialProviderConfig = [], cm_ImageCredentialProviderBinDir = []\<rparr>"

text \<open>
  What the library answers for a flag, given its name and its default; it may refuse the arguments.
\<close>

record arguments =
  arg_text :: "string \<Rightarrow> string \<Rightarrow> string"
  arg_bool :: "string \<Rightarrow> bool \<Rightarrow> bool"
  arg_int :: "string \<Rightarrow> int \<Rightarrow> int"
  arg_duration :: "string \<Rightarrow> int \<Rightarrow> int"
  arg_error :: "error option"

definition ParseFlags :: "arguments \<Rightarrow> command \<Rightarrow> error + command" where
  "ParseFlags args cfg =
     (case arg_error args of
        Some e \<Rightarrow> Inl e
      | None \<Rightarrow> Inr
         \<lparr>MinNode = arg_int args ''min-nodes'' (MinNode cfg),
          MaxNode = arg_int args ''max-nodes'' (MaxNode cfg),
          MinCpus = arg_int args ''min-cpus'' (MinCpus cfg),
          MaxCpus = arg_int args ''max-cpus'' (MaxCpus cfg),
          MinMemory = arg_int args ''min-memory'' (MinMemory cfg),
          MaxMemory = arg_int args ''max-memory'' (MaxMemory cfg),
          ManagedNodeMinCpus = arg_int args ''min-managednode-cpus'' (MinCpus cfg),
          ManagedNodeMaxCpus = arg_int args ''max-managednode-cpus'' (ManagedNodeMaxCpus cfg),
          ManagedNodeMinMemory = arg_int args ''min-managednode-memory'' (MinMemory cfg),
          ManagedNodeMaxMemory = arg_int args ''max-managednode-memory'' (ManagedNodeMaxMemory cfg),
          ManagedNodeMinDiskSize = arg_int args ''min-managednode-disksize'' (ManagedNodeMinDiskSize cfg),
          ManagedNodeMaxDiskSize = arg_int args ''max-managednode-disksize'' (ManagedNodeMaxDiskSize cfg),
          cm_APIServerURL = arg_text args ''server'' (cm_APIServerURL cfg),
          cm_KubeConfig = arg_text args ''kubeconfig'' (cm_KubeConfig cfg),
          cm_ProviderConfig = arg_text args ''plateform-config'' (cm_ProviderConfig cfg),
          cm_MachineConfig = arg_text args ''machines'' (cm_MachineConfig cfg),
          cm_Listen = arg_text args ''listen'' (cm_Listen cfg),
          cm_ExtDestinationEtcdSslDir = arg_text args ''dst-etcd-ssl-dir'' (cm_ExtDestinationEtcdSslDir cfg),
          cm_ExtSourceEtcdSslDir = arg_text args ''src-etcd-ssl-dir'' (cm_ExtSourceEtcdSslDir cfg),
          cm_KubernetesPKISourceDir = arg_text args ''kubernetes-pki-srcdir'' (cm_KubernetesPKISourceDir cfg),
          cm_KubernetesPKIDestDir = arg_text args ''kubernetes-pki-dstdir'' (cm_KubernetesPKIDestDir cfg),
          cm_Distribution = arg_text args ''distribution'' (cm_Distribution cfg),
          cm_UseExternalEtdc = arg_bool args ''use-external-etcd'' False,
          cm_UseEtcHosts = arg_bool args ''use-etc-hosts'' False,
          cm_UseCloudInitConfig = arg_bool args ''use-cloudinit-config'' False,
          cm_CloudInitFileOwner = arg_text args ''cloudinit-file-owner'' (cm_CloudInitFileOwner cfg),
          cm_CloudInitFileMode = arg_int args ''cloudinit-file-mode'' (cm_CloudInitFileMode cfg),
          cm_GrpcProvider = arg_text args ''grpc-provider'' (cm_GrpcProvider cfg),
          cm_CloudProvider = arg_text args ''cloud-provider'' (cm_CloudProvider cfg),
          cm_Nodegroup = arg_text args ''nodegroup'' (cm_Nodegroup cfg),
          cm_RequestTimeout = arg_duration args ''request-timeout'' DefaultMaxRequestTimeout,
          cm_DeletionTimeout = arg_duration args ''deletion-timeout'' DefaultMaxDeletionPeriod,
          cm_MaxGracePeriod = arg_duration args ''max-grace-period'' DefaultMaxGracePeriod,
          cm_NodeReadyTimeout = arg_duration args ''node-ready-timeout'' DefaultNodeReadyTimeout,
          cm_Plateform = arg_text args ''plateform'' (cm_Plateform cfg),
          cm_Config = arg_text args ''config'' (cm_Config cfg),
          cm_SaveLocation = arg_text args ''save'' (cm_SaveLocation cfg),
          cm_DisplayVersion = arg_bool args ''version'' (cm_DisplayVersion cfg),
          cm_DebugMode = arg_bool args ''debug'' False,
          cm_AllowUpgrade = arg_bool args ''allow-upgrade'' False,
          cm_LogFormat = arg_text args ''log-format'' (cm_LogFormat cfg),
          cm_LogLevel = arg_text args ''log-level'' (cm_LogLevel cfg),
          cm_MaxPods = cm_MaxPods cfg,
          cm_ImageCredentialProviderConfig = arg_text args ''image-credential-provider-config'' (cm_ImageCredentialProviderConfig cfg),
          cm_ImageCredentialProviderBinDir = arg_text args ''image-credential-provider-bin-dir'' (cm_ImageCredentialProviderBinDir cfg)\<rparr>)"

section \<open>Files and directories\<close>

text \<open>
  A file has a mode, an owner and a group; a directory also its entries, unless they cannot be read. An
  entry may have no information. Links inside a directory are not followed: they are files here.
\<close>

type_synonym file_info = "32 word \<times> int \<times> int"

datatype file_tree =
    RegularFile file_info
  | Directory file_info "(string \<times> file_tree option) list option"

fun info_of :: "file_tree \<Rightarrow> file_info" where
  "info_of (RegularFile i) = i"
| "info_of (Directory i files) = i"

datatype stat_result = StatFound file_tree | StatMissing | StatFailed

record credentials =
  cred_euid :: int
  cred_egid :: int

text \<open>Readable by the others, by the group of the process or by its user.\<close>

fun mode_readable :: "credentials \<Rightarrow> file_info \<Rightarrow> bool" where
  "mode_readable c (fm, uid, gid) = (bit fm 2 \<or> (bit fm 5 \<and> cred_egid c = gid) \<or> (bit fm 8 \<and> cred_euid c = uid))"

fun dir_readable :: "credentials \<Rightarrow> file_tree \<Rightarrow> bool"
  and entries_readable :: "credentials \<Rightarrow> (string \<times> file_tree option) list \<Rightarrow> bool" where
  "dir_readable c (RegularFile i) = False"
| "dir_readable c (Directory i None) = False"
| "dir_readable c (Directory i (Some files)) = entries_readable c files"
| "entries_readable c [] = True"
| "entries_readable c ((name, None) # files) = False"
| "entries_readable c ((name, Some (RegularFile i)) # files) = (if mode_readable c i then entries_readable c files else False)"
| "entries_readable c ((name, Some (Directory i d)) # files) =
     (if dir_readable c (Directory i d) then entries_readable c files else False)"

definition DirExistAndReadable :: "credentials \<Rightarrow> (string \<Rightarrow> stat_result) \<Rightarrow> string \<Rightarrow> bool" where
  "DirExistAndReadable c stat name =
     (if length name = 0 then False
      else case stat name of StatFound t \<Rightarrow> dir_readable c t | _ \<Rightarrow> False)"

text \<open>A directory is accepted too, on its own mode.\<close>

definition FileExistAndReadable :: "credentials \<Rightarrow> (string \<Rightarrow> stat_result) \<Rightarrow> string \<Rightarrow> bool" where
  "FileExistAndReadable c stat name =
     (if length name = 0 then False
      else case stat name of StatFound t \<Rightarrow> mode_readable c (info_of t) | _ \<Rightarrow> False)"

definition FileExists :: "(string \<Rightarrow> stat_result) \<Rightarrow> string \<Rightarrow> bool" where
  "FileExists stat name = (if length name = 0 then False else stat name \<noteq> StatMissing)"

section \<open>The configuration file\<close>

record ssh_infos =
  ssh_UserName :: string
  ssh_Password :: string
  ssh_AuthKeys :: string
  ssh_WaitSshReadyInSeconds :: int

text \<open>
  The decoded file. Of the section of a distribution only its presence matters here. The provider that
  was loaded is the last field.
\<close>

record file_config =
  fc_Distribution :: "string option"
  fc_Plateform :: "string option"
  fc_MachineConfig :: "string option"
  fc_ImageCredentialProviderConfig :: "string option"
  fc_ImageCredentialProviderBinDir :: "string option"
  fc_UseExternalEtdc :: "bool option"
  fc_UseEtcHosts :: "bool option"
  fc_UseCloudInitConfig :: "bool option"
  fc_CloudInitFileOwner :: "string option"
  fc_CloudInitFileMode :: "int option"
  fc_CloudProvider :: "string option"
  fc_GrpcProvider :: "string option"
  fc_ExtDestinationEtcdSslDir :: string
  fc_ExtSourceEtcdSslDir :: string
  fc_KubernetesPKISourceDir :: string
  fc_KubernetesPKIDestDir :: string
  fc_Listen :: "string option"
  fc_CertPrivateKey :: string
  fc_CertPublicKey :: string
  fc_CertCA :: string
  fc_ServiceIdentifier :: string
  fc_NodeGroup :: "string option"
  fc_MinNode :: "int option"
  fc_MaxNode :: "int option"
  fc_MaxPods :: "int option"
  fc_MaxCreatedNodePerCycle :: int
  fc_ProvisionnedNodeNamePrefix :: string
  fc_ManagedNodeNamePrefix :: string
  fc_ControlPlaneNamePrefix :: string
  fc_NodePrice :: float64
  fc_PodPrice :: float64
  fc_KubeAdm :: bool
  fc_K3S :: bool
  fc_RKE2 :: bool
  fc_MicroK8S :: bool
  fc_External :: bool
  fc_DefaultMachineType :: string
  fc_NodeLabels :: labels
  fc_CloudInit :: cloud_init
  fc_Optionals :: "optionals option"
  fc_ManagedNodeResourceLimiter :: "resource_limiter option"
  fc_SSH :: "ssh_infos option"
  fc_AutoScalingOptions :: "file_options option"
  fc_DebugMode :: "bool option"
  fc_AllowUpgrade :: "bool option"
  fc_cached_options :: "autoscaling_options option"
  fc_provider :: "string option"

text \<open>The configuration the server reads, once every pointer is set.\<close>

definition pointed :: "'a \<Rightarrow> 'a option \<Rightarrow> 'a" where
  "pointed d p = (case p of Some a \<Rightarrow> a | None \<Rightarrow> d)"

definition running_config :: "file_config \<Rightarrow> config" where
  "running_config f =
     \<lparr>cfg_Distribution = fc_Distribution f, cfg_UseExternalEtdc = fc_UseExternalEtdc f, cfg_UseEtcHosts = fc_UseEtcHosts f,
      cfg_UseCloudInitConfig = fc_UseCloudInitConfig f, cfg_CloudInitFileOwner = pointed ''root:root'' (fc_CloudInitFileOwner f),
      cfg_CloudProvider = fc_CloudProvider f, cfg_ExtDestinationEtcdSslDir = fc_ExtDestinationEtcdSslDir f,
      cfg_ExtSourceEtcdSslDir = fc_ExtSourceEtcdSslDir f, cfg_KubernetesPKISourceDir = fc_KubernetesPKISourceDir f,
      cfg_KubernetesPKIDestDir = fc_KubernetesPKIDestDir f, cfg_ServiceIdentifier = fc_ServiceIdentifier f,
      cfg_NodeGroup = pointed [] (fc_NodeGroup f), cfg_MinNode = pointed 0 (fc_MinNode f), cfg_MaxNode = pointed 0 (fc_MaxNode f),
      cfg_MaxPods = pointed 0 (fc_MaxPods f), cfg_MaxCreatedNodePerCycle = fc_MaxCreatedNodePerCycle f,
      cfg_ProvisionnedNodeNamePrefix = fc_ProvisionnedNodeNamePrefix f, cfg_ManagedNodeNamePrefix = fc_ManagedNodeNamePrefix f,
      cfg_ControlPlaneNamePrefix = fc_ControlPlaneNamePrefix f, cfg_NodePrice = fc_NodePrice f, cfg_PodPrice = fc_PodPrice f,
      cfg_DefaultMachineType = fc_DefaultMachineType f, cfg_NodeLabels = fc_NodeLabels f, cfg_CloudInit = fc_CloudInit f,
      cfg_Optionals = fc_Optionals f,
      cfg_ManagedNodeResourceLimiter = pointed \<lparr>MinLimits = None, MaxLimits = None\<rparr> (fc_ManagedNodeResourceLimiter f),
      cfg_WaitSshReadyInSeconds = (case fc_SSH f of Some s \<Rightarrow> ssh_WaitSshReadyInSeconds s | None \<Rightarrow> 0),
      cfg_UserName = (case fc_SSH f of Some s \<Rightarrow> ssh_UserName s | None \<Rightarrow> []),
      cfg_AuthKeys = (case fc_SSH f of Some s \<Rightarrow> ssh_AuthKeys s | None \<Rightarrow> []),
      cfg_AutoScalingOptions = fc_AutoScalingOptions f, cfg_DebugMode = fc_DebugMode f, cfg_AllowUpgrade = fc_AllowUpgrade f,
      cfg_ImageCredentialProviderConfig = fc_ImageCredentialProviderConfig f, cfg_cached_options = fc_cached_options f\<rparr>"

text \<open>
  The environment of the start. A saved state is decoded into the application; a listening address is
  decoded into its scheme, its host and its path.
\<close>

record boot_env =
  bx_args :: arguments
  bx_log_level :: "string \<Rightarrow> error option"
  bx_config :: "string \<Rightarrow> error + file_config"
  bx_machines :: "string \<Rightarrow> error + machines"
  bx_provider :: "string \<Rightarrow> string \<Rightarrow> error option"
  bx_duration :: "string \<Rightarrow> error + int"
  bx_state :: "string \<Rightarrow> app \<Rightarrow> world \<Rightarrow> error + app \<times> world"
  bx_stat :: "string \<Rightarrow> stat_result"
  bx_credentials :: credentials
  bx_synced :: bool
  bx_key_pair :: "string \<Rightarrow> string \<Rightarrow> error option"
  bx_ca :: "string \<Rightarrow> error + string"
  bx_pem :: "string \<Rightarrow> bool"
  bx_url :: "string \<Rightarrow> error + string \<times> string \<times> string"
  bx_listen :: "string \<Rightarrow> string \<Rightarrow> error option"

section \<open>Preparing the configuration\<close>

type_synonym 'a boot = "(error + 'a) go"

definition and_then :: "'a boot \<Rightarrow> ('a \<Rightarrow> 'b boot) \<Rightarrow> 'b boot" where
  "and_then m f = gbind m (\<lambda>r. case r of Inl e \<Rightarrow> Ret (Inl e) | Inr a \<Rightarrow> f a)"

definition go_on :: "'a \<Rightarrow> 'a boot" where
  "go_on a = Ret (Inr a)"

definition fatal :: "string \<Rightarrow> string list \<Rightarrow> 'a boot" where
  "fatal msg args = Ret (Inl (Errorf msg args))"

text \<open>A failure stops the process with a message about it.\<close>

definition or_fatal :: "(string \<Rightarrow> 'b boot) \<Rightarrow> error + 'a \<Rightarrow> ('a \<Rightarrow> 'b boot) \<Rightarrow> 'b boot" where
  "or_fatal stop r f = (case r of Inl e \<Rightarrow> stop (err_text e) | Inr a \<Rightarrow> f a)"

definition unless_error :: "(string \<Rightarrow> 'b boot) \<Rightarrow> error option \<Rightarrow> 'b boot \<Rightarrow> 'b boot" where
  "unless_error stop err m = (case err of Some e \<Rightarrow> stop (err_text e) | None \<Rightarrow> m)"

definition or_flag :: "'a option \<Rightarrow> 'a \<Rightarrow> 'a option" where
  "or_flag p v = (if p = None then Some v else p)"

text \<open>The pointers that the file leaves nil before the provider is loaded, and the ones after.\<close>

definition first_defaults :: "command \<Rightarrow> file_config \<Rightarrow> file_config" where
  "first_defaults c f =
     f\<lparr>fc_Optionals := or_flag (fc_Optionals f) \<lparr>opt_Pricing = False, opt_GetAvailableMachineTypes = False, opt_NewNodeGroup = False,
          opt_TemplateNodeInfo = False, opt_Create = False, opt_Delete = False\<rparr>,
       fc_Listen := or_flag (fc_Listen f) (cm_Listen c),
       fc_NodeGroup := or_flag (fc_NodeGroup f) (cm_Nodegroup c),
       fc_ImageCredentialProviderConfig := or_flag (fc_ImageCredentialProviderConfig f) (cm_ImageCredentialProviderConfig c),
       fc_ImageCredentialProviderBinDir := or_flag (fc_ImageCredentialProviderBinDir f) (cm_ImageCredentialProviderBinDir c),
       fc_MachineConfig := or_flag (fc_MachineConfig f) (cm_MachineConfig c),
       fc_Distribution := or_flag (fc_Distribution f) (cm_Distribution c),
       fc_Plateform := or_flag (fc_Plateform f) (cm_Plateform c),
       fc_UseEtcHosts := or_flag (fc_UseEtcHosts f) (cm_UseEtcHosts c),
       fc_UseCloudInitConfig := or_flag (fc_UseCloudInitConfig f) (cm_UseCloudInitConfig c),
       fc_CloudInitFileOwner := or_flag (fc_CloudInitFileOwner f) (cm_CloudInitFileOwner c)\<rparr>"

definition or_dir :: "string \<Rightarrow> string \<Rightarrow> string" where
  "or_dir dir v = (if length dir = 0 then v else dir)"

definition last_defaults :: "command \<Rightarrow> file_config \<Rightarrow> file_config" where
  "last_defaults c f =
     f\<lparr>fc_MinNode := or_flag (fc_MinNode f) (MinNode c),
       fc_MaxNode := or_flag (fc_MaxNode f) (MaxNode c),
       fc_MaxPods := or_flag (fc_MaxPods f) (cm_MaxPods c),
       fc_DebugMode := or_flag (fc_DebugMode f) (cm_DebugMode c),
       fc_AllowUpgrade := or_flag (fc_AllowUpgrade f) (cm_AllowUpgrade c),
       fc_CloudProvider := or_flag (fc_CloudProvider f) (cm_CloudProvider c),
       fc_UseExternalEtdc := or_flag (fc_UseExternalEtdc f) (cm_UseExternalEtdc c),
       fc_GrpcProvider := or_flag (fc_GrpcProvider f) (cm_GrpcProvider c),
       fc_ExtDestinationEtcdSslDir := or_dir (fc_ExtDestinationEtcdSslDir f) (cm_ExtDestinationEtcdSslDir c),
       fc_ExtSourceEtcdSslDir := or_dir (fc_ExtSourceEtcdSslDir f) (cm_ExtSourceEtcdSslDir c),
       fc_KubernetesPKISourceDir := or_dir (fc_KubernetesPKISourceDir f) (cm_KubernetesPKISourceDir c),
       fc_KubernetesPKIDestDir := or_dir (fc_KubernetesPKIDestDir f) (cm_KubernetesPKIDestDir c)\<rparr>"

definition SupportedCloudProviders :: "string list" where
  "SupportedCloudProviders = [''aws'', ''vsphere'', ''desktop'', ''multipass'', ''openstack'', ''cloudstack'', ''lxd'']"

text \<open>Loading the provider of the platform; nil is vSphere. The error is for the caller, an unknown platform is fatal.\<close>

definition SetupCloudConfiguration :: "boot_env \<Rightarrow> string \<Rightarrow> file_config \<Rightarrow> (error option \<times> file_config) boot" where
  "SetupCloudConfiguration X configFile f =
     (if fc_provider f \<noteq> None then go_on (None, f)
      else let name = pointed ''vsphere'' (fc_Plateform f)
           in if name \<notin> set SupportedCloudProviders then fatal ''Unsupported cloud provider: %s'' [name]
              else (case bx_provider X name configFile of
                      Some e \<Rightarrow> go_on (Some e, f)
                    | None \<Rightarrow> go_on (None, f\<lparr>fc_provider := Some name\<rparr>)))"

text \<open>The section of the distribution must be there.\<close>

definition check_distribution :: "file_config \<Rightarrow> unit boot" where
  "check_distribution f = (case fc_Distribution f of None \<Rightarrow> Panic NilDeref | Some d \<Rightarrow>
     if d = KubeAdmDistributionName then (if fc_KubeAdm f then go_on () else fatal ''KubeAdm configuration is not defined'' [])
     else if d = K3SDistributionName then (if fc_K3S f then go_on () else fatal ''K3S configuration is not defined'' [])
     else if d = RKE2DistributionName then (if fc_RKE2 f then go_on () else fatal ''RKE2 configuration is not defined'' [])
     else if d = MicroK8SDistributionName then (if fc_MicroK8S f then go_on () else fatal ''MicroK8S configuration is not defined'' [])
     else if d = ExternalDistributionName then (if fc_External f then go_on () else fatal ''External configuration is not defined'' [])
     else fatal ''Unsupported kubernetes distribution: %s'' [d])"

definition finish_config :: "boot_env \<Rightarrow> command \<Rightarrow> file_config \<Rightarrow> (file_config \<times> machines) boot" where
  "finish_config X c f =
     (let ((opts, err), cfg) = GetAutoScalingOptions (bx_duration X) (running_config f)
      in unless_error (\<lambda>e. fatal ''Can't setup autoscaling options, reason: %s'' [e]) err (
         let f = f\<lparr>fc_cached_options := cfg_cached_options cfg\<rparr>
         in and_then (check_distribution f) (\<lambda>u.
            let f = last_defaults c f; file = pointed [] (fc_MachineConfig f)
            in or_fatal (\<lambda>e. fatal ErrMachineSpecsNotFound [file, e]) (bx_machines X file) (\<lambda>machines.
               go_on (f\<lparr>fc_ManagedNodeResourceLimiter := Some (GetManagedNodeResourceLimiter (flags.truncate c))\<rparr>, machines)))))"

definition prepare_config :: "boot_env \<Rightarrow> command \<Rightarrow> file_config \<Rightarrow> (file_config \<times> machines) boot" where
  "prepare_config X c f =
     (let f = first_defaults c f
      in if pointed [] (fc_NodeGroup f) = [] then fatal ''Nodegroup is not defined'' []
         else and_then (SetupCloudConfiguration X (cm_ProviderConfig c) f) (\<lambda>(err, f).
           unless_error (\<lambda>e. fatal ''Can't setup cloud provider, reason: %s'' [e]) err (finish_config X c f)))"

section \<open>Starting the server\<close>

text \<open>The password or the key of ssh; without the section the pointer is nil.\<close>

definition checkPrivateKeyExists :: "boot_env \<Rightarrow> file_config \<Rightarrow> bool go" where
  "checkPrivateKeyExists X f =
     (case fc_SSH f of
        None \<Rightarrow> Panic NilDeref
      | Some ssh \<Rightarrow> Ret (if length (ssh_Password ssh) > 0 then True
                         else if length (ssh_AuthKeys ssh) = 0 then False
                         else FileExistAndReadable (bx_credentials X) (bx_stat X) (ssh_AuthKeys ssh)))"

definition checkKubernetesPKIReadable :: "boot_env \<Rightarrow> file_config \<Rightarrow> bool" where
  "checkKubernetesPKIReadable X f = DirExistAndReadable (bx_credentials X) (bx_stat X) (fc_KubernetesPKISourceDir f)"

definition checkEtcdSslReadable :: "boot_env \<Rightarrow> file_config \<Rightarrow> bool go" where
  "checkEtcdSslReadable X f =
     (case fc_UseExternalEtdc f of
        None \<Rightarrow> Panic NilDeref
      | Some external \<Rightarrow> Ret (if external then DirExistAndReadable (bx_credentials X) (bx_stat X) (fc_ExtSourceEtcdSslDir f) else True))"

definition check_files :: "boot_env \<Rightarrow> file_config \<Rightarrow> unit boot" where
  "check_files X f =
     gbind (checkPrivateKeyExists X f) (\<lambda>ok.
       if \<not> ok then fatal ErrFatalMissingSSHKey [case fc_SSH f of Some s \<Rightarrow> ssh_AuthKeys s | None \<Rightarrow> []]
       else if \<not> checkKubernetesPKIReadable X f
       then fatal ErrFatalKubernetesPKIMissingOrUnreadable [fc_KubernetesPKISourceDir f]
       else gbind (checkEtcdSslReadable X f) (\<lambda>ok.
         if \<not> ok then fatal ErrFatalEtcdMissingOrUnreadable [fc_ExtSourceEtcdSslDir f] else go_on ()))"

definition Save :: "env \<Rightarrow> world \<Rightarrow> error option \<times> world" where
  "Save E w = wask (ans_err E) SaveState w"

text \<open>A first start: the limits come from the command line, those of the nodes from the configuration.\<close>

definition new_app :: "command \<Rightarrow> file_config \<Rightarrow> machines \<Rightarrow> app" where
  "new_app c f machines =
     \<lparr>app_machines = machines,
      ResourceLimiter = Some (SetMinValue64 ResourceNameNodes (pointed 0 (fc_MinNode f))
        (SetMaxValue64 ResourceNameNodes (pointed 0 (fc_MaxNode f)) (GetResourceLimiter (flags.truncate c)))),
      Groups = gmake, NodesDefinition = [], app_AutoProvision = False, app_configuration = running_config f,
      phSaveState = (length (cm_SaveLocation c) > 0)\<rparr>"

text \<open>A later start: the limits, the groups and the definitions come from the saved state.\<close>

definition empty_app :: "command \<Rightarrow> file_config \<Rightarrow> machines \<Rightarrow> app" where
  "empty_app c f machines = (new_app c f machines)\<lparr>ResourceLimiter := None, Groups := None\<rparr>"

definition first_or_saved_app :: "env \<Rightarrow> boot_env \<Rightarrow> command \<Rightarrow> file_config \<Rightarrow> machines \<Rightarrow> world \<Rightarrow> (app \<times> world) boot" where
  "first_or_saved_app E X c f machines w =
     (if length (cm_SaveLocation c) = 0 \<or> \<not> FileExists (bx_stat X) (cm_SaveLocation c)
      then let a = new_app c f machines
           in if phSaveState a
              then let (err, w) = Save E w
                   in unless_error (\<lambda>e. fatal ErrFailedToSaveServerState [e]) err (go_on (a, w))
              else go_on (a, w)
      else or_fatal (\<lambda>e. fatal ErrFailedToLoadServerState [e]) (bx_state X (cm_SaveLocation c) (empty_app c f machines) w) (\<lambda>(a, w).
           gbind (Load E a w) (\<lambda>(err, a, w).
             unless_error (\<lambda>e. fatal ErrFailedToLoadServerState [e]) err (go_on (a, w)))))"

definition Run :: "boot_env \<Rightarrow> error option" where
  "Run X = (if bx_synced X then None else Some (Plain ''failed to wait for caches to sync''))"

definition startController :: "kube_env \<Rightarrow> env \<Rightarrow> boot_env \<Rightarrow> kube_state \<Rightarrow> world \<Rightarrow> ((error option \<times> kube_state) \<times> world) go" where
  "startController K E X ks w =
     (let ((client, err), ks) = KubeClient K ks
      in if err \<noteq> None then Ret ((err, ks), w)
         else let ((client, err), ks) = NodeManagerClient_clientset K ks
              in if err \<noteq> None then Ret ((err, ks), w)
                 else gbind (CreateCRD E w) (\<lambda>(err, w).
                   if err \<noteq> None then Ret ((err, ks), w) else Ret ((Run X, ks), w)))"

text \<open>What answers requests: the service, whether it asks for certificates, where it listens.\<close>

record listening =
  on_external :: bool
  on_tls :: bool
  on_scheme :: string
  on_address :: string

definition createGrpListener :: "env \<Rightarrow> file_config \<Rightarrow> app \<Rightarrow> world \<Rightarrow> (bool \<times> app \<times> world) boot" where
  "createGrpListener E f a w =
     (case fc_GrpcProvider f of
        None \<Rightarrow> Panic NilDeref
      | Some provider \<Rightarrow>
          if provider = ''externalgrpc''
          then gbind (external_doAutoProvision E a w) (\<lambda>(err, a, w).
                 unless_error (\<lambda>e. fatal ''failed to create externalgrpc: %v'' [e]) err (go_on (True, a, w)))
          else go_on (False, a, w))"

definition server_credentials :: "boot_env \<Rightarrow> file_config \<Rightarrow> error + bool" where
  "server_credentials X f =
     (if fc_CertCA f = [] \<or> fc_CertPrivateKey f = [] \<or> fc_CertPublicKey f = [] then Inr False
      else case bx_key_pair X (fc_CertPublicKey f) (fc_CertPrivateKey f) of
             Some e \<Rightarrow> Inl (Errorf ''failed to read certificate files: %s'' [err_text e])
           | None \<Rightarrow> (case bx_ca X (fc_CertCA f) of
               Inl e \<Rightarrow> Inl (Errorf ''failed to read client ca cert: %s'' [err_text e])
             | Inr bs \<Rightarrow> if bx_pem X bs then Inr True else Inl (Plain ''failed to append client certs'')))"

definition listen_address :: "boot_env \<Rightarrow> string \<Rightarrow> error + string \<times> string" where
  "listen_address X Listen =
     (case bx_url X Listen of
        Inl e \<Rightarrow> Inl e
      | Inr (scheme, host, path) \<Rightarrow>
          if scheme \<noteq> ''unix'' \<and> scheme \<noteq> ''tcp'' then Inl (Errorf ''unsupported scheme: %s, %s'' [scheme, Listen])
          else let listen = (if scheme = ''unix'' then path else host)
               in if length listen = 0 then Inl (Errorf ''endpoint is empty, %s'' [Listen])
                  else (case bx_listen X scheme listen of
                          Some e \<Rightarrow> Inl (Errorf ''failed to listen: %v'' [err_text e])
                        | None \<Rightarrow> Inr (scheme, listen)))"

text \<open>\<^verbatim>\<open>run\<close> and \<^verbatim>\<open>runServer\<close> up to \<^verbatim>\<open>Serve\<close>; what follows it is \<open>served\<close>.\<close>

definition runServer :: "env \<Rightarrow> boot_env \<Rightarrow> file_config \<Rightarrow> app \<Rightarrow> world \<Rightarrow> (listening \<times> app \<times> world) boot" where
  "runServer E X f a w =
     or_fatal (\<lambda>e. fatal ''failed to start server: %v'' [e]) (server_credentials X f) (\<lambda>tls.
       and_then (createGrpListener E f a w) (\<lambda>(external, a, w).
         case fc_Listen f of
           None \<Rightarrow> Panic NilDeref
         | Some Listen \<Rightarrow> or_fatal (\<lambda>e. fatal ''failed to start server: %v'' [e]) (listen_address X Listen) (\<lambda>(scheme, address).
             go_on (\<lparr>on_external = external, on_tls = tls, on_scheme = scheme, on_address = address\<rparr>, a, w))))"

definition served :: "env \<Rightarrow> error option \<Rightarrow> app \<Rightarrow> world \<Rightarrow> unit boot \<times> world" where
  "served E err a w =
     (case err of
        Some e \<Rightarrow> (fatal ''failed to start server: %v'' [err_text (Errorf ''failed to serve: %v'' [err_text e])], w)
      | None \<Rightarrow> if phSaveState a
                then let (err, w) = Save E w in (unless_error (\<lambda>e. fatal ErrFailedToSaveServerState [e]) err (go_on ()), w)
                else (go_on (), w))"

definition StartServer ::
  "kube_env \<Rightarrow> env \<Rightarrow> boot_env \<Rightarrow> command \<Rightarrow> kube_state \<Rightarrow> world \<Rightarrow> (listening \<times> file_config \<times> app \<times> world) boot" where
  "StartServer K E X c ks w =
     or_fatal (\<lambda>e. fatal ''failed to decode config file: %s, error: %v'' [cm_Config c, e]) (bx_config X (cm_Config c)) (\<lambda>f.
       let ((client, err), ks) = KubeClient K ks
       in unless_error (\<lambda>e. fatal ''failed to get kubernetes client, error: %v'' [e]) err (
          and_then (prepare_config X c f) (\<lambda>(f, machines).
          and_then (first_or_saved_app E X c f machines w) (\<lambda>(a, w).
          and_then (check_files X f) (\<lambda>u.
          gbind (startController K E X ks w) (\<lambda>((err, ks), w).
            unless_error (\<lambda>e. fatal ''Can't start controller, reason: %s'' [e]) err (
            and_then (runServer E X f a w) (\<lambda>(l, a, w). go_on (l, f, a, w)))))))))"

text \<open>The whole program; \<open>None\<close> when it only shows its version.\<close>

definition main :: "kube_env \<Rightarrow> env \<Rightarrow> boot_env \<Rightarrow> world \<Rightarrow> (listening \<times> file_config \<times> app \<times> world) option boot" where
  "main K E X w =
     or_fatal (\<lambda>e. fatal ''flag parsing error: %v'' [e]) (ParseFlags (bx_args X) NewConfig) (\<lambda>c.
       unless_error (\<lambda>e. fatal ''failed to parse log level: %v'' [e]) (bx_log_level X (cm_LogLevel c)) (
         if cm_DisplayVersion c then go_on None
         else let generator = NewClientGenerator (cm_KubeConfig c) (cm_APIServerURL c) (cm_RequestTimeout c)
                    (cm_NodeReadyTimeout c) (cm_DeletionTimeout c) (cm_MaxGracePeriod c)
              in gbind (client_NodeList K (generator, [])) (\<lambda>(r, ks).
                 or_fatal (\<lambda>e. fatal ''Can't validate config, reason: %s'' [e]) r (\<lambda>nodes.
                 and_then (StartServer K E X c ks w) (\<lambda>s. go_on (Some s))))))"

end
