(* ===== verification/Startup_Facts.thy ===== *)
theory Startup_Facts
  imports Startup Cluster_Client_Facts
begin

text \<open>
  What holds of a server that has started: its configuration has every pointer set, the file wins over
  the command line, the section of its distribution is there, the files it needs are readable, and the
  state it serves from satisfies the invariant of the application. The test of a directory agrees with
  its meaning: every file below it, at any depth, is readable.
\<close>

section \<open>Results\<close>

lemma boot_ok [simp]:
  "go_on a = Ret (Inr b) \<longleftrightarrow> a = b"
  "fatal msg args \<noteq> Ret (Inr b)"
  "and_then m f = Ret (Inr b) \<longleftrightarrow> (\<exists>a. m = Ret (Inr a) \<and> f a = Ret (Inr b))"
  "or_fatal (\<lambda>e. fatal msg (args2 e)) r f = Ret (Inr b) \<longleftrightarrow> (\<exists>a. r = Inr a \<and> f a = Ret (Inr b))"
  "unless_error (\<lambda>e. fatal msg (args2 e)) err k = Ret (Inr b) \<longleftrightarrow> err = None \<and> k = Ret (Inr b)"
proof -
  have "(\<exists>r. m = Ret r \<and> (case r of Inl e \<Rightarrow> Ret (Inl e) | Inr a \<Rightarrow> f a) = Ret (Inr b)) \<longleftrightarrow> (\<exists>a. m = Ret (Inr a) \<and> f a = Ret (Inr b))"
  proof
    assume "\<exists>r. m = Ret r \<and> (case r of Inl e \<Rightarrow> Ret (Inl e) | Inr a \<Rightarrow> f a) = Ret (Inr b)"
    then obtain r where "m = Ret r" "(case r of Inl e \<Rightarrow> Ret (Inl e) | Inr a \<Rightarrow> f a) = Ret (Inr b)" by blast
    then show "\<exists>a. m = Ret (Inr a) \<and> f a = Ret (Inr b)" by (cases r) auto
  qed force
  then show "and_then m f = Ret (Inr b) \<longleftrightarrow> (\<exists>a. m = Ret (Inr a) \<and> f a = Ret (Inr b))" by (simp add: and_then_def)
qed (auto simp: go_on_def fatal_def or_fatal_def unless_error_def split: sum.splits option.splits)

section \<open>The configuration\<close>

text \<open>No pointer that the server follows is nil, and the section of the distribution is there.\<close>

definition complete :: "file_config \<Rightarrow> bool" where
  "complete f \<longleftrightarrow> fc_Distribution f \<noteq> None \<and> fc_Plateform f \<noteq> None \<and> fc_MachineConfig f \<noteq> None \<and>
     fc_ImageCredentialProviderConfig f \<noteq> None \<and> fc_ImageCredentialProviderBinDir f \<noteq> None \<and> fc_UseExternalEtdc f \<noteq> None \<and>
     fc_UseEtcHosts f \<noteq> None \<and> fc_UseCloudInitConfig f \<noteq> None \<and> fc_CloudInitFileOwner f \<noteq> None \<and> fc_CloudProvider f \<noteq> None \<and>
     fc_GrpcProvider f \<noteq> None \<and> fc_Listen f \<noteq> None \<and> fc_NodeGroup f \<noteq> None \<and> fc_MinNode f \<noteq> None \<and> fc_MaxNode f \<noteq> None \<and>
     fc_MaxPods f \<noteq> None \<and> fc_Optionals f \<noteq> None \<and> fc_ManagedNodeResourceLimiter f \<noteq> None \<and> fc_DebugMode f \<noteq> None \<and>
     fc_AllowUpgrade f \<noteq> None"

definition distribution_ready :: "file_config \<Rightarrow> bool" where
  "distribution_ready f \<longleftrightarrow>
     (fc_Distribution f = Some KubeAdmDistributionName \<and> fc_KubeAdm f) \<or> (fc_Distribution f = Some K3SDistributionName \<and> fc_K3S f) \<or>
     (fc_Distribution f = Some RKE2DistributionName \<and> fc_RKE2 f) \<or> (fc_Distribution f = Some MicroK8SDistributionName \<and> fc_MicroK8S f) \<or>
     (fc_Distribution f = Some ExternalDistributionName \<and> fc_External f)"

lemma check_distribution_ok: "check_distribution f = Ret (Inr u) \<longleftrightarrow> distribution_ready f"
  by (auto simp: check_distribution_def distribution_ready_def distribution_defs split: option.splits)

lemma or_flag_set [simp]: "or_flag p v \<noteq> None" "or_flag p v = Some (pointed v p)"
  by (auto simp: or_flag_def pointed_def split: option.split)

lemma SetupCloudConfiguration_ok:
  assumes "SetupCloudConfiguration X file f = Ret (Inr (None, f'))" "fc_provider f = None"
  shows "\<exists>name. name = pointed ''vsphere'' (fc_Plateform f) \<and> name \<in> set SupportedCloudProviders \<and> bx_provider X name file = None \<and>
    f' = f\<lparr>fc_provider := Some name\<rparr>"
  using assms by (auto simp: SetupCloudConfiguration_def Let_def split: if_splits option.splits)

lemma finish_config_ok:
  assumes "finish_config X c f = Ret (Inr (f', machines))"
  shows "\<exists>opts. distribution_ready (f\<lparr>fc_cached_options := opts\<rparr>) \<and>
    bx_machines X (pointed [] (fc_MachineConfig (last_defaults c (f\<lparr>fc_cached_options := opts\<rparr>)))) = Inr machines \<and>
    f' = (last_defaults c (f\<lparr>fc_cached_options := opts\<rparr>))
      \<lparr>fc_ManagedNodeResourceLimiter := Some (GetManagedNodeResourceLimiter (flags.truncate c))\<rparr>"
proof -
  obtain opts err cfg where o: "GetAutoScalingOptions (bx_duration X) (running_config f) = ((opts, err), cfg)" by (metis prod.exhaust)
  from assms show ?thesis
    by (intro exI [of _ "cfg_cached_options cfg"]) (auto simp: finish_config_def o Let_def check_distribution_ok)
qed

text \<open>
  The configuration that is prepared is the file with the command line under it, the options that were
  parsed, the provider that was loaded, and the limits of managed nodes of the command line.
\<close>

lemma prepare_config_ok:
  assumes "prepare_config X c f = Ret (Inr (f', machines))" "fc_provider f = None"
  shows "\<exists>opts name. f' = (last_defaults c ((first_defaults c f)\<lparr>fc_provider := Some name, fc_cached_options := opts\<rparr>))
      \<lparr>fc_ManagedNodeResourceLimiter := Some (GetManagedNodeResourceLimiter (flags.truncate c))\<rparr> \<and>
    fc_Plateform f' = Some name \<and> name \<in> set SupportedCloudProviders \<and> bx_provider X name (cm_ProviderConfig c) = None \<and>
    distribution_ready f' \<and> pointed [] (fc_NodeGroup f') \<noteq> [] \<and> bx_machines X (pointed [] (fc_MachineConfig f')) = Inr machines"
proof -
  let ?f1 = "first_defaults c f"
  have n: "fc_provider ?f1 = None" using assms(2) by (simp add: first_defaults_def)
  from assms(1) obtain f2 where group: "pointed [] (fc_NodeGroup ?f1) \<noteq> []"
    and loaded: "SetupCloudConfiguration X (cm_ProviderConfig c) ?f1 = Ret (Inr (None, f2))"
    and rest: "finish_config X c f2 = Ret (Inr (f', machines))"
    by (auto simp: prepare_config_def Let_def split: if_splits)
  from SetupCloudConfiguration_ok [OF loaded n] obtain name where name: "name = pointed ''vsphere'' (fc_Plateform ?f1)"
    "name \<in> set SupportedCloudProviders" "bx_provider X name (cm_ProviderConfig c) = None" "f2 = ?f1\<lparr>fc_provider := Some name\<rparr>" by blast
  from finish_config_ok [OF rest] obtain opts where d: "distribution_ready (f2\<lparr>fc_cached_options := opts\<rparr>)"
    and m: "bx_machines X (pointed [] (fc_MachineConfig (last_defaults c (f2\<lparr>fc_cached_options := opts\<rparr>)))) = Inr machines"
    and f': "f' = (last_defaults c (f2\<lparr>fc_cached_options := opts\<rparr>))
      \<lparr>fc_ManagedNodeResourceLimiter := Some (GetManagedNodeResourceLimiter (flags.truncate c))\<rparr>" by blast
  let ?f3 = "f2\<lparr>fc_cached_options := opts\<rparr>"
  have keep: "fc_Plateform f' = fc_Plateform ?f1" "fc_NodeGroup f' = fc_NodeGroup ?f1" "distribution_ready f' = distribution_ready ?f3"
    "fc_MachineConfig (last_defaults c ?f3) = fc_MachineConfig f'"
    unfolding f' name(4) by (simp_all add: last_defaults_def first_defaults_def distribution_ready_def)
  have "fc_Plateform ?f1 = Some (pointed (cm_Plateform c) (fc_Plateform f))" by (simp add: first_defaults_def)
  then have "fc_Plateform f' = Some name" unfolding keep name(1) by (simp add: pointed_def)
  with name(2-4) d m group f' keep show ?thesis by auto
qed

text \<open>Every option has the value of the file, or that of the command line when the file has none.\<close>

theorem file_over_flags:
  assumes "prepare_config X c f = Ret (Inr (f', machines))" "fc_provider f = None"
  shows "complete f' \<and> fc_NodeGroup f' = Some (pointed (cm_Nodegroup c) (fc_NodeGroup f)) \<and>
    fc_Distribution f' = Some (pointed (cm_Distribution c) (fc_Distribution f)) \<and>
    fc_Plateform f' = Some (pointed (cm_Plateform c) (fc_Plateform f)) \<and> fc_Listen f' = Some (pointed (cm_Listen c) (fc_Listen f)) \<and>
    fc_MinNode f' = Some (pointed (MinNode c) (fc_MinNode f)) \<and> fc_MaxNode f' = Some (pointed (MaxNode c) (fc_MaxNode f)) \<and>
    fc_MaxPods f' = Some (pointed (cm_MaxPods c) (fc_MaxPods f)) \<and>
    fc_CloudProvider f' = Some (pointed (cm_CloudProvider c) (fc_CloudProvider f)) \<and>
    fc_GrpcProvider f' = Some (pointed (cm_GrpcProvider c) (fc_GrpcProvider f)) \<and>
    fc_UseExternalEtdc f' = Some (pointed (cm_UseExternalEtdc c) (fc_UseExternalEtdc f)) \<and>
    fc_UseCloudInitConfig f' = Some (pointed (cm_UseCloudInitConfig c) (fc_UseCloudInitConfig f)) \<and>
    fc_CloudInitFileOwner f' = Some (pointed (cm_CloudInitFileOwner c) (fc_CloudInitFileOwner f)) \<and>
    fc_AllowUpgrade f' = Some (pointed (cm_AllowUpgrade c) (fc_AllowUpgrade f)) \<and>
    fc_SSH f' = fc_SSH f \<and> fc_CloudInitFileMode f' = fc_CloudInitFileMode f"
proof -
  from prepare_config_ok [OF assms] obtain opts name where f': "f' = (last_defaults c ((first_defaults c f)\<lparr>fc_provider := Some name, fc_cached_options := opts\<rparr>))
      \<lparr>fc_ManagedNodeResourceLimiter := Some (GetManagedNodeResourceLimiter (flags.truncate c))\<rparr>" by blast
  show ?thesis unfolding f' complete_def by (simp add: last_defaults_def first_defaults_def)
qed

section \<open>Directories\<close>

text \<open>
  \<open>lies_at\<close>: what a path leads to below a tree, whatever is on the way; \<open>None\<close> for an entry without
  information. The bits of a mode that let it be read are 004 for the others, 040 for the group of the
  file and 400 for its user, in octal.
\<close>

inductive lies_at :: "file_tree \<Rightarrow> string list \<Rightarrow> file_tree option \<Rightarrow> bool" where
  here: "lies_at t [] (Some t)"
| unknown: "(name, None) \<in> set files \<Longrightarrow> lies_at (Directory i (Some files)) [name] None"
| deeper: "(name, Some t) \<in> set files \<Longrightarrow> lies_at t path e \<Longrightarrow> lies_at (Directory i (Some files)) (name # path) e"

inductive_simps lies_at_simps:
  "lies_at (RegularFile i) path e" "lies_at (Directory i None) path e" "lies_at (Directory i (Some files)) path e"

fun permitted :: "credentials \<Rightarrow> file_info \<Rightarrow> bool" where
  "permitted c (mode, user, grp) =
     (odd (mode div 4) \<or> odd (mode div 32) \<and> grp = cred_egid c \<or> odd (mode div 256) \<and> user = cred_euid c)"

fun open_to :: "credentials \<Rightarrow> file_tree option \<Rightarrow> bool" where
  "open_to c None = False"
| "open_to c (Some (RegularFile i)) = permitted c i"
| "open_to c (Some (Directory i files)) = (files \<noteq> None)"

definition readable_below :: "credentials \<Rightarrow> file_tree \<Rightarrow> bool" where
  "readable_below c t \<longleftrightarrow> (\<forall>path e. lies_at t path e \<longrightarrow> open_to c e)"

lemma mode_readable_permitted: "mode_readable c i = permitted c i"
  by (cases i) (auto simp: bit_iff_odd)

lemma readable_below_simps:
  "readable_below c (RegularFile i) = permitted c i" "\<not> readable_below c (Directory i None)"
  "readable_below c (Directory i (Some files)) \<longleftrightarrow>
     (\<forall>name e. (name, e) \<in> set files \<longrightarrow> (case e of None \<Rightarrow> False | Some t \<Rightarrow> readable_below c t))"
proof -
  show "readable_below c (RegularFile i) = permitted c i" "\<not> readable_below c (Directory i None)"
    by (auto simp: readable_below_def lies_at_simps)
  let ?each = "\<forall>name e. (name, e) \<in> set files \<longrightarrow> (case e of None \<Rightarrow> False | Some t \<Rightarrow> readable_below c t)"
  have "case e of None \<Rightarrow> False | Some t \<Rightarrow> readable_below c t"
    if "readable_below c (Directory i (Some files))" "(name, e) \<in> set files" for name e
  proof (cases e)
    case None
    with that lies_at.unknown [of name files i] have "open_to c None" unfolding readable_below_def by blast
    then show ?thesis by simp
  next
    case (Some t)
    with that lies_at.deeper [of name t files] have "readable_below c t" unfolding readable_below_def by blast
    with Some show ?thesis by simp
  qed
  moreover have "readable_below c (Directory i (Some files))" if ?each
    unfolding readable_below_def lies_at_simps
  proof (intro allI impI, elim disjE exE conjE)
    fix path name and e :: "file_tree option"
    assume "e = None" "(name, None) \<in> set files"
    with that show "open_to c e" by fastforce
  next
    fix path e name t p assume "(name, Some t) \<in> set files" "lies_at t p e"
    with that show "open_to c e" by (fastforce simp: readable_below_def)
  qed simp
  ultimately show "readable_below c (Directory i (Some files)) \<longleftrightarrow> ?each" by blast
qed

lemma dir_readable_below:
  "dir_readable c t \<longleftrightarrow> (\<exists>i d. t = Directory i d) \<and> readable_below c t"
  "entries_readable c files \<longleftrightarrow>
     (\<forall>name e. (name, e) \<in> set files \<longrightarrow> (case e of None \<Rightarrow> False | Some t \<Rightarrow> readable_below c t))"
proof (induction c t and c files rule: dir_readable_entries_readable.induct)
  case (6 c name i files)
  then show ?case by (auto simp: readable_below_simps mode_readable_permitted)
next
  case (7 c name i d files)
  have "dir_readable c (Directory i d) = readable_below c (Directory i d)" using 7(1) by blast
  with 7(2) show ?case by (cases "dir_readable c (Directory i d)") (simp_all, (metis (no_types, lifting) option.case))
qed (auto simp: readable_below_simps)

text \<open>A directory is accepted exactly when every file below it, at any depth, can be read by the process.\<close>

text \<open>C40: The recursive test of a directory accepts it exactly when its name is not empty, it exists, and every path below it leads to a directory that can be listed or to a file whose mode lets the others read it (octal 004), its group when that is the effective group of the process (040), or its user when that is its effective user (400).\<close>

theorem DirExistAndReadable_iff:
  "DirExistAndReadable c stat name \<longleftrightarrow>
     name \<noteq> [] \<and> (\<exists>i d. stat name = StatFound (Directory i d) \<and> readable_below c (Directory i d))"
  using dir_readable_below(1) by (auto simp: DirExistAndReadable_def split: stat_result.split)

text \<open>The modes of the directories on the way do not count.\<close>

lemma closed_directory_accepted:
  "DirExistAndReadable c (\<lambda>name. StatFound (Directory (0, 0, 0) (Some [(''k'', Some (RegularFile (4, 0, 0)))]))) ''d''"
  by (simp add: DirExistAndReadable_def)

section \<open>The state of a started server\<close>

text \<open>
  \<open>saved_soundly\<close>: the state that this start decodes, when it decodes one, is one the program has written:
  its groups satisfy the invariant, and the decoder leaves the unexported fields as they are.
\<close>

definition saved_soundly :: "boot_env \<Rightarrow> command \<Rightarrow> file_config \<Rightarrow> world \<Rightarrow> bool" where
  "saved_soundly X c f w \<longleftrightarrow> (\<forall>machines b v. bx_state X (cm_SaveLocation c) (empty_app c f machines) w = Inr (b, v) \<longrightarrow>
     app_inv b v \<and> evolves w v \<and> app_machines b = machines \<and> app_configuration b = running_config f)"

lemma wframe_trace: "extends (trace w) h \<Longrightarrow> wframe w (w\<lparr>trace := h\<rparr>)"
  by (auto simp: wframe_def evolves_def heap_wf_def)

lemma wframe_CreateCRD: "holds (\<lambda>(err, w'). wframe w w') (CreateCRD E w)"
proof -
  have wait: "holds (\<lambda>(err, w'). wframe v w') (waitCRDAccepted E v)" for v
  proof -
    have step: "extends (trace v) (snd s')" if "extends (trace v) (snd s)" "crd_condition E s = ((d, e), s')" for s d e s'
      using that by (auto simp: crd_condition_def ask_def Let_def case_prod_unfold extends_def split: sum.splits if_splits)
    have "holds (\<lambda>(err, s). extends (trace v) (snd s)) (PollImmediate E 10 (crd_condition E) ((), trace v))"
      unfolding PollImmediate_def by (rule poll_loop_holds) (erule (1) step, simp)
    then show ?thesis
      by (cases "PollImmediate E 10 (crd_condition E) ((), trace v)") (auto simp: waitCRDAccepted_def wframe_trace)
  qed
  obtain err v where v: "wask (ans_err E) (Api CrdCreate) w = (err, v)" by (metis prod.exhaust)
  then have f: "wframe w v" by (rule wframe_wask)
  show ?thesis
  proof (cases err)
    case (Some e)
    with v f show ?thesis by (simp add: CreateCRD_def)
  next
    case None
    from wait [of v] have "holds (\<lambda>(err, w'). wframe w w') (waitCRDAccepted E v)"
      by (rule holds_mono) (auto intro: wframe_trans [OF f])
    with v None show ?thesis by (simp add: CreateCRD_def)
  qed
qed

lemma wframe_startController:
  assumes "startController K E X ks w = Ret ((err, ks'), w')"
  shows "wframe w w'"
proof -
  obtain c1 e1 k1 c2 e2 k2 where k: "KubeClient K ks = ((c1, e1), k1)" "NodeManagerClient_clientset K k1 = ((c2, e2), k2)"
    by (metis prod.exhaust)
  with assms wframe_CreateCRD [of w E] show ?thesis
    by (cases "CreateCRD E w") (auto simp: startController_def split: if_splits)
qed

lemma app_inv_new: "heap_wf w \<Longrightarrow> app_inv (new_app c f machines) w"
  by (simp add: app_inv_def new_app_def)

text \<open>The application that starts, new or saved, is framed by the new one.\<close>

lemma first_or_saved_frame:
  assumes "first_or_saved_app E X c f machines w = Ret (Inr (a, w'))" "heap_wf w" "saved_soundly X c f w"
  shows "aframe (new_app c f machines, w) (a, w')"
proof -
  let ?n = "new_app c f machines"
  have n: "aframe (?n, w) (?n, w)" by (intro aframe_refl app_inv_new assms(2))
  show ?thesis
  proof (cases "length (cm_SaveLocation c) = 0 \<or> \<not> FileExists (bx_stat X) (cm_SaveLocation c)")
    case True
    obtain err v where v: "Save E w = (err, v)" by (metis prod.exhaust)
    then have "aframe (?n, w) (?n, v)" by (intro aframe_world [OF n]) (simp add: Save_def)
    with n v assms(1) True show ?thesis by (auto simp: first_or_saved_app_def Let_def split: if_splits)
  next
    case False
    with assms(1) obtain b v where d: "bx_state X (cm_SaveLocation c) (empty_app c f machines) w = Inr (b, v)"
      and l: "Load E b v = Ret (None, a, w')"
      by (auto simp: first_or_saved_app_def split: if_splits)
    from d assms(3) have "app_inv b v" "evolves w v" "app_machines b = app_machines ?n" "app_configuration b = app_configuration ?n"
      unfolding saved_soundly_def by (simp_all add: new_app_def)
    then have "aframe (?n, w) (b, v)" by (simp add: aframe_def)
    from akeeps_Load [OF this, of E] l show ?thesis by (simp add: akeeps_def)
  qed
qed

lemma createGrpListener_frame:
  assumes "createGrpListener E f a w = Ret (Inr (external, a', w'))" "aframe s (a, w)"
  shows "aframe s (a', w')"
  using assms akeeps_external_doAutoProvision [OF assms(2), of E]
  by (auto simp: createGrpListener_def akeeps_def split: option.splits if_splits)

text \<open>What \<^verbatim>\<open>StartServer\<close> has gone through when the server answers.\<close>

lemma StartServer_ok:
  assumes "StartServer K E X c ks w = Ret (Inr (l, f, a, w'))"
  obtains f0 machines ks1 ks2 a1 w1 w2 scheme address where "bx_config X (cm_Config c) = Inr f0" "prepare_config X c f0 = Ret (Inr (f, machines))"
    "first_or_saved_app E X c f machines w = Ret (Inr (a1, w1))" "check_files X f = Ret (Inr ())"
    "startController K E X ks1 w1 = Ret ((None, ks2), w2)"
    "server_credentials X f = Inr (on_tls l)" "createGrpListener E f a1 w2 = Ret (Inr (on_external l, a, w'))"
    "listen_address X (pointed [] (fc_Listen f)) = Inr (scheme, address)" "on_scheme l = scheme" "on_address l = address"
proof -
  obtain client err k where k: "KubeClient K ks = ((client, err), k)" by (metis prod.exhaust)
  with assms obtain f0 machines a1 w1 k2 w2 where s: "bx_config X (cm_Config c) = Inr f0" "prepare_config X c f0 = Ret (Inr (f, machines))"
    "first_or_saved_app E X c f machines w = Ret (Inr (a1, w1))" "check_files X f = Ret (Inr ())"
    "startController K E X k w1 = Ret ((None, k2), w2)" and r: "runServer E X f a1 w2 = Ret (Inr (l, a, w'))"
    by (auto simp: StartServer_def Let_def)
  from r obtain Listen where "fc_Listen f = Some Listen" by (cases "fc_Listen f") (auto simp: runServer_def)
  with r s that [of f0 machines a1 w1 k k2 w2] show thesis by (auto simp: runServer_def pointed_def)
qed

text \<open>
  A server that has started serves from a state that satisfies the invariant, under the configuration it
  has prepared, which is complete; and so does every state it reaches afterwards.
\<close>

text \<open>C34: A server that has started serves under a complete configuration whose distribution has its section and whose node group has a name, in a state that satisfies the invariant of the application; so does every state it reaches afterwards, under that same configuration, and the calls made until the end of the start remain the first ones. This holds when the configuration file has loaded no provider yet, and when the saved state that the start decodes, if it decodes one, satisfies the invariant and leaves the machine types and the configuration as they are.\<close>

theorem started_server:
  assumes "StartServer K E X c ks w = Ret (Inr (l, f, a, w'))" "heap_wf w" "saved_soundly X c f w"
    and "\<And>f0. bx_config X (cm_Config c) = Inr f0 \<Longrightarrow> fc_provider f0 = None"
    and "reaches E json J ((a, w'), []) ((a2, w2), ts)"
  shows "app_inv a w' \<and> app_inv a2 w2 \<and> extends (trace w) (trace w') \<and> extends (trace w') (trace w2) \<and>
    app_configuration a2 = running_config f \<and>
    complete f \<and> distribution_ready f \<and> cfg_NodeGroup (running_config f) \<noteq> []"
proof -
  from StartServer_ok [OF assms(1)] obtain f0 machines ks1 ks2 a1 w1 w3 where s: "bx_config X (cm_Config c) = Inr f0"
    "prepare_config X c f0 = Ret (Inr (f, machines))" "first_or_saved_app E X c f machines w = Ret (Inr (a1, w1))"
    "startController K E X ks1 w1 = Ret ((None, ks2), w3)" "createGrpListener E f a1 w3 = Ret (Inr (on_external l, a, w'))"
    by metis
  from assms(4) [OF s(1)] have n: "fc_provider f0 = None" .
  have "aframe (new_app c f machines, w) (a1, w3)"
    by (rule aframe_world [OF first_or_saved_frame [OF s(3) assms(2,3)] wframe_startController [OF s(4)]])
  from createGrpListener_frame [OF s(5) this] have "aframe (new_app c f machines, w) (a, w')" .
  moreover from this have "app_inv a w'" by (simp add: aframe_def)
  then have "aframe (a, w') (a2, w2)" using reaches_frame [OF assms(5), of "(a, w')"] aframe_refl by simp
  moreover have "app_configuration (new_app c f machines) = running_config f" by (simp add: new_app_def)
  moreover have "distribution_ready f" "cfg_NodeGroup (running_config f) \<noteq> []"
    using prepare_config_ok [OF s(2) n] by (auto simp: running_config_def)
  moreover have "complete f" using file_over_flags [OF s(2) n] by blast
  ultimately show ?thesis by (auto simp: aframe_def evolves_def)
qed

text \<open>A started server has a password or a readable key for its machines, and can read the files of the cluster.\<close>

theorem started_server_files:
  assumes "StartServer K E X c ks w = Ret (Inr (l, f, a, w'))"
  shows "\<exists>ssh. fc_SSH f = Some ssh \<and> (ssh_Password ssh \<noteq> [] \<or> FileExistAndReadable (bx_credentials X) (bx_stat X) (ssh_AuthKeys ssh)) \<and>
    DirExistAndReadable (bx_credentials X) (bx_stat X) (fc_KubernetesPKISourceDir f) \<and>
    (fc_UseExternalEtdc f = Some True \<longrightarrow> DirExistAndReadable (bx_credentials X) (bx_stat X) (fc_ExtSourceEtcdSslDir f))"
proof -
  from StartServer_ok [OF assms] have "check_files X f = Ret (Inr ())" by metis
  then show ?thesis
    by (auto simp: check_files_def checkPrivateKeyExists_def checkKubernetesPKIReadable_def checkEtcdSslReadable_def
        split: option.splits if_splits)
qed

text \<open>Without the section of ssh the process panics or stops: it never serves.\<close>

lemma no_ssh_never_serves:
  assumes "bx_config X (cm_Config c) = Inr f0" "fc_SSH f0 = None" "fc_provider f0 = None"
  shows "StartServer K E X c ks w \<noteq> Ret (Inr s)"
proof
  obtain l f a w' where s: "s = (l, f, a, w')" by (metis prod.exhaust)
  assume r: "StartServer K E X c ks w = Ret (Inr s)"
  from StartServer_ok [OF r [unfolded s]] obtain f1 machines where
    "bx_config X (cm_Config c) = Inr f1" "prepare_config X c f1 = Ret (Inr (f, machines))" by metis
  with assms have "fc_SSH f = None" using file_over_flags [of X c f0 f machines] by simp
  with started_server_files [OF r [unfolded s]] show False by simp
qed

text \<open>Certificates are asked for only when the three of them are configured; with one or two the server is open.\<close>

theorem tls_needs_all:
  assumes "StartServer K E X c ks w = Ret (Inr (l, f, a, w'))"
  shows "on_tls l \<longleftrightarrow> fc_CertCA f \<noteq> [] \<and> fc_CertPrivateKey f \<noteq> [] \<and> fc_CertPublicKey f \<noteq> []"
proof -
  from StartServer_ok [OF assms] have "server_credentials X f = Inr (on_tls l)" by metis
  then show ?thesis by (auto simp: server_credentials_def split: if_splits option.splits sum.splits)
qed

theorem listens_where_told:
  assumes "StartServer K E X c ks w = Ret (Inr (l, f, a, w'))"
  shows "\<exists>host path. bx_url X (pointed [] (fc_Listen f)) = Inr (on_scheme l, host, path) \<and> on_scheme l \<in> {''unix'', ''tcp''} \<and>
    on_address l = (if on_scheme l = ''unix'' then path else host) \<and> on_address l \<noteq> [] \<and> bx_listen X (on_scheme l) (on_address l) = None"
proof -
  from StartServer_ok [OF assms] have "listen_address X (pointed [] (fc_Listen f)) = Inr (on_scheme l, on_address l)" by metis
  then show ?thesis by (auto simp: listen_address_def Let_def split: if_splits option.splits sum.splits)
qed

section \<open>Limits\<close>

text \<open>At the first start the limits of the nodes are those of the configuration.\<close>

theorem first_start_limits:
  assumes "prepare_config X c f0 = Ret (Inr (f, machines))" "fc_provider f0 = None"
  shows "\<exists>limiter. ResourceLimiter (new_app c f machines) = Some limiter \<and>
    GetMaxValue64 limiter ResourceNameNodes d = pointed (MaxNode c) (fc_MaxNode f0) \<and>
    GetMinValue64 limiter ResourceNameNodes d = pointed (MinNode c) (fc_MinNode f0) \<and>
    GetMaxValue64 limiter ResourceNameCores d = MaxCpus c \<and> GetMinValue64 limiter ResourceNameCores d = MinCpus c"
proof -
  have keep: "GetMaxValue64 (SetMinValue64 k v l) k' d = GetMaxValue64 l k' d"
    "GetMinValue64 (SetMaxValue64 k v l) k' d = GetMinValue64 l k' d" for k v l k' d
    by (simp_all add: limit_defs Let_def)
  have "fc_MinNode f = Some (pointed (MinNode c) (fc_MinNode f0)) \<and> fc_MaxNode f = Some (pointed (MaxNode c) (fc_MaxNode f0))"
    using file_over_flags [OF assms] by simp
  moreover have "GetMaxValue64 (GetResourceLimiter (flags.truncate c)) ResourceNameCores d = MaxCpus c"
    "GetMinValue64 (GetResourceLimiter (flags.truncate c)) ResourceNameCores d = MinCpus c"
    by (simp_all add: GetResourceLimiter_def limit_defs gget_def gentries_def flags.truncate_def ResourceNameNodes_def ResourceNameCores_def
        ResourceNameMemory_def)
  ultimately show ?thesis
    by (simp add: new_app_def keep max64.get_set min64.get_set pointed_def ResourceNameNodes_def ResourceNameCores_def)
qed

text \<open>A saved state brings its own: the limits of the command line and of the file are not looked at.\<close>

lemma saved_limits_win:
  assumes "FileExists (bx_stat X) (cm_SaveLocation c)"
  shows "first_or_saved_app E X (c\<lparr>MinNode := n, MaxNode := m, MinCpus := p, MaxCpus := q\<rparr>) f machines w =
    first_or_saved_app E X c f machines w"
proof -
  have "length (cm_SaveLocation c) \<noteq> 0" using assms by (auto simp: FileExists_def)
  with assms show ?thesis by (simp add: first_or_saved_app_def empty_app_def new_app_def)
qed

section \<open>The command line\<close>

definition no_arguments :: arguments where
  "no_arguments = \<lparr>arg_text = \<lambda>name d. d, arg_bool = \<lambda>name d. d, arg_int = \<lambda>name d. d, arg_duration = \<lambda>name d. d, arg_error = None\<rparr>"

text \<open>
  Without arguments the defaults stay, but for the memory of a managed node: its lower bound becomes that
  of the autoscaled nodes.
\<close>

theorem default_arguments: "ParseFlags no_arguments NewConfig = Inr (NewConfig\<lparr>ManagedNodeMinMemory := 1024\<rparr>)"
  by (simp add: ParseFlags_def no_arguments_def NewConfig_def)

text \<open>The mode of the cloud-init files on the command line is not used.\<close>

lemma file_mode_flag_unused:
  "prepare_config X (c\<lparr>cm_CloudInitFileMode := m\<rparr>) f = prepare_config X c f"
  by (simp add: prepare_config_def finish_config_def first_defaults_def last_defaults_def flags.truncate_def)

text \<open>A process that shows its version starts nothing.\<close>

lemma version_starts_nothing:
  assumes "ParseFlags (bx_args X) NewConfig = Inr c" "cm_DisplayVersion c" "bx_log_level X (cm_LogLevel c) = None"
  shows "main K E X w = Ret (Inr None)"
  using assms by (simp add: main_def or_fatal_def unless_error_def go_on_def)

section \<open>A start\<close>

text \<open>A file with a password and a node group; the directory of the certificates has a readable file.\<close>

definition sample_file :: file_config where
  "sample_file =
     \<lparr>fc_Distribution = None, fc_Plateform = Some ''multipass'', fc_MachineConfig = None, fc_ImageCredentialProviderConfig = None,
      fc_ImageCredentialProviderBinDir = None, fc_UseExternalEtdc = None, fc_UseEtcHosts = None, fc_UseCloudInitConfig = None,
      fc_CloudInitFileOwner = None, fc_CloudInitFileMode = None, fc_CloudProvider = None, fc_GrpcProvider = None,
      fc_ExtDestinationEtcdSslDir = [], fc_ExtSourceEtcdSslDir = [], fc_KubernetesPKISourceDir = [], fc_KubernetesPKIDestDir = [],
      fc_Listen = Some ''tcp://h'', fc_CertPrivateKey = [], fc_CertPublicKey = [], fc_CertCA = ''ca'', fc_ServiceIdentifier = ''s'',
      fc_NodeGroup = Some ''g'', fc_MinNode = None, fc_MaxNode = Some 3, fc_MaxPods = None, fc_MaxCreatedNodePerCycle = 2,
      fc_ProvisionnedNodeNamePrefix = [], fc_ManagedNodeNamePrefix = [], fc_ControlPlaneNamePrefix = [], fc_NodePrice = 0,
      fc_PodPrice = 0, fc_KubeAdm = True, fc_K3S = False, fc_RKE2 = False, fc_MicroK8S = False, fc_External = False,
      fc_DefaultMachineType = ''t'', fc_NodeLabels = None, fc_CloudInit = None, fc_Optionals = None,
      fc_ManagedNodeResourceLimiter = None,
      fc_SSH = Some \<lparr>ssh_UserName = ''u'', ssh_Password = ''p'', ssh_AuthKeys = [], ssh_WaitSshReadyInSeconds = 0\<rparr>,
      fc_AutoScalingOptions = None, fc_DebugMode = None, fc_AllowUpgrade = None, fc_cached_options = None, fc_provider = None\<rparr>"

definition sample_boot_env :: boot_env where
  "sample_boot_env =
     \<lparr>bx_args = no_arguments, bx_log_level = \<lambda>_. None, bx_config = \<lambda>_. Inr sample_file,
      bx_machines = \<lambda>_. Inr (Some [(''t'', sample_machine)]), bx_provider = \<lambda>_ _. None, bx_duration = \<lambda>_. Inr 0,
      bx_state = \<lambda>_ a w. Inr (a\<lparr>Groups := gmake\<rparr>, w),
      bx_stat = \<lambda>_. StatFound (Directory (0, 0, 0) (Some [(''ca.crt'', Some (RegularFile (4, 0, 0)))])),
      bx_credentials = \<lparr>cred_euid = 1, cred_egid = 1\<rparr>, bx_synced = True, bx_key_pair = \<lambda>_ _. None, bx_ca = \<lambda>_. Inr [],
      bx_pem = \<lambda>_. True, bx_url = \<lambda>_. Inr (''tcp'', ''h'', []), bx_listen = \<lambda>_ _. None\<rparr>"

definition crd_there_env :: env where
  "crd_there_env = quiet_env\<lparr>ans_err := \<lambda>h. case h of Api CrdCreate # t \<Rightarrow> Some (ApiAlreadyExists []) | _ \<Rightarrow> None\<rparr>"

text \<open>A state with a group of two pending machines was saved.\<close>

definition saved_boot_env :: boot_env where
  "saved_boot_env = sample_boot_env\<lparr>bx_state := \<lambda>_ a w. Inr (a\<lparr>Groups := Some [(''g'', pending_pair)]\<rparr>, pair_world)\<rparr>"

definition saved_command :: command where
  "saved_command = NewConfig\<lparr>cm_SaveLocation := ''/state''\<rparr>"

lemma saved_sound: "saved_soundly saved_boot_env saved_command f empty_world"
proof -
  have "app_inv a pair_world" if "Groups a = Some [(''g'', pending_pair)]" for a
    using pending_pair_inv that
    by (auto simp: app_inv_def gwf_def gget_def group_inv_def pending_pair_def sample_group_defs split: if_splits)
  moreover have "evolves empty_world pair_world" by (simp add: evolves_def empty_world_def pair_world_def)
  ultimately show ?thesis by (simp add: saved_soundly_def saved_boot_env_def empty_app_def new_app_def)
qed

lemma boot_result: "yields (\<lambda>r. case r of Inl e \<Rightarrow> False | Inr x \<Rightarrow> P x) m \<Longrightarrow> (\<And>x. m = Ret (Inr x) \<Longrightarrow> P x \<Longrightarrow> thesis) \<Longrightarrow> thesis"
proof -
  assume y: "yields (\<lambda>r. case r of Inl e \<Rightarrow> False | Inr x \<Rightarrow> P x) m" and t: "\<And>x. m = Ret (Inr x) \<Longrightarrow> P x \<Longrightarrow> thesis"
  from y obtain r where r: "m = Ret r" "case r of Inl e \<Rightarrow> False | Inr x \<Rightarrow> P x" by (auto simp: yields_iff)
  then show thesis by (cases r) (use t in auto)
qed

lemma sample_starts:
  obtains l f a w where
    "StartServer sample_kube_env crd_there_env sample_boot_env NewConfig sample_kube empty_world = Ret (Inr (l, f, a, w))"
    "fc_MaxNode f = Some 3" "\<not> on_tls l" "on_address l = ''h''"
proof -
  have "yields (\<lambda>r. case r of Inl e \<Rightarrow> False | Inr (l, f, a, w) \<Rightarrow> fc_MaxNode f = Some 3 \<and> \<not> on_tls l \<and> on_address l = ''h'')
    (StartServer sample_kube_env crd_there_env sample_boot_env NewConfig sample_kube empty_world)"
    by code_simp
  then show thesis by (rule boot_result) (use that in auto)
qed

lemma sample_heap: "heap_wf empty_world"
  by (simp add: empty_world_def heap_wf_def)

lemma sample_unloaded: "bx_config sample_boot_env (cm_Config NewConfig) = Inr f \<Longrightarrow> fc_provider f = None"
  by (auto simp: sample_boot_env_def sample_file_def)

theorem started_server_witness:
  "\<exists>l f a w. StartServer sample_kube_env crd_there_env saved_boot_env saved_command sample_kube empty_world = Ret (Inr (l, f, a, w)) \<and>
     gget (Groups a) ''g'' \<noteq> None \<and> app_inv a w \<and> distribution_ready f"
proof -
  have "yields (\<lambda>r. case r of Inl e \<Rightarrow> False | Inr (l, f, a, w) \<Rightarrow> \<not> Option.is_none (gget (Groups a) ''g''))
    (StartServer sample_kube_env crd_there_env saved_boot_env saved_command sample_kube empty_world)"
    by code_simp
  then obtain l f a w where r:
    "StartServer sample_kube_env crd_there_env saved_boot_env saved_command sample_kube empty_world = Ret (Inr (l, f, a, w))"
    "gget (Groups a) ''g'' \<noteq> None"
    by (rule boot_result) (auto simp: Option.is_none_def)
  have "fc_provider f0 = None" if "bx_config saved_boot_env (cm_Config saved_command) = Inr f0" for f0
    using that by (auto simp: saved_boot_env_def sample_boot_env_def sample_file_def)
  from started_server [OF r(1) sample_heap saved_sound this reaches.start] r show ?thesis by blast
qed

theorem started_server_files_witness:
  "\<exists>l f a w. StartServer sample_kube_env crd_there_env sample_boot_env NewConfig sample_kube empty_world = Ret (Inr (l, f, a, w)) \<and>
     fc_SSH f \<noteq> None"
proof -
  obtain l f a w where r:
    "StartServer sample_kube_env crd_there_env sample_boot_env NewConfig sample_kube empty_world = Ret (Inr (l, f, a, w))"
    by (rule sample_starts)
  from started_server_files [OF r] r show ?thesis by auto
qed

theorem tls_needs_all_witness:
  "\<exists>l f a w. StartServer sample_kube_env crd_there_env sample_boot_env NewConfig sample_kube empty_world = Ret (Inr (l, f, a, w)) \<and>
     \<not> on_tls l \<and> (fc_CertCA f = [] \<or> fc_CertPrivateKey f = [] \<or> fc_CertPublicKey f = [])"
proof -
  obtain l f a w where r:
    "StartServer sample_kube_env crd_there_env sample_boot_env NewConfig sample_kube empty_world = Ret (Inr (l, f, a, w))"
    and "\<not> on_tls l" by (rule sample_starts)
  with tls_needs_all [OF r] show ?thesis by blast
qed

theorem listens_where_told_witness:
  "\<exists>l f a w. StartServer sample_kube_env crd_there_env sample_boot_env NewConfig sample_kube empty_world = Ret (Inr (l, f, a, w)) \<and>
     on_scheme l \<in> {''unix'', ''tcp''} \<and> on_address l = ''h''"
proof -
  obtain l f a w where r:
    "StartServer sample_kube_env crd_there_env sample_boot_env NewConfig sample_kube empty_world = Ret (Inr (l, f, a, w))"
    and "on_address l = ''h''" by (rule sample_starts)
  with listens_where_told [OF r] show ?thesis by blast
qed

lemma sample_prepared:
  obtains f machines where "prepare_config sample_boot_env NewConfig sample_file = Ret (Inr (f, machines))" "fc_provider sample_file = None"
proof -
  have "yields (\<lambda>r. case r of Inl e \<Rightarrow> False | Inr x \<Rightarrow> True) (prepare_config sample_boot_env NewConfig sample_file)" by code_simp
  then obtain f machines where r: "prepare_config sample_boot_env NewConfig sample_file = Ret (Inr (f, machines))"
    by (rule boot_result) auto
  have "fc_provider sample_file = None" by (simp add: sample_file_def)
  with r show thesis by (rule that)
qed

theorem file_over_flags_witness:
  "\<exists>f machines. prepare_config sample_boot_env NewConfig sample_file = Ret (Inr (f, machines)) \<and> complete f \<and>
     fc_MaxNode f = Some 3 \<and> fc_MinNode f = Some 0"
proof -
  obtain f machines where r: "prepare_config sample_boot_env NewConfig sample_file = Ret (Inr (f, machines))"
    and n: "fc_provider sample_file = None" by (rule sample_prepared)
  from file_over_flags [OF r n] r show ?thesis by (auto simp: sample_file_def NewConfig_def pointed_def)
qed

theorem first_start_limits_witness:
  "\<exists>f machines limiter. prepare_config sample_boot_env NewConfig sample_file = Ret (Inr (f, machines)) \<and>
     ResourceLimiter (new_app NewConfig f machines) = Some limiter \<and> GetMaxValue64 limiter ResourceNameNodes 0 = 3 \<and>
     GetMaxValue64 limiter ResourceNameCores 0 = 24"
proof -
  obtain f machines where r: "prepare_config sample_boot_env NewConfig sample_file = Ret (Inr (f, machines))"
    and n: "fc_provider sample_file = None" by (rule sample_prepared)
  from first_start_limits [OF r n, of 0] r show ?thesis by (auto simp: sample_file_def NewConfig_def pointed_def)
qed

end
