(* ===== verification/Crd.thy ===== *)
theory Crd
  imports Controller
begin

text \<open>
  Model of the custom resource ManagedNode: its definition in \<^verbatim>\<open>CreateCRD\<close> of \<^verbatim>\<open>server/controller.go\<close>, the Go
  types of \<^verbatim>\<open>pkg/apis/nodemanager/v1alpha2/types.go\<close> with the names of their JSON tags, and the decoding
  of a document into these types. The definition tells the API server which documents it stores, the
  types tell the client what it reads; nothing in the program compares the two. What a stored
  document satisfies is the predicate \<open>conforms\<close>, as the documentation of structural schemas gives it:
  every value has the type that is declared, and members that are not declared have been removed.
\<close>

section \<open>Documents\<close>

datatype json =
    JNull
  | JBool bool
  | JNumber int
  | JString string
  | JArray "json list"
  | JObject "(string \<times> json) list"

text \<open>\<^verbatim>\<open>JSONSchemaProps\<close>: the type, the description, the default, the items of an array, the properties of an object.\<close>

datatype schema = JSONSchemaProps
  (schema_type: string) (schema_description: string) (schema_default: "json option")
  (schema_items: "schema option") (schema_properties: "(string \<times> schema) list")

definition typed :: "string \<Rightarrow> string \<Rightarrow> schema" where
  "typed kind description = JSONSchemaProps kind description None None []"

definition defaulted :: "string \<Rightarrow> string \<Rightarrow> json \<Rightarrow> schema" where
  "defaulted kind description d = JSONSchemaProps kind description (Some d) None []"

definition array_of :: "string \<Rightarrow> schema \<Rightarrow> schema" where
  "array_of description s = JSONSchemaProps ''array'' description None (Some s) []"

definition object_of :: "string \<Rightarrow> (string \<times> schema) list \<Rightarrow> schema" where
  "object_of description ps = JSONSchemaProps ''object'' description None None ps"

section \<open>The definition of the resource\<close>

definition route_schema :: schema where
  "route_schema = object_of [] [(''to'', typed ''string'' []), (''via'', typed ''string'' []), (''metric'', typed ''integer'' [])]"

definition openstack_schema :: schema where
  "openstack_schema = array_of [] (object_of []
     [(''network'', typed ''string'' ''Network name for vsphere or local interface for multipas and desktop, vmnetX...''),
      (''dhcp'', defaulted ''boolean'' ''Tell if interface use dhcp to obtain address'' (JBool True)),
      (''address'', typed ''string'' ''Valid ip v4 address or DHCP or NONE''),
      (''netmask'', typed ''string'' ''Netmask in format xxx.xxx.xxx.xxx'')])"

definition cloudstack_schema :: schema where
  "cloudstack_schema = array_of [] (object_of []
     [(''network'', typed ''string'' ''Network name for vsphere or local interface for multipass and desktop, vmnetX...''),
      (''dhcp'', defaulted ''boolean'' ''Tell if interface use dhcp to obtain address'' (JBool True)),
      (''address'', typed ''string'' ''Valid ip v4 address or DHCP or NONE''),
      (''netmask'', typed ''string'' ''Netmask in format xxx.xxx.xxx.xxx'')])"

definition vmware_schema :: schema where
  "vmware_schema = array_of [] (object_of []
     [(''network'', typed ''string'' ''Network name for vsphere or local interface for multipass and desktop, vmnetX...''),
      (''device'', defaulted ''string'' ''Adapter type'' (JString ''vmxnet3'')),
      (''dhcp'', defaulted ''boolean'' ''Tell if interface use dhcp to obtain address'' (JBool True)),
      (''use-dhcp-routes'', defaulted ''boolean'' ''Tell if we use routes declared by dhcp server'' (JBool True)),
      (''mac-address'', typed ''string''
         ''Give a mac address, empty to let hypervisor manage mac address or generate to generate mac address by controller''),
      (''address'', typed ''string'' ''Valid ip v4 address or DHCP or NONE''),
      (''netmask'', typed ''string'' ''Netmask in format xxx.xxx.xxx.xxx''),
      (''routes'', array_of ''Override network routes'' route_schema)])"

definition multipass_schema :: schema where
  "multipass_schema = array_of [] (object_of []
     [(''network'', typed ''string'' ''Network name for vsphere or local interface for multipass and desktop, vmnetX...''),
      (''dhcp'', defaulted ''boolean'' ''Tell if interface use dhcp to obtain address'' (JBool True)),
      (''use-dhcp-routes'', defaulted ''boolean'' ''Tell if we use routes declared by dhcp server'' (JBool True)),
      (''mac-address'', typed ''string''
         ''Give a mac address, empty to let hypervisor manage mac address or generate to generate mac address by controller''),
      (''address'', typed ''string'' ''Valid ip v4 address or DHCP or NONE''),
      (''netmask'', typed ''string'' ''Netmask in format xxx.xxx.xxx.xxx''),
      (''routes'', array_of ''Override network routes'' route_schema)])"

definition lxd_schema :: schema where
  "lxd_schema = array_of [] (object_of []
     [(''network'', typed ''string'' ''Network name for lxd''),
      (''nic'', typed ''string'' ''Interface name in container''),
      (''dhcp'', defaulted ''boolean'' ''Tell if interface use dhcp to obtain address'' (JBool True)),
      (''address'', typed ''string'' ''Valid ip v4 address or DHCP or NONE'')])"

definition eni_schema :: schema where
  "eni_schema = object_of ''Create or use existing ENI''
     [(''subnetID'', typed ''string'' ''Existing VPC subnet identifier''),
      (''securityGroup'', typed ''string'' ''Existing security group identifier''),
      (''networkInterfaceID'', typed ''string'' ''Existing ENI identifier''),
      (''privateAddress'', typed ''string'' ''Set ip v4 address for this interface''),
      (''publicIP'', typed ''boolean'' ''Use a public ip v4 address'')]"

definition network_schema :: schema where
  "network_schema = object_of ''Describe network interface for this node, allow to override configuration''
     [(''openstack'', openstack_schema), (''cloudstack'', cloudstack_schema), (''vmware'', vmware_schema),
      (''multipass'', multipass_schema), (''lxd'', lxd_schema), (''eni'', eni_schema)]"

definition spec_schema :: schema where
  "spec_schema = object_of []
     [(''nodegroup'', typed ''string'' ''Nodegroup to join''),
      (''controlPlane'', typed ''boolean'' ''Tell if the managed is a control plane''),
      (''allowDeployment'', typed ''boolean'' ''Tell the managed as control plane allows pods deployment''),
      (''instanceType'', defaulted ''string'' ''Instance type'' (JString ''t2.micro'')),
      (''diskSizeInMB'', defaulted ''integer'' ''The disk size in MiB'' (JNumber 10240)),
      (''diskType'', defaulted ''string'' ''Disk type on AWS'' (JString ''gp3'')),
      (''labels'', array_of ''Apprend node labels'' (typed ''string'' [])),
      (''annotations'', array_of ''Append node annotations'' (typed ''string'' [])),
      (''network'', network_schema)]"

definition status_schema :: schema where
  "status_schema = object_of []
     [(''lastUpdateTime'', typed ''string'' []), (''nodename'', typed ''string'' []), (''instancename'', typed ''string'' []),
      (''instanceid'', typed ''string'' []), (''message'', typed ''string'' []), (''reason'', typed ''string'' []),
      (''code'', typed ''integer'' [])]"

record resource_definition =
  crd_name :: string
  crd_group :: string
  crd_scope :: string
  crd_version :: string
  crd_schema :: schema
  crd_singular :: string
  crd_plural :: string
  crd_kind :: string
  crd_short :: "string list"

definition CRDPlural :: string where "CRDPlural = ''managednodes''"
definition GroupName :: string where "GroupName = ''nodemanager.aldunelabs.com''"
definition GroupVersion :: string where "GroupVersion = ''v1alpha2''"
definition CRDSingular :: string where "CRDSingular = ''managednode''"
definition CRDShortName :: string where "CRDShortName = ''mn''"

definition managed_node_definition :: resource_definition where
  "managed_node_definition =
     \<lparr>crd_name = FullCRDName, crd_group = GroupName, crd_scope = ''Cluster'', crd_version = GroupVersion,
      crd_schema = object_of [] [(''status'', status_schema), (''spec'', spec_schema)],
      crd_singular = CRDSingular, crd_plural = CRDPlural, crd_kind = CRDKind, crd_short = [CRDShortName]\<rparr>"

section \<open>The Go types\<close>

text \<open>A field is listed under the name of its JSON tag; the fields of an embedded struct are fields of the outer one.\<close>

datatype go_type =
    GoString
  | GoBool
  | GoInt nat
  | GoTime
  | GoPointer go_type
  | GoSlice go_type
  | GoStruct "(string \<times> go_type) list"

type_synonym go_fields = "(string \<times> go_type) list"

definition NetworkRoutes :: go_type where
  "NetworkRoutes = GoStruct [(''to'', GoString), (''via'', GoString), (''metric'', GoInt 64)]"

definition CommonManagedNodeNetwork :: go_fields where
  "CommonManagedNodeNetwork = [(''network'', GoString), (''dhcp'', GoBool), (''address'', GoString), (''netmask'', GoString)]"

definition VMWareManagedNodeNetwork :: go_type where
  "VMWareManagedNodeNetwork = GoStruct (CommonManagedNodeNetwork @
     [(''adapter'', GoString), (''use-dhcp-routes'', GoPointer GoBool), (''mac-address'', GoString), (''routes'', GoSlice NetworkRoutes)])"

definition MultipassManagedNodeNetwork :: go_type where
  "MultipassManagedNodeNetwork = GoStruct (CommonManagedNodeNetwork @
     [(''use-dhcp-routes'', GoPointer GoBool), (''mac-address'', GoString), (''routes'', GoSlice NetworkRoutes)])"

definition OpenStackManagedNodeNetwork :: go_type where
  "OpenStackManagedNodeNetwork = GoStruct CommonManagedNodeNetwork"

definition CloudStackManagedNodeNetwork :: go_type where
  "CloudStackManagedNodeNetwork = GoStruct CommonManagedNodeNetwork"

definition LxdManagedNodeNetwork :: go_type where
  "LxdManagedNodeNetwork = GoStruct [(''network'', GoString), (''dhcp'', GoBool), (''address'', GoString)]"

definition AwsManagedNodeNetwork :: go_type where
  "AwsManagedNodeNetwork = GoStruct
     [(''subnetID'', GoString), (''securityGroup'', GoString), (''networkInterfaceID'', GoString), (''privateAddress'', GoString),
      (''publicIP'', GoBool)]"

definition ManagedNetworkConfig :: go_type where
  "ManagedNetworkConfig = GoStruct
     [(''openstack'', GoSlice OpenStackManagedNodeNetwork), (''cloudstack'', GoSlice CloudStackManagedNodeNetwork),
      (''vmware'', GoSlice VMWareManagedNodeNetwork), (''multipass'', GoSlice MultipassManagedNodeNetwork),
      (''lxd'', GoSlice LxdManagedNodeNetwork), (''eni'', GoPointer AwsManagedNodeNetwork)]"

definition ManagedNodeSpec :: go_type where
  "ManagedNodeSpec = GoStruct
     [(''nodegroup'', GoString), (''controlPlane'', GoBool), (''allowDeployment'', GoBool), (''instanceType'', GoString),
      (''diskSizeInMB'', GoInt 64), (''diskType'', GoString), (''labels'', GoSlice GoString), (''annotations'', GoSlice GoString),
      (''network'', ManagedNetworkConfig)]"

definition ManagedNodeStatus :: go_type where
  "ManagedNodeStatus = GoStruct
     [(''lastUpdateTime'', GoTime), (''nodename'', GoString), (''instancename'', GoString), (''instanceid'', GoString),
      (''message'', GoString), (''reason'', GoString), (''code'', GoInt 32)]"

text \<open>The kind and the metadata of a resource are not part of its schema.\<close>

definition ManagedNode :: go_type where
  "ManagedNode = GoStruct [(''spec'', ManagedNodeSpec), (''status'', ManagedNodeStatus)]"

section \<open>Decoding\<close>

datatype go_value =
    VString string
  | VBool bool
  | VInt int
  | VTime int
  | VPointer "go_value option"
  | VSlice "go_value list"
  | VStruct "(string \<times> go_value) list"

fun zero_value :: "go_type \<Rightarrow> go_value" where
  "zero_value GoString = VString []"
| "zero_value GoBool = VBool False"
| "zero_value (GoInt w) = VInt 0"
| "zero_value GoTime = VTime 0"
| "zero_value (GoPointer t) = VPointer None"
| "zero_value (GoSlice t) = VSlice []"
| "zero_value (GoStruct fs) = VStruct (map (\<lambda>(f, t). (f, zero_value t)) fs)"

definition fits :: "nat \<Rightarrow> int \<Rightarrow> bool" where
  "fits w n \<longleftrightarrow> - (2 ^ (w - 1)) \<le> n \<and> n < 2 ^ (w - 1)"

text \<open>
  \<^verbatim>\<open>json.Unmarshal\<close> into a zero value, with names compared as they are written, as the client does: \<^verbatim>\<open>null\<close> leaves
  the value, a member without a field is ignored, a field without a member stays zero, a value of another
  type is an error. Times are read by the parameter \<open>parse\<close>.
\<close>

fun unmarshal :: "(string \<Rightarrow> int option) \<Rightarrow> go_type \<Rightarrow> json \<Rightarrow> go_value option"
  and unmarshal_each :: "(string \<Rightarrow> int option) \<Rightarrow> go_type \<Rightarrow> json list \<Rightarrow> go_value list option"
  and unmarshal_fields :: "(string \<Rightarrow> int option) \<Rightarrow> go_fields \<Rightarrow> (string \<times> json) list \<Rightarrow> (string \<times> go_value) list option" where
  "unmarshal parse t JNull = Some (zero_value t)"
| "unmarshal parse GoString (JString s) = Some (VString s)"
| "unmarshal parse GoTime (JString s) = map_option VTime (parse s)"
| "unmarshal parse GoBool (JBool b) = Some (VBool b)"
| "unmarshal parse (GoInt w) (JNumber n) = (if fits w n then Some (VInt n) else None)"
| "unmarshal parse (GoPointer t) (JBool b) = map_option (\<lambda>v. VPointer (Some v)) (unmarshal parse t (JBool b))"
| "unmarshal parse (GoPointer t) (JNumber n) = map_option (\<lambda>v. VPointer (Some v)) (unmarshal parse t (JNumber n))"
| "unmarshal parse (GoPointer t) (JString s) = map_option (\<lambda>v. VPointer (Some v)) (unmarshal parse t (JString s))"
| "unmarshal parse (GoPointer t) (JArray js) = map_option (\<lambda>v. VPointer (Some v)) (unmarshal parse t (JArray js))"
| "unmarshal parse (GoPointer t) (JObject ms) = map_option (\<lambda>v. VPointer (Some v)) (unmarshal parse t (JObject ms))"
| "unmarshal parse (GoSlice t) (JArray js) = map_option VSlice (unmarshal_each parse t js)"
| "unmarshal parse (GoStruct fs) (JObject ms) = map_option VStruct (unmarshal_fields parse fs ms)"
| "unmarshal parse t j = None"
| "unmarshal_each parse t [] = Some []"
| "unmarshal_each parse t (j # js) =
     (case unmarshal parse t j of None \<Rightarrow> None | Some v \<Rightarrow> map_option (Cons v) (unmarshal_each parse t js))"
| "unmarshal_fields parse [] ms = Some []"
| "unmarshal_fields parse ((f, t) # fs) ms =
     (case (case map_of ms f of None \<Rightarrow> Some (zero_value t) | Some j \<Rightarrow> unmarshal parse t j) of
        None \<Rightarrow> None
      | Some v \<Rightarrow> map_option (Cons (f, v)) (unmarshal_fields parse fs ms))"

section \<open>The resource the controller handles\<close>

text \<open>The fields of a decoded value, as the methods of the Go types read them.\<close>

fun field :: "string \<Rightarrow> go_value \<Rightarrow> go_value" where
  "field f (VStruct fs) = (case map_of fs f of Some v \<Rightarrow> v | None \<Rightarrow> VStruct [])"
| "field f v = VStruct []"

fun text_of :: "go_value \<Rightarrow> string" where
  "text_of (VString s) = s"
| "text_of v = []"

fun bool_of :: "go_value \<Rightarrow> bool" where
  "bool_of (VBool b) = b"
| "bool_of v = False"

fun int_of_value :: "go_value \<Rightarrow> int" where
  "int_of_value (VInt n) = n"
| "int_of_value (VTime n) = n"
| "int_of_value v = 0"

fun elements :: "go_value \<Rightarrow> go_value list" where
  "elements (VSlice vs) = vs"
| "elements v = []"

fun pointee :: "go_value \<Rightarrow> go_value option" where
  "pointee (VPointer p) = p"
| "pointee v = None"

definition common_of :: "go_value \<Rightarrow> common_network" where
  "common_of v = \<lparr>cn_NetworkName = text_of (field ''network'' v), cn_DHCP = bool_of (field ''dhcp'' v),
     cn_IPV4Address = text_of (field ''address'' v), cn_Netmask = text_of (field ''netmask'' v)\<rparr>"

definition routes_of :: "go_value \<Rightarrow> network_route list" where
  "routes_of v = map (\<lambda>r. \<lparr>route_To = text_of (field ''to'' r), route_Via = text_of (field ''via'' r),
     route_Metric = int_of_value (field ''metric'' r)\<rparr>) (elements (field ''routes'' v))"

definition vmware_of :: "go_value \<Rightarrow> managed_network" where
  "vmware_of v = VMWareNet (common_of v) (text_of (field ''adapter'' v))
     (map_option bool_of (pointee (field ''use-dhcp-routes'' v))) (text_of (field ''mac-address'' v)) (routes_of v)"

definition multipass_of :: "go_value \<Rightarrow> managed_network" where
  "multipass_of v = MultipassNet (common_of v)
     (map_option bool_of (pointee (field ''use-dhcp-routes'' v))) (text_of (field ''mac-address'' v)) (routes_of v)"

definition lxd_of :: "go_value \<Rightarrow> lxd_network" where
  "lxd_of v = \<lparr>lxd_NetworkName = text_of (field ''network'' v), lxd_DHCP = bool_of (field ''dhcp'' v),
     lxd_IPV4Address = text_of (field ''address'' v)\<rparr>"

definition eni_of :: "go_value \<Rightarrow> aws_network" where
  "eni_of v = \<lparr>aws_SubnetID = text_of (field ''subnetID'' v), aws_SecurityGroupID = text_of (field ''securityGroup'' v),
     aws_NetworkInterfaceID = text_of (field ''networkInterfaceID'' v), aws_PrivateAddress = text_of (field ''privateAddress'' v),
     aws_PublicIP = bool_of (field ''publicIP'' v)\<rparr>"

definition networking_of :: "go_value \<Rightarrow> managed_network_config" where
  "networking_of v = \<lparr>net_OpenStack = map common_of (elements (field ''openstack'' v)),
     net_CloudStack = map common_of (elements (field ''cloudstack'' v)), net_VMWare = map vmware_of (elements (field ''vmware'' v)),
     net_Multipass = map multipass_of (elements (field ''multipass'' v)), net_Lxd = map lxd_of (elements (field ''lxd'' v)),
     net_ENI = map_option eni_of (pointee (field ''eni'' v))\<rparr>"

definition node_status_of :: "go_value \<Rightarrow> managed_node_status" where
  "node_status_of v = \<lparr>ms_LastUpdateTime = int_of_value (field ''lastUpdateTime'' v), ms_NodeName = text_of (field ''nodename'' v),
     ms_InstanceName = text_of (field ''instancename'' v), ms_InstanceID = text_of (field ''instanceid'' v),
     ms_Message = text_of (field ''message'' v), ms_Reason = text_of (field ''reason'' v), ms_Code = int_of_value (field ''code'' v)\<rparr>"

definition managed_node_of :: "string \<Rightarrow> string \<Rightarrow> go_value \<Rightarrow> managed_node" where
  "managed_node_of name uid v =
     (let s = field ''spec'' v
      in \<lparr>mn_Name = name, mn_UID = uid, mn_Nodegroup = text_of (field ''nodegroup'' s), mn_ControlPlane = bool_of (field ''controlPlane'' s),
          mn_AllowDeployment = bool_of (field ''allowDeployment'' s), mn_InstanceType = text_of (field ''instanceType'' s),
          mn_DiskSizeInMB = int_of_value (field ''diskSizeInMB'' s), mn_Labels = map text_of (elements (field ''labels'' s)),
          mn_Annotations = map text_of (elements (field ''annotations'' s)), mn_Networking = networking_of (field ''network'' s),
          mn_Status = node_status_of (field ''status'' v)\<rparr>)"

end
