(* ===== verification/Crd_Facts.thy ===== *)
theory Crd_Facts
  imports Crd
begin

text \<open>
  The schema of ManagedNode against its Go types. Where both declare a field they agree on its type, so
  every stored document is decoded, unless a number does not fit or a time cannot be read; the schema
  excludes neither. They do not declare the same fields: the adapter of a VMware network is called
  \<^verbatim>\<open>device\<close> in the schema and \<^verbatim>\<open>adapter\<close> in the type, so it is removed from every document before the
  program reads it.
\<close>

section \<open>Documents of a schema\<close>

text \<open>The documents that are stored: of the declared types, with the declared members only.\<close>

fun conforms :: "schema \<Rightarrow> json \<Rightarrow> bool"
  and conforms_each :: "schema \<Rightarrow> json list \<Rightarrow> bool"
  and conforms_members :: "(string \<times> schema) list \<Rightarrow> (string \<times> json) list \<Rightarrow> bool" where
  "conforms s JNull = False"
| "conforms s (JBool b) = (schema_type s = ''boolean'')"
| "conforms s (JNumber n) = (schema_type s = ''integer'')"
| "conforms s (JString t) = (schema_type s = ''string'')"
| "conforms s (JArray js) = (schema_type s = ''array'' \<and> (case schema_items s of None \<Rightarrow> True | Some it \<Rightarrow> conforms_each it js))"
| "conforms s (JObject ms) = (schema_type s = ''object'' \<and> distinct (map fst ms) \<and> conforms_members (schema_properties s) ms)"
| "conforms_each s [] = True"
| "conforms_each s (j # js) = (conforms s j \<and> conforms_each s js)"
| "conforms_members ps [] = True"
| "conforms_members ps ((k, j) # ms) =
     ((case map_of ps k of None \<Rightarrow> False | Some s \<Rightarrow> conforms s j) \<and> conforms_members ps ms)"

lemma conforms_each_iff: "conforms_each s js \<longleftrightarrow> (\<forall>j\<in>set js. conforms s j)"
  by (induction js) auto

lemma conforms_members_lookup:
  "conforms_members ps ms \<Longrightarrow> map_of ms k = Some j \<Longrightarrow> \<exists>s. map_of ps k = Some s \<and> conforms s j"
  by (induction ms) (auto split: option.splits if_splits)

lemma conforms_member: "conforms_members ps ms \<Longrightarrow> map_of ms k = Some j \<Longrightarrow> map_of ps k = Some s \<Longrightarrow> conforms s j"
  using conforms_members_lookup by fastforce

text \<open>The schema and the type declare the same types, as far as both declare a field.\<close>

fun agrees :: "schema \<Rightarrow> go_type \<Rightarrow> bool"
  and agrees_fields :: "(string \<times> schema) list \<Rightarrow> go_fields \<Rightarrow> bool" where
  "agrees s GoString = (schema_type s = ''string'')"
| "agrees s GoTime = (schema_type s = ''string'')"
| "agrees s GoBool = (schema_type s = ''boolean'')"
| "agrees s (GoInt w) = (schema_type s = ''integer'')"
| "agrees s (GoPointer t) = agrees s t"
| "agrees s (GoSlice t) = (schema_type s = ''array'' \<and> (case schema_items s of None \<Rightarrow> False | Some it \<Rightarrow> agrees it t))"
| "agrees s (GoStruct fs) = (schema_type s = ''object'' \<and> agrees_fields (schema_properties s) fs)"
| "agrees_fields ps [] = True"
| "agrees_fields ps ((f, t) # fs) =
     ((case map_of ps f of None \<Rightarrow> True | Some s \<Rightarrow> agrees s t) \<and> agrees_fields ps fs)"

text \<open>Every number fits the field it is decoded into, and every time can be read.\<close>

fun readable_document :: "(string \<Rightarrow> int option) \<Rightarrow> go_type \<Rightarrow> json \<Rightarrow> bool"
  and readable_each :: "(string \<Rightarrow> int option) \<Rightarrow> go_type \<Rightarrow> json list \<Rightarrow> bool"
  and readable_fields :: "(string \<Rightarrow> int option) \<Rightarrow> go_fields \<Rightarrow> (string \<times> json) list \<Rightarrow> bool" where
  "readable_document parse (GoInt w) (JNumber n) = fits w n"
| "readable_document parse GoTime (JString s) = (parse s \<noteq> None)"
| "readable_document parse (GoPointer t) j = readable_document parse t j"
| "readable_document parse (GoSlice t) (JArray js) = readable_each parse t js"
| "readable_document parse (GoStruct fs) (JObject ms) = readable_fields parse fs ms"
| "readable_document parse t j = True"
| "readable_each parse t [] = True"
| "readable_each parse t (j # js) = (readable_document parse t j \<and> readable_each parse t js)"
| "readable_fields parse [] ms = True"
| "readable_fields parse ((f, t) # fs) ms =
     ((case map_of ms f of None \<Rightarrow> True | Some j \<Rightarrow> readable_document parse t j) \<and> readable_fields parse fs ms)"

lemma unmarshal_iff:
  "agrees s t \<Longrightarrow> conforms s j \<Longrightarrow> (\<exists>v. unmarshal parse t j = Some v) \<longleftrightarrow> readable_document parse t j"
  "agrees s t \<Longrightarrow> conforms_each s js \<Longrightarrow> (\<exists>vs. unmarshal_each parse t js = Some vs) \<longleftrightarrow> readable_each parse t js"
  "agrees_fields ps fs \<Longrightarrow> conforms_members ps ms \<Longrightarrow> (\<exists>vs. unmarshal_fields parse fs ms = Some vs) \<longleftrightarrow> readable_fields parse fs ms"
  by (induction parse t j and parse t js and parse fs ms arbitrary: s and s and ps
      rule: unmarshal_unmarshal_each_unmarshal_fields.induct)
    (auto split: option.splits dest: conforms_members_lookup, (metis conforms_member option.simps(3))+)

section \<open>What is decoded\<close>

fun has_type :: "go_type \<Rightarrow> go_value \<Rightarrow> bool"
  and has_fields :: "go_fields \<Rightarrow> (string \<times> go_value) list \<Rightarrow> bool" where
  "has_type GoString (VString s) = True"
| "has_type GoBool (VBool b) = True"
| "has_type (GoInt w) (VInt n) = fits w n"
| "has_type GoTime (VTime n) = True"
| "has_type (GoPointer t) (VPointer p) = (case p of None \<Rightarrow> True | Some v \<Rightarrow> has_type t v)"
| "has_type (GoSlice t) (VSlice vs) = (\<forall>v\<in>set vs. has_type t v)"
| "has_type (GoStruct fs) (VStruct vs) = has_fields fs vs"
| "has_type t v = False"
| "has_fields [] [] = True"
| "has_fields ((f, t) # fs) ((g, v) # vs) = (f = g \<and> has_type t v \<and> has_fields fs vs)"
| "has_fields fs vs = False"

lemma fits_0 [simp]: "fits w 0"
  by (simp add: fits_def)

lemma zero_typed: "has_type t (zero_value t)"
proof (induction t)
  case (GoStruct fs)
  then show ?case by (induction fs) force+
qed auto

lemma unmarshal_typed:
  "unmarshal parse t j = Some v \<Longrightarrow> has_type t v"
  "unmarshal_each parse t js = Some vs \<Longrightarrow> \<forall>v\<in>set vs. has_type t v"
  "unmarshal_fields parse fs ms = Some xs \<Longrightarrow> has_fields fs xs"
  by (induction parse t j and parse t js and parse fs ms arbitrary: v and vs and xs
      rule: unmarshal_unmarshal_each_unmarshal_fields.induct)
    (auto simp: zero_typed split: option.splits if_splits)

text \<open>A decoded value holds in each field what the document holds under its name, and zero where it has nothing.\<close>

lemma unmarshal_fields_lookup:
  assumes "unmarshal_fields parse fs ms = Some vs" "map_of fs f = Some t"
  shows "\<exists>v. map_of vs f = Some v \<and> (case map_of ms f of None \<Rightarrow> v = zero_value t | Some j \<Rightarrow> unmarshal parse t j = Some v)"
  using assms
proof (induction fs arbitrary: vs)
  case (Cons g fs)
  obtain h u where g: "g = (h, u)" by (cases g)
  with Cons.prems(1) obtain w ws where w: "unmarshal_fields parse fs ms = Some ws" "vs = (h, w) # ws"
    "case map_of ms h of None \<Rightarrow> w = zero_value u | Some j \<Rightarrow> unmarshal parse u j = Some w"
    by (auto split: option.splits)
  then show ?case using Cons.IH [OF w(1)] Cons.prems(2) g by (cases "h = f") auto
qed simp

section \<open>Fields that the schema does not declare\<close>

text \<open>The values at a path of field names, in all the elements of the slices on the way.\<close>

fun values_at :: "string list \<Rightarrow> go_value \<Rightarrow> go_value list" where
  "values_at [] v = [v]"
| "values_at (f # p) (VSlice vs) = concat (map (values_at (f # p)) vs)"
| "values_at (f # p) (VPointer q) = (case q of None \<Rightarrow> [] | Some v \<Rightarrow> values_at (f # p) v)"
| "values_at (f # p) (VStruct fs) = (case map_of fs f of None \<Rightarrow> [] | Some v \<Rightarrow> values_at p v)"
| "values_at (f # p) v = []"

fun declared :: "string list \<Rightarrow> schema \<Rightarrow> bool" where
  "declared [] s = True"
| "declared (f # p) (JSONSchemaProps kind description d (Some it) ps) =
     (if kind = ''array'' then declared (f # p) it else (case map_of ps f of None \<Rightarrow> False | Some s \<Rightarrow> declared p s))"
| "declared (f # p) (JSONSchemaProps kind description d None ps) =
     (if kind = ''array'' then True else (case map_of ps f of None \<Rightarrow> False | Some s \<Rightarrow> declared p s))"

lemma declared_Cons: "declared (f # p) s \<longleftrightarrow>
   (if schema_type s = ''array'' then (case schema_items s of None \<Rightarrow> True | Some it \<Rightarrow> declared (f # p) it)
    else (case map_of (schema_properties s) f of None \<Rightarrow> False | Some s' \<Rightarrow> declared p s'))"
  by (cases s; cases "schema_items s") auto

fun is_zero :: "go_value \<Rightarrow> bool"
  and zero_fields :: "(string \<times> go_value) list \<Rightarrow> bool" where
  "is_zero (VString s) = (s = [])"
| "is_zero (VBool b) = (\<not> b)"
| "is_zero (VInt n) = (n = 0)"
| "is_zero (VTime n) = (n = 0)"
| "is_zero (VPointer p) = (p = None)"
| "is_zero (VSlice vs) = (vs = [])"
| "is_zero (VStruct fs) = zero_fields fs"
| "zero_fields [] = True"
| "zero_fields ((f, v) # fs) = (is_zero v \<and> zero_fields fs)"

lemma zero_field: "zero_fields fs \<Longrightarrow> map_of fs f = Some v \<Longrightarrow> is_zero v"
  by (induction fs) (auto split: if_splits)

lemma is_zero_value [simp]: "is_zero (zero_value t)"
proof (induction t)
  case (GoStruct fs)
  then show ?case by (induction fs) force+
qed auto

lemma values_at_zero: "is_zero v \<Longrightarrow> x \<in> set (values_at p v) \<Longrightarrow> is_zero x"
proof (induction p v rule: values_at.induct)
  case (4 f p fs)
  then show ?case by (cases "map_of fs f") (auto dest: zero_field)
qed auto

lemma unmarshal_struct_lookup:
  assumes "unmarshal_fields parse fs ms = Some vs" "map_of vs f = Some v"
  shows "\<exists>t. map_of fs f = Some t"
  using assms by (induction fs arbitrary: vs) (auto split: option.splits if_splits)

lemma unmarshal_element: "unmarshal_each parse t js = Some vs \<Longrightarrow> v \<in> set vs \<Longrightarrow> \<exists>j\<in>set js. unmarshal parse t j = Some v"
  by (induction js arbitrary: vs) (auto split: option.splits)

lemma agrees_field: "agrees_fields ps fs \<Longrightarrow> map_of fs f = Some t \<Longrightarrow> map_of ps f = Some s \<Longrightarrow> agrees s t"
  by (induction fs) (auto split: option.splits if_splits)

lemma unmarshal_inversion:
  "unmarshal parse t j = Some (VSlice vs) \<Longrightarrow> j \<noteq> JNull \<Longrightarrow> \<exists>t' js. t = GoSlice t' \<and> j = JArray js \<and> unmarshal_each parse t' js = Some vs"
  "unmarshal parse t j = Some (VStruct xs) \<Longrightarrow> j \<noteq> JNull \<Longrightarrow> \<exists>fs ms. t = GoStruct fs \<and> j = JObject ms \<and> unmarshal_fields parse fs ms = Some xs"
  "unmarshal parse t j = Some (VPointer q) \<Longrightarrow> j \<noteq> JNull \<Longrightarrow> \<exists>t' v. t = GoPointer t' \<and> q = Some v \<and> unmarshal parse t' j = Some v"
  by (cases t; cases j; auto split: if_splits)+

lemma conforms_not_null: "conforms s j \<Longrightarrow> j \<noteq> JNull"
  by auto

text \<open>A field that the schema does not declare is zero in every value that is decoded.\<close>

lemma undeclared_zero:
  assumes "agrees s t" "conforms s j" "unmarshal parse t j = Some v" "\<not> declared p s" "x \<in> set (values_at p v)"
  shows "is_zero x"
  using assms
proof (induction p v arbitrary: s t j rule: values_at.induct)
  case (2 f p vs)
  from unmarshal_inversion(1) [OF 2(4) conforms_not_null [OF 2(3)]] obtain t' js where
    t: "t = GoSlice t'" "j = JArray js" "unmarshal_each parse t' js = Some vs" by blast
  with 2(2,3) obtain it where it: "schema_type s = ''array''" "schema_items s = Some it" "agrees it t'" "conforms_each it js"
    by (auto split: option.splits)
  from 2(6) obtain v where v: "v \<in> set vs" "x \<in> set (values_at (f # p) v)" by auto
  from unmarshal_element [OF t(3) v(1)] obtain e where "e \<in> set js" "unmarshal parse t' e = Some v" by blast
  with it 2(5) 2(1) [OF v(1) it(3), of e] v(2) show ?case by (auto simp: conforms_each_iff declared_Cons)
next
  case (3 f p q)
  from unmarshal_inversion(3) [OF 3(4) conforms_not_null [OF 3(3)]] obtain t' v where
    "t = GoPointer t'" "q = Some v" "unmarshal parse t' j = Some v" by blast
  with 3 show ?case by auto
next
  case (4 f p xs)
  from unmarshal_inversion(2) [OF 4(4) conforms_not_null [OF 4(3)]] obtain fs ms where
    t: "t = GoStruct fs" "j = JObject ms" "unmarshal_fields parse fs ms = Some xs" by blast
  from 4(6) obtain v where v: "map_of xs f = Some v" "x \<in> set (values_at p v)" by (cases "map_of xs f") auto
  from unmarshal_struct_lookup [OF t(3) v(1)] obtain u where u: "map_of fs f = Some u" by blast
  from unmarshal_fields_lookup [OF t(3) u] v(1)
  have read: "case map_of ms f of None \<Rightarrow> v = zero_value u | Some e \<Rightarrow> unmarshal parse u e = Some v" by auto
  from 4(2,3) t have s: "schema_type s = ''object''" "agrees_fields (schema_properties s) fs" "conforms_members (schema_properties s) ms" by auto
  show ?case
  proof (cases "map_of ms f")
    case None
    with read values_at_zero [OF is_zero_value, of x p u] v(2) show ?thesis by simp
  next
    case (Some e)
    with conforms_members_lookup [OF s(3)] obtain s' where s': "map_of (schema_properties s) f = Some s'" "conforms s' e" by blast
    with 4(5) s(1) have "\<not> declared p s'" by (simp add: declared_Cons)
    with 4(1) [OF v(1) agrees_field [OF s(2) u s'(1)] s'(2)] read Some v(2) show ?thesis by simp
  qed
qed auto


section \<open>ManagedNode\<close>

lemmas go_type_defs = NetworkRoutes_def CommonManagedNodeNetwork_def VMWareManagedNodeNetwork_def MultipassManagedNodeNetwork_def
  OpenStackManagedNodeNetwork_def CloudStackManagedNodeNetwork_def LxdManagedNodeNetwork_def AwsManagedNodeNetwork_def
  ManagedNetworkConfig_def ManagedNodeSpec_def ManagedNodeStatus_def ManagedNode_def

lemmas schema_defs = typed_def defaulted_def array_of_def object_of_def route_schema_def openstack_schema_def cloudstack_schema_def
  vmware_schema_def multipass_schema_def lxd_schema_def eni_schema_def network_schema_def spec_schema_def status_schema_def
  managed_node_definition_def

lemma managed_node_agrees: "agrees (crd_schema managed_node_definition) ManagedNode"
  by code_simp

text \<open>A document that is stored is decoded into a value of the Go type, unless a number does not fit or a time cannot be read.\<close>

text \<open>C39: A ManagedNode document that the schema of CreateCRD admits is decoded into a value of the Go type exactly when every number fits its field and every time can be read: the schema and the Go types agree on the type of every field that both declare.\<close>

theorem stored_node_decodes:
  assumes "conforms (crd_schema managed_node_definition) j"
  shows "(\<exists>v. unmarshal parse ManagedNode j = Some v \<and> has_type ManagedNode v) \<longleftrightarrow> readable_document parse ManagedNode j"
  using unmarshal_iff(1) [OF managed_node_agrees assms] unmarshal_typed(1) by blast

text \<open>The schema excludes neither.\<close>

lemma unreadable_status:
  assumes "parse ''x'' = None"
  shows "conforms (crd_schema managed_node_definition) (JObject [(''status'', JObject [(''lastUpdateTime'', JString ''x'')])])"
    "unmarshal parse ManagedNode (JObject [(''status'', JObject [(''lastUpdateTime'', JString ''x'')])]) = None"
    "conforms (crd_schema managed_node_definition) (JObject [(''status'', JObject [(''code'', JNumber 2147483648)])])"
    "unmarshal parse ManagedNode (JObject [(''status'', JObject [(''code'', JNumber 2147483648)])]) = None"
  using assms by (simp_all add: schema_defs go_type_defs fits_def)

text \<open>The paths that a type and a schema name.\<close>

fun type_paths :: "go_type \<Rightarrow> string list list"
  and field_paths :: "go_fields \<Rightarrow> string list list" where
  "type_paths (GoPointer t) = type_paths t"
| "type_paths (GoSlice t) = type_paths t"
| "type_paths (GoStruct fs) = field_paths fs"
| "type_paths t = []"
| "field_paths [] = []"
| "field_paths ((f, t) # fs) = [f] # map (Cons f) (type_paths t) @ field_paths fs"

fun schema_paths :: "schema \<Rightarrow> string list list"
  and property_paths :: "(string \<times> schema) list \<Rightarrow> string list list" where
  "schema_paths (JSONSchemaProps kind description d None ps) = property_paths ps"
| "schema_paths (JSONSchemaProps kind description d (Some it) ps) = schema_paths it @ property_paths ps"
| "property_paths [] = []"
| "property_paths ((f, s) # ps) = [f] # map (Cons f) (schema_paths s) @ property_paths ps"

text \<open>They name the same fields, but for the adapter of a VMware network and the card of an LXD network.\<close>

theorem schema_gaps:
  "filter (\<lambda>p. p \<notin> set (schema_paths (crd_schema managed_node_definition))) (type_paths ManagedNode) =
     [[''spec'', ''network'', ''vmware'', ''adapter'']] \<and>
   filter (\<lambda>p. p \<notin> set (type_paths ManagedNode)) (schema_paths (crd_schema managed_node_definition)) =
     [[''spec'', ''network'', ''vmware'', ''device''], [''spec'', ''network'', ''lxd'', ''nic'']]"
  by (rule conjI; code_simp)

fun defaults_conform :: "schema \<Rightarrow> bool"
  and property_defaults_conform :: "(string \<times> schema) list \<Rightarrow> bool" where
  "defaults_conform (JSONSchemaProps kind description d None ps) =
     ((case d of None \<Rightarrow> True | Some j \<Rightarrow> conforms (JSONSchemaProps kind description d None ps) j) \<and> property_defaults_conform ps)"
| "defaults_conform (JSONSchemaProps kind description d (Some it) ps) =
     ((case d of None \<Rightarrow> True | Some j \<Rightarrow> conforms (JSONSchemaProps kind description d (Some it) ps) j) \<and> defaults_conform it \<and>
      property_defaults_conform ps)"
| "property_defaults_conform [] = True"
| "property_defaults_conform ((f, s) # ps) = (defaults_conform s \<and> property_defaults_conform ps)"

lemma managed_node_defaults: "defaults_conform (crd_schema managed_node_definition)"
  by code_simp

section \<open>What the controller reads\<close>

lemma has_field:
  assumes "has_type (GoStruct fs) v" "map_of fs f = Some t"
  shows "\<exists>xs. v = VStruct xs \<and> map_of xs f = Some (field f v) \<and> has_type t (field f v)"
proof -
  from assms(1) obtain xs where v: "v = VStruct xs" "has_fields fs xs" by (cases v) auto
  have "has_fields fs xs \<Longrightarrow> map_of fs f = Some t \<Longrightarrow> \<exists>u. map_of xs f = Some u \<and> has_type t u"
  proof (induction fs arbitrary: xs)
    case (Cons g fs)
    then show ?case by (cases g; cases xs) (auto split: if_splits)
  qed simp
  with v assms(2) show ?thesis by auto
qed

lemma has_fieldE:
  assumes "has_type (GoStruct fs) v" "map_of fs f = Some t"
  obtains xs u where "v = VStruct xs" "map_of xs f = Some u" "field f v = u" "has_type t u"
  using has_field [OF assms] by blast

lemma VMWareNets_no_adapter:
  assumes "conforms (crd_schema managed_node_definition) j" "unmarshal parse ManagedNode j = Some v"
    and "m \<in> set (net_VMWare (mn_Networking (managed_node_of name uid v)))"
  shows "GetAdapter m = []"
proof -
  have t: "has_type ManagedNode v" using assms(2) by (rule unmarshal_typed(1))
  obtain xs s where v: "v = VStruct xs" "map_of xs ''spec'' = Some s" "field ''spec'' v = s" "has_type ManagedNodeSpec s"
    by (rule has_fieldE [OF t [unfolded ManagedNode_def], of "''spec''"], simp, rule that, assumption+)
  obtain ys n where s: "s = VStruct ys" "map_of ys ''network'' = Some n" "field ''network'' s = n" "has_type ManagedNetworkConfig n"
    by (rule has_fieldE [OF v(4) [unfolded ManagedNodeSpec_def], of "''network''"], simp, rule that, assumption+)
  obtain zs w where n: "n = VStruct zs" "map_of zs ''vmware'' = Some w" "field ''vmware'' n = w" "has_type (GoSlice VMWareManagedNodeNetwork) w"
    by (rule has_fieldE [OF s(4) [unfolded ManagedNetworkConfig_def], of "''vmware''"], simp, rule that, assumption+)
  from n(4) obtain vs where vs: "w = VSlice vs" "\<forall>e\<in>set vs. has_type VMWareManagedNodeNetwork e" by (cases w) auto
  from assms(3) vs(1) obtain e where e: "e \<in> set vs" "m = vmware_of e"
    by (auto simp: managed_node_of_def networking_of_def Let_def v(3) s(3) n(3))
  have te: "has_type VMWareManagedNodeNetwork e" using vs(2) e(1) by blast
  obtain ws a where a: "e = VStruct ws" "map_of ws ''adapter'' = Some a" "field ''adapter'' e = a" "has_type GoString a"
    by (rule has_fieldE [OF te [unfolded VMWareManagedNodeNetwork_def CommonManagedNodeNetwork_def], of "''adapter''"], simp, rule that, assumption+)
  have "a \<in> set (values_at [''spec'', ''network'', ''vmware'', ''adapter''] v)"
    using e(1) a(1,2) by (auto simp: v(1,2) s(1,2) n(1,2) vs(1) intro!: bexI [of _ e])
  moreover have "\<not> declared [''spec'', ''network'', ''vmware'', ''adapter''] (crd_schema managed_node_definition)" by code_simp
  ultimately have "is_zero a" by (intro undeclared_zero [OF managed_node_agrees assms(1,2)])
  with a(3,4) e(2) show ?thesis by (cases a) (auto simp: vmware_of_def)
qed

lemma configure_keeps_adapter: "GetAdapter m = [] \<Longrightarrow> Adapter (configure_interface m i) = Adapter i"
  by (simp add: configure_interface_def Let_def)

text \<open>
  The adapter that a ManagedNode asks for never reaches the machine: with the networks of a stored document
  every interface keeps the adapter of the configuration.
\<close>

text \<open>C33: The adapter that a ManagedNode asks for never reaches a machine: with the VMware networks decoded from any stored document every interface keeps the adapter of the configuration, because the schema of CreateCRD calls that field device and the Go type calls it adapter.\<close>

theorem adapter_never_overridden:
  assumes "conforms (crd_schema managed_node_definition) j" "unmarshal parse ManagedNode j = Some v"
  shows "map Adapter (Interfaces (ConfigureManagedNetwork (net_VMWare (mn_Networking (managed_node_of name uid v))) vnet)) =
    map Adapter (Interfaces vnet)"
proof -
  have step: "map Adapter (update_first p (configure_interface m) xs) = map Adapter xs" if "GetAdapter m = []" for m p xs
    using configure_keeps_adapter [OF that] by (induction xs) auto
  have "\<forall>m\<in>set ms. GetAdapter m = [] \<Longrightarrow> map Adapter (Interfaces (ConfigureManagedNetwork ms vnet)) = map Adapter (Interfaces vnet)" for ms
    unfolding ConfigureManagedNetwork_def by (induction ms arbitrary: vnet) (auto simp: step)
  with VMWareNets_no_adapter [OF assms] show ?thesis by blast
qed

text \<open>The schema makes dhcp the default, and with dhcp a fixed address is dropped.\<close>

lemma dhcp_default: "map_of (schema_properties (the (schema_items vmware_schema))) ''dhcp'' =
    Some (defaulted ''boolean'' ''Tell if interface use dhcp to obtain address'' (JBool True))"
  by (simp add: vmware_schema_def array_of_def object_of_def)

lemma dhcp_drops_address: "IsDHCP m \<Longrightarrow> if_IPAddress (configure_interface m i) = []"
  by (simp add: configure_interface_def Let_def)

lemma readme_disk_size_undeclared: "\<not> declared [''spec'', ''diskSizeInMb''] (crd_schema managed_node_definition)"
  by code_simp

text \<open>A member that is there is read into the resource of the controller; one that is not leaves zero.\<close>

lemma unmarshal_scalars:
  "unmarshal parse GoString j = Some v \<Longrightarrow> text_of v = (case j of JString s \<Rightarrow> s | _ \<Rightarrow> [])"
  "unmarshal parse GoBool j = Some v \<Longrightarrow> bool_of v = (case j of JBool b \<Rightarrow> b | _ \<Rightarrow> False)"
  "unmarshal parse (GoInt w) j = Some v \<Longrightarrow> int_of_value v = (case j of JNumber n \<Rightarrow> n | _ \<Rightarrow> 0)"
  by (cases j; auto split: if_splits)+

lemma unmarshal_member:
  assumes "unmarshal parse (GoStruct fs) (JObject ms) = Some v" "map_of fs f = Some t"
  shows "case map_of ms f of None \<Rightarrow> field f v = zero_value t | Some j \<Rightarrow> unmarshal parse t j = Some (field f v)"
proof -
  from assms(1) obtain vs where "unmarshal_fields parse fs ms = Some vs" "v = VStruct vs" by auto
  with unmarshal_fields_lookup [OF this(1) assms(2)] show ?thesis by (auto split: option.splits)
qed

theorem decoded_spec:
  assumes "unmarshal parse ManagedNode (JObject ms) = Some v" "map_of ms ''spec'' = Some (JObject sp)"
  shows "mn_Nodegroup (managed_node_of name uid v) = (case map_of sp ''nodegroup'' of Some (JString s) \<Rightarrow> s | _ \<Rightarrow> []) \<and>
    mn_InstanceType (managed_node_of name uid v) = (case map_of sp ''instanceType'' of Some (JString s) \<Rightarrow> s | _ \<Rightarrow> []) \<and>
    mn_DiskSizeInMB (managed_node_of name uid v) = (case map_of sp ''diskSizeInMB'' of Some (JNumber n) \<Rightarrow> n | _ \<Rightarrow> 0) \<and>
    mn_ControlPlane (managed_node_of name uid v) = (case map_of sp ''controlPlane'' of Some (JBool b) \<Rightarrow> b | _ \<Rightarrow> False) \<and>
    mn_AllowDeployment (managed_node_of name uid v) = (case map_of sp ''allowDeployment'' of Some (JBool b) \<Rightarrow> b | _ \<Rightarrow> False)"
proof -
  let ?s = "field ''spec'' v"
  have "unmarshal parse ManagedNodeSpec (JObject sp) = Some ?s"
    using unmarshal_member [OF assms(1) [unfolded ManagedNode_def], of "''spec''" ManagedNodeSpec] assms(2) by simp
  note member = unmarshal_member [OF this [unfolded ManagedNodeSpec_def]]
  have strings: "text_of (field f ?s) = (case map_of sp f of Some (JString s) \<Rightarrow> s | _ \<Rightarrow> [])" if "f \<in> {''nodegroup'', ''instanceType''}" for f
    using member [of f GoString] that by (cases "map_of sp f") (auto dest: unmarshal_scalars(1))
  have bools: "bool_of (field f ?s) = (case map_of sp f of Some (JBool b) \<Rightarrow> b | _ \<Rightarrow> False)" if "f \<in> {''controlPlane'', ''allowDeployment''}" for f
    using member [of f GoBool] that by (cases "map_of sp f") (auto dest: unmarshal_scalars(2))
  have size: "int_of_value (field ''diskSizeInMB'' ?s) = (case map_of sp ''diskSizeInMB'' of Some (JNumber n) \<Rightarrow> n | _ \<Rightarrow> 0)"
    using member [of "''diskSizeInMB''" "GoInt 64"] by (cases "map_of sp ''diskSizeInMB''") (auto dest: unmarshal_scalars(3))
  show ?thesis by (simp add: managed_node_of_def Let_def strings bools size)
qed

section \<open>A document\<close>

definition sample_document :: json where
  "sample_document = JObject [(''spec'', JObject [(''nodegroup'', JString ''g''), (''diskSizeInMB'', JNumber 10240),
     (''network'', JObject [(''vmware'', JArray [JObject [(''network'', JString ''vmnet0''), (''device'', JString ''e1000''),
        (''dhcp'', JBool False)]])])])]"

lemma sample_document_conforms: "conforms (crd_schema managed_node_definition) sample_document"
  by code_simp

lemma sample_document_readable: "readable_document (\<lambda>_. None) ManagedNode sample_document"
  by (simp add: sample_document_def go_type_defs fits_def)

theorem stored_node_decodes_witness: "\<exists>v. unmarshal (\<lambda>_. None) ManagedNode sample_document = Some v \<and> has_type ManagedNode v"
  using stored_node_decodes [OF sample_document_conforms, of "\<lambda>_. None"] sample_document_readable by simp

lemma sample_document_value: obtains v where "unmarshal (\<lambda>_. None) ManagedNode sample_document = Some v"
  using unmarshal_iff(1) [OF managed_node_agrees sample_document_conforms] sample_document_readable by blast

theorem adapter_never_overridden_witness:
  "\<exists>v. unmarshal (\<lambda>_. None) ManagedNode sample_document = Some v \<and> net_VMWare (mn_Networking (managed_node_of [] [] v)) \<noteq> [] \<and>
     (\<forall>vnet. map Adapter (Interfaces (ConfigureManagedNetwork (net_VMWare (mn_Networking (managed_node_of [] [] v))) vnet)) =
       map Adapter (Interfaces vnet))"
proof -
  obtain v where v: "unmarshal (\<lambda>_. None) ManagedNode sample_document = Some v" by (rule sample_document_value)
  then have "net_VMWare (mn_Networking (managed_node_of [] [] v)) \<noteq> []"
    by (auto simp: sample_document_def go_type_defs fits_def managed_node_of_def networking_of_def Let_def)
  with v adapter_never_overridden [OF sample_document_conforms v] show ?thesis by blast
qed

theorem decoded_spec_witness:
  "\<exists>v. unmarshal (\<lambda>_. None) ManagedNode sample_document = Some v \<and> mn_Nodegroup (managed_node_of [] [] v) = ''g'' \<and>
     mn_DiskSizeInMB (managed_node_of [] [] v) = 10240 \<and> mn_InstanceType (managed_node_of [] [] v) = []"
proof -
  obtain v where v: "unmarshal (\<lambda>_. None) ManagedNode sample_document = Some v" by (rule sample_document_value)
  with decoded_spec [OF v [unfolded sample_document_def], of "[(''nodegroup'', JString ''g''), (''diskSizeInMB'', JNumber 10240),
     (''network'', JObject [(''vmware'', JArray [JObject [(''network'', JString ''vmnet0''), (''device'', JString ''e1000''),
        (''dhcp'', JBool False)]])])]" "[]" "[]"] show ?thesis by simp
qed

end
