(* ===== verification/Cloud_Calls.thy ===== *)
theory Cloud_Calls
  imports Distributions_Facts
begin

text \<open>
  The calls of the LXD, OpenStack, CloudStack, AWS and vSphere providers to the clients of their clouds, with the
  requests they send and the parts of the answers they read.
\<close>

section \<open>LXD\<close>

text \<open>A network interface of a running machine: its addresses, each with its family.\<close>

record lxd_server =
  ls_Name :: string
  ls_Status :: string
  ls_Location :: string
  ls_uuid :: string
  ls_State :: "(string \<times> (string \<times> string) list) list option"

record lxd_request =
  lq_Name :: string
  lq_Profiles :: "string list"
  lq_Devices :: "(string, (string, string) gomap) gomap"
  lq_Config :: "(string, string) gomap"
  lq_Fingerprint :: string
  lq_Type :: string

record lxd_image =
  li_Fingerprint :: string
  li_Name :: string

text \<open>An image server is the address of a remote, or nothing for the client itself.\<close>

datatype lxd_call =
    GetInstanceFull string
  | UpdateInstanceState string string int
  | DeleteInstance string
  | LxdCreateInstance lxd_request
  | WaitOperation
  | ConnectSimpleStreams string
  | GetImageAlias "string option" string
  | GetImages "string option"
  | GetImage "string option" string
  | CopyImage string string
  | GetNetwork string

section \<open>OpenStack\<close>

record nova_server =
  ns_ID :: string
  ns_Name :: string
  ns_Status :: string
  ns_AccessIPv4 :: string
  ns_Zone :: string

record nova_request =
  nq_Name :: string
  nq_Flavor :: string
  nq_Image :: string
  nq_KeyName :: string
  nq_UserData :: string
  nq_Zone :: string
  nq_AccessIPv4 :: string
  nq_Networks :: "(string \<times> string) list"
  nq_SecurityGroups :: "string list"

datatype openstack_call =
    ServerGet string
  | ServerList string
  | ServerAddresses string string
  | ServerStart string
  | ServerStop string
  | ServerDelete string
  | ServerCreate nova_request
  | ServerUpdate string string
  | FlavorList
  | ImageList string
  | NetworkList string
  | PortList string
  | FloatingCreate string string string
  | FloatingDelete string
  | ZoneList string
  | RecordList string string string
  | RecordUpdate string string string
  | RecordCreate string string string
  | RecordDelete string string

section \<open>CloudStack\<close>

record cs_server =
  cs_Id :: string
  cs_Name :: string
  cs_State :: string
  cs_Nics :: "string list"
  cs_Publicip :: string
  cs_Publicipid :: string
  cs_Instancename :: string
  cs_Zonename :: string
  cs_Hostname :: string

record cs_request =
  cq_Offering :: string
  cq_Template :: string
  cq_Zone :: string
  cq_Name :: string
  cq_Networks :: "string list"
  cq_UserData :: "string option"
  cq_IpAddress :: "string option"
  cq_SecurityGroups :: "string list option"
  cq_Options :: "(string \<times> string) list"

datatype cloudstack_call =
    ApplyOption string string
  | GetVirtualMachineByID string
  | GetVirtualMachineByName string
  | StartVirtualMachine string "(string \<times> string) list"
  | StopVirtualMachine string
  | DestroyVirtualMachine string bool
  | DeployVirtualMachine cs_request
  | AssociateIpAddress string
  | EnableStaticNat string string
  | DisassociateIpAddress string
  | GetServiceOfferingID string
  | GetNetworkByName string

section \<open>AWS\<close>

text \<open>The credentials of a session: static ones, a profile of a file, or those of the role of the machine.\<close>

datatype aws_credentials =
    StaticCredentials string string string string
  | SharedProfile string string
  | RoleCredentials string

text \<open>An instance as it is described: its pointers may be nil. The state is its code and its name.\<close>

record ec2_instance =
  ei_InstanceId :: "string option"
  ei_PrivateDnsName :: "string option"
  ei_AvailabilityZone :: "string option"
  ei_State :: "(int option \<times> string) option"
  ei_PublicIpAddress :: "string option"
  ei_PrivateIpAddress :: "string option"

record aws_interface =
  ai_PublicIP :: bool
  ai_DeleteOnTermination :: bool
  ai_Description :: string
  ai_DeviceIndex :: int
  ai_SubnetId :: "string option"
  ai_NetworkInterfaceId :: "string option"
  ai_PrivateIpAddress :: "string option"
  ai_Groups :: "string list"

record run_request =
  rr_InstanceType :: string
  rr_ImageId :: string
  rr_KeyName :: string
  rr_UserData :: "string option"
  rr_Metadata :: "string \<times> string \<times> int \<times> string"
  rr_IamRole :: string
  rr_Tags :: "(string \<times> string) list"
  rr_Disks :: "(string \<times> int) list"
  rr_Interfaces :: "aws_interface list"

datatype aws_call =
    Ec2Session aws_credentials
  | Route53Session aws_credentials
  | DescribeImages string
  | DescribeInstancesNamed string
  | DescribeInstance string
  | DescribeNetworkInterfaces string
  | DescribeInstanceType string
  | RunInstances run_request
  | StartInstances string
  | StopInstances string bool
  | TerminateInstances string
  | WaitRunning string int
  | WaitStopped string int
  | WaitTerminated string int
  | ListResourceRecordSets string string
  | ChangeResourceRecordSets string string string string
  | WaitResourceRecordSetsChanged "string option" int

section \<open>vSphere\<close>

text \<open>The backing of a network card: a network by its device name, with a reference when the program made it.\<close>

datatype card_backing =
    NetworkBacking string "(string \<times> string) option"
  | OpaqueBacking string string
  | PortBacking string string
  | OtherBacking

record ethernet_card =
  ec_Backing :: card_backing
  ec_AddressType :: string
  ec_MacAddress :: string

datatype virtual_device =
    EthernetCard ethernet_card
  | VirtualDisk int
  | OtherDevice

datatype added_device =
    AddedCard string ethernet_card bool
  | AddedDisk string int

record clone_request =
  cr_Folder :: string
  cr_Pool :: string
  cr_Template :: bool
  cr_Linked :: bool
  cr_Cards :: "ethernet_card list"
  cr_Customization :: "string option"

text \<open>The entries of the extra configuration: a pointer that may be nil.\<close>

record config_spec =
  sp_NumCPUs :: int
  sp_MemoryMB :: int
  sp_Annotation :: string
  sp_Uuid :: string
  sp_Added :: "added_device list"
  sp_ExtraConfig :: "(string \<times> string) option list"

datatype vsphere_call =
    VsClient
  | VsDatacenter string
  | VsDatastore string
  | VsFindVM string
  | VsObject string
  | VsUUID string
  | VsHostSystem string
  | VsHostName string
  | VsDevices string
  | VsEditDisk string int
  | VsRemoveDevices string "ethernet_card list"
  | VsReconfigure string config_spec
  | VsExtraConfig string
  | VsIsToolsRunning string
  | VsGuest string
  | VsPowerState string
  | VsPowerOn string
  | VsPowerOff string
  | VsShutdownGuest string
  | VsDestroy string
  | VsTaskWait
  | VsPropertyWait string string
  | VsWaitForIP string
  | VsNetwork string
  | VsCardBacking string
  | VsPortgroupKey string
  | VsFolders string
  | VsDefaultFolder
  | VsResourcePool string
  | VsCustomizationExists string
  | VsCustomization string
  | VsClone string string clone_request
  | VsCloneResult
  | VsDiskController string
  | VsHostSystemOrDefault string
  | VsAutoStartManager string
  | VsAutoStartInfo
  | VsReconfigureAutoStart string int int int
  | VsConnect string bool
  | VsFindDatastore string
  | VsBrowser string
  | VsSearch string string bool
  | VsSearchResult

end
