(* ===== verification/Handlers.thy ===== *)
theory Handlers
  imports Cloud_Calls
begin

text \<open>
  What the implementations of \<^verbatim>\<open>ProviderHandler\<close> under \<^verbatim>\<open>providers/\<close> share: the values their methods return,
  the guest infos of \<^verbatim>\<open>cloudinit/cloudinit.go\<close>, the dynamic DNS of \<^verbatim>\<open>rfc2136/rfc2136.go\<close>, the answers of the
  remote service of \<^verbatim>\<open>api/\<close>, and the contract of a handler that has to be attached to an instance.
  The remote service, the command line tool, the name server and the random numbers are calls
  answered by a \<open>remote_env\<close>, an arbitrary function of the calls so far, newest first.
\<close>

section \<open>What the methods of a handler return\<close>

datatype handler_result =
    Done "error option"
  | Text string "error option"
  | Number int "error option"
  | Flag bool "error option"
  | Labels labels
  | Status "instance_status option" "error option"

fun result_error :: "handler_result \<Rightarrow> error option" where
  "result_error (Done e) = e"
| "result_error (Text s e) = e"
| "result_error (Number n e) = e"
| "result_error (Flag b e) = e"
| "result_error (Labels l) = None"
| "result_error (Status st e) = e"

section \<open>Guest infos\<close>

definition cloud_config_header :: string where
  "cloud_config_header = ''#cloud-config'' @ [CHR 10]"

text \<open>\<^verbatim>\<open>EncodeCloudInit\<close> drops the error of the YAML encoder.\<close>

definition EncodeCloudInit :: "codec \<Rightarrow> string \<Rightarrow> ci option \<Rightarrow> string" where
  "EncodeCloudInit cd name object =
     gzip64 cd name (cloud_config_header @
       (case object of
          None \<Rightarrow> []
        | Some v \<Rightarrow> (case yaml cd v of Inl e \<Rightarrow> [] | Inr out \<Rightarrow> out)))"

definition EncodeObject :: "codec \<Rightarrow> string \<Rightarrow> ci \<Rightarrow> error + string" where
  "EncodeObject cd name object =
     (case yaml cd object of Inl e \<Rightarrow> Inl e | Inr out \<Rightarrow> Inr (gzip64 cd name out))"

text \<open>The empty fields of \<^verbatim>\<open>NetworkConfig\<close> are omitted.\<close>

definition present :: "string \<Rightarrow> string \<Rightarrow> (string \<times> ci) list" where
  "present key v = (if v = [] then [] else [(key, CStr v)])"

definition net_config :: "cloud_init_input \<Rightarrow> string \<Rightarrow> string \<Rightarrow> ci option \<Rightarrow> ci" where
  "net_config i instanceID domain net =
     (let fqdn = (if domain \<noteq> [] then Sprintf ''%s.%s'' [ci_InstanceName i, domain] else [])
      in CMap (present ''instance-id'' instanceID @ present ''local-hostname'' (ci_InstanceName i) @
           present ''hostname'' fqdn @ (case net of None \<Rightarrow> [] | Some n \<Rightarrow> [(''network'', n)])))"

text \<open>A network declaration as it is printed: empty fields are omitted.\<close>

definition route_ci :: "network_route \<Rightarrow> ci" where
  "route_ci r = CMap (present ''to'' (route_To r) @ present ''via'' (route_Via r) @
     (if route_Metric r = 0 then [] else [(''metric'', CInt (route_Metric r))]))"

definition names_ci :: "string \<Rightarrow> string list \<Rightarrow> (string \<times> ci) list" where
  "names_ci key v = (if v = [] then [] else [(key, CList (map CStr v))])"

definition adapter_ci :: "net_adapter \<Rightarrow> ci" where
  "adapter_ci a = CMap (
     (if na_DHCP4 a then [(''dhcp4'', CBool True)] else []) @
     (case na_NicName a of None \<Rightarrow> [] | Some n \<Rightarrow> [(''set-name'', CStr n)]) @
     (case na_Match a of None \<Rightarrow> [] | Some m \<Rightarrow> [(''match'', CMap [(''macaddress'', CStr m)])]) @
     (if na_Addresses a = [] then [] else [(''addresses'', CList (na_Addresses a))]) @
     (case na_Nameservers a of None \<Rightarrow> []
      | Some (search, addresses) \<Rightarrow> [(''nameservers'', CMap (names_ci ''search'' search @ names_ci ''addresses'' addresses))]) @
     (if gentries (na_DHCPOverrides a) = [] then [] else [(''dhcp4-overrides'', CMap (gentries (na_DHCPOverrides a)))]) @
     (if na_Routes a = [] then [] else [(''routes'', CList (map route_ci (na_Routes a)))]))"

definition declare_ci :: "(string, net_adapter option) gomap \<Rightarrow> ci" where
  "declare_ci eths = CMap ((''version'', CInt 2) #
     (if gentries eths = [] then []
      else [(''ethernets'', CMap (map (\<lambda>(n, a). (n, case a of None \<Rightarrow> CNull | Some a \<Rightarrow> adapter_ci a)) (gentries eths)))]))"

type_synonym guest_infos = "(string \<times> string) list"

text \<open>A nil document is still an interface value, so it is encoded, as an empty map.\<close>

definition BuildGuestInfos :: "codec \<Rightarrow> cloud_init_input \<Rightarrow> string \<Rightarrow> string \<Rightarrow> ci option \<Rightarrow> error + guest_infos" where
  "BuildGuestInfos cd i instanceID domain net =
     (case EncodeObject cd ''metadata'' (net_config i instanceID domain net) of
        Inl e \<Rightarrow> Inl (Errorf ErrUnableToEncodeGuestInfo [''metadata'', err_text e])
      | Inr metadata \<Rightarrow>
          let userdata = EncodeCloudInit cd ''userdata'' (Some (CMap (gentries (ci_CloudInit i))));
              vendordata = EncodeCloudInit cd ''vendordata'' (Some (CMap (gentries (BuildVendorData cd i))))
          in Inr [(''metadata'', metadata), (''metadata.encoding'', GzipBase64),
                  (''userdata'', userdata), (''userdata.encoding'', GzipBase64),
                  (''vendordata'', vendordata), (''vendordata.encoding'', GzipBase64)])"

section \<open>Dynamic DNS\<close>

record dns_provider =
  nameserver :: string
  tsigKeyName :: string
  tsigSecret :: string
  tsigAlgorithm :: string

definition addRecord :: int where
  "addRecord = 1"

definition deleteRecord :: int where
  "deleteRecord = 2"

text \<open>An update message: the action, the names, the address of the record, the signing key.\<close>

record dns_update =
  up_Action :: int
  up_Fqdn :: string
  up_Zone :: string
  up_Address :: "nat list option"
  up_Ttl :: int
  up_Key :: "(string \<times> string \<times> string) option"

section \<open>Calls\<close>

record machine_request =
  rq_Template :: string
  rq_Name :: string
  rq_Vcpus :: int
  rq_Memory :: int
  rq_DiskSize :: int
  rq_Linked :: bool
  rq_Autostart :: bool
  rq_Networks :: "(string \<times> string \<times> string \<times> string \<times> string \<times> string) list"
  rq_GuestInfos :: guest_infos

record host_request =
  hq_Name :: string
  hq_Template :: string
  hq_Memory :: int
  hq_Vcpu :: int
  hq_DiskSize :: int
  hq_CloudInit :: string
  hq_Networks :: "(string \<times> string \<times> string \<times> string) list"
  hq_Mounts :: "(string \<times> string) list"

datatype remote_call =
    VMWareListNetwork
  | VMWareCreate machine_request
  | VMWareDelete string
  | VMWareVirtualMachineByName string
  | VMWareVirtualMachineByUUID string
  | VMWareListVirtualMachines
  | VMWareWaitForIP string int
  | VMWareSetAutoStart string bool
  | VMWareWaitForToolsRunning string int
  | VMWarePowerOn string
  | VMWarePowerOff string string
  | VMWarePowerState string
  | VMWareShutdownGuest string
  | VMWareStatus string
  | HostInfoInstance string
  | HostStartInstance string
  | HostStopInstance string
  | HostDeleteInstance string
  | HostCreateInstance host_request
  | HostShell "string list"
  | CreateFile string
  | WriteFile string string
  | RemoveFile string
  | CallbackWaitSSHReady string string
  | DnsExchange string dns_update
  | NewUUID
  | TimeZone
  | Lxd lxd_call
  | OpenStack openstack_call
  | CloudStack cloudstack_call
  | Aws aws_call
  | VSphere vsphere_call
  | RPoll

type_synonym remote_calls = "remote_call list"

record virtual_machine =
  vm_Name :: string
  vm_Uuid :: string
  vm_Vmx :: string
  vm_Vcpus :: int
  vm_Memory :: int

record vnet_device =
  dev_ConnectionType :: string
  dev_GeneratedAddress :: string
  dev_VNet :: string
  dev_Address :: string

text \<open>\<^verbatim>\<open>VMStatus\<close> of multipass: the addresses and the state.\<close>

record host_vm =
  hv_Ipv4 :: "string list"
  hv_State :: string

text \<open>A response carries an error, with its code and reason, or a result; a call may fail altogether.\<close>

type_synonym client_error = "int \<times> string"
type_synonym 'a response = "error + (client_error + 'a)"

text \<open>
  The results whose fields the code reads without a getter are pointers. \<open>rans_infos\<close> decodes the
  printed state of the machines.
\<close>

record remote_env =
  rans_unit :: "remote_calls \<Rightarrow> unit response"
  rans_machine :: "remote_calls \<Rightarrow> string option response"
  rans_vm :: "remote_calls \<Rightarrow> virtual_machine response"
  rans_vms :: "remote_calls \<Rightarrow> virtual_machine list option response"
  rans_nets :: "remote_calls \<Rightarrow> string list option response"
  rans_text :: "remote_calls \<Rightarrow> string option response"
  rans_bool :: "remote_calls \<Rightarrow> bool response"
  rans_status :: "remote_calls \<Rightarrow> (bool \<times> vnet_device list) response"
  rans_err :: "remote_calls \<Rightarrow> error option"
  rans_shell :: "remote_calls \<Rightarrow> (string \<times> error) + string"
  rans_str :: "remote_calls \<Rightarrow> string"
  rans_dns :: "remote_calls \<Rightarrow> error + int option"
  rans_infos :: "string \<Rightarrow> error + (string \<times> host_vm) list"
  to_json :: "ci \<Rightarrow> error + string"
  rans_random :: "remote_calls \<Rightarrow> string \<Rightarrow> (nat \<times> nat \<times> nat) option"
  rretries :: "remote_calls \<Rightarrow> nat"
  dns_Fqdn :: "string \<Rightarrow> string"
  RcodeToString :: "int \<Rightarrow> string"

type_synonym 'h hstate = "'h \<times> mac_table \<times> remote_calls"

definition ask_remote :: "(remote_calls \<Rightarrow> 'a) \<Rightarrow> remote_call \<Rightarrow> 'h hstate \<Rightarrow> 'a \<times> 'h hstate" where
  "ask_remote answer c s = (case s of (h, t, cs) \<Rightarrow> (answer (c # cs), h, t, c # cs))"

definition NewApiError :: "client_error \<Rightarrow> error" where
  "NewApiError e = Errorf ''client: code=%d, reason=%s'' [Itoa (fst e), snd e]"

fun api_answer :: "'a response \<Rightarrow> error + 'a" where
  "api_answer (Inl e) = Inl e"
| "api_answer (Inr (Inl e)) = Inl (NewApiError e)"
| "api_answer (Inr (Inr a)) = Inr a"

definition error_of :: "error + 'a \<Rightarrow> error option" where
  "error_of r = (case r of Inl e \<Rightarrow> Some e | Inr _ \<Rightarrow> None)"

section \<open>Records of the name server\<close>

definition changeRecord ::
  "remote_env \<Rightarrow> dns_provider \<Rightarrow> int \<Rightarrow> string \<Rightarrow> string \<Rightarrow> string \<Rightarrow> int \<Rightarrow> 'h hstate \<Rightarrow> error option \<times> 'h hstate" where
  "changeRecord E r action fqdn zone v ttl s =
     (if action \<noteq> addRecord \<and> action \<noteq> deleteRecord
      then (Some (Errorf ''unsupported action: %d'' [Itoa action]), s)
      else
        let key = (if tsigKeyName r \<noteq> [] \<and> tsigSecret r \<noteq> []
                   then Some (dns_Fqdn E (tsigKeyName r), dns_Fqdn E (tsigAlgorithm r), tsigSecret r) else None);
            m = \<lparr>up_Action = action, up_Fqdn = fqdn, up_Zone = zone, up_Address = To4 v, up_Ttl = ttl, up_Key = key\<rparr>;
            (reply, s) = ask_remote (rans_dns E) (DnsExchange (nameserver r) m) s
        in case reply of
             Inl e \<Rightarrow> (Some (Errorf ''DNS update failed: %v'' [err_text e]), s)
           | Inr (Some rcode) \<Rightarrow>
               (if rcode \<noteq> 0 then Some (Errorf ''DNS update failed. Server replied: %s'' [RcodeToString E rcode]) else None, s)
           | Inr None \<Rightarrow> (None, s))"

definition AddRecord :: "remote_env \<Rightarrow> dns_provider \<Rightarrow> string \<Rightarrow> string \<Rightarrow> string \<Rightarrow> 'h hstate \<Rightarrow> error option \<times> 'h hstate" where
  "AddRecord E r fqdn zone v = changeRecord E r addRecord (dns_Fqdn E fqdn) (dns_Fqdn E zone) v 60"

definition RemoveRecord :: "remote_env \<Rightarrow> dns_provider \<Rightarrow> string \<Rightarrow> string \<Rightarrow> string \<Rightarrow> 'h hstate \<Rightarrow> error option \<times> 'h hstate" where
  "RemoveRecord E r fqdn zone v = changeRecord E r deleteRecord (dns_Fqdn E fqdn) (dns_Fqdn E zone) v 60"

text \<open>The handlers change the record of the machine when a name server is configured.\<close>

definition change_dns ::
  "remote_env \<Rightarrow> dns_provider option \<Rightarrow> bool \<Rightarrow> string \<Rightarrow> string \<Rightarrow> string \<Rightarrow> 'h hstate \<Rightarrow> error option \<times> 'h hstate" where
  "change_dns E provider add instanceName domain address s =
     (case provider of
        None \<Rightarrow> (None, s)
      | Some r \<Rightarrow> (if add then AddRecord else RemoveRecord) E r (instanceName @ ''.'' @ domain) domain address s)"

section \<open>The contract of a handler that has to be attached\<close>

text \<open>A sequence of methods called one after the other, whatever they answer.\<close>

fun run_all :: "('op \<Rightarrow> 's \<Rightarrow> ('r \<times> 's) go) \<Rightarrow> 'op list \<Rightarrow> 's \<Rightarrow> ('r list \<times> 's) go" where
  "run_all run [] s = Ret ([], s)"
| "run_all run (op # ops) s =
     gbind (run op s) (\<lambda>(r, s). gbind (run_all run ops s) (\<lambda>(rs, s). Ret (r # rs, s)))"

text \<open>
  A handler without an instance refuses every operation in \<open>needs\<close> with an error and without a
  call; only a creation can attach it or detach it.
\<close>

locale attached_handler =
  fixes attached :: "'h \<Rightarrow> bool"
    and run :: "'op \<Rightarrow> 'h hstate \<Rightarrow> (handler_result \<times> 'h hstate) go"
    and needs :: "'op \<Rightarrow> bool"
    and creates :: "'op \<Rightarrow> bool"
  assumes refuses: "needs op \<Longrightarrow> \<not> attached (fst s) \<Longrightarrow> \<exists>r. run op s = Ret (r, s) \<and> result_error r \<noteq> None"
    and only_create: "run op s = Ret (r, s') \<Longrightarrow> \<not> creates op \<Longrightarrow> attached (fst s') = attached (fst s)"
begin

lemma refuses_all:
  assumes "\<not> attached (fst s)" "\<forall>op \<in> set ops. needs op"
  shows "\<exists>rs. run_all run ops s = Ret (rs, s) \<and> length rs = length ops \<and> (\<forall>r \<in> set rs. result_error r \<noteq> None)"
  using assms(2)
proof (induction ops)
  case (Cons op ops)
  then obtain rs where "run_all run ops s = Ret (rs, s)" "length rs = length ops" "\<forall>r \<in> set rs. result_error r \<noteq> None"
    by auto
  moreover obtain r where "run op s = Ret (r, s)" "result_error r \<noteq> None"
    using refuses [OF _ assms(1), of op] Cons.prems by auto
  ultimately show ?case by (intro exI [of _ "r # rs"]) simp
qed simp

text \<open>Without a creation the attachment stays as it is.\<close>

lemma attachment_stays:
  "run_all run ops s = Ret (rs, s') \<Longrightarrow> \<forall>op \<in> set ops. \<not> creates op \<Longrightarrow> attached (fst s') = attached (fst s)"
proof (induction ops arbitrary: s rs)
  case (Cons op ops)
  then obtain r t rs' where t: "run op s = Ret (r, t)" "run_all run ops t = Ret (rs', s')" by auto
  with Cons only_create [OF t(1)] show ?case by simp
qed simp

end

end
