(* ===== verification/Desktop.thy ===== *)
theory Desktop
  imports Handlers
begin

text \<open>
  Model of \<^verbatim>\<open>providers/desktop/\<close>: the provider for VMware Workstation and Fusion, an adapter of the
  remote service of \<^verbatim>\<open>api/\<close>. A method with a context and its wrapper that makes the context are one
  definition: the deadline only shows in the answers.
\<close>

section \<open>Configuration and handler\<close>

record desktop_wrapper =
  dw_Timeout :: int
  dw_TimeZone :: string
  dw_TemplateName :: string
  dw_LinkedClone :: bool
  dw_Autostart :: bool
  dw_Network :: network
  dw_GPUTypes :: labels
  dw_Region :: string
  dw_Zone :: string
  dw_templateUUID :: string
  dw_bind9Provider :: "dns_provider option"

record desktopHandler =
  attachedNetwork :: network
  dh_instanceType :: string
  dh_instanceName :: string
  dh_instanceID :: string
  dh_controlPlane :: bool
  dh_nodeIndex :: int

type_synonym desktop_state = "desktopHandler hstate"

section \<open>Requests to the service\<close>

definition VirtualMachineByName :: "remote_env \<Rightarrow> string \<Rightarrow> 'h hstate \<Rightarrow> (error + virtual_machine) \<times> 'h hstate" where
  "VirtualMachineByName E name s =
     (let (r, s) = ask_remote (rans_vm E) (VMWareVirtualMachineByName name) s in (api_answer r, s))"

definition VirtualMachineByUUID :: "remote_env \<Rightarrow> string \<Rightarrow> 'h hstate \<Rightarrow> (error + virtual_machine) \<times> 'h hstate" where
  "VirtualMachineByUUID E vmuuid s =
     (let (r, s) = ask_remote (rans_vm E) (VMWareVirtualMachineByUUID vmuuid) s in (api_answer r, s))"

definition VirtualMachineList :: "remote_env \<Rightarrow> 'h hstate \<Rightarrow> ((error + virtual_machine list) \<times> 'h hstate) go" where
  "VirtualMachineList E s =
     (let (r, s) = ask_remote (rans_vms E) VMWareListVirtualMachines s
      in case api_answer r of
           Inl e \<Rightarrow> Ret (Inl e, s)
         | Inr None \<Rightarrow> Panic NilDeref
         | Inr (Some vms) \<Rightarrow> Ret (Inr vms, s))"

definition desktop_UUID :: "remote_env \<Rightarrow> string \<Rightarrow> 'h hstate \<Rightarrow> (error + string) \<times> 'h hstate" where
  "desktop_UUID E name s =
     (let (r, s) = VirtualMachineByName E name s in (map_sum id vm_Uuid r, s))"

definition desktop_Name :: "remote_env \<Rightarrow> string \<Rightarrow> 'h hstate \<Rightarrow> (error + string) \<times> 'h hstate" where
  "desktop_Name E vmuuid s =
     (let (r, s) = VirtualMachineByUUID E vmuuid s in (map_sum id vm_Name r, s))"

definition desktop_Exists :: "remote_env \<Rightarrow> string \<Rightarrow> 'h hstate \<Rightarrow> bool \<times> 'h hstate" where
  "desktop_Exists E name s =
     (let (r, s) = VirtualMachineByName E name s in (error_of r = None, s))"

text \<open>The first network of that name, or nil without an error.\<close>

definition FindVNet :: "remote_env \<Rightarrow> string \<Rightarrow> 'h hstate \<Rightarrow> ((error + string option) \<times> 'h hstate) go" where
  "FindVNet E name s =
     (let (r, s) = ask_remote (rans_nets E) VMWareListNetwork s
      in case api_answer r of
           Inl e \<Rightarrow> Ret (Inl e, s)
         | Inr None \<Rightarrow> Panic NilDeref
         | Inr (Some vmnets) \<Rightarrow> Ret (Inr (find (\<lambda>v. v = name) vmnets), s))"

definition unit_call :: "remote_env \<Rightarrow> remote_call \<Rightarrow> 'h hstate \<Rightarrow> error option \<times> 'h hstate" where
  "unit_call E c s = (let (r, s) = ask_remote (rans_unit E) c s in (error_of (api_answer r), s))"

definition desktop_Delete :: "remote_env \<Rightarrow> string \<Rightarrow> 'h hstate \<Rightarrow> error option \<times> 'h hstate" where
  "desktop_Delete E vmuuid = unit_call E (VMWareDelete vmuuid)"

definition SetAutoStart :: "remote_env \<Rightarrow> string \<Rightarrow> bool \<Rightarrow> 'h hstate \<Rightarrow> error option \<times> 'h hstate" where
  "SetAutoStart E vmuuid autostart = unit_call E (VMWareSetAutoStart vmuuid autostart)"

definition PowerOn :: "remote_env \<Rightarrow> string \<Rightarrow> 'h hstate \<Rightarrow> error option \<times> 'h hstate" where
  "PowerOn E vmuuid = unit_call E (VMWarePowerOn vmuuid)"

definition PowerOff :: "remote_env \<Rightarrow> string \<Rightarrow> string \<Rightarrow> 'h hstate \<Rightarrow> error option \<times> 'h hstate" where
  "PowerOff E vmuuid mode = unit_call E (VMWarePowerOff vmuuid mode)"

definition ShutdownGuest :: "remote_env \<Rightarrow> string \<Rightarrow> 'h hstate \<Rightarrow> error option \<times> 'h hstate" where
  "ShutdownGuest E vmuuid = unit_call E (VMWareShutdownGuest vmuuid)"

text \<open>The timeout is divided by a second, as if it were a duration, and cut to 32 bits.\<close>

definition request_seconds :: "int \<Rightarrow> int" where
  "request_seconds timeout = wrap32 (godiv timeout second)"

definition desktop_WaitForIP :: "remote_env \<Rightarrow> string \<Rightarrow> int \<Rightarrow> 'h hstate \<Rightarrow> (error + string) \<times> 'h hstate" where
  "desktop_WaitForIP E vmuuid timeout s =
     (let (r, s) = ask_remote (rans_text E) (VMWareWaitForIP vmuuid (request_seconds timeout)) s
      in (map_sum id (\<lambda>a. case a of None \<Rightarrow> [] | Some a \<Rightarrow> a) (api_answer r), s))"

definition WaitForToolsRunning :: "remote_env \<Rightarrow> string \<Rightarrow> int \<Rightarrow> 'h hstate \<Rightarrow> (error + bool) \<times> 'h hstate" where
  "WaitForToolsRunning E vmuuid timeout s =
     (let (r, s) = ask_remote (rans_bool E) (VMWareWaitForToolsRunning vmuuid (request_seconds timeout)) s
      in (api_answer r, s))"

definition power_attempt :: "remote_env \<Rightarrow> string \<Rightarrow> bool \<Rightarrow> 'h hstate \<Rightarrow> ((bool \<times> error option) \<times> 'h hstate) go" where
  "power_attempt E vmuuid wanted s =
     (let (r, s) = ask_remote (rans_bool E) (VMWarePowerState vmuuid) s
      in case api_answer r of
           Inl e \<Rightarrow> Ret ((False, Some e), s)
         | Inr powered \<Rightarrow> Ret ((powered = wanted, None), s))"

definition remote_PollImmediate ::
  "remote_env \<Rightarrow> int \<Rightarrow> ('h hstate \<Rightarrow> ((bool \<times> error option) \<times> 'h hstate) go) \<Rightarrow> 'h hstate \<Rightarrow> (error option \<times> 'h hstate) go" where
  "remote_PollImmediate E timeout cond s =
     (let (n, s) = ask_remote (rretries E) RPoll s
      in gpoll (if timeout < 0 then 1 else Suc n) (timeout = 0) timeout_error cond s)"

definition WaitForPowerState :: "remote_env \<Rightarrow> desktop_wrapper \<Rightarrow> string \<Rightarrow> bool \<Rightarrow> 'h hstate \<Rightarrow> (error option \<times> 'h hstate) go" where
  "WaitForPowerState E w vmuuid wanted = remote_PollImmediate E (dw_Timeout w) (power_attempt E vmuuid wanted)"

definition desktop_Status :: "remote_env \<Rightarrow> string \<Rightarrow> 'h hstate \<Rightarrow> (error + bool \<times> vnet_device list) \<times> 'h hstate" where
  "desktop_Status E vmuuid s =
     (let (r, s) = ask_remote (rans_status E) (VMWareStatus vmuuid) s in (api_answer r, s))"

section \<open>Networks\<close>

definition EqualFold :: "string \<Rightarrow> string \<Rightarrow> bool" where
  "EqualFold a b \<longleftrightarrow> ToLower a = ToLower b"

definition Same :: "vnet_device \<Rightarrow> net_interface \<Rightarrow> bool" where
  "Same vnet nif =
     (if EqualFold (ConnectionType nif) ''custom'' \<and> EqualFold (dev_ConnectionType vnet) ''custom''
         \<or> EqualFold (ConnectionType nif) ''bridged'' \<and> EqualFold (dev_ConnectionType vnet) ''bridged''
      then EqualFold (NetworkName nif) (dev_VNet vnet)
      else EqualFold (ConnectionType nif) (dev_ConnectionType vnet))"

definition findInterface :: "network \<Rightarrow> vnet_device \<Rightarrow> net_interface option" where
  "findInterface net ether = find (Same ether) (Interfaces net)"

fun findPreferredIPAddress :: "network \<Rightarrow> vnet_device list \<Rightarrow> string" where
  "findPreferredIPAddress net [] = []"
| "findPreferredIPAddress net (ether # devices) =
     (case findInterface net ether of
        Some declaredInf \<Rightarrow> if Primary declaredInf then dev_Address ether else findPreferredIPAddress net devices
      | None \<Rightarrow> findPreferredIPAddress net devices)"

text \<open>\<^verbatim>\<open>GetMacAddress\<close> writes the address into the interface and the table.\<close>

fun network_requests ::
  "(string \<Rightarrow> (nat \<times> nat \<times> nat) option) \<Rightarrow> net_interface list \<Rightarrow> mac_table \<Rightarrow>
   (string \<times> string \<times> string \<times> string \<times> string \<times> string) list \<times> net_interface list \<times> mac_table" where
  "network_requests rnd [] t = ([], [], t)"
| "network_requests rnd (nif # nifs) t =
     (if IsEnabled nif
      then let (mac, nif', t) = Interface_GetMacAddress (rnd (netName nif)) nif t;
               (rs, nifs', t) = network_requests rnd nifs t
           in ((mac, NetworkName nif, ConnectionType nif, Adapter nif, BsdName nif, DisplayName nif) # rs, nif' # nifs', t)
      else let (rs, nifs', t) = network_requests rnd nifs t in (rs, nif # nifs', t))"

definition BuildNetworkInterface ::
  "(string \<Rightarrow> (nat \<times> nat \<times> nat) option) \<Rightarrow> network \<Rightarrow> mac_table \<Rightarrow>
   (string \<times> string \<times> string \<times> string \<times> string \<times> string) list \<times> network \<times> mac_table" where
  "BuildNetworkInterface rnd net t =
     (let (rs, nifs, t) = network_requests rnd (Interfaces net) t in (rs, net\<lparr>Interfaces := nifs\<rparr>, t))"

definition attach_mac :: "vnet_device \<Rightarrow> net_interface \<Rightarrow> mac_table \<Rightarrow> mac_table" where
  "attach_mac ether nif t =
     (if NetworkName nif = dev_VNet ether
         \<or> ConnectionType nif = dev_ConnectionType ether \<and> ConnectionType nif \<noteq> ''custom''
      then AttachMacAddress nif (dev_GeneratedAddress ether) t else t)"

definition attach_macs :: "network \<Rightarrow> vnet_device list \<Rightarrow> mac_table \<Rightarrow> mac_table" where
  "attach_macs net devices t = fold (\<lambda>ether. fold (attach_mac ether) (Interfaces net)) devices t"

definition desktop_RetrieveNetworkInfos :: "remote_env \<Rightarrow> string \<Rightarrow> network \<Rightarrow> 'h hstate \<Rightarrow> error option \<times> 'h hstate" where
  "desktop_RetrieveNetworkInfos E vmuuid net s =
     (let (r, h, t, cs) = desktop_Status E vmuuid s
      in case r of
           Inl e \<Rightarrow> (Some e, h, t, cs)
         | Inr (powered, devices) \<Rightarrow> (None, h, attach_macs net devices t, cs))"

section \<open>Creating a machine\<close>

text \<open>The guest infos are built and the machine is requested.\<close>

definition submit_machine ::
  "remote_env \<Rightarrow> codec \<Rightarrow> cloud_init_input \<Rightarrow> string \<Rightarrow> string \<Rightarrow> ci option \<Rightarrow> machine_request \<Rightarrow> desktop_state \<Rightarrow>
   ((error + string) \<times> desktop_state) go" where
  "submit_machine E cd i uuid domain decl request s =
     (case BuildGuestInfos cd i uuid domain decl of
        Inl e \<Rightarrow> Ret (Inl (Errorf ErrCloudInitFailCreation [rq_Name request, err_text e]), s)
      | Inr infos \<Rightarrow>
          let (r, s) = ask_remote (rans_machine E) (VMWareCreate (request\<lparr>rq_GuestInfos := infos\<rparr>)) s
          in case api_answer r of
               Inl e \<Rightarrow> Ret (Inl e, s)
             | Inr None \<Rightarrow> Panic NilDeref
             | Inr (Some vmuuid) \<Rightarrow> Ret (Inr vmuuid, s))"

definition cloud_init_network :: "remote_env \<Rightarrow> desktop_state \<Rightarrow> (ci option \<times> desktop_state) go" where
  "cloud_init_network E s =
     (let (h, t, cs) = s; net = attachedNetwork h
      in if Interfaces net = [] then Ret (None, s)
         else gbind (GetCloudInitNetwork (rans_random E cs) True net t) (\<lambda>(eths, net, t).
                Ret (Some (declare_ci eths), h\<lparr>attachedNetwork := net\<rparr>, t, cs)))"

text \<open>The request reads the MAC addresses before the cloud-init declaration does.\<close>

definition desktop_Create ::
  "remote_env \<Rightarrow> codec \<Rightarrow> desktop_wrapper \<Rightarrow> instance_input \<Rightarrow> desktop_state \<Rightarrow> ((error + string) \<times> desktop_state) go" where
  "desktop_Create E cd w input s =
     (let (h, t, cs) = s;
          name = dh_instanceName h;
          (networks, net, t) = BuildNetworkInterface (rans_random E cs) (attachedNetwork h) t;
          request = \<lparr>rq_Template = dw_templateUUID w, rq_Name = name, rq_Vcpus = wrap32 (in_Vcpu input),
            rq_Memory = in_Memory input, rq_DiskSize = wrap32 (in_DiskSize input), rq_Linked = dw_LinkedClone w,
            rq_Autostart = dw_Autostart w, rq_Networks = networks, rq_GuestInfos = []\<rparr>;
          (uuid, s) = ask_remote (rans_str E) NewUUID (h\<lparr>attachedNetwork := net\<rparr>, t, cs);
          i = \<lparr>ci_InstanceName = name, ci_UserName = in_UserName input, ci_AuthKey = in_AuthKey input,
            ci_TimeZone = dw_TimeZone w, ci_AllowUpgrade = in_AllowUpgrade input, ci_Network = CMap [],
            ci_CloudInit = in_CloudInit input\<rparr>
      in gbind (cloud_init_network E s) (\<lambda>(decl, s).
           submit_machine E cd i uuid (Domain net) decl request s))"

section \<open>The provider\<close>

text \<open>\<^verbatim>\<open>NewDesktopProviderConfiguration\<close> once the file is loaded: the template is a name or else an identifier.\<close>

definition resolve_template :: "remote_env \<Rightarrow> desktop_wrapper \<Rightarrow> 'h hstate \<Rightarrow> (error option \<times> desktop_wrapper) \<times> 'h hstate" where
  "resolve_template E w s =
     (let (r, s) = desktop_UUID E (dw_TemplateName w) s
      in case r of
           Inr u \<Rightarrow> ((None, w\<lparr>dw_templateUUID := u\<rparr>), s)
         | Inl _ \<Rightarrow>
             let w = w\<lparr>dw_templateUUID := dw_TemplateName w\<rparr>;
                 (r, s) = desktop_Name E (dw_templateUUID w) s
             in case r of
                  Inr n \<Rightarrow> ((None, w\<lparr>dw_TemplateName := n\<rparr>), s)
                | Inl e \<Rightarrow> ((Some e, w\<lparr>dw_TemplateName := []\<rparr>), s))"

definition desktop_AttachInstance ::
  "remote_env \<Rightarrow> ipconv \<Rightarrow> desktop_wrapper \<Rightarrow> string \<Rightarrow> bool \<Rightarrow> int \<Rightarrow> 'h hstate \<Rightarrow> (error + desktopHandler) \<times> 'h hstate" where
  "desktop_AttachInstance E ip w instanceName control nodeIndex s =
     (let (r, s) = desktop_UUID E instanceName s
      in (map_sum id (\<lambda>vmuuid. \<lparr>attachedNetwork = Network_Clone ip control nodeIndex (dw_Network w),
            dh_instanceType = [], dh_instanceName = instanceName, dh_instanceID = vmuuid,
            dh_controlPlane = control, dh_nodeIndex = nodeIndex\<rparr>) r, s))"

definition desktop_CreateInstance ::
  "remote_env \<Rightarrow> ipconv \<Rightarrow> desktop_wrapper \<Rightarrow> string \<Rightarrow> string \<Rightarrow> bool \<Rightarrow> int \<Rightarrow> 'h hstate \<Rightarrow> (error + desktopHandler) \<times> 'h hstate" where
  "desktop_CreateInstance E ip w instanceName instanceType control nodeIndex s =
     (let (found, s) = desktop_Exists E instanceName s
      in if found then (Inl (Errorf ErrVMAlreadyExists [instanceName]), s)
         else (Inr \<lparr>attachedNetwork = Network_Clone ip control nodeIndex (dw_Network w),
            dh_instanceType = instanceType, dh_instanceName = instanceName, dh_instanceID = [],
            dh_controlPlane = control, dh_nodeIndex = nodeIndex\<rparr>, s))"

section \<open>The methods of the handler\<close>

definition not_attached :: error where
  "not_attached = Plain ErrInstanceIsNotAttachedToCloudProvider"

text \<open>Most methods refuse a handler without an identifier.\<close>

definition when_attached ::
  "handler_result \<Rightarrow> (string \<Rightarrow> desktop_state \<Rightarrow> (handler_result \<times> desktop_state) go) \<Rightarrow> desktop_state \<Rightarrow> (handler_result \<times> desktop_state) go" where
  "when_attached refused body s =
     (if dh_instanceID (fst s) = [] then Ret (refused, s) else body (dh_instanceID (fst s)) s)"

definition returns :: "('a \<Rightarrow> handler_result) \<Rightarrow> 'a \<times> desktop_state \<Rightarrow> (handler_result \<times> desktop_state) go" where
  "returns f r = Ret (f (fst r), snd r)"

text \<open>The callback ends its loop at once: it succeeds or its error is returned.\<close>

definition ssh_attempt :: "remote_env \<Rightarrow> string \<Rightarrow> string \<Rightarrow> 'h hstate \<Rightarrow> ((bool \<times> error option) \<times> 'h hstate) go" where
  "ssh_attempt E instanceName ip s =
     (let (err, s) = ask_remote (rans_err E) (CallbackWaitSSHReady instanceName ip) s
      in Ret ((err = None, err), s))"

definition desktop_InstanceWaitReady :: "remote_env \<Rightarrow> desktop_wrapper \<Rightarrow> string \<Rightarrow> desktop_state \<Rightarrow> (handler_result \<times> desktop_state) go" where
  "desktop_InstanceWaitReady E w vmuuid s =
     (let (r, s) = desktop_WaitForIP E vmuuid (dw_Timeout w) s
      in case r of
           Inl e \<Rightarrow> Ret (Text [] (Some e), s)
         | Inr ip \<Rightarrow> gbind (remote_PollImmediate E (wrap64 (dw_Timeout w * second))
               (ssh_attempt E (dh_instanceName (fst s)) ip) s) (\<lambda>(err, s). Ret (Text ip err, s)))"

definition desktop_InstanceStatus :: "remote_env \<Rightarrow> string \<Rightarrow> desktop_state \<Rightarrow> (handler_result \<times> desktop_state) go" where
  "desktop_InstanceStatus E vmuuid s =
     (let (r, s) = desktop_Status E vmuuid s
      in case r of
           Inl e \<Rightarrow> Ret (Status None (Some e), s)
         | Inr (powered, devices) \<Rightarrow>
             Ret (Status (Some \<lparr>Address = findPreferredIPAddress (attachedNetwork (fst s)) devices, Powered = powered\<rparr>) None, s))"

definition topology_labels :: "string \<Rightarrow> string \<Rightarrow> labels" where
  "topology_labels region zone =
     Some [(NodeLabelTopologyRegion, region), (NodeLabelTopologyZone, zone),
           (NodeLabelVMWareCSIRegion, region), (NodeLabelVMWareCSIZone, zone)]"

definition default_max_pods :: "int \<Rightarrow> int" where
  "default_max_pods desired = (if desired = 0 then 110 else desired)"

fun desktop_handle ::
  "remote_env \<Rightarrow> codec \<Rightarrow> desktop_wrapper \<Rightarrow> handler_call \<Rightarrow> desktop_state \<Rightarrow> (handler_result \<times> desktop_state) go" where
  "desktop_handle E cd w (ConfigureNetwork net) s =
     Ret (Done None, (fst s)\<lparr>attachedNetwork := ConfigureManagedNetwork (net_VMWare net) (attachedNetwork (fst s))\<rparr>, snd s)"
| "desktop_handle E cd w RetrieveNetworkInfos s =
     when_attached (Done (Some not_attached)) (\<lambda>u s.
       returns Done (desktop_RetrieveNetworkInfos E u (attachedNetwork (fst s)) s)) s"
| "desktop_handle E cd w UpdateMacAddressTable s =
     when_attached (Done (Some not_attached)) (\<lambda>u (h, t, cs).
       let (net, t) = Network_UpdateMacAddressTable (attachedNetwork h) t
       in Ret (Done None, h\<lparr>attachedNetwork := net\<rparr>, t, cs)) s"
| "desktop_handle E cd w GenerateProviderID s =
     Ret (Text (if dh_instanceID (fst s) \<noteq> [] then Sprintf ''desktop://%s'' [dh_instanceID (fst s)] else []) None, s)"
| "desktop_handle E cd w GetTopologyLabels s = Ret (Labels (topology_labels (dw_Region w) (dw_Zone w)), s)"
| "desktop_handle E cd w (InstanceCreate input) s =
     gbind (desktop_Create E cd w input s) (\<lambda>(r, h, rest).
       case r of
         Inl e \<Rightarrow> Ret (Text [] (Some e), h, rest)
       | Inr vmuuid \<Rightarrow> Ret (Text vmuuid None, h\<lparr>dh_instanceID := vmuuid\<rparr>, rest))"
| "desktop_handle E cd w InstanceWaitReady s = when_attached (Text [] (Some not_attached)) (desktop_InstanceWaitReady E w) s"
| "desktop_handle E cd w InstancePrimaryAddressIP s = Ret (Text (PrimaryAddressIP (attachedNetwork (fst s))) None, s)"
| "desktop_handle E cd w InstanceID s = when_attached (Text [] (Some not_attached)) (\<lambda>u s. Ret (Text u None, s)) s"
| "desktop_handle E cd w InstanceAutoStart s = Ret (Done None, s)"
| "desktop_handle E cd w InstancePowerOn s =
     when_attached (Done (Some not_attached)) (\<lambda>u s. returns Done (PowerOn E u s)) s"
| "desktop_handle E cd w InstancePowerOff s =
     when_attached (Done (Some not_attached)) (\<lambda>u s. returns Done (PowerOff E u ''soft'' s)) s"
| "desktop_handle E cd w InstanceDelete s =
     when_attached (Done (Some not_attached)) (\<lambda>u s. returns Done (desktop_Delete E u s)) s"
| "desktop_handle E cd w InstanceCreated s =
     when_attached (Flag False None) (\<lambda>u s. returns (\<lambda>b. Flag b None) (desktop_Exists E (dh_instanceName (fst s)) s)) s"
| "desktop_handle E cd w handler_call.InstanceStatus s =
     when_attached (Status None (Some not_attached)) (desktop_InstanceStatus E) s"
| "desktop_handle E cd w InstanceWaitForToolsRunning s =
     when_attached (Flag False (Some not_attached)) (\<lambda>u s.
       gbind (WaitForPowerState E w u True s) (\<lambda>(err, s). Ret (Flag True err, s))) s"
| "desktop_handle E cd w (InstanceMaxPods desired) s = Ret (Number (default_max_pods desired) None, s)"
| "desktop_handle E cd w (RegisterDNS address) s =
     returns Done (change_dns E (dw_bind9Provider w) True (dh_instanceName (fst s)) (Domain (dw_Network w)) address s)"
| "desktop_handle E cd w (UnregisterDNS address) s =
     returns Done (change_dns E (dw_bind9Provider w) False (dh_instanceName (fst s)) (Domain (dw_Network w)) address s)"

text \<open>The methods outside the interface the node uses.\<close>

definition InstanceShutdownGuest :: "remote_env \<Rightarrow> desktop_state \<Rightarrow> (handler_result \<times> desktop_state) go" where
  "InstanceShutdownGuest E = when_attached (Done (Some not_attached)) (\<lambda>u s. returns Done (ShutdownGuest E u s))"

definition InstanceWaitForPowered :: "remote_env \<Rightarrow> desktop_wrapper \<Rightarrow> desktop_state \<Rightarrow> (handler_result \<times> desktop_state) go" where
  "InstanceWaitForPowered E w = when_attached (Done (Some not_attached)) (\<lambda>u s.
     gbind (WaitForPowerState E w u True s) (\<lambda>(err, s). Ret (Done err, s)))"

end
