(* ===== verification/Desktop_Facts.thy ===== *)
theory Desktop_Facts
  imports Desktop
begin

text \<open>The handler of the desktop provider meets the contract of an attached handler; what a creation requests.\<close>

section \<open>The contract\<close>

fun needs_instance :: "handler_call \<Rightarrow> bool" where
  "needs_instance RetrieveNetworkInfos = True"
| "needs_instance UpdateMacAddressTable = True"
| "needs_instance InstanceWaitReady = True"
| "needs_instance InstanceID = True"
| "needs_instance InstancePowerOn = True"
| "needs_instance InstancePowerOff = True"
| "needs_instance InstanceDelete = True"
| "needs_instance InstanceStatus = True"
| "needs_instance InstanceWaitForToolsRunning = True"
| "needs_instance _ = False"

fun creates_instance :: "handler_call \<Rightarrow> bool" where
  "creates_instance (InstanceCreate input) = True"
| "creates_instance _ = False"

text \<open>Requests and polling leave the handler alone.\<close>

lemma ask_remote_eq [simp]: "ask_remote answer c (h, t, cs) = (answer (c # cs), h, t, c # cs)"
  by (simp add: ask_remote_def)

lemma ask_remote_fst: "fst (snd (ask_remote answer c s)) = fst s"
  by (cases s) simp

lemma unit_call_fst [simp]: "fst (snd (unit_call E c s)) = fst s"
  by (cases s) (simp add: unit_call_def)

lemma request_fst [simp]:
  "fst (snd (PowerOn E u s)) = fst s" "fst (snd (PowerOff E u mode s)) = fst s" "fst (snd (desktop_Delete E u s)) = fst s"
  "fst (snd (desktop_Exists E u s)) = fst s" "fst (snd (desktop_Status E u s)) = fst s"
  "fst (snd (desktop_WaitForIP E u timeout s)) = fst s" "fst (snd (desktop_RetrieveNetworkInfos E u net s)) = fst s"
  by (cases s; auto simp: PowerOn_def PowerOff_def desktop_Delete_def desktop_Exists_def VirtualMachineByName_def
      desktop_Status_def desktop_WaitForIP_def desktop_RetrieveNetworkInfos_def unit_call_def Let_def split: sum.splits)+

lemma change_dns_fst [simp]: "fst (snd (change_dns E p add name domain address s)) = fst s"
  by (cases s) (auto simp: change_dns_def AddRecord_def RemoveRecord_def changeRecord_def Let_def
      split: option.splits sum.splits)

lemma remote_poll_fst:
  fixes cond :: "'a hstate \<Rightarrow> ((bool \<times> error option) \<times> 'a hstate) go"
  assumes "\<And>s. holds (\<lambda>(r, s'). fst s' = fst s) (cond s)"
  shows "holds (\<lambda>(e, s'). fst s' = fst s) (remote_PollImmediate E timeout cond s)"
proof -
  obtain n s1 where a: "ask_remote (rretries E) RPoll s = (n, s1)" by (rule prod.exhaust)
  then have s1: "fst s1 = fst s" using ask_remote_fst [of "rretries E" RPoll s] by simp
  have "holds (\<lambda>(e, s'). fst s' = fst s) (gpoll k forever timeout_error cond s1)" for k forever
  proof (rule gpoll_holds [where I = "\<lambda>t. fst t = fst s"])
    fix t :: "'a hstate" assume "fst t = fst s"
    with assms [of t] show "holds (\<lambda>(r, s'). fst s' = fst s) (cond t)" by simp
  qed (rule s1)
  with a show ?thesis by (simp add: remote_PollImmediate_def)
qed

lemma power_attempt_fst: "holds (\<lambda>(r, s'). fst s' = fst s) (power_attempt E u wanted s)"
  by (cases s) (auto simp: power_attempt_def split: sum.splits)

lemma ssh_attempt_fst: "holds (\<lambda>(r, s'). fst s' = fst s) (ssh_attempt E name ip s)"
  by (cases s) (simp add: ssh_attempt_def)

lemma handle_keeps_instance:
  assumes "\<not> creates_instance c"
  shows "holds (\<lambda>(r, s'). dh_instanceID (fst s') = dh_instanceID (fst s)) (desktop_handle E cd w c s)"
proof -
  have tools: "holds (\<lambda>(err, s'). fst s' = fst s) (WaitForPowerState E w u True s)" for u
    unfolding WaitForPowerState_def by (rule remote_poll_fst) (rule power_attempt_fst)
  have ready: "holds (\<lambda>(err, s'). fst s' = fst t) (remote_PollImmediate E k (ssh_attempt E name ip) t)" for k name ip t
    by (rule remote_poll_fst) (rule ssh_attempt_fst)
  show ?thesis
  proof (cases c)
    case InstanceWaitForToolsRunning
    then show ?thesis using holds_mono [OF tools]
      by (auto simp: when_attached_def)
  next
    case InstanceWaitReady
    have "holds (\<lambda>a. dh_instanceID (fst (snd a)) = dh_instanceID (fst s))
        (remote_PollImmediate E k (ssh_attempt E name ip) (snd (desktop_WaitForIP E u timeout s)))" for k name ip u timeout
      using ready by (rule holds_mono) auto
    with InstanceWaitReady show ?thesis
      by (auto simp: when_attached_def desktop_InstanceWaitReady_def case_prod_unfold Let_def split: sum.splits)
  next
    case InstanceStatus
    then show ?thesis using request_fst(5) [of E "dh_instanceID (fst s)" s]
      by (auto simp: when_attached_def desktop_InstanceStatus_def case_prod_unfold Let_def split: sum.splits)
  qed (use assms in \<open>auto simp: when_attached_def returns_def case_prod_unfold Let_def\<close>)
qed

interpretation desktop: attached_handler "\<lambda>h. dh_instanceID h \<noteq> []" "desktop_handle E cd w" needs_instance creates_instance
  for E cd w
proof
  fix c and s :: desktop_state
  assume "needs_instance c" "\<not> dh_instanceID (fst s) \<noteq> []"
  then show "\<exists>r. desktop_handle E cd w c s = Ret (r, s) \<and> result_error r \<noteq> None"
    by (cases c) (auto simp: when_attached_def)
next
  fix c r and s s' :: desktop_state
  assume "desktop_handle E cd w c s = Ret (r, s')" "\<not> creates_instance c"
  then show "(dh_instanceID (fst s') \<noteq> []) = (dh_instanceID (fst s) \<noteq> [])"
    using handle_keeps_instance [of c s E cd w] by simp
qed

section \<open>Refusals and creations\<close>

theorem desktop_unattached_refuses:
  assumes "dh_instanceID (fst s) = []" "\<forall>c \<in> set calls. needs_instance c"
  shows "\<exists>rs. run_all (desktop_handle E cd w) calls s = Ret (rs, s) \<and> length rs = length calls \<and>
    (\<forall>r \<in> set rs. result_error r \<noteq> None)"
  by (rule desktop.refuses_all) (use assms in auto)

lemma network_requests_names:
  "network_requests rnd ifs t = (rs, ifs', t') \<Longrightarrow>
     map (\<lambda>(mac, net, rest). net) rs = map NetworkName (filter IsEnabled ifs)"
proof (induction ifs arbitrary: t rs ifs' t')
  case (Cons i ifs)
  then show ?case
    by (auto simp: Let_def split: if_splits prod.splits)
qed simp

lemma submit_machine_success:
  assumes "submit_machine E cd i uuid domain decl request s = Ret (r, s')"
  shows "fst s' = fst s \<and> (\<forall>vmuuid. r = Inr vmuuid \<longrightarrow> (\<exists>infos.
    snd (snd s') = VMWareCreate (request\<lparr>rq_GuestInfos := infos\<rparr>) # snd (snd s) \<and>
    rans_machine E (snd (snd s')) = Inr (Inr (Some vmuuid))))"
proof -
  have api: "api_answer x = Inr v \<Longrightarrow> x = Inr (Inr v)" for x :: "string option response" and v
    by (cases x rule: api_answer.cases) auto
  from assms show ?thesis
    by (cases s) (auto simp: submit_machine_def split: sum.splits option.splits dest!: api)
qed

lemma cloud_init_network_frame:
  "cloud_init_network E s = Ret (decl, s') \<Longrightarrow>
     dh_instanceID (fst s') = dh_instanceID (fst s) \<and> snd (snd s') = snd (snd s)"
  by (cases s) (auto simp: cloud_init_network_def Let_def split: if_splits)

lemma desktop_Create_success:
  assumes "desktop_Create E cd w input s = Ret (r, s')"
  shows "dh_instanceID (fst s') = dh_instanceID (fst s) \<and>
    (\<forall>vmuuid. r = Inr vmuuid \<longrightarrow> (\<exists>rq. snd (snd s') = VMWareCreate rq # NewUUID # snd (snd s) \<and>
       rans_machine E (snd (snd s')) = Inr (Inr (Some vmuuid)) \<and>
       rq_Template rq = dw_templateUUID w \<and> rq_Name rq = dh_instanceName (fst s) \<and>
       rq_Vcpus rq = wrap32 (in_Vcpu input) \<and> rq_Memory rq = in_Memory input \<and> rq_DiskSize rq = wrap32 (in_DiskSize input) \<and>
       map (\<lambda>(mac, net, rest). net) (rq_Networks rq) =
         map NetworkName (filter IsEnabled (Interfaces (attachedNetwork (fst s))))))"
proof -
  obtain h t cs where s: "s = (h, t, cs)" by (cases s)
  obtain networks ifs t1 where n: "network_requests (rans_random E cs) (Interfaces (attachedNetwork h)) t = (networks, ifs, t1)"
    by (metis prod.exhaust)
  then have b: "BuildNetworkInterface (rans_random E cs) (attachedNetwork h) t =
      (networks, (attachedNetwork h)\<lparr>Interfaces := ifs\<rparr>, t1)"
    by (simp add: BuildNetworkInterface_def)
  from assms s b obtain i request decl s1 where
    d: "cloud_init_network E (h\<lparr>attachedNetwork := (attachedNetwork h)\<lparr>Interfaces := ifs\<rparr>\<rparr>, t1, NewUUID # cs) = Ret (decl, s1)"
    and m: "submit_machine E cd i (rans_str E (NewUUID # cs)) (Domain (attachedNetwork h)) decl request s1 = Ret (r, s')"
    and q: "rq_Template request = dw_templateUUID w" "rq_Name request = dh_instanceName h"
      "rq_Vcpus request = wrap32 (in_Vcpu input)" "rq_Memory request = in_Memory input"
      "rq_DiskSize request = wrap32 (in_DiskSize input)" "rq_Networks request = networks"
    by (auto simp: desktop_Create_def Let_def)
  from cloud_init_network_frame [OF d] submit_machine_success [OF m] network_requests_names [OF n] q s
  show ?thesis by auto
qed

theorem desktop_InstanceCreate_outcome:
  assumes "desktop_handle E cd w (InstanceCreate input) s = Ret (Text vmuuid err, s')"
  shows "if err \<noteq> None then dh_instanceID (fst s') = dh_instanceID (fst s)
    else dh_instanceID (fst s') = vmuuid \<and> (\<exists>rq. snd (snd s') = VMWareCreate rq # NewUUID # snd (snd s) \<and>
       rans_machine E (snd (snd s')) = Inr (Inr (Some vmuuid)) \<and>
       rq_Template rq = dw_templateUUID w \<and> rq_Name rq = dh_instanceName (fst s) \<and>
       rq_Vcpus rq = wrap32 (in_Vcpu input) \<and> rq_Memory rq = in_Memory input \<and> rq_DiskSize rq = wrap32 (in_DiskSize input) \<and>
       map (\<lambda>(mac, net, rest). net) (rq_Networks rq) =
         map NetworkName (filter IsEnabled (Interfaces (attachedNetwork (fst s)))))"
proof -
  from assms obtain r h rest where c: "desktop_Create E cd w input s = Ret (r, h, rest)"
    and r: "(case r of Inl e \<Rightarrow> Ret (Text [] (Some e), h, rest)
       | Inr u \<Rightarrow> Ret (Text u None, h\<lparr>dh_instanceID := u\<rparr>, rest)) = Ret (Text vmuuid err, s')" by auto
  show ?thesis
  proof (cases r)
    case (Inl e)
    with r desktop_Create_success [OF c] show ?thesis by auto
  next
    case (Inr u)
    with r have s': "err = None" "vmuuid = u" "s' = (h\<lparr>dh_instanceID := u\<rparr>, rest)" by auto
    with desktop_Create_success [OF c] Inr show ?thesis by simp
  qed
qed

text \<open>A timeout in seconds is divided by a second again: the service is asked to wait no time at all.\<close>

lemma ssh_poll_extends:
  fixes s :: desktop_state
  shows "holds (\<lambda>(r, s'). \<exists>later. snd (snd s') = later @ snd (snd s)) (remote_PollImmediate E k (ssh_attempt E name ip) s)"
proof -
  obtain h t cs where s: "s = (h, t, cs)" by (cases s)
  let ?I = "\<lambda>u :: desktop_state. \<exists>later. snd (snd u) = later @ cs"
  have "holds (\<lambda>(r, s'). ?I s') (gpoll n forever timeout_error (ssh_attempt E name ip) (h, t, RPoll # cs))" for n forever
  proof (rule gpoll_holds [where I = ?I])
    fix u assume "?I u"
    then show "holds (\<lambda>(r, s'). ?I s') (ssh_attempt E name ip u)"
      by (cases u) (auto simp: ssh_attempt_def)
  qed simp
  with s show ?thesis by (simp add: remote_PollImmediate_def)
qed

theorem desktop_waits_no_time:
  assumes "0 \<le> dw_Timeout w" "dw_Timeout w < 1000000000" "dh_instanceID (fst s) = u" "u \<noteq> []"
    and "desktop_handle E cd w InstanceWaitReady s = Ret (r, s')"
  shows "\<exists>later. snd (snd s') = later @ VMWareWaitForIP u 0 # snd (snd s)"
proof -
  have zero: "request_seconds (dw_Timeout w) = 0"
    using assms(1,2) by (simp add: request_seconds_def godiv_def second_def wrap32_def)
  obtain a s1 where w: "desktop_WaitForIP E u (dw_Timeout w) s = (a, s1)" by (rule prod.exhaust)
  then have s1: "snd (snd s1) = VMWareWaitForIP u 0 # snd (snd s)"
    by (cases s) (auto simp: desktop_WaitForIP_def zero)
  show ?thesis
  proof (cases a)
    case (Inl e)
    with assms w s1 show ?thesis by (auto simp: when_attached_def desktop_InstanceWaitReady_def)
  next
    case (Inr ip)
    with assms w obtain err where
      "remote_PollImmediate E (wrap64 (dw_Timeout w * second)) (ssh_attempt E (dh_instanceName (fst s1)) ip) s1 = Ret (err, s')"
      by (auto simp: when_attached_def desktop_InstanceWaitReady_def)
    with ssh_poll_extends [of s1 E "wrap64 (dw_Timeout w * second)" "dh_instanceName (fst s1)" ip] s1
    show ?thesis by simp
  qed
qed

section \<open>The theorems at concrete inputs\<close>

definition sample_interface :: net_interface where
  "sample_interface = \<lparr>Enabled = None, Primary = True, Existing = None, ConnectionType = ''nat'', BsdName = '''',
     DisplayName = '''', NetworkName = ''vmnet8'', Adapter = ''vmxnet3'', MacAddress = '''', NicName = ''eth0'', DHCP = True,
     UseDhcpRoutes = None, if_IPAddress = '''', Netmask = '''', Routes = [], if_nodeIndex = 1\<rparr>"

definition sample_network :: network where
  "sample_network = \<lparr>Domain = ''local'', Interfaces = [sample_interface], DNS = None, net_nodeIndex = 1, net_controlPlane = False\<rparr>"

definition sample_desktop :: desktop_wrapper where
  "sample_desktop = \<lparr>dw_Timeout = 300, dw_TimeZone = ''UTC'', dw_TemplateName = ''template'', dw_LinkedClone = False,
     dw_Autostart = False, dw_Network = sample_network, dw_GPUTypes = None, dw_Region = ''home'', dw_Zone = ''office'',
     dw_templateUUID = ''u0'', dw_bind9Provider = None\<rparr>"

definition new_desktop_handler :: desktopHandler where
  "new_desktop_handler = \<lparr>attachedNetwork = sample_network, dh_instanceType = ''t'', dh_instanceName = ''n1'',
     dh_instanceID = [], dh_controlPlane = False, dh_nodeIndex = 1\<rparr>"

definition sample_remote_env :: remote_env where
  "sample_remote_env = \<lparr>rans_unit = \<lambda>_. Inr (Inr ()), rans_machine = \<lambda>_. Inr (Inr (Some ''u1'')),
     rans_vm = \<lambda>_. Inl (Plain ''not found''), rans_vms = \<lambda>_. Inr (Inr (Some [])), rans_nets = \<lambda>_. Inr (Inr (Some [])),
     rans_text = \<lambda>_. Inr (Inr (Some ''10.0.0.1'')), rans_bool = \<lambda>_. Inr (Inr True), rans_status = \<lambda>_. Inr (Inr (True, [])),
     rans_err = \<lambda>_. None, rans_shell = \<lambda>_. Inr '''', rans_str = \<lambda>_. ''id'', rans_dns = \<lambda>_. Inr (Some 0),
     rans_infos = \<lambda>_. Inr [], to_json = \<lambda>_. Inr ''{}'', rans_random = \<lambda>_ _. None, rretries = \<lambda>_. 0, dns_Fqdn = \<lambda>s. s @ ''.'',
     RcodeToString = \<lambda>_. ''SERVFAIL''\<rparr>"

definition sample_input :: instance_input where
  "sample_input = \<lparr>in_ControlPlane = False, in_AllowUpgrade = False, in_NodeGroup = ''g'', in_UserName = '''', in_AuthKey = '''',
     in_CloudInit = gmake, in_Memory = 4096, in_Vcpu = 2, in_DiskSize = 10240\<rparr>"

theorem desktop_unattached_refuses_witness:
  "\<exists>rs. run_all (desktop_handle sample_remote_env sample_documents sample_desktop) [InstancePowerOn, InstanceDelete]
     (new_desktop_handler, gmake, []) = Ret (rs, new_desktop_handler, gmake, []) \<and> length rs = 2"
  using desktop_unattached_refuses [of "(new_desktop_handler, gmake, [])" "[InstancePowerOn, InstanceDelete]"
      sample_remote_env sample_documents sample_desktop]
  by (auto simp: new_desktop_handler_def)

theorem desktop_InstanceCreate_outcome_witness:
  "\<exists>s'. desktop_handle sample_remote_env sample_documents sample_desktop (InstanceCreate sample_input)
     (new_desktop_handler, gmake, []) = Ret (Text ''u1'' None, s') \<and> dh_instanceID (fst s') = ''u1''"
proof -
  have "yields (\<lambda>(r, s'). case r of Text v e \<Rightarrow> v = ''u1'' \<and> e = None | _ \<Rightarrow> False)
    (desktop_handle sample_remote_env sample_documents sample_desktop (InstanceCreate sample_input) (new_desktop_handler, gmake, []))"
    by code_simp
  then obtain r s' where m: "desktop_handle sample_remote_env sample_documents sample_desktop (InstanceCreate sample_input)
      (new_desktop_handler, gmake, []) = Ret (r, s')" and c: "case r of Text v e \<Rightarrow> v = ''u1'' \<and> e = None | _ \<Rightarrow> False"
    by (auto simp: yields_iff simp del: desktop_handle.simps)
  from c have "r = Text ''u1'' None" by (cases r) auto
  with m have r: "desktop_handle sample_remote_env sample_documents sample_desktop (InstanceCreate sample_input)
      (new_desktop_handler, gmake, []) = Ret (Text ''u1'' None, s')" by simp
  from desktop_InstanceCreate_outcome [OF r] have "dh_instanceID (fst s') = ''u1''" by simp
  with r show ?thesis by blast
qed

theorem desktop_waits_no_time_witness:
  "\<exists>r s' later. desktop_handle sample_remote_env sample_documents sample_desktop InstanceWaitReady
     (new_desktop_handler\<lparr>dh_instanceID := ''u1''\<rparr>, gmake, []) = Ret (r, s') \<and>
     snd (snd s') = later @ [VMWareWaitForIP ''u1'' 0]"
proof -
  let ?s = "(new_desktop_handler\<lparr>dh_instanceID := ''u1''\<rparr>, gmake, [])"
  have "yields (\<lambda>_. True) (desktop_handle sample_remote_env sample_documents sample_desktop InstanceWaitReady ?s)" by code_simp
  then obtain r s' where r: "desktop_handle sample_remote_env sample_documents sample_desktop InstanceWaitReady ?s = Ret (r, s')"
    by (auto simp: yields_iff)
  from desktop_waits_no_time [OF _ _ _ _ r, of "''u1''"] r show ?thesis
    by (auto simp: sample_desktop_def)
qed

end
