(* ===== verification/Multipass.thy ===== *)
theory Multipass
  imports Desktop_Facts
begin

text \<open>
  Model of \<^verbatim>\<open>providers/multipass/\<close>: one handler over two wrappers, the command line tool on this host and
  the remote service. The lock of a wrapper serialises the calls, which the list of calls does too.
\<close>

section \<open>Strings\<close>

text \<open>\<open>strings.ToUpper\<close> and \<open>strings.TrimSpace\<close> on ASCII.\<close>

definition upper_char :: "char \<Rightarrow> char" where
  "upper_char c = (let n = of_char c :: nat in if 97 \<le> n \<and> n \<le> 122 then char_of (n - 32) else c)"

definition ToUpper :: "string \<Rightarrow> string" where
  "ToUpper s = map upper_char s"

definition is_space :: "char \<Rightarrow> bool" where
  "is_space c = (let n = of_char c :: nat in n = 32 \<or> 9 \<le> n \<and> n \<le> 13)"

definition TrimSpace :: "string \<Rightarrow> string" where
  "TrimSpace s = rev (dropWhile is_space (rev (dropWhile is_space s)))"

section \<open>Configuration\<close>

datatype backend = HostWrapper | RemoteWrapper

record multipass_wrapper =
  mw_Backend :: backend
  mw_Timeout :: int
  mw_TemplateName :: string
  mw_NetplanFileName :: string
  mw_Region :: string
  mw_Zone :: string
  mw_Network :: network
  mw_Mounts :: "(string \<times> string) list"
  mw_bind9Provider :: "dns_provider option"
  mw_TempDirectory :: string

record multipassHandler =
  mh_attachedNetwork :: network
  mh_instanceName :: string
  mh_controlPlane :: bool
  mh_nodeIndex :: int

type_synonym multipass_state = "multipassHandler hstate"

definition multipassCommandLine :: string where
  "multipassCommandLine = ''multipass''"

definition errCloudInitWriteError :: string where
  "errCloudInitWriteError = ''can't write cloud-init, reason: %v''"

definition errCloudInitMarshallError :: string where
  "errCloudInitMarshallError = ''can't marshall cloud-init, reason: %v''"

definition errTempFile :: string where
  "errTempFile = ''can't create temp file, reason: %v''"

text \<open>The address and the power of a machine, from the state the tool prints.\<close>

definition host_vm_Address :: "host_vm \<Rightarrow> string" where
  "host_vm_Address st =
     (if 1 < length (hv_Ipv4 st) then hv_Ipv4 st ! 1
      else if 0 < length (hv_Ipv4 st) then hv_Ipv4 st ! 0
      else [])"

definition host_vm_Powered :: "host_vm \<Rightarrow> bool" where
  "host_vm_Powered st \<longleftrightarrow> ToUpper (hv_State st) = ''RUNNING''"

definition status_of :: "host_vm \<Rightarrow> instance_status" where
  "status_of st = \<lparr>Address = host_vm_Address st, Powered = host_vm_Powered st\<rparr>"

definition find_info :: "remote_env \<Rightarrow> string \<Rightarrow> string \<Rightarrow> error + instance_status" where
  "find_info E instanceName out =
     (case rans_infos E out of
        Inl e \<Rightarrow> Inl e
      | Inr infos \<Rightarrow> (case map_of infos instanceName of
            Some vminfo \<Rightarrow> Inr (status_of vminfo)
          | None \<Rightarrow> Inl (Errorf ''unable to find VM info: %s, in response: %s'' [instanceName, out])))"

section \<open>The command line tool\<close>

definition transient_failure :: string where
  "transient_failure = ''failed to obtain exit status for remote process''"

text \<open>
  The condition of the loop of \<^verbatim>\<open>shell\<close>, with the output as its state: a lost exit status is tried
  again, any other failure ends the loop.
\<close>

definition shell_attempt ::
  "remote_env \<Rightarrow> string list \<Rightarrow> string \<times> 'h hstate \<Rightarrow> ((bool \<times> error option) \<times> string \<times> 'h hstate) go" where
  "shell_attempt E args st =
     (let (output, s) = st; (r, s) = ask_remote (rans_shell E) (HostShell args) s
      in case r of
           Inr stdout \<Rightarrow> Ret ((True, None), stdout, s)
         | Inl (stderr, err) \<Rightarrow>
             if Contains stderr transient_failure \<or> Contains (err_text err) transient_failure
             then Ret ((False, None), output, s)
             else Ret ((False, Some (Errorf ''%s, %s'' [err_text err, TrimSpace stderr])), stderr, s))"

definition host_shell :: "remote_env \<Rightarrow> string list \<Rightarrow> 'h hstate \<Rightarrow> ((string \<times> error option) \<times> 'h hstate) go" where
  "host_shell E args s =
     (let (n, s) = ask_remote (rretries E) RPoll s
      in gbind (gpoll (Suc n) False timeout_error (shell_attempt E args) ([], s)) (\<lambda>(err, output, s).
           Ret ((output, err), s)))"

definition host_command :: "remote_env \<Rightarrow> string list \<Rightarrow> 'h hstate \<Rightarrow> (error option \<times> 'h hstate) go" where
  "host_command E args s = gbind (host_shell E (multipassCommandLine # args) s) (\<lambda>((out, err), s). Ret (err, s))"

definition host_InstanceExists :: "remote_env \<Rightarrow> string \<Rightarrow> 'h hstate \<Rightarrow> (bool \<times> 'h hstate) go" where
  "host_InstanceExists E name s = gbind (host_command E [''info'', name] s) (\<lambda>(err, s). Ret (err = None, s))"

definition host_powerOn :: "remote_env \<Rightarrow> string \<Rightarrow> 'h hstate \<Rightarrow> (error option \<times> 'h hstate) go" where
  "host_powerOn E name = host_command E [''start'', name]"

definition host_powerOff :: "remote_env \<Rightarrow> string \<Rightarrow> 'h hstate \<Rightarrow> (error option \<times> 'h hstate) go" where
  "host_powerOff E name = host_command E [''stop'', name]"

definition host_delete :: "remote_env \<Rightarrow> string \<Rightarrow> 'h hstate \<Rightarrow> (error option \<times> 'h hstate) go" where
  "host_delete E name = host_command E [''delete'', name, ''-p'']"

definition host_status :: "remote_env \<Rightarrow> string \<Rightarrow> 'h hstate \<Rightarrow> ((error + instance_status) \<times> 'h hstate) go" where
  "host_status E name s =
     gbind (host_shell E [multipassCommandLine, ''info'', name, ''--format'', ''json''] s) (\<lambda>((out, err), s).
       case err of Some e \<Rightarrow> Ret (Inl e, s) | None \<Rightarrow> Ret (find_info E name out, s))"

section \<open>The remote service\<close>

text \<open>An error of the service is formatted with its code and its reason.\<close>

definition service_error :: "string \<Rightarrow> client_error \<Rightarrow> error" where
  "service_error what e = Errorf (what @ '' failed. Code: %d, reason: %v'') [Itoa (fst e), snd e]"

fun service_answer :: "string \<Rightarrow> 'a response \<Rightarrow> error + 'a" where
  "service_answer what (Inl e) = Inl e"
| "service_answer what (Inr (Inl e)) = Inl (service_error what e)"
| "service_answer what (Inr (Inr a)) = Inr a"

definition remote_InstanceExists :: "remote_env \<Rightarrow> string \<Rightarrow> 'h hstate \<Rightarrow> (bool \<times> 'h hstate) go" where
  "remote_InstanceExists E name s =
     (let (r, s) = ask_remote (rans_text E) (HostInfoInstance name) s in Ret (error_of (api_answer r) = None, s))"

definition remote_powerOn :: "remote_env \<Rightarrow> string \<Rightarrow> 'h hstate \<Rightarrow> (error option \<times> 'h hstate) go" where
  "remote_powerOn E name s =
     (let (r, s) = ask_remote (rans_text E) (HostStartInstance name) s in Ret (error_of (service_answer ''powerOn'' r), s))"

definition remote_powerOff :: "remote_env \<Rightarrow> string \<Rightarrow> 'h hstate \<Rightarrow> (error option \<times> 'h hstate) go" where
  "remote_powerOff E name s =
     (let (r, s) = ask_remote (rans_text E) (HostStopInstance name) s in Ret (error_of (service_answer ''powerOff'' r), s))"

definition remote_delete :: "remote_env \<Rightarrow> string \<Rightarrow> 'h hstate \<Rightarrow> (error option \<times> 'h hstate) go" where
  "remote_delete E name s =
     (let (r, s) = ask_remote (rans_text E) (HostDeleteInstance name) s in Ret (error_of (service_answer ''delete'' r), s))"

text \<open>The output of a result is read without a getter.\<close>

definition remote_status :: "remote_env \<Rightarrow> string \<Rightarrow> 'h hstate \<Rightarrow> ((error + instance_status) \<times> 'h hstate) go" where
  "remote_status E name s =
     (let (r, s) = ask_remote (rans_text E) (HostInfoInstance name) s
      in case service_answer ''status'' r of
           Inl e \<Rightarrow> Ret (Inl e, s)
         | Inr None \<Rightarrow> Panic NilDeref
         | Inr (Some out) \<Rightarrow> Ret (find_info E name out, s))"

section \<open>Creating a machine\<close>

definition host_user_data ::
  "remote_env \<Rightarrow> codec \<Rightarrow> multipass_wrapper \<Rightarrow> instance_input \<Rightarrow> multipass_state \<Rightarrow>
   ((error option \<times> cloud_init) \<times> multipass_state) go" where
  "host_user_data E cd w input s =
     (let (tz, h, t, cs) = ask_remote (rans_str E) TimeZone s;
          net = mh_attachedNetwork h
      in gbind (if Interfaces net = [] then Ret (CNull, h, t, cs)
                else gbind (GetCloudInitNetwork (rans_random E cs) False net t) (\<lambda>(eths, net, t).
                  Ret (declare_ci eths, h\<lparr>mh_attachedNetwork := net\<rparr>, t, cs))) (\<lambda>(decl, s).
         gbind (BuildUserData cd \<lparr>ci_InstanceName = mh_instanceName h, ci_UserName = in_UserName input,
             ci_AuthKey = in_AuthKey input, ci_TimeZone = tz, ci_AllowUpgrade = in_AllowUpgrade input,
             ci_Network = decl, ci_CloudInit = in_CloudInit input\<rparr> (mw_NetplanFileName w)) (\<lambda>r. Ret (r, s))))"

definition marshall :: "codec \<Rightarrow> cloud_init \<Rightarrow> error + string" where
  "marshall cd obj =
     (case yaml cd (CMap (gentries obj)) of Inl e \<Rightarrow> Inl e | Inr out \<Rightarrow> Inr (cloud_config_header @ out))"

definition writeCloudFile ::
  "remote_env \<Rightarrow> codec \<Rightarrow> multipass_wrapper \<Rightarrow> instance_input \<Rightarrow> multipass_state \<Rightarrow>
   ((error + string) \<times> multipass_state) go" where
  "writeCloudFile E cd w input s =
     gbind (host_user_data E cd w input s) (\<lambda>((err, doc), s).
       case err of
         Some e \<Rightarrow> Ret (Inl e, s)
       | None \<Rightarrow>
           let fName = Sprintf ''%s/cloud-init-%s.yaml'' [mw_TempDirectory w, mh_instanceName (fst s)];
               (err, s) = ask_remote (rans_err E) (CreateFile fName) s
           in case err of
                Some e \<Rightarrow> Ret (Inl (Errorf errTempFile [err_text e]), s)
              | None \<Rightarrow> (case marshall cd doc of
                    Inl e \<Rightarrow> Ret (Inl (Errorf errCloudInitMarshallError [err_text e]), snd (ask_remote (rans_err E) (RemoveFile fName) s))
                  | Inr b \<Rightarrow> let (err, s) = ask_remote (rans_err E) (WriteFile fName b) s
                      in case err of
                           Some e \<Rightarrow> Ret (Inl (Errorf errCloudInitWriteError [err_text e]), snd (ask_remote (rans_err E) (RemoveFile fName) s))
                         | None \<Rightarrow> Ret (Inr fName, s)))"

text \<open>An interface that is not DHCP is configured by hand, whatever its connection type.\<close>

definition network_mode :: "net_interface \<Rightarrow> string" where
  "network_mode i = (if \<not> DHCP i then ''manual'' else ConnectionType i)"

definition network_argument :: "net_interface \<Rightarrow> string \<Rightarrow> string" where
  "network_argument i mac =
     Sprintf ''name=%s'' [NetworkName i] @ (if mac \<noteq> [] then Sprintf '',mac=%s'' [mac] else []) @
     (if ToLower (network_mode i) = ''manual'' then '',mode=manual'' else [])"

fun created_interfaces ::
  "(string \<Rightarrow> (nat \<times> nat \<times> nat) option) \<Rightarrow> (net_interface \<Rightarrow> string \<Rightarrow> 'a) \<Rightarrow> net_interface list \<Rightarrow> mac_table \<Rightarrow>
   'a list \<times> net_interface list \<times> mac_table" where
  "created_interfaces rnd f [] t = ([], [], t)"
| "created_interfaces rnd f (i # is) t =
     (if CreateIt i
      then let (mac, i', t) = Interface_GetMacAddress (rnd (netName i)) i t;
               (rs, is', t) = created_interfaces rnd f is t
           in (f i mac # rs, i' # is', t)
      else let (rs, is', t) = created_interfaces rnd f is t in (rs, i # is', t))"

definition with_interfaces ::
  "remote_env \<Rightarrow> (net_interface \<Rightarrow> string \<Rightarrow> 'a) \<Rightarrow> multipass_state \<Rightarrow> 'a list \<times> multipass_state" where
  "with_interfaces E f s =
     (let (h, t, cs) = s;
          (rs, nifs, t) = created_interfaces (rans_random E cs) f (Interfaces (mh_attachedNetwork h)) t
      in (rs, h\<lparr>mh_attachedNetwork := (mh_attachedNetwork h)\<lparr>Interfaces := nifs\<rparr>\<rparr>, t, cs))"

text \<open>
  The size of the disk is formatted from the pointer, not from what it points to: \<open>pointer\<close> is its
  numeric value, 0 for nil.
\<close>

definition launch_arguments ::
  "multipass_wrapper \<Rightarrow> int \<Rightarrow> instance_input \<Rightarrow> string \<Rightarrow> string \<Rightarrow> string list \<Rightarrow> string list" where
  "launch_arguments w pointer input instanceName cloudInitFile networks =
     [multipassCommandLine, ''launch'', ''--name'', instanceName] @
     (if 0 < in_Memory input then [Sprintf ''--mem=%dM'' [Itoa (in_Memory input)]] else []) @
     (if 0 < in_Vcpu input then [Sprintf ''--cpus=%d'' [Itoa (in_Vcpu input)]] else []) @
     (if 0 < in_DiskSize input then [Sprintf ''--disk=%dM'' [Itoa pointer]] else []) @
     [Sprintf ''--cloud-init=%s'' [cloudInitFile]] @
     concat (map (\<lambda>n. [''--network'', n]) networks) @
     map (\<lambda>(local, path). Sprintf ''--mount=%s:%s'' [local, path]) (mw_Mounts w) @
     (if mw_TemplateName w \<noteq> [] then [mw_TemplateName w] else [])"

definition host_create ::
  "remote_env \<Rightarrow> codec \<Rightarrow> multipass_wrapper \<Rightarrow> int \<Rightarrow> instance_input \<Rightarrow> multipass_state \<Rightarrow>
   ((error + string) \<times> multipass_state) go" where
  "host_create E cd w pointer input s =
     gbind (writeCloudFile E cd w input s) (\<lambda>(r, s).
       case r of
         Inl e \<Rightarrow> Ret (Inl e, s)
       | Inr cloudInitFile \<Rightarrow>
           let (networks, s) = with_interfaces E network_argument s;
               name = mh_instanceName (fst s)
           in gbind (host_shell E (launch_arguments w pointer input name cloudInitFile networks) s) (\<lambda>((out, err), s).
                Ret (case err of Some e \<Rightarrow> Inl e | None \<Rightarrow> Inr name, s)))"

text \<open>A document that cannot be encoded ends the creation without an error and without a machine.\<close>

definition remote_create ::
  "remote_env \<Rightarrow> codec \<Rightarrow> multipass_wrapper \<Rightarrow> instance_input \<Rightarrow> multipass_state \<Rightarrow>
   ((error + string) \<times> multipass_state) go" where
  "remote_create E cd w input s =
     gbind (host_user_data E cd w input s) (\<lambda>((err, doc), s).
       case err of
         Some e \<Rightarrow> Ret (Inl e, s)
       | None \<Rightarrow> (case to_json E (CMap (gentries doc)) of
             Inl _ \<Rightarrow> Ret (Inr [], s)
           | Inr buffer \<Rightarrow>
               let (networks, s) = with_interfaces E (\<lambda>i mac. (NetworkName i, NicName i, mac, network_mode i)) s;
                   request = \<lparr>hq_Name = mh_instanceName (fst s), hq_Template = mw_TemplateName w,
                     hq_Memory = wrap32 (in_Memory input), hq_Vcpu = wrap32 (in_Vcpu input),
                     hq_DiskSize = wrap32 (in_DiskSize input), hq_CloudInit = buffer, hq_Networks = networks,
                     hq_Mounts = mw_Mounts w\<rparr>;
                   (r, s) = ask_remote (rans_text E) (HostCreateInstance request) s
               in case service_answer ''create'' r of
                    Inl e \<Rightarrow> Ret (Inl e, s)
                  | Inr None \<Rightarrow> Panic NilDeref
                  | Inr (Some out) \<Rightarrow> Ret (Inr out, s)))"

section \<open>The wrapper interface\<close>

definition by_backend :: "multipass_wrapper \<Rightarrow> 'a \<Rightarrow> 'a \<Rightarrow> 'a" where
  "by_backend w host remote = (case mw_Backend w of HostWrapper \<Rightarrow> host | RemoteWrapper \<Rightarrow> remote)"

definition wrapper_status :: "remote_env \<Rightarrow> multipass_wrapper \<Rightarrow> string \<Rightarrow> 'h hstate \<Rightarrow> ((error + instance_status) \<times> 'h hstate) go" where
  "wrapper_status E w = by_backend w (host_status E) (remote_status E)"

text \<open>
  \<^verbatim>\<open>waitForPowered\<close> and \<^verbatim>\<open>waitForIP\<close> ask the wrapper they are given for the status; the address is the
  state of the second loop.
\<close>

type_synonym 'h asks_status = "string \<Rightarrow> 'h hstate \<Rightarrow> ((error + instance_status) \<times> 'h hstate) go"

definition powered_attempt :: "'h asks_status \<Rightarrow> string \<Rightarrow> 'h hstate \<Rightarrow> ((bool \<times> error option) \<times> 'h hstate) go" where
  "powered_attempt status name s =
     gbind (status name s) (\<lambda>(r, s). case r of
         Inl e \<Rightarrow> Ret ((False, Some e), s)
       | Inr st \<Rightarrow> Ret ((Powered st, None), s))"

definition waitForPowered :: "remote_env \<Rightarrow> int \<Rightarrow> 'h asks_status \<Rightarrow> string \<Rightarrow> 'h hstate \<Rightarrow> (error option \<times> 'h hstate) go" where
  "waitForPowered E timeout status name =
     remote_PollImmediate E (wrap64 (timeout * second)) (powered_attempt status name)"

definition ip_attempt ::
  "remote_env \<Rightarrow> 'h asks_status \<Rightarrow> string \<Rightarrow> string \<times> 'h hstate \<Rightarrow> ((bool \<times> error option) \<times> string \<times> 'h hstate) go" where
  "ip_attempt E status name st =
     gbind (status name (snd st)) (\<lambda>(r, s). case r of
         Inl e \<Rightarrow> Ret ((False, Some e), fst st, s)
       | Inr found \<Rightarrow>
           if Powered found \<and> Address found \<noteq> []
           then let (err, s) = ask_remote (rans_err E) (CallbackWaitSSHReady name (Address found)) s
                in if err \<noteq> None then Ret ((False, err), fst st, s) else Ret ((True, None), Address found, s)
           else Ret ((False, None), fst st, s))"

definition multipass_waitForIP :: "remote_env \<Rightarrow> int \<Rightarrow> 'h asks_status \<Rightarrow> string \<Rightarrow> 'h hstate \<Rightarrow> ((string \<times> error option) \<times> 'h hstate) go" where
  "multipass_waitForIP E timeout status name s =
     (let t = wrap64 (timeout * second); (n, s) = ask_remote (rretries E) RPoll s
      in gbind (gpoll (if t < 0 then 1 else Suc n) (t = 0) timeout_error (ip_attempt E status name) ([], s))
           (\<lambda>(err, address, s). Ret (if err \<noteq> None then ([], err) else (address, None), s)))"

section \<open>The handler\<close>

definition multipass_NewInstance :: "ipconv \<Rightarrow> multipass_wrapper \<Rightarrow> string \<Rightarrow> bool \<Rightarrow> int \<Rightarrow> multipassHandler" where
  "multipass_NewInstance ip w instanceName control nodeIndex =
     \<lparr>mh_attachedNetwork = Network_Clone ip control nodeIndex (mw_Network w), mh_instanceName = instanceName,
      mh_controlPlane = control, mh_nodeIndex = nodeIndex\<rparr>"

definition answers :: "('a \<Rightarrow> handler_result) \<Rightarrow> ('a \<times> multipass_state) go \<Rightarrow> (handler_result \<times> multipass_state) go" where
  "answers f m = gbind m (\<lambda>(a, s). Ret (f a, s))"

fun multipass_handle ::
  "remote_env \<Rightarrow> codec \<Rightarrow> multipass_wrapper \<Rightarrow> int \<Rightarrow> handler_call \<Rightarrow> multipass_state \<Rightarrow> (handler_result \<times> multipass_state) go" where
  "multipass_handle E cd w pointer (ConfigureNetwork net) s =
     Ret (Done None, (fst s)\<lparr>mh_attachedNetwork := ConfigureManagedNetwork (net_Multipass net) (mh_attachedNetwork (fst s))\<rparr>, snd s)"
| "multipass_handle E cd w pointer RetrieveNetworkInfos s = Ret (Done None, s)"
| "multipass_handle E cd w pointer UpdateMacAddressTable s = Ret (Done None, s)"
| "multipass_handle E cd w pointer GenerateProviderID s =
     Ret (Text (Sprintf ''multipass://%s'' [mh_instanceName (fst s)]) None, s)"
| "multipass_handle E cd w pointer GetTopologyLabels s = Ret (Labels (topology_labels (mw_Region w) (mw_Zone w)), s)"
| "multipass_handle E cd w pointer (InstanceCreate input) s =
     answers (\<lambda>r. case r of Inl e \<Rightarrow> Text [] (Some e) | Inr u \<Rightarrow> Text u None)
       (by_backend w (host_create E cd w pointer input s) (remote_create E cd w input s))"
| "multipass_handle E cd w pointer InstanceWaitReady s =
     answers (\<lambda>(a, err). Text a err) (multipass_waitForIP E (mw_Timeout w) (wrapper_status E w) (mh_instanceName (fst s)) s)"
| "multipass_handle E cd w pointer InstancePrimaryAddressIP s = Ret (Text (PrimaryAddressIP (mh_attachedNetwork (fst s))) None, s)"
| "multipass_handle E cd w pointer InstanceID s = Ret (Text (mh_instanceName (fst s)) None, s)"
| "multipass_handle E cd w pointer InstanceAutoStart s = Ret (Done None, s)"
| "multipass_handle E cd w pointer InstancePowerOn s =
     answers Done (by_backend w (host_powerOn E) (remote_powerOn E) (mh_instanceName (fst s)) s)"
| "multipass_handle E cd w pointer InstancePowerOff s =
     answers Done (by_backend w (host_powerOff E) (remote_powerOff E) (mh_instanceName (fst s)) s)"
| "multipass_handle E cd w pointer InstanceDelete s =
     answers Done (by_backend w (host_delete E) (remote_delete E) (mh_instanceName (fst s)) s)"
| "multipass_handle E cd w pointer InstanceCreated s =
     answers (\<lambda>b. Flag b None) (by_backend w (host_InstanceExists E) (remote_InstanceExists E) (mh_instanceName (fst s)) s)"
| "multipass_handle E cd w pointer InstanceStatus s =
     answers (\<lambda>r. case r of Inl e \<Rightarrow> Status None (Some e) | Inr st \<Rightarrow> Status (Some st) None)
       (wrapper_status E w (mh_instanceName (fst s)) s)"
| "multipass_handle E cd w pointer InstanceWaitForToolsRunning s = Ret (Flag True None, s)"
| "multipass_handle E cd w pointer (InstanceMaxPods desired) s = Ret (Number (default_max_pods desired) None, s)"
| "multipass_handle E cd w pointer (RegisterDNS address) s =
     (let (err, s) = change_dns E (mw_bind9Provider w) True (mh_instanceName (fst s)) (Domain (mh_attachedNetwork (fst s))) address s
      in Ret (Done err, s))"
| "multipass_handle E cd w pointer (UnregisterDNS address) s =
     (let (err, s) = change_dns E (mw_bind9Provider w) False (mh_instanceName (fst s)) (Domain (mh_attachedNetwork (fst s))) address s
      in Ret (Done err, s))"

end
