(* ===== verification/Remote_Shell.thy ===== *)
theory Remote_Shell
  imports Startup Multipass
begin

text \<open>
  Model of \<^verbatim>\<open>utils/communicator.go\<close> and \<^verbatim>\<open>sshutils/types.go\<close>: running a local command, copying files and
  running commands with sudo on a machine. The ssh library, the local processes, the key files and the
  user of the process are the environment \<open>ssh_env\<close>, which answers from the list of the events so far.
\<close>

section \<open>The connection\<close>

record ssh_config = ssh_infos +
  testMode :: bool

datatype auth_method = PasswordAuth string | KeyAuth string

datatype shell_event =
    RunLocal "string list"
  | Dial string string auth_method int
  | NewSession
  | RequestPty
  | CombinedOutput string
  | CloseSession

record ssh_env =
  she_user :: "error + string \<times> string"
  she_file :: "string \<Rightarrow> error + string"
  she_key :: "string \<Rightarrow> error option"
  she_local :: "shell_event list \<Rightarrow> error option \<times> string \<times> string"
  she_err :: "shell_event list \<Rightarrow> error option"
  she_out :: "shell_event list \<Rightarrow> string option \<times> error option"

definition GetUserName :: "ssh_env \<Rightarrow> ssh_config \<Rightarrow> string go" where
  "GetUserName X c =
     (if ssh_UserName c = [] \<or> ssh_UserName c = ''~''
      then (case she_user X of Inl e \<Rightarrow> Panic ProcessExit | Inr (name, home) \<Rightarrow> Ret name)
      else Ret (ssh_UserName c))"

definition GetAuthKeys :: "ssh_env \<Rightarrow> ssh_config \<Rightarrow> string go" where
  "GetAuthKeys X c =
     (if HasPrefix (ssh_AuthKeys c) ''~''
      then (case she_user X of Inl e \<Rightarrow> Panic ProcessExit | Inr (name, home) \<Rightarrow> Ret (home @ tl (ssh_AuthKeys c)))
      else Ret (ssh_AuthKeys c))"

definition AuthMethodFromPrivateKeyFile :: "ssh_env \<Rightarrow> string \<Rightarrow> error + auth_method" where
  "AuthMethodFromPrivateKeyFile X file =
     (case she_file X file of
        Inl e \<Rightarrow> Inl e
      | Inr buffer \<Rightarrow> (case she_key X buffer of Some e \<Rightarrow> Inl e | None \<Rightarrow> Inr (KeyAuth buffer)))"

section \<open>Local commands\<close>

definition local_Shell :: "ssh_env \<Rightarrow> string list \<Rightarrow> shell_event list \<Rightarrow> ((string \<times> error option) \<times> shell_event list) go" where
  "local_Shell X args h =
     (if args = [] then Panic IndexOutOfRange
      else let h = RunLocal args # h; (err, stdout, stderr) = she_local X h
           in case err of
                Some e \<Rightarrow> Ret ((stderr, Some (Errorf ''%s, %s'' [err_text e, TrimSpace stderr])), h)
              | None \<Rightarrow> Ret ((stdout, None), h))"

definition ssh_Scp :: "ssh_env \<Rightarrow> ssh_config \<Rightarrow> string \<Rightarrow> string \<Rightarrow> string \<Rightarrow> shell_event list \<Rightarrow> (error option \<times> shell_event list) go" where
  "ssh_Scp X c host src dst h =
     (if testMode c then Ret (None, h)
      else gbind (GetAuthKeys X c) (\<lambda>keys.
           gbind (GetUserName X c) (\<lambda>user.
           gbind (local_Shell X [''scp'', ''-i'', keys, ''-o'', ''StrictHostKeyChecking=no'', ''-o'', ''UserKnownHostsFile=/dev/null'',
               ''-p'', ''-r'', src, Sprintf ''%s@%s:%s'' [user, host, dst]] h) (\<lambda>((out, err), h).
             Ret (err, h)))))"

section \<open>Commands on a machine\<close>

text \<open>One session runs every command; the output of a failed one, or a message in its place, is kept.\<close>

fun sudo_commands :: "ssh_env \<Rightarrow> string list \<Rightarrow> string \<Rightarrow> shell_event list \<Rightarrow> (string \<times> error option) \<times> shell_event list" where
  "sudo_commands X [] out h = ((out, None), h)"
| "sudo_commands X (cmd # cmds) out h =
     (let h = CombinedOutput (Sprintf ''sudo %s'' [cmd]) # h; (res, err) = she_out X h
      in case err of
           Some e \<Rightarrow>
             ((out @ (case res of
                        Some text \<Rightarrow> text
                      | None \<Rightarrow> Sprintf ''An error occured during su command: %s, error: %v'' [cmd, err_text e]), Some e), h)
         | None \<Rightarrow> sudo_commands X cmds (out @ (case res of Some text \<Rightarrow> text | None \<Rightarrow> [])) h)"

definition sudo_method :: "ssh_env \<Rightarrow> ssh_config \<Rightarrow> (error + auth_method) go" where
  "sudo_method X c =
     (if length (ssh_Password c) > 0 then Ret (Inr (PasswordAuth (ssh_Password c)))
      else gbind (GetAuthKeys X c) (\<lambda>keys. Ret (AuthMethodFromPrivateKeyFile X keys)))"

definition ssh_Sudo ::
  "ssh_env \<Rightarrow> ssh_config \<Rightarrow> string \<Rightarrow> int \<Rightarrow> string list \<Rightarrow> shell_event list \<Rightarrow> ((string \<times> error option) \<times> shell_event list) go" where
  "ssh_Sudo X c host timeoutInSeconds command h =
     (if testMode c then Ret (([], None), h)
      else gbind (sudo_method X c) (\<lambda>m. case m of Inl e \<Rightarrow> Ret (([], Some e), h) | Inr auth \<Rightarrow>
           gbind (GetUserName X c) (\<lambda>user.
             let h = Dial (Sprintf ''%s:22'' [host]) user auth (wrap64 (timeoutInSeconds * second)) # h
             in case she_err X h of Some e \<Rightarrow> Ret (([], Some (Errorf ''failed to dial: %s'' [err_text e])), h) | None \<Rightarrow>
             let h = NewSession # h
             in case she_err X h of Some e \<Rightarrow> Ret (([], Some (Errorf ''failed to create session: %s'' [err_text e])), h) | None \<Rightarrow>
             let h = RequestPty # h
             in case she_err X h of
                  Some e \<Rightarrow> Ret (([], Some (Errorf ''request for pseudo terminal failed: %s'' [err_text e])), CloseSession # h)
                | None \<Rightarrow>
                    let ((out, err), h) = sudo_commands X command [] h
                    in Ret ((TrimSpace out, err), CloseSession # h))))"

section \<open>Environment variables\<close>

text \<open>The helpers of the tests and the flag that a feature is tested; \<open>getenv\<close> is empty for a variable that is not set.\<close>

definition GetTestMode :: "(string \<Rightarrow> string) \<Rightarrow> bool" where
  "GetTestMode getenv = (let mode = ToLower (getenv ''TEST_MODE'') in if mode \<noteq> [] then mode = ''true'' \<or> mode = ''1'' else False)"

definition required_variable :: "(string \<Rightarrow> string) \<Rightarrow> string \<Rightarrow> string go" where
  "required_variable getenv name = (if getenv name = [] then Panic ProcessExit else Ret (getenv name))"

definition ShouldTestFeature :: "(string \<Rightarrow> string) \<Rightarrow> string \<Rightarrow> bool" where
  "ShouldTestFeature getenv name = (if getenv name \<noteq> [] then getenv name \<noteq> ''NO'' else True)"

text \<open>A configuration file: its text, with the variables of the environment replaced, is decoded.\<close>

definition LoadTextEnvSubst :: "(string \<Rightarrow> error + string) \<Rightarrow> (string \<Rightarrow> error + string) \<Rightarrow> string \<Rightarrow> error + string" where
  "LoadTextEnvSubst read eval fileName = (case read fileName of Inl e \<Rightarrow> Inl e | Inr buf \<Rightarrow> eval buf)"

definition LoadConfig :: "(string \<Rightarrow> error + string) \<Rightarrow> (string \<Rightarrow> error + string) \<Rightarrow> (string \<Rightarrow> error + 'a) \<Rightarrow> string \<Rightarrow> error + 'a" where
  "LoadConfig read eval decode fileName = (case LoadTextEnvSubst read eval fileName of Inl e \<Rightarrow> Inl e | Inr content \<Rightarrow> decode content)"

end
