(* ===== verification/Remote_Shell_Facts.thy ===== *)
theory Remote_Shell_Facts
  imports Remote_Shell
begin

text \<open>
  What a remote command that reports success has done, and that it stops at the first failure. The
  session of the ssh library accepts one command (the predicate \<open>single_use\<close>), so a call with several
  never succeeds; the program makes only calls with one.
\<close>

section \<open>Success\<close>

definition sudo_runs :: "string list \<Rightarrow> shell_event list" where
  "sudo_runs cmds = rev (map (\<lambda>c. CombinedOutput (Sprintf ''sudo %s'' [c])) cmds)"

lemma sudo_runs_simps [simp]: "sudo_runs [] = []" "sudo_runs (c # cs) = sudo_runs cs @ [CombinedOutput (Sprintf ''sudo %s'' [c])]"
  by (simp_all add: sudo_runs_def)

lemma sudo_commands_success:
  assumes "sudo_commands X cmds out h = ((out', None), h')"
  shows "h' = sudo_runs cmds @ h \<and> (\<exists>rest. out' = out @ rest)"
  using assms by (induction X cmds out h rule: sudo_commands.induct) (force simp: Let_def split: prod.splits option.splits)+

text \<open>The commands that have run when one fails are the first ones, up to the one that failed.\<close>

lemma sudo_commands_failure:
  assumes "sudo_commands X cmds out h = ((out', Some e), h')"
  shows "\<exists>ran cmd later. cmds = ran @ cmd # later \<and> h' = sudo_runs (ran @ [cmd]) @ h \<and> snd (she_out X h') = Some e"
  using assms
proof (induction X cmds out h rule: sudo_commands.induct)
  case (2 X cmd cmds out h)
  let ?h = "CombinedOutput (Sprintf ''sudo %s'' [cmd]) # h"
  obtain o' err where a: "she_out X ?h = (o', err)" by (cases "she_out X ?h")
  show ?case
  proof (cases err)
    case None
    with a 2(2) have rest: "sudo_commands X cmds (out @ (case o' of Some text \<Rightarrow> text | None \<Rightarrow> [])) ?h = ((out', Some e), h')"
      by (simp add: Let_def)
    from 2(1) [OF refl a [symmetric] refl None rest] obtain ran c later where
      "cmds = ran @ c # later" "h' = sudo_runs (ran @ [c]) @ ?h" "snd (she_out X h') = Some e" by blast
    then show ?thesis by (intro exI [of _ "cmd # ran"] exI [of _ c] exI [of _ later]) simp
  next
    case (Some e')
    with a 2(2) show ?thesis by (intro exI [of _ "[]"] exI [of _ cmd] exI [of _ cmds]) (auto simp: Let_def)
  qed
qed simp

lemma Sudo_successE:
  assumes "ssh_Sudo X c host timeout cmds h = Ret ((out, None), h')" "\<not> testMode c"
  obtains auth user res k where "sudo_method X c = Ret (Inr auth)" "GetUserName X c = Ret user" "h' = CloseSession # k"
    "sudo_commands X cmds [] (RequestPty # NewSession # Dial (Sprintf ''%s:22'' [host]) user auth (wrap64 (timeout * second)) # h) = ((res, None), k)"
proof -
  from assms obtain m where m: "sudo_method X c = Ret m" by (auto simp: ssh_Sudo_def)
  with assms obtain auth where a: "m = Inr auth" by (cases m) (auto simp: ssh_Sudo_def)
  with assms m obtain user where u: "GetUserName X c = Ret user" by (auto simp: ssh_Sudo_def)
  let ?d = "RequestPty # NewSession # Dial (Sprintf ''%s:22'' [host]) user auth (wrap64 (timeout * second)) # h"
  obtain res e k where s: "sudo_commands X cmds [] ?d = ((res, e), k)" by (metis prod.exhaust)
  with assms m a u have "e = None" "h' = CloseSession # k"
    by (auto simp: ssh_Sudo_def Let_def split: option.splits)
  with s m a u that show thesis by blast
qed

text \<open>
  A remote command that reports success has dialled the machine as the configured user with the password,
  or with the key that was read when there is no password, has run every command in order in one
  session, and has closed it.
\<close>

theorem Sudo_success:
  assumes "ssh_Sudo X c host timeout cmds h = Ret ((out, None), h')" "\<not> testMode c"
  shows "\<exists>auth user. h' = CloseSession # sudo_runs cmds @ RequestPty # NewSession # Dial (Sprintf ''%s:22'' [host]) user auth (wrap64 (timeout * second)) # h \<and>
    GetUserName X c = Ret user \<and>
    (if ssh_Password c \<noteq> [] then auth = PasswordAuth (ssh_Password c)
     else \<exists>keys. GetAuthKeys X c = Ret keys \<and> AuthMethodFromPrivateKeyFile X keys = Inr auth)"
proof -
  from Sudo_successE [OF assms] obtain auth user res k where m: "sudo_method X c = Ret (Inr auth)" "GetUserName X c = Ret user"
    "h' = CloseSession # k" and s: "sudo_commands X cmds [] (RequestPty # NewSession # Dial (Sprintf ''%s:22'' [host]) user auth
      (wrap64 (timeout * second)) # h) = ((res, None), k)" .
  moreover have "if ssh_Password c \<noteq> [] then auth = PasswordAuth (ssh_Password c)
     else \<exists>keys. GetAuthKeys X c = Ret keys \<and> AuthMethodFromPrivateKeyFile X keys = Inr auth"
    using m(1) by (auto simp: sudo_method_def split: if_splits)
  ultimately show ?thesis using sudo_commands_success [OF s] by blast
qed

section \<open>One command for a session\<close>

text \<open>The documented behaviour of the ssh library: a session accepts only one command.\<close>

definition runs_in_session :: "shell_event list \<Rightarrow> nat" where
  "runs_in_session h = length (filter (\<lambda>e. case e of CombinedOutput cmd \<Rightarrow> True | _ \<Rightarrow> False) (takeWhile (\<lambda>e. e \<noteq> NewSession) h))"

definition single_use :: "ssh_env \<Rightarrow> bool" where
  "single_use X \<longleftrightarrow> (\<forall>h. 1 < runs_in_session h \<longrightarrow> snd (she_out X h) \<noteq> None)"

lemma runs_CombinedOutput [simp]: "runs_in_session (CombinedOutput cmd # h) = Suc (runs_in_session h)"
  by (simp add: runs_in_session_def)

lemma sudo_commands_single:
  assumes "single_use X" "sudo_commands X cmds out h = ((out', None), h')" "0 < runs_in_session h"
  shows "cmds = []"
proof (rule ccontr)
  assume "cmds \<noteq> []"
  then obtain cmd rest where c: "cmds = cmd # rest" by (cases cmds) auto
  let ?h = "CombinedOutput (Sprintf ''sudo %s'' [cmd]) # h"
  have "1 < runs_in_session ?h" using assms(3) by simp
  with assms(1) obtain res e where "she_out X ?h = (res, Some e)" unfolding single_use_def by (metis not_None_eq prod.collapse)
  with assms(2) c show False by (simp add: Let_def)
qed

text \<open>So a call with more than one command never succeeds.\<close>

theorem Sudo_one_command:
  assumes "single_use X" "ssh_Sudo X c host timeout cmds h = Ret ((out, None), h')" "\<not> testMode c"
  shows "length cmds \<le> 1"
proof -
  from Sudo_successE [OF assms(2,3)] obtain d res k where s: "sudo_commands X cmds [] d = ((res, None), k)" by metis
  show ?thesis
  proof (cases cmds)
    case (Cons cmd rest)
    let ?d = "CombinedOutput (Sprintf ''sudo %s'' [cmd]) # d"
    from s Cons obtain o2 where "sudo_commands X rest o2 ?d = ((res, None), k)"
      by (auto simp: Let_def split: prod.splits option.splits)
    with assms(1) have "rest = []" by (rule sudo_commands_single) simp
    with Cons show ?thesis by simp
  qed simp
qed

section \<open>A machine that is booting\<close>

lemma HasSuffix_append: "HasSuffix s p \<Longrightarrow> HasSuffix (t @ s) p"
  by (auto simp: HasSuffix_def)

lemma Contains_append: "Contains s p \<Longrightarrow> Contains (t @ s) p"
proof (induction t)
  case (Cons a t)
  then show ?case by simp
qed simp

lemma Sprintf_dial: "Sprintf ''failed to dial: %s'' [s] = ''failed to dial: '' @ s"
  by simp

lemma still_booting_append: "still_booting m \<Longrightarrow> still_booting (t @ m)"
  by (auto simp: still_booting_def HasSuffix_append Contains_append)

text \<open>
  A connection that is refused because the machine is still booting is reported with the text of its
  error at the end, so the wait for ssh goes on; the check of \<open>ssh_condition\<close> sees through the message.
\<close>

theorem Sudo_booting:
  assumes "\<not> testMode c" "sudo_method X c = Ret (Inr auth)" "GetUserName X c = Ret user"
    and "she_err X (Dial (Sprintf ''%s:22'' [host]) user auth (wrap64 (timeout * second)) # h) = Some e" "still_booting (err_text e)"
  shows "\<exists>e' h'. ssh_Sudo X c host timeout cmds h = Ret (([], Some e'), h') \<and> still_booting (err_text e')"
  using assms still_booting_append [of "err_text e" "''failed to dial: ''"] by (simp add: ssh_Sudo_def Errorf_def)

text \<open>The timeout is multiplied by a second: for the second that \<^verbatim>\<open>WaitSSHReady\<close> passes it is more than thirty years.\<close>

lemma hostname_timeout: "wrap64 (second * second) = 1000000000000000000"
  by (simp add: second_def wrap64_def signed_take_bit_int_eq_self)

text \<open>A copy never uses the password.\<close>

lemma local_Shell_runs: "local_Shell X args h = Ret ((out, err), h') \<Longrightarrow> h' = RunLocal args # h"
  by (cases "she_local X (RunLocal args # h)") (auto simp: local_Shell_def Let_def split: if_splits option.splits)

lemma Scp_command:
  assumes "ssh_Scp X c host src dst h = Ret (err, h')" "\<not> testMode c"
  shows "\<exists>keys user. GetAuthKeys X c = Ret keys \<and> GetUserName X c = Ret user \<and>
    h' = RunLocal [''scp'', ''-i'', keys, ''-o'', ''StrictHostKeyChecking=no'', ''-o'', ''UserKnownHostsFile=/dev/null'',
               ''-p'', ''-r'', src, Sprintf ''%s@%s:%s'' [user, host, dst]] # h"
  using assms local_Shell_runs by (fastforce simp: ssh_Scp_def)

section \<open>Samples\<close>

definition sample_ssh :: ssh_config where
  "sample_ssh = \<lparr>ssh_UserName = ''u'', ssh_Password = ''p'', ssh_AuthKeys = ''~/k'', ssh_WaitSshReadyInSeconds = 1, testMode = False\<rparr>"

definition sample_ssh_env :: ssh_env where
  "sample_ssh_env = \<lparr>she_user = Inr (''root'', ''/root''), she_file = \<lambda>_. Inr ''key'', she_key = \<lambda>_. None,
     she_local = \<lambda>_. (None, [], []), she_err = \<lambda>_. None,
     she_out = \<lambda>h. if 1 < runs_in_session h then (None, Some (Plain ''ssh: Stdout already set'')) else (Some ''ok'', None)\<rparr>"

lemma sample_single_use: "single_use sample_ssh_env"
  by (simp add: single_use_def sample_ssh_env_def)

lemma sample_sudo:
  "ssh_Sudo sample_ssh_env sample_ssh ''h'' 1 [''ls''] [] =
     Ret ((''ok'', None), [CloseSession, CombinedOutput ''sudo ls'', RequestPty, NewSession, Dial ''h:22'' ''u'' (PasswordAuth ''p'') second])"
  by code_simp

theorem Sudo_success_witness:
  "\<exists>auth user. [CloseSession, CombinedOutput ''sudo ls'', RequestPty, NewSession, Dial ''h:22'' ''u'' (PasswordAuth ''p'') second] =
     CloseSession # sudo_runs [''ls''] @ RequestPty # NewSession # Dial (Sprintf ''%s:22'' [''h'']) user auth (wrap64 (1 * second)) # []"
  using Sudo_success [OF sample_sudo] by (auto simp: sample_ssh_def)

theorem Sudo_one_command_witness: "length [''ls''] \<le> 1"
  by (rule Sudo_one_command [OF sample_single_use sample_sudo]) (simp add: sample_ssh_def)

theorem Sudo_booting_witness:
  "\<exists>e' h'. ssh_Sudo (sample_ssh_env\<lparr>she_err := \<lambda>_. Some (Plain ''connection refused'')\<rparr>) sample_ssh ''h'' 1 [''ls''] [] =
     Ret (([], Some e'), h') \<and> still_booting (err_text e')"
  by (rule Sudo_booting [where e = "Plain ''connection refused''" and auth = "PasswordAuth ''p''" and user = "''u''"]; code_simp)

end
