(* ===== verification/Multipass_Facts.thy ===== *)
theory Multipass_Facts
  imports Multipass
begin

text \<open>
  The wrapper interface of multipass as a contract: what a status that is reported has read. Both
  wrappers meet it, so waiting for a machine is proved once for the two.
\<close>

section \<open>The contract of a wrapper\<close>

text \<open>\<open>reported name st calls\<close>: the calls made so far end with an answer that shows the machine in that state.\<close>

locale status_source =
  fixes E :: remote_env
    and status :: "'h asks_status"
    and reported :: "string \<Rightarrow> instance_status \<Rightarrow> remote_calls \<Rightarrow> bool"
  assumes reports: "status name s = Ret (Inr st, s') \<Longrightarrow> reported name st (snd (snd s'))"
begin

lemma powered:
  assumes "waitForPowered E timeout status name s = Ret (None, s')"
  shows "\<exists>st. reported name st (snd (snd s')) \<and> Powered st"
proof -
  obtain n s1 where "ask_remote (rretries E) RPoll s = (n, s1)" by (rule prod.exhaust)
  with assms obtain k forever where "gpoll k forever timeout_error (powered_attempt status name) s1 = Ret (None, s')"
    by (auto simp: waitForPowered_def remote_PollImmediate_def)
  then obtain t where "powered_attempt status name t = Ret ((True, None), s')" by (auto dest: gpoll_success)
  then obtain r u where r: "status name t = Ret (r, u)"
    and c: "(case r of Inl e \<Rightarrow> Ret ((False, Some e), u) | Inr st \<Rightarrow> Ret ((Powered st, None), u)) = Ret ((True, None), s')"
    by (auto simp: powered_attempt_def)
  then obtain st where "r = Inr st" "Powered st" "u = s'" by (cases r) auto
  with r reports show ?thesis by blast
qed

text \<open>The address returned is one the machine was seen with, powered, and where ssh has answered.\<close>

lemma ip:
  assumes "multipass_waitForIP E timeout status name s = Ret ((address, None), s')"
  shows "\<exists>st calls. snd (snd s') = CallbackWaitSSHReady name address # calls \<and> rans_err E (snd (snd s')) = None \<and>
    reported name st calls \<and> Powered st \<and> Address st = address \<and> address \<noteq> []"
proof -
  from assms obtain k forever s1 err a where "gpoll k forever timeout_error (ip_attempt E status name) s1 = Ret (err, a, s')"
    and "(if err \<noteq> None then ([], err) else (a, None)) = (address, None)"
    by (auto simp: multipass_waitForIP_def Let_def split: prod.splits)
  then have "gpoll k forever timeout_error (ip_attempt E status name) s1 = Ret (None, address, s')"
    by (auto split: if_splits)
  then obtain t where "ip_attempt E status name t = Ret ((True, None), address, s')" by (auto dest: gpoll_success)
  then obtain r u where r: "status name (snd t) = Ret (r, u)"
    and c: "(case r of
         Inl e \<Rightarrow> Ret ((False, Some e), fst t, u)
       | Inr found \<Rightarrow>
           if Powered found \<and> Address found \<noteq> []
           then let (err, s) = ask_remote (rans_err E) (CallbackWaitSSHReady name (Address found)) u
                in if err \<noteq> None then Ret ((False, err), fst t, s) else Ret ((True, None), Address found, s)
           else Ret ((False, None), fst t, u)) = Ret ((True, None), address, s')"
    by (auto simp: ip_attempt_def)
  then obtain st where st: "r = Inr st" by (cases r) auto
  with c have "Powered st" "Address st = address" "address \<noteq> []"
    "snd (snd s') = CallbackWaitSSHReady name address # snd (snd u)" "rans_err E (snd (snd s')) = None"
    by (cases u; auto split: if_splits)+
  with reports [of name "snd t" st u] r st show ?thesis by blast
qed

end

section \<open>The two wrappers\<close>

text \<open>The output of the tool that was read last, and what it says of the machine.\<close>

definition host_reported :: "remote_env \<Rightarrow> string \<Rightarrow> instance_status \<Rightarrow> remote_calls \<Rightarrow> bool" where
  "host_reported E name st calls \<longleftrightarrow> (\<exists>out before.
     calls = HostShell [''multipass'', ''info'', name, ''--format'', ''json''] # before \<and>
     rans_shell E calls = Inr out \<and> find_info E name out = Inr st)"

definition remote_reported :: "remote_env \<Rightarrow> string \<Rightarrow> instance_status \<Rightarrow> remote_calls \<Rightarrow> bool" where
  "remote_reported E name st calls \<longleftrightarrow> (\<exists>out before.
     calls = HostInfoInstance name # before \<and> rans_text E calls = Inr (Inr (Some out)) \<and> find_info E name out = Inr st)"

lemma shell_attempt_success:
  assumes "shell_attempt E args st = Ret ((True, None), out, s')"
  shows "\<exists>before. snd (snd s') = HostShell args # before \<and> rans_shell E (snd (snd s')) = Inr out"
proof -
  obtain out0 h t cs where "st = (out0, h, t, cs)" by (metis prod.exhaust)
  with assms show ?thesis
    by (auto simp: shell_attempt_def split: sum.splits prod.splits if_splits)
qed

lemma host_shell_success:
  assumes "host_shell E args s = Ret ((out, None), s')"
  shows "\<exists>before. snd (snd s') = HostShell args # before \<and> rans_shell E (snd (snd s')) = Inr out"
proof -
  from assms obtain n s1 where "gpoll (Suc n) False timeout_error (shell_attempt E args) ([], s1) = Ret (None, out, s')"
    unfolding host_shell_def Let_def by (auto split: prod.splits simp del: gpoll.simps)
  then obtain st where "shell_attempt E args st = Ret ((True, None), out, s')" by (blast dest: gpoll_success)
  then show ?thesis by (rule shell_attempt_success)
qed

interpretation host: status_source E "host_status E" "host_reported E" for E
proof
  fix name and s s' :: "'h hstate" and st
  assume "host_status E name s = Ret (Inr st, s')"
  then obtain out err t where sh: "host_shell E [''multipass'', ''info'', name, ''--format'', ''json''] s = Ret ((out, err), t)"
    and r: "(case err of Some e \<Rightarrow> Ret (Inl e, t) | None \<Rightarrow> Ret (find_info E name out, t)) = Ret (Inr st, s')"
    by (auto simp: host_status_def multipassCommandLine_def)
  then have "err = None" "t = s'" "find_info E name out = Inr st" by (auto split: option.splits)
  with host_shell_success [of E _ s out s'] sh show "host_reported E name st (snd (snd s'))"
    by (auto simp: host_reported_def)
qed

interpretation remote: status_source E "remote_status E" "remote_reported E" for E
proof
  fix name and s s' :: "'h hstate" and st
  have api: "service_answer what x = Inr v \<Longrightarrow> x = Inr (Inr v)" for what and x :: "string option response" and v
    by (cases x rule: api_answer.cases) auto
  assume "remote_status E name s = Ret (Inr st, s')"
  then show "remote_reported E name st (snd (snd s'))"
    by (cases s) (auto simp: remote_status_def remote_reported_def split: sum.splits option.splits dest!: api)
qed

text \<open>What a wrapper of either kind has read.\<close>

definition wrapper_reported :: "remote_env \<Rightarrow> multipass_wrapper \<Rightarrow> string \<Rightarrow> instance_status \<Rightarrow> remote_calls \<Rightarrow> bool" where
  "wrapper_reported E w = by_backend w (host_reported E) (remote_reported E)"

theorem multipass_InstanceWaitReady_success:
  assumes "multipass_handle E cd w pointer InstanceWaitReady s = Ret (Text address None, s')"
  defines "name \<equiv> mh_instanceName (fst s)"
  shows "\<exists>st calls. snd (snd s') = CallbackWaitSSHReady name address # calls \<and> rans_err E (snd (snd s')) = None \<and>
    wrapper_reported E w name st calls \<and> Powered st \<and> Address st = address \<and> address \<noteq> []"
proof -
  have "multipass_waitForIP E (mw_Timeout w) (wrapper_status E w) name s = Ret ((address, None), s')"
    using assms by (auto simp: answers_def split: prod.splits)
  then show ?thesis
    by (cases "mw_Backend w")
      (simp_all add: wrapper_status_def wrapper_reported_def by_backend_def host.ip remote.ip)
qed

section \<open>Creating a machine\<close>

text \<open>The size of the disk on the command line is the pointer: it does not depend on the size asked for.\<close>

theorem multipass_disk_is_pointer:
  assumes "0 < in_DiskSize input" "0 < in_DiskSize input'" "in_Memory input = in_Memory input'" "in_Vcpu input = in_Vcpu input'"
  shows "launch_arguments w pointer input name file_name networks = launch_arguments w pointer input' name file_name networks \<and>
    ''--disk='' @ Itoa pointer @ ''M'' \<in> set (launch_arguments w pointer input name file_name networks)"
  using assms by (simp add: launch_arguments_def)

text \<open>A document the remote wrapper cannot encode makes no machine, and no error.\<close>

theorem multipass_create_silent_failure:
  assumes "mw_Backend w = RemoteWrapper" "host_user_data E cd w input s = Ret ((None, doc), s')"
    and "to_json E (CMap (gentries doc)) = Inl e"
  shows "multipass_handle E cd w pointer (InstanceCreate input) s = Ret (Text [] None, s')"
  using assms by (cases s') (simp add: answers_def by_backend_def remote_create_def)

section \<open>The theorems at concrete inputs\<close>

definition sample_multipass :: multipass_wrapper where
  "sample_multipass = \<lparr>mw_Backend = HostWrapper, mw_Timeout = 300, mw_TemplateName = '''', mw_NetplanFileName = '''',
     mw_Region = ''home'', mw_Zone = ''office'', mw_Network = sample_network, mw_Mounts = [], mw_bind9Provider = None,
     mw_TempDirectory = ''/tmp''\<rparr>"

definition sample_multipass_handler :: multipassHandler where
  "sample_multipass_handler = \<lparr>mh_attachedNetwork = sample_network, mh_instanceName = ''n1'', mh_controlPlane = False, mh_nodeIndex = 1\<rparr>"

definition multipass_env :: remote_env where
  "multipass_env = sample_remote_env\<lparr>rans_infos := \<lambda>_. Inr [(''n1'', \<lparr>hv_Ipv4 = [''10.0.0.1''], hv_State = ''Running''\<rparr>)],
     to_json := \<lambda>_. Inl (Plain ''json'')\<rparr>"

theorem multipass_InstanceWaitReady_success_witness:
  "\<exists>s'. multipass_handle multipass_env sample_documents sample_multipass 0 InstanceWaitReady
     (sample_multipass_handler, gmake, []) = Ret (Text ''10.0.0.1'' None, s') \<and>
     (\<exists>calls. snd (snd s') = CallbackWaitSSHReady ''n1'' ''10.0.0.1'' # calls)"
proof -
  let ?m = "multipass_handle multipass_env sample_documents sample_multipass 0 InstanceWaitReady (sample_multipass_handler, gmake, [])"
  have "yields (\<lambda>(r, s'). case r of Text v e \<Rightarrow> v = ''10.0.0.1'' \<and> e = None | _ \<Rightarrow> False) ?m" by code_simp
  then obtain r s' where m: "?m = Ret (r, s')" and c: "case r of Text v e \<Rightarrow> v = ''10.0.0.1'' \<and> e = None | _ \<Rightarrow> False"
    by (auto simp: yields_iff simp del: multipass_handle.simps)
  from c have "r = Text ''10.0.0.1'' None" by (cases r) auto
  with m have r: "?m = Ret (Text ''10.0.0.1'' None, s')" by simp
  from multipass_InstanceWaitReady_success [OF r] have "\<exists>calls. snd (snd s') = CallbackWaitSSHReady ''n1'' ''10.0.0.1'' # calls"
    by (auto simp: sample_multipass_handler_def)
  with r show ?thesis by blast
qed

theorem multipass_disk_is_pointer_witness:
  "''--disk=0M'' \<in> set (launch_arguments sample_multipass 0 sample_input ''n1'' ''f'' [])"
proof -
  have "''--disk='' @ Itoa 0 @ ''M'' = ''--disk=0M''" by code_simp
  then show ?thesis
    using multipass_disk_is_pointer [of sample_input sample_input sample_multipass 0 "''n1''" "''f''" "[]"]
    by (simp add: sample_input_def)
qed

theorem multipass_create_silent_failure_witness:
  "\<exists>s'. multipass_handle multipass_env sample_documents (sample_multipass\<lparr>mw_Backend := RemoteWrapper\<rparr>) 0
     (InstanceCreate sample_input) (sample_multipass_handler, gmake, []) = Ret (Text [] None, s')"
proof -
  let ?w = "sample_multipass\<lparr>mw_Backend := RemoteWrapper\<rparr>"
  have "yields (\<lambda>((err, doc), s'). err = None) (host_user_data multipass_env sample_documents ?w sample_input (sample_multipass_handler, gmake, []))"
    by code_simp
  then obtain doc s' where "host_user_data multipass_env sample_documents ?w sample_input (sample_multipass_handler, gmake, []) = Ret ((None, doc), s')"
    by (auto simp: yields_iff)
  from multipass_create_silent_failure [OF _ this, of "Plain ''json''" 0] show ?thesis
    by (intro exI [of _ s']) (simp add: multipass_env_def del: multipass_handle.simps)
qed

end
