(* ===== verification/Servers.thy ===== *)
theory Servers
  imports Multipass_Facts
begin

text \<open>
  What the LXD, OpenStack and CloudStack providers have in common: the running instance behind a handler
  (\<^verbatim>\<open>ServerInstance\<close> of each \<^verbatim>\<open>vm.go\<close>), waiting for a state, and switching a machine on and off. The three
  providers have this code three times, with other names of states; here it is written once over the
  query of the state and the states that end the wait, and instantiated by each provider. The
  contract \<open>server_source\<close> states what a query of the state shows.
\<close>

section \<open>The running instance\<close>

text \<open>
  \<open>si_Region\<close> and \<open>si_Zone\<close> are the location of LXD, the region and zone of OpenStack, the zone name and
  the host name of CloudStack; only CloudStack has public addresses. The network the instance points
  to is the one of its handler.
\<close>

record server_instance =
  si_InstanceName :: string
  si_InstanceID :: string
  si_PrivateDNSName :: string
  si_AddressIP :: string
  si_Region :: string
  si_Zone :: string
  si_PublicAddress :: string
  si_PublicAddressID :: string

definition new_instance :: "string \<Rightarrow> string \<Rightarrow> string \<Rightarrow> string \<Rightarrow> server_instance" where
  "new_instance instanceName instanceID region zone =
     \<lparr>si_InstanceName = instanceName, si_InstanceID = instanceID, si_PrivateDNSName = instanceName, si_AddressIP = [],
      si_Region = region, si_Zone = zone, si_PublicAddress = [], si_PublicAddressID = []\<rparr>"

text \<open>
  A handler: \<open>sv_extras\<close> belongs to the interfaces by their index: the gateways of LXD, the identifiers of
  the networks of the others. The last three fields are those of the network of OpenStack.
\<close>

record server_handler =
  sv_network :: network
  sv_extras :: "string list"
  sv_running :: "server_instance option"
  sv_instanceType :: string
  sv_instanceName :: string
  sv_instanceID :: string
  sv_controlPlane :: bool
  sv_nodeIndex :: int
  sv_dnsZoneID :: "string option"
  sv_dnsEntryID :: "string option"
  sv_floatingIP :: "string option"

type_synonym server_state = "server_handler hstate"

definition change_handler :: "(server_handler \<Rightarrow> server_handler) \<Rightarrow> server_state \<Rightarrow> server_state" where
  "change_handler f s = (f (fst s), snd s)"

definition change_running :: "(server_instance \<Rightarrow> server_instance) \<Rightarrow> server_state \<Rightarrow> server_state" where
  "change_running f = change_handler (\<lambda>h. h\<lparr>sv_running := map_option f (sv_running h)\<rparr>)"

section \<open>Configured interfaces\<close>

text \<open>CloudStack and OpenStack configure their interfaces in the same way.\<close>

record conf_interface =
  ci_Enabled :: "bool option"
  ci_Primary :: bool
  ci_NetworkName :: string
  ci_DHCP :: bool
  ci_IPAddress :: string
  ci_Netmask :: string

definition cloud_interface :: "conf_interface \<Rightarrow> net_interface" where
  "cloud_interface c = \<lparr>Enabled = ci_Enabled c, Primary = ci_Primary c, Existing = None, ConnectionType = [], BsdName = [],
     DisplayName = [], NetworkName = ci_NetworkName c, Adapter = [], MacAddress = ''ignore'', NicName = ''ens3'',
     DHCP = ci_DHCP c, UseDhcpRoutes = None, if_IPAddress = ci_IPAddress c, Netmask = ci_Netmask c, Routes = [],
     if_nodeIndex = 0\<rparr>"

section \<open>Documents\<close>

definition base64_char :: "nat \<Rightarrow> char" where
  "base64_char n = ''ABCDEFGHIJKLMNOPQRSTUVWXYZabcdefghijklmnopqrstuvwxyz0123456789+/'' ! n"

definition base64_group :: "nat \<Rightarrow> string" where
  "base64_group n = map base64_char [n div 262144 mod 64, n div 4096 mod 64, n div 64 mod 64, n mod 64]"

text \<open>\<^verbatim>\<open>base64.StdEncoding.EncodeToString\<close>\<close>

fun base64 :: "string \<Rightarrow> string" where
  "base64 (a # b # c # rest) = base64_group (of_char a * 65536 + of_char b * 256 + of_char c) @ base64 rest"
| "base64 [a, b] = take 3 (base64_group (of_char a * 65536 + of_char b * 256)) @ ''=''"
| "base64 [a] = take 2 (base64_group (of_char a * 65536)) @ ''==''"
| "base64 [] = []"

text \<open>\<^verbatim>\<open>encodeCloudInit\<close>: a nil document is still an interface value, so it is encoded too.\<close>

definition cloud_config :: "codec \<Rightarrow> cloud_init \<Rightarrow> error + string" where
  "cloud_config cd object =
     (case yaml cd (CMap (gentries object)) of Inl e \<Rightarrow> Inl e | Inr out \<Rightarrow> Inr (cloud_config_header @ out))"

definition encoded_cloud_init :: "codec \<Rightarrow> cloud_init \<Rightarrow> error + string" where
  "encoded_cloud_init cd object = map_sum id base64 (cloud_config cd object)"

definition creation_failed :: "string \<Rightarrow> string \<Rightarrow> error \<Rightarrow> error" where
  "creation_failed what instanceName e = Errorf (what @ '' for: %s, reason: %v'') [instanceName, err_text e]"

section \<open>Waiting for a state\<close>

type_synonym 'h asks_state = "'h hstate \<Rightarrow> (error + string) \<times> 'h hstate"

text \<open>\<^verbatim>\<open>expectStatus\<close>: \<open>fails\<close> are the states, neither awaited nor initial, that end the wait with an error.\<close>

definition decide_status :: "(string \<Rightarrow> bool) \<Rightarrow> string \<Rightarrow> string \<Rightarrow> string \<Rightarrow> string \<Rightarrow> bool \<times> error option" where
  "decide_status fails instanceName expected initial status =
     (if status = initial then (False, None)
      else if status = expected then (True, None)
      else if fails status then (False, Some (Errorf ErrWrongStateMachine [status, instanceName, expected]))
      else (False, None))"

definition expect_status ::
  "'h asks_state \<Rightarrow> (string \<Rightarrow> bool) \<Rightarrow> string \<Rightarrow> string \<Rightarrow> string \<Rightarrow> 'h hstate \<Rightarrow> (bool \<times> error option) \<times> 'h hstate" where
  "expect_status get fails instanceName expected initial s =
     (let (r, s) = get s
      in case r of
           Inl e \<Rightarrow> ((False, Some e), s)
         | Inr status \<Rightarrow> (decide_status fails instanceName expected initial (ToUpper status), s))"

definition wait_status ::
  "remote_env \<Rightarrow> 'h asks_state \<Rightarrow> (string \<Rightarrow> bool) \<Rightarrow> int \<Rightarrow> string \<Rightarrow> string \<Rightarrow> string \<Rightarrow> 'h hstate \<Rightarrow> (error option \<times> 'h hstate) go" where
  "wait_status E get fails timeout instanceName expected initial =
     remote_PollImmediate E (wrap64 (timeout * second)) (\<lambda>s. Ret (expect_status get fails instanceName expected initial s))"

definition is_powered :: "'h asks_state \<Rightarrow> string list \<Rightarrow> 'h hstate \<Rightarrow> (error + bool) \<times> 'h hstate" where
  "is_powered get powered s =
     (let (r, s) = get s in (map_sum id (\<lambda>status. ToUpper status \<in> set powered) r, s))"

text \<open>
  \<^verbatim>\<open>PowerOn\<close> and \<^verbatim>\<open>PowerOff\<close>: nothing is done when the machine is in the wanted power state already;
  otherwise it is asked to change, and the change is awaited.
\<close>

definition switch_power ::
  "'h asks_state \<Rightarrow> string list \<Rightarrow> bool \<Rightarrow> ('h hstate \<Rightarrow> (error option \<times> 'h hstate) go) \<Rightarrow> ('h hstate \<Rightarrow> (error option \<times> 'h hstate) go) \<Rightarrow>
   'h hstate \<Rightarrow> (error option \<times> 'h hstate) go" where
  "switch_power get powered wanted request wait s =
     (let (r, s) = is_powered get powered s
      in case r of
           Inl e \<Rightarrow> Ret (Some e, s)
         | Inr on \<Rightarrow>
             if on = wanted then Ret (None, s)
             else gbind (request s) (\<lambda>(err, s). if err \<noteq> None then Ret (err, s) else wait s))"

text \<open>\<^verbatim>\<open>WaitForIP\<close>: the address is read before the wait; a refused ssh connection ends it.\<close>

definition ready_ssh_attempt ::
  "remote_env \<Rightarrow> ('h hstate \<Rightarrow> (bool \<times> error option) \<times> 'h hstate) \<Rightarrow> string \<Rightarrow> string \<Rightarrow> 'h hstate \<Rightarrow> ((bool \<times> error option) \<times> 'h hstate) go" where
  "ready_ssh_attempt E expect instanceName address s =
     (let ((ready, err), s) = expect s
      in if ready
         then let (err, s) = ask_remote (rans_err E) (CallbackWaitSSHReady instanceName address) s
              in Ret ((err = None, err), s)
         else Ret ((False, err), s))"

definition wait_for_ip ::
  "remote_env \<Rightarrow> int \<Rightarrow> ('h hstate \<Rightarrow> (bool \<times> error option) \<times> 'h hstate) \<Rightarrow> string \<Rightarrow> string \<Rightarrow> 'h hstate \<Rightarrow> ((string \<times> error option) \<times> 'h hstate) go" where
  "wait_for_ip E timeout expect instanceName address s =
     gbind (remote_PollImmediate E (wrap64 (timeout * second)) (ready_ssh_attempt E expect instanceName address) s)
       (\<lambda>(err, s). Ret (if err \<noteq> None then ([], err) else (address, None), s))"

section \<open>The methods of a handler\<close>

text \<open>Most methods refuse a handler without a running instance, a few one without an identifier.\<close>

definition when_running ::
  "handler_result \<Rightarrow> (server_instance \<Rightarrow> server_state \<Rightarrow> (handler_result \<times> server_state) go) \<Rightarrow> server_state \<Rightarrow> (handler_result \<times> server_state) go" where
  "when_running refused body s = (case sv_running (fst s) of None \<Rightarrow> Ret (refused, s) | Some i \<Rightarrow> body i s)"

definition when_identified ::
  "handler_result \<Rightarrow> (server_state \<Rightarrow> (handler_result \<times> server_state) go) \<Rightarrow> server_state \<Rightarrow> (handler_result \<times> server_state) go" where
  "when_identified refused body s = (if sv_instanceID (fst s) = [] then Ret (refused, s) else body s)"

definition answering :: "('a \<Rightarrow> 'r) \<Rightarrow> ('a \<times> 's) go \<Rightarrow> ('r \<times> 's) go" where
  "answering f m = gbind m (\<lambda>(a, s). Ret (f a, s))"

text \<open>The labels are read from the running instance without a check.\<close>

definition running_labels :: "server_state \<Rightarrow> (handler_result \<times> server_state) go" where
  "running_labels s =
     (case sv_running (fst s) of None \<Rightarrow> Panic NilDeref | Some i \<Rightarrow> Ret (Labels (topology_labels (si_Region i) (si_Zone i)), s))"

definition not_ready :: error where
  "not_ready = Plain ''instance not attached when calling WaitForVMReady''"

definition update_mac_table :: "server_state \<Rightarrow> (handler_result \<times> server_state) go" where
  "update_mac_table = when_identified (Done (Some not_attached)) (\<lambda>(h, t, cs).
     let (net, t) = Network_UpdateMacAddressTable (sv_network h) t
     in Ret (Done None, h\<lparr>sv_network := net\<rparr>, t, cs))"

definition configure_network :: "managed_network list \<Rightarrow> server_state \<Rightarrow> (handler_result \<times> server_state) go" where
  "configure_network managed s =
     Ret (Done None, change_handler (\<lambda>h. h\<lparr>sv_network := ConfigureManagedNetwork managed (sv_network h)\<rparr>) s)"

text \<open>
  \<^verbatim>\<open>InstanceCreate\<close>: the instance is attached before the machine is created, and stays attached when the
  creation fails; the identifier is set only when it succeeds.
\<close>

definition create_on_instance ::
  "string \<Rightarrow> string \<Rightarrow> (error + string) \<Rightarrow> (string \<Rightarrow> server_state \<Rightarrow> (error option \<times> server_state) go) \<Rightarrow> server_state \<Rightarrow>
   (handler_result \<times> server_state) go" where
  "create_on_instance region zone userData create s =
     (let s = change_handler (\<lambda>h. h\<lparr>sv_running := Some (new_instance (sv_instanceName h) [] region zone)\<rparr>) s
      in case userData of
           Inl e \<Rightarrow> Ret (Text [] (Some e), s)
         | Inr out \<Rightarrow> gbind (create out s) (\<lambda>(err, s).
             case err of
               Some e \<Rightarrow> Ret (Text [] (Some e), s)
             | None \<Rightarrow> (case sv_running (fst s) of
                   None \<Rightarrow> Panic NilDeref
                 | Some i \<Rightarrow> Ret (Text (si_InstanceID i) None, change_handler (\<lambda>h. h\<lparr>sv_instanceID := si_InstanceID i\<rparr>) s))))"

section \<open>Frames\<close>

lemma ToUpper_states [simp]:
  "ToUpper ''Running'' = ''RUNNING''" "ToUpper ''Stopped'' = ''STOPPED''" "ToUpper ''Stopping'' = ''STOPPING''"
  by code_simp+

text \<open>The calls that need a running instance.\<close>

fun needs_running :: "handler_call \<Rightarrow> bool" where
  "needs_running InstanceWaitReady = True"
| "needs_running InstanceID = True"
| "needs_running InstancePowerOn = True"
| "needs_running InstancePowerOff = True"
| "needs_running InstanceDelete = True"
| "needs_running InstanceStatus = True"
| "needs_running _ = False"

lemma holds_True [simp]: "holds (\<lambda>a. True) m"
  by (cases m) simp_all

lemma change_handler_simps [simp]:
  "fst (change_handler f s) = f (fst s)" "snd (change_handler f s) = snd s"
  by (simp_all add: change_handler_def)

lemma change_running_simps [simp]:
  "fst (change_running f s) = (fst s)\<lparr>sv_running := map_option f (sv_running (fst s))\<rparr>" "snd (change_running f s) = snd s"
  by (simp_all add: change_running_def)

lemma remote_poll_holds:
  assumes "\<And>s. I s \<Longrightarrow> holds (\<lambda>(r, s'). I s') (cond s)" "I (snd (ask_remote (rretries E) RPoll s))"
  shows "holds (\<lambda>(e, s'). I s') (remote_PollImmediate E timeout cond s)"
  using gpoll_holds [where I = I and cond = cond, OF assms]
  by (simp add: remote_PollImmediate_def Let_def case_prod_unfold)

text \<open>The running instance is neither attached nor detached.\<close>

abbreviation stays_attached :: "server_state \<Rightarrow> ('a \<times> server_state) go \<Rightarrow> bool" where
  "stays_attached s \<equiv> holds (\<lambda>(r, s'). (sv_running (fst s') = None) = (sv_running (fst s) = None))"

lemma stays_attachedI: "holds (\<lambda>(r, s'). fst s' = fst s) m \<Longrightarrow> stays_attached s m"
  by (erule holds_mono) auto

lemma Ret_attached: "stays_attached s (Ret (r, s))"
  by simp

lemma answering_attached: "stays_attached s m \<Longrightarrow> stays_attached s (answering f m)"
  by (cases m) (auto simp: answering_def)

lemma running_attached:
  "(\<And>i. sv_running (fst s) = Some i \<Longrightarrow> stays_attached s (body i s)) \<Longrightarrow> stays_attached s (when_running refused body s)"
  by (auto simp: when_running_def split: option.splits)

lemma common_attached:
  "stays_attached s (configure_network managed s)" "stays_attached s (update_mac_table s)" "stays_attached s (running_labels s)"
  by (simp_all add: configure_network_def update_mac_table_def when_identified_def running_labels_def case_prod_unfold Let_def
      split: option.split)

lemma change_dns_attached: "stays_attached s (Ret (map_prod Done id (change_dns E p add name domain address s)))"
proof -
  obtain e t where c: "change_dns E p add name domain address s = (e, t)" by (rule prod.exhaust)
  then have "fst t = fst s" using change_dns_fst [of E p add name domain address s] by simp
  with c show ?thesis by simp
qed

text \<open>A wait makes no other call than its attempts and the queries of the state.\<close>

lemma wait_asks:
  fixes get :: "'h asks_state" and s :: "'h hstate"
  assumes "\<And>t. \<exists>later. set later \<subseteq> Q \<and> snd (snd (snd (get t))) = later @ snd (snd t)"
  shows "holds (\<lambda>(e, s'). \<exists>later. set later \<subseteq> insert RPoll Q \<and> snd (snd s') = later @ snd (snd s))
    (wait_status E get fails timeout name expected initial s)"
  unfolding wait_status_def
proof (rule remote_poll_holds [where I = "\<lambda>t. \<exists>later. set later \<subseteq> insert RPoll Q \<and> snd (snd t) = later @ snd (snd s)"])
  fix t :: "'h hstate" assume "\<exists>later. set later \<subseteq> insert RPoll Q \<and> snd (snd t) = later @ snd (snd s)"
  then obtain l where l: "set l \<subseteq> insert RPoll Q" "snd (snd t) = l @ snd (snd s)" by blast
  obtain r u where g: "get t = (r, u)" by (rule prod.exhaust)
  with assms [of t] obtain m where "set m \<subseteq> Q" "snd (snd u) = m @ snd (snd t)" by auto
  with l have "set (m @ l) \<subseteq> insert RPoll Q \<and> snd (snd u) = (m @ l) @ snd (snd s)" by auto
  then have "\<exists>later. set later \<subseteq> insert RPoll Q \<and> snd (snd u) = later @ snd (snd s)" by blast
  with g show "holds (\<lambda>(r, s'). \<exists>later. set later \<subseteq> insert RPoll Q \<and> snd (snd s') = later @ snd (snd s))
      (Ret (expect_status get fails name expected initial t))"
    by (simp add: expect_status_def split: sum.split)
next
  show "\<exists>later. set later \<subseteq> insert RPoll Q \<and> snd (snd (snd (ask_remote (rretries E) RPoll s))) = later @ snd (snd s)"
    by (intro exI [of _ "[RPoll]"]) (simp add: ask_remote_def split: prod.split)
qed

section \<open>The contract of a query of the state\<close>

text \<open>\<open>shown st calls\<close>: the calls made so far end with a query that has shown the state \<open>st\<close>.\<close>

locale server_source =
  fixes get :: "'h asks_state"
    and shown :: "string \<Rightarrow> remote_calls \<Rightarrow> bool"
  assumes shows_state: "get s = (Inr st, s') \<Longrightarrow> shown st (snd (snd s'))"
    and keeps_handler: "fst (snd (get s)) = fst s"
    and adds_calls: "\<exists>later. snd (snd (snd (get s))) = later @ snd (snd s)"
begin

lemma expect_success:
  assumes "expect_status get fails name expected initial s = ((True, err), s')"
  shows "err = None \<and> (\<exists>st. shown st (snd (snd s')) \<and> ToUpper st = expected)"
proof -
  obtain r s1 where g: "get s = (r, s1)" by (rule prod.exhaust)
  with assms obtain st where "r = Inr st" "decide_status fails name expected initial (ToUpper st) = (True, err)" "s1 = s'"
    by (cases r) (auto simp: expect_status_def)
  moreover from this have "shown st (snd (snd s'))" using g shows_state [of s st s'] by simp
  ultimately show ?thesis by (auto simp: decide_status_def split: if_splits)
qed

lemma wait_success:
  assumes "wait_status E get fails timeout name expected initial s = Ret (None, s')"
  shows "\<exists>st. shown st (snd (snd s')) \<and> ToUpper st = expected"
proof -
  obtain n s1 where "ask_remote (rretries E) RPoll s = (n, s1)" by (rule prod.exhaust)
  with assms obtain k forever where
    "gpoll k forever timeout_error (\<lambda>s. Ret (expect_status get fails name expected initial s)) s1 = Ret (None, s')"
    by (auto simp: wait_status_def remote_PollImmediate_def)
  then obtain t where "expect_status get fails name expected initial t = ((True, None), s')" by (auto dest: gpoll_success)
  then show ?thesis using expect_success by blast
qed

text \<open>The calls made before a wait are still there after it.\<close>

lemma wait_extends:
  "holds (\<lambda>(e, s'). \<exists>later. snd (snd s') = later @ snd (snd s)) (wait_status E get fails timeout name expected initial s)"
  unfolding wait_status_def
proof (rule remote_poll_holds [where I = "\<lambda>t. \<exists>later. snd (snd t) = later @ snd (snd s)"])
  fix t :: "'h hstate" assume t: "\<exists>later. snd (snd t) = later @ snd (snd s)"
  obtain r u where g: "get t = (r, u)" by (rule prod.exhaust)
  with adds_calls [of t] obtain later where "snd (snd u) = later @ snd (snd t)" by auto
  with t have "\<exists>later. snd (snd u) = later @ snd (snd s)" by auto
  with g show "holds (\<lambda>(r, s'). \<exists>later. snd (snd s') = later @ snd (snd s)) (Ret (expect_status get fails name expected initial t))"
    by (simp add: expect_status_def split: sum.split)
next
  show "\<exists>later. snd (snd (snd (ask_remote (rretries E) RPoll s))) = later @ snd (snd s)"
    by (simp add: ask_remote_def split: prod.split)
qed

text \<open>A switch that succeeds did nothing, or made the request and has seen the machine in the new state.\<close>

lemma switch_success:
  assumes "switch_power get powered wanted request (wait_status E get fails timeout name expected initial) s = Ret (None, s')"
  shows "(\<exists>st. shown st (snd (snd s')) \<and> (ToUpper st \<in> set powered) = wanted \<and> s' = snd (get s)) \<or>
    (\<exists>st t later. request (snd (get s)) = Ret (None, t) \<and> snd (snd s') = later @ snd (snd t) \<and>
       shown st (snd (snd s')) \<and> ToUpper st = expected)"
proof -
  obtain r s1 where g: "get s = (r, s1)" by (rule prod.exhaust)
  with assms obtain st where st: "r = Inr st" by (cases r) (auto simp: switch_power_def is_powered_def)
  show ?thesis
  proof (cases "(ToUpper st \<in> set powered) = wanted")
    case True
    with assms g st have "s' = s1" by (simp add: switch_power_def is_powered_def)
    with True g st shows_state [of s st s1] show ?thesis by auto
  next
    case False
    with assms g st obtain err t where "request s1 = Ret (err, t)"
      "(if err \<noteq> None then Ret (err, t) else wait_status E get fails timeout name expected initial t) = Ret (None, s')"
      by (auto simp: switch_power_def is_powered_def)
    moreover from this have "err = None" by (auto split: if_splits)
    ultimately have "request (snd (get s)) = Ret (None, t)"
      "wait_status E get fails timeout name expected initial t = Ret (None, s')" using g by auto
    with wait_success wait_extends [of t E fails timeout name expected initial] show ?thesis by auto
  qed
qed

text \<open>The address returned is the one of the instance, and ssh has answered there in the awaited state.\<close>

lemma ip_success:
  assumes "wait_for_ip E timeout (expect_status get fails name expected initial) name address s = Ret ((a, None), s')"
  shows "a = address \<and> (\<exists>st calls. snd (snd s') = CallbackWaitSSHReady name address # calls \<and>
    rans_err E (snd (snd s')) = None \<and> shown st calls \<and> ToUpper st = expected)"
proof -
  let ?step = "ready_ssh_attempt E (expect_status get fails name expected initial) name address"
  from assms obtain err where "remote_PollImmediate E (wrap64 (timeout * second)) ?step s = Ret (err, s')"
    and "(if err \<noteq> None then ([], err) else (address, None)) = (a, None)"
    by (auto simp: wait_for_ip_def)
  then have p: "remote_PollImmediate E (wrap64 (timeout * second)) ?step s = Ret (None, s')" and a: "a = address"
    by (auto split: if_splits)
  obtain n s1 where "ask_remote (rretries E) RPoll s = (n, s1)" by (rule prod.exhaust)
  with p obtain k forever where "gpoll k forever timeout_error ?step s1 = Ret (None, s')"
    by (auto simp: remote_PollImmediate_def)
  then obtain t where t: "?step t = Ret ((True, None), s')" by (auto dest: gpoll_success)
  obtain ready err u where x: "expect_status get fails name expected initial t = ((ready, err), u)" by (metis prod.exhaust)
  with t have ready and s': "snd (snd s') = CallbackWaitSSHReady name address # snd (snd u)" "rans_err E (snd (snd s')) = None"
    by (cases u; auto simp: ready_ssh_attempt_def split: if_splits)+
  with x have "expect_status get fails name expected initial t = ((True, err), u)" by simp
  with expect_success have "\<exists>st. shown st (snd (snd u)) \<and> ToUpper st = expected" by blast
  with s' a show ?thesis by blast
qed

lemma expect_keeps: "fst (snd (expect_status get fails name expected initial s)) = fst s"
  using keeps_handler [of s] by (auto simp: expect_status_def split: prod.splits sum.splits)

lemma wait_keeps: "holds (\<lambda>(e, s'). fst s' = fst s) (wait_status E get fails timeout name expected initial s)"
  unfolding wait_status_def
  by (rule remote_poll_fst) (simp add: expect_keeps case_prod_unfold)

lemma switch_keeps:
  assumes "\<And>s. holds (\<lambda>(e, s'). fst s' = fst s) (request s)" "\<And>s. holds (\<lambda>(e, s'). fst s' = fst s) (wait s)"
  shows "holds (\<lambda>(e, s'). fst s' = fst s) (switch_power get powered wanted request wait s)"
proof -
  obtain r s1 where g: "get s = (r, s1)" by (rule prod.exhaust)
  then have s1: "fst s1 = fst s" using keeps_handler [of s] by simp
  have w: "holds (\<lambda>(e, s'). fst s' = fst s) (wait t)" if "fst t = fst s" for t
    using assms(2) [of t] that by simp
  have "holds (\<lambda>(e, s'). fst s' = fst s) (gbind (request s1) (\<lambda>(err, s). if err \<noteq> None then Ret (err, s) else wait s))"
    unfolding holds_gbind
  proof (rule holds_mono)
    show "holds (\<lambda>(e, s'). fst s' = fst s) (request s1)" using assms(1) [of s1] s1 by simp
  next
    fix a :: "error option \<times> 'h hstate" assume "case a of (e, s') \<Rightarrow> fst s' = fst s"
    then show "holds (\<lambda>(e, s'). fst s' = fst s) (case a of (err, s) \<Rightarrow> if err \<noteq> None then Ret (err, s) else wait s)"
      using w by (cases a) (simp del: split_paired_All)
  qed
  with g s1 show ?thesis
    by (auto simp: switch_power_def is_powered_def split: sum.splits)
qed

lemma ip_keeps: "holds (\<lambda>(r, s'). fst s' = fst s) (wait_for_ip E timeout (expect_status get fails name expected initial) name address s)"
proof -
  have "holds (\<lambda>(r, s'). fst s' = fst t) (ready_ssh_attempt E (expect_status get fails name expected initial) name address t)" for t
    using expect_keeps [of fails name expected initial t]
    by (auto simp: ready_ssh_attempt_def ask_remote_fst case_prod_unfold Let_def)
  then have "holds (\<lambda>(e, s'). fst s' = fst s)
      (remote_PollImmediate E (wrap64 (timeout * second)) (ready_ssh_attempt E (expect_status get fails name expected initial) name address) s)"
    by (rule remote_poll_fst)
  then show ?thesis
    unfolding wait_for_ip_def by (auto intro!: holdsI dest!: holdsD)
qed

end

end
