(* ===== verification/Lxd.thy ===== *)
theory Lxd
  imports Servers
begin

text \<open>
  Model of \<^verbatim>\<open>providers/lxd/\<close>: images, networks, the instance of a handler and the handler. The client of LXD
  is the environment \<open>lxd_env\<close>; every answer is an arbitrary function of the calls so far.
\<close>

section \<open>Configuration\<close>

record lxd_conf_interface =
  lc_Enabled :: "bool option"
  lc_Primary :: bool
  lc_NicName :: string
  lc_NetworkName :: string
  lc_DHCP :: bool
  lc_IPAddress :: string

text \<open>\<open>lw_network\<close> and \<open>lw_gateways\<close> are the network that loading the configuration builds.\<close>

record lxd_wrapper =
  lw_ContainerType :: string
  lw_StoragePool :: string
  lw_Profiles :: "string list"
  lw_Region :: string
  lw_Zone :: string
  lw_TemplateName :: string
  lw_Timeout :: int
  lw_Domain :: string
  lw_Interfaces :: "lxd_conf_interface list"
  lw_Remotes :: "(string, string) gomap"
  lw_bind9Provider :: "dns_provider option"
  lw_imageFingerPrint :: string
  lw_network :: network
  lw_gateways :: "string list"

text \<open>An operation is present or nil, with the error returned beside it. A network is managed or not, with its address.\<close>

record lxd_env =
  lx_remote :: remote_env
  lx_server :: "remote_calls \<Rightarrow> error + lxd_server"
  lx_operation :: "remote_calls \<Rightarrow> bool \<times> error option"
  lx_alias :: "remote_calls \<Rightarrow> error + string option"
  lx_images :: "remote_calls \<Rightarrow> error + lxd_image list"
  lx_net :: "remote_calls \<Rightarrow> error + (bool \<times> string)"

definition lxd_error :: "lxd_env \<Rightarrow> lxd_call \<Rightarrow> 'h hstate \<Rightarrow> error option \<times> 'h hstate" where
  "lxd_error X c = ask_remote (rans_err (lx_remote X)) (Lxd c)"

section \<open>Images\<close>

text \<open>The fingerprint is the one of the first image of the list, not of the image of that name.\<close>

definition findImageByName :: "lxd_env \<Rightarrow> string option \<Rightarrow> string \<Rightarrow> 'h hstate \<Rightarrow> (error + string) \<times> 'h hstate" where
  "findImageByName X imageServer name s =
     (let (alias, s) = ask_remote (lx_alias X) (Lxd (GetImageAlias imageServer name)) s;
          (fingerprint, s) = (case alias of
              Inr (Some target) \<Rightarrow> (target, s)
            | _ \<Rightarrow> let (r, s) = ask_remote (lx_images X) (Lxd (GetImages imageServer)) s
                in case r of
                     Inl e \<Rightarrow> ([], s)
                   | Inr images \<Rightarrow>
                       (if \<exists>image \<in> set images. li_Name image = name then li_Fingerprint (images ! 0) else [], s))
      in (if fingerprint = [] then Inl (Errorf ''image: %s not found'' [name]) else Inr fingerprint, s))"

text \<open>
  The error of the operation is returned beside the fingerprint; the only caller drops the
  fingerprint then.
\<close>

definition copyImage :: "lxd_env \<Rightarrow> string \<Rightarrow> string \<Rightarrow> 'h hstate \<Rightarrow> ((error + string) \<times> 'h hstate) go" where
  "copyImage X addr name s =
     (let (r, s) = findImageByName X (Some addr) name s
      in case r of
           Inl e \<Rightarrow> Ret (Inl e, s)
         | Inr fingerprint \<Rightarrow>
             let (missing, s) = lxd_error X (GetImage None fingerprint) s
             in if missing = None then Ret (Inr fingerprint, s)
                else let (err, s) = lxd_error X (GetImage (Some addr) fingerprint) s
                     in case err of
                          Some e \<Rightarrow> Ret (Inl e, s)
                        | None \<Rightarrow>
                            let ((present, err), s) = ask_remote (lx_operation X) (Lxd (CopyImage addr fingerprint)) s
                            in case err of
                                 Some e \<Rightarrow> Ret (Inl e, s)
                               | None \<Rightarrow>
                                   if \<not> present then Panic NilDeref
                                   else let (err, s) = lxd_error X WaitOperation s
                                        in Ret (case err of Some e \<Rightarrow> Inl e | None \<Rightarrow> Inr fingerprint, s))"

definition findImage :: "lxd_env \<Rightarrow> lxd_wrapper \<Rightarrow> string \<Rightarrow> 'h hstate \<Rightarrow> ((error + string) \<times> 'h hstate) go" where
  "findImage X w name s =
     (if CHR '':'' \<in> set name
      then let remote = StringBefore name CHR '':''; name = StringAfter name CHR '':''
           in case gget (lw_Remotes w) remote of
                None \<Rightarrow> Ret (Inl (Errorf ''remote image server: %s not found'' [remote]), s)
              | Some addr \<Rightarrow>
                  let (err, s) = lxd_error X (ConnectSimpleStreams addr) s
                  in case err of
                       Some e \<Rightarrow> Ret (Inl (Errorf ''remote image server %s failed: reason: %v'' [addr, err_text e]), s)
                     | None \<Rightarrow> gbind (copyImage X addr name s) (\<lambda>(r, s).
                         Ret (case r of
                             Inl e \<Rightarrow> Inl (Errorf ''copy image server %s failed: reason: %v'' [addr, err_text e])
                           | Inr fingerprint \<Rightarrow> Inr fingerprint, s))
      else Ret (findImageByName X None name s))"

section \<open>Networks\<close>

definition lxd_interface :: "lxd_conf_interface \<Rightarrow> net_interface" where
  "lxd_interface c = \<lparr>Enabled = lc_Enabled c, Primary = lc_Primary c, Existing = None, ConnectionType = [], BsdName = [],
     DisplayName = [], NetworkName = lc_NetworkName c, Adapter = [], MacAddress = ''ignore'', NicName = lc_NicName c,
     DHCP = lc_DHCP c, UseDhcpRoutes = None, if_IPAddress = lc_IPAddress c, Netmask = ''255.255.255.255'', Routes = [],
     if_nodeIndex = 0\<rparr>"

text \<open>The gateways of the interfaces, or the error of the first network that cannot be used.\<close>

fun find_networks :: "lxd_env \<Rightarrow> lxd_conf_interface list \<Rightarrow> 'h hstate \<Rightarrow> (error + string list) \<times> 'h hstate" where
  "find_networks X [] s = (Inr [], s)"
| "find_networks X (c # cs) s =
     (let (r, s) = ask_remote (lx_net X) (Lxd (GetNetwork (lc_NetworkName c))) s
      in case r of
           Inl e \<Rightarrow> (Inl (Errorf ''unable to find network: %s, reason: %v'' [lc_NetworkName c, err_text e]), s)
         | Inr (managed, address) \<Rightarrow>
             if \<not> managed
             then (Inl (Errorf ''unable to use network: %s, reason: network is not managed'' [lc_NetworkName c]), s)
             else let (r, s) = find_networks X cs s
                  in (map_sum id (\<lambda>gateways. StringBefore address CHR ''/'' # gateways) r, s))"

text \<open>\<^verbatim>\<open>ConfigurationDidLoad\<close> once the client is connected: the image, then the networks.\<close>

definition lxd_DidLoad :: "lxd_env \<Rightarrow> lxd_wrapper \<Rightarrow> 'h hstate \<Rightarrow> ((error + lxd_wrapper) \<times> 'h hstate) go" where
  "lxd_DidLoad X w s =
     gbind (findImage X w (lw_TemplateName w) s) (\<lambda>(r, s).
       case r of
         Inl e \<Rightarrow> Ret (Inl e, s)
       | Inr fingerprint \<Rightarrow>
           if fingerprint = [] then Ret (Inl (Errorf ''image: %s not found'' [lw_TemplateName w]), s)
           else let (r, s) = find_networks X (lw_Interfaces w) s;
                    net = \<lparr>Domain = lw_Domain w, Interfaces = map lxd_interface (lw_Interfaces w), DNS = None,
                      net_nodeIndex = 0, net_controlPlane = False\<rparr>
                in Ret (map_sum id (\<lambda>gateways. w\<lparr>lw_imageFingerPrint := fingerprint,
                     lw_network := ConfigurationDidLoad net, lw_gateways := gateways\<rparr>) r, s))"

text \<open>
  \<^verbatim>\<open>GetCloudInitNetwork\<close>: every interface is declared by DHCP. An encoding that fails is the empty document.
\<close>

definition lxd_net_declare :: "network \<Rightarrow> ci" where
  "lxd_net_declare net =
     (let nics = filter (\<lambda>n. IsEnabled n \<and> NicName n \<noteq> []) (Interfaces net)
      in CMap ((''version'', CInt 1) # (if nics = [] then []
           else [(''config'', CList (map (\<lambda>n. CMap [(''type'', CStr ''physical''), (''name'', CStr (NicName n)),
                   (''subnets'', CList [CMap [(''type'', CStr ''dhcp'')]])]) nics))])))"

definition lxd_network_config :: "codec \<Rightarrow> network \<Rightarrow> string" where
  "lxd_network_config cd net = (case yaml cd (lxd_net_declare net) of Inl e \<Rightarrow> [] | Inr out \<Rightarrow> out)"

section \<open>Instances\<close>

text \<open>The primary interface is read from a pointer that is nil when no interface is primary.\<close>

definition lxd_getAddress :: "lxd_wrapper \<Rightarrow> lxd_server \<Rightarrow> bool \<Rightarrow> (error + string) go" where
  "lxd_getAddress w server failIfMissingNetwork =
     (case ls_State server of
        None \<Rightarrow> Ret (Inr [])
      | Some nics \<Rightarrow> (case PrimaryInterface (lw_network w) of
            None \<Rightarrow> Panic NilDeref
          | Some i \<Rightarrow> Ret (case map_of nics (NicName i) of
                Some addresses \<Rightarrow> (case find (\<lambda>(family, a). family = ''inet'') addresses of
                    Some (family, a) \<Rightarrow> Inr a
                  | None \<Rightarrow> if failIfMissingNetwork
                      then Inl (Errorf ''instance: %s doesn't have address'' [ls_Name server]) else Inr [])
              | None \<Rightarrow> if failIfMissingNetwork
                  then Inl (Errorf ''instance: %s doesn't have nic'' [ls_Name server]) else Inr [])))"

definition lxd_getServer :: "lxd_env \<Rightarrow> string \<Rightarrow> 'h hstate \<Rightarrow> (error + lxd_server) \<times> 'h hstate" where
  "lxd_getServer X name = ask_remote (lx_server X) (Lxd (GetInstanceFull name))"

definition lxd_getServerInstance ::
  "lxd_env \<Rightarrow> lxd_wrapper \<Rightarrow> string \<Rightarrow> 'h hstate \<Rightarrow> ((error + server_instance) \<times> 'h hstate) go" where
  "lxd_getServerInstance X w name s =
     (let (r, s) = lxd_getServer X name s
      in case r of
           Inl e \<Rightarrow> Ret (Inl e, s)
         | Inr server \<Rightarrow> gbind (lxd_getAddress w server False) (\<lambda>address.
             Ret (map_sum id (\<lambda>a. \<lparr>si_InstanceName = ls_Name server, si_InstanceID = ls_uuid server,
                    si_PrivateDNSName = ls_Name server, si_AddressIP = a, si_Region = ls_Location server, si_Zone = [],
                    si_PublicAddress = [], si_PublicAddressID = []\<rparr>) address, s)))"

definition lxd_InstanceExists :: "lxd_env \<Rightarrow> lxd_wrapper \<Rightarrow> string \<Rightarrow> 'h hstate \<Rightarrow> (bool \<times> 'h hstate) go" where
  "lxd_InstanceExists X w name s =
     gbind (lxd_getServerInstance X w name s) (\<lambda>(r, s). Ret (error_of r = None, s))"

definition lxd_UUID :: "lxd_env \<Rightarrow> lxd_wrapper \<Rightarrow> string \<Rightarrow> 'h hstate \<Rightarrow> ((error + string) \<times> 'h hstate) go" where
  "lxd_UUID X w name s =
     gbind (lxd_getServerInstance X w name s) (\<lambda>(r, s). Ret (map_sum id si_InstanceID r, s))"

definition lxd_AttachInstance ::
  "lxd_env \<Rightarrow> ipconv \<Rightarrow> lxd_wrapper \<Rightarrow> string \<Rightarrow> bool \<Rightarrow> int \<Rightarrow> 'h hstate \<Rightarrow> ((error + server_handler) \<times> 'h hstate) go" where
  "lxd_AttachInstance X ip w instanceName control nodeIndex s =
     gbind (lxd_UUID X w instanceName s) (\<lambda>(r, s).
       Ret (map_sum id (\<lambda>u. \<lparr>sv_network = Network_Clone ip control nodeIndex (lw_network w), sv_extras = lw_gateways w,
          sv_running = Some (new_instance instanceName u [] []), sv_instanceType = [], sv_instanceName = instanceName,
          sv_instanceID = u, sv_controlPlane = control, sv_nodeIndex = nodeIndex, sv_dnsZoneID = None, sv_dnsEntryID = None,
          sv_floatingIP = None\<rparr>) r, s))"

definition lxd_CreateInstance ::
  "lxd_env \<Rightarrow> ipconv \<Rightarrow> lxd_wrapper \<Rightarrow> string \<Rightarrow> string \<Rightarrow> bool \<Rightarrow> int \<Rightarrow> 'h hstate \<Rightarrow> ((error + server_handler) \<times> 'h hstate) go" where
  "lxd_CreateInstance X ip w instanceName instanceType control nodeIndex s =
     gbind (lxd_InstanceExists X w instanceName s) (\<lambda>(found, s).
       Ret (if found then Inl (Errorf ErrVMAlreadyExists [instanceName])
            else Inr \<lparr>sv_network = Network_Clone ip control nodeIndex (lw_network w), sv_extras = lw_gateways w,
              sv_running = None, sv_instanceType = instanceType, sv_instanceName = instanceName, sv_instanceID = [],
              sv_controlPlane = control, sv_nodeIndex = nodeIndex, sv_dnsZoneID = None, sv_dnsEntryID = None,
              sv_floatingIP = None\<rparr>, s))"

section \<open>Power\<close>

definition lxd_state :: "lxd_env \<Rightarrow> string \<Rightarrow> 'h asks_state" where
  "lxd_state X name s = (let (r, s) = lxd_getServer X name s in (map_sum id ls_Status r, s))"

definition lxd_fails :: "string \<Rightarrow> bool" where
  "lxd_fails status \<longleftrightarrow> status = ''FROZEN'' \<or> status = ''ERROR''"

definition lxd_expectStatus :: "lxd_env \<Rightarrow> server_instance \<Rightarrow> string \<Rightarrow> string \<Rightarrow> 'h hstate \<Rightarrow> (bool \<times> error option) \<times> 'h hstate" where
  "lxd_expectStatus X i = expect_status (lxd_state X (si_InstanceName i)) lxd_fails (si_InstanceName i)"

definition lxd_wait :: "lxd_env \<Rightarrow> lxd_wrapper \<Rightarrow> server_instance \<Rightarrow> string \<Rightarrow> string \<Rightarrow> 'h hstate \<Rightarrow> (error option \<times> 'h hstate) go" where
  "lxd_wait X w i = wait_status (lx_remote X) (lxd_state X (si_InstanceName i)) lxd_fails (lw_Timeout w) (si_InstanceName i)"

text \<open>The error of the update is dropped: the operation is waited for, even when there is none.\<close>

definition lxd_request_state :: "lxd_env \<Rightarrow> lxd_wrapper \<Rightarrow> server_instance \<Rightarrow> string \<Rightarrow> 'h hstate \<Rightarrow> (error option \<times> 'h hstate) go" where
  "lxd_request_state X w i action s =
     (let ((present, err), s) = ask_remote (lx_operation X) (Lxd (UpdateInstanceState (si_InstanceName i) action (lw_Timeout w))) s
      in if \<not> present then Panic NilDeref else Ret (lxd_error X WaitOperation s))"

definition lxd_PowerOn :: "lxd_env \<Rightarrow> lxd_wrapper \<Rightarrow> server_instance \<Rightarrow> 'h hstate \<Rightarrow> (error option \<times> 'h hstate) go" where
  "lxd_PowerOn X w i = switch_power (lxd_state X (si_InstanceName i)) [''RUNNING''] True
     (lxd_request_state X w i ''start'') (lxd_wait X w i ''RUNNING'' ''STOPPED'')"

definition lxd_PowerOff :: "lxd_env \<Rightarrow> lxd_wrapper \<Rightarrow> server_instance \<Rightarrow> 'h hstate \<Rightarrow> (error option \<times> 'h hstate) go" where
  "lxd_PowerOff X w i = switch_power (lxd_state X (si_InstanceName i)) [''RUNNING''] False
     (lxd_request_state X w i ''stop'') (lxd_wait X w i ''STOPPED'' ''RUNNING'')"

definition lxd_WaitForIP :: "lxd_env \<Rightarrow> lxd_wrapper \<Rightarrow> server_instance \<Rightarrow> 'h hstate \<Rightarrow> ((string \<times> error option) \<times> 'h hstate) go" where
  "lxd_WaitForIP X w i =
     wait_for_ip (lx_remote X) (lw_Timeout w) (lxd_expectStatus X i ''RUNNING'' []) (si_InstanceName i) (si_AddressIP i)"

definition lxd_Delete :: "lxd_env \<Rightarrow> server_instance \<Rightarrow> 'h hstate \<Rightarrow> (error option \<times> 'h hstate) go" where
  "lxd_Delete X i s =
     (let ((present, err), s) = ask_remote (lx_operation X) (Lxd (DeleteInstance (si_InstanceName i))) s
      in if err \<noteq> None then Ret (err, s)
         else if \<not> present then Panic NilDeref else Ret (lxd_error X WaitOperation s))"

definition lxd_Status :: "lxd_env \<Rightarrow> lxd_wrapper \<Rightarrow> server_instance \<Rightarrow> 'h hstate \<Rightarrow> ((error + instance_status) \<times> 'h hstate) go" where
  "lxd_Status X w i s =
     (let (r, s) = lxd_getServer X (si_InstanceName i) s
      in case r of
           Inl e \<Rightarrow> Ret (Inl e, s)
         | Inr server \<Rightarrow> gbind (lxd_getAddress w server False) (\<lambda>address.
             Ret (map_sum id (\<lambda>a. \<lparr>Address = a, Powered = (ToUpper (ls_Status server) = ''RUNNING'')\<rparr>) address, s)))"

section \<open>Creating an instance\<close>

definition lxd_device :: "net_interface \<Rightarrow> (string, string) gomap" where
  "lxd_device n =
     (let device = gset ''name'' (NicName n) (gset ''network'' (NetworkName n) (gset ''type'' ''nic'' gmake))
      in if \<not> DHCP n \<and> if_IPAddress n \<noteq> [] then gset ''ipv4.address'' (if_IPAddress n) device else device)"

definition lxd_devices :: "lxd_wrapper \<Rightarrow> network \<Rightarrow> int \<Rightarrow> (string, (string, string) gomap) gomap" where
  "lxd_devices w net diskSize =
     gset ''root'' (gset ''size'' (Sprintf ''%dMiB'' [Itoa diskSize]) (gset ''pool'' (lw_StoragePool w)
       (gset ''path'' ''/'' (gset ''type'' ''disk'' gmake))))
       (fold (\<lambda>n. gset (NicName n) (lxd_device n)) (filter IsEnabled (Interfaces net)) gmake)"

definition lxd_create_request :: "codec \<Rightarrow> lxd_wrapper \<Rightarrow> network \<Rightarrow> string \<Rightarrow> string \<Rightarrow> instance_input \<Rightarrow> lxd_request" where
  "lxd_create_request cd w net instanceName userData input =
     \<lparr>lq_Name = instanceName, lq_Profiles = lw_Profiles w, lq_Devices = lxd_devices w net (in_DiskSize input),
      lq_Config = gset ''cloud-init.network-config'' (lxd_network_config cd net) (gset ''cloud-init.user-data'' userData
        (gset ''limits.memory'' (Sprintf ''%dMiB'' [Itoa (in_Memory input)])
          (gset ''limits.cpu'' (Sprintf ''%d'' [Itoa (in_Vcpu input)]) gmake))),
      lq_Fingerprint = lw_imageFingerPrint w, lq_Type = lw_ContainerType w\<rparr>"

definition lxd_Create ::
  "lxd_env \<Rightarrow> codec \<Rightarrow> lxd_wrapper \<Rightarrow> instance_input \<Rightarrow> string \<Rightarrow> server_state \<Rightarrow> (error option \<times> server_state) go" where
  "lxd_Create X cd w input userData s =
     (let name = sv_instanceName (fst s);
          request = lxd_create_request cd w (sv_network (fst s)) name userData input;
          ((present, err), s) = ask_remote (lx_operation X) (Lxd (LxdCreateInstance request)) s
      in case err of
           Some e \<Rightarrow> Ret (Some (creation_failed ''server creation failed'' name e), s)
         | None \<Rightarrow>
             if \<not> present then Panic NilDeref
             else let (err, s) = lxd_error X WaitOperation s
                  in case err of
                       Some e \<Rightarrow> Ret (Some (creation_failed ''operation creation failed'' name e), s)
                     | None \<Rightarrow>
                         let (r, s) = lxd_getServer X name s
                         in case r of
                              Inl e \<Rightarrow> Ret (Some (creation_failed ''get instance failed'' name e), s)
                            | Inr server \<Rightarrow> Ret (None, change_running (\<lambda>i. i\<lparr>si_InstanceID := ls_uuid server\<rparr>) s))"

section \<open>The handler\<close>

text \<open>
  One attempt to read the address: it is stored in the running instance, empty when there is none.
\<close>

definition address_attempt :: "lxd_env \<Rightarrow> lxd_wrapper \<Rightarrow> server_state \<Rightarrow> ((bool \<times> error option) \<times> server_state) go" where
  "address_attempt X w s =
     (let (r, s) = lxd_getServer X (sv_instanceName (fst s)) s
      in case r of
           Inl e \<Rightarrow> Ret ((False, Some e), s)
         | Inr server \<Rightarrow> gbind (lxd_getAddress w server True) (\<lambda>address.
             if sv_running (fst s) = None then Panic NilDeref
             else case address of
                    Inl e \<Rightarrow> Ret ((False, None), change_running (\<lambda>i. i\<lparr>si_AddressIP := []\<rparr>) s)
                  | Inr a \<Rightarrow> Ret ((True, None), change_running (\<lambda>i. i\<lparr>si_AddressIP := a\<rparr>) s)))"

fun lxd_handle ::
  "lxd_env \<Rightarrow> codec \<Rightarrow> lxd_wrapper \<Rightarrow> handler_call \<Rightarrow> server_state \<Rightarrow> (handler_result \<times> server_state) go" where
  "lxd_handle X cd w (ConfigureNetwork net) s = configure_network (Lxd_Managed (net_Lxd net)) s"
| "lxd_handle X cd w RetrieveNetworkInfos s = when_identified (Done (Some not_attached)) (\<lambda>s. Ret (Done None, s)) s"
| "lxd_handle X cd w UpdateMacAddressTable s = update_mac_table s"
| "lxd_handle X cd w GenerateProviderID s = Ret (Text (sv_instanceID (fst s)) None, s)"
| "lxd_handle X cd w GetTopologyLabels s = Ret (Labels (topology_labels (lw_Region w) (lw_Zone w)), s)"
| "lxd_handle X cd w (InstanceCreate input) s =
     create_on_instance [] [] (cloud_config cd (in_CloudInit input)) (lxd_Create X cd w input) s"
| "lxd_handle X cd w InstanceWaitReady s =
     when_running (Text [] (Some not_ready)) (\<lambda>i s. answering (\<lambda>(a, err). Text a err) (lxd_WaitForIP X w i s)) s"
| "lxd_handle X cd w InstancePrimaryAddressIP s = Ret (Text (PrimaryAddressIP (sv_network (fst s))) None, s)"
| "lxd_handle X cd w InstanceID s =
     when_running (Text [] (Some not_attached)) (\<lambda>i s. Ret (Text (si_InstanceID i) None, s)) s"
| "lxd_handle X cd w InstanceAutoStart s = Ret (Done None, s)"
| "lxd_handle X cd w InstancePowerOn s =
     when_running (Done (Some not_attached)) (\<lambda>i s. answering Done (lxd_PowerOn X w i s)) s"
| "lxd_handle X cd w InstancePowerOff s =
     when_running (Done (Some not_attached)) (\<lambda>i s. answering Done (lxd_PowerOff X w i s)) s"
| "lxd_handle X cd w InstanceDelete s =
     when_running (Done (Some not_attached)) (\<lambda>i s. answering Done (lxd_Delete X i s)) s"
| "lxd_handle X cd w InstanceCreated s =
     when_running (Flag False None) (\<lambda>i s. answering (\<lambda>b. Flag b None) (lxd_InstanceExists X w (sv_instanceName (fst s)) s)) s"
| "lxd_handle X cd w InstanceStatus s =
     when_running (Status None (Some not_attached)) (\<lambda>i s.
       answering (\<lambda>r. case r of Inl e \<Rightarrow> Status None (Some e) | Inr st \<Rightarrow> Status (Some st) None) (lxd_Status X w i s)) s"
| "lxd_handle X cd w InstanceWaitForToolsRunning s =
     answering (Flag True) (remote_PollImmediate (lx_remote X) (wrap64 (lw_Timeout w * second)) (address_attempt X w) s)"
| "lxd_handle X cd w (InstanceMaxPods desired) s = Ret (Number (default_max_pods desired) None, s)"
| "lxd_handle X cd w (RegisterDNS address) s =
     Ret (map_prod Done id (change_dns (lx_remote X) (lw_bind9Provider w) True (sv_instanceName (fst s)) (lw_Domain w) address s))"
| "lxd_handle X cd w (UnregisterDNS address) s =
     Ret (map_prod Done id (change_dns (lx_remote X) (lw_bind9Provider w) False (sv_instanceName (fst s)) (lw_Domain w) address s))"

end
