(* ===== verification/Lxd_Facts.thy ===== *)
theory Lxd_Facts
  imports Lxd
begin

text \<open>The LXD provider: what switching a machine shows, what a creation requests, and which image is found.\<close>

section \<open>The contracts\<close>

definition lxd_shown :: "lxd_env \<Rightarrow> string \<Rightarrow> string \<Rightarrow> remote_calls \<Rightarrow> bool" where
  "lxd_shown X name st calls \<longleftrightarrow> (\<exists>server before. calls = Lxd (GetInstanceFull name) # before \<and>
     lx_server X calls = Inr server \<and> ls_Status server = st)"

interpretation lxd_source: server_source "lxd_state X name" "lxd_shown X name" for X name
proof
  fix s s' :: "'h hstate" and st
  assume "lxd_state X name s = (Inr st, s')"
  then show "lxd_shown X name st (snd (snd s'))"
    by (cases s) (auto simp: lxd_state_def lxd_getServer_def lxd_shown_def map_sum_def split: sum.splits)
next
  fix s :: "'h hstate"
  show "fst (snd (lxd_state X name s)) = fst s"
    by (cases s) (simp add: lxd_state_def lxd_getServer_def)
next
  fix s :: "'h hstate"
  show "\<exists>later. snd (snd (snd (lxd_state X name s))) = later @ snd (snd s)"
    by (cases s) (simp add: lxd_state_def lxd_getServer_def)
qed

lemma lxd_requests_keep:
  "fst (snd (lxd_error X c s)) = fst s" "fst (snd (lxd_getServer X name s)) = fst s"
  "holds (\<lambda>(r, s'). fst s' = fst s) (lxd_request_state X w i action s)"
  "holds (\<lambda>(r, s'). fst s' = fst s) (lxd_Delete X i s)"
  "holds (\<lambda>(r, s'). fst s' = fst s) (lxd_getServerInstance X w name s)"
  "holds (\<lambda>(r, s'). fst s' = fst s) (lxd_InstanceExists X w name s)"
  "holds (\<lambda>(r, s'). fst s' = fst s) (lxd_Status X w i s)"
  by (cases s; auto simp: lxd_error_def lxd_getServer_def lxd_request_state_def lxd_Delete_def lxd_getServerInstance_def
      lxd_InstanceExists_def lxd_Status_def case_prod_unfold Let_def split: sum.splits intro!: holdsI)+

lemma lxd_switch_keeps:
  "holds (\<lambda>(r, s'). fst s' = fst s) (lxd_PowerOn X w i s)" "holds (\<lambda>(r, s'). fst s' = fst s) (lxd_PowerOff X w i s)"
  "holds (\<lambda>(r, s'). fst s' = fst s) (lxd_WaitForIP X w i s)"
  by (auto simp: lxd_PowerOn_def lxd_PowerOff_def lxd_WaitForIP_def lxd_wait_def lxd_expectStatus_def
      intro!: lxd_source.switch_keeps lxd_source.wait_keeps lxd_source.ip_keeps lxd_requests_keep)

lemma address_attempt_attached:
  assumes "(sv_running (fst s) = None) = b"
  shows "holds (\<lambda>(r, s'). (sv_running (fst s') = None) = b) (address_attempt X w s)"
proof -
  obtain r t where g: "lxd_getServer X (sv_instanceName (fst s)) s = (r, t)" by (rule prod.exhaust)
  then have "fst t = fst s" using lxd_requests_keep(2) [of X "sv_instanceName (fst s)" s] by simp
  with g assms show ?thesis
    by (auto simp: address_attempt_def split: sum.split)
qed

lemma lxd_Create_attached: "stays_attached s (lxd_Create X cd w input userData s)"
  by (cases s) (auto simp: lxd_Create_def lxd_error_def lxd_getServer_def Let_def split: prod.split option.split sum.split)

lemma lxd_handle_attached:
  assumes "\<not> creates_instance c"
  shows "stays_attached s (lxd_handle X cd w c s)"
proof -
  note keeps = lxd_switch_keeps lxd_requests_keep(4,6,7)
  show ?thesis
  proof (cases c)
    case InstanceWaitForToolsRunning
    have "stays_attached s (remote_PollImmediate (lx_remote X) timeout (address_attempt X w) s)" for timeout
      by (rule remote_poll_holds) (use address_attempt_attached in \<open>auto simp: ask_remote_fst\<close>)
    with InstanceWaitForToolsRunning show ?thesis by (auto intro: answering_attached)
  next
    case (RegisterDNS address)
    then show ?thesis by (simp add: change_dns_attached del: holds_simps)
  next
    case (UnregisterDNS address)
    then show ?thesis by (simp add: change_dns_attached del: holds_simps)
  qed (use assms in \<open>auto simp: when_identified_def
      intro!: running_attached answering_attached common_attached change_dns_attached keeps [THEN stays_attachedI]\<close>)
qed

interpretation lxd: attached_handler "\<lambda>h. sv_running h \<noteq> None" "lxd_handle X cd w" needs_running creates_instance
  for X cd w
proof
  fix c and s :: server_state
  assume "needs_running c" "\<not> sv_running (fst s) \<noteq> None"
  then show "\<exists>r. lxd_handle X cd w c s = Ret (r, s) \<and> result_error r \<noteq> None"
    by (cases c) (auto simp: when_running_def)
next
  fix c r and s s' :: server_state
  assume "lxd_handle X cd w c s = Ret (r, s')" "\<not> creates_instance c"
  then show "(sv_running (fst s') \<noteq> None) = (sv_running (fst s) \<noteq> None)"
    using lxd_handle_attached [of c s X cd w] by simp
qed

section \<open>Power\<close>

lemma lxd_state_calls: "snd (snd (snd (lxd_state X name s))) = Lxd (GetInstanceFull name) # snd (snd s)"
  by (cases s) (simp add: lxd_state_def lxd_getServer_def)

lemma lxd_request_calls:
  "lxd_request_state X w i action s = Ret (None, t) \<Longrightarrow> snd (snd t) =
     Lxd WaitOperation # Lxd (UpdateInstanceState (si_InstanceName i) action (lw_Timeout w)) # snd (snd s)"
  by (cases s) (auto simp: lxd_request_state_def lxd_error_def split: if_splits prod.splits)

text \<open>Switching on, when it succeeds, ends with a query that has shown the machine running.\<close>

text \<open>C32: Switching a machine of LXD on, when it reports success, changes nothing in the handler and has seen the machine running, either at once or after asking for the start and waiting for the operation.\<close>

theorem lxd_PowerOn_success:
  assumes "lxd_handle X cd w InstancePowerOn s = Ret (Done None, s')" "sv_running (fst s) = Some i"
  defines "name \<equiv> si_InstanceName i"
  shows "fst s' = fst s \<and> (\<exists>st. lxd_shown X name st (snd (snd s')) \<and> ToUpper st = ''RUNNING'') \<and>
    (snd (snd s') = Lxd (GetInstanceFull name) # snd (snd s) \<or>
     (\<exists>later. snd (snd s') = later @ Lxd WaitOperation # Lxd (UpdateInstanceState name ''start'' (lw_Timeout w)) #
        Lxd (GetInstanceFull name) # snd (snd s)))"
proof -
  from assms have p: "lxd_PowerOn X w i s = Ret (None, s')"
    by (auto simp: when_running_def answering_def)
  then have k: "fst s' = fst s" using lxd_switch_keeps(1) [of s X w i] by simp
  from lxd_source.switch_success [OF p [unfolded lxd_PowerOn_def lxd_wait_def]] show ?thesis
  proof (elim disjE exE conjE)
    fix st assume "lxd_shown X (si_InstanceName i) st (snd (snd s'))" "(ToUpper st \<in> set [''RUNNING'']) = True"
      "s' = snd (lxd_state X (si_InstanceName i) s)"
    with k show ?thesis by (auto simp: name_def lxd_state_calls)
  next
    fix st t later assume r: "lxd_request_state X w i ''start'' (snd (lxd_state X (si_InstanceName i) s)) = Ret (None, t)"
      and l: "snd (snd s') = later @ snd (snd t)" and st: "lxd_shown X (si_InstanceName i) st (snd (snd s'))" "ToUpper st = ''RUNNING''"
    from lxd_request_calls [OF r] l have "snd (snd s') = later @ Lxd WaitOperation #
        Lxd (UpdateInstanceState name ''start'' (lw_Timeout w)) # Lxd (GetInstanceFull name) # snd (snd s)"
      by (simp add: name_def lxd_state_calls)
    with k st show ?thesis by (auto simp: name_def)
  qed
qed

text \<open>A request to start that is refused leaves no operation to wait for.\<close>

theorem lxd_refused_start_panics:
  assumes "sv_running h = Some i" and "calls = Lxd (GetInstanceFull (si_InstanceName i)) # before"
    and "lx_server X calls = Inr server" "ToUpper (ls_Status server) \<noteq> ''RUNNING''"
    and "lx_operation X (Lxd (UpdateInstanceState (si_InstanceName i) ''start'' (lw_Timeout w)) # calls) = (False, Some e)"
  shows "lxd_handle X cd w InstancePowerOn (h, t, before) = Panic NilDeref"
  using assms
  by (simp add: when_running_def answering_def lxd_PowerOn_def switch_power_def is_powered_def lxd_state_def
      lxd_getServer_def lxd_request_state_def)

section \<open>Creations\<close>

lemma lxd_Create_success:
  assumes "lxd_Create X cd w input userData s = Ret (err, s')"
  defines "name \<equiv> sv_instanceName (fst s)"
  shows "if err \<noteq> None then fst s' = fst s
    else \<exists>server. fst s' = (fst s)\<lparr>sv_running := map_option (\<lambda>i. i\<lparr>si_InstanceID := ls_uuid server\<rparr>) (sv_running (fst s))\<rparr> \<and>
      lx_server X (snd (snd s')) = Inr server \<and> snd (snd s') = Lxd (GetInstanceFull name) # Lxd WaitOperation #
        Lxd (LxdCreateInstance (lxd_create_request cd w (sv_network (fst s)) name userData input)) # snd (snd s)"
proof -
  obtain h t cs where s: "s = (h, t, cs)" by (cases s)
  let ?rq = "LxdCreateInstance (lxd_create_request cd w (sv_network h) (sv_instanceName h) userData input)"
  obtain present err1 where op: "lx_operation X (Lxd ?rq # cs) = (present, err1)" by (rule prod.exhaust)
  show ?thesis
  proof (cases "err1 = None \<and> present \<and> rans_err (lx_remote X) (Lxd WaitOperation # Lxd ?rq # cs) = None")
    case True
    with assms(1) s op show ?thesis
      by (cases "lx_server X (Lxd (GetInstanceFull (sv_instanceName h)) # Lxd WaitOperation # Lxd ?rq # cs)")
        (auto simp: lxd_Create_def lxd_error_def lxd_getServer_def name_def Let_def)
  next
    case False
    with assms(1) s op show ?thesis
      by (cases err1; cases present) (auto simp: lxd_Create_def lxd_error_def name_def Let_def)
  qed
qed

theorem lxd_InstanceCreate_outcome:
  assumes "lxd_handle X cd w (InstanceCreate input) s = Ret (Text u err, s')"
  defines "name \<equiv> sv_instanceName (fst s)"
  shows "sv_running (fst s') \<noteq> None \<and> (if err \<noteq> None then sv_instanceID (fst s') = sv_instanceID (fst s)
    else sv_instanceID (fst s') = u \<and> (\<exists>server userData. lx_server X (snd (snd s')) = Inr server \<and> ls_uuid server = u \<and>
      cloud_config cd (in_CloudInit input) = Inr userData \<and> snd (snd s') = Lxd (GetInstanceFull name) # Lxd WaitOperation #
        Lxd (LxdCreateInstance (lxd_create_request cd w (sv_network (fst s)) name userData input)) # snd (snd s)))"
proof -
  define s0 where "s0 = change_handler (\<lambda>h. h\<lparr>sv_running := Some (new_instance (sv_instanceName h) [] [] [])\<rparr>) s"
  have s0: "sv_network (fst s0) = sv_network (fst s)" "sv_instanceName (fst s0) = name" "snd s0 = snd s"
    "sv_instanceID (fst s0) = sv_instanceID (fst s)" "sv_running (fst s0) \<noteq> None"
    by (simp_all add: s0_def name_def)
  show ?thesis
  proof (cases "cloud_config cd (in_CloudInit input)")
    case (Inl e)
    with assms s0 show ?thesis by (auto simp: create_on_instance_def s0_def)
  next
    case (Inr doc)
    with assms(1) obtain err' t where c: "lxd_Create X cd w input doc s0 = Ret (err', t)"
      and r: "(case err' of Some e \<Rightarrow> Ret (Text [] (Some e), t)
        | None \<Rightarrow> (case sv_running (fst t) of None \<Rightarrow> Panic NilDeref
            | Some i \<Rightarrow> Ret (Text (si_InstanceID i) None, change_handler (\<lambda>h. h\<lparr>sv_instanceID := si_InstanceID i\<rparr>) t))) =
        Ret (Text u err, s')"
      by (auto simp: create_on_instance_def s0_def)
    show ?thesis
    proof (cases err')
      case None
      with lxd_Create_success [OF c] s0 obtain server i where
        t: "sv_running (fst t) = Some (i\<lparr>si_InstanceID := ls_uuid server\<rparr>)" "lx_server X (snd (snd t)) = Inr server"
          "snd (snd t) = Lxd (GetInstanceFull name) # Lxd WaitOperation #
             Lxd (LxdCreateInstance (lxd_create_request cd w (sv_network (fst s)) name doc input)) # snd (snd s)"
        by auto
      with None r have "err = None" "u = ls_uuid server" "snd s' = snd t" "sv_instanceID (fst s') = u" "sv_running (fst s') \<noteq> None"
        by auto
      with t Inr show ?thesis by auto
    next
      case (Some e)
      with r have "s' = t" "err = Some e" by auto
      with lxd_Create_success [OF c] Some s0 show ?thesis by simp
    qed
  qed
qed

text \<open>
  The devices of a machine: one for each enabled interface, by the name of its card. Two cards of the
  same name, or one named as the root disk, would be one device.
\<close>

lemma fold_devices:
  assumes "distinct (map NicName ns)" "n \<in> set ns"
  shows "gget (fold (\<lambda>n. gset (NicName n) (lxd_device n)) ns m) (NicName n) = Some (lxd_device n)"
  using assms
proof (induction ns arbitrary: m rule: rev_induct)
  case (snoc a ns)
  then show ?case by (cases "n = a") (auto, metis image_eqI)
qed simp

theorem lxd_devices_lookup:
  assumes "n \<in> set (Interfaces net)" "IsEnabled n" "distinct (map NicName (filter IsEnabled (Interfaces net)))" "NicName n \<noteq> ''root''"
  shows "gget (lxd_devices w net diskSize) (NicName n) = Some (lxd_device n) \<and>
    gget (lxd_device n) ''network'' = Some (NetworkName n) \<and>
    gget (lxd_device n) ''ipv4.address'' = (if DHCP n \<or> if_IPAddress n = [] then None else Some (if_IPAddress n))"
  using assms fold_devices [of "filter IsEnabled (Interfaces net)" n gmake]
  by (simp add: lxd_devices_def lxd_device_def)

section \<open>Images and addresses\<close>

text \<open>Without an alias the first image of the server is taken, whatever its name, as soon as some image has the name.\<close>

theorem lxd_wrong_image:
  assumes "lx_alias X (Lxd (GetImageAlias server name) # calls) = Inl e"
    and "lx_images X (Lxd (GetImages server) # Lxd (GetImageAlias server name) # calls) = Inr (img # imgs)"
    and "name \<in> li_Name ` set imgs" "li_Fingerprint img \<noteq> []"
  shows "fst (findImageByName X server name (h, t, calls)) = Inr (li_Fingerprint img)"
  using assms by (auto simp: findImageByName_def)

text \<open>A machine without a state counts as running its tools, at an empty address.\<close>

theorem lxd_tools_without_state:
  assumes "sv_running h = Some i"
    and "lx_server X (Lxd (GetInstanceFull (sv_instanceName h)) # RPoll # calls) = Inr server" "ls_State server = None"
  shows "lxd_handle X cd w InstanceWaitForToolsRunning (h, t, calls) =
    Ret (Flag True None, h\<lparr>sv_running := Some (i\<lparr>si_AddressIP := []\<rparr>)\<rparr>, t, Lxd (GetInstanceFull (sv_instanceName h)) # RPoll # calls)"
  using assms
  by (simp add: answering_def remote_PollImmediate_def address_attempt_def lxd_getServer_def lxd_getAddress_def
      change_running_def change_handler_def)

section \<open>The theorems at concrete inputs\<close>

definition waited :: "remote_calls \<Rightarrow> bool" where
  "waited calls \<longleftrightarrow> Lxd WaitOperation \<in> set calls"

text \<open>A cloud where a machine runs once an operation has been waited for.\<close>

definition sample_lxd_server :: "string \<Rightarrow> lxd_server" where
  "sample_lxd_server status = \<lparr>ls_Name = ''n1'', ls_Status = status, ls_Location = ''home'', ls_uuid = ''u1'', ls_State = None\<rparr>"

definition sample_lxd_env :: "bool \<Rightarrow> lxd_env" where
  "sample_lxd_env accepts = \<lparr>lx_remote = sample_remote_env,
     lx_server = (\<lambda>calls. Inr (sample_lxd_server (if waited calls then ''Running'' else ''Stopped''))),
     lx_operation = (\<lambda>calls. (accepts, if accepts then None else Some (Plain ''refused''))), lx_alias = (\<lambda>calls. Inl (Plain ''no alias'')),
     lx_images = (\<lambda>calls. Inr [\<lparr>li_Fingerprint = ''f0'', li_Name = ''other''\<rparr>, \<lparr>li_Fingerprint = ''f1'', li_Name = ''noble''\<rparr>]),
     lx_net = (\<lambda>calls. Inr (True, ''10.0.0.1/24''))\<rparr>"

definition sample_lxd :: lxd_wrapper where
  "sample_lxd = \<lparr>lw_ContainerType = ''container'', lw_StoragePool = ''default'', lw_Profiles = [], lw_Region = ''home'',
     lw_Zone = ''office'', lw_TemplateName = ''noble'', lw_Timeout = 300, lw_Domain = ''local'', lw_Interfaces = [],
     lw_Remotes = gmake, lw_bind9Provider = None, lw_imageFingerPrint = ''f1'', lw_network = sample_network, lw_gateways = [''10.0.0.1'']\<rparr>"

definition new_server_handler :: server_handler where
  "new_server_handler = \<lparr>sv_network = sample_network, sv_extras = [''net0''], sv_running = None, sv_instanceType = ''t'',
     sv_instanceName = ''n1'', sv_instanceID = [], sv_controlPlane = False, sv_nodeIndex = 1, sv_dnsZoneID = None,
     sv_dnsEntryID = None, sv_floatingIP = None\<rparr>"

definition attached_server_handler :: server_handler where
  "attached_server_handler = new_server_handler\<lparr>sv_running := Some (new_instance ''n1'' ''u1'' [] []), sv_instanceID := ''u1''\<rparr>"

theorem lxd_PowerOn_success_witness:
  "\<exists>s' st. lxd_handle (sample_lxd_env True) sample_documents sample_lxd InstancePowerOn (attached_server_handler, gmake, []) =
     Ret (Done None, s') \<and> lxd_shown (sample_lxd_env True) ''n1'' st (snd (snd s')) \<and> ToUpper st = ''RUNNING''"
proof -
  have "yields (\<lambda>(r, s'). r = Done None)
    (lxd_handle (sample_lxd_env True) sample_documents sample_lxd InstancePowerOn (attached_server_handler, gmake, []))"
    by code_simp
  then obtain s' where r: "lxd_handle (sample_lxd_env True) sample_documents sample_lxd InstancePowerOn
      (attached_server_handler, gmake, []) = Ret (Done None, s')"
    by (auto simp: yields_iff simp del: lxd_handle.simps)
  from lxd_PowerOn_success [OF r, of "new_instance ''n1'' ''u1'' [] []"] r show ?thesis
    by (auto simp: attached_server_handler_def new_instance_def simp del: lxd_handle.simps)
qed

theorem lxd_refused_start_panics_witness:
  "lxd_handle (sample_lxd_env False) sample_documents sample_lxd InstancePowerOn (attached_server_handler, gmake, []) = Panic NilDeref"
  by (rule lxd_refused_start_panics [where calls = "[Lxd (GetInstanceFull ''n1'')]" and i = "new_instance ''n1'' ''u1'' [] []" and server = "sample_lxd_server ''Stopped''"])
    (simp_all add: attached_server_handler_def new_instance_def sample_lxd_env_def waited_def sample_lxd_server_def)

theorem lxd_InstanceCreate_outcome_witness:
  "\<exists>s'. lxd_handle (sample_lxd_env True) sample_documents sample_lxd (InstanceCreate sample_input) (new_server_handler, gmake, []) =
     Ret (Text ''u1'' None, s') \<and> sv_instanceID (fst s') = ''u1'' \<and> length (snd (snd s')) = 3"
proof -
  obtain s' where r: "lxd_handle (sample_lxd_env True) sample_documents sample_lxd (InstanceCreate sample_input)
      (new_server_handler, gmake, []) = Ret (Text ''u1'' None, s')"
    by (simp add: create_on_instance_def cloud_config_def sample_documents_def lxd_Create_def sample_lxd_env_def lxd_error_def
        lxd_getServer_def sample_remote_env_def sample_lxd_server_def change_running_def change_handler_def new_instance_def Let_def)
  from lxd_InstanceCreate_outcome [OF r] r show ?thesis by (auto simp del: lxd_handle.simps)
qed

theorem lxd_devices_lookup_witness:
  "gget (lxd_devices sample_lxd sample_network 10240) ''eth0'' = Some (lxd_device sample_interface) \<and>
    gget (lxd_device sample_interface) ''network'' = Some ''vmnet8''"
  using lxd_devices_lookup [of sample_interface sample_network sample_lxd 10240]
  by (simp add: sample_network_def sample_interface_def IsEnabled_def)

theorem lxd_wrong_image_witness:
  "fst (findImageByName (sample_lxd_env True) None ''noble'' (new_server_handler, gmake, [])) = Inr ''f0''"
  using lxd_wrong_image [of "sample_lxd_env True" None "''noble''" "[]" "Plain ''no alias''"
      "\<lparr>li_Fingerprint = ''f0'', li_Name = ''other''\<rparr>" "[\<lparr>li_Fingerprint = ''f1'', li_Name = ''noble''\<rparr>]" new_server_handler gmake]
  by (simp add: sample_lxd_env_def)

theorem lxd_tools_without_state_witness:
  "\<exists>s'. lxd_handle (sample_lxd_env True) sample_documents sample_lxd InstanceWaitForToolsRunning
     (attached_server_handler, gmake, []) = Ret (Flag True None, s') \<and> sv_running (fst s') = Some (new_instance ''n1'' ''u1'' [] [])"
  by (subst lxd_tools_without_state [where i = "new_instance ''n1'' ''u1'' [] []" and server = "sample_lxd_server ''Stopped''"])
    (simp_all add: attached_server_handler_def new_server_handler_def new_instance_def sample_lxd_env_def waited_def sample_lxd_server_def)

end
