(* ===== verification/CloudStack.thy ===== *)
theory CloudStack
  imports Lxd_Facts
begin

text \<open>
  Model of \<^verbatim>\<open>providers/cloudstack/\<close>: options, networks, the instance of a handler and the handler. The
  client of CloudStack is the environment \<open>cs_env\<close>.
\<close>

section \<open>Configuration\<close>

text \<open>\<open>cw_network\<close> and \<open>cw_networkIDs\<close> are the network that loading the configuration builds.\<close>

record cs_wrapper =
  cw_SshKeyName :: string
  cw_ProjectID :: string
  cw_ZoneId :: string
  cw_PodId :: string
  cw_ClusterId :: string
  cw_HostId :: string
  cw_VpcId :: string
  cw_Hypervisor :: string
  cw_TemplateId :: string
  cw_Timeout :: int
  cw_Domain :: string
  cw_Interfaces :: "conf_interface list"
  cw_PublicControlPlaneNode :: bool
  cw_PublicWorkerNode :: bool
  cw_ControlPlaneGroup :: string
  cw_WorkerGroup :: string
  cw_bind9Provider :: "dns_provider option"
  cw_network :: network
  cw_networkIDs :: "string list"

text \<open>
  The answers: a deployed machine with its addresses, an allocated address (identifier, address, zone),
  a translation (success, text), a network with the number found. \<open>cx_setters\<close> are the options the
  parameters of a request accept.
\<close>

record cs_env =
  cx_remote :: remote_env
  cx_server :: "remote_calls \<Rightarrow> error + cs_server"
  cx_deploy :: "remote_calls \<Rightarrow> error + (string \<times> string list)"
  cx_address :: "remote_calls \<Rightarrow> error + (string \<times> string \<times> string)"
  cx_nat :: "remote_calls \<Rightarrow> error + (bool \<times> string)"
  cx_offering :: "remote_calls \<Rightarrow> error + string"
  cx_net :: "remote_calls \<Rightarrow> error + (string \<times> int)"
  cx_setters :: "string \<Rightarrow> string list"

definition cs_error :: "cs_env \<Rightarrow> cloudstack_call \<Rightarrow> 'h hstate \<Rightarrow> error option \<times> 'h hstate" where
  "cs_error X c = ask_remote (rans_err (cx_remote X)) (CloudStack c)"

text \<open>\<^verbatim>\<open>defaultOptions\<close>, applied to the parameters of a request.\<close>

definition default_options :: "cs_wrapper \<Rightarrow> (string \<times> string) list" where
  "default_options w = filter (\<lambda>(n, v). v \<noteq> [])
     [(''hypervisor'', cw_Hypervisor w), (''templateid'', cw_TemplateId w), (''podid'', cw_PodId w), (''clusterid'', cw_ClusterId w),
      (''hostid'', cw_HostId w), (''projectid'', cw_ProjectID w), (''vpcid'', cw_VpcId w), (''keypair'', cw_SshKeyName w)]"

definition ApplyOptions :: "cs_env \<Rightarrow> cs_wrapper \<Rightarrow> string \<Rightarrow> 'h hstate \<Rightarrow> (error + (string \<times> string) list) \<times> 'h hstate" where
  "ApplyOptions X w params s =
     (let (err, s) = cs_error X (ApplyOption ''zone'' (cw_ZoneId w)) s
      in case err of
           Some e \<Rightarrow> (Inl e, s)
         | None \<Rightarrow>
             let (err, s) = cs_error X (ApplyOption ''project'' (cw_ProjectID w)) s
             in case err of
                  Some e \<Rightarrow> (Inl e, s)
                | None \<Rightarrow> (Inr (filter (\<lambda>(n, v). n \<in> set (cx_setters X params)) (default_options w)), s))"

section \<open>Networks\<close>

fun cs_find_networks :: "cs_env \<Rightarrow> conf_interface list \<Rightarrow> 'h hstate \<Rightarrow> (error + string list) \<times> 'h hstate" where
  "cs_find_networks X [] s = (Inr [], s)"
| "cs_find_networks X (c # cs) s =
     (let name = ci_NetworkName c; (r, s) = ask_remote (cx_net X) (CloudStack (GetNetworkByName name)) s
      in case r of
           Inl e \<Rightarrow> (Inl (Errorf ''unable to find network: %s, reason: %v'' [name, err_text e]), s)
         | Inr (u, n) \<Rightarrow>
             if n = 0 then (Inl (Errorf ''network: %s not found'' [name]), s)
             else if n = 1 then let (r, s) = cs_find_networks X cs s in (map_sum id ((#) u) r, s)
             else (Inl (Errorf ''%d named networks: %s'' [Itoa n, name]), s))"

text \<open>\<^verbatim>\<open>ConfigurationDidLoad\<close> once the client is made.\<close>

definition cs_DidLoad :: "cs_env \<Rightarrow> cs_wrapper \<Rightarrow> 'h hstate \<Rightarrow> (error + cs_wrapper) \<times> 'h hstate" where
  "cs_DidLoad X w s =
     (let (r, s) = cs_find_networks X (cw_Interfaces w) s;
          net = \<lparr>Domain = cw_Domain w, Interfaces = map cloud_interface (cw_Interfaces w), DNS = None,
            net_nodeIndex = 0, net_controlPlane = False\<rparr>
      in (map_sum id (\<lambda>ids. w\<lparr>cw_network := ConfigurationDidLoad net, cw_networkIDs := ids\<rparr>) r, s))"

text \<open>The primary interface with the identifier of its network.\<close>

definition primary_with :: "network \<Rightarrow> string list \<Rightarrow> (net_interface \<times> string) option" where
  "primary_with net extras = find (\<lambda>(n, x). IsEnabled n \<and> Primary n) (zip (Interfaces net) extras)"

section \<open>Instances\<close>

definition cs_getServiceOffering :: "cs_env \<Rightarrow> string \<Rightarrow> 'h hstate \<Rightarrow> (error + string) \<times> 'h hstate" where
  "cs_getServiceOffering X name = ask_remote (cx_offering X) (CloudStack (GetServiceOfferingID name))"

definition cs_getAddress :: "cs_server \<Rightarrow> error + string" where
  "cs_getAddress server =
     (case cs_Nics server of [] \<Rightarrow> Inl (Errorf ''instance: %s doesn't have nic'' [cs_Name server]) | a # _ \<Rightarrow> Inr a)"

definition cs_getServerInstance :: "cs_env \<Rightarrow> string \<Rightarrow> 'h hstate \<Rightarrow> (error + server_instance) \<times> 'h hstate" where
  "cs_getServerInstance X name s =
     (let (r, s) = ask_remote (cx_server X) (CloudStack (GetVirtualMachineByName name)) s
      in case r of
           Inl e \<Rightarrow> (Inl e, s)
         | Inr server \<Rightarrow> (map_sum id (\<lambda>a. \<lparr>si_InstanceName = cs_Name server, si_InstanceID = cs_Id server,
              si_PrivateDNSName = cs_Instancename server, si_AddressIP = a, si_Region = cs_Zonename server,
              si_Zone = cs_Hostname server, si_PublicAddress = cs_Publicip server,
              si_PublicAddressID = cs_Publicipid server\<rparr>) (cs_getAddress server), s))"

definition cs_InstanceExists :: "cs_env \<Rightarrow> string \<Rightarrow> 'h hstate \<Rightarrow> bool \<times> 'h hstate" where
  "cs_InstanceExists X name s = (let (r, s) = cs_getServerInstance X name s in (error_of r = None, s))"

definition cs_UUID :: "cs_env \<Rightarrow> string \<Rightarrow> 'h hstate \<Rightarrow> (error + string) \<times> 'h hstate" where
  "cs_UUID X name s = (let (r, s) = cs_getServerInstance X name s in (map_sum id si_InstanceID r, s))"

text \<open>The instance that is attached has only its name and its identifier.\<close>

definition cs_AttachInstance ::
  "cs_env \<Rightarrow> ipconv \<Rightarrow> cs_wrapper \<Rightarrow> string \<Rightarrow> bool \<Rightarrow> int \<Rightarrow> 'h hstate \<Rightarrow> (error + server_handler) \<times> 'h hstate" where
  "cs_AttachInstance X ip w instanceName control nodeIndex s =
     (let (r, s) = cs_UUID X instanceName s
      in (map_sum id (\<lambda>u. \<lparr>sv_network = Network_Clone ip control nodeIndex (cw_network w), sv_extras = cw_networkIDs w,
          sv_running = Some (new_instance instanceName u [] []), sv_instanceType = [], sv_instanceName = instanceName,
          sv_instanceID = u, sv_controlPlane = control, sv_nodeIndex = nodeIndex, sv_dnsZoneID = None, sv_dnsEntryID = None,
          sv_floatingIP = None\<rparr>) r, s))"

definition cs_CreateInstance ::
  "cs_env \<Rightarrow> ipconv \<Rightarrow> cs_wrapper \<Rightarrow> string \<Rightarrow> string \<Rightarrow> bool \<Rightarrow> int \<Rightarrow> 'h hstate \<Rightarrow> (error + server_handler) \<times> 'h hstate" where
  "cs_CreateInstance X ip w instanceName instanceType control nodeIndex s =
     (let (found, s) = cs_InstanceExists X instanceName s
      in if found then (Inl (Errorf ErrVMAlreadyExists [instanceName]), s)
         else let (r, s) = cs_getServiceOffering X instanceType s
              in (map_sum id (\<lambda>offering. \<lparr>sv_network = Network_Clone ip control nodeIndex (cw_network w),
                  sv_extras = cw_networkIDs w, sv_running = None, sv_instanceType = offering, sv_instanceName = instanceName,
                  sv_instanceID = [], sv_controlPlane = control, sv_nodeIndex = nodeIndex, sv_dnsZoneID = None,
                  sv_dnsEntryID = None, sv_floatingIP = None\<rparr>) r, s))"

section \<open>Power\<close>

definition cs_getServer :: "cs_env \<Rightarrow> string \<Rightarrow> 'h hstate \<Rightarrow> (error + cs_server) \<times> 'h hstate" where
  "cs_getServer X u = ask_remote (cx_server X) (CloudStack (GetVirtualMachineByID u))"

definition cs_state :: "cs_env \<Rightarrow> string \<Rightarrow> 'h asks_state" where
  "cs_state X u s = (let (r, s) = cs_getServer X u s in (map_sum id cs_State r, s))"

definition cs_fails :: "string \<Rightarrow> bool" where
  "cs_fails status \<longleftrightarrow> status \<noteq> ''STARTING'' \<and> status \<noteq> ''BUILD''"

definition cs_expectStatus :: "cs_env \<Rightarrow> server_instance \<Rightarrow> string \<Rightarrow> string \<Rightarrow> 'h hstate \<Rightarrow> (bool \<times> error option) \<times> 'h hstate" where
  "cs_expectStatus X i = expect_status (cs_state X (si_InstanceID i)) cs_fails (si_InstanceName i)"

definition cs_wait :: "cs_env \<Rightarrow> cs_wrapper \<Rightarrow> server_instance \<Rightarrow> string \<Rightarrow> string \<Rightarrow> 'h hstate \<Rightarrow> (error option \<times> 'h hstate) go" where
  "cs_wait X w i = wait_status (cx_remote X) (cs_state X (si_InstanceID i)) cs_fails (cw_Timeout w) (si_InstanceName i)"

definition cs_powered :: "string list" where
  "cs_powered = [''RUNNING'', ''STARTING'']"

definition cs_start :: "cs_env \<Rightarrow> cs_wrapper \<Rightarrow> server_instance \<Rightarrow> 'h hstate \<Rightarrow> (error option \<times> 'h hstate) go" where
  "cs_start X w i s =
     (let (r, s) = ApplyOptions X w ''startVirtualMachine'' s
      in Ret (case r of
             Inl e \<Rightarrow> (Some e, s)
           | Inr opts \<Rightarrow> cs_error X (StartVirtualMachine (si_InstanceID i) opts) s))"

definition cs_PowerOn :: "cs_env \<Rightarrow> cs_wrapper \<Rightarrow> server_instance \<Rightarrow> 'h hstate \<Rightarrow> (error option \<times> 'h hstate) go" where
  "cs_PowerOn X w i = switch_power (cs_state X (si_InstanceID i)) cs_powered True
     (cs_start X w i) (cs_wait X w i ''RUNNING'' ''STOPPED'')"

definition cs_PowerOff :: "cs_env \<Rightarrow> cs_wrapper \<Rightarrow> server_instance \<Rightarrow> 'h hstate \<Rightarrow> (error option \<times> 'h hstate) go" where
  "cs_PowerOff X w i = switch_power (cs_state X (si_InstanceID i)) cs_powered False
     (\<lambda>s. Ret (cs_error X (StopVirtualMachine (si_InstanceID i)) s)) (cs_wait X w i ''STOPPED'' ''RUNNING'')"

definition cs_WaitForIP :: "cs_env \<Rightarrow> cs_wrapper \<Rightarrow> server_instance \<Rightarrow> 'h hstate \<Rightarrow> ((string \<times> error option) \<times> 'h hstate) go" where
  "cs_WaitForIP X w i =
     wait_for_ip (cx_remote X) (cw_Timeout w) (cs_expectStatus X i ''RUNNING'' []) (si_InstanceName i) (si_AddressIP i)"

definition cs_Delete :: "cs_env \<Rightarrow> server_instance \<Rightarrow> 'h hstate \<Rightarrow> error option \<times> 'h hstate" where
  "cs_Delete X i s =
     (let (err, s) = cs_error X (DestroyVirtualMachine (si_InstanceID i) True) s
      in if err = None \<and> si_PublicAddressID i \<noteq> [] then cs_error X (DisassociateIpAddress (si_PublicAddressID i)) s
         else (err, s))"

definition cs_Status :: "cs_env \<Rightarrow> server_instance \<Rightarrow> 'h hstate \<Rightarrow> (error + instance_status) \<times> 'h hstate" where
  "cs_Status X i s =
     (let (r, s) = cs_getServer X (si_InstanceID i) s
      in case r of
           Inl e \<Rightarrow> (Inl e, s)
         | Inr server \<Rightarrow> (map_sum id (\<lambda>a. \<lparr>Address = a, Powered = (ToUpper (cs_State server) = ''RUNNING'')\<rparr>)
             (cs_getAddress server), s))"

section \<open>Creating an instance\<close>

text \<open>The user data, encoded already by the handler, is encoded once more.\<close>

definition cs_create_request ::
  "cs_wrapper \<Rightarrow> server_handler \<Rightarrow> bool \<Rightarrow> string \<Rightarrow> net_interface \<Rightarrow> string \<Rightarrow> (string \<times> string) list \<Rightarrow> cs_request" where
  "cs_create_request w h control userData primaryInterface networkID opts =
     \<lparr>cq_Offering = sv_instanceType h, cq_Template = cw_TemplateId w, cq_Zone = cw_ZoneId w, cq_Name = sv_instanceName h,
      cq_Networks = [networkID], cq_UserData = (if userData \<noteq> [] then Some (base64 userData) else None),
      cq_IpAddress = (if if_IPAddress primaryInterface \<noteq> [] then Some (if_IPAddress primaryInterface) else None),
      cq_SecurityGroups = (if cw_VpcId w = [] then Some [if control then cw_ControlPlaneGroup w else cw_WorkerGroup w] else None),
      cq_Options = opts\<rparr>"

text \<open>A public address: the network is asked for by the name of the interface, not by its identifier.\<close>

definition cs_public_address ::
  "cs_env \<Rightarrow> string \<Rightarrow> net_interface \<Rightarrow> string \<Rightarrow> server_state \<Rightarrow> error option \<times> server_state" where
  "cs_public_address X instanceName primaryInterface serverId s =
     (let (r, s) = ask_remote (cx_address X) (CloudStack (AssociateIpAddress (NetworkName primaryInterface))) s
      in case r of
           Inl e \<Rightarrow> (Some (Errorf ''unable to associate address for instance: %s. Reason: %v'' [instanceName, err_text e]), s)
         | Inr (addressId, address, zone) \<Rightarrow>
             let (r, s) = ask_remote (cx_nat X) (CloudStack (EnableStaticNat addressId serverId)) s
             in case r of
                  Inl e \<Rightarrow> (Some (Errorf ''unable to enable static nat for instance: %s. Reason: %v'' [instanceName, err_text e]), s)
                | Inr (success, reason) \<Rightarrow>
                    if \<not> success then (Some (Errorf ''unable to start static nat for instance: %s. failed: %v'' [instanceName, reason]), s)
                    else (None, change_running (\<lambda>i. i\<lparr>si_PublicAddress := address, si_PublicAddressID := addressId,
                           si_Region := zone\<rparr>) s))"

definition cs_use_public :: "cs_wrapper \<Rightarrow> bool \<Rightarrow> bool" where
  "cs_use_public w control \<longleftrightarrow> (if control then cw_PublicControlPlaneNode w else cw_PublicWorkerNode w)"

definition cs_Create ::
  "cs_env \<Rightarrow> cs_wrapper \<Rightarrow> bool \<Rightarrow> string \<Rightarrow> server_state \<Rightarrow> (error option \<times> server_state) go" where
  "cs_Create X w control userData s =
     (let name = sv_instanceName (fst s)
      in case primary_with (sv_network (fst s)) (sv_extras (fst s)) of
           None \<Rightarrow> Panic NilDeref
         | Some (primaryInterface, networkID) \<Rightarrow>
             let (r, s) = ApplyOptions X w ''deployVirtualMachine'' s
             in case r of
                  Inl e \<Rightarrow> Ret (Some e, s)
                | Inr opts \<Rightarrow>
                    let request = cs_create_request w (fst s) control userData primaryInterface networkID opts;
                        (r, s) = ask_remote (cx_deploy X) (CloudStack (DeployVirtualMachine request)) s
                    in case r of
                         Inl e \<Rightarrow> Ret (Some (Errorf ''server creation failed for: %s, reason: %v'' [name, err_text e]), s)
                       | Inr (serverId, []) \<Rightarrow>
                           Ret (Some (Errorf ''unable to get ip address for server: %s'' [name]),
                             change_running (\<lambda>i. i\<lparr>si_InstanceID := serverId\<rparr>) s)
                       | Inr (serverId, a # _) \<Rightarrow>
                           let s = change_running (\<lambda>i. i\<lparr>si_InstanceID := serverId, si_AddressIP := a\<rparr>) s
                           in Ret (if cs_use_public w control
                                   then cs_public_address X name primaryInterface serverId s else (None, s)))"

section \<open>The handler\<close>

fun cs_handle ::
  "cs_env \<Rightarrow> codec \<Rightarrow> cs_wrapper \<Rightarrow> handler_call \<Rightarrow> server_state \<Rightarrow> (handler_result \<times> server_state) go" where
  "cs_handle X cd w (ConfigureNetwork net) s = configure_network (CloudStack_Managed (net_CloudStack net)) s"
| "cs_handle X cd w RetrieveNetworkInfos s = when_identified (Done (Some not_attached)) (\<lambda>s. Ret (Done None, s)) s"
| "cs_handle X cd w UpdateMacAddressTable s = update_mac_table s"
| "cs_handle X cd w GenerateProviderID s = Ret (Text (sv_instanceID (fst s)) None, s)"
| "cs_handle X cd w GetTopologyLabels s = running_labels s"
| "cs_handle X cd w (InstanceCreate input) s =
     create_on_instance [] [] (encoded_cloud_init cd (in_CloudInit input)) (cs_Create X w (in_ControlPlane input)) s"
| "cs_handle X cd w InstanceWaitReady s =
     when_running (Text [] (Some not_ready)) (\<lambda>i s. answering (\<lambda>(a, err). Text a err) (cs_WaitForIP X w i s)) s"
| "cs_handle X cd w InstancePrimaryAddressIP s = Ret (Text (PrimaryAddressIP (sv_network (fst s))) None, s)"
| "cs_handle X cd w InstanceID s =
     when_running (Text [] (Some not_attached)) (\<lambda>i s. Ret (Text (si_InstanceID i) None, s)) s"
| "cs_handle X cd w InstanceAutoStart s = Ret (Done None, s)"
| "cs_handle X cd w InstancePowerOn s =
     when_running (Done (Some not_attached)) (\<lambda>i s. answering Done (cs_PowerOn X w i s)) s"
| "cs_handle X cd w InstancePowerOff s =
     when_running (Done (Some not_attached)) (\<lambda>i s. answering Done (cs_PowerOff X w i s)) s"
| "cs_handle X cd w InstanceDelete s =
     when_running (Done (Some not_attached)) (\<lambda>i s. answering Done (Ret (cs_Delete X i s))) s"
| "cs_handle X cd w InstanceCreated s =
     when_running (Flag False None) (\<lambda>i s. answering (\<lambda>b. Flag b None) (Ret (cs_InstanceExists X (sv_instanceName (fst s)) s))) s"
| "cs_handle X cd w InstanceStatus s =
     when_running (Status None (Some not_attached)) (\<lambda>i s.
       answering (\<lambda>r. case r of Inl e \<Rightarrow> Status None (Some e) | Inr st \<Rightarrow> Status (Some st) None) (Ret (cs_Status X i s))) s"
| "cs_handle X cd w InstanceWaitForToolsRunning s = Ret (Flag True None, s)"
| "cs_handle X cd w (InstanceMaxPods desired) s = Ret (Number (default_max_pods desired) None, s)"
| "cs_handle X cd w (RegisterDNS address) s =
     Ret (map_prod Done id (change_dns (cx_remote X) (cw_bind9Provider w) True (sv_instanceName (fst s)) (cw_Domain w) address s))"
| "cs_handle X cd w (UnregisterDNS address) s =
     Ret (map_prod Done id (change_dns (cx_remote X) (cw_bind9Provider w) False (sv_instanceName (fst s)) (cw_Domain w) address s))"

end
