(* ===== verification/CloudStack_Facts.thy ===== *)
theory CloudStack_Facts
  imports CloudStack
begin

text \<open>The CloudStack provider: what a switch shows, what a creation requests and a deletion releases.\<close>

section \<open>The contracts\<close>

definition cs_shown :: "cs_env \<Rightarrow> string \<Rightarrow> string \<Rightarrow> remote_calls \<Rightarrow> bool" where
  "cs_shown X u st calls \<longleftrightarrow> (\<exists>server before. calls = CloudStack (GetVirtualMachineByID u) # before \<and>
     cx_server X calls = Inr server \<and> cs_State server = st)"

interpretation cs_source: server_source "cs_state X u" "cs_shown X u" for X u
proof
  fix s s' :: "'h hstate" and st
  assume "cs_state X u s = (Inr st, s')"
  then show "cs_shown X u st (snd (snd s'))"
    by (cases s) (auto simp: cs_state_def cs_getServer_def cs_shown_def map_sum_def split: sum.splits)
next
  fix s :: "'h hstate"
  show "fst (snd (cs_state X u s)) = fst s" by (cases s) (simp add: cs_state_def cs_getServer_def)
  show "\<exists>later. snd (snd (snd (cs_state X u s))) = later @ snd (snd s)"
    by (cases s) (simp add: cs_state_def cs_getServer_def)
qed

lemma cs_requests_keep:
  "fst (snd (cs_error X c s)) = fst s" "fst (snd (ApplyOptions X w params s)) = fst s"
  "fst (snd (cs_Delete X i s)) = fst s" "fst (snd (cs_InstanceExists X name s)) = fst s" "fst (snd (cs_Status X i s)) = fst s"
  by (cases s; simp add: cs_error_def ApplyOptions_def cs_Delete_def cs_InstanceExists_def cs_getServerInstance_def
      cs_Status_def cs_getServer_def Let_def split: sum.split option.split)+

lemma cs_error_keeps: "holds (\<lambda>(r, s'). fst s' = fst s) (Ret (cs_error X c s))"
  by (simp add: case_prod_unfold cs_requests_keep)

lemma cs_start_keeps: "holds (\<lambda>(r, s'). fst s' = fst s) (cs_start X w i s)"
proof -
  obtain r t where a: "ApplyOptions X w ''startVirtualMachine'' s = (r, t)" by (rule prod.exhaust)
  then have "fst t = fst s" using cs_requests_keep(2) [of X w "''startVirtualMachine''" s] by simp
  with a cs_requests_keep(1) [of X _ t] show ?thesis
    by (auto simp: cs_start_def case_prod_unfold Let_def split: sum.split)
qed

lemma cs_switch_keeps:
  "holds (\<lambda>(r, s'). fst s' = fst s) (cs_PowerOn X w i s)" "holds (\<lambda>(r, s'). fst s' = fst s) (cs_PowerOff X w i s)"
  "holds (\<lambda>(r, s'). fst s' = fst s) (cs_WaitForIP X w i s)"
  unfolding cs_PowerOn_def cs_PowerOff_def cs_WaitForIP_def cs_wait_def cs_expectStatus_def
  by (rule cs_source.switch_keeps cs_source.wait_keeps cs_source.ip_keeps cs_start_keeps cs_error_keeps)+

lemma cs_plain_keep:
  "holds (\<lambda>(r, s'). fst s' = fst s) (Ret (cs_Delete X i s))" "holds (\<lambda>(r, s'). fst s' = fst s) (Ret (cs_InstanceExists X name s))"
  "holds (\<lambda>(r, s'). fst s' = fst s) (Ret (cs_Status X i s))"
  by (simp_all add: case_prod_unfold cs_requests_keep)

lemma cs_handle_attached:
  assumes "\<not> creates_instance c"
  shows "stays_attached s (cs_handle X cd w c s)"
proof (cases c)
  case (RegisterDNS address)
  then show ?thesis by (simp add: change_dns_attached del: holds_simps)
next
  case (UnregisterDNS address)
  then show ?thesis by (simp add: change_dns_attached del: holds_simps)
qed (use assms in \<open>auto simp: when_identified_def simp del: holds_simps
    intro!: running_attached answering_attached common_attached Ret_attached
      cs_switch_keeps [THEN stays_attachedI] cs_plain_keep [THEN stays_attachedI]\<close>)

interpretation cloudstack: attached_handler "\<lambda>h. sv_running h \<noteq> None" "cs_handle X cd w" needs_running creates_instance
  for X cd w
proof
  fix c and s :: server_state
  assume "needs_running c" "\<not> sv_running (fst s) \<noteq> None"
  then show "\<exists>r. cs_handle X cd w c s = Ret (r, s) \<and> result_error r \<noteq> None"
    by (cases c) (auto simp: when_running_def)
next
  fix c r and s s' :: server_state
  assume "cs_handle X cd w c s = Ret (r, s')" "\<not> creates_instance c"
  then show "(sv_running (fst s') \<noteq> None) = (sv_running (fst s) \<noteq> None)"
    using cs_handle_attached [of c s X cd w] by simp
qed

section \<open>Power\<close>

lemma cs_state_calls: "snd (snd (snd (cs_state X u s))) = CloudStack (GetVirtualMachineByID u) # snd (snd s)"
  by (cases s) (simp add: cs_state_def cs_getServer_def)

lemma cs_error_calls: "cs_error X c s = (e, t) \<Longrightarrow> snd (snd t) = CloudStack c # snd (snd s)"
  by (cases s) (auto simp: cs_error_def)

text \<open>Switching off, when it succeeds, has seen the machine off, or stopped after asking for it.\<close>

theorem cs_PowerOff_success:
  assumes "cs_handle X cd w InstancePowerOff s = Ret (Done None, s')" "sv_running (fst s) = Some i"
  defines "u \<equiv> si_InstanceID i"
  shows "fst s' = fst s \<and> (\<exists>st. cs_shown X u st (snd (snd s')) \<and>
    (ToUpper st \<notin> {''RUNNING'', ''STARTING''} \<and> snd (snd s') = CloudStack (GetVirtualMachineByID u) # snd (snd s) \<or>
     ToUpper st = ''STOPPED'' \<and> (\<exists>later. snd (snd s') = later @ CloudStack (StopVirtualMachine u) #
        CloudStack (GetVirtualMachineByID u) # snd (snd s))))"
proof -
  from assms have p: "cs_PowerOff X w i s = Ret (None, s')"
    by (auto simp: when_running_def answering_def)
  then have k: "fst s' = fst s" using cs_switch_keeps(2) [of s X w i] by simp
  from cs_source.switch_success [OF p [unfolded cs_PowerOff_def cs_wait_def]] show ?thesis
  proof (elim disjE exE conjE)
    fix st assume "cs_shown X (si_InstanceID i) st (snd (snd s'))" "(ToUpper st \<in> set cs_powered) = False"
      "s' = snd (cs_state X (si_InstanceID i) s)"
    with k show ?thesis by (auto simp: u_def cs_state_calls cs_powered_def intro!: exI [of _ st])
  next
    fix st t later assume r: "Ret (cs_error X (StopVirtualMachine (si_InstanceID i)) (snd (cs_state X (si_InstanceID i) s))) = Ret (None, t)"
      and l: "snd (snd s') = later @ snd (snd t)" and st: "cs_shown X (si_InstanceID i) st (snd (snd s'))" "ToUpper st = ''STOPPED''"
    from r have "cs_error X (StopVirtualMachine (si_InstanceID i)) (snd (cs_state X (si_InstanceID i) s)) = (None, t)" by simp
    from cs_error_calls [OF this] l have "snd (snd s') = later @ CloudStack (StopVirtualMachine u) #
        CloudStack (GetVirtualMachineByID u) # snd (snd s)"
      by (simp add: u_def cs_state_calls)
    with k st show ?thesis by (auto simp: u_def intro!: exI [of _ st])
  qed
qed

text \<open>A machine that is seen while it is stopping makes the switch fail.\<close>

theorem cs_stopping_fails:
  assumes "sv_running h = Some i" and "asked = CloudStack (GetVirtualMachineByID (si_InstanceID i)) # calls"
    and "stopped = CloudStack (StopVirtualMachine (si_InstanceID i)) # asked"
    and "seen = CloudStack (GetVirtualMachineByID (si_InstanceID i)) # RPoll # stopped"
    and "cx_server X asked = Inr server" "ToUpper (cs_State server) = ''RUNNING''" "rans_err (cx_remote X) stopped = None"
    and "cx_server X seen = Inr stopping" "ToUpper (cs_State stopping) = ''STOPPING''"
  shows "cs_handle X cd w InstancePowerOff (h, t, calls) =
    Ret (Done (Some (Errorf ErrWrongStateMachine [''STOPPING'', si_InstanceName i, ''STOPPED''])), h, t, seen)"
  using assms
  by (simp add: when_running_def answering_def cs_PowerOff_def switch_power_def is_powered_def cs_state_def cs_getServer_def
      cs_powered_def cs_error_def cs_wait_def wait_status_def remote_PollImmediate_def expect_status_def decide_status_def cs_fails_def)

section \<open>Creations and deletions\<close>

text \<open>
  \<open>translated\<close>: an address was associated with the network named like the interface, and this same address
  is translated to the machine, which the cloud has confirmed.
\<close>

definition translated :: "cs_env \<Rightarrow> string \<Rightarrow> string \<Rightarrow> string \<Rightarrow> string \<Rightarrow> remote_calls \<Rightarrow> remote_calls \<Rightarrow> bool" where
  "translated X network serverId aid a before after \<longleftrightarrow>
     (\<exists>associated zone reason. associated = CloudStack (AssociateIpAddress network) # before \<and>
       cx_address X associated = Inr (aid, a, zone) \<and> after = CloudStack (EnableStaticNat aid serverId) # associated \<and>
       cx_nat X after = Inr (True, reason))"

lemma cs_public_address_success:
  assumes "cs_public_address X name n serverId s = (None, s')"
  shows "\<exists>aid a zone. translated X (NetworkName n) serverId aid a (snd (snd s)) (snd (snd s')) \<and>
    fst s' = (fst s)\<lparr>sv_running := map_option (\<lambda>i. i\<lparr>si_PublicAddress := a, si_PublicAddressID := aid, si_Region := zone\<rparr>) (sv_running (fst s))\<rparr>"
  using assms
  by (cases s) (auto simp: cs_public_address_def translated_def split: sum.splits prod.splits if_splits)

lemma ApplyOptions_calls:
  "ApplyOptions X w params s = (Inr opts, t) \<Longrightarrow> fst t = fst s \<and>
     snd (snd t) = CloudStack (ApplyOption ''project'' (cw_ProjectID w)) # CloudStack (ApplyOption ''zone'' (cw_ZoneId w)) # snd (snd s)"
  by (cases s) (auto simp: ApplyOptions_def cs_error_def split: option.splits)

text \<open>
  A creation that succeeds has deployed one machine in the network of the primary interface, with the
  user data encoded twice; a public address is associated when the role of the machine asks for one.
\<close>

lemma cs_Create_success:
  assumes "cs_Create X w control userData s = Ret (None, s')" "sv_running (fst s) = Some i"
  shows "\<exists>n u opts serverId a rest deployed j.
    primary_with (sv_network (fst s)) (sv_extras (fst s)) = Some (n, u) \<and>
    deployed = CloudStack (DeployVirtualMachine (cs_create_request w (fst s) control userData n u opts)) #
      CloudStack (ApplyOption ''project'' (cw_ProjectID w)) # CloudStack (ApplyOption ''zone'' (cw_ZoneId w)) # snd (snd s) \<and>
    cx_deploy X deployed = Inr (serverId, a # rest) \<and> sv_running (fst s') = Some j \<and> si_InstanceID j = serverId \<and> si_AddressIP j = a \<and>
    (if cs_use_public w control
     then translated X (NetworkName n) serverId (si_PublicAddressID j) (si_PublicAddress j) deployed (snd (snd s'))
     else snd (snd s') = deployed \<and> si_PublicAddressID j = si_PublicAddressID i)"
proof -
  from assms(1) obtain n u where p: "primary_with (sv_network (fst s)) (sv_extras (fst s)) = Some (n, u)"
    by (cases "primary_with (sv_network (fst s)) (sv_extras (fst s))") (auto simp: cs_Create_def)
  obtain r t where a: "ApplyOptions X w ''deployVirtualMachine'' s = (r, t)" by (rule prod.exhaust)
  with assms(1) p obtain opts where r: "r = Inr opts" by (cases r) (auto simp: cs_Create_def)
  with a ApplyOptions_calls [of X w "''deployVirtualMachine''" s opts t] have
    t: "fst t = fst s" "snd (snd t) = CloudStack (ApplyOption ''project'' (cw_ProjectID w)) # CloudStack (ApplyOption ''zone'' (cw_ZoneId w)) # snd (snd s)"
    by auto
  let ?c = "CloudStack (DeployVirtualMachine (cs_create_request w (fst s) control userData n u opts))"
  let ?d = "?c # snd (snd t)"
  define v where "v = snd (ask_remote (cx_deploy X) ?c t)"
  have d: "ask_remote (cx_deploy X) ?c t = (cx_deploy X ?d, v)" by (cases t) (simp add: v_def)
  have v: "fst v = fst s" "snd (snd v) = ?d" using t by (cases t; simp add: v_def)+
  from assms(1) p a r d t(1) obtain serverId ad rest where e: "cx_deploy X ?d = Inr (serverId, ad # rest)"
    by (cases "cx_deploy X ?d") (auto simp: cs_Create_def Let_def split: list.splits)
  define z where "z = change_running (\<lambda>i. i\<lparr>si_InstanceID := serverId, si_AddressIP := ad\<rparr>) v"
  have c: "(if cs_use_public w control
      then cs_public_address X (sv_instanceName (fst s)) n serverId z else (None, z)) = (None, s')"
    using assms(1) p a r d t(1) e unfolding z_def by (simp add: cs_Create_def Let_def split del: if_split)
  have z: "sv_running (fst z) = Some (i\<lparr>si_InstanceID := serverId, si_AddressIP := ad\<rparr>)" "snd (snd z) = ?d"
    using v assms(2) by (simp_all add: z_def)
  show ?thesis
  proof (cases "cs_use_public w control")
    case True
    with c have "cs_public_address X (sv_instanceName (fst s)) n serverId z = (None, s')" by simp
    from cs_public_address_success [OF this] True p e t z show ?thesis
      by (intro exI [of _ n] exI [of _ u] exI [of _ opts] exI [of _ serverId] exI [of _ ad] exI [of _ rest]) auto
  next
    case False
    with c have "s' = z" by simp
    with False p e t z show ?thesis
      by (intro exI [of _ n] exI [of _ u] exI [of _ opts] exI [of _ serverId] exI [of _ ad] exI [of _ rest]) auto
  qed
qed

text \<open>C31: Creating a machine on CloudStack, when it reports success, has deployed one machine from the template and the offering of the configuration, in the network of its primary interface, with its name, its address if one is declared, and the user data encoded twice; when its role asks for a public address, one was then associated with the network named like that interface, the very address of that answer was translated to the machine, which the cloud has confirmed, and the handler remembers it; no other call was made.\<close>

theorem cs_InstanceCreate_success:
  assumes "cs_handle X cd w (InstanceCreate input) s = Ret (Text u None, s')"
  shows "\<exists>doc n net opts a rest deployed.
    cloud_config cd (in_CloudInit input) = Inr doc \<and> primary_with (sv_network (fst s)) (sv_extras (fst s)) = Some (n, net) \<and>
    (\<exists>rq. deployed = CloudStack (DeployVirtualMachine rq) # CloudStack (ApplyOption ''project'' (cw_ProjectID w)) #
       CloudStack (ApplyOption ''zone'' (cw_ZoneId w)) # snd (snd s) \<and> cq_Networks rq = [net] \<and> cq_Name rq = sv_instanceName (fst s) \<and>
       (base64 doc \<noteq> [] \<longrightarrow> cq_UserData rq = Some (base64 (base64 doc))) \<and>
       cq_IpAddress rq = (if if_IPAddress n = [] then None else Some (if_IPAddress n)) \<and>
       cq_Template rq = cw_TemplateId w \<and> cq_Offering rq = sv_instanceType (fst s)) \<and>
    cx_deploy X deployed = Inr (u, a # rest) \<and> sv_instanceID (fst s') = u \<and>
    (if cs_use_public w (in_ControlPlane input)
     then \<exists>i. sv_running (fst s') = Some i \<and>
       translated X (NetworkName n) u (si_PublicAddressID i) (si_PublicAddress i) deployed (snd (snd s'))
     else snd (snd s') = deployed)"
proof -
  let ?i = "new_instance (sv_instanceName (fst s)) [] [] []"
  define s0 where "s0 = change_handler (\<lambda>h. h\<lparr>sv_running := Some (new_instance (sv_instanceName h) [] [] [])\<rparr>) s"
  from assms obtain doc where doc: "cloud_config cd (in_CloudInit input) = Inr doc"
    by (cases "cloud_config cd (in_CloudInit input)") (auto simp: create_on_instance_def encoded_cloud_init_def)
  with assms obtain err t where c: "cs_Create X w (in_ControlPlane input) (base64 doc) s0 = Ret (err, t)"
    and r: "(case err of Some e \<Rightarrow> Ret (Text [] (Some e), t)
      | None \<Rightarrow> (case sv_running (fst t) of None \<Rightarrow> Panic NilDeref
          | Some i \<Rightarrow> Ret (Text (si_InstanceID i) None, change_handler (\<lambda>h. h\<lparr>sv_instanceID := si_InstanceID i\<rparr>) t))) =
      Ret (Text u None, s')"
    by (auto simp: create_on_instance_def encoded_cloud_init_def s0_def)
  from r have "err = None" by (auto split: option.splits)
  with c have c: "cs_Create X w (in_ControlPlane input) (base64 doc) s0 = Ret (None, t)" by simp
  have "sv_running (fst s0) = Some ?i" by (simp add: s0_def)
  from cs_Create_success [OF c this] obtain n net opts serverId a rest deployed j where
    o: "primary_with (sv_network (fst s)) (sv_extras (fst s)) = Some (n, net)"
    "deployed = CloudStack (DeployVirtualMachine (cs_create_request w (fst s0) (in_ControlPlane input) (base64 doc) n net opts)) #
      CloudStack (ApplyOption ''project'' (cw_ProjectID w)) # CloudStack (ApplyOption ''zone'' (cw_ZoneId w)) # snd (snd s)"
    "cx_deploy X deployed = Inr (serverId, a # rest)" "sv_running (fst t) = Some j" "si_InstanceID j = serverId"
    "if cs_use_public w (in_ControlPlane input)
     then translated X (NetworkName n) serverId (si_PublicAddressID j) (si_PublicAddress j) deployed (snd (snd t))
     else snd (snd t) = deployed"
    by (auto simp: s0_def)
  from r \<open>err = None\<close> o(4,5) have u: "u = serverId" "s' = change_handler (\<lambda>h. h\<lparr>sv_instanceID := serverId\<rparr>) t" by auto
  define rq where "rq = cs_create_request w (fst s0) (in_ControlPlane input) (base64 doc) n net opts"
  have rq: "cq_Networks rq = [net]" "cq_Name rq = sv_instanceName (fst s)"
    "base64 doc \<noteq> [] \<longrightarrow> cq_UserData rq = Some (base64 (base64 doc))"
    "cq_IpAddress rq = (if if_IPAddress n = [] then None else Some (if_IPAddress n))"
    "cq_Template rq = cw_TemplateId w" "cq_Offering rq = sv_instanceType (fst s)"
    by (simp_all add: rq_def cs_create_request_def s0_def)
  from o(4,6) u have "if cs_use_public w (in_ControlPlane input)
     then \<exists>i. sv_running (fst s') = Some i \<and>
       translated X (NetworkName n) u (si_PublicAddressID i) (si_PublicAddress i) deployed (snd (snd s'))
     else snd (snd s') = deployed" by (auto split: if_splits)
  with doc o(1,2,3) u rq show ?thesis unfolding rq_def by (intro exI conjI) (assumption | simp)+
qed

text \<open>
  A deletion destroys the machine and releases the public address it knows; the address of a machine
  that was attached is not known, so it is never released.
\<close>

theorem cs_InstanceDelete_outcome:
  assumes "sv_running h = Some i" and "destroyed = CloudStack (DestroyVirtualMachine (si_InstanceID i) True) # calls"
    and "cs_handle X cd w InstanceDelete (h, t, calls) = Ret (Done err, s')"
  shows "if rans_err (cx_remote X) destroyed = None \<and> si_PublicAddressID i \<noteq> []
    then s' = (h, t, CloudStack (DisassociateIpAddress (si_PublicAddressID i)) # destroyed) \<and>
      err = rans_err (cx_remote X) (CloudStack (DisassociateIpAddress (si_PublicAddressID i)) # destroyed)
    else s' = (h, t, destroyed) \<and> err = rans_err (cx_remote X) destroyed"
  using assms
  by (auto simp: when_running_def answering_def cs_Delete_def cs_error_def)

theorem cs_attached_address_leaks:
  assumes "fst (cs_AttachInstance X ip w name control nodeIndex s) = Inr h"
  shows "\<exists>u err. cs_handle X cd w InstanceDelete (h, t, calls) =
      Ret (Done err, h, t, CloudStack (DestroyVirtualMachine u True) # calls) \<and>
    cs_handle X cd w GetTopologyLabels (h, t, calls) = Ret (Labels (topology_labels [] []), h, t, calls)"
proof -
  from assms obtain u where "sv_running h = Some (new_instance name u [] [])"
    by (auto simp: cs_AttachInstance_def map_sum_def split: prod.splits sum.splits)
  then show ?thesis
    by (auto simp: when_running_def answering_def cs_Delete_def cs_error_def running_labels_def new_instance_def)
qed

section \<open>The theorems at concrete inputs\<close>

definition sample_cs_server :: "string \<Rightarrow> cs_server" where
  "sample_cs_server status = \<lparr>cs_Id = ''u1'', cs_Name = ''n1'', cs_State = status, cs_Nics = [''10.0.0.2''], cs_Publicip = ''1.2.3.4'',
     cs_Publicipid = ''a1'', cs_Instancename = ''i-1'', cs_Zonename = ''zone1'', cs_Hostname = ''host1''\<rparr>"

text \<open>A cloud whose machine runs until it is asked to stop; then it is in the state given.\<close>

definition sample_cs_env :: "string \<Rightarrow> cs_env" where
  "sample_cs_env status = \<lparr>cx_remote = sample_remote_env,
     cx_server = (\<lambda>calls. Inr (sample_cs_server (if CloudStack (StopVirtualMachine ''u1'') \<in> set calls then status else ''Running''))),
     cx_deploy = (\<lambda>calls. Inr (''u1'', [''10.0.0.2''])), cx_address = (\<lambda>calls. Inr (''a1'', ''1.2.3.4'', ''zone1'')),
     cx_nat = (\<lambda>calls. Inr (True, [])), cx_offering = (\<lambda>calls. Inr ''o1''), cx_net = (\<lambda>calls. Inr (''net0'', 1)),
     cx_setters = (\<lambda>params. [])\<rparr>"

definition sample_ipconv :: ipconv where
  "sample_ipconv = \<lparr>IPv4ToInt = (\<lambda>bytes. None), IntToIPv4 = (\<lambda>n. [])\<rparr>"

definition sample_cs :: cs_wrapper where
  "sample_cs = \<lparr>cw_SshKeyName = [], cw_ProjectID = [], cw_ZoneId = ''z1'', cw_PodId = [], cw_ClusterId = [], cw_HostId = [], cw_VpcId = [],
     cw_Hypervisor = [], cw_TemplateId = ''t1'', cw_Timeout = 300, cw_Domain = ''local'', cw_Interfaces = [],
     cw_PublicControlPlaneNode = False, cw_PublicWorkerNode = True, cw_ControlPlaneGroup = ''default'', cw_WorkerGroup = ''default'',
     cw_bind9Provider = None, cw_network = sample_network, cw_networkIDs = [''net0'']\<rparr>"

lemmas sample_cloudstack = attached_server_handler_def new_server_handler_def new_instance_def sample_cs_env_def sample_cs_server_def
  sample_cs_def sample_remote_env_def

theorem cs_PowerOff_success_witness:
  "\<exists>s' st. cs_handle (sample_cs_env ''Stopped'') sample_documents sample_cs InstancePowerOff (attached_server_handler, gmake, []) =
     Ret (Done None, s') \<and> cs_shown (sample_cs_env ''Stopped'') ''u1'' st (snd (snd s')) \<and> ToUpper st \<notin> {''RUNNING'', ''STARTING''}"
proof -
  obtain s' where r: "cs_handle (sample_cs_env ''Stopped'') sample_documents sample_cs InstancePowerOff
      (attached_server_handler, gmake, []) = Ret (Done None, s')"
    by (simp add: when_running_def answering_def cs_PowerOff_def switch_power_def is_powered_def cs_state_def cs_getServer_def
        cs_powered_def cs_error_def cs_wait_def wait_status_def remote_PollImmediate_def expect_status_def decide_status_def
        cs_fails_def sample_cloudstack)
  from cs_PowerOff_success [OF r, of "new_instance ''n1'' ''u1'' [] []"] r show ?thesis
    by (auto simp: attached_server_handler_def new_instance_def simp del: cs_handle.simps)
qed

theorem cs_stopping_fails_witness:
  "\<exists>s' e. cs_handle (sample_cs_env ''Stopping'') sample_documents sample_cs InstancePowerOff (attached_server_handler, gmake, []) =
     Ret (Done (Some e), s')"
  by (subst cs_stopping_fails [OF _ refl refl refl, where i = "new_instance ''n1'' ''u1'' [] []"
        and server = "sample_cs_server ''Running''" and stopping = "sample_cs_server ''Stopping''"])
    (simp_all add: sample_cloudstack)

theorem cs_InstanceCreate_success_witness:
  "\<exists>s'. cs_handle (sample_cs_env []) sample_documents sample_cs (InstanceCreate sample_input) (new_server_handler, gmake, []) =
     Ret (Text ''u1'' None, s') \<and> sv_instanceID (fst s') = ''u1'' \<and> length (snd (snd s')) = 5"
proof -
  obtain s' where r: "cs_handle (sample_cs_env []) sample_documents sample_cs (InstanceCreate sample_input)
      (new_server_handler, gmake, []) = Ret (Text ''u1'' None, s')"
    by (simp add: create_on_instance_def encoded_cloud_init_def cloud_config_def sample_documents_def cs_Create_def primary_with_def
        sample_network_def sample_interface_def IsEnabled_def ApplyOptions_def cs_error_def change_running_def change_handler_def
        cs_public_address_def cs_use_public_def sample_input_def Let_def sample_cloudstack)
  have "cs_use_public sample_cs (in_ControlPlane sample_input)" by (simp add: cs_use_public_def sample_cs_def sample_input_def)
  with cs_InstanceCreate_success [OF r] r show ?thesis by (auto simp: translated_def simp del: cs_handle.simps)
qed

theorem cs_InstanceDelete_outcome_witness:
  "\<exists>s'. cs_handle (sample_cs_env []) sample_documents sample_cs InstanceDelete (attached_server_handler, gmake, []) = Ret (Done None, s') \<and>
     snd (snd s') = [CloudStack (DestroyVirtualMachine ''u1'' True)]"
proof -
  obtain s' where r: "cs_handle (sample_cs_env []) sample_documents sample_cs InstanceDelete (attached_server_handler, gmake, []) =
      Ret (Done None, s')"
    by (simp add: when_running_def answering_def cs_Delete_def cs_error_def sample_cloudstack)
  from cs_InstanceDelete_outcome [OF _ refl r, of "new_instance ''n1'' ''u1'' [] []"] r show ?thesis
    by (simp add: attached_server_handler_def new_instance_def del: cs_handle.simps)
qed

theorem cs_attached_address_leaks_witness:
  "\<exists>h u err. fst (cs_AttachInstance (sample_cs_env []) sample_ipconv sample_cs ''n1'' False 1 (new_server_handler, gmake, [])) = Inr h \<and>
     cs_handle (sample_cs_env []) sample_documents sample_cs InstanceDelete (h, gmake, []) =
       Ret (Done err, h, gmake, [CloudStack (DestroyVirtualMachine u True)])"
proof -
  obtain h where a: "fst (cs_AttachInstance (sample_cs_env []) sample_ipconv sample_cs ''n1'' False 1 (new_server_handler, gmake, [])) = Inr h"
    by (simp add: cs_AttachInstance_def cs_UUID_def cs_getServerInstance_def cs_getAddress_def sample_cs_env_def sample_cs_server_def)
  from cs_attached_address_leaks [OF a, of sample_documents gmake "[]"] a show ?thesis
    by (auto simp del: cs_handle.simps)
qed

end
