(* ===== verification/OpenStack.thy ===== *)
theory OpenStack
  imports CloudStack_Facts
begin

text \<open>
  Model of \<^verbatim>\<open>providers/openstack/\<close>: networks, images and flavors, the records of the name service, the
  instance of a handler and the handler. The clients of OpenStack are the environment \<open>os_env\<close>.
\<close>

section \<open>Configuration\<close>

text \<open>\<open>ow_floating\<close>: the network of the floating addresses, and whether control planes and workers get one.\<close>

record os_wrapper =
  ow_Image :: string
  ow_Timeout :: int
  ow_KeyName :: string
  ow_Region :: string
  ow_Zone :: string
  ow_Domain :: string
  ow_DNS :: "(string list \<times> string list) option"
  ow_Interfaces :: "conf_interface list"
  ow_floating :: "(string \<times> bool \<times> bool) option"
  ow_ControlPlaneGroup :: string
  ow_WorkerGroup :: string
  ow_UseBind9 :: bool
  ow_bind9Provider :: "dns_provider option"
  ow_dnsClient :: bool
  ow_network :: network
  ow_networkIDs :: "string list"
  ow_dnsZoneID :: "string option"

text \<open>The answers; \<open>ox_ids\<close> lists names with identifiers, \<open>ox_found\<close> identifiers or addresses.\<close>

record os_env =
  ox_remote :: remote_env
  ox_server :: "remote_calls \<Rightarrow> error + nova_server"
  ox_servers :: "remote_calls \<Rightarrow> error + nova_server list"
  ox_ids :: "remote_calls \<Rightarrow> error + (string \<times> string) list"
  ox_found :: "remote_calls \<Rightarrow> error + string list"
  ox_id :: "remote_calls \<Rightarrow> error + string"
  ox_no_network :: "string \<Rightarrow> error"
  ox_many_networks :: "string \<Rightarrow> nat \<Rightarrow> error"

definition os_error :: "os_env \<Rightarrow> openstack_call \<Rightarrow> 'h hstate \<Rightarrow> error option \<times> 'h hstate" where
  "os_error X c = ask_remote (rans_err (ox_remote X)) (OpenStack c)"

definition IDFromName :: "os_env \<Rightarrow> string \<Rightarrow> 'h hstate \<Rightarrow> (error + string) \<times> 'h hstate" where
  "IDFromName X name s =
     (let (r, s) = ask_remote (ox_ids X) (OpenStack (NetworkList name)) s
      in (case r of
            Inl e \<Rightarrow> Inl e
          | Inr all \<Rightarrow> (case filter (\<lambda>(n, u). n = name) all of
                [] \<Rightarrow> Inl (ox_no_network X name)
              | [(n, u)] \<Rightarrow> Inr u
              | found \<Rightarrow> Inl (ox_many_networks X name (length found))), s))"

text \<open>The identifier of the flavor, or of the image, of that name.\<close>

definition first_named :: "string \<Rightarrow> string \<Rightarrow> (string \<times> string) list \<Rightarrow> error + string" where
  "first_named what name all =
     (case find (\<lambda>(n, u). n = name) all of
        Some (n, u) \<Rightarrow> Inr u
      | None \<Rightarrow> Inl (Errorf (what @ '': %s, no found'') [name]))"

definition getFlavor :: "os_env \<Rightarrow> string \<Rightarrow> 'h hstate \<Rightarrow> (error + string) \<times> 'h hstate" where
  "getFlavor X name s =
     (let (r, s) = ask_remote (ox_ids X) (OpenStack FlavorList) s
      in (case r of Inl e \<Rightarrow> Inl e | Inr all \<Rightarrow> first_named ''flavor'' name all, s))"

definition getImage :: "os_env \<Rightarrow> string \<Rightarrow> 'h hstate \<Rightarrow> (error + string) \<times> 'h hstate" where
  "getImage X name s =
     (let (r, s) = ask_remote (ox_ids X) (OpenStack (ImageList name)) s
      in (case r of Inl e \<Rightarrow> Inl e | Inr all \<Rightarrow> first_named ''image'' name all, s))"

section \<open>Loading the configuration\<close>

definition floating_network ::
  "os_env \<Rightarrow> (string \<times> bool \<times> bool) option \<Rightarrow> 'h hstate \<Rightarrow> (error + (string \<times> bool \<times> bool) option) \<times> 'h hstate" where
  "floating_network X floating s =
     (case floating of
        None \<Rightarrow> (Inr None, s)
      | Some (net, masters, workers) \<Rightarrow>
          if net = [] then (if masters \<or> workers then Inl (Plain ''floating network is not defined'') else Inr floating, s)
          else let (r, s) = IDFromName X net s
               in (case r of
                     Inl e \<Rightarrow> Inl (Errorf ''the floating ip network: %s not found, reason: %v'' [net, err_text e])
                   | Inr u \<Rightarrow> Inr (Some (u, masters, workers)), s))"

fun os_find_networks :: "os_env \<Rightarrow> conf_interface list \<Rightarrow> 'h hstate \<Rightarrow> (error + string list) \<times> 'h hstate" where
  "os_find_networks X [] s = (Inr [], s)"
| "os_find_networks X (c # cs) s =
     (let (r, s) = IDFromName X (ci_NetworkName c) s
      in case r of
           Inl e \<Rightarrow> (Inl (Errorf ''unable to find network: %s, reason: %v'' [ci_NetworkName c, err_text e]), s)
         | Inr u \<Rightarrow> let (r, s) = os_find_networks X cs s in (map_sum id ((#) u) r, s))"

definition ConfigurationDns :: "os_env \<Rightarrow> string \<Rightarrow> 'h hstate \<Rightarrow> (error + string option) \<times> 'h hstate" where
  "ConfigurationDns X domain s =
     (let (r, s) = ask_remote (ox_found X) (OpenStack (ZoneList (domain @ ''.''))) s
      in (map_sum id (\<lambda>zones. case zones of [] \<Rightarrow> None | z # _ \<Rightarrow> Some z) r, s))"

text \<open>\<^verbatim>\<open>ConfigurationDidLoad\<close> once the clients are made.\<close>

definition os_DidLoad :: "os_env \<Rightarrow> os_wrapper \<Rightarrow> 'h hstate \<Rightarrow> (error + os_wrapper) \<times> 'h hstate" where
  "os_DidLoad X w s =
     (let (r, s) = getImage X (ow_Image w) s
      in case r of
           Inl e \<Rightarrow> (Inl e, s)
         | Inr imageID \<Rightarrow>
             let (r, s) = floating_network X (ow_floating w) s
             in case r of
                  Inl e \<Rightarrow> (Inl e, s)
                | Inr floating \<Rightarrow>
                    let (r, s) = os_find_networks X (ow_Interfaces w) s
                    in case r of
                         Inl e \<Rightarrow> (Inl e, s)
                       | Inr ids \<Rightarrow>
                           let net = ConfigurationDidLoad \<lparr>Domain = ow_Domain w,
                                 Interfaces = map cloud_interface (ow_Interfaces w), DNS = ow_DNS w, net_nodeIndex = 0,
                                 net_controlPlane = False\<rparr>;
                               w = w\<lparr>ow_Image := imageID, ow_floating := floating, ow_network := net, ow_networkIDs := ids\<rparr>
                           in if \<not> ow_UseBind9 w \<and> ow_dnsClient w
                              then let (r, s) = ConfigurationDns X (ow_Domain w) s
                                   in (map_sum id (\<lambda>zone. w\<lparr>ow_dnsZoneID := zone\<rparr>) r, s)
                              else (Inr w, s))"

section \<open>Records of the name service\<close>

text \<open>The fully qualified name of a record.\<close>

definition record_name :: "network \<Rightarrow> string \<Rightarrow> string" where
  "record_name net name = name @ ''.'' @ Domain net @ ''.''"

definition findDNSEntry :: "os_env \<Rightarrow> network \<Rightarrow> string \<Rightarrow> string \<Rightarrow> string \<Rightarrow> 'h hstate \<Rightarrow> (error + string) \<times> 'h hstate" where
  "findDNSEntry X net zone name recordType s =
     (let (r, s) = ask_remote (ox_found X) (OpenStack (RecordList zone (record_name net name) recordType)) s
      in (case r of
            Inl e \<Rightarrow> Inl e
          | Inr [] \<Rightarrow> Inl (Errorf ''recordset: %s not found in zoneid: %s'' [name, zone])
          | Inr (u # _) \<Rightarrow> Inr u, s))"

text \<open>The operations on records do nothing without a client or a zone.\<close>

definition with_zone ::
  "os_wrapper \<Rightarrow> (string \<Rightarrow> server_state \<Rightarrow> error option \<times> server_state) \<Rightarrow> server_state \<Rightarrow> error option \<times> server_state" where
  "with_zone w body s = (case sv_dnsZoneID (fst s) of Some z \<Rightarrow> if ow_dnsClient w then body z s else (None, s) | None \<Rightarrow> (None, s))"

definition os_registerDNS :: "os_env \<Rightarrow> os_wrapper \<Rightarrow> string \<Rightarrow> string \<Rightarrow> server_state \<Rightarrow> error option \<times> server_state" where
  "os_registerDNS X w name address = with_zone w (\<lambda>zone s.
     let net = sv_network (fst s);
         (r, s) = findDNSEntry X net zone name ''A'' s;
         (r, s) = ask_remote (ox_id X) (OpenStack (case r of
             Inr entry \<Rightarrow> RecordUpdate zone entry address
           | Inl _ \<Rightarrow> RecordCreate zone (record_name net name) address)) s
     in case r of
          Inl e \<Rightarrow> (Some e, s)
        | Inr u \<Rightarrow> (None, change_handler (\<lambda>h. h\<lparr>sv_dnsEntryID := Some u\<rparr>) s))"

definition os_unregisterDNS :: "os_env \<Rightarrow> os_wrapper \<Rightarrow> string \<Rightarrow> server_state \<Rightarrow> error option \<times> server_state" where
  "os_unregisterDNS X w name = with_zone w (\<lambda>zone s.
     let (r, s) = (case sv_dnsEntryID (fst s) of
             Some entry \<Rightarrow> (Inr entry, s)
           | None \<Rightarrow> findDNSEntry X (sv_network (fst s)) zone name ''A'' s)
     in case r of
          Inl e \<Rightarrow> (Some e, s)
        | Inr entry \<Rightarrow> os_error X (RecordDelete zone entry) (change_handler (\<lambda>h. h\<lparr>sv_dnsEntryID := None\<rparr>) s))"

definition os_retrieveNetworkInfos :: "os_env \<Rightarrow> os_wrapper \<Rightarrow> string \<Rightarrow> server_state \<Rightarrow> error option \<times> server_state" where
  "os_retrieveNetworkInfos X w name = with_zone w (\<lambda>zone s.
     let (r, s) = findDNSEntry X (sv_network (fst s)) zone name ''A'' s
     in case r of
          Inl e \<Rightarrow> (Some e, s)
        | Inr entry \<Rightarrow> (None, change_handler (\<lambda>h. h\<lparr>sv_dnsEntryID := Some entry\<rparr>) s))"

section \<open>Instances\<close>

text \<open>The primary interface is read from a pointer that is nil when no interface is primary.\<close>

definition os_getAddress :: "os_env \<Rightarrow> os_wrapper \<Rightarrow> nova_server \<Rightarrow> 'h hstate \<Rightarrow> ((error + string) \<times> 'h hstate) go" where
  "os_getAddress X w server s =
     (if ns_AccessIPv4 server \<noteq> [] then Ret (Inr (ns_AccessIPv4 server), s)
      else case PrimaryInterface (ow_network w) of
             None \<Rightarrow> Panic NilDeref
           | Some i \<Rightarrow>
               let (r, s) = ask_remote (ox_found X) (OpenStack (ServerAddresses (ns_ID server) (NetworkName i))) s
               in Ret (map_sum id (\<lambda>addresses. case addresses of [] \<Rightarrow> [] | a # _ \<Rightarrow> a) r, s))"

definition os_getServerByName ::
  "os_env \<Rightarrow> os_wrapper \<Rightarrow> string \<Rightarrow> 'h hstate \<Rightarrow> ((error + server_instance) \<times> 'h hstate) go" where
  "os_getServerByName X w name s =
     (let (r, s) = ask_remote (ox_servers X) (OpenStack (ServerList name)) s
      in case r of
           Inl e \<Rightarrow> Ret (Inl e, s)
         | Inr [] \<Rightarrow> Ret (Inl (Errorf ''server: %s not found'' [name]), s)
         | Inr (server # _) \<Rightarrow> gbind (os_getAddress X w server s) (\<lambda>(address, s).
             Ret (map_sum id (\<lambda>a. \<lparr>si_InstanceName = ns_Name server, si_InstanceID = ns_ID server, si_PrivateDNSName = [],
                    si_AddressIP = a, si_Region = ow_Region w, si_Zone = ns_Zone server, si_PublicAddress = [],
                    si_PublicAddressID = []\<rparr>) address, s)))"

definition os_InstanceExists :: "os_env \<Rightarrow> os_wrapper \<Rightarrow> string \<Rightarrow> 'h hstate \<Rightarrow> (bool \<times> 'h hstate) go" where
  "os_InstanceExists X w name s = gbind (os_getServerByName X w name s) (\<lambda>(r, s). Ret (error_of r = None, s))"

definition os_UUID :: "os_env \<Rightarrow> os_wrapper \<Rightarrow> string \<Rightarrow> 'h hstate \<Rightarrow> ((error + string) \<times> 'h hstate) go" where
  "os_UUID X w name s = gbind (os_getServerByName X w name s) (\<lambda>(r, s). Ret (map_sum id si_InstanceID r, s))"

definition os_AttachInstance ::
  "os_env \<Rightarrow> ipconv \<Rightarrow> os_wrapper \<Rightarrow> string \<Rightarrow> bool \<Rightarrow> int \<Rightarrow> 'h hstate \<Rightarrow> ((error + server_handler) \<times> 'h hstate) go" where
  "os_AttachInstance X ip w instanceName control nodeIndex s =
     gbind (os_UUID X w instanceName s) (\<lambda>(r, s).
       Ret (map_sum id (\<lambda>u. \<lparr>sv_network = Network_Clone ip control nodeIndex (ow_network w), sv_extras = ow_networkIDs w,
          sv_running = Some (new_instance instanceName u (ow_Region w) (ow_Zone w)), sv_instanceType = [],
          sv_instanceName = instanceName, sv_instanceID = u, sv_controlPlane = control, sv_nodeIndex = nodeIndex,
          sv_dnsZoneID = ow_dnsZoneID w, sv_dnsEntryID = None, sv_floatingIP = None\<rparr>) r, s))"

definition os_CreateInstance ::
  "os_env \<Rightarrow> ipconv \<Rightarrow> os_wrapper \<Rightarrow> string \<Rightarrow> string \<Rightarrow> bool \<Rightarrow> int \<Rightarrow> 'h hstate \<Rightarrow> ((error + server_handler) \<times> 'h hstate) go" where
  "os_CreateInstance X ip w instanceName instanceType control nodeIndex s =
     gbind (os_InstanceExists X w instanceName s) (\<lambda>(found, s).
       if found then Ret (Inl (Errorf ErrVMAlreadyExists [instanceName]), s)
       else let (r, s) = getFlavor X instanceType s
            in Ret (map_sum id (\<lambda>flavor. \<lparr>sv_network = Network_Clone ip control nodeIndex (ow_network w),
                 sv_extras = ow_networkIDs w, sv_running = None, sv_instanceType = flavor, sv_instanceName = instanceName,
                 sv_instanceID = [], sv_controlPlane = control, sv_nodeIndex = nodeIndex, sv_dnsZoneID = ow_dnsZoneID w,
                 sv_dnsEntryID = None, sv_floatingIP = None\<rparr>) r, s))"

section \<open>Power\<close>

definition os_getServer :: "os_env \<Rightarrow> string \<Rightarrow> 'h hstate \<Rightarrow> (error + nova_server) \<times> 'h hstate" where
  "os_getServer X u = ask_remote (ox_server X) (OpenStack (ServerGet u))"

definition os_state :: "os_env \<Rightarrow> string \<Rightarrow> 'h asks_state" where
  "os_state X u s = (let (r, s) = os_getServer X u s in (map_sum id ns_Status r, s))"

definition os_fails :: "string \<Rightarrow> bool" where
  "os_fails status \<longleftrightarrow> status \<noteq> ''IN_PROGRESS'' \<and> status \<noteq> ''BUILD''"

definition os_expectStatus :: "os_env \<Rightarrow> server_instance \<Rightarrow> string \<Rightarrow> string \<Rightarrow> 'h hstate \<Rightarrow> (bool \<times> error option) \<times> 'h hstate" where
  "os_expectStatus X i = expect_status (os_state X (si_InstanceID i)) os_fails (si_InstanceName i)"

definition os_wait :: "os_env \<Rightarrow> os_wrapper \<Rightarrow> server_instance \<Rightarrow> string \<Rightarrow> string \<Rightarrow> 'h hstate \<Rightarrow> (error option \<times> 'h hstate) go" where
  "os_wait X w i = wait_status (ox_remote X) (os_state X (si_InstanceID i)) os_fails (ow_Timeout w) (si_InstanceName i)"

definition os_powered :: "string list" where
  "os_powered = [''ACTIVE'', ''BUILD'']"

definition os_PowerOn :: "os_env \<Rightarrow> os_wrapper \<Rightarrow> server_instance \<Rightarrow> 'h hstate \<Rightarrow> (error option \<times> 'h hstate) go" where
  "os_PowerOn X w i = switch_power (os_state X (si_InstanceID i)) os_powered True
     (\<lambda>s. Ret (os_error X (ServerStart (si_InstanceID i)) s)) (os_wait X w i ''ACTIVE'' ''SHUTOFF'')"

definition os_PowerOff :: "os_env \<Rightarrow> os_wrapper \<Rightarrow> server_instance \<Rightarrow> 'h hstate \<Rightarrow> (error option \<times> 'h hstate) go" where
  "os_PowerOff X w i = switch_power (os_state X (si_InstanceID i)) os_powered False
     (\<lambda>s. Ret (os_error X (ServerStop (si_InstanceID i)) s)) (os_wait X w i ''SHUTOFF'' ''ACTIVE'')"

definition os_WaitForPowered :: "os_env \<Rightarrow> os_wrapper \<Rightarrow> server_instance \<Rightarrow> 'h hstate \<Rightarrow> (error option \<times> 'h hstate) go" where
  "os_WaitForPowered X w i = os_wait X w i ''ACTIVE'' ''SHUTOFF''"

definition os_WaitForIP :: "os_env \<Rightarrow> os_wrapper \<Rightarrow> server_instance \<Rightarrow> 'h hstate \<Rightarrow> ((string \<times> error option) \<times> 'h hstate) go" where
  "os_WaitForIP X w i =
     wait_for_ip (ox_remote X) (ow_Timeout w) (os_expectStatus X i ''ACTIVE'' []) (si_InstanceName i) (si_AddressIP i)"

definition os_Delete :: "os_env \<Rightarrow> server_instance \<Rightarrow> server_state \<Rightarrow> error option \<times> server_state" where
  "os_Delete X i s =
     (let (err, s) = os_error X (ServerDelete (si_InstanceID i)) s
      in case sv_floatingIP (fst s) of
           Some address \<Rightarrow> if err = None then os_error X (FloatingDelete address) s else (err, s)
         | None \<Rightarrow> (err, s))"

definition os_Status :: "os_env \<Rightarrow> os_wrapper \<Rightarrow> server_instance \<Rightarrow> 'h hstate \<Rightarrow> ((error + instance_status) \<times> 'h hstate) go" where
  "os_Status X w i s =
     (let (r, s) = os_getServer X (si_InstanceID i) s
      in case r of
           Inl e \<Rightarrow> Ret (Inl e, s)
         | Inr server \<Rightarrow> gbind (os_getAddress X w server s) (\<lambda>(address, s).
             Ret (map_sum id (\<lambda>a. \<lparr>Address = a, Powered = (ToUpper (ns_Status server) = ''ACTIVE'')\<rparr>) address, s)))"

section \<open>Creating an instance\<close>

definition toOpenstackNetwork :: "network \<Rightarrow> string list \<Rightarrow> (string \<times> string) list" where
  "toOpenstackNetwork net ids =
     map (\<lambda>(n, u). (u, if DHCP n then [] else if_IPAddress n)) (filter (\<lambda>(n, u). IsEnabled n) (zip (Interfaces net) ids))"

definition os_create_request :: "os_wrapper \<Rightarrow> server_handler \<Rightarrow> bool \<Rightarrow> string \<Rightarrow> nova_request" where
  "os_create_request w h control userData =
     \<lparr>nq_Name = sv_instanceName h, nq_Flavor = sv_instanceType h, nq_Image = ow_Image w, nq_KeyName = ow_KeyName w,
      nq_UserData = userData, nq_Zone = ow_Zone w, nq_AccessIPv4 = PrimaryAddressIP (sv_network h),
      nq_Networks = toOpenstackNetwork (sv_network h) (sv_extras h),
      nq_SecurityGroups = [if control then ow_ControlPlaneGroup w else ow_WorkerGroup w]\<rparr>"

definition floating_for :: "os_wrapper \<Rightarrow> bool \<Rightarrow> string option" where
  "floating_for w control =
     (case ow_floating w of
        None \<Rightarrow> None
      | Some (net, masters, workers) \<Rightarrow> if (if control then masters else workers) then Some net else None)"

text \<open>A page of ports that cannot be decoded counts as a list that fails.\<close>

definition os_floating :: "os_env \<Rightarrow> string \<Rightarrow> string \<Rightarrow> string \<Rightarrow> server_state \<Rightarrow> error option \<times> server_state" where
  "os_floating X instanceName floatingNetworkID serverId s =
     (let failed = (\<lambda>what reason. Errorf (''unable to '' @ what @ '' for server: %s, named: %s. Reason: %v'') [instanceName, serverId, reason]);
          (r, s) = ask_remote (ox_found X) (OpenStack (PortList serverId)) s
      in case r of
           Inl e \<Rightarrow> (Some (failed ''list port'' (err_text e)), s)
         | Inr [] \<Rightarrow> (Some (failed ''find port'' ''<nil>''), s)
         | Inr (port # _) \<Rightarrow>
             let (r, s) = ask_remote (ox_id X) (OpenStack (FloatingCreate
                   (Sprintf ''Floating ip for: %s'' [instanceName]) floatingNetworkID port)) s
             in case r of
                  Inl e \<Rightarrow> (Some (failed ''create floating ip'' (err_text e)), s)
                | Inr u \<Rightarrow> (None, change_handler (\<lambda>h. h\<lparr>sv_floatingIP := Some u\<rparr>) s))"

text \<open>The address the cloud has given is made the access address of the machine.\<close>

definition os_address_and_floating ::
  "os_env \<Rightarrow> os_wrapper \<Rightarrow> bool \<Rightarrow> nova_server \<Rightarrow> server_state \<Rightarrow> (error option \<times> server_state) go" where
  "os_address_and_floating X w control server s =
     gbind (os_getAddress X w server s) (\<lambda>(r, s).
       let name = sv_instanceName (fst s)
       in case r of
            Inl e \<Rightarrow> Ret (Some (creation_failed ''unable to get ip address for server'' name e),
              change_running (\<lambda>i. i\<lparr>si_AddressIP := []\<rparr>) s)
          | Inr a \<Rightarrow>
              let s = change_running (\<lambda>i. i\<lparr>si_AddressIP := a\<rparr>) s;
                  (r, s) = ask_remote (ox_server X) (OpenStack (ServerUpdate (ns_ID server) a)) s
              in case r of
                   Inl e \<Rightarrow> Ret (Some (creation_failed ''unable to update ip address for server'' name e), s)
                 | Inr updated \<Rightarrow> Ret (case floating_for w control of
                       None \<Rightarrow> (None, s)
                     | Some net \<Rightarrow> os_floating X name net (ns_ID updated) s))"

definition os_Create ::
  "os_env \<Rightarrow> os_wrapper \<Rightarrow> bool \<Rightarrow> string \<Rightarrow> server_state \<Rightarrow> (error option \<times> server_state) go" where
  "os_Create X w control userData s =
     (let name = sv_instanceName (fst s);
          (r, s) = ask_remote (ox_server X) (OpenStack (ServerCreate (os_create_request w (fst s) control userData))) s
      in case r of
           Inl e \<Rightarrow> Ret (Some (creation_failed ''server creation failed'' name e), s)
         | Inr server \<Rightarrow>
             let s = change_running (\<lambda>i. i\<lparr>si_InstanceID := ns_ID server\<rparr>) s
             in case sv_running (fst s) of
                  None \<Rightarrow> Panic NilDeref
                | Some i \<Rightarrow> gbind (os_WaitForPowered X w i s) (\<lambda>(err, s).
                    case err of
                      Some e \<Rightarrow> Ret (Some (creation_failed ''server powered failed'' name e), s)
                    | None \<Rightarrow> os_address_and_floating X w control server s))"

section \<open>The handler\<close>

text \<open>A handler uses the name server of the configuration, or else the name service of the cloud.\<close>

definition os_dns :: "os_env \<Rightarrow> os_wrapper \<Rightarrow> bool \<Rightarrow> string \<Rightarrow> server_state \<Rightarrow> error option \<times> server_state" where
  "os_dns X w add address s =
     (let name = sv_instanceName (fst s)
      in if ow_bind9Provider w \<noteq> None then change_dns (ox_remote X) (ow_bind9Provider w) add name (ow_Domain w) address s
         else if add then os_registerDNS X w name address s else os_unregisterDNS X w name s)"

fun os_handle ::
  "os_env \<Rightarrow> codec \<Rightarrow> os_wrapper \<Rightarrow> handler_call \<Rightarrow> server_state \<Rightarrow> (handler_result \<times> server_state) go" where
  "os_handle X cd w (ConfigureNetwork net) s = configure_network (OpenStack_Managed (net_OpenStack net)) s"
| "os_handle X cd w RetrieveNetworkInfos s = when_identified (Done (Some not_attached)) (\<lambda>s.
     Ret (Done None, snd (os_retrieveNetworkInfos X w (sv_instanceName (fst s)) s))) s"
| "os_handle X cd w UpdateMacAddressTable s = update_mac_table s"
| "os_handle X cd w GenerateProviderID s =
     Ret (Text (if sv_instanceID (fst s) \<noteq> [] then Sprintf ''openstack://%s/%s'' [ow_Region w, sv_instanceID (fst s)] else []) None, s)"
| "os_handle X cd w GetTopologyLabels s = running_labels s"
| "os_handle X cd w (InstanceCreate input) s =
     create_on_instance (ow_Region w) (ow_Zone w) (encoded_cloud_init cd (in_CloudInit input)) (os_Create X w (in_ControlPlane input)) s"
| "os_handle X cd w InstanceWaitReady s =
     when_running (Text [] (Some not_ready)) (\<lambda>i s. answering (\<lambda>(a, err). Text a err) (os_WaitForIP X w i s)) s"
| "os_handle X cd w InstancePrimaryAddressIP s = Ret (Text (PrimaryAddressIP (sv_network (fst s))) None, s)"
| "os_handle X cd w InstanceID s =
     when_running (Text [] (Some not_attached)) (\<lambda>i s. Ret (Text (si_InstanceID i) None, s)) s"
| "os_handle X cd w InstanceAutoStart s = Ret (Done None, s)"
| "os_handle X cd w InstancePowerOn s =
     when_running (Done (Some not_attached)) (\<lambda>i s. answering Done (os_PowerOn X w i s)) s"
| "os_handle X cd w InstancePowerOff s =
     when_running (Done (Some not_attached)) (\<lambda>i s. answering Done (os_PowerOff X w i s)) s"
| "os_handle X cd w InstanceDelete s =
     when_running (Done (Some not_attached)) (\<lambda>i s. answering Done (Ret (os_Delete X i s))) s"
| "os_handle X cd w InstanceCreated s =
     when_running (Flag False None) (\<lambda>i s. answering (\<lambda>b. Flag b None) (os_InstanceExists X w (sv_instanceName (fst s)) s)) s"
| "os_handle X cd w InstanceStatus s =
     when_running (Status None (Some not_attached)) (\<lambda>i s.
       answering (\<lambda>r. case r of Inl e \<Rightarrow> Status None (Some e) | Inr st \<Rightarrow> Status (Some st) None) (os_Status X w i s)) s"
| "os_handle X cd w InstanceWaitForToolsRunning s = Ret (Flag True None, s)"
| "os_handle X cd w (InstanceMaxPods desired) s = Ret (Number (default_max_pods desired) None, s)"
| "os_handle X cd w (RegisterDNS address) s = Ret (map_prod Done id (os_dns X w True address s))"
| "os_handle X cd w (UnregisterDNS address) s = Ret (map_prod Done id (os_dns X w False address s))"

end
