(* ===== verification/OpenStack_Facts.thy ===== *)
theory OpenStack_Facts
  imports OpenStack
begin

text \<open>
  The OpenStack provider: what a switch shows, what a creation requests, what a deletion releases, and the
  records of the name service.
\<close>

section \<open>The contracts\<close>

definition os_shown :: "os_env \<Rightarrow> string \<Rightarrow> string \<Rightarrow> remote_calls \<Rightarrow> bool" where
  "os_shown X u st calls \<longleftrightarrow> (\<exists>server before. calls = OpenStack (ServerGet u) # before \<and>
     ox_server X calls = Inr server \<and> ns_Status server = st)"

interpretation os_source: server_source "os_state X u" "os_shown X u" for X u
proof
  fix s s' :: "'h hstate" and st
  assume "os_state X u s = (Inr st, s')"
  then show "os_shown X u st (snd (snd s'))"
    by (cases s) (auto simp: os_state_def os_getServer_def os_shown_def map_sum_def split: sum.splits)
next
  fix s :: "'h hstate"
  show "fst (snd (os_state X u s)) = fst s" by (cases s) (simp add: os_state_def os_getServer_def)
  show "\<exists>later. snd (snd (snd (os_state X u s))) = later @ snd (snd s)"
    by (cases s) (simp add: os_state_def os_getServer_def)
qed

lemma os_requests_keep:
  "fst (snd (os_error X c s)) = fst s" "fst (snd (os_getServer X u s)) = fst s"
  "fst (snd (findDNSEntry X net zone name kind s)) = fst s"
  by (cases s; simp add: os_error_def os_getServer_def findDNSEntry_def)+

lemma os_Delete_keeps: "fst (snd (os_Delete X i s)) = fst s"
  by (cases s) (simp add: os_error_def os_Delete_def Let_def split: option.split)

lemma os_address_keeps: "holds (\<lambda>(r, s'). fst s' = fst s) (os_getAddress X w server s)"
  by (cases s) (auto simp: os_getAddress_def Let_def split: option.split sum.split)

lemma os_plain_keep:
  "holds (\<lambda>(r, s'). fst s' = fst s) (os_getServerByName X w name s)"
  "holds (\<lambda>(r, s'). fst s' = fst s) (os_InstanceExists X w name s)"
  "holds (\<lambda>(r, s'). fst s' = fst s) (os_Status X w i s)"
  "holds (\<lambda>(r, s'). fst s' = fst s) (Ret (os_Delete X i s))"
proof -
  show n: "holds (\<lambda>(r, s'). fst s' = fst s) (os_getServerByName X w name s)" for name
    using os_address_keeps
    by (cases s) (fastforce simp: os_getServerByName_def Let_def holds_gbind split: sum.split list.split elim!: holds_mono)
  show "holds (\<lambda>(r, s'). fst s' = fst s) (os_InstanceExists X w name s)"
    using n [of name] by (auto simp: os_InstanceExists_def holds_gbind elim!: holds_mono)
  obtain r t where g: "os_getServer X (si_InstanceID i) s = (r, t)" by (rule prod.exhaust)
  then have "fst t = fst s" using os_requests_keep(2) [of X "si_InstanceID i" s] by simp
  with g os_address_keeps [of t X w] show "holds (\<lambda>(r, s'). fst s' = fst s) (os_Status X w i s)"
    by (auto simp: os_Status_def holds_gbind split: sum.split intro!: holds_mono [OF os_address_keeps])
  show "holds (\<lambda>(r, s'). fst s' = fst s) (Ret (os_Delete X i s))"
    by (simp add: case_prod_unfold os_Delete_keeps)
qed

lemma os_switch_keeps:
  "holds (\<lambda>(r, s'). fst s' = fst s) (os_PowerOn X w i s)" "holds (\<lambda>(r, s'). fst s' = fst s) (os_PowerOff X w i s)"
  "holds (\<lambda>(r, s'). fst s' = fst s) (os_WaitForIP X w i s)" "holds (\<lambda>(r, s'). fst s' = fst s) (os_WaitForPowered X w i s)"
proof -
  have "holds (\<lambda>(r, s'). fst s' = fst s) (Ret (os_error X c s))" for c and s :: "'a hstate"
    by (simp add: case_prod_unfold os_requests_keep)
  then show "holds (\<lambda>(r, s'). fst s' = fst s) (os_PowerOn X w i s)" "holds (\<lambda>(r, s'). fst s' = fst s) (os_PowerOff X w i s)"
    "holds (\<lambda>(r, s'). fst s' = fst s) (os_WaitForIP X w i s)" "holds (\<lambda>(r, s'). fst s' = fst s) (os_WaitForPowered X w i s)"
    unfolding os_PowerOn_def os_PowerOff_def os_WaitForIP_def os_WaitForPowered_def os_wait_def os_expectStatus_def
    by - (rule os_source.switch_keeps os_source.wait_keeps os_source.ip_keeps | assumption)+
qed

text \<open>The records change the entry of the handler only.\<close>

lemma os_records_attached:
  "sv_running (fst (snd (os_registerDNS X w name address s))) = sv_running (fst s)"
  "sv_running (fst (snd (os_unregisterDNS X w name s))) = sv_running (fst s)"
  "sv_running (fst (snd (os_retrieveNetworkInfos X w name s))) = sv_running (fst s)"
  by (simp_all add: os_registerDNS_def os_unregisterDNS_def os_retrieveNetworkInfos_def with_zone_def ask_remote_fst
      os_requests_keep(1,3) case_prod_unfold Let_def split: option.split sum.split)

lemma os_dns_attached: "stays_attached s (Ret (map_prod Done id (os_dns X w add address s)))"
proof (cases "ow_bind9Provider w")
  case None
  then show ?thesis using os_records_attached by (simp add: os_dns_def Let_def split_beta)
next
  case (Some p)
  then show ?thesis using change_dns_attached [of s] by (simp add: os_dns_def Let_def del: holds_simps)
qed

lemma os_handle_attached:
  assumes "\<not> creates_instance c"
  shows "stays_attached s (os_handle X cd w c s)"
proof (cases c)
  case (RegisterDNS address)
  then show ?thesis by (simp add: os_dns_attached del: holds_simps)
next
  case (UnregisterDNS address)
  then show ?thesis by (simp add: os_dns_attached del: holds_simps)
next
  case RetrieveNetworkInfos
  then show ?thesis by (simp add: when_identified_def os_records_attached)
qed (use assms in \<open>auto simp: when_identified_def simp del: holds_simps
    intro!: running_attached answering_attached common_attached Ret_attached
      os_switch_keeps [THEN stays_attachedI] os_plain_keep [THEN stays_attachedI]\<close>)

interpretation openstack: attached_handler "\<lambda>h. sv_running h \<noteq> None" "os_handle X cd w" needs_running creates_instance
  for X cd w
proof
  fix c and s :: server_state
  assume "needs_running c" "\<not> sv_running (fst s) \<noteq> None"
  then show "\<exists>r. os_handle X cd w c s = Ret (r, s) \<and> result_error r \<noteq> None"
    by (cases c) (auto simp: when_running_def)
next
  fix c r and s s' :: server_state
  assume "os_handle X cd w c s = Ret (r, s')" "\<not> creates_instance c"
  then show "(sv_running (fst s') \<noteq> None) = (sv_running (fst s) \<noteq> None)"
    using os_handle_attached [of c s X cd w] by simp
qed

section \<open>Power\<close>

lemma os_state_calls: "snd (snd (snd (os_state X u s))) = OpenStack (ServerGet u) # snd (snd s)"
  by (cases s) (simp add: os_state_def os_getServer_def)

lemma os_error_calls: "os_error X c s = (e, t) \<Longrightarrow> snd (snd t) = OpenStack c # snd (snd s)"
  by (cases s) (auto simp: os_error_def)

text \<open>Switching on, when it succeeds, has seen the machine on, or active after asking for it.\<close>

theorem os_PowerOn_success:
  assumes "os_handle X cd w InstancePowerOn s = Ret (Done None, s')" "sv_running (fst s) = Some i"
  defines "u \<equiv> si_InstanceID i"
  shows "fst s' = fst s \<and> (\<exists>st. os_shown X u st (snd (snd s')) \<and>
    (ToUpper st \<in> {''ACTIVE'', ''BUILD''} \<and> snd (snd s') = OpenStack (ServerGet u) # snd (snd s) \<or>
     ToUpper st = ''ACTIVE'' \<and> (\<exists>later. snd (snd s') = later @ OpenStack (ServerStart u) # OpenStack (ServerGet u) # snd (snd s))))"
proof -
  from assms have p: "os_PowerOn X w i s = Ret (None, s')"
    by (auto simp: when_running_def answering_def)
  then have k: "fst s' = fst s" using os_switch_keeps(1) [of s X w i] by simp
  from os_source.switch_success [OF p [unfolded os_PowerOn_def os_wait_def]] show ?thesis
  proof (elim disjE exE conjE)
    fix st assume "os_shown X (si_InstanceID i) st (snd (snd s'))" "(ToUpper st \<in> set os_powered) = True"
      "s' = snd (os_state X (si_InstanceID i) s)"
    with k show ?thesis by (auto simp: u_def os_state_calls os_powered_def intro!: exI [of _ st])
  next
    fix st t later assume r: "Ret (os_error X (ServerStart (si_InstanceID i)) (snd (os_state X (si_InstanceID i) s))) = Ret (None, t)"
      and l: "snd (snd s') = later @ snd (snd t)" and st: "os_shown X (si_InstanceID i) st (snd (snd s'))" "ToUpper st = ''ACTIVE''"
    from r have "os_error X (ServerStart (si_InstanceID i)) (snd (os_state X (si_InstanceID i) s)) = (None, t)" by simp
    from os_error_calls [OF this] l have "snd (snd s') = later @ OpenStack (ServerStart u) # OpenStack (ServerGet u) # snd (snd s)"
      by (simp add: u_def os_state_calls)
    with k st show ?thesis by (auto simp: u_def intro!: exI [of _ st])
  qed
qed

section \<open>Creations\<close>

lemma os_wait_asks:
  assumes "wait_status E (os_state X u) fails timeout name expected initial s = Ret (e, s')"
  shows "\<exists>later. set later \<subseteq> {RPoll, OpenStack (ServerGet u)} \<and> snd (snd s') = later @ snd (snd s)"
proof -
  have "\<exists>later. set later \<subseteq> {OpenStack (ServerGet u)} \<and> snd (snd (snd (os_state X u t))) = later @ snd (snd t)" for t :: "'a hstate"
    by (intro exI [of _ "[OpenStack (ServerGet u)]"]) (simp add: os_state_calls)
  from wait_asks [OF this, of s E fails timeout name expected initial] assms show ?thesis by simp
qed

lemma os_floating_success:
  assumes "os_floating X name net u s = (None, s')"
  shows "\<exists>port ports fid. ox_found X (OpenStack (PortList u) # snd (snd s)) = Inr (port # ports) \<and>
    snd (snd s') = OpenStack (FloatingCreate (Sprintf ''Floating ip for: %s'' [name]) net port) # OpenStack (PortList u) # snd (snd s) \<and>
    ox_id X (snd (snd s')) = Inr fid \<and> fst s' = (fst s)\<lparr>sv_floatingIP := Some fid\<rparr>"
  using assms
  by (cases s) (auto simp: os_floating_def Let_def split: sum.splits list.splits)

text \<open>
  \<open>address_found\<close>: the address of a new machine is the one the cloud gave it with its answer, or else the
  first one it has in the primary network, for which it is asked once.
\<close>

definition address_found :: "os_env \<Rightarrow> os_wrapper \<Rightarrow> nova_server \<Rightarrow> string \<Rightarrow> remote_calls \<Rightarrow> remote_calls \<Rightarrow> bool" where
  "address_found X w server a calls after \<longleftrightarrow>
     (if ns_AccessIPv4 server \<noteq> [] then after = calls \<and> a = ns_AccessIPv4 server
      else \<exists>i found. PrimaryInterface (ow_network w) = Some i \<and>
        after = OpenStack (ServerAddresses (ns_ID server) (NetworkName i)) # calls \<and>
        ox_found X after = Inr found \<and> a = (case found of [] \<Rightarrow> [] | x # _ \<Rightarrow> x))"

lemma os_getAddress_calls:
  assumes "os_getAddress X w server s = Ret (Inr a, t)"
  shows "fst t = fst s \<and> address_found X w server a (snd (snd s)) (snd (snd t))"
  using assms
  by (cases s) (auto simp: os_getAddress_def address_found_def map_sum_def split: if_splits option.splits sum.splits)

text \<open>
  \<open>addressed\<close>: the machine was given its address and, when its role asks for one, a floating address on
  the first of its ports, which the handler remembers.
\<close>

definition addressed :: "os_env \<Rightarrow> os_wrapper \<Rightarrow> bool \<Rightarrow> string \<Rightarrow> string \<Rightarrow> string option \<Rightarrow> remote_calls \<Rightarrow> server_state \<Rightarrow> bool" where
  "addressed X w control u a before calls s \<longleftrightarrow>
     (\<exists>updated. ox_server X (OpenStack (ServerUpdate u a) # calls) = Inr updated \<and>
       (case floating_for w control of
          None \<Rightarrow> snd (snd s) = OpenStack (ServerUpdate u a) # calls \<and> sv_floatingIP (fst s) = before
        | Some net \<Rightarrow> \<exists>listed port ports fid.
            listed = OpenStack (PortList (ns_ID updated)) # OpenStack (ServerUpdate u a) # calls \<and>
            ox_found X listed = Inr (port # ports) \<and>
            snd (snd s) = OpenStack (FloatingCreate (Sprintf ''Floating ip for: %s'' [sv_instanceName (fst s)]) net port) # listed \<and>
            ox_id X (snd (snd s)) = Inr fid \<and> sv_floatingIP (fst s) = Some fid))"

lemma addressed_cong:
  "snd s' = snd s \<Longrightarrow> sv_instanceName (fst s') = sv_instanceName (fst s) \<Longrightarrow> sv_floatingIP (fst s') = sv_floatingIP (fst s) \<Longrightarrow>
   addressed X w control u a before calls s' = addressed X w control u a before calls s"
  by (simp add: addressed_def cong: option.case_cong)

lemma os_address_success:
  assumes "os_address_and_floating X w control server s = Ret (None, s')" "sv_running (fst s) = Some i"
  shows "\<exists>a found j. addressed X w control (ns_ID server) a (sv_floatingIP (fst s)) found s' \<and>
    address_found X w server a (snd (snd s)) found \<and>
    sv_running (fst s') = Some j \<and> si_InstanceID j = si_InstanceID i \<and> si_AddressIP j = a"
proof -
  from assms(1) obtain x t where g: "os_getAddress X w server s = Ret (x, t)"
    by (cases "os_getAddress X w server s") (auto simp: os_address_and_floating_def)
  with assms(1) obtain a where "x = Inr a" by (cases x) (auto simp: os_address_and_floating_def Let_def)
  with g have g: "os_getAddress X w server s = Ret (Inr a, t)" by simp
  from os_getAddress_calls [OF g] have t: "fst t = fst s" "address_found X w server a (snd (snd s)) (snd (snd t))" by auto
  define z where "z = change_running (\<lambda>i. i\<lparr>si_AddressIP := a\<rparr>) t"
  obtain r v where q: "ask_remote (ox_server X) (OpenStack (ServerUpdate (ns_ID server) a)) z = (r, v)" by (rule prod.exhaust)
  then have v: "fst v = fst z" "snd (snd v) = OpenStack (ServerUpdate (ns_ID server) a) # snd (snd z)"
    "r = ox_server X (OpenStack (ServerUpdate (ns_ID server) a) # snd (snd z))" by (cases z; auto)+
  from assms(1) g q obtain updated where r: "r = Inr updated"
    by (cases r) (auto simp: os_address_and_floating_def z_def Let_def)
  with assms(1) g q have f: "(case floating_for w control of None \<Rightarrow> (None, v)
      | Some net \<Rightarrow> os_floating X (sv_instanceName (fst t)) net (ns_ID updated) v) = (None, s')"
    by (simp add: os_address_and_floating_def z_def Let_def)
  have z: "sv_running (fst z) = Some (i\<lparr>si_AddressIP := a\<rparr>)" "snd (snd z) = snd (snd t)" "sv_floatingIP (fst z) = sv_floatingIP (fst s)"
    "sv_instanceName (fst z) = sv_instanceName (fst t)"
    using t assms(2) by (simp_all add: z_def)
  have up: "ox_server X (OpenStack (ServerUpdate (ns_ID server) a) # snd (snd t)) = Inr updated"
    using v(3) r z(2) by simp
  have "addressed X w control (ns_ID server) a (sv_floatingIP (fst s)) (snd (snd t)) s' \<and>
    sv_running (fst s') = Some (i\<lparr>si_AddressIP := a\<rparr>)"
  proof (cases "floating_for w control")
    case None
    with f v(1,2) z up show ?thesis by (simp add: addressed_def)
  next
    case (Some net)
    with f have "os_floating X (sv_instanceName (fst t)) net (ns_ID updated) v = (None, s')" by simp
    from os_floating_success [OF this] v(1,2) z Some up show ?thesis by (auto simp: addressed_def simp del: Sprintf.simps)
  qed
  with t(2) show ?thesis
    by (intro exI [of _ a] exI [of _ "snd (snd t)"] exI [of _ "i\<lparr>si_AddressIP := a\<rparr>"]) simp
qed

lemma os_Create_success:
  assumes "os_Create X w control userData s = Ret (None, s')" "sv_running (fst s) = Some i"
  shows "\<exists>created server st later a found j.
    created = OpenStack (ServerCreate (os_create_request w (fst s) control userData)) # snd (snd s) \<and>
    ox_server X created = Inr server \<and> set later \<subseteq> {RPoll, OpenStack (ServerGet (ns_ID server))} \<and>
    os_shown X (ns_ID server) st (later @ created) \<and> ToUpper st = ''ACTIVE'' \<and>
    address_found X w server a (later @ created) found \<and>
    addressed X w control (ns_ID server) a (sv_floatingIP (fst s)) found s' \<and>
    sv_running (fst s') = Some j \<and> si_InstanceID j = ns_ID server \<and> si_AddressIP j = a"
proof -
  let ?c = "OpenStack (ServerCreate (os_create_request w (fst s) control userData))"
  define created where "created = ?c # snd (snd s)"
  obtain r t where q: "ask_remote (ox_server X) ?c s = (r, t)" by (rule prod.exhaust)
  then have t: "fst t = fst s" "snd (snd t) = created" "r = ox_server X created" by (cases s; auto simp: created_def)+
  from assms(1) q obtain server where r: "r = Inr server" by (cases r) (auto simp: os_Create_def)
  define k where "k = i\<lparr>si_InstanceID := ns_ID server\<rparr>"
  define z where "z = change_running (\<lambda>i. i\<lparr>si_InstanceID := ns_ID server\<rparr>) t"
  have z: "sv_running (fst z) = Some k" "snd (snd z) = created" "sv_floatingIP (fst z) = sv_floatingIP (fst s)"
    using t assms(2) by (simp_all add: z_def k_def)
  from assms(1) q r t(1) assms(2) obtain err v where p: "os_WaitForPowered X w k z = Ret (err, v)"
    and c: "(case err of Some e \<Rightarrow> Ret (Some (creation_failed ''server powered failed'' (sv_instanceName (fst s)) e), v)
      | None \<Rightarrow> os_address_and_floating X w control server v) = Ret (None, s')"
    unfolding z_def k_def by (auto simp: os_Create_def Let_def)
  from c have "err = None" by (cases err) auto
  with p c have p: "os_WaitForPowered X w k z = Ret (None, v)" and c: "os_address_and_floating X w control server v = Ret (None, s')"
    by simp_all
  have v: "fst v = fst z" using p os_switch_keeps(4) [of z X w k] by simp
  note wait = p [unfolded os_WaitForPowered_def os_wait_def]
  from os_source.wait_success [OF wait] obtain st where st: "os_shown X (ns_ID server) st (snd (snd v))" "ToUpper st = ''ACTIVE''"
    by (auto simp: k_def)
  obtain later where l: "snd (snd v) = later @ created" "set later \<subseteq> {RPoll, OpenStack (ServerGet (ns_ID server))}"
    using os_wait_asks [OF wait] z by (auto simp: k_def)
  from os_address_success [OF c, of k] v z obtain a found j where
    "addressed X w control (ns_ID server) a (sv_floatingIP (fst s)) found s'"
    "address_found X w server a (later @ created) found"
    "sv_running (fst s') = Some j" "si_InstanceID j = ns_ID server" "si_AddressIP j = a"
    by (auto simp: l(1) k_def)
  then show ?thesis using st l t(3) r created_def
    by (intro exI [of _ created] exI [of _ server] exI [of _ st] exI [of _ later] exI [of _ a] exI [of _ found] exI [of _ j]) simp
qed

text \<open>
  A creation that succeeds has created one machine, seen it active, given it its address and, when its
  role asks for one, a floating address that the handler remembers.
\<close>

text \<open>C27: Creating a machine on OpenStack, when it reports success, has created one server, then made no call but the attempts and queries of a wait that has seen it active, found its address (the one of the answer, or else the first of the primary network), made that its access address and, when its role asks for one, created a floating address on the first of the ports listed for the server, in that order and with no other call; the handler remembers the identifier of the server and of the floating address.\<close>

theorem os_InstanceCreate_success:
  assumes "os_handle X cd w (InstanceCreate input) s = Ret (Text u None, s')"
  shows "\<exists>doc created server st later a found.
    cloud_config cd (in_CloudInit input) = Inr doc \<and>
    created = OpenStack (ServerCreate (os_create_request w (fst s) (in_ControlPlane input) (base64 doc))) # snd (snd s) \<and>
    ox_server X created = Inr server \<and> u = ns_ID server \<and> sv_instanceID (fst s') = u \<and>
    set later \<subseteq> {RPoll, OpenStack (ServerGet u)} \<and> os_shown X u st (later @ created) \<and> ToUpper st = ''ACTIVE'' \<and>
    address_found X w server a (later @ created) found \<and>
    addressed X w (in_ControlPlane input) u a (sv_floatingIP (fst s)) found s'"
proof -
  define s0 where "s0 = change_handler (\<lambda>h. h\<lparr>sv_running := Some (new_instance (sv_instanceName h) [] (ow_Region w) (ow_Zone w))\<rparr>) s"
  from assms obtain doc where doc: "cloud_config cd (in_CloudInit input) = Inr doc"
    by (cases "cloud_config cd (in_CloudInit input)") (auto simp: create_on_instance_def encoded_cloud_init_def)
  with assms obtain err t where c: "os_Create X w (in_ControlPlane input) (base64 doc) s0 = Ret (err, t)"
    and r: "(case err of Some e \<Rightarrow> Ret (Text [] (Some e), t)
      | None \<Rightarrow> (case sv_running (fst t) of None \<Rightarrow> Panic NilDeref
          | Some i \<Rightarrow> Ret (Text (si_InstanceID i) None, change_handler (\<lambda>h. h\<lparr>sv_instanceID := si_InstanceID i\<rparr>) t))) =
      Ret (Text u None, s')"
    by (auto simp: create_on_instance_def encoded_cloud_init_def s0_def)
  from r have "err = None" by (auto split: option.splits)
  with c have c: "os_Create X w (in_ControlPlane input) (base64 doc) s0 = Ret (None, t)" by simp
  have s0: "os_create_request w (fst s0) = os_create_request w (fst s)" "snd s0 = snd s" "sv_floatingIP (fst s0) = sv_floatingIP (fst s)"
    "sv_running (fst s0) \<noteq> None"
    by (simp_all add: s0_def os_create_request_def fun_eq_iff)
  from os_Create_success [OF c] s0 obtain created server st later a found j where
    o: "created = OpenStack (ServerCreate (os_create_request w (fst s) (in_ControlPlane input) (base64 doc))) # snd (snd s)"
    "ox_server X created = Inr server" "set later \<subseteq> {RPoll, OpenStack (ServerGet (ns_ID server))}"
    "os_shown X (ns_ID server) st (later @ created)" "ToUpper st = ''ACTIVE''" "address_found X w server a (later @ created) found"
    "addressed X w (in_ControlPlane input) (ns_ID server) a (sv_floatingIP (fst s)) found t"
    "sv_running (fst t) = Some j" "si_InstanceID j = ns_ID server"
    by auto
  from r \<open>err = None\<close> o(8,9) have u: "u = ns_ID server" "s' = change_handler (\<lambda>h. h\<lparr>sv_instanceID := u\<rparr>) t" by auto
  with o(7) have "addressed X w (in_ControlPlane input) u a (sv_floatingIP (fst s)) found s'"
    by (subst addressed_cong [where s = t]) simp_all
  with doc o(1-6) u show ?thesis
    by (intro exI [of _ doc] exI [of _ created] exI [of _ server] exI [of _ st] exI [of _ later] exI [of _ a] exI [of _ found]) simp
qed

text \<open>A deletion deletes the machine, then the floating address that the handler remembers.\<close>

theorem os_InstanceDelete_outcome:
  assumes "sv_running h = Some i" and "deleted = OpenStack (ServerDelete (si_InstanceID i)) # calls"
    and "os_handle X cd w InstanceDelete (h, t, calls) = Ret (Done err, s')"
  shows "case sv_floatingIP h of
      Some address \<Rightarrow> if rans_err (ox_remote X) deleted = None
        then s' = (h, t, OpenStack (FloatingDelete address) # deleted) \<and>
          err = rans_err (ox_remote X) (OpenStack (FloatingDelete address) # deleted)
        else s' = (h, t, deleted) \<and> err = rans_err (ox_remote X) deleted
    | None \<Rightarrow> s' = (h, t, deleted) \<and> err = rans_err (ox_remote X) deleted"
  using assms
  by (auto simp: when_running_def answering_def os_Delete_def os_error_def Let_def split: option.splits)

text \<open>A handler that was attached remembers no floating address, so the one of its machine is never deleted.\<close>

theorem os_attached_floating_leaks:
  assumes "os_AttachInstance X ip w name control nodeIndex s = Ret (Inr h, s')"
  shows "\<exists>u err. os_handle X cd w InstanceDelete (h, t, calls) = Ret (Done err, h, t, OpenStack (ServerDelete u) # calls)"
proof -
  from assms obtain r v where "os_UUID X w name s = Ret (r, v)"
    by (cases "os_UUID X w name s") (auto simp: os_AttachInstance_def)
  with assms obtain u where "sv_running h = Some (new_instance name u (ow_Region w) (ow_Zone w))" "sv_floatingIP h = None"
    by (cases r) (auto simp: os_AttachInstance_def)
  then show ?thesis
    by (auto simp: when_running_def answering_def os_Delete_def os_error_def new_instance_def)
qed

section \<open>Records of the name service\<close>

text \<open>
  A registration that succeeds is undone by the record it has written: no search is made, and the entry
  is forgotten whether or not the deletion succeeds.
\<close>

text \<open>C30: Unregistering a machine after a successful registration with the name service deletes exactly the record the registration has written, without searching for it, and leaves the handler as it was, without an entry, whether or not the deletion succeeds.\<close>

theorem os_register_unregister:
  assumes "os_handle X cd w (RegisterDNS address) s = Ret (Done None, s')"
    and "ow_bind9Provider w = None" "ow_dnsClient w" "sv_dnsZoneID (fst s) = Some zone"
  shows "\<exists>entry. ox_id X (snd (snd s')) = Inr entry \<and>
    os_handle X cd w (UnregisterDNS address2) s' =
      Ret (Done (rans_err (ox_remote X) (OpenStack (RecordDelete zone entry) # snd (snd s'))),
        (fst s)\<lparr>sv_dnsEntryID := None\<rparr>, fst (snd s), OpenStack (RecordDelete zone entry) # snd (snd s'))"
proof -
  obtain h t calls where s: "s = (h, t, calls)" by (metis prod.exhaust)
  from assms obtain entry where "fst s' = h\<lparr>sv_dnsEntryID := Some entry\<rparr>" "fst (snd s') = t" "ox_id X (snd (snd s')) = Inr entry"
    by (auto simp: os_dns_def os_registerDNS_def with_zone_def findDNSEntry_def s Let_def split: sum.splits list.splits)
  with assms(2-4) show ?thesis
    by (cases s') (auto simp: os_dns_def os_unregisterDNS_def with_zone_def os_error_def change_handler_def s)
qed

text \<open>A name identifies a network when exactly one of those listed has it.\<close>

theorem IDFromName_success:
  "fst (IDFromName X name (h, t, calls)) = Inr u \<longleftrightarrow>
    (\<exists>all. ox_ids X (OpenStack (NetworkList name) # calls) = Inr all \<and> filter (\<lambda>p. fst p = name) all = [(name, u)])"
proof -
  have f: "filter (\<lambda>(n, u). n = name) all = filter (\<lambda>p. fst p = name) all" for all :: "(string \<times> string) list"
    by (simp add: case_prod_unfold)
  have n: "fst p = name" if "filter (\<lambda>p. fst p = name) all = p # ps" for all ps and p :: "string \<times> string"
    using that by (auto simp: filter_eq_Cons_iff)
  show ?thesis
    by (cases "ox_ids X (OpenStack (NetworkList name) # calls)")
      (auto simp: IDFromName_def f Let_def split: list.split dest: n)
qed

text \<open>Every configured interface gets the identifier of a network.\<close>

lemma os_find_networks_length:
  "os_find_networks X cs s = (Inr ids, s') \<Longrightarrow> length ids = length cs"
  by (induction cs arbitrary: s ids s') (auto simp: map_sum_def split: prod.splits sum.splits)

section \<open>The theorems at concrete inputs\<close>

definition sample_nova :: "string \<Rightarrow> nova_server" where
  "sample_nova status = \<lparr>ns_ID = ''u1'', ns_Name = ''n1'', ns_Status = status, ns_AccessIPv4 = ''10.0.0.2'', ns_Zone = ''z1''\<rparr>"

lemma ToUpper_nova [simp]:
  "ToUpper ''SHUTOFF'' = ''SHUTOFF''" "ToUpper ''ACTIVE'' = ''ACTIVE''"
  by code_simp+

text \<open>A cloud whose machine becomes active once it is started or created.\<close>

definition sample_os_env :: os_env where
  "sample_os_env = \<lparr>ox_remote = sample_remote_env,
     ox_server = (\<lambda>calls. Inr (sample_nova (if length calls = 1 then ''SHUTOFF'' else ''ACTIVE''))),
     ox_servers = (\<lambda>calls. Inr [sample_nova ''ACTIVE'']), ox_ids = (\<lambda>calls. Inr [(''net1'', ''i1'')]), ox_found = (\<lambda>calls. Inr [''f1'']),
     ox_id = (\<lambda>calls. Inr ''e1''), ox_no_network = (\<lambda>name. Plain ''none''), ox_many_networks = (\<lambda>name n. Plain ''many'')\<rparr>"

definition sample_os :: os_wrapper where
  "sample_os = \<lparr>ow_Image = ''im1'', ow_Timeout = 300, ow_KeyName = [], ow_Region = ''r1'', ow_Zone = ''z1'', ow_Domain = ''local'',
     ow_DNS = None, ow_Interfaces = [], ow_floating = Some (''f0'', False, True), ow_ControlPlaneGroup = ''default'',
     ow_WorkerGroup = ''default'', ow_UseBind9 = False, ow_bind9Provider = None, ow_dnsClient = True, ow_network = sample_network,
     ow_networkIDs = [''net0''], ow_dnsZoneID = Some ''zone1''\<rparr>"

lemmas sample_openstack = attached_server_handler_def new_server_handler_def new_instance_def sample_os_env_def sample_nova_def
  sample_os_def sample_remote_env_def

theorem os_PowerOn_success_witness:
  "\<exists>s' st. os_handle sample_os_env sample_documents sample_os InstancePowerOn (attached_server_handler, gmake, []) = Ret (Done None, s') \<and>
     os_shown sample_os_env ''u1'' st (snd (snd s')) \<and> ToUpper st \<in> {''ACTIVE'', ''BUILD''}"
proof -
  obtain s' where r: "os_handle sample_os_env sample_documents sample_os InstancePowerOn (attached_server_handler, gmake, []) = Ret (Done None, s')"
    by (simp add: when_running_def answering_def os_PowerOn_def switch_power_def is_powered_def os_state_def os_getServer_def
        os_powered_def os_error_def os_wait_def wait_status_def remote_PollImmediate_def expect_status_def decide_status_def
        os_fails_def sample_openstack)
  from os_PowerOn_success [OF r, of "new_instance ''n1'' ''u1'' [] []"] r show ?thesis
    by (auto simp: attached_server_handler_def new_instance_def simp del: os_handle.simps)
qed

theorem os_InstanceCreate_success_witness:
  "\<exists>s'. os_handle sample_os_env sample_documents sample_os (InstanceCreate sample_input) (new_server_handler, gmake, []) =
     Ret (Text ''u1'' None, s') \<and> sv_instanceID (fst s') = ''u1''"
proof -
  obtain s' where r: "os_handle sample_os_env sample_documents sample_os (InstanceCreate sample_input)
      (new_server_handler, gmake, []) = Ret (Text ''u1'' None, s')"
    by (simp add: create_on_instance_def encoded_cloud_init_def cloud_config_def sample_documents_def os_Create_def
        change_running_def change_handler_def os_WaitForPowered_def os_wait_def wait_status_def remote_PollImmediate_def
        expect_status_def decide_status_def os_state_def os_getServer_def os_address_and_floating_def os_getAddress_def
        floating_for_def os_floating_def sample_input_def Let_def sample_openstack)
  from os_InstanceCreate_success [OF r] r show ?thesis by (auto simp del: os_handle.simps)
qed

theorem os_InstanceDelete_outcome_witness:
  "\<exists>s'. os_handle sample_os_env sample_documents sample_os InstanceDelete
       (attached_server_handler\<lparr>sv_floatingIP := Some ''f1''\<rparr>, gmake, []) = Ret (Done None, s') \<and>
     snd (snd s') = [OpenStack (FloatingDelete ''f1''), OpenStack (ServerDelete ''u1'')]"
proof -
  obtain s' where r: "os_handle sample_os_env sample_documents sample_os InstanceDelete
      (attached_server_handler\<lparr>sv_floatingIP := Some ''f1''\<rparr>, gmake, []) = Ret (Done None, s')"
    by (simp add: when_running_def answering_def os_Delete_def os_error_def sample_openstack)
  from os_InstanceDelete_outcome [OF _ refl r, of "new_instance ''n1'' ''u1'' [] []"] r show ?thesis
    by (simp add: attached_server_handler_def new_instance_def sample_os_env_def sample_remote_env_def del: os_handle.simps)
qed

theorem os_attached_floating_leaks_witness:
  "\<exists>h s' u err. os_AttachInstance sample_os_env sample_ipconv sample_os ''n1'' False 1 (new_server_handler, gmake, []) = Ret (Inr h, s') \<and>
     os_handle sample_os_env sample_documents sample_os InstanceDelete (h, gmake, []) = Ret (Done err, h, gmake, [OpenStack (ServerDelete u)])"
proof -
  obtain h s' where a: "os_AttachInstance sample_os_env sample_ipconv sample_os ''n1'' False 1 (new_server_handler, gmake, []) = Ret (Inr h, s')"
    by (simp add: os_AttachInstance_def os_UUID_def os_getServerByName_def os_getAddress_def sample_os_env_def sample_nova_def)
  from os_attached_floating_leaks [OF a, of sample_documents gmake "[]"] a show ?thesis
    by (cases s') (auto simp del: os_handle.simps)
qed

theorem os_register_unregister_witness:
  "\<exists>s'. os_handle sample_os_env sample_documents sample_os (RegisterDNS ''10.0.0.2'')
       (attached_server_handler\<lparr>sv_dnsZoneID := Some ''zone1''\<rparr>, gmake, []) = Ret (Done None, s') \<and>
     fst s' \<noteq> attached_server_handler\<lparr>sv_dnsZoneID := Some ''zone1''\<rparr> \<and>
     (\<exists>t'. os_handle sample_os_env sample_documents sample_os (UnregisterDNS []) s' =
        Ret (Done None, attached_server_handler\<lparr>sv_dnsZoneID := Some ''zone1''\<rparr>, t'))"
proof -
  let ?h = "attached_server_handler\<lparr>sv_dnsZoneID := Some ''zone1''\<rparr>"
  obtain s' where r: "os_handle sample_os_env sample_documents sample_os (RegisterDNS ''10.0.0.2'') (?h, gmake, []) = Ret (Done None, s')"
    and c: "fst s' \<noteq> ?h"
    by (simp add: os_dns_def os_registerDNS_def with_zone_def findDNSEntry_def change_handler_def sample_openstack)
  have os: "ow_bind9Provider sample_os = None" "ow_dnsClient sample_os" "rans_err (ox_remote sample_os_env) calls = None" for calls
    by (simp_all add: sample_os_def sample_os_env_def sample_remote_env_def)
  have "?h\<lparr>sv_dnsEntryID := None\<rparr> = ?h" by (simp add: attached_server_handler_def new_server_handler_def)
  with os_register_unregister [OF r, of "''zone1''" "[]"] os r c show ?thesis
    by (cases s') (auto simp del: os_handle.simps)
qed

end
