(* ===== verification/Aws.thy ===== *)
theory Aws
  imports OpenStack_Facts
begin

text \<open>
  Model of \<^verbatim>\<open>providers/aws/\<close>: sessions, instances found by name or identifier, the network interfaces and
  disks of a creation, power, the records of Route53 and the handler. The clients of AWS are the
  environment \<open>aws_env\<close>. A handler shares its wrapper, which keeps the client once it is made, so the
  state is a pair of both.
\<close>

section \<open>Configuration\<close>

record aws_network_interface =
  eni_SubnetsID :: "string list"
  eni_SecurityGroupID :: string
  eni_PublicIP :: bool

record aws_route53 =
  r53_ZoneID :: string
  r53_PrivateZoneName :: string
  r53_AccessKey :: string
  r53_SecretKey :: string
  r53_Token :: string
  r53_Profile :: string
  r53_Region :: string

text \<open>\<open>aw_Metadata\<close>: endpoint, tokens, hop limit and tags of the metadata service. \<open>aw_client\<close>: the client is made.\<close>

record aws_wrapper =
  aw_AccessKey :: string
  aw_SecretKey :: string
  aw_Token :: string
  aw_Filename :: string
  aw_Profile :: string
  aw_Region :: string
  aw_Timeout :: int
  aw_ImageID :: string
  aw_IamRole :: string
  aw_KeyName :: string
  aw_VolumeType :: string
  aw_Tags :: "(string \<times> string) list"
  aw_Route53 :: aws_route53
  aw_ENI :: "aws_network_interface list"
  aw_Metadata :: "string \<times> string \<times> int \<times> string"
  aw_testMode :: bool
  aw_client :: bool

record ec2_running =
  er_NodeIndex :: int
  er_InstanceName :: string
  er_PrivateDNSName :: string
  er_InstanceID :: string
  er_Region :: string
  er_Zone :: string
  er_AddressIP :: "string option"

record user_interface =
  ue_NetworkInterfaceID :: string
  ue_SubnetID :: string
  ue_SecurityGroupID :: string
  ue_PrivateAddress :: string
  ue_PublicIP :: bool

record aws_handler =
  ah_instanceName :: string
  ah_instanceType :: string
  ah_controlPlane :: bool
  ah_nodeIndex :: int
  ah_running :: "ec2_running option"
  ah_desiredENI :: "user_interface option"

type_synonym 'h aws_world = "('h \<times> aws_wrapper) hstate"
type_synonym aws_state = "aws_handler aws_world"

definition change_aws :: "(aws_handler \<Rightarrow> aws_handler) \<Rightarrow> aws_state \<Rightarrow> aws_state" where
  "change_aws f s = (map_prod f id (fst s), snd s)"

definition change_ec2 :: "(ec2_running \<Rightarrow> ec2_running) \<Rightarrow> aws_state \<Rightarrow> aws_state" where
  "change_ec2 f = change_aws (\<lambda>h. h\<lparr>ah_running := map_option f (ah_running h)\<rparr>)"

text \<open>
  The answers: reservations of instances; network interfaces, absent or beside an error; the limits of
  an instance type; the record sets with the values of their records; the identifier of a change.
\<close>

record aws_env =
  ax_remote :: remote_env
  ax_windows :: bool
  ax_getenv :: "string \<Rightarrow> string"
  ax_file_exists :: "string \<Rightarrow> bool"
  ax_reservations :: "remote_calls \<Rightarrow> error + ec2_instance list list"
  ax_interfaces :: "remote_calls \<Rightarrow> string option list option \<times> error option"
  ax_run :: "remote_calls \<Rightarrow> error + ec2_instance list"
  ax_types :: "remote_calls \<Rightarrow> error + (int option \<times> int option) option list"
  ax_records :: "remote_calls \<Rightarrow> error + string option list list"
  ax_change :: "remote_calls \<Rightarrow> error + string option option"

definition aws_error :: "aws_env \<Rightarrow> aws_call \<Rightarrow> 'h hstate \<Rightarrow> error option \<times> 'h hstate" where
  "aws_error X c = ask_remote (rans_err (ax_remote X)) (Aws c)"

section \<open>Sessions\<close>

definition isNullOrEmpty :: "string \<Rightarrow> bool" where
  "isNullOrEmpty s \<longleftrightarrow> TrimSpace s = []"

definition filepath_Join :: "string list \<Rightarrow> string" where
  "filepath_Join parts = (case filter (\<lambda>p. p \<noteq> []) parts of [] \<Rightarrow> [] | ps \<Rightarrow> path_Clean (Join ''/'' ps))"

definition userHomeDir :: "aws_env \<Rightarrow> string" where
  "userHomeDir X = ax_getenv X (if ax_windows X then ''USERPROFILE'' else ''HOME'')"

text \<open>A session removes three variables from the environment before it looks for its credentials.\<close>

definition session_getenv :: "aws_env \<Rightarrow> string \<Rightarrow> string" where
  "session_getenv X name =
     (if name \<in> {''AWS_PROFILE'', ''AWS_SHARED_CREDENTIALS_FILE'', ''AWS_CONFIG_FILE''} then [] else ax_getenv X name)"

definition credentialsFileExists :: "aws_env \<Rightarrow> (string \<Rightarrow> string) \<Rightarrow> string \<Rightarrow> bool" where
  "credentialsFileExists X getenv filename =
     (let shared = getenv ''AWS_SHARED_CREDENTIALS_FILE''
      in ax_file_exists X
           (if \<not> isNullOrEmpty filename then filename
            else if \<not> isNullOrEmpty shared then shared
            else filepath_Join [userHomeDir X, ''.aws'', ''credentials'']))"

definition isAwsProfileValid :: "aws_env \<Rightarrow> (string \<Rightarrow> string) \<Rightarrow> string \<Rightarrow> string \<Rightarrow> bool" where
  "isAwsProfileValid X getenv filename profile =
     (\<not> isNullOrEmpty profile \<and> credentialsFileExists X getenv filename)"

definition newSessionWithOptions ::
  "aws_env \<Rightarrow> string \<Rightarrow> string \<Rightarrow> string \<Rightarrow> string \<Rightarrow> string \<Rightarrow> string \<Rightarrow> aws_credentials" where
  "newSessionWithOptions X accessKey secretKey token filename profile region =
     (if \<not> isNullOrEmpty accessKey \<and> \<not> isNullOrEmpty secretKey then StaticCredentials accessKey secretKey token region
      else if isAwsProfileValid X (session_getenv X) filename profile then SharedProfile profile filename
      else RoleCredentials region)"

definition createClient :: "aws_env \<Rightarrow> 'h aws_world \<Rightarrow> error option \<times> 'h aws_world" where
  "createClient X s =
     (let w = snd (fst s)
      in if aw_client w then (None, s)
         else let (err, s) = aws_error X (Ec2Session (newSessionWithOptions X (aw_AccessKey w) (aw_SecretKey w) (aw_Token w)
                  (aw_Filename w) (aw_Profile w) (aw_Region w))) s
              in (err, if err = None then (map_prod id (\<lambda>w. w\<lparr>aw_client := True\<rparr>) (fst s), snd s) else s))"

text \<open>The credentials of Route53, or else those of the provider.\<close>

definition or_default :: "string \<Rightarrow> string \<Rightarrow> string" where
  "or_default s other = (if \<not> isNullOrEmpty s then s else other)"

definition GetRoute53AccessKey :: "aws_wrapper \<Rightarrow> string" where
  "GetRoute53AccessKey w = or_default (r53_AccessKey (aw_Route53 w)) (aw_AccessKey w)"

definition GetRoute53SecretKey :: "aws_wrapper \<Rightarrow> string" where
  "GetRoute53SecretKey w = or_default (r53_SecretKey (aw_Route53 w)) (aw_SecretKey w)"

definition GetRoute53AccessToken :: "aws_wrapper \<Rightarrow> string" where
  "GetRoute53AccessToken w = or_default (r53_Token (aw_Route53 w)) (aw_Token w)"

definition GetRoute53Profile :: "aws_wrapper \<Rightarrow> string" where
  "GetRoute53Profile w = or_default (r53_Profile (aw_Route53 w)) (aw_Profile w)"

definition GetRoute53Region :: "aws_wrapper \<Rightarrow> string" where
  "GetRoute53Region w = or_default (r53_Region (aw_Route53 w)) (aw_Region w)"

definition route53Client :: "aws_env \<Rightarrow> 'h aws_world \<Rightarrow> error option \<times> 'h aws_world" where
  "route53Client X s =
     (let w = snd (fst s)
      in aws_error X (Route53Session (newSessionWithOptions X (GetRoute53AccessKey w) (GetRoute53SecretKey w)
           (GetRoute53AccessToken w) (aw_Filename w) (GetRoute53Profile w) (GetRoute53Region w))) s)"

definition AmiExists :: "aws_env \<Rightarrow> string \<Rightarrow> 'h aws_world \<Rightarrow> bool \<times> 'h aws_world" where
  "AmiExists X ami s =
     (let (err, s) = createClient X s
      in if err \<noteq> None then (False, s)
         else let (err, s) = aws_error X (DescribeImages ami) s in (err = None, s))"

text \<open>\<^verbatim>\<open>NewAwsProviderConfiguration\<close> once the file is loaded.\<close>

definition aws_load :: "aws_env \<Rightarrow> 'h aws_world \<Rightarrow> error option \<times> 'h aws_world" where
  "aws_load X s =
     (let ami = aw_ImageID (snd (fst s)); (found, s) = AmiExists X ami s
      in (if found then None else Some (Errorf ''ami: %s not found'' [ami]), s))"

section \<open>Instances\<close>

definition ec2_address :: "ec2_instance \<Rightarrow> string option" where
  "ec2_address i = (case ei_PublicIpAddress i of Some a \<Rightarrow> Some a | None \<Rightarrow> ei_PrivateIpAddress i)"

definition ec2_code :: "ec2_instance \<Rightarrow> (int option \<times> string \<Rightarrow> 'a go) \<Rightarrow> 'a go" where
  "ec2_code i f = deref (ei_State i) f"

text \<open>The first instance that is neither terminated (48) nor shutting down (32).\<close>

fun living_instance :: "ec2_instance list \<Rightarrow> ec2_instance option go" where
  "living_instance [] = Ret None"
| "living_instance (i # is) =
     ec2_code i (\<lambda>(code, name). deref code (\<lambda>code.
       if code \<noteq> 48 \<and> code \<noteq> 32 then Ret (Some i) else living_instance is))"

definition no_instance :: "ec2_instance list list \<Rightarrow> bool" where
  "no_instance reservations \<longleftrightarrow> (case reservations of [] \<Rightarrow> True | r # _ \<Rightarrow> r = [])"

definition attach_ec2 :: "aws_wrapper \<Rightarrow> string \<Rightarrow> ec2_instance \<Rightarrow> ec2_running go" where
  "attach_ec2 w instanceName i =
     deref (ei_PrivateDnsName i) (\<lambda>dns. deref (ei_InstanceId i) (\<lambda>u. deref (ei_AvailabilityZone i) (\<lambda>zone.
       Ret \<lparr>er_NodeIndex = 0, er_InstanceName = instanceName, er_PrivateDNSName = dns, er_InstanceID = u,
         er_Region = aw_Region w, er_Zone = zone, er_AddressIP = ec2_address i\<rparr>)))"

definition GetEc2Instance ::
  "aws_env \<Rightarrow> string \<Rightarrow> 'h aws_world \<Rightarrow> ((error + ec2_running) \<times> 'h aws_world) go" where
  "GetEc2Instance X instanceName s =
     (let (err, s) = createClient X s
      in case err of
           Some e \<Rightarrow> Ret (Inl e, s)
         | None \<Rightarrow>
             let (r, s) = ask_remote (ax_reservations X) (Aws (DescribeInstancesNamed instanceName)) s;
                 not_found = Errorf ErrVMNotFound [instanceName]
             in case r of
                  Inl e \<Rightarrow> Ret (Inl e, s)
                | Inr reservations \<Rightarrow>
                    if no_instance reservations then Ret (Inl not_found, s)
                    else gbind (living_instance (concat reservations)) (\<lambda>found.
                           case found of
                             None \<Rightarrow> Ret (Inl not_found, s)
                           | Some i \<Rightarrow> gbind (attach_ec2 (snd (fst s)) instanceName i) (\<lambda>running. Ret (Inr running, s))))"

definition aws_Exists :: "aws_env \<Rightarrow> string \<Rightarrow> 'h aws_world \<Rightarrow> (bool \<times> 'h aws_world) go" where
  "aws_Exists X name s = gbind (GetEc2Instance X name s) (\<lambda>(r, s). Ret (error_of r = None, s))"

definition aws_UUID :: "aws_env \<Rightarrow> string \<Rightarrow> 'h aws_world \<Rightarrow> ((error + string) \<times> 'h aws_world) go" where
  "aws_UUID X name s = gbind (GetEc2Instance X name s) (\<lambda>(r, s). Ret (map_sum id er_InstanceID r, s))"

definition aws_AttachInstance ::
  "aws_env \<Rightarrow> string \<Rightarrow> bool \<Rightarrow> int \<Rightarrow> 'h aws_world \<Rightarrow> ((error + aws_handler) \<times> 'h aws_world) go" where
  "aws_AttachInstance X instanceName control nodeIndex s =
     gbind (GetEc2Instance X instanceName s) (\<lambda>(r, s).
       Ret (map_sum id (\<lambda>i. \<lparr>ah_instanceName = instanceName, ah_instanceType = [], ah_controlPlane = control,
         ah_nodeIndex = nodeIndex, ah_running = Some i, ah_desiredENI = None\<rparr>) r, s))"

definition aws_CreateInstance ::
  "aws_env \<Rightarrow> string \<Rightarrow> string \<Rightarrow> bool \<Rightarrow> int \<Rightarrow> 'h aws_world \<Rightarrow> ((error + aws_handler) \<times> 'h aws_world) go" where
  "aws_CreateInstance X instanceName instanceType control nodeIndex s =
     gbind (aws_Exists X instanceName s) (\<lambda>(found, s).
       Ret (if found then Inl (Errorf ErrVMAlreadyExists [instanceName])
            else Inr \<lparr>ah_instanceName = instanceName, ah_instanceType = instanceType, ah_controlPlane = control,
              ah_nodeIndex = nodeIndex, ah_running = None, ah_desiredENI = None\<rparr>, s))"

definition new_ec2 :: "string \<Rightarrow> int \<Rightarrow> ec2_running" where
  "new_ec2 instanceName nodeIndex =
     \<lparr>er_NodeIndex = nodeIndex, er_InstanceName = instanceName, er_PrivateDNSName = [], er_InstanceID = [],
      er_Region = [], er_Zone = [], er_AddressIP = None\<rparr>"

definition newEc2Instance :: "aws_env \<Rightarrow> string \<Rightarrow> int \<Rightarrow> 'h aws_world \<Rightarrow> (error + ec2_running) \<times> 'h aws_world" where
  "newEc2Instance X instanceName nodeIndex s =
     (let (err, s) = createClient X s
      in (case err of Some e \<Rightarrow> Inl e | None \<Rightarrow> Inr (new_ec2 instanceName nodeIndex), s))"

definition getEc2Instance :: "aws_env \<Rightarrow> ec2_running \<Rightarrow> 'h aws_world \<Rightarrow> (error + ec2_instance) \<times> 'h aws_world" where
  "getEc2Instance X i s =
     (let (r, s) = ask_remote (ax_reservations X) (Aws (DescribeInstance (er_InstanceID i))) s
      in (case r of
            Inl e \<Rightarrow> Inl e
          | Inr reservations \<Rightarrow>
              if no_instance reservations then Inl (Errorf ErrVMNotFound [er_InstanceName i]) else Inr (hd (hd reservations)), s))"

section \<open>Power\<close>

definition aws_seconds :: "'h aws_world \<Rightarrow> int" where
  "aws_seconds s = wrap64 (aw_Timeout (snd (fst s)) * second)"

text \<open>The address of the instance is written in the running instance when it runs.\<close>

definition aws_ip_attempt :: "aws_env \<Rightarrow> ec2_running \<Rightarrow> aws_state \<Rightarrow> ((bool \<times> error option) \<times> aws_state) go" where
  "aws_ip_attempt X i s =
     (let (r, s) = getEc2Instance X i s
      in case r of
           Inl e \<Rightarrow> Ret ((False, Some e), s)
         | Inr found \<Rightarrow> ec2_code found (\<lambda>(code, name). deref code (\<lambda>code.
             if code = 16
             then let s = change_ec2 (\<lambda>i. i\<lparr>er_AddressIP := ec2_address found\<rparr>) s
                  in deref (ec2_address found) (\<lambda>a.
                       let (err, s) = ask_remote (rans_err (ax_remote X)) (CallbackWaitSSHReady (er_InstanceName i) a) s
                       in Ret ((err = None, err), s))
             else if code \<noteq> 0
             then Ret ((False, Some (Errorf ErrWrongStateMachine [name, er_InstanceName i, ''pending''])), s)
             else Ret ((False, None), s))))"

definition aws_WaitForIP :: "aws_env \<Rightarrow> ec2_running \<Rightarrow> aws_state \<Rightarrow> ((string \<times> error option) \<times> aws_state) go" where
  "aws_WaitForIP X i s =
     gbind (remote_PollImmediate (ax_remote X) (aws_seconds s) (aws_ip_attempt X i) s) (\<lambda>(err, s).
       if err \<noteq> None then Ret (([], err), s)
       else deref (ah_running (fst (fst s))) (\<lambda>i. deref (er_AddressIP i) (\<lambda>a. Ret ((a, None), s))))"

definition aws_WaitForPowered :: "aws_env \<Rightarrow> ec2_running \<Rightarrow> aws_state \<Rightarrow> error option \<times> aws_state" where
  "aws_WaitForPowered X i s = aws_error X (WaitRunning (er_InstanceID i) (aws_seconds s)) s"

text \<open>An instance that cannot be described once it runs keeps its address, and the error is dropped.\<close>

definition aws_PowerOn :: "aws_env \<Rightarrow> ec2_running \<Rightarrow> aws_state \<Rightarrow> error option \<times> aws_state" where
  "aws_PowerOn X i s =
     (let (err, s) = aws_error X (StartInstances (er_InstanceID i)) s
      in if err \<noteq> None then (err, s)
         else let (err, s) = aws_error X (WaitRunning (er_InstanceID i) (aws_seconds s)) s
              in if err \<noteq> None then (err, s)
                 else let (r, s) = getEc2Instance X i s
                      in (None, case r of
                            Inl e \<Rightarrow> s
                          | Inr found \<Rightarrow> change_ec2 (\<lambda>i. i\<lparr>er_AddressIP := ec2_address found\<rparr>) s))"

definition aws_powerOff :: "aws_env \<Rightarrow> bool \<Rightarrow> ec2_running \<Rightarrow> aws_state \<Rightarrow> error option \<times> aws_state" where
  "aws_powerOff X force i s =
     (let (err, s) = aws_error X (StopInstances (er_InstanceID i) force) s
      in if err \<noteq> None then (err, s) else aws_error X (WaitStopped (er_InstanceID i) (aws_seconds s)) s)"

definition aws_delete :: "aws_env \<Rightarrow> bool \<Rightarrow> ec2_running \<Rightarrow> aws_state \<Rightarrow> error option \<times> aws_state" where
  "aws_delete X wait i s =
     (let (err, s) = aws_error X (TerminateInstances (er_InstanceID i)) s
      in if err = None \<and> wait then aws_error X (WaitTerminated (er_InstanceID i) (aws_seconds s)) s else (err, s))"

text \<open>A machine that is pending counts as powered.\<close>

definition aws_Status :: "aws_env \<Rightarrow> ec2_running \<Rightarrow> aws_state \<Rightarrow> ((error + instance_status) \<times> aws_state) go" where
  "aws_Status X i s =
     (let (r, s) = getEc2Instance X i s
      in case r of
           Inl e \<Rightarrow> Ret (Inl e, s)
         | Inr found \<Rightarrow> ec2_code found (\<lambda>(code, name).
             if code = None \<or> code = Some 48 then Ret (Inl (Errorf ''EC2 Instance %s is terminated'' [er_InstanceName i]), s)
             else if code = Some 16 \<or> code = Some 0
             then deref (ec2_address found) (\<lambda>a. Ret (Inr \<lparr>Address = a, Powered = True\<rparr>, s))
             else Ret (Inr \<lparr>Address = [], Powered = False\<rparr>, s)))"

section \<open>The network interfaces of a creation\<close>

text \<open>A negative index keeps its sign in the remainder.\<close>

definition GetNextSubnetsID :: "aws_network_interface \<Rightarrow> int \<Rightarrow> string go" where
  "GetNextSubnetsID eni nodeIndex =
     (let subnets = eni_SubnetsID eni; n = int (length subnets)
      in if n = 1 then Ret (hd subnets)
         else if n = 0 then Panic DivideByZero
         else let index = gorem nodeIndex n
              in if index < 0 then Panic IndexOutOfRange else Ret (subnets ! nat index))"

definition security_groups :: "string \<Rightarrow> string list" where
  "security_groups g = (if g \<noteq> [] then [g] else [])"

definition first_eni :: "aws_wrapper \<Rightarrow> (aws_network_interface \<Rightarrow> 'a go) \<Rightarrow> 'a go" where
  "first_eni w f = (case aw_ENI w of [] \<Rightarrow> Panic IndexOutOfRange | eni # _ \<Rightarrow> f eni)"

text \<open>
  The lookup of an interface with the private address. Its answer counts only beside an error: an
  interface found then replaces the address, and the error remains.
\<close>

definition lookup_interface ::
  "aws_env \<Rightarrow> user_interface \<Rightarrow> aws_state \<Rightarrow> ((string option \<times> error option \<times> user_interface) \<times> aws_state) go" where
  "lookup_interface X desired s =
     (let address = ue_PrivateAddress desired
      in if address = [] then Ret ((None, None, desired), s)
         else let ((output, err), s) = ask_remote (ax_interfaces X) (Aws (DescribeNetworkInterfaces address)) s
              in if err = None then Ret ((Some address, None, desired), s)
                 else deref output (\<lambda>found. case found of
                        [] \<Rightarrow> Ret ((Some address, err, desired), s)
                      | pointer # _ \<Rightarrow> deref pointer (\<lambda>u.
                          let desired = desired\<lparr>ue_NetworkInterfaceID := u\<rparr>
                          in Ret ((None, err, desired), change_aws (\<lambda>h. h\<lparr>ah_desiredENI := Some desired\<rparr>) s))))"

definition desired_interface :: "aws_wrapper \<Rightarrow> ec2_running \<Rightarrow> string option \<Rightarrow> user_interface \<Rightarrow> aws_interface go" where
  "desired_interface w i address desired =
     (let request = \<lparr>ai_PublicIP = ue_PublicIP desired, ai_DeleteOnTermination = False, ai_Description = er_InstanceName i,
            ai_DeviceIndex = 0, ai_SubnetId = None, ai_NetworkInterfaceId = None, ai_PrivateIpAddress = address, ai_Groups = []\<rparr>
      in if ue_NetworkInterfaceID desired \<noteq> []
         then Ret (request\<lparr>ai_NetworkInterfaceId := Some (ue_NetworkInterfaceID desired)\<rparr>)
         else gbind (if ue_SubnetID desired \<noteq> [] then Ret (ue_SubnetID desired)
                     else first_eni w (\<lambda>eni. GetNextSubnetsID eni (er_NodeIndex i))) (\<lambda>subnet.
              gbind (if ue_SecurityGroupID desired \<noteq> [] then Ret [ue_SecurityGroupID desired]
                     else first_eni w (\<lambda>eni. Ret (security_groups (eni_SecurityGroupID eni)))) (\<lambda>groups.
                Ret (request\<lparr>ai_DeleteOnTermination := True, ai_SubnetId := Some subnet, ai_Groups := groups\<rparr>))))"

fun configured_interfaces :: "ec2_running \<Rightarrow> int \<Rightarrow> aws_network_interface list \<Rightarrow> aws_interface list go" where
  "configured_interfaces i index [] = Ret []"
| "configured_interfaces i index (eni # enis) =
     gbind (GetNextSubnetsID eni (er_NodeIndex i)) (\<lambda>subnet.
       gbind (configured_interfaces i (index + 1) enis) (\<lambda>rest.
         Ret (\<lparr>ai_PublicIP = eni_PublicIP eni, ai_DeleteOnTermination = True, ai_Description = er_InstanceName i,
           ai_DeviceIndex = wrap32 index, ai_SubnetId = Some subnet, ai_NetworkInterfaceId = None,
           ai_PrivateIpAddress = None, ai_Groups = security_groups (eni_SecurityGroupID eni)\<rparr> # rest)))"

definition buildNetworkInterfaces ::
  "aws_env \<Rightarrow> ec2_running \<Rightarrow> user_interface option \<Rightarrow> aws_state \<Rightarrow> ((aws_interface list \<times> error option) \<times> aws_state) go" where
  "buildNetworkInterfaces X i desired s =
     (let w = snd (fst s)
      in case desired of
           Some desired \<Rightarrow> gbind (lookup_interface X desired s) (\<lambda>((address, err, desired), s).
             gbind (desired_interface w i address desired) (\<lambda>request. Ret (([request], err), s)))
         | None \<Rightarrow>
             if aw_ENI w = [] then Ret (([], Some (Plain ''unable create worker node, any network interface defined'')), s)
             else gbind (configured_interfaces i 0 (aw_ENI w)) (\<lambda>requests. Ret ((requests, None), s)))"

section \<open>Creating an instance\<close>

text \<open>The size is in megabytes, that of the request in gigabytes.\<close>

definition buildBlockDeviceMappings :: "string \<Rightarrow> int \<Rightarrow> (string \<times> int) list" where
  "buildBlockDeviceMappings diskType diskSize =
     (if 0 < diskSize \<or> diskType \<noteq> []
      then [(if diskType = [] then ''gp3'' else diskType, wrap32 (if diskSize = 0 then 10 else godiv diskSize 1024))]
      else [])"

definition buildTagSpecifications :: "aws_wrapper \<Rightarrow> ec2_running \<Rightarrow> string \<Rightarrow> (string \<times> string) list" where
  "buildTagSpecifications w i nodeGroup =
     [(''Name'', er_InstanceName i), (''NodeGroup'', nodeGroup), (''NodeIndex'', Itoa (er_NodeIndex i))] @ aw_Tags w"

definition run_input ::
  "aws_wrapper \<Rightarrow> ec2_running \<Rightarrow> string \<Rightarrow> string \<Rightarrow> string \<Rightarrow> string \<Rightarrow> int \<Rightarrow> aws_interface list \<Rightarrow> run_request" where
  "run_input w i nodeGroup instanceType userData diskType diskSize interfaces =
     \<lparr>rr_InstanceType = instanceType, rr_ImageId = aw_ImageID w, rr_KeyName = aw_KeyName w,
      rr_UserData = (if userData = [] then None else Some userData), rr_Metadata = aw_Metadata w, rr_IamRole = aw_IamRole w,
      rr_Tags = buildTagSpecifications w i nodeGroup, rr_Disks = buildBlockDeviceMappings diskType diskSize,
      rr_Interfaces = interfaces\<rparr>"

definition created_ec2 :: "aws_wrapper \<Rightarrow> ec2_instance list \<Rightarrow> (ec2_running \<Rightarrow> ec2_running) go" where
  "created_ec2 w instances =
     (case instances of
        [] \<Rightarrow> Panic IndexOutOfRange
      | found # _ \<Rightarrow> deref (ei_AvailabilityZone found) (\<lambda>zone. deref (ei_InstanceId found) (\<lambda>u. deref (ei_PrivateDnsName found) (\<lambda>dns.
          Ret (\<lambda>i. i\<lparr>er_Region := aw_Region w, er_Zone := zone, er_InstanceID := u, er_PrivateDNSName := dns\<rparr>)))))"

definition aws_Create ::
  "aws_env \<Rightarrow> ec2_running \<Rightarrow> string \<Rightarrow> string \<Rightarrow> string \<Rightarrow> string \<Rightarrow> int \<Rightarrow> user_interface option \<Rightarrow> aws_state \<Rightarrow>
   (error option \<times> aws_state) go" where
  "aws_Create X i nodeGroup instanceType userData diskType diskSize desired s =
     gbind (aws_Exists X (er_InstanceName i) s) (\<lambda>(found, s).
       if found then Ret (Some (Errorf ErrCantCreateVMAlreadyExist [er_InstanceName i]), s)
       else gbind (buildNetworkInterfaces X i desired s) (\<lambda>((interfaces, err), s).
         if err \<noteq> None then Ret (err, s)
         else let w = snd (fst s);
                  input = run_input w i nodeGroup instanceType userData diskType diskSize interfaces;
                  (r, s) = ask_remote (ax_run X) (Aws (RunInstances input)) s
              in case r of
                   Inl e \<Rightarrow> Ret (Some e, s)
                 | Inr instances \<Rightarrow> gbind (created_ec2 w instances) (\<lambda>f. Ret (None, change_ec2 f s))))"

section \<open>Records of Route53\<close>

text \<open>An error of the list is not returned: it is a variable of its own. The address is a pointer.\<close>

definition getRegisteredRecordSetAddress ::
  "aws_env \<Rightarrow> string \<Rightarrow> 'h aws_world \<Rightarrow> (error + string option) \<times> 'h aws_world" where
  "getRegisteredRecordSetAddress X name s =
     (let (err, s) = route53Client X s
      in case err of
           Some e \<Rightarrow> (Inl e, s)
         | None \<Rightarrow>
             let (r, s) = ask_remote (ax_records X) (Aws (ListResourceRecordSets (r53_ZoneID (aw_Route53 (snd (fst s)))) name)) s
             in (Inr (case r of Inr ((value # _) # _) \<Rightarrow> value | _ \<Rightarrow> None), s))"

definition changeResourceRecordSetsInput ::
  "aws_env \<Rightarrow> string \<Rightarrow> string \<Rightarrow> string \<Rightarrow> bool \<Rightarrow> 'h aws_world \<Rightarrow> (error option \<times> 'h aws_world) go" where
  "changeResourceRecordSetsInput X cmd name address wait s =
     (let (err, s) = route53Client X s
      in if err \<noteq> None then Ret (err, s)
         else let (r, s) = ask_remote (ax_change X)
                    (Aws (ChangeResourceRecordSets (r53_ZoneID (aw_Route53 (snd (fst s)))) cmd name address)) s
              in case r of
                   Inl e \<Rightarrow> Ret (Some e, s)
                 | Inr change \<Rightarrow>
                     if wait then deref change (\<lambda>u. Ret (aws_error X (WaitResourceRecordSetsChanged u (aws_seconds s)) s))
                     else Ret (None, s))"

definition aws_RegisterDNS :: "aws_env \<Rightarrow> string \<Rightarrow> string \<Rightarrow> bool \<Rightarrow> 'h aws_world \<Rightarrow> (error option \<times> 'h aws_world) go" where
  "aws_RegisterDNS X = changeResourceRecordSetsInput X ''UPSERT''"

definition aws_UnRegisterDNS :: "aws_env \<Rightarrow> string \<Rightarrow> bool \<Rightarrow> 'h aws_world \<Rightarrow> (error option \<times> 'h aws_world) go" where
  "aws_UnRegisterDNS X name wait s =
     (let (r, s) = getRegisteredRecordSetAddress X name s
      in case r of
           Inl e \<Rightarrow> Ret (None, s)
         | Inr pointer \<Rightarrow> deref pointer (\<lambda>address. changeResourceRecordSetsInput X ''DELETE'' name address wait s))"

section \<open>The handler\<close>

definition when_ec2 ::
  "handler_result \<Rightarrow> (ec2_running \<Rightarrow> aws_state \<Rightarrow> (handler_result \<times> aws_state) go) \<Rightarrow> aws_state \<Rightarrow> (handler_result \<times> aws_state) go" where
  "when_ec2 refused body s = (case ah_running (fst (fst s)) of None \<Rightarrow> Ret (refused, s) | Some i \<Rightarrow> body i s)"

text \<open>An interface is used when it names a subnet or a security group.\<close>

definition aws_ConfigureNetwork :: "managed_network_config \<Rightarrow> aws_handler \<Rightarrow> aws_handler" where
  "aws_ConfigureNetwork network h =
     (case net_ENI network of
        None \<Rightarrow> h
      | Some eni \<Rightarrow>
          if aws_SubnetID eni \<noteq> [] \<or> aws_SecurityGroupID eni \<noteq> []
          then h\<lparr>ah_desiredENI := Some \<lparr>ue_NetworkInterfaceID = aws_NetworkInterfaceID eni, ue_SubnetID = aws_SubnetID eni,
                 ue_SecurityGroupID = aws_SecurityGroupID eni, ue_PrivateAddress = aws_PrivateAddress eni, ue_PublicIP = aws_PublicIP eni\<rparr>\<rparr>
          else h)"

definition aws_GenerateProviderID :: "ec2_running \<Rightarrow> string" where
  "aws_GenerateProviderID i =
     (if er_Zone i = [] \<or> er_InstanceID i = [] then []
      else if isNullOrEmpty (er_Zone i) \<or> isNullOrEmpty (er_InstanceID i) then []
      else Sprintf ''aws://%s/%s'' [er_Zone i, er_InstanceID i])"

definition aws_InstanceCreate :: "aws_env \<Rightarrow> codec \<Rightarrow> instance_input \<Rightarrow> aws_state \<Rightarrow> (handler_result \<times> aws_state) go" where
  "aws_InstanceCreate X cd input s =
     (case encoded_cloud_init cd (in_CloudInit input) of
        Inl e \<Rightarrow> Ret (Text [] (Some e), s)
      | Inr userData \<Rightarrow>
          let h = fst (fst s); (r, s) = newEc2Instance X (ah_instanceName h) (ah_nodeIndex h) s
          in case r of
               Inl e \<Rightarrow> Ret (Text [] (Some e), change_aws (\<lambda>h. h\<lparr>ah_running := None\<rparr>) s)
             | Inr i \<Rightarrow>
                 gbind (aws_Create X i (in_NodeGroup input) (ah_instanceType h) userData (aw_VolumeType (snd (fst s))) (in_DiskSize input)
                   (ah_desiredENI h) (change_aws (\<lambda>h. h\<lparr>ah_running := Some i\<rparr>) s)) (\<lambda>(err, s).
                   case err of
                     Some e \<Rightarrow> Ret (Text [] (Some e), s)
                   | None \<Rightarrow> deref (ah_running (fst (fst s))) (\<lambda>i. Ret (Text (er_InstanceID i) None, s))))"

text \<open>The arithmetic is that of 32-bit integers.\<close>

definition aws_InstanceMaxPods :: "aws_env \<Rightarrow> aws_state \<Rightarrow> (handler_result \<times> aws_state) go" where
  "aws_InstanceMaxPods X s =
     (let (err, s) = createClient X s
      in if err \<noteq> None then Ret (Number 0 err, s)
         else let (r, s) = ask_remote (ax_types X) (Aws (DescribeInstanceType (ah_instanceType (fst (fst s))))) s
              in case r of
                   Inl e \<Rightarrow> Ret (Number 0 (Some e), s)
                 | Inr [] \<Rightarrow> Panic IndexOutOfRange
                 | Inr (pointer # _) \<Rightarrow> deref pointer (\<lambda>(interfaces, addresses).
                     deref interfaces (\<lambda>m. deref addresses (\<lambda>p.
                       Ret (Number (wrap32 (wrap32 (m * wrap32 (p - 1)) + 2)) None, s)))))"

definition aws_dns :: "(string \<Rightarrow> aws_state \<Rightarrow> (error option \<times> aws_state) go) \<Rightarrow> aws_state \<Rightarrow> (handler_result \<times> aws_state) go" where
  "aws_dns change s =
     (let r = aw_Route53 (snd (fst s))
      in when_ec2 (Done None) (\<lambda>i s.
           if r53_ZoneID r = [] then Ret (Done None, s)
           else answering Done (change (Sprintf ''%s.%s'' [er_InstanceName i, r53_PrivateZoneName r]) s)) s)"

fun aws_handle :: "aws_env \<Rightarrow> codec \<Rightarrow> handler_call \<Rightarrow> aws_state \<Rightarrow> (handler_result \<times> aws_state) go" where
  "aws_handle X cd (ConfigureNetwork net) s = Ret (Done None, change_aws (aws_ConfigureNetwork net) s)"
| "aws_handle X cd RetrieveNetworkInfos s = Ret (Done None, s)"
| "aws_handle X cd UpdateMacAddressTable s = Ret (Done None, s)"
| "aws_handle X cd GenerateProviderID s =
     deref (ah_running (fst (fst s))) (\<lambda>i. Ret (Text (aws_GenerateProviderID i) None, s))"
| "aws_handle X cd GetTopologyLabels s =
     deref (ah_running (fst (fst s))) (\<lambda>i. Ret (Labels (topology_labels (er_Region i) (er_Zone i)), s))"
| "aws_handle X cd (InstanceCreate input) s = aws_InstanceCreate X cd input s"
| "aws_handle X cd InstanceWaitReady s =
     when_ec2 (Text [] (Some not_ready)) (\<lambda>i s. answering (\<lambda>(a, err). Text a err) (aws_WaitForIP X i s)) s"
| "aws_handle X cd InstancePrimaryAddressIP s =
     Ret (Text (case ah_desiredENI (fst (fst s)) of None \<Rightarrow> [] | Some eni \<Rightarrow> ue_PrivateAddress eni) None, s)"
| "aws_handle X cd InstanceID s = when_ec2 (Text [] (Some not_attached)) (\<lambda>i s. Ret (Text (er_InstanceID i) None, s)) s"
| "aws_handle X cd InstanceAutoStart s = Ret (Done None, s)"
| "aws_handle X cd InstancePowerOn s =
     when_ec2 (Done (Some not_attached)) (\<lambda>i s. answering Done (Ret (aws_PowerOn X i s))) s"
| "aws_handle X cd InstancePowerOff s =
     when_ec2 (Done (Some not_attached)) (\<lambda>i s. answering Done (Ret (aws_powerOff X True i s))) s"
| "aws_handle X cd InstanceDelete s =
     when_ec2 (Done (Some not_attached)) (\<lambda>i s. answering Done (Ret (aws_delete X False i s))) s"
| "aws_handle X cd InstanceCreated s =
     when_ec2 (Flag False None) (\<lambda>i s. answering (\<lambda>b. Flag b None) (aws_Exists X (er_InstanceName i) s)) s"
| "aws_handle X cd InstanceStatus s =
     when_ec2 (Status None (Some not_attached)) (\<lambda>i s.
       answering (\<lambda>r. case r of Inl e \<Rightarrow> Status None (Some e) | Inr st \<Rightarrow> Status (Some st) None) (aws_Status X i s)) s"
| "aws_handle X cd InstanceWaitForToolsRunning s = Ret (Flag True None, s)"
| "aws_handle X cd (InstanceMaxPods desired) s = aws_InstanceMaxPods X s"
| "aws_handle X cd (RegisterDNS address) s =
     aws_dns (\<lambda>hostname s. aws_RegisterDNS X hostname address (aw_testMode (snd (fst s))) s) s"
| "aws_handle X cd (UnregisterDNS address) s = aws_dns (\<lambda>hostname s. aws_UnRegisterDNS X hostname False s) s"

text \<open>The methods that the controller does not call.\<close>

definition aws_InstanceShutdownGuest :: "aws_env \<Rightarrow> aws_state \<Rightarrow> (handler_result \<times> aws_state) go" where
  "aws_InstanceShutdownGuest X =
     when_ec2 (Done (Some not_attached)) (\<lambda>i s. answering Done (Ret (aws_powerOff X False i s)))"

definition aws_InstanceWaitForPowered :: "aws_env \<Rightarrow> aws_state \<Rightarrow> (handler_result \<times> aws_state) go" where
  "aws_InstanceWaitForPowered X =
     when_ec2 (Done (Some not_attached)) (\<lambda>i s. answering Done (Ret (aws_WaitForPowered X i s)))"

definition aws_PrivateDNSName :: "aws_state \<Rightarrow> (handler_result \<times> aws_state) go" where
  "aws_PrivateDNSName s = deref (ah_running (fst (fst s))) (\<lambda>i. Ret (Text (er_PrivateDNSName i) None, s))"

definition aws_handler_UUID :: "aws_env \<Rightarrow> string \<Rightarrow> aws_state \<Rightarrow> ((error + string) \<times> aws_state) go" where
  "aws_handler_UUID X instanceName s =
     (case ah_running (fst (fst s)) of
        Some i \<Rightarrow> if er_InstanceName i = instanceName then Ret (Inr (er_InstanceID i), s) else aws_UUID X instanceName s
      | None \<Rightarrow> aws_UUID X instanceName s)"

end
