(* ===== verification/Aws_Facts.thy ===== *)
theory Aws_Facts
  imports Aws
begin

text \<open>
  The AWS provider: the contract of its handler, what a creation requests, how instances are spread over
  subnets and found by name, and the records of Route53.
\<close>

section \<open>Frames\<close>

definition same_handler :: "'h aws_world \<Rightarrow> ('a \<times> 'h aws_world) \<Rightarrow> bool" where
  "same_handler s p \<longleftrightarrow> fst (fst (snd p)) = fst (fst s)"

lemma asks_keep [simp]:
  "fst (snd (aws_error X c s)) = fst s" "fst (snd (getEc2Instance X i s)) = fst s"
  "fst (snd (route53Client X s)) = fst s" "fst (snd (getRegisteredRecordSetAddress X name s)) = fst s"
proof -
  show e: "fst (snd (aws_error X c s)) = fst s" for c s by (simp add: aws_error_def ask_remote_fst)
  show "fst (snd (getEc2Instance X i s)) = fst s"
    by (simp add: getEc2Instance_def case_prod_unfold Let_def ask_remote_fst)
  show "fst (snd (route53Client X s)) = fst s" by (simp add: route53Client_def Let_def e)
  then show "fst (snd (getRegisteredRecordSetAddress X name s)) = fst s"
    by (simp add: getRegisteredRecordSetAddress_def Let_def case_prod_unfold ask_remote_fst split: option.split)
qed

lemma createClient_keeps [simp]: "fst (fst (snd (createClient X s))) = fst (fst s)"
  by (simp add: createClient_def Let_def case_prod_unfold)

lemma change_aws_simps [simp]:
  "fst (fst (change_aws f s)) = f (fst (fst s))" "snd (fst (change_aws f s)) = snd (fst s)" "snd (change_aws f s) = snd s"
  by (simp_all add: change_aws_def)

lemma change_ec2_simps [simp]:
  "fst (fst (change_ec2 f s)) = (fst (fst s))\<lparr>ah_running := map_option f (ah_running (fst (fst s)))\<rparr>"
  "snd (fst (change_ec2 f s)) = snd (fst s)" "snd (change_ec2 f s) = snd s"
  by (simp_all add: change_ec2_def)

lemma holds_deref [simp]: "holds Q (deref p f) \<longleftrightarrow> (\<forall>a. p = Some a \<longrightarrow> holds Q (f a))"
  by (cases p) (simp_all add: deref_def)

lemma holds_all: "(\<And>a. Q a) \<Longrightarrow> holds Q m"
  by (cases m) simp_all

lemma found_keeps: "holds (same_handler s) (GetEc2Instance X name s)" "holds (same_handler s) (aws_Exists X name s)"
  "holds (same_handler s) (aws_UUID X name s)"
proof -
  have g: "holds (same_handler s) (GetEc2Instance X name s)" for s :: "'h aws_world"
    by (auto simp: GetEc2Instance_def same_handler_def Let_def case_prod_unfold ask_remote_fst
        split: option.split sum.split intro!: holds_all)
  then show "holds (same_handler s) (GetEc2Instance X name s)" .
  show "holds (same_handler s) (aws_Exists X name s)" "holds (same_handler s) (aws_UUID X name s)"
    using g [of s] by (auto simp: aws_Exists_def aws_UUID_def holds_gbind same_handler_def elim!: holds_mono)
qed

section \<open>The contract of the handler\<close>

abbreviation ec2_stays :: "aws_state \<Rightarrow> ('a \<times> aws_state) go \<Rightarrow> bool" where
  "ec2_stays s \<equiv> holds (\<lambda>(r, s'). (ah_running (fst (fst s')) = None) = (ah_running (fst (fst s)) = None))"

lemma ec2_staysI: "holds (same_handler s) m \<Longrightarrow> ec2_stays s m"
  by (erule holds_mono) (auto simp: same_handler_def)

lemma ec2_answering: "ec2_stays s m \<Longrightarrow> ec2_stays s (answering f m)"
  by (cases m) (auto simp: answering_def)

lemma when_ec2_stays:
  "(\<And>i. ah_running (fst (fst s)) = Some i \<Longrightarrow> ec2_stays s (body i s)) \<Longrightarrow> ec2_stays s (when_ec2 refused body s)"
  by (auto simp: when_ec2_def split: option.splits)

lemma ec2_stays_if: "ec2_stays s (Ret (r, s)) \<Longrightarrow> ec2_stays s m \<Longrightarrow> ec2_stays s (if c then Ret (r, s) else m)"
  by simp

lemma aws_power_stays:
  "ec2_stays s (Ret (aws_PowerOn X i s))" "ec2_stays s (Ret (aws_powerOff X force i s))" "ec2_stays s (Ret (aws_delete X wait i s))"
  "ec2_stays s (aws_Status X i s)"
  by (auto simp: aws_PowerOn_def aws_powerOff_def aws_delete_def aws_Status_def ec2_code_def case_prod_unfold Let_def split: sum.split)

lemma aws_ip_stays: "ec2_stays s (aws_WaitForIP X i s)"
proof -
  let ?I = "\<lambda>s'. (ah_running (fst (fst s')) = None) = (ah_running (fst (fst s)) = None)"
  have step: "holds (\<lambda>(r, s'). ?I s') (aws_ip_attempt X i t)" if "?I t" for t
    using that by (auto simp: aws_ip_attempt_def ec2_code_def case_prod_unfold Let_def ask_remote_fst split: sum.split)
  have "holds (\<lambda>(e, s'). ?I s') (remote_PollImmediate (ax_remote X) timeout (aws_ip_attempt X i) s)" for timeout
    by (rule remote_poll_holds) (simp_all add: step ask_remote_fst)
  from this [of "aws_seconds s"] show ?thesis
    by (auto simp: aws_WaitForIP_def holds_gbind elim!: holds_mono)
qed

lemma aws_records_keep:
  "holds (same_handler s) (aws_RegisterDNS X name address wait s)" "holds (same_handler s) (aws_UnRegisterDNS X name wait s)"
proof -
  have c: "holds (\<lambda>(r, t). fst t = fst s) (changeResourceRecordSetsInput X cmd name address wait s)" for cmd address and s :: "'h aws_world"
    by (auto simp: changeResourceRecordSetsInput_def case_prod_unfold Let_def ask_remote_fst split: sum.split)
  show "holds (same_handler s) (aws_RegisterDNS X name address wait s)"
    using c [of s "''UPSERT''" address] by (auto simp: aws_RegisterDNS_def same_handler_def elim!: holds_mono)
  have "holds (same_handler s) (changeResourceRecordSetsInput X ''DELETE'' name a wait (snd (getRegisteredRecordSetAddress X name s)))" for a
    using c [of "snd (getRegisteredRecordSetAddress X name s)" "''DELETE''" a]
    by (auto simp: same_handler_def elim!: holds_mono)
  then show "holds (same_handler s) (aws_UnRegisterDNS X name wait s)"
    by (auto simp: aws_UnRegisterDNS_def case_prod_unfold Let_def same_handler_def split: sum.split)
qed

lemma aws_dns_stays: "(\<And>name. holds (same_handler s) (change name s)) \<Longrightarrow> ec2_stays s (aws_dns change s)"
  unfolding aws_dns_def Let_def by (rule when_ec2_stays, rule ec2_stays_if) (simp, blast intro: ec2_answering ec2_staysI)

lemma aws_max_pods_stays: "ec2_stays s (aws_InstanceMaxPods X s)"
  by (auto simp: aws_InstanceMaxPods_def case_prod_unfold Let_def ask_remote_fst split: sum.split list.split)

lemma aws_network_running: "ah_running (aws_ConfigureNetwork net h) = ah_running h"
  by (simp add: aws_ConfigureNetwork_def split: option.split)

lemma aws_handle_stays:
  assumes "\<not> creates_instance c"
  shows "ec2_stays s (aws_handle X cd c s)"
  using assms
  by (cases c)
    (auto simp del: holds_simps intro!: when_ec2_stays ec2_answering aws_power_stays aws_ip_stays aws_max_pods_stays
      aws_dns_stays aws_records_keep found_keeps [THEN ec2_staysI], auto simp: aws_network_running)

interpretation aws: attached_handler "\<lambda>h. ah_running (fst h) \<noteq> None" "aws_handle X cd" needs_running creates_instance for X cd
proof
  fix c and s :: aws_state
  assume "needs_running c" "\<not> ah_running (fst (fst s)) \<noteq> None"
  then show "\<exists>r. aws_handle X cd c s = Ret (r, s) \<and> result_error r \<noteq> None"
    by (cases c) (auto simp: when_ec2_def)
next
  fix c r and s s' :: aws_state
  assume "aws_handle X cd c s = Ret (r, s')" "\<not> creates_instance c"
  then show "(ah_running (fst (fst s')) \<noteq> None) = (ah_running (fst (fst s)) \<noteq> None)"
    using aws_handle_stays [of c s X cd] by simp
qed

section \<open>Subnets\<close>

text \<open>Instances with consecutive indices are spread over the subnets in turn, each being used once per round.\<close>

theorem subnets_in_turn:
  assumes "eni_SubnetsID eni \<noteq> []"
  shows "map (\<lambda>j. GetNextSubnetsID eni (int j)) [k ..< k + length (eni_SubnetsID eni)] = map Ret (rotate k (eni_SubnetsID eni))"
proof -
  let ?n = "length (eni_SubnetsID eni)"
  have g: "GetNextSubnetsID eni (int j) = Ret (eni_SubnetsID eni ! (j mod ?n))" for j
  proof (cases "?n = 1")
    case True
    with assms show ?thesis by (cases "eni_SubnetsID eni") (simp_all add: GetNextSubnetsID_def)
  next
    case False
    have "gorem (int j) (int ?n) = int (j mod ?n)" using assms by (simp add: gorem_nonneg zmod_int)
    with assms False show ?thesis by (simp add: GetNextSubnetsID_def Let_def)
  qed
  show ?thesis by (rule nth_equalityI) (simp_all add: g nth_rotate add.commute)
qed

text \<open>An interface without a subnet divides by zero.\<close>

lemma no_subnet_panics: "eni_SubnetsID eni = [] \<Longrightarrow> GetNextSubnetsID eni j = Panic DivideByZero"
  by (simp add: GetNextSubnetsID_def)

definition lookup_calls :: "user_interface option \<Rightarrow> remote_calls" where
  "lookup_calls desired = (case desired of None \<Rightarrow> []
     | Some d \<Rightarrow> if ue_PrivateAddress d = [] then [] else [Aws (DescribeNetworkInterfaces (ue_PrivateAddress d))])"

lemma lookup_interface_ok:
  assumes "lookup_interface X desired s = Ret ((address, None, desired'), s')"
  shows "desired' = desired \<and> address = (if ue_PrivateAddress desired = [] then None else Some (ue_PrivateAddress desired)) \<and>
    fst s' = fst s \<and> snd (snd s') = lookup_calls (Some desired) @ snd (snd s)"
  using assms
  by (cases s) (auto simp: lookup_interface_def lookup_calls_def Let_def deref_def split: if_splits prod.splits option.splits list.splits)

text \<open>
  The lookup of an existing interface changes nothing: unless it fails, the interface is requested with
  its private address and as the configuration names it, whatever the answer was.
\<close>

theorem existing_interface_ignored:
  assumes "buildNetworkInterfaces X i (Some desired) s = Ret ((requests, None), s')"
  shows "fst s' = fst s \<and> (\<exists>q. requests = [q] \<and> ai_PrivateIpAddress q = (if ue_PrivateAddress desired = [] then None else Some (ue_PrivateAddress desired)) \<and>
    ai_NetworkInterfaceId q = (if ue_NetworkInterfaceID desired = [] then None else Some (ue_NetworkInterfaceID desired)))"
proof -
  from assms obtain address err desired' t q where l: "lookup_interface X desired s = Ret ((address, err, desired'), t)"
    and q: "desired_interface (snd (fst s)) i address desired' = Ret q" "requests = [q]" "err = None" "t = s'"
    by (auto simp: buildNetworkInterfaces_def)
  with lookup_interface_ok [of X desired s] have "desired' = desired"
    "address = (if ue_PrivateAddress desired = [] then None else Some (ue_PrivateAddress desired))" "fst s' = fst s"
    by auto
  with q(1,2) show ?thesis
    by (auto simp: desired_interface_def Let_def split: if_splits)
qed

section \<open>Instances by name\<close>

definition living :: "ec2_instance \<Rightarrow> bool" where
  "living i \<longleftrightarrow> (\<exists>code name. ei_State i = Some (Some code, name) \<and> code \<notin> {32, 48})"

definition dead :: "ec2_instance \<Rightarrow> bool" where
  "dead i \<longleftrightarrow> (\<exists>code name. ei_State i = Some (Some code, name) \<and> code \<in> {32, 48})"

lemma living_instance_found:
  "living_instance is = Ret (Some i) \<longleftrightarrow> (\<exists>before after. is = before @ i # after \<and> (\<forall>j \<in> set before. dead j) \<and> living i)"
  "living_instance is = Ret None \<longleftrightarrow> (\<forall>j \<in> set is. dead j)"
proof (induction "is")
  case (Cons j js)
  have l: "living_instance (j # js) = (if living j then Ret (Some j) else if dead j then living_instance js else Panic NilDeref)"
    by (auto simp: living_def dead_def ec2_code_def deref_def split: option.split)
  have d: "\<not> (living k \<and> dead k)" for k by (auto simp: living_def dead_def)
  { case 1 show ?case
    proof
      assume a: "living_instance (j # js) = Ret (Some i)"
      show "\<exists>before after. j # js = before @ i # after \<and> (\<forall>j \<in> set before. dead j) \<and> living i"
      proof (cases "living j")
        case True
        with a l show ?thesis by (intro exI [of _ "[]"] exI [of _ js]) auto
      next
        case False
        with a l Cons.IH(1) obtain before after where "dead j" "js = before @ i # after" "\<forall>j \<in> set before. dead j" "living i"
          by (auto split: if_splits)
        then show ?thesis by (intro exI [of _ "j # before"] exI [of _ after]) auto
      qed
    next
      assume "\<exists>before after. j # js = before @ i # after \<and> (\<forall>j \<in> set before. dead j) \<and> living i"
      then obtain before after where b: "j # js = before @ i # after" "\<forall>j \<in> set before. dead j" "living i" by blast
      with l Cons.IH(1) d [of j] show "living_instance (j # js) = Ret (Some i)" by (cases before) auto
    qed }
  { case 2 show ?case using l Cons.IH(2) d [of j] by auto }
qed simp_all

text \<open>An instance found by its name is the first one that is neither terminated nor shutting down.\<close>

theorem GetEc2Instance_first_living:
  assumes "GetEc2Instance X name s = Ret (Inr running, s')"
  shows "\<exists>reservations before i after. snd (snd s') = Aws (DescribeInstancesNamed name) # snd (snd (snd (createClient X s))) \<and>
    ax_reservations X (snd (snd s')) = Inr reservations \<and> concat reservations = before @ i # after \<and>
    (\<forall>j \<in> set before. dead j) \<and> living i \<and> ei_InstanceId i = Some (er_InstanceID running) \<and>
    er_InstanceName running = name \<and> er_AddressIP running = ec2_address i"
proof -
  obtain err t where c: "createClient X s = (err, t)" by (rule prod.exhaust)
  obtain h tb calls where t: "t = (h, tb, calls)" by (metis prod.exhaust)
  from assms c have e: "err = None" by (auto simp: GetEc2Instance_def split: option.splits)
  from assms c e t obtain reservations where r: "ax_reservations X (Aws (DescribeInstancesNamed name) # calls) = Inr reservations"
    by (cases "ax_reservations X (Aws (DescribeInstancesNamed name) # calls)") (auto simp: GetEc2Instance_def Let_def)
  with assms c e t obtain i where f: "living_instance (concat reservations) = Ret (Some i)"
    and a: "attach_ec2 (snd h) name i = Ret running" "s' = (h, tb, Aws (DescribeInstancesNamed name) # calls)"
    by (auto simp: GetEc2Instance_def Let_def split: if_splits option.splits)
  from f obtain before after where "concat reservations = before @ i # after" "\<forall>j \<in> set before. dead j" "living i"
    using living_instance_found(1) by blast
  with a r c t show ?thesis
    by (auto simp: attach_ec2_def deref_def split: option.splits intro!: exI [of _ reservations] exI [of _ before])
qed

section \<open>Creations\<close>

text \<open>Nothing alive has the name, or the answer was an error.\<close>

definition absent :: "aws_env \<Rightarrow> remote_calls \<Rightarrow> bool" where
  "absent X calls \<longleftrightarrow> (case ax_reservations X calls of
     Inl e \<Rightarrow> True | Inr reservations \<Rightarrow> no_instance reservations \<or> (\<forall>i \<in> set (concat reservations). dead i))"

lemma client_is_made: "aw_client (snd (fst s)) \<Longrightarrow> createClient X s = (None, s)"
  by (simp add: createClient_def)

lemma made_client: "createClient X s = (None, t) \<Longrightarrow> aw_client (snd (fst t))"
  by (auto simp: createClient_def Let_def case_prod_unfold split: if_splits)

lemma aws_Exists_absent:
  assumes "aws_Exists X name s = Ret (False, s')" "aw_client (snd (fst s))"
  shows "fst s' = fst s \<and> snd (snd s') = Aws (DescribeInstancesNamed name) # snd (snd s) \<and> absent X (snd (snd s'))"
proof -
  obtain h t calls where s: "s = (h, t, calls)" by (metis prod.exhaust)
  from assms obtain r where g: "GetEc2Instance X name s = Ret (r, s')" "error_of r \<noteq> None"
    by (auto simp: aws_Exists_def)
  then obtain e where "GetEc2Instance X name s = Ret (Inl e, s')" by (auto simp: error_of_def split: sum.splits)
  then show ?thesis using assms(2) s living_instance_found(2)
    by (auto simp: GetEc2Instance_def client_is_made Let_def absent_def split: sum.splits if_splits option.splits)
qed

text \<open>
  \<open>on_subnet\<close>: the subnet is one of the interface, the one of the rank of the node, modulo their number,
  when the index of the node is not negative.
\<close>

definition on_subnet :: "int \<Rightarrow> aws_network_interface \<Rightarrow> string \<Rightarrow> bool" where
  "on_subnet index eni subnet \<longleftrightarrow> subnet \<in> set (eni_SubnetsID eni) \<and>
     (0 \<le> index \<longrightarrow> subnet = eni_SubnetsID eni ! (nat index mod length (eni_SubnetsID eni)))"

lemma GetNextSubnetsID_on_subnet:
  assumes "GetNextSubnetsID eni index = Ret subnet"
  shows "on_subnet index eni subnet"
proof (cases "length (eni_SubnetsID eni) = 1")
  case True
  with assms show ?thesis by (auto simp: GetNextSubnetsID_def on_subnet_def length_Suc_conv)
next
  case False
  let ?n = "int (length (eni_SubnetsID eni))"
  from False assms have n: "0 < ?n" and g: "0 \<le> gorem index ?n" "subnet = eni_SubnetsID eni ! nat (gorem index ?n)"
    by (auto simp: GetNextSubnetsID_def Let_def split: if_splits)
  show ?thesis
  proof (cases "0 \<le> index")
    case True
    with n have "nat (gorem index ?n) = nat index mod length (eni_SubnetsID eni)"
      by (simp add: gorem_nonneg nat_mod_distrib)
    with g n show ?thesis by (simp add: on_subnet_def)
  next
    case False
    with n have "gorem index ?n = - ((- index) mod ?n)"
      by (simp add: gorem_def godiv_def minus_div_mult_eq_mod [symmetric])
    with g(1) n pos_mod_sign [of ?n "- index"] have "gorem index ?n = 0" by linarith
    with g n False show ?thesis by (simp add: on_subnet_def)
  qed
qed

definition group_list :: "string \<Rightarrow> string list" where
  "group_list g = (if g = [] then [] else [g])"

text \<open>\<open>configured_request\<close>: the interface that the configuration asks for at one place of its list.\<close>

definition configured_request :: "ec2_running \<Rightarrow> nat \<Rightarrow> aws_network_interface \<Rightarrow> aws_interface \<Rightarrow> bool" where
  "configured_request i j eni q \<longleftrightarrow>
     ai_PublicIP q = eni_PublicIP eni \<and> ai_DeleteOnTermination q \<and> ai_Description q = er_InstanceName i \<and>
     ai_DeviceIndex q = wrap32 (int j) \<and> ai_NetworkInterfaceId q = None \<and> ai_PrivateIpAddress q = None \<and>
     ai_Groups q = group_list (eni_SecurityGroupID eni) \<and>
     (\<exists>subnet. ai_SubnetId q = Some subnet \<and> on_subnet (er_NodeIndex i) eni subnet)"

text \<open>
  \<open>desired_request\<close>: an existing interface is named; for a new one, what the resource leaves out comes from
  the first interface of the configuration.
\<close>

definition desired_request :: "aws_wrapper \<Rightarrow> ec2_running \<Rightarrow> user_interface \<Rightarrow> aws_interface \<Rightarrow> bool" where
  "desired_request w i d q \<longleftrightarrow>
     ai_PublicIP q = ue_PublicIP d \<and> ai_Description q = er_InstanceName i \<and> ai_DeviceIndex q = 0 \<and>
     ai_PrivateIpAddress q = (if ue_PrivateAddress d = [] then None else Some (ue_PrivateAddress d)) \<and>
     (if ue_NetworkInterfaceID d \<noteq> []
      then ai_NetworkInterfaceId q = Some (ue_NetworkInterfaceID d) \<and> ai_SubnetId q = None \<and> ai_Groups q = [] \<and>
        \<not> ai_DeleteOnTermination q
      else ai_NetworkInterfaceId q = None \<and> ai_DeleteOnTermination q \<and>
        (\<exists>subnet. ai_SubnetId q = Some subnet \<and>
          (if ue_SubnetID d \<noteq> [] then subnet = ue_SubnetID d
           else aw_ENI w \<noteq> [] \<and> on_subnet (er_NodeIndex i) (hd (aw_ENI w)) subnet)) \<and>
        (if ue_SecurityGroupID d \<noteq> [] then ai_Groups q = [ue_SecurityGroupID d]
         else aw_ENI w \<noteq> [] \<and> ai_Groups q = group_list (eni_SecurityGroupID (hd (aw_ENI w)))))"

definition requested :: "aws_wrapper \<Rightarrow> ec2_running \<Rightarrow> user_interface option \<Rightarrow> aws_interface list \<Rightarrow> bool" where
  "requested w i desired requests \<longleftrightarrow>
     (case desired of
        None \<Rightarrow> aw_ENI w \<noteq> [] \<and> length requests = length (aw_ENI w) \<and>
          (\<forall>j < length requests. configured_request i j (aw_ENI w ! j) (requests ! j))
      | Some d \<Rightarrow> \<exists>q. requests = [q] \<and> desired_request w i d q)"

lemma configured_interfaces_requested:
  assumes "configured_interfaces i (int k) enis = Ret requests"
  shows "length requests = length enis \<and> (\<forall>j < length requests. configured_request i (k + j) (enis ! j) (requests ! j))"
  using assms
proof (induction enis arbitrary: k requests)
  case (Cons eni enis)
  then obtain subnet rest where r: "GetNextSubnetsID eni (er_NodeIndex i) = Ret subnet"
    "configured_interfaces i (int (Suc k)) enis = Ret rest"
    "requests = \<lparr>ai_PublicIP = eni_PublicIP eni, ai_DeleteOnTermination = True, ai_Description = er_InstanceName i,
       ai_DeviceIndex = wrap32 (int k), ai_SubnetId = Some subnet, ai_NetworkInterfaceId = None,
       ai_PrivateIpAddress = None, ai_Groups = security_groups (eni_SecurityGroupID eni)\<rparr> # rest"
    by (auto simp: add.commute)
  then have "configured_request i k eni (hd requests)"
    by (simp add: configured_request_def security_groups_def group_list_def GetNextSubnetsID_on_subnet)
  with Cons.IH [OF r(2)] r(3) show ?case by (auto simp: nth_Cons ac_simps split: nat.split)
qed simp

lemma desired_interface_requested:
  assumes "desired_interface w i address d = Ret q"
    and "address = (if ue_PrivateAddress d = [] then None else Some (ue_PrivateAddress d))"
  shows "desired_request w i d q"
  using assms
  by (cases "aw_ENI w")
    (auto simp: desired_interface_def desired_request_def first_eni_def security_groups_def group_list_def Let_def
      split: if_splits dest: GetNextSubnetsID_on_subnet)

lemma buildNetworkInterfaces_calls:
  assumes "buildNetworkInterfaces X i desired s = Ret ((requests, None), s')"
  shows "fst s' = fst s \<and> snd (snd s') = lookup_calls desired @ snd (snd s) \<and> requested (snd (fst s)) i desired requests"
proof (cases desired)
  case None
  with assms configured_interfaces_requested [of i 0 "aw_ENI (snd (fst s))" requests] show ?thesis
    by (auto simp: buildNetworkInterfaces_def lookup_calls_def requested_def Let_def split: if_splits)
next
  case (Some d)
  with assms obtain address err d' t q where l: "lookup_interface X d s = Ret ((address, err, d'), t)"
    and q: "desired_interface (snd (fst s)) i address d' = Ret q" "requests = [q]" "err = None" "t = s'"
    by (auto simp: buildNetworkInterfaces_def)
  with lookup_interface_ok [of X d s address d' s'] have "d' = d" "fst s' = fst s" "snd (snd s') = lookup_calls desired @ snd (snd s)"
    "address = (if ue_PrivateAddress d = [] then None else Some (ue_PrivateAddress d))"
    using Some by auto
  with q(1,2) desired_interface_requested show ?thesis by (auto simp: requested_def Some)
qed

lemma aws_Create_success:
  assumes "aws_Create X i nodeGroup instanceType userData diskType diskSize desired s = Ret (None, s')"
    and "aw_client (snd (fst s))" "ah_running (fst (fst s)) = Some i"
  defines "named \<equiv> Aws (DescribeInstancesNamed (er_InstanceName i)) # snd (snd s)"
  shows "\<exists>requests found rest j. absent X named \<and> snd (fst s') = snd (fst s) \<and> requested (snd (fst s)) i desired requests \<and>
    snd (snd s') = Aws (RunInstances (run_input (snd (fst s)) i nodeGroup instanceType userData diskType diskSize requests)) #
      lookup_calls desired @ named \<and>
    ax_run X (snd (snd s')) = Inr (found # rest) \<and> ah_running (fst (fst s')) = Some j \<and>
    er_InstanceName j = er_InstanceName i \<and> ei_InstanceId found = Some (er_InstanceID j)"
proof -
  from assms(1) obtain t requests v where e: "aws_Exists X (er_InstanceName i) s = Ret (False, t)"
    and b: "buildNetworkInterfaces X i desired t = Ret ((requests, None), v)"
    by (auto simp: aws_Create_def split: if_splits)
  from aws_Exists_absent [OF e assms(2)] buildNetworkInterfaces_calls [OF b]
  have v: "fst v = fst s" "snd (snd v) = lookup_calls desired @ named" "absent X named" "requested (snd (fst s)) i desired requests"
    by (auto simp: named_def)
  obtain h tb calls where s: "v = (h, tb, calls)" by (metis prod.exhaust)
  from assms(1) e b s v obtain found rest f where r: "ax_run X (snd (snd s')) = Inr (found # rest)"
    "created_ec2 (snd h) (found # rest) = Ret f"
    "s' = change_ec2 f (h, tb, Aws (RunInstances (run_input (snd (fst s)) i nodeGroup instanceType userData diskType diskSize requests)) # calls)"
    by (auto simp: aws_Create_def Let_def created_ec2_def split: sum.splits list.splits)
  from r(2) have "er_InstanceName (f i) = er_InstanceName i" "ei_InstanceId found = Some (er_InstanceID (f i))"
    by (auto simp: created_ec2_def deref_def split: option.splits)
  with v r s assms(3) show ?thesis by (intro exI [of _ requests] exI [of _ found] exI [of _ rest] exI [of _ "f i"]) auto
qed

text \<open>
  A creation that succeeds has looked for its name, and for the desired address, and has then run one
  instance; the handler is attached to the instance that was run. An error of the search by name does
  not stop it.
\<close>


text \<open>Sizes are rounded down to gigabytes: a disk of less than one is requested with a size of zero.\<close>

lemma small_disk: "0 < n \<Longrightarrow> n < 1024 \<Longrightarrow> buildBlockDeviceMappings k n = [(if k = [] then ''gp3'' else k, 0)]"
  by (simp add: buildBlockDeviceMappings_def godiv_nonneg wrap32_def)

section \<open>Status and power\<close>

text \<open>A status that is returned reads the machine as powered when it is pending or running.\<close>

theorem aws_status_powered:
  assumes "aws_handle X cd InstanceStatus s = Ret (Status (Some st) None, s')" "ah_running (fst (fst s)) = Some i"
  shows "\<exists>r rs rest code name. ax_reservations X (snd (snd s')) = Inr ((r # rs) # rest) \<and>
    snd (snd s') = Aws (DescribeInstance (er_InstanceID i)) # snd (snd s) \<and> ei_State r = Some (Some code, name) \<and> code \<noteq> 48 \<and>
    (Powered st \<longleftrightarrow> code \<in> {0, 16}) \<and> (Powered st \<longrightarrow> ec2_address r = Some (Address st))"
proof -
  obtain h t calls where s: "s = (h, t, calls)" by (metis prod.exhaust)
  from assms obtain y where y: "aws_Status X i s = Ret (y, s')"
    "(case y of Inl e \<Rightarrow> Status None (Some e) | Inr st \<Rightarrow> Status (Some st) None) = Status (Some st) None"
    by (auto simp: when_ec2_def answering_def)
  then have st: "aws_Status X i s = Ret (Inr st, s')" by (cases y) auto
  obtain x v where g: "getEc2Instance X i s = (x, v)" by (rule prod.exhaust)
  with st obtain r where x: "x = Inr r" by (cases x) (auto simp: aws_Status_def)
  with st g have a: "s' = v \<and> (\<exists>code name. ei_State r = Some (Some code, name) \<and> code \<noteq> 48 \<and>
    (Powered st \<longleftrightarrow> code \<in> {0, 16}) \<and> (Powered st \<longrightarrow> ec2_address r = Some (Address st)))"
    by (auto simp: aws_Status_def ec2_code_def deref_def split: option.splits if_splits prod.splits)
  from g x s obtain rs rest where "ax_reservations X (snd (snd v)) = Inr ((r # rs) # rest)"
    "snd (snd v) = Aws (DescribeInstance (er_InstanceID i)) # calls"
    by (auto simp: getEc2Instance_def no_instance_def neq_Nil_conv split: sum.splits if_splits list.splits)
  with a s show ?thesis by auto
qed

section \<open>Limits and credentials\<close>

text \<open>Without an overflow, the number of pods is that of the addresses of the instance type, whatever is desired.\<close>

theorem aws_max_pods:
  assumes "aw_client w" "ax_types X (Aws (DescribeInstanceType (ah_instanceType h)) # calls) = Inr (Some (Some m, Some p) # rest)"
    and "0 \<le> m" "1 \<le> p" "m * (p - 1) + 2 < 2 ^ 31" "p < 2 ^ 31"
  shows "aws_handle X cd (InstanceMaxPods desired) ((h, w), t, calls) =
    Ret (Number (m * (p - 1) + 2) None, (h, w), t, Aws (DescribeInstanceType (ah_instanceType h)) # calls)"
proof -
  have n: "0 \<le> m * (p - 1)" using assms(3,4) by simp
  have "wrap32 (p - 1) = p - 1" by (rule wrap32_small) (use assms(4,6) in simp_all)
  moreover have "wrap32 (m * (p - 1)) = m * (p - 1)" "wrap32 (m * (p - 1) + 2) = m * (p - 1) + 2"
    by (rule wrap32_small; use n assms(5) in simp)+
  ultimately have "wrap32 (wrap32 (m * wrap32 (p - 1)) + 2) = m * (p - 1) + 2" by simp
  with assms(1,2) show ?thesis by (simp add: aws_InstanceMaxPods_def client_is_made deref_def)
qed

text \<open>The variable that names the credentials file is removed before it is read.\<close>

theorem shared_file_ignored:
  assumes "isNullOrEmpty filename"
  shows "credentialsFileExists X (session_getenv X) filename = ax_file_exists X (filepath_Join [userHomeDir X, ''.aws'', ''credentials''])"
  using assms by (simp add: credentialsFileExists_def session_getenv_def isNullOrEmpty_def TrimSpace_def)

section \<open>Records of Route53\<close>

definition unknown_record :: "error + string option list list \<Rightarrow> bool" where
  "unknown_record r \<longleftrightarrow> (case r of Inl e \<Rightarrow> True | Inr sets \<Rightarrow> sets = [] \<or> hd sets = [])"

text \<open>Unregistering a name that the zone does not hold, or cannot list, dereferences nil.\<close>

theorem unregister_unknown_panics:
  assumes "ah_running h = Some i" "r53_ZoneID (aw_Route53 w) \<noteq> []"
    and "route53Client X ((h, w), t, calls) = (None, (h, w), t, calls')"
    and "unknown_record (ax_records X (Aws (ListResourceRecordSets (r53_ZoneID (aw_Route53 w))
      (Sprintf ''%s.%s'' [er_InstanceName i, r53_PrivateZoneName (aw_Route53 w)])) # calls'))"
  shows "aws_handle X cd (UnregisterDNS address) ((h, w), t, calls) = Panic NilDeref"
  using assms
  by (auto simp: aws_dns_def when_ec2_def answering_def aws_UnRegisterDNS_def getRegisteredRecordSetAddress_def deref_def
      unknown_record_def simp del: Sprintf.simps split: sum.splits list.splits)

section \<open>The theorems at concrete inputs\<close>

definition sample_ec2 :: "int \<Rightarrow> string \<Rightarrow> ec2_instance" where
  "sample_ec2 code u = \<lparr>ei_InstanceId = Some u, ei_PrivateDnsName = Some ''n1.local'', ei_AvailabilityZone = Some ''z1'',
     ei_State = Some (Some code, ''state''), ei_PublicIpAddress = None, ei_PrivateIpAddress = Some ''10.0.0.2''\<rparr>"

text \<open>The name belongs to a terminated instance, then to a running one; no record is known.\<close>

definition sample_aws_env :: aws_env where
  "sample_aws_env = \<lparr>ax_remote = sample_remote_env, ax_windows = False, ax_getenv = (\<lambda>v. ''/root''), ax_file_exists = (\<lambda>f. True),
     ax_reservations = (\<lambda>calls. case hd calls of
         Aws (DescribeInstancesNamed name) \<Rightarrow> Inr (if name = ''n1'' then [[sample_ec2 48 ''i0''], [sample_ec2 16 ''i1'']] else [])
       | _ \<Rightarrow> Inr [[sample_ec2 0 ''i1'']]),
     ax_interfaces = (\<lambda>calls. (Some [Some ''e1''], None)), ax_run = (\<lambda>calls. Inr [sample_ec2 0 ''i2'']),
     ax_types = (\<lambda>calls. Inr [Some (Some 3, Some 10)]), ax_records = (\<lambda>calls. Inr []), ax_change = (\<lambda>calls. Inr None)\<rparr>"

definition sample_eni :: aws_network_interface where
  "sample_eni = \<lparr>eni_SubnetsID = [''a'', ''b'', ''c''], eni_SecurityGroupID = ''g1'', eni_PublicIP = False\<rparr>"

definition sample_aws :: aws_wrapper where
  "sample_aws = \<lparr>aw_AccessKey = [], aw_SecretKey = [], aw_Token = [], aw_Filename = [], aw_Profile = [], aw_Region = ''r1'',
     aw_Timeout = 300, aw_ImageID = ''ami'', aw_IamRole = [], aw_KeyName = ''key'', aw_VolumeType = ''gp3'', aw_Tags = [],
     aw_Route53 = \<lparr>r53_ZoneID = ''zone1'', r53_PrivateZoneName = ''local'', r53_AccessKey = [], r53_SecretKey = [], r53_Token = [],
       r53_Profile = [], r53_Region = []\<rparr>,
     aw_ENI = [sample_eni], aw_Metadata = (''enabled'', ''required'', 2, ''enabled''), aw_testMode = False, aw_client = True\<rparr>"

definition sample_user_interface :: user_interface where
  "sample_user_interface = \<lparr>ue_NetworkInterfaceID = [], ue_SubnetID = ''s1'', ue_SecurityGroupID = [], ue_PrivateAddress = ''10.0.0.9'',
     ue_PublicIP = False\<rparr>"

definition new_ec2_handler :: aws_handler where
  "new_ec2_handler = \<lparr>ah_instanceName = ''n2'', ah_instanceType = ''t3'', ah_controlPlane = False, ah_nodeIndex = 4, ah_running = None,
     ah_desiredENI = None\<rparr>"

definition attached_ec2_handler :: aws_handler where
  "attached_ec2_handler = new_ec2_handler\<lparr>ah_running := Some ((new_ec2 ''n2'' 0)\<lparr>er_InstanceID := ''i1''\<rparr>)\<rparr>"

lemmas sample_ec2s = sample_aws_env_def sample_ec2_def sample_aws_def sample_eni_def new_ec2_handler_def attached_ec2_handler_def new_ec2_def
  deref_def ec2_code_def

lemma sample_client [simp]: "createClient X ((h, sample_aws), t, calls) = (None, (h, sample_aws), t, calls)"
  by (simp add: client_is_made sample_aws_def)

theorem subnets_in_turn_witness:
  "map (\<lambda>j. GetNextSubnetsID sample_eni (int j)) [1 ..< 4] = [Ret ''b'', Ret ''c'', Ret ''a'']"
  using subnets_in_turn [of sample_eni 1] by (simp add: sample_eni_def upt_rec)

theorem existing_interface_ignored_witness:
  "\<exists>q s'. buildNetworkInterfaces sample_aws_env (new_ec2 ''n2'' 4) (Some sample_user_interface) ((new_ec2_handler, sample_aws), gmake, []) =
     Ret (([q], None), s') \<and> ai_NetworkInterfaceId q = None \<and> ai_PrivateIpAddress q = Some ''10.0.0.9''"
proof -
  obtain requests s' where r: "buildNetworkInterfaces sample_aws_env (new_ec2 ''n2'' 4) (Some sample_user_interface)
      ((new_ec2_handler, sample_aws), gmake, []) = Ret ((requests, None), s')"
    by (simp add: buildNetworkInterfaces_def lookup_interface_def desired_interface_def first_eni_def security_groups_def
        sample_user_interface_def Let_def sample_ec2s)
  from existing_interface_ignored [OF r] r show ?thesis by (cases s') (auto simp: sample_user_interface_def)
qed

theorem GetEc2Instance_first_living_witness:
  "\<exists>running s'. GetEc2Instance sample_aws_env ''n1'' ((new_ec2_handler, sample_aws), gmake, []) = Ret (Inr running, s') \<and>
     er_InstanceName running = ''n1'' \<and> er_AddressIP running \<noteq> None"
proof -
  obtain running s' where r: "GetEc2Instance sample_aws_env ''n1'' ((new_ec2_handler, sample_aws), gmake, []) = Ret (Inr running, s')"
    and a: "er_AddressIP running = Some ''10.0.0.2''"
    by (simp add: GetEc2Instance_def no_instance_def attach_ec2_def ec2_address_def client_is_made Let_def sample_ec2s)
  from GetEc2Instance_first_living [OF r] r a show ?thesis by (cases s') auto
qed


theorem aws_status_powered_witness:
  "\<exists>st s'. aws_handle sample_aws_env sample_documents InstanceStatus ((attached_ec2_handler, sample_aws), gmake, []) =
     Ret (Status (Some st) None, s') \<and> Powered st"
proof -
  obtain st s' where r: "aws_handle sample_aws_env sample_documents InstanceStatus ((attached_ec2_handler, sample_aws), gmake, []) =
     Ret (Status (Some st) None, s')"
    and x: "\<And>calls u. ax_reservations sample_aws_env (Aws (DescribeInstance u) # calls) = Inr [[sample_ec2 0 ''i1'']]"
    by (simp add: when_ec2_def answering_def aws_Status_def getEc2Instance_def no_instance_def ec2_address_def Let_def sample_ec2s)
  have a: "ah_running (fst (fst ((attached_ec2_handler, sample_aws), gmake :: mac_table, [] :: remote_calls))) =
    Some ((new_ec2 ''n2'' 0)\<lparr>er_InstanceID := ''i1''\<rparr>)" by (simp add: attached_ec2_handler_def)
  from aws_status_powered [OF r a] r x show ?thesis by (cases s') (auto simp: sample_ec2_def)
qed

theorem aws_max_pods_witness:
  "\<exists>s'. aws_handle sample_aws_env sample_documents (InstanceMaxPods 0) ((new_ec2_handler, sample_aws), gmake, []) = Ret (Number 29 None, s')"
proof -
  have "ax_types sample_aws_env calls = Inr (Some (Some 3, Some 10) # [])" "aw_client sample_aws" for calls
    by (simp_all add: sample_aws_env_def sample_aws_def)
  from aws_max_pods [OF this(2,1), where h = new_ec2_handler and t = gmake and calls = "[]" and cd = sample_documents and desired = 0]
  show ?thesis by simp
qed

theorem shared_file_ignored_witness:
  "credentialsFileExists sample_aws_env (session_getenv sample_aws_env) [] =
    ax_file_exists sample_aws_env (filepath_Join [userHomeDir sample_aws_env, ''.aws'', ''credentials''])"
  by (rule shared_file_ignored) (simp add: isNullOrEmpty_def TrimSpace_def)

theorem unregister_unknown_panics_witness:
  "aws_handle sample_aws_env sample_documents (UnregisterDNS ''10.0.0.2'') ((attached_ec2_handler, sample_aws), gmake, []) = Panic NilDeref"
proof -
  obtain calls where "route53Client sample_aws_env ((attached_ec2_handler, sample_aws), gmake, []) = (None, (attached_ec2_handler, sample_aws), gmake, calls)"
    by (simp add: route53Client_def aws_error_def Let_def sample_aws_env_def sample_remote_env_def)
  moreover have "ah_running attached_ec2_handler = Some ((new_ec2 ''n2'' 0)\<lparr>er_InstanceID := ''i1''\<rparr>)" "r53_ZoneID (aw_Route53 sample_aws) \<noteq> []"
    "unknown_record (ax_records sample_aws_env c)" for c
    by (simp_all add: attached_ec2_handler_def sample_aws_def unknown_record_def sample_aws_env_def)
  ultimately show ?thesis by (intro unregister_unknown_panics)
qed

end
