(* ===== verification/Vsphere.thy ===== *)
theory Vsphere
  imports Aws_Facts
begin

text \<open>
  Model of \<^verbatim>\<open>providers/vsphere/\<close>: the search of a machine, its power, its properties, cloning the template,
  its disk and its network cards, the start with the host, and the handler. The inventory is the
  environment \<open>vs_env\<close>; a machine is its reference. A machine that can no longer be found by its
  reference stops the process (\<^verbatim>\<open>glog.Fatalf\<close>).
\<close>

section \<open>Configuration\<close>

record vs_wrapper =
  vw_DataCenter :: string
  vw_DataStore :: string
  vw_Resource :: string
  vw_VMBasePath :: string
  vw_Timeout :: int
  vw_Annotation :: string
  vw_TemplateName :: string
  vw_Template :: bool
  vw_LinkedClone :: bool
  vw_Customization :: string
  vw_Network :: network
  vw_Region :: string
  vw_Zone :: string
  vw_StartDelay :: int
  vw_StopDelay :: int
  vw_bind9Provider :: "dns_provider option"
  vw_testMode :: bool

record vs_handler =
  vh_network :: network
  vh_instanceName :: string
  vh_instanceType :: string
  vh_instanceID :: string
  vh_controlPlane :: bool
  vh_nodeIndex :: int

type_synonym vs_state = "vs_handler hstate"

text \<open>A network of the inventory: its type, its value, whether it is a distributed switch.\<close>

record network_reference =
  nr_Type :: string
  nr_Value :: string
  nr_Switch :: bool

text \<open>The guest: the status of its tools and its networks (connected, name, MAC, addresses).\<close>

record guest_info =
  gi_ToolsStatus :: string
  gi_Net :: "(bool \<times> string \<times> string \<times> string list) list"

text \<open>A change of a property; a value that is not a string has another dynamic type.\<close>

datatype property_value = PropString string | PropOther

record property_change =
  pc_Name :: string
  pc_Assign :: bool
  pc_Val :: "property_value option"

text \<open>
  The answers. A wait for a property sees batches of changes, and ends with an error when none of them
  ends it. An element of a folder list has its path, and its child types when it is a folder.
\<close>

record vs_env =
  vx_remote :: remote_env
  vx_path :: "string \<Rightarrow> string"
  vx_text :: "remote_calls \<Rightarrow> error + string"
  vx_bool :: "remote_calls \<Rightarrow> error + bool"
  vx_devices :: "remote_calls \<Rightarrow> error + virtual_device list"
  vx_network :: "remote_calls \<Rightarrow> error + network_reference"
  vx_backing :: "remote_calls \<Rightarrow> error + card_backing"
  vx_extra :: "remote_calls \<Rightarrow> error + (string \<times> string) list option"
  vx_guest :: "remote_calls \<Rightarrow> error + guest_info option"
  vx_changes :: "remote_calls \<Rightarrow> property_change list list \<times> error"
  vx_folders :: "remote_calls \<Rightarrow> error + (string \<times> string list option) list"
  vx_manager :: "remote_calls \<Rightarrow> error + unit option"
  vx_orders :: "remote_calls \<Rightarrow> error + int list"
  vx_order :: "remote_calls \<Rightarrow> nat \<Rightarrow> nat list"
  vx_card_error :: "string \<Rightarrow> card_backing \<Rightarrow> error option"
  vx_spec_error :: "added_device list \<Rightarrow> error option"

section \<open>Sequences of fallible calls\<close>

type_synonym ('a, 'h) vs_op = "'h hstate \<Rightarrow> ((error + 'a) \<times> 'h hstate) go"

definition vs_return :: "'a \<Rightarrow> ('a, 'h) vs_op" where
  "vs_return a s = Ret (Inr a, s)"

definition vs_fail :: "error \<Rightarrow> ('a, 'h) vs_op" where
  "vs_fail e s = Ret (Inl e, s)"

definition vs_bind :: "('a, 'h) vs_op \<Rightarrow> ('a \<Rightarrow> ('b, 'h) vs_op) \<Rightarrow> ('b, 'h) vs_op" where
  "vs_bind m f s = gbind (m s) (\<lambda>(r, s). case r of Inl e \<Rightarrow> Ret (Inl e, s) | Inr a \<Rightarrow> f a s)"

text \<open>The error is handled by the code that called.\<close>

definition vs_result :: "('a, 'h) vs_op \<Rightarrow> (error + 'a \<Rightarrow> ('b, 'h) vs_op) \<Rightarrow> ('b, 'h) vs_op" where
  "vs_result m f s = gbind (m s) (\<lambda>(r, s). f r s)"

definition vs_ask :: "(remote_calls \<Rightarrow> error + 'a) \<Rightarrow> vsphere_call \<Rightarrow> ('a, 'h) vs_op" where
  "vs_ask answer c s = Ret (ask_remote answer (VSphere c) s)"

definition vs_do :: "vs_env \<Rightarrow> vsphere_call \<Rightarrow> (unit, 'h) vs_op" where
  "vs_do X c s = (let (err, s) = ask_remote (rans_err (vx_remote X)) (VSphere c) s
                  in Ret (case err of Some e \<Rightarrow> Inl e | None \<Rightarrow> Inr (), s))"

definition vs_task :: "vs_env \<Rightarrow> vsphere_call \<Rightarrow> (unit, 'h) vs_op" where
  "vs_task X c = vs_bind (vs_do X c) (\<lambda>u. vs_do X VsTaskWait)"

definition vs_deref :: "'a option \<Rightarrow> ('a \<Rightarrow> ('b, 'h) vs_op) \<Rightarrow> ('b, 'h) vs_op" where
  "vs_deref p f s = deref p (\<lambda>a. f a s)"

section \<open>Finding a machine\<close>

definition vs_datacenter :: "vs_env \<Rightarrow> vs_wrapper \<Rightarrow> (unit, 'h) vs_op" where
  "vs_datacenter X w = vs_bind (vs_do X VsClient) (\<lambda>u. vs_do X (VsDatacenter (vw_DataCenter w)))"

definition vs_datastore :: "vs_env \<Rightarrow> vs_wrapper \<Rightarrow> (unit, 'h) vs_op" where
  "vs_datastore X w = vs_bind (vs_datacenter X w) (\<lambda>u. vs_do X (VsDatastore (vw_DataStore w)))"

definition vs_VirtualMachine :: "vs_env \<Rightarrow> vs_wrapper \<Rightarrow> string \<Rightarrow> (string, 'h) vs_op" where
  "vs_VirtualMachine X w name = vs_bind (vs_datastore X w) (\<lambda>u. vs_ask (vx_text X) (VsFindVM name))"

text \<open>A machine that this context has not found yet is looked up by its reference.\<close>

definition vs_object :: "vs_env \<Rightarrow> string \<Rightarrow> (unit, 'h) vs_op" where
  "vs_object X vm s = gbind (vs_do X (VsObject vm) s) (\<lambda>(r, s). if error_of r \<noteq> None then Panic ProcessExit else Ret (r, s))"

definition vs_vm_UUID :: "vs_env \<Rightarrow> string \<Rightarrow> (string, 'h) vs_op" where
  "vs_vm_UUID X vm s = (let (u, s) = ask_remote (rans_str (vx_remote X)) (VSphere (VsUUID vm)) s in Ret (Inr u, s))"

definition vs_UUID :: "vs_env \<Rightarrow> vs_wrapper \<Rightarrow> string \<Rightarrow> (string, 'h) vs_op" where
  "vs_UUID X w name = vs_bind (vs_VirtualMachine X w name) (vs_vm_UUID X)"

definition vs_InstanceExists :: "vs_env \<Rightarrow> vs_wrapper \<Rightarrow> string \<Rightarrow> (bool, 'h) vs_op" where
  "vs_InstanceExists X w name = vs_result (vs_VirtualMachine X w name) (\<lambda>r. vs_return (error_of r = None))"

section \<open>Power\<close>

definition poweredOn :: string where
  "poweredOn = ''poweredOn''"

definition poweredOff :: string where
  "poweredOff = ''poweredOff''"

definition vs_PowerState :: "vs_env \<Rightarrow> string \<Rightarrow> (string, 'h) vs_op" where
  "vs_PowerState X vm = vs_ask (vx_text X) (VsPowerState vm)"

definition vs_PowerOn :: "vs_env \<Rightarrow> string \<Rightarrow> (unit, 'h) vs_op" where
  "vs_PowerOn X vm = vs_bind (vs_PowerState X vm) (\<lambda>st.
     if st \<noteq> poweredOn then vs_task X (VsPowerOn vm)
     else vs_fail (Errorf ''the VM: %s is already powered'' [vx_path X vm]))"

definition vs_PowerOff :: "vs_env \<Rightarrow> string \<Rightarrow> (unit, 'h) vs_op" where
  "vs_PowerOff X vm = vs_bind (vs_PowerState X vm) (\<lambda>st.
     if st = poweredOn then vs_task X (VsPowerOff vm)
     else vs_fail (Errorf ''the VM: %s is already off'' [vx_path X vm]))"

text \<open>A guest that refuses to shut down is powered off.\<close>

definition vs_ShutdownGuest :: "vs_env \<Rightarrow> string \<Rightarrow> (unit, 'h) vs_op" where
  "vs_ShutdownGuest X vm = vs_bind (vs_PowerState X vm) (\<lambda>st.
     if st = poweredOn
     then vs_result (vs_do X (VsShutdownGuest vm)) (\<lambda>r. if error_of r \<noteq> None then vs_task X (VsPowerOff vm) else vs_return ())
     else vs_fail (Errorf ''the VM: %s is already power off'' [vx_path X vm]))"

definition vs_Delete :: "vs_env \<Rightarrow> string \<Rightarrow> (unit, 'h) vs_op" where
  "vs_Delete X vm = vs_bind (vs_PowerState X vm) (\<lambda>st.
     if st \<noteq> poweredOn then vs_task X (VsDestroy vm)
     else vs_fail (Errorf ''the VM: %s is powered'' [vx_path X vm]))"

section \<open>Waiting for a property\<close>

text \<open>The first change of the property decides; its value is asserted to be a string.\<close>

fun batch_shows :: "string \<Rightarrow> string \<Rightarrow> property_change list \<Rightarrow> bool go" where
  "batch_shows name wanted [] = Ret False"
| "batch_shows name wanted (c # cs) =
     (if pc_Name c \<noteq> name \<or> \<not> pc_Assign c then batch_shows name wanted cs
      else case pc_Val c of
             None \<Rightarrow> batch_shows name wanted cs
           | Some (PropString v) \<Rightarrow> Ret (v = wanted)
           | Some PropOther \<Rightarrow> Panic BadTypeAssertion)"

fun wait_batches :: "string \<Rightarrow> string \<Rightarrow> error \<Rightarrow> property_change list list \<Rightarrow> (error + unit) go" where
  "wait_batches name wanted e [] = Ret (Inl e)"
| "wait_batches name wanted e (b # bs) =
     gbind (batch_shows name wanted b) (\<lambda>done. if done then Ret (Inr ()) else wait_batches name wanted e bs)"

definition property_Wait :: "vs_env \<Rightarrow> string \<Rightarrow> string \<Rightarrow> string \<Rightarrow> (unit, 'h) vs_op" where
  "property_Wait X vm name wanted s =
     (let ((batches, e), s) = ask_remote (vx_changes X) (VSphere (VsPropertyWait vm name)) s
      in gbind (wait_batches name wanted e batches) (\<lambda>r. Ret (r, s)))"

text \<open>An unknown power state ends the wait without an error.\<close>

definition vs_WaitForPowered :: "vs_env \<Rightarrow> string \<Rightarrow> (unit, 'h) vs_op" where
  "vs_WaitForPowered X vm = vs_result (vs_PowerState X vm) (\<lambda>r.
     if r = Inr poweredOff then property_Wait X vm ''runtime.powerState'' poweredOn else vs_return ())"

definition guestToolsRunning :: string where
  "guestToolsRunning = ''guestToolsRunning''"

definition vs_WaitForToolsRunning :: "vs_env \<Rightarrow> string \<Rightarrow> (bool, 'h) vs_op" where
  "vs_WaitForToolsRunning X vm = vs_bind (vs_PowerState X vm) (\<lambda>st.
     if st = poweredOn
     then vs_bind (property_Wait X vm ''guest.toolsRunningStatus'' guestToolsRunning) (\<lambda>u. vs_return True)
     else vs_fail (Errorf ''the VM: %s is not powered'' [vx_path X vm]))"

section \<open>Addresses\<close>

definition isSimulatorRunning :: "vs_env \<Rightarrow> string \<Rightarrow> (bool, 'h) vs_op" where
  "isSimulatorRunning X vm = vs_result (vs_ask (vx_extra X) (VsExtraConfig vm)) (\<lambda>r.
     case r of
       Inl e \<Rightarrow> vs_return False
     | Inr config \<Rightarrow> vs_deref config (\<lambda>extra. vs_return (list_ex (\<lambda>(k, v). k = ''govcsim'' \<and> ToLower v = ''true'') extra)))"

definition isToolsRunning :: "vs_env \<Rightarrow> string \<Rightarrow> (bool, 'h) vs_op" where
  "isToolsRunning X vm = vs_bind (isSimulatorRunning X vm) (\<lambda>simulated.
     if simulated then vs_return True
     else vs_bind (vs_ask (vx_bool X) (VsIsToolsRunning vm)) (\<lambda>running.
       if running then vs_return True
       else vs_bind (vs_ask (vx_guest X) (VsGuest vm)) (\<lambda>guest.
         vs_deref guest (\<lambda>g. vs_return (gi_ToolsStatus g = guestToolsRunning)))))"

definition vs_waitForIP :: "vs_env \<Rightarrow> string \<Rightarrow> string \<Rightarrow> (string, 'h) vs_op" where
  "vs_waitForIP X name vm = vs_bind (isToolsRunning X vm) (\<lambda>running.
     if running then vs_ask (vx_text X) (VsWaitForIP vm)
     else vs_fail (Errorf ''VMWare tools is not running on the VM: %s, unable to retrieve IP'' [name]))"

text \<open>The simulator has no address.\<close>

definition vs_WaitForIP :: "vs_env \<Rightarrow> string \<Rightarrow> string \<Rightarrow> (string, 'h) vs_op" where
  "vs_WaitForIP X name vm = vs_bind (isSimulatorRunning X vm) (\<lambda>simulated.
     if simulated then vs_return []
     else vs_bind (vs_PowerState X vm) (\<lambda>st.
       if st = poweredOn then vs_waitForIP X name vm
       else vs_fail (Errorf ''the VM: %s is not powered'' [vx_path X vm])))"

text \<open>The connected networks, with their first address.\<close>

definition vs_ListAddresses :: "vs_env \<Rightarrow> string \<Rightarrow> ((string \<times> string \<times> string) list, 'h) vs_op" where
  "vs_ListAddresses X vm = vs_bind (vs_ask (vx_guest X) (VsGuest vm)) (\<lambda>guest.
     vs_deref guest (\<lambda>g. vs_return (map (\<lambda>(connected, name, mac, ips). (name, mac, case ips of [] \<Rightarrow> [] | ip # _ \<Rightarrow> ip))
       (filter fst (gi_Net g)))))"

definition vs_Status :: "vs_env \<Rightarrow> string \<Rightarrow> ((string \<times> string \<times> string) list \<times> bool, 'h) vs_op" where
  "vs_Status X vm = vs_bind (vs_PowerState X vm) (\<lambda>st.
     vs_bind (vs_ListAddresses X vm) (\<lambda>interfaces. vs_return (interfaces, st = poweredOn)))"

fun vs_preferred :: "network \<Rightarrow> (string \<times> string \<times> string) list \<Rightarrow> string" where
  "vs_preferred net [] = []"
| "vs_preferred net ((name, mac, ip) # rest) =
     (case InterfaceByName net name of
        Some declared \<Rightarrow> if Primary declared then ip else vs_preferred net rest
      | None \<Rightarrow> vs_preferred net rest)"

section \<open>Start with the host\<close>

definition vs_HostSystem :: "vs_env \<Rightarrow> string \<Rightarrow> (string, 'h) vs_op" where
  "vs_HostSystem X vm = vs_bind (vs_ask (vx_text X) (VsHostSystem vm)) (\<lambda>host. vs_ask (vx_text X) (VsHostName host))"

definition NextStartOrder :: "int list \<Rightarrow> int" where
  "NextStartOrder orders = fold (\<lambda>order result. if order > wrap32 result then order else result) orders 0 + 1"

definition vs_AutoStartManager :: "vs_env \<Rightarrow> string \<Rightarrow> (int list, 'h) vs_op" where
  "vs_AutoStartManager X esxi = vs_bind (vs_do X (VsHostSystemOrDefault esxi)) (\<lambda>u.
     vs_bind (vs_ask (vx_manager X) (VsAutoStartManager esxi)) (\<lambda>manager.
       vs_deref manager (\<lambda>m. vs_ask (vx_orders X) VsAutoStartInfo)))"

definition manager_SetAutoStart ::
  "vs_env \<Rightarrow> int list \<Rightarrow> string \<Rightarrow> string \<Rightarrow> int \<Rightarrow> int \<Rightarrow> int \<Rightarrow> (unit, 'h) vs_op" where
  "manager_SetAutoStart X orders datastore name startOrder startDelay stopDelay =
     (let startOrder = (if startOrder \<le> 0 then - 1 else startOrder);
          stopDelay = (if stopDelay \<le> 0 then - 1 else stopDelay);
          startOrder = (if startOrder \<le> 0 then NextStartOrder orders else startOrder)
      in vs_bind (vs_do X (VsDatastore datastore)) (\<lambda>u. vs_bind (vs_ask (vx_text X) (VsFindVM name)) (\<lambda>vm.
           vs_do X (VsReconfigureAutoStart vm (wrap32 startOrder) (wrap32 startDelay) (wrap32 stopDelay)))))"

definition vs_SetAutoStart :: "vs_env \<Rightarrow> vs_wrapper \<Rightarrow> string \<Rightarrow> string \<Rightarrow> int \<Rightarrow> (unit, 'h) vs_op" where
  "vs_SetAutoStart X w esxi name startOrder =
     (if vw_testMode w then vs_return ()
      else vs_bind (vs_datacenter X w) (\<lambda>u. vs_bind (vs_AutoStartManager X esxi) (\<lambda>orders.
        manager_SetAutoStart X orders (vw_DataStore w) name startOrder (vw_StartDelay w) (vw_StopDelay w))))"

section \<open>Network cards\<close>

text \<open>The MAC address is written in the interface and may enter the table.\<close>

definition vs_mac :: "vs_env \<Rightarrow> net_interface \<Rightarrow> 'h hstate \<Rightarrow> (string \<times> net_interface) \<times> 'h hstate" where
  "vs_mac X nif s =
     (case s of (h, t, calls) \<Rightarrow>
        let (mac, nif, t) = Interface_GetMacAddress (rans_random (vx_remote X) calls (netName nif)) nif t
        in ((mac, nif), h, t, calls))"

text \<open>
  The answer of \<^verbatim>\<open>MatchInterface\<close>, with the backing and the reference it leaves in its copy of the
  interface. An error of the reference or of a port group is dropped.
\<close>

definition MatchInterface ::
  "vs_env \<Rightarrow> net_interface \<Rightarrow> ethernet_card \<Rightarrow> 'h hstate \<Rightarrow>
   (((error + bool) \<times> card_backing option \<times> network_reference option) \<times> 'h hstate) go" where
  "MatchInterface X nif ether s =
     gbind (vs_ask (vx_network X) (VsNetwork (NetworkName nif)) s) (\<lambda>(r, s).
       case r of
         Inl e \<Rightarrow> Ret ((Inr False, None, None), s)
       | Inr ref \<Rightarrow>
           if nr_Type ref = ''Network''
           then (case ec_Backing ether of
                   NetworkBacking device _ \<Rightarrow> gbind (vs_ask (vx_backing X) (VsCardBacking (NetworkName nif)) s) (\<lambda>(r, s).
                     case r of
                       Inl e \<Rightarrow> Ret ((Inl e, None, Some ref), s)
                     | Inr (NetworkBacking device' _) \<Rightarrow>
                         Ret ((Inr (device = device'), if device = device' then Some (NetworkBacking device None) else None, Some ref), s)
                     | Inr _ \<Rightarrow> Ret ((Inr False, None, Some ref), s))
                 | _ \<Rightarrow> Ret ((Inr False, None, Some ref), s))
           else if nr_Type ref = ''OpaqueNetwork''
           then (case ec_Backing ether of
                   OpaqueBacking u kind \<Rightarrow> gbind (vs_ask (vx_backing X) (VsCardBacking (NetworkName nif)) s) (\<lambda>(r, s).
                     case r of
                       Inl e \<Rightarrow> Ret ((Inl e, None, Some ref), s)
                     | Inr (OpaqueBacking u' kind') \<Rightarrow>
                         Ret ((Inr (u = u' \<and> kind = kind'), if u = u' \<and> kind = kind' then Some (OpaqueBacking u kind) else None, Some ref), s)
                     | Inr _ \<Rightarrow> Ret ((Inr False, None, Some ref), s))
                 | _ \<Rightarrow> Ret ((Inr False, None, Some ref), s))
           else if nr_Type ref = ''DistributedVirtualPortgroup''
           then (case ec_Backing ether of
                   PortBacking switch key \<Rightarrow> gbind (vs_ask (vx_text X) (VsPortgroupKey (NetworkName nif)) s) (\<lambda>(r, s).
                     Ret ((Inr (r = Inr key), if r = Inr key then Some (PortBacking switch key) else None, Some ref), s))
                 | _ \<Rightarrow> Ret ((Inr False, None, Some ref), s))
           else Ret ((Inr False, None, Some ref), s))"

definition with_mac :: "string \<Rightarrow> ethernet_card \<Rightarrow> ethernet_card" where
  "with_mac mac ether = (if mac \<noteq> [] then ether\<lparr>ec_AddressType := ''manual'', ec_MacAddress := mac\<rparr> else ether)"

text \<open>A card of the right network keeps it; it is edited when the interface has an address.\<close>

definition matched_card ::
  "vs_env \<Rightarrow> net_interface \<Rightarrow> card_backing option \<Rightarrow> ethernet_card \<Rightarrow> 'h hstate \<Rightarrow>
   ((ethernet_card list \<times> net_interface) \<times> 'h hstate) go" where
  "matched_card X nif backing ether s =
     (let ((mac, nif), s) = vs_mac X nif s
      in if mac = [] \<or> \<not> Usable nif then Ret (([], nif), s)
         else let ((mac, nif), s) = vs_mac X nif s
              in Ret ((if mac = [] then []
                       else [with_mac mac (ether\<lparr>ec_Backing := (case backing of Some b \<Rightarrow> b | None \<Rightarrow> ec_Backing ether)\<rparr>)], nif), s))"

definition ConfigureEthernetCard ::
  "vs_env \<Rightarrow> net_interface \<Rightarrow> network_reference option \<Rightarrow> ethernet_card \<Rightarrow> 'h hstate \<Rightarrow>
   (((error + ethernet_card) \<times> net_interface) \<times> 'h hstate) go" where
  "ConfigureEthernetCard X nif known ether s =
     gbind (case known of Some ref \<Rightarrow> Ret (Inr ref, s) | None \<Rightarrow> vs_ask (vx_network X) (VsNetwork (NetworkName nif)) s) (\<lambda>(r, s).
       case r of
         Inl e \<Rightarrow> Ret ((Inl e, nif), s)
       | Inr ref \<Rightarrow>
           let ((mac, nif), s) = vs_mac X nif s;
               ether = (if nr_Switch ref then ether
                       else ether\<lparr>ec_Backing := NetworkBacking (NetworkName nif) (Some (nr_Type ref, nr_Value ref))\<rparr>)
           in Ret ((Inr (with_mac mac ether), nif), s))"

text \<open>The cards of the template meet the interfaces in their order; the result holds the edited cards.\<close>

fun clone_cards ::
  "vs_env \<Rightarrow> net_interface list \<Rightarrow> ethernet_card list \<Rightarrow> 'h hstate \<Rightarrow>
   (((error + ethernet_card list) \<times> net_interface list) \<times> 'h hstate) go" where
  "clone_cards X [] cards s = Ret ((Inr [], []), s)"
| "clone_cards X (nif # nifs) [] s =
     gbind (clone_cards X nifs [] s) (\<lambda>((r, nifs), s). Ret ((r, nif\<lparr>Existing := Some False\<rparr> # nifs), s))"
| "clone_cards X (nif # nifs) (ether # cards) s =
     (if \<not> IsEnabled nif
      then gbind (clone_cards X nifs cards s) (\<lambda>((r, nifs), s). Ret ((r, nif # nifs), s))
      else gbind (MatchInterface X nif ether s) (\<lambda>((matching, backing, ref), s).
        case matching of
          Inl e \<Rightarrow> Ret ((Inl e, nif # nifs), s)
        | Inr same \<Rightarrow>
            let nif = nif\<lparr>Existing := None\<rparr>
            in gbind (if same then gbind (matched_card X nif backing ether s) (\<lambda>((edits, nif), s). Ret ((Inr edits, nif), s))
                      else gbind (ConfigureEthernetCard X nif ref ether s) (\<lambda>((r, nif), s). Ret ((map_sum id (\<lambda>c. [c]) r, nif), s)))
                 (\<lambda>((r, nif), s).
                    case r of
                      Inl e \<Rightarrow> Ret ((Inl e, nif # nifs), s)
                    | Inr edits \<Rightarrow> gbind (clone_cards X nifs cards s) (\<lambda>((r, nifs), s).
                        Ret ((map_sum id (\<lambda>rest. edits @ rest) r, nif # nifs), s)))))"

definition ethernet_cards :: "virtual_device list \<Rightarrow> ethernet_card list" where
  "ethernet_cards devices = concat (map (\<lambda>d. case d of EthernetCard c \<Rightarrow> [c] | _ \<Rightarrow> []) devices)"

text \<open>A new card; a network whose backing may not be read is named instead.\<close>

definition new_device ::
  "vs_env \<Rightarrow> net_interface \<Rightarrow> 'h hstate \<Rightarrow> (((error + added_device) \<times> net_interface) \<times> 'h hstate) go" where
  "new_device X nif s =
     gbind (vs_ask (vx_network X) (VsNetwork (NetworkName nif)) s) (\<lambda>(r, s).
       case r of
         Inl e \<Rightarrow> Ret ((Inl e, nif), s)
       | Inr ref \<Rightarrow> gbind (vs_ask (vx_backing X) (VsCardBacking (NetworkName nif)) s) (\<lambda>(r, s).
           case (case r of
                   Inl e \<Rightarrow> if Contains (err_text e) ''no System.Read privilege on:''
                            then Inr (NetworkBacking (NetworkName nif) (Some (nr_Type ref, nr_Value ref))) else Inl e
                 | Inr backing \<Rightarrow> Inr backing) of
             Inl e \<Rightarrow> Ret ((Inl e, nif), s)
           | Inr backing \<Rightarrow>
               (case vx_card_error X (Adapter nif) backing of
                  Some e \<Rightarrow> Ret ((Inl e, nif), s)
                | None \<Rightarrow>
                    let ((mac, nif), s) = vs_mac X nif s;
                        ether = with_mac mac \<lparr>ec_Backing = backing, ec_AddressType = [], ec_MacAddress = []\<rparr>;
                        ((mac, nif), s) = vs_mac X nif s
                    in Ret ((Inr (AddedCard (Adapter nif) (with_mac mac ether) (IsEnabled nif)), nif), s))))"

fun new_devices ::
  "vs_env \<Rightarrow> net_interface list \<Rightarrow> 'h hstate \<Rightarrow> (((error + added_device list) \<times> net_interface list) \<times> 'h hstate) go" where
  "new_devices X [] s = Ret ((Inr [], []), s)"
| "new_devices X (nif # nifs) s =
     (if \<not> CreateIt nif
      then gbind (new_devices X nifs s) (\<lambda>((r, nifs), s). Ret ((r, nif # nifs), s))
      else gbind (new_device X nif s) (\<lambda>((r, nif), s).
        case r of
          Inl e \<Rightarrow> Ret ((Inl e, nif # nifs), s)
        | Inr device \<Rightarrow> gbind (new_devices X nifs s) (\<lambda>((r, nifs), s).
            Ret ((map_sum id (\<lambda>rest. device # rest) r, nif # nifs), s))))"

text \<open>The machine gets the interfaces of the cluster network: its changed interfaces stay with the handler.\<close>

definition vs_with_interfaces ::
  "(net_interface list \<Rightarrow> vs_state \<Rightarrow> (((error + 'a) \<times> net_interface list) \<times> vs_state) go) \<Rightarrow> ('a, vs_handler) vs_op" where
  "vs_with_interfaces f s =
     gbind (f (Interfaces (vh_network (fst s))) s) (\<lambda>((r, nifs), h, rest).
       Ret (r, h\<lparr>vh_network := (vh_network h)\<lparr>Interfaces := nifs\<rparr>\<rparr>, rest))"

text \<open>A template with more cards loses the last ones, and gets no new one.\<close>

definition vs_configureNetwork :: "vs_env \<Rightarrow> string \<Rightarrow> added_device list \<Rightarrow> (added_device list, vs_handler) vs_op" where
  "vs_configureNetwork X vm devices s =
     (let n = length (Interfaces (vh_network (fst s)))
      in if n = 0 then vs_return devices s
         else vs_result (vs_ask (vx_devices X) (VsDevices vm)) (\<lambda>r.
           let cards = (case r of Inl e \<Rightarrow> [] | Inr found \<Rightarrow> ethernet_cards found)
           in if length cards > n then vs_bind (vs_do X (VsRemoveDevices vm (drop n cards))) (\<lambda>u. vs_return devices)
              else vs_bind (vs_with_interfaces (new_devices X)) (\<lambda>added. vs_return (devices @ added))) s)"

text \<open>The table learns the addresses of the cards that match an enabled interface.\<close>

definition learn_card :: "vs_env \<Rightarrow> ethernet_card \<Rightarrow> net_interface \<Rightarrow> 'h hstate \<Rightarrow> 'h hstate go" where
  "learn_card X ether nif s =
     (if \<not> IsEnabled nif then Ret s
      else gbind (MatchInterface X nif ether s) (\<lambda>((matching, backing, ref), h, t, calls).
        Ret (h, if matching = Inr True then AttachMacAddress nif (ec_MacAddress ether) t else t, calls)))"

definition collectNetworkInfos :: "vs_env \<Rightarrow> net_interface list \<Rightarrow> string \<Rightarrow> (unit, 'h) vs_op" where
  "collectNetworkInfos X nifs vm = vs_bind (vs_ask (vx_devices X) (VsDevices vm)) (\<lambda>devices s.
     gbind (gfold (\<lambda>ether. gfold (learn_card X ether) nifs) (ethernet_cards devices) s) (\<lambda>s. Ret (Inr (), s)))"

section \<open>The disk\<close>

fun findHardDrive :: "virtual_device list \<Rightarrow> error + int" where
  "findHardDrive [] = Inl (Plain ''no disk found using the given values'')"
| "findHardDrive (VirtualDisk capacity # devices) = Inr capacity"
| "findHardDrive (_ # devices) = findHardDrive devices"

text \<open>A disk grows to the size asked for, in kilobytes, and never shrinks; the handler always expands the disk of the template.\<close>

definition configureHardDrive :: "vs_env \<Rightarrow> string \<Rightarrow> int \<Rightarrow> (unit, 'h) vs_op" where
  "configureHardDrive X vm diskSize =
     (if diskSize \<le> 0 then vs_return ()
      else vs_bind (vs_ask (vx_devices X) (VsDevices vm)) (\<lambda>devices.
        case findHardDrive devices of
          Inl e \<Rightarrow> vs_fail e
        | Inr capacity \<Rightarrow>
            if wrap64 (diskSize * 1024) > capacity then vs_task X (VsEditDisk vm (wrap64 (diskSize * 1024))) else vs_return ()))"

section \<open>Creating a machine\<close>

text \<open>The guest infos follow as many nil entries as there are infos.\<close>

definition SetGuestInfo ::
  "vs_env \<Rightarrow> codec \<Rightarrow> instance_input \<Rightarrow> string \<Rightarrow> ((string \<times> string) option list, vs_handler) vs_op" where
  "SetGuestInfo X cd input vm s =
     (let (tz, s) = ask_remote (rans_str (vx_remote X)) TimeZone s
      in vs_bind (vs_vm_UUID X vm) (\<lambda>u (h, t, calls).
           let net = vh_network h;
               i = \<lparr>ci_InstanceName = vh_instanceName h, ci_UserName = in_UserName input, ci_AuthKey = in_AuthKey input,
                 ci_TimeZone = tz, ci_AllowUpgrade = in_AllowUpgrade input, ci_Network = CMap [], ci_CloudInit = in_CloudInit input\<rparr>
           in gbind (if Interfaces net = [] then Ret (None, net, t)
                     else gbind (GetCloudInitNetwork (rans_random (vx_remote X) calls) True net t) (\<lambda>(eths, net, t).
                       Ret (Some (declare_ci eths), net, t))) (\<lambda>(decl, net, t).
             let s = (h\<lparr>vh_network := net\<rparr>, t, calls)
             in case BuildGuestInfos cd i u (Domain net) decl of
                  Inl e \<Rightarrow> vs_fail e s
                | Inr infos \<Rightarrow> vs_return (replicate (length infos) None @
                    map (\<lambda>(k, v). Some (Sprintf ''guestinfo.%s'' [k], v)) (reorder (vx_order X calls) infos)) s)) s)"

definition wrap_error :: "string \<Rightarrow> string \<Rightarrow> ('a, 'h) vs_op \<Rightarrow> ('a, 'h) vs_op" where
  "wrap_error what name m = vs_result m (\<lambda>r. case r of Inl e \<Rightarrow> vs_fail (Errorf what [name, err_text e]) | Inr a \<Rightarrow> vs_return a)"

definition vs_Configure :: "vs_env \<Rightarrow> codec \<Rightarrow> vs_wrapper \<Rightarrow> instance_input \<Rightarrow> string \<Rightarrow> (unit, vs_handler) vs_op" where
  "vs_Configure X cd w input vm s =
     (let name = vh_instanceName (fst s)
      in vs_bind (vs_object X vm) (\<lambda>u. vs_bind (vs_vm_UUID X vm) (\<lambda>uuid.
           vs_bind (wrap_error ErrUnableToAddHardDrive name (configureHardDrive X vm (in_DiskSize input))) (\<lambda>u.
           vs_bind (wrap_error ErrUnableToAddNetworkCard name (vs_configureNetwork X vm [])) (\<lambda>devices.
           vs_bind (case vx_spec_error X devices of
                      Some e \<Rightarrow> vs_fail (Errorf ErrUnableToCreateDeviceChangeOp [name, err_text e]) | None \<Rightarrow> vs_return ()) (\<lambda>u.
           vs_bind (wrap_error ErrCloudInitFailCreation name (SetGuestInfo X cd input vm)) (\<lambda>extra.
             wrap_error ErrUnableToReconfigureVM name (vs_task X (VsReconfigure vm
               \<lparr>sp_NumCPUs = wrap32 (in_Vcpu input), sp_MemoryMB = in_Memory input, sp_Annotation = vw_Annotation w,
                sp_Uuid = uuid, sp_Added = devices, sp_ExtraConfig = extra\<rparr>)))))))) s)"

definition vs_vmFolder :: "vs_env \<Rightarrow> string \<Rightarrow> (string, 'h) vs_op" where
  "vs_vmFolder X name =
     (if name = [] then vs_ask (vx_text X) VsDefaultFolder
      else vs_bind (vs_ask (vx_folders X) (VsFolders name)) (\<lambda>elements.
        case find (\<lambda>(path, kinds). case kinds of Some kinds \<Rightarrow> ''VirtualMachine'' \<in> set kinds | None \<Rightarrow> False) elements of
          Some (path, kinds) \<Rightarrow> vs_return path
        | None \<Rightarrow> vs_fail (Errorf ''folder %s not found'' [name])))"

definition vs_customization :: "vs_env \<Rightarrow> string \<Rightarrow> (string option, 'h) vs_op" where
  "vs_customization X name =
     (if name = [] then vs_return None
      else vs_bind (vs_ask (vx_bool X) (VsCustomizationExists name)) (\<lambda>exists.
        if \<not> exists then vs_fail (Errorf ''customization specification %s does not exists'' [name])
        else vs_bind (vs_ask (vx_text X) (VsCustomization name)) (\<lambda>spec. vs_return (Some spec))))"

definition CreateVirtualMachine :: "vs_env \<Rightarrow> vs_wrapper \<Rightarrow> (string, vs_handler) vs_op" where
  "CreateVirtualMachine X w s =
     (let name = vh_instanceName (fst s)
      in vs_bind (vs_ask (vx_text X) (VsFindVM (vw_TemplateName w))) (\<lambda>template.
         vs_bind (vs_vmFolder X (vw_VMBasePath w)) (\<lambda>folder.
         vs_bind (vs_ask (vx_text X) (VsResourcePool (vw_Resource w))) (\<lambda>pool.
         vs_bind (vs_ask (vx_devices X) (VsDevices template)) (\<lambda>devices.
         vs_bind (vs_with_interfaces (\<lambda>nifs. clone_cards X nifs (ethernet_cards devices))) (\<lambda>edits.
         vs_bind (vs_customization X (vw_Customization w)) (\<lambda>custom.
         vs_bind (vs_do X (VsClone template name \<lparr>cr_Folder = folder, cr_Pool = pool, cr_Template = vw_Template w,
             cr_Linked = vw_LinkedClone w, cr_Cards = edits, cr_Customization = custom\<rparr>)) (\<lambda>u.
           vs_ask (vx_text X) VsCloneResult))))))) s)"

text \<open>A machine that cannot be configured is deleted; the outcome of that is dropped.\<close>

definition vs_Create :: "vs_env \<Rightarrow> codec \<Rightarrow> vs_wrapper \<Rightarrow> instance_input \<Rightarrow> (string, vs_handler) vs_op" where
  "vs_Create X cd w input =
     vs_bind (vs_datastore X w) (\<lambda>u. vs_bind (CreateVirtualMachine X w) (\<lambda>vm.
       vs_result (vs_Configure X cd w input vm) (\<lambda>r.
         case r of
           Inr u \<Rightarrow> vs_return vm
         | Inl e \<Rightarrow> vs_result (vs_Delete X vm) (\<lambda>deleted. vs_fail e))))"

section \<open>The provider\<close>

text \<open>\<^verbatim>\<open>NewVSphereProviderConfiguration\<close> once the file is loaded, without the name server.\<close>

definition vs_load :: "vs_env \<Rightarrow> vs_wrapper \<Rightarrow> (vs_wrapper, 'h) vs_op" where
  "vs_load X w = vs_bind (vs_UUID X w (vw_TemplateName w)) (\<lambda>u.
     vs_return (w\<lparr>vw_Network := ConfigurationDidLoad (vw_Network w)\<rparr>))"

definition vs_AttachInstance :: "vs_env \<Rightarrow> ipconv \<Rightarrow> vs_wrapper \<Rightarrow> string \<Rightarrow> bool \<Rightarrow> int \<Rightarrow> (vs_handler, 'h) vs_op" where
  "vs_AttachInstance X ip w instanceName control nodeIndex = vs_bind (vs_UUID X w instanceName) (\<lambda>vmuuid.
     vs_return \<lparr>vh_network = Network_Clone ip control nodeIndex (vw_Network w), vh_instanceName = instanceName,
       vh_instanceType = [], vh_instanceID = vmuuid, vh_controlPlane = control, vh_nodeIndex = nodeIndex\<rparr>)"

definition vs_CreateInstance ::
  "vs_env \<Rightarrow> ipconv \<Rightarrow> vs_wrapper \<Rightarrow> string \<Rightarrow> string \<Rightarrow> bool \<Rightarrow> int \<Rightarrow> (vs_handler, 'h) vs_op" where
  "vs_CreateInstance X ip w instanceName instanceType control nodeIndex = vs_bind (vs_InstanceExists X w instanceName) (\<lambda>found.
     if found then vs_fail (Errorf ErrVMAlreadyExists [instanceName])
     else vs_return \<lparr>vh_network = Network_Clone ip control nodeIndex (vw_Network w), vh_instanceName = instanceName,
       vh_instanceType = instanceType, vh_instanceID = [], vh_controlPlane = False, vh_nodeIndex = nodeIndex\<rparr>)"

section \<open>The handler\<close>

text \<open>A handler needs a name, which \<^verbatim>\<open>AttachInstance\<close> and \<^verbatim>\<open>CreateInstance\<close> both give it.\<close>

definition when_named ::
  "handler_result \<Rightarrow> (string \<Rightarrow> vs_state \<Rightarrow> (handler_result \<times> vs_state) go) \<Rightarrow> vs_state \<Rightarrow> (handler_result \<times> vs_state) go" where
  "when_named refused body s = (if vh_instanceName (fst s) = [] then Ret (refused, s) else body (vh_instanceName (fst s)) s)"

definition vs_done :: "error + unit \<Rightarrow> handler_result" where
  "vs_done r = Done (error_of r)"

definition vs_text :: "error + string \<Rightarrow> handler_result" where
  "vs_text r = (case r of Inl e \<Rightarrow> Text [] (Some e) | Inr t \<Rightarrow> Text t None)"

text \<open>\<open>on_machine\<close>: the machine of that name, then an operation on it.\<close>

definition on_machine :: "vs_env \<Rightarrow> vs_wrapper \<Rightarrow> (string \<Rightarrow> ('a, 'h) vs_op) \<Rightarrow> string \<Rightarrow> ('a, 'h) vs_op" where
  "on_machine X w f name = vs_bind (vs_VirtualMachine X w name) f"

definition vs_InstanceCreate :: "vs_env \<Rightarrow> codec \<Rightarrow> vs_wrapper \<Rightarrow> instance_input \<Rightarrow> vs_state \<Rightarrow> (handler_result \<times> vs_state) go" where
  "vs_InstanceCreate X cd w input s =
     answering vs_text (vs_bind (vs_Create X cd w input) (\<lambda>vm. vs_bind (vs_object X vm) (\<lambda>u. vs_bind (vs_vm_UUID X vm) (\<lambda>uuid s.
       vs_return uuid ((fst s)\<lparr>vh_instanceID := uuid\<rparr>, snd s)))) s)"

definition vs_wrapper_WaitForIP :: "vs_env \<Rightarrow> vs_wrapper \<Rightarrow> string \<Rightarrow> (string, 'h) vs_op" where
  "vs_wrapper_WaitForIP X w name =
     (if vw_testMode w then vs_return ''127.0.0.1'' else on_machine X w (vs_WaitForIP X name) name)"

definition vs_InstanceWaitReady :: "vs_env \<Rightarrow> vs_wrapper \<Rightarrow> string \<Rightarrow> vs_state \<Rightarrow> (handler_result \<times> vs_state) go" where
  "vs_InstanceWaitReady X w name s =
     gbind (vs_wrapper_WaitForIP X w name s) (\<lambda>(r, s).
       case r of
         Inl e \<Rightarrow> Ret (Text [] (Some e), s)
       | Inr ip \<Rightarrow> gbind (remote_PollImmediate (vx_remote X) (wrap64 (vw_Timeout w * second)) (ssh_attempt (vx_remote X) name ip) s)
           (\<lambda>(err, s). Ret (Text ip err, s)))"

definition vs_InstanceStatus :: "vs_env \<Rightarrow> vs_wrapper \<Rightarrow> string \<Rightarrow> vs_state \<Rightarrow> (handler_result \<times> vs_state) go" where
  "vs_InstanceStatus X w name s =
     gbind (on_machine X w (vs_Status X) name s) (\<lambda>(r, s).
       case r of
         Inl e \<Rightarrow> Ret (Status None (Some e), s)
       | Inr (interfaces, powered) \<Rightarrow>
           Ret (Status (Some \<lparr>Address = vs_preferred (vh_network (fst s)) interfaces, Powered = powered\<rparr>) None, s))"

definition vs_WaitForTools :: "vs_env \<Rightarrow> vs_wrapper \<Rightarrow> string \<Rightarrow> (bool, 'h) vs_op" where
  "vs_WaitForTools X w name = (if vw_testMode w then vs_return True else on_machine X w (vs_WaitForToolsRunning X) name)"

definition vs_AutoStart :: "vs_env \<Rightarrow> vs_wrapper \<Rightarrow> string \<Rightarrow> (unit, 'h) vs_op" where
  "vs_AutoStart X w name = vs_bind (on_machine X w (vs_HostSystem X) name) (\<lambda>host. vs_SetAutoStart X w host name (- 1))"

fun vs_handle :: "vs_env \<Rightarrow> codec \<Rightarrow> vs_wrapper \<Rightarrow> handler_call \<Rightarrow> vs_state \<Rightarrow> (handler_result \<times> vs_state) go" where
  "vs_handle X cd w (ConfigureNetwork net) s =
     Ret (Done None, (fst s)\<lparr>vh_network := ConfigureManagedNetwork (net_VMWare net) (vh_network (fst s))\<rparr>, snd s)"
| "vs_handle X cd w RetrieveNetworkInfos s = when_named (Done (Some not_attached)) (\<lambda>name s.
     answering vs_done (on_machine X w (collectNetworkInfos X (Interfaces (vh_network (fst s)))) name s)) s"
| "vs_handle X cd w UpdateMacAddressTable s = when_named (Done (Some not_attached)) (\<lambda>name (h, t, calls).
     let (net, t) = Network_UpdateMacAddressTable (vh_network h) t
     in Ret (Done None, h\<lparr>vh_network := net\<rparr>, t, calls)) s"
| "vs_handle X cd w GenerateProviderID s =
     Ret (Text (if vh_instanceID (fst s) \<noteq> [] then Sprintf ''vsphere://%s'' [vh_instanceID (fst s)] else []) None, s)"
| "vs_handle X cd w GetTopologyLabels s = Ret (Labels (topology_labels (vw_Region w) (vw_Zone w)), s)"
| "vs_handle X cd w (InstanceCreate input) s = vs_InstanceCreate X cd w input s"
| "vs_handle X cd w InstanceWaitReady s = when_named (Text [] (Some not_attached)) (vs_InstanceWaitReady X w) s"
| "vs_handle X cd w InstancePrimaryAddressIP s = Ret (Text (PrimaryAddressIP (vh_network (fst s))) None, s)"
| "vs_handle X cd w InstanceID s = when_named (Text [] (Some not_attached)) (\<lambda>name s. answering vs_text (vs_UUID X w name s)) s"
| "vs_handle X cd w InstanceAutoStart s =
     when_named (Done (Some not_attached)) (\<lambda>name s. answering vs_done (vs_AutoStart X w name s)) s"
| "vs_handle X cd w InstancePowerOn s =
     when_named (Done (Some not_attached)) (\<lambda>name s. answering vs_done (on_machine X w (vs_PowerOn X) name s)) s"
| "vs_handle X cd w InstancePowerOff s =
     when_named (Done (Some not_attached)) (\<lambda>name s. answering vs_done (on_machine X w (vs_PowerOff X) name s)) s"
| "vs_handle X cd w InstanceDelete s =
     when_named (Done (Some not_attached)) (\<lambda>name s. answering vs_done (on_machine X w (vs_Delete X) name s)) s"
| "vs_handle X cd w InstanceCreated s = when_named (Flag False None) (\<lambda>name s.
     answering (\<lambda>r. Flag (case r of Inl e \<Rightarrow> False | Inr found \<Rightarrow> found) None) (vs_InstanceExists X w name s)) s"
| "vs_handle X cd w InstanceStatus s = when_named (Status None (Some not_attached)) (vs_InstanceStatus X w) s"
| "vs_handle X cd w InstanceWaitForToolsRunning s = when_named (Flag False (Some not_attached)) (\<lambda>name s.
     answering (\<lambda>r. case r of Inl e \<Rightarrow> Flag False (Some e) | Inr b \<Rightarrow> Flag b None) (vs_WaitForTools X w name s)) s"
| "vs_handle X cd w (InstanceMaxPods desired) s = Ret (Number (default_max_pods desired) None, s)"
| "vs_handle X cd w (RegisterDNS address) s =
     Ret (map_prod Done id (change_dns (vx_remote X) (vw_bind9Provider w) True (vh_instanceName (fst s)) (Domain (vw_Network w)) address s))"
| "vs_handle X cd w (UnregisterDNS address) s =
     Ret (map_prod Done id (change_dns (vx_remote X) (vw_bind9Provider w) False (vh_instanceName (fst s)) (Domain (vw_Network w)) address s))"

text \<open>The methods that the node does not use.\<close>

definition vs_InstanceShutdownGuest :: "vs_env \<Rightarrow> vs_wrapper \<Rightarrow> vs_state \<Rightarrow> (handler_result \<times> vs_state) go" where
  "vs_InstanceShutdownGuest X w = when_named (Done (Some not_attached)) (\<lambda>name s.
     answering vs_done (on_machine X w (vs_ShutdownGuest X) name s))"

definition vs_InstanceWaitForPowered :: "vs_env \<Rightarrow> vs_wrapper \<Rightarrow> vs_state \<Rightarrow> (handler_result \<times> vs_state) go" where
  "vs_InstanceWaitForPowered X w = when_named (Done (Some not_attached)) (\<lambda>name s.
     answering vs_done ((if vw_testMode w then vs_return () else on_machine X w (vs_WaitForPowered X) name) s))"

end
