(* ===== verification/Vsphere_Facts.thy ===== *)
theory Vsphere_Facts
  imports Vsphere
begin

text \<open>
  The vSphere provider: the contract of its handler, what a switch, a creation and a deletion ask the
  inventory for, and the cards and the disk a machine gets. What every operation keeps is proved once,
  for any relation between the states before and after (the locale \<open>vs_relation\<close>, which extends the one
  of the operations that clone nothing, \<open>vs_quiet\<close>).
\<close>

section \<open>Relations that every operation keeps\<close>

definition after :: "(vs_state \<Rightarrow> vs_state \<Rightarrow> bool) \<Rightarrow> vs_state \<Rightarrow> ('a \<times> vs_state) go \<Rightarrow> bool" where
  "after R s m \<longleftrightarrow> holds (\<lambda>(r, s'). R s s') m"

named_theorems vs_step

lemma after_cases [vs_step]:
  "after R s a \<Longrightarrow> after R s b \<Longrightarrow> after R s (if c then a else b)"
  "after R s (f s) \<Longrightarrow> after R s (g s) \<Longrightarrow> after R s ((if c then f else g) s)"
  "(\<And>e. after R s (k e)) \<Longrightarrow> (\<And>a. after R s (l a)) \<Longrightarrow> after R s (case r of Inl e \<Rightarrow> k e | Inr a \<Rightarrow> l a)"
  "(\<And>e. after R s (k' e s)) \<Longrightarrow> (\<And>a. after R s (l' a s)) \<Longrightarrow> after R s ((case r of Inl e \<Rightarrow> k' e | Inr a \<Rightarrow> l' a) s)"
  "after R s m \<Longrightarrow> (\<And>a. after R s (n a)) \<Longrightarrow> after R s (case x of None \<Rightarrow> m | Some a \<Rightarrow> n a)"
  "after R s (m' s) \<Longrightarrow> (\<And>a. after R s (n' a s)) \<Longrightarrow> after R s ((case x of None \<Rightarrow> m' | Some a \<Rightarrow> n' a) s)"
  "(\<And>a b. after R s (h a b)) \<Longrightarrow> after R s (case p of (a, b) \<Rightarrow> h a b)"
  "(\<And>a b. after R s (h' a b s)) \<Longrightarrow> after R s ((case p of (a, b) \<Rightarrow> h' a b) s)"
  "(\<And>y. after R s (i y)) \<Longrightarrow> after R s (let y = t in i y)"
  "(\<And>y. after R s (i' y s)) \<Longrightarrow> after R s ((let y = t in i' y) s)"
  by (auto split: sum.split option.split prod.split)

lemma after_backing [vs_step]:
  "(\<And>d u. after R s (f d u)) \<Longrightarrow> (\<And>u k. after R s (g u k)) \<Longrightarrow> (\<And>w k. after R s (h w k)) \<Longrightarrow> after R s m \<Longrightarrow>
   after R s (case b of NetworkBacking d u \<Rightarrow> f d u | OpaqueBacking u k \<Rightarrow> g u k | PortBacking w k \<Rightarrow> h w k | OtherBacking \<Rightarrow> m)"
  by (cases b) simp_all

lemma after_Panic [vs_step]: "after R s (Panic p)"
  by (simp add: after_def)

text \<open>Only the clone of a template is a call of its own: every other operation makes none.\<close>

definition clone_call :: "remote_call \<Rightarrow> bool" where
  "clone_call c \<longleftrightarrow> (\<exists>template name request. c = VSphere (VsClone template name request))"

declare clone_call_def [simp]

locale vs_quiet =
  fixes R :: "vs_state \<Rightarrow> vs_state \<Rightarrow> bool"
  assumes R_refl: "R s s"
    and R_trans: "R s t \<Longrightarrow> R t u \<Longrightarrow> R s u"
    and R_call: "\<not> clone_call c \<Longrightarrow> R (h, tb, calls) (h, tb, c # calls)"
    and R_network: "R (h, tb, calls) (h\<lparr>vh_network := net\<rparr>, tb', calls)"
    and R_identified: "R (h, tb, calls) (h\<lparr>vh_instanceID := uuid\<rparr>, tb, calls)"
begin

lemma R_table: "R (h, tb, calls) (h, tb', calls)"
  using R_network [of h tb calls "vh_network h" tb'] by simp

lemma R_ask: "\<not> clone_call c \<Longrightarrow> R s (snd (ask_remote answer c s))"
  by (cases s) (simp add: R_call del: clone_call_def)

lemma after_Ret [vs_step]: "after R s (Ret (a, s))"
  by (simp add: after_def R_refl)

lemma after_trans: "R s t \<Longrightarrow> after R t m \<Longrightarrow> after R s m"
  unfolding after_def by (erule holds_mono) (auto intro: R_trans)

lemma after_gbind [vs_step]:
  assumes "after R s m" "\<And>r t. after R t (f r t)"
  shows "after R s (gbind m (\<lambda>(r, t). f r t))"
proof (cases m)
  case (Ret p)
  with assms(1) have "R s (snd p)" by (simp add: after_def case_prod_unfold)
  from after_trans [OF this assms(2)] Ret show ?thesis by (simp add: case_prod_unfold)
qed (simp_all add: after_def)

lemma after_basic [vs_step]:
  "after R s (vs_return a s)" "after R s (vs_fail e s)"
  "\<not> clone_call (VSphere c) \<Longrightarrow> after R s (vs_ask answer c s)" "\<not> clone_call (VSphere c) \<Longrightarrow> after R s (vs_do X c s)"
  "after R s (vs_vm_UUID X vm s)"
  by (simp_all add: after_def vs_return_def vs_fail_def vs_ask_def vs_do_def vs_vm_UUID_def case_prod_unfold R_ask R_refl Let_def)

lemma after_bind [vs_step]:
  "after R s (m s) \<Longrightarrow> (\<And>a t. after R t (f a t)) \<Longrightarrow> after R s (vs_bind m f s)"
  "after R s (m s) \<Longrightarrow> (\<And>r t. after R t (g r t)) \<Longrightarrow> after R s (vs_result m g s)"
  unfolding vs_bind_def vs_result_def by (intro vs_step | assumption)+

lemma after_deref [vs_step]: "(\<And>a. after R s (f a s)) \<Longrightarrow> after R s (vs_deref p f s)"
  unfolding vs_deref_def deref_def by (intro vs_step | assumption | (simp; fail))+

lemma after_object [vs_step]: "after R s (vs_object X vm s)"
  unfolding vs_object_def by (intro vs_step | assumption | (simp; fail))+

lemma after_search [vs_step]:
  "\<not> clone_call (VSphere c) \<Longrightarrow> after R s (vs_task X c s)" "after R s (vs_datacenter X w s)" "after R s (vs_datastore X w s)" "after R s (vs_VirtualMachine X w name s)"
  "after R s (vs_UUID X w name s)" "after R s (vs_InstanceExists X w name s)" "after R s (vs_PowerState X vm s)"
  unfolding vs_task_def vs_datacenter_def vs_datastore_def vs_VirtualMachine_def vs_UUID_def vs_InstanceExists_def vs_PowerState_def
  by (intro vs_step | assumption | (simp; fail))+

lemma after_property [vs_step]: "after R s (property_Wait X vm name wanted s)"
  using R_ask [of "VSphere (VsPropertyWait vm name)" s "vx_changes X"] by (auto simp: after_def property_Wait_def case_prod_unfold Let_def intro!: holds_all)

lemma after_machine [vs_step]:
  "after R s (vs_PowerOn X vm s)" "after R s (vs_PowerOff X vm s)" "after R s (vs_ShutdownGuest X vm s)" "after R s (vs_Delete X vm s)"
  "after R s (vs_WaitForPowered X vm s)" "after R s (vs_WaitForToolsRunning X vm s)" "after R s (isSimulatorRunning X vm s)"
  "after R s (isToolsRunning X vm s)" "after R s (vs_waitForIP X name vm s)" "after R s (vs_WaitForIP X name vm s)"
  "after R s (vs_ListAddresses X vm s)" "after R s (vs_Status X vm s)" "after R s (vs_HostSystem X vm s)"
  "after R s (vs_AutoStartManager X esxi s)" "after R s (vs_SetAutoStart X w esxi name k s)" "after R s (configureHardDrive X vm n s)"
  "after R s (vs_vmFolder X name s)" "after R s (vs_customization X name s)"
  unfolding vs_PowerOn_def vs_PowerOff_def vs_ShutdownGuest_def vs_Delete_def vs_WaitForPowered_def vs_WaitForToolsRunning_def
    isSimulatorRunning_def isToolsRunning_def vs_waitForIP_def vs_WaitForIP_def vs_ListAddresses_def vs_Status_def vs_HostSystem_def
    vs_AutoStartManager_def vs_SetAutoStart_def manager_SetAutoStart_def configureHardDrive_def vs_vmFolder_def vs_customization_def
  by (intro vs_step | assumption | (simp; fail))+

lemma after_on_machine [vs_step]: "(\<And>vm t. after R t (f vm t)) \<Longrightarrow> after R s (on_machine X w f name s)"
  unfolding on_machine_def by (intro vs_step | assumption | (simp; fail))+

lemma after_mac [vs_step]: "(\<And>m n t. after R t (f m n t)) \<Longrightarrow> after R s (let ((m, n), t) = vs_mac X nif s in f m n t)"
proof -
  obtain h tb calls where s: "s = (h, tb, calls)" by (metis prod.exhaust)
  obtain m n t where v: "vs_mac X nif s = ((m, n), t)" by (metis prod.exhaust)
  then have "R s t" by (auto simp: vs_mac_def s Let_def case_prod_unfold R_table)
  moreover assume "\<And>m n t. after R t (f m n t)"
  from this [of t m n] have "after R t (f m n t)" .
  ultimately show "after R s (let ((m, n), t) = vs_mac X nif s in f m n t)"
    by (simp add: v after_trans)
qed

lemma after_match [vs_step]: "after R s (MatchInterface X nif ether s)"
  unfolding MatchInterface_def
  by (intro vs_step | assumption | (simp; fail))+

lemma after_cards [vs_step]:
  "after R s (matched_card X nif backing ether s)" "after R s (ConfigureEthernetCard X nif known ether s)" "after R s (new_device X nif s)"
  unfolding matched_card_def ConfigureEthernetCard_def new_device_def by (intro vs_step | assumption | (simp; fail))+

lemma after_clone_cards [vs_step]: "after R s (clone_cards X nifs cards s)"
proof (induction nifs arbitrary: cards s)
  case Nil
  show ?case by (simp only: clone_cards.simps) (rule after_Ret)
next
  case (Cons nif nifs)
  then show ?case by (cases cards; simp only: clone_cards.simps) (intro vs_step Cons.IH | assumption | (simp; fail))+
qed

lemma after_new_devices [vs_step]: "after R s (new_devices X nifs s)"
proof (induction nifs arbitrary: s)
  case Nil
  show ?case by (simp only: new_devices.simps) (rule after_Ret)
next
  case (Cons nif nifs)
  then show ?case by (simp only: new_devices.simps) (intro vs_step Cons.IH | assumption | (simp; fail))+
qed

lemma after_with_interfaces [vs_step]:
  assumes "\<And>nifs t. after R t (f nifs t)"
  shows "after R s (vs_with_interfaces f s)"
proof (cases "f (Interfaces (vh_network (fst s))) s")
  case (Ret p)
  obtain r nifs h tb calls where p: "p = ((r, nifs), h, tb, calls)" by (metis prod.exhaust)
  with assms [of s "Interfaces (vh_network (fst s))"] Ret have "R s (h, tb, calls)" by (simp add: after_def)
  from R_trans [OF this R_network] Ret p show ?thesis by (simp add: vs_with_interfaces_def after_def)
qed (simp_all add: vs_with_interfaces_def after_def)

lemma after_configureNetwork [vs_step]: "after R s (vs_configureNetwork X vm devices s)"
  unfolding vs_configureNetwork_def by (intro vs_step | assumption | (simp; fail))+

lemma after_learn [vs_step]: "holds (R s) (learn_card X ether nif s)"
proof (cases "MatchInterface X nif ether s")
  case (Ret p)
  obtain r b n h tb calls where p: "p = ((r, b, n), h, tb, calls)" by (metis prod.exhaust)
  with after_match [of s X nif ether] Ret have "R s (h, tb, calls)" by (simp add: after_def)
  with Ret p show ?thesis by (auto simp: learn_card_def R_refl intro: R_trans R_table)
qed (auto simp: learn_card_def R_refl)

lemma after_gfold: "(\<And>x t. holds (R t) (f x t)) \<Longrightarrow> holds (R s) (gfold f xs s)"
proof (induction xs arbitrary: s)
  case (Cons x xs)
  have "holds (R s) (gfold f xs t)" if "R s t" for t
    by (rule holds_mono [OF Cons.IH [OF Cons.prems]]) (rule R_trans [OF that])
  then show ?case by (auto intro: holds_mono [OF Cons.prems])
qed (simp add: R_refl)

lemma after_collect [vs_step]: "after R s (collectNetworkInfos X nifs vm s)"
  unfolding collectNetworkInfos_def
proof (intro vs_step | (simp; fail))+
  fix devices t
  have "holds (R t) (gfold (\<lambda>ether. gfold (learn_card X ether) nifs) (ethernet_cards devices) t)"
    by (intro after_gfold after_learn)
  then show "after R t (gbind (gfold (\<lambda>ether. gfold (learn_card X ether) nifs) (ethernet_cards devices) t) (\<lambda>s. Ret (Inr (), s)))"
    by (simp add: after_def)
qed

lemma after_gbind_any: "(\<And>a. after R s (f a)) \<Longrightarrow> after R s (gbind m f)"
  by (cases m) (simp_all add: after_def)

lemma after_SetGuestInfo [vs_step]: "after R s (SetGuestInfo X cd input vm s)"
proof -
  obtain h tb calls where s: "s = (h, tb, calls)" by (metis prod.exhaust)
  have "R s (h\<lparr>vh_network := net\<rparr>, tb', VSphere (VsUUID vm) # TimeZone # calls)" for net tb'
    unfolding s by (rule R_trans [OF R_trans [OF R_call R_call] R_network]) simp_all
  then have "after R s (let s = (h\<lparr>vh_network := net\<rparr>, tb', VSphere (VsUUID vm) # TimeZone # calls)
      in case r of Inl e \<Rightarrow> vs_fail e s | Inr infos \<Rightarrow> vs_return (k infos) s)" for net tb' r and k :: "'a \<Rightarrow> 'b"
    by (simp add: after_def vs_fail_def vs_return_def Let_def split: sum.split)
  then show ?thesis
    by (auto simp: SetGuestInfo_def s vs_bind_def vs_vm_UUID_def Let_def intro!: after_gbind_any)
qed

lemma after_wrap_error [vs_step]: "(\<And>t. after R t (m t)) \<Longrightarrow> after R s (wrap_error what name m s)"
  unfolding wrap_error_def by (intro vs_step | assumption | (simp; fail))+

lemma after_Configure [vs_step]: "after R s (vs_Configure X cd w input vm s)"
  unfolding vs_Configure_def Let_def by (intro vs_step | assumption | (simp; fail))+

end

locale vs_relation = vs_quiet +
  assumes R_clone: "R (h, tb, calls) (h, tb, VSphere (VsClone template name request) # calls)"
begin

lemma after_clone [vs_step]: "after R s (vs_do X (VsClone template name request) s)"
  by (cases s) (simp add: after_def vs_do_def Let_def R_clone)

lemma after_creation [vs_step]: "after R s (CreateVirtualMachine X w s)" "after R s (vs_Create X cd w input s)"
proof -
  show v: "after R s (CreateVirtualMachine X w s)" for s
    unfolding CreateVirtualMachine_def Let_def by (intro vs_step | assumption | (simp; fail))+
  show "after R s (vs_Create X cd w input s)"
    unfolding vs_Create_def by (intro vs_step v | assumption | (simp; fail))+
qed

lemma after_answering [vs_step]: "after R s m \<Longrightarrow> after R s (answering f m)"
  unfolding answering_def by (rule after_gbind) (assumption | rule after_Ret)+

lemma after_when_named [vs_step]: "(\<And>name. after R s (body name s)) \<Longrightarrow> after R s (when_named refused body s)"
  unfolding when_named_def by (intro vs_step | assumption | (simp; fail))+

lemma after_InstanceCreate [vs_step]: "after R s (vs_InstanceCreate X cd w input s)"
proof -
  have "R t ((fst t)\<lparr>vh_instanceID := uuid\<rparr>, snd t)" for uuid t by (cases t) (simp add: R_identified)
  then have i: "after R t (vs_return uuid ((fst t)\<lparr>vh_instanceID := uuid\<rparr>, snd t))" for uuid t
    by (simp add: after_def vs_return_def)
  show ?thesis unfolding vs_InstanceCreate_def by (intro vs_step i | assumption | (simp; fail))+
qed

lemma after_poll [vs_step]:
  assumes "\<And>t. after R t (cond t)"
  shows "after R s (remote_PollImmediate E timeout cond s)"
  unfolding after_def
proof (rule remote_poll_holds)
  show "holds (\<lambda>(r, u). R s u) (cond t)" if "R s t" for t
    using after_trans [OF that assms] by (simp add: after_def)
qed (simp add: R_ask)

lemma after_status [vs_step]:
  "after R s (vs_InstanceStatus X w name s)" "after R s (vs_InstanceWaitReady X w name s)"
proof -
  show "after R s (vs_InstanceStatus X w name s)" unfolding vs_InstanceStatus_def by (intro vs_step | assumption | (simp; fail))+
  have a: "after R t (ssh_attempt E name ip t)" for E ip t
    by (simp add: after_def ssh_attempt_def case_prod_unfold Let_def R_ask)
  show "after R s (vs_InstanceWaitReady X w name s)"
    unfolding vs_InstanceWaitReady_def vs_wrapper_WaitForIP_def by (intro vs_step a | assumption | (simp; fail))+
qed

lemma R_dns: "R s (snd (change_dns E p add name domain address s))"
  by (simp add: change_dns_def AddRecord_def RemoveRecord_def changeRecord_def case_prod_unfold Let_def R_ask R_refl
      split: option.split sum.split)

lemma after_handle: "after R s (vs_handle X cd w c s)"
proof (cases c)
  case UpdateMacAddressTable
  then show ?thesis
    by (cases s) (simp add: when_named_def case_prod_unfold Let_def after_def R_refl R_network)
next
  case (ConfigureNetwork net)
  then show ?thesis by (cases s) (simp add: after_def R_network)
next
  case (RegisterDNS address)
  then show ?thesis by (simp add: after_def R_dns case_prod_unfold)
next
  case (UnregisterDNS address)
  then show ?thesis by (simp add: after_def R_dns case_prod_unfold)
qed (simp_all only: vs_handle.simps vs_AutoStart_def vs_WaitForTools_def, (intro vs_step | assumption | (simp; fail))+)

end

text \<open>The name stays.\<close>

definition same_name :: "vs_state \<Rightarrow> vs_state \<Rightarrow> bool" where
  "same_name s s' \<longleftrightarrow> vh_instanceName (fst s') = vh_instanceName (fst s)"

interpretation same_name: vs_relation same_name
  by unfold_locales (auto simp: same_name_def)

text \<open>The calls grow, and none of the new ones is a clone.\<close>

definition no_clone :: "vs_state \<Rightarrow> vs_state \<Rightarrow> bool" where
  "no_clone s s' \<longleftrightarrow> (\<exists>later. snd (snd s') = later @ snd (snd s) \<and> (\<forall>c \<in> set later. \<not> clone_call c))"

lemma no_clone_trans: "no_clone s t \<Longrightarrow> no_clone t u \<Longrightarrow> no_clone s u"
  by (fastforce simp: no_clone_def simp del: clone_call_def)

lemma no_clone_call: "\<not> clone_call c \<Longrightarrow> no_clone (h, tb, calls) (h', tb', c # calls)"
  by (auto simp: no_clone_def simp del: clone_call_def intro: exI [of _ "[c]"])

lemma no_clone_same: "no_clone (h, tb, calls) (h', tb', calls)"
  by (simp add: no_clone_def)

interpretation no_clone: vs_quiet no_clone
proof
  show "no_clone s s" for s by (cases s) (simp add: no_clone_same)
qed (erule (1) no_clone_trans, erule no_clone_call, rule no_clone_same, rule no_clone_same)

section \<open>The contract of the handler\<close>

fun needs_name :: "handler_call \<Rightarrow> bool" where
  "needs_name RetrieveNetworkInfos = True"
| "needs_name UpdateMacAddressTable = True"
| "needs_name InstanceAutoStart = True"
| "needs_name InstanceWaitForToolsRunning = True"
| "needs_name c = needs_running c"

interpretation vsphere: attached_handler "\<lambda>h. vh_instanceName h \<noteq> []" "vs_handle X cd w" needs_name "\<lambda>c. False" for X cd w
proof
  fix c and s :: vs_state
  assume "needs_name c" "\<not> vh_instanceName (fst s) \<noteq> []"
  then show "\<exists>r. vs_handle X cd w c s = Ret (r, s) \<and> result_error r \<noteq> None"
    by (cases c) (auto simp: when_named_def)
next
  fix c r and s s' :: vs_state
  assume "vs_handle X cd w c s = Ret (r, s')" "\<not> False"
  then show "(vh_instanceName (fst s') \<noteq> []) = (vh_instanceName (fst s) \<noteq> [])"
    using same_name.after_handle [of s X cd w c] by (simp add: after_def same_name_def)
qed

section \<open>Switching and deleting\<close>

lemma vs_bind_ok: "vs_bind m f s = Ret (Inr b, s') \<longleftrightarrow> (\<exists>a t. m s = Ret (Inr a, t) \<and> f a t = Ret (Inr b, s'))"
proof (cases "m s")
  case (Ret p)
  then show ?thesis by (cases p; cases "fst p") (auto simp: vs_bind_def)
qed (simp_all add: vs_bind_def)

lemma vs_ask_ok:
  "vs_ask answer c s = Ret (Inr a, s') \<longleftrightarrow> s' = (fst s, fst (snd s), VSphere c # snd (snd s)) \<and> answer (VSphere c # snd (snd s)) = Inr a"
  by (cases s) (auto simp: vs_ask_def)

lemma vs_do_ok:
  "vs_do X c s = Ret (Inr u, s') \<longleftrightarrow>
     s' = (fst s, fst (snd s), VSphere c # snd (snd s)) \<and> rans_err (vx_remote X) (VSphere c # snd (snd s)) = None"
  by (cases s) (auto simp: vs_do_def Let_def split: option.splits)

lemma vs_simple_ok: "vs_return a s = Ret (Inr b, s') \<longleftrightarrow> a = b \<and> s' = s" "vs_fail e s \<noteq> Ret (Inr b, s')"
  by (auto simp: vs_return_def vs_fail_def)

lemma vs_done_ok: "vs_done r = Done None \<longleftrightarrow> r = Inr ()"
  by (cases r) (auto simp: vs_done_def error_of_def)

lemmas vs_ok = vs_bind_ok vs_ask_ok vs_do_ok vs_simple_ok

definition finding :: "vs_wrapper \<Rightarrow> string \<Rightarrow> remote_calls" where
  "finding w name = map VSphere [VsFindVM name, VsDatastore (vw_DataStore w), VsDatacenter (vw_DataCenter w), VsClient]"

lemma vs_VirtualMachine_ok:
  assumes "vs_VirtualMachine X w name s = Ret (Inr vm, s')"
  shows "s' = (fst s, fst (snd s), finding w name @ snd (snd s)) \<and> vx_text X (finding w name @ snd (snd s)) = Inr vm"
  using assms by (auto simp: vs_VirtualMachine_def vs_datastore_def vs_datacenter_def vs_ok finding_def)

text \<open>
  A switch or a deletion that succeeds has found the machine, has read its state, which was one that
  allows it, has asked for the task and has waited for it: nothing else, and the handler stays as it is.
\<close>

fun switching :: "handler_call \<Rightarrow> string \<Rightarrow> vsphere_call" where
  "switching InstancePowerOn vm = VsPowerOn vm"
| "switching InstancePowerOff vm = VsPowerOff vm"
| "switching _ vm = VsDestroy vm"

theorem vs_switch_success:
  assumes "vs_handle X cd w c s = Ret (Done None, s')" "c \<in> {InstancePowerOn, InstancePowerOff, InstanceDelete}"
  defines "found \<equiv> finding w (vh_instanceName (fst s)) @ snd (snd s)"
  shows "\<exists>vm st. vx_text X found = Inr vm \<and> vx_text X (VSphere (VsPowerState vm) # found) = Inr st \<and>
    (st = poweredOn \<longleftrightarrow> c = InstancePowerOff) \<and> fst s' = fst s \<and>
    snd (snd s') = VSphere VsTaskWait # VSphere (switching c vm) # VSphere (VsPowerState vm) # found"
proof -
  define f :: "string \<Rightarrow> (unit, vs_handler) vs_op"
    where "f = (if c = InstancePowerOn then vs_PowerOn X else if c = InstancePowerOff then vs_PowerOff X else vs_Delete X)"
  from assms have "on_machine X w f (vh_instanceName (fst s)) s = Ret (Inr (), s')"
    by (auto simp: f_def when_named_def answering_def vs_done_ok split: if_splits)
  then obtain vm t where m: "vs_VirtualMachine X w (vh_instanceName (fst s)) s = Ret (Inr vm, t)" "f vm t = Ret (Inr (), s')"
    by (auto simp: on_machine_def vs_ok)
  from vs_VirtualMachine_ok [OF m(1)] have t: "t = (fst s, fst (snd s), found)" "vx_text X found = Inr vm" by (auto simp: found_def)
  with m(2) assms(2) show ?thesis
    by (auto simp: f_def vs_PowerOn_def vs_PowerOff_def vs_Delete_def vs_PowerState_def vs_task_def vs_ok split: if_splits)
qed

text \<open>A powered machine is not deleted.\<close>

theorem vs_delete_refuses_powered:
  assumes "vs_VirtualMachine X w (vh_instanceName h) (h, t, calls) = Ret (Inr vm, found)" "vh_instanceName h \<noteq> []"
    and "vx_text X (VSphere (VsPowerState vm) # snd (snd found)) = Inr poweredOn"
  shows "vs_handle X cd w InstanceDelete (h, t, calls) =
    Ret (Done (Some (Errorf ''the VM: %s is powered'' [vx_path X vm])), h, t, VSphere (VsPowerState vm) # finding w (vh_instanceName h) @ calls)"
  using assms vs_VirtualMachine_ok [OF assms(1)]
  by (auto simp: when_named_def answering_def on_machine_def vs_bind_def vs_Delete_def vs_PowerState_def vs_ask_def vs_fail_def
      vs_done_def error_of_def)

section \<open>Creations\<close>

lemma wrap_error_ok: "wrap_error what name m s = Ret (Inr a, s') \<longleftrightarrow> m s = Ret (Inr a, s')"
proof (cases "m s")
  case (Ret p)
  then show ?thesis by (cases p; cases "fst p") (auto simp: wrap_error_def vs_result_def vs_fail_def vs_return_def)
qed (simp_all add: wrap_error_def vs_result_def)

text \<open>Half of the entries of the extra configuration are nil.\<close>

definition half_nil :: "(string \<times> string) option list \<Rightarrow> bool" where
  "half_nil extra \<longleftrightarrow> (\<exists>infos. infos \<noteq> [] \<and> extra = replicate (length infos) None @ map Some infos)"

lemma SetGuestInfo_half_nil:
  assumes "SetGuestInfo X cd input vm s = Ret (Inr extra, s')"
  shows "half_nil extra"
proof -
  have n: "infos \<noteq> []" if "BuildGuestInfos cd i u domain decl = Inr infos" for i u domain decl infos
    using that by (auto simp: BuildGuestInfos_def Let_def split: sum.splits)
  from assms obtain i u domain decl calls t where "(case BuildGuestInfos cd i u domain decl of
      Inl e \<Rightarrow> vs_fail e t
    | Inr infos \<Rightarrow> vs_return (replicate (length infos) None @
        map (\<lambda>(k, v). Some (Sprintf ''guestinfo.%s'' [k], v)) (reorder (vx_order X calls) infos)) t) = Ret (Inr extra, s')"
    by (cases s) (auto simp: SetGuestInfo_def vs_bind_def vs_vm_UUID_def Let_def simp del: Sprintf.simps)
  then obtain infos where b: "BuildGuestInfos cd i u domain decl = Inr infos"
    and e: "extra = replicate (length infos) None @ map (\<lambda>(k, v). Some (Sprintf ''guestinfo.%s'' [k], v)) (reorder (vx_order X calls) infos)"
    by (cases "BuildGuestInfos cd i u domain decl") (auto simp: vs_fail_def vs_return_def simp del: Sprintf.simps)
  let ?l = "map (\<lambda>(k, v). (Sprintf ''guestinfo.%s'' [k], v)) (reorder (vx_order X calls) infos)"
  have "map (\<lambda>(k, v). Some (Sprintf ''guestinfo.%s'' [k], v)) (reorder (vx_order X calls) infos) = map Some ?l"
    by (simp add: comp_def case_prod_unfold)
  moreover have "?l \<noteq> []" "length ?l = length infos"
    using n [OF b] length_reorder [of "vx_order X calls" infos] by (auto simp del: length_reorder)
  ultimately show ?thesis unfolding half_nil_def e by metis
qed

text \<open>What the last change of a new machine asks for.\<close>

definition configured :: "vs_wrapper \<Rightarrow> instance_input \<Rightarrow> config_spec \<Rightarrow> bool" where
  "configured w input spec \<longleftrightarrow> sp_NumCPUs spec = wrap32 (in_Vcpu input) \<and> sp_MemoryMB spec = in_Memory input \<and>
     sp_Annotation spec = vw_Annotation w \<and> half_nil (sp_ExtraConfig spec)"

lemma no_clone_ok:
  "after no_clone s m \<Longrightarrow> m = Ret (a, s') \<Longrightarrow> \<exists>later. snd (snd s') = later @ snd (snd s) \<and> (\<forall>c \<in> set later. \<not> clone_call c)"
  by (simp add: after_def no_clone_def del: clone_call_def)

lemma vs_Configure_ok:
  assumes "vs_Configure X cd w input vm s = Ret (Inr u, s')"
  shows "\<exists>spec mid. configured w input spec \<and> (\<forall>c \<in> set mid. \<not> clone_call c) \<and>
    snd (snd s') = VSphere VsTaskWait # VSphere (VsReconfigure vm spec) # mid @ snd (snd s)"
proof -
  from assms obtain u1 t1 uuid t2 t3 devices t4 t5 extra t6 where c: "vs_object X vm s = Ret (Inr u1, t1)"
    "vs_vm_UUID X vm t1 = Ret (Inr uuid, t2)" "configureHardDrive X vm (in_DiskSize input) t2 = Ret (Inr (), t3)"
    "vs_configureNetwork X vm [] t3 = Ret (Inr devices, t4)" "t5 = t4" "SetGuestInfo X cd input vm t5 = Ret (Inr extra, t6)"
    and r: "vs_task X (VsReconfigure vm \<lparr>sp_NumCPUs = wrap32 (in_Vcpu input), sp_MemoryMB = in_Memory input,
      sp_Annotation = vw_Annotation w, sp_Uuid = uuid, sp_Added = devices, sp_ExtraConfig = extra\<rparr>) t6 = Ret (Inr u, s')"
    by (auto simp: vs_Configure_def vs_ok wrap_error_ok Let_def split: option.splits)
  have "no_clone s t1" "no_clone t1 t2" "no_clone t2 t3" "no_clone t3 t4" "no_clone t5 t6"
    using no_clone.after_object [of s X vm] no_clone.after_basic(5) [of t1 X vm] no_clone.after_machine(16) [of t2 X vm "in_DiskSize input"]
      no_clone.after_configureNetwork [of t3 X vm "[]"] no_clone.after_SetGuestInfo [of t5 X cd input vm] c
    by (simp_all add: after_def)
  with c(5) have "no_clone s t6" using no_clone_trans by blast
  then obtain mid where "snd (snd t6) = mid @ snd (snd s)" "\<forall>c \<in> set mid. \<not> clone_call c"
    unfolding no_clone_def by blast
  with r SetGuestInfo_half_nil [OF c(6)] show ?thesis
    by (auto simp: vs_task_def vs_ok configured_def intro!: exI [of _ mid])
qed

text \<open>The template that is cloned is the one found under the name that the configuration gives.\<close>

lemma CreateVirtualMachine_ok:
  assumes "CreateVirtualMachine X w s = Ret (Inr vm, s')"
  shows "\<exists>template request between. cr_Template request = vw_Template w \<and> cr_Linked request = vw_LinkedClone w \<and>
    vx_text X (VSphere (VsFindVM (vw_TemplateName w)) # snd (snd s)) = Inr template \<and>
    snd (snd s') = VSphere VsCloneResult # VSphere (VsClone template (vh_instanceName (fst s)) request) #
      between @ VSphere (VsFindVM (vw_TemplateName w)) # snd (snd s) \<and>
    (\<forall>c \<in> set between. \<not> clone_call c) \<and> vx_text X (snd (snd s')) = Inr vm"
proof -
  let ?req = "\<lambda>folder pool edits custom. \<lparr>cr_Folder = folder, cr_Pool = pool, cr_Template = vw_Template w,
       cr_Linked = vw_LinkedClone w, cr_Cards = edits, cr_Customization = custom\<rparr>"
  from assms obtain template t1 folder t2 pool t3 devices t4 edits t5 custom t6 u where
    f: "vs_ask (vx_text X) (VsFindVM (vw_TemplateName w)) s = Ret (Inr template, t1)"
    and c: "vs_vmFolder X (vw_VMBasePath w) t1 = Ret (Inr folder, t2)"
    "vs_ask (vx_text X) (VsResourcePool (vw_Resource w)) t2 = Ret (Inr pool, t3)"
    "vs_ask (vx_devices X) (VsDevices template) t3 = Ret (Inr devices, t4)"
    "vs_with_interfaces (\<lambda>nifs. clone_cards X nifs (ethernet_cards devices)) t4 = Ret (Inr edits, t5)"
    "vs_customization X (vw_Customization w) t5 = Ret (Inr custom, t6)"
    and r: "vs_do X (VsClone template (vh_instanceName (fst s)) (?req folder pool edits custom)) t6 = Ret (Inr (), u)"
    "vs_ask (vx_text X) VsCloneResult u = Ret (Inr vm, s')"
    by (auto simp: CreateVirtualMachine_def vs_bind_ok Let_def)
  have "after no_clone t1 (vs_vmFolder X (vw_VMBasePath w) t1)" "after no_clone t2 (vs_ask (vx_text X) (VsResourcePool (vw_Resource w)) t2)"
    "after no_clone t3 (vs_ask (vx_devices X) (VsDevices template) t3)"
    "after no_clone t4 (vs_with_interfaces (\<lambda>nifs. clone_cards X nifs (ethernet_cards devices)) t4)"
    "after no_clone t5 (vs_customization X (vw_Customization w) t5)"
    by (rule no_clone.after_machine no_clone.after_basic no_clone.after_with_interfaces no_clone.after_clone_cards | simp)+
  with c have "no_clone t1 t2" "no_clone t2 t3" "no_clone t3 t4" "no_clone t4 t5" "no_clone t5 t6" by (simp_all add: after_def)
  then have "no_clone t1 t6" using no_clone_trans by blast
  then obtain between where b: "snd (snd t6) = between @ snd (snd t1)" "\<forall>c \<in> set between. \<not> clone_call c"
    unfolding no_clone_def by blast
  with f r show ?thesis
    by (intro exI [of _ template] exI [of _ "?req folder pool edits custom"] exI [of _ between]) (simp add: vs_ask_ok vs_do_ok del: clone_call_def)
qed

lemma vs_Create_ok:
  assumes "vs_Create X cd w input s = Ret (Inr vm, s')"
  obtains d z where "vs_datastore X w s = Ret (Inr (), d)" "CreateVirtualMachine X w d = Ret (Inr vm, z)"
    "vs_Configure X cd w input vm z = Ret (Inr (), s')"
proof -
  from assms obtain vm' d z where d: "vs_datastore X w s = Ret (Inr (), d)" "CreateVirtualMachine X w d = Ret (Inr vm', z)"
    and r: "vs_result (vs_Configure X cd w input vm') (\<lambda>r. case r of Inr u \<Rightarrow> vs_return vm'
      | Inl e \<Rightarrow> vs_result (vs_Delete X vm') (\<lambda>deleted. vs_fail e)) z = Ret (Inr vm, s')"
    by (auto simp: vs_Create_def vs_bind_ok)
  from r obtain y z2 where y: "vs_Configure X cd w input vm' z = Ret (y, z2)"
    "(case y of Inr u \<Rightarrow> vs_return vm' | Inl e \<Rightarrow> vs_result (vs_Delete X vm') (\<lambda>deleted. vs_fail e)) z2 = Ret (Inr vm, s')"
    by (auto simp: vs_result_def)
  show ?thesis
  proof (cases y)
    case (Inl e)
    with y(2) show ?thesis by (auto simp: vs_result_def vs_simple_ok)
  next
    case (Inr u)
    with y d that show ?thesis by (auto simp: vs_simple_ok)
  qed
qed

text \<open>
  A creation that succeeds has cloned the template once under the name of the handler, has then changed
  the clone to the size asked for, and has asked for its identifier, which the handler keeps.
\<close>


text \<open>A clone that cannot be configured is deleted; the creation reports the error of the configuration, whatever the deletion does.\<close>

lemma vs_failed_configuration:
  assumes "vs_datastore X w s = Ret (Inr (), d)" "CreateVirtualMachine X w d = Ret (Inr vm, z)"
    and "vs_Configure X cd w input vm z = Ret (Inl e, t)" "vs_Delete X vm t = Ret (r, s')"
  shows "vs_handle X cd w (InstanceCreate input) s = Ret (Text [] (Some e), s')"
  using assms by (simp add: vs_InstanceCreate_def answering_def vs_bind_def vs_Create_def vs_result_def vs_fail_def vs_text_def)

section \<open>Cards\<close>

lemma vs_mac_existing: "vs_mac X nif s = ((mac, nif'), s') \<Longrightarrow> Existing nif' = Existing nif \<and> Enabled nif' = Enabled nif"
  by (cases s) (auto simp: vs_mac_def Interface_GetMacAddress_def Let_def case_prod_unfold split: if_splits)

lemma matched_card_ok:
  assumes "matched_card X nif backing ether s = Ret ((edits, nif'), s')"
  shows "Existing nif' = Existing nif \<and> Enabled nif' = Enabled nif \<and> length edits \<le> 1"
proof -
  obtain m1 n1 t1 where v1: "vs_mac X nif s = ((m1, n1), t1)" by (metis prod.exhaust)
  obtain m2 n2 t2 where v2: "vs_mac X n1 t1 = ((m2, n2), t2)" by (metis prod.exhaust)
  from assms v1 v2 vs_mac_existing [OF v1] vs_mac_existing [OF v2] show ?thesis
    by (auto simp: matched_card_def split: if_splits)
qed

lemma ConfigureEthernetCard_ok:
  assumes "ConfigureEthernetCard X nif known ether s = Ret ((r, nif'), s')"
  shows "Existing nif' = Existing nif \<and> Enabled nif' = Enabled nif"
proof -
  have step: "(case x of
         Inl e \<Rightarrow> Ret ((Inl e, nif), t)
       | Inr ref \<Rightarrow>
           let ((mac, nif), s) = vs_mac X nif t;
               ether = (if nr_Switch ref then ether
                       else ether\<lparr>ec_Backing := NetworkBacking (NetworkName nif) (Some (nr_Type ref, nr_Value ref))\<rparr>)
           in Ret ((Inr (with_mac mac ether), nif), s)) = Ret ((r, nif'), s') \<Longrightarrow> Existing nif' = Existing nif \<and> Enabled nif' = Enabled nif"
    for x t
  proof (cases x)
    case (Inr ref)
    obtain m n u where v: "vs_mac X nif t = ((m, n), u)" by (metis prod.exhaust)
    assume "(case x of
         Inl e \<Rightarrow> Ret ((Inl e, nif), t)
       | Inr ref \<Rightarrow>
           let ((mac, nif), s) = vs_mac X nif t;
               ether = (if nr_Switch ref then ether
                       else ether\<lparr>ec_Backing := NetworkBacking (NetworkName nif) (Some (nr_Type ref, nr_Value ref))\<rparr>)
           in Ret ((Inr (with_mac mac ether), nif), s)) = Ret ((r, nif'), s')"
    with Inr v vs_mac_existing [OF v] show ?thesis by (simp add: Let_def)
  qed simp
  from assms show ?thesis
    unfolding ConfigureEthernetCard_def gbind_eq_Ret split_paired_Ex prod.case by (elim exE conjE) (rule step)
qed

lemma single_edit: "map_sum id (\<lambda>c. [c]) a = Inr edits \<Longrightarrow> length edits = 1"
  by (cases a) auto

text \<open>The interfaces beyond the cards of the template are to be created; the enabled ones before are not.\<close>

lemma clone_cards_ok:
  assumes "clone_cards X nifs cards s = Ret ((Inr edits, nifs'), s')"
  shows "length nifs' = length nifs \<and>
    length (filter CreateIt nifs') = length (filter IsEnabled (drop (length cards) nifs)) \<and>
    length edits \<le> length (filter IsEnabled (take (length cards) nifs))"
  using assms
proof (induction nifs arbitrary: cards s edits nifs' s')
  case (Cons nif nifs)
  show ?case
  proof (cases cards)
    case Nil
    with Cons.prems obtain rest where r: "clone_cards X nifs [] s = Ret ((Inr edits, rest), s')"
      "nifs' = nif\<lparr>Existing := Some False\<rparr> # rest" by auto
    from Cons.IH [OF r(1)] r(2) Nil show ?thesis by (auto simp: CreateIt_def IsExisting_def IsEnabled_def)
  next
    case (Cons ether more)
    show ?thesis
    proof (cases "IsEnabled nif")
      case False
      with Cons.prems Cons obtain rest where r: "clone_cards X nifs more s = Ret ((Inr edits, rest), s')" "nifs' = nif # rest"
        by auto
      from Cons.IH [OF r(1)] r(2) Cons False show ?thesis by (auto simp: CreateIt_def)
    next
      case True
      with Cons.prems Cons obtain matching backing ref t where m: "(case matching of Inl e \<Rightarrow> Ret ((Inl e, nif # nifs), t)
          | Inr same \<Rightarrow> gbind (if same then gbind (matched_card X (nif\<lparr>Existing := None\<rparr>) backing ether t) (\<lambda>((edits, nif), s). Ret ((Inr edits, nif), s))
                      else gbind (ConfigureEthernetCard X (nif\<lparr>Existing := None\<rparr>) ref ether t)
                        (\<lambda>((r, nif), s). Ret ((map_sum id (\<lambda>c. [c]) r, nif), s)))
                 (\<lambda>((r, nif), s).
                    case r of
                      Inl e \<Rightarrow> Ret ((Inl e, nif # nifs), s)
                    | Inr edits \<Rightarrow> gbind (clone_cards X nifs more s) (\<lambda>((r, nifs), s).
                        Ret ((map_sum id (\<lambda>rest. edits @ rest) r, nif # nifs), s)))) = Ret ((Inr edits, nifs'), s')"
        by (simp only: clone_cards.simps Let_def gbind_eq_Ret split_paired_Ex prod.case not_True_eq_False if_False) (elim exE conjE, rule that)
      then obtain same where "matching = Inr same" by (cases matching) auto
      with m obtain r1 nif1 t1 where g: "(if same then gbind (matched_card X (nif\<lparr>Existing := None\<rparr>) backing ether t)
          (\<lambda>((edits, nif), s). Ret ((Inr edits, nif), s)) else gbind (ConfigureEthernetCard X (nif\<lparr>Existing := None\<rparr>) ref ether t)
          (\<lambda>((r, nif), s). Ret ((map_sum id (\<lambda>c. [c]) r, nif), s))) = Ret ((r1, nif1), t1)"
        and n: "(case r1 of Inl e \<Rightarrow> Ret ((Inl e, nif1 # nifs), t1)
          | Inr edits \<Rightarrow> gbind (clone_cards X nifs more t1) (\<lambda>((r, nifs), s).
              Ret ((map_sum id (\<lambda>rest. edits @ rest) r, nif1 # nifs), s))) = Ret ((Inr edits, nifs'), s')"
        by auto
      then obtain edits1 where r1: "r1 = Inr edits1" by (cases r1) auto
      with n obtain x rest where c: "clone_cards X nifs more t1 = Ret ((x, rest), s')"
        "map_sum id (\<lambda>rest. edits1 @ rest) x = Inr edits" "nifs' = nif1 # rest" by auto
      then obtain edits2 where e: "x = Inr edits2" "edits = edits1 @ edits2" by (cases x) auto
      from g r1 have f: "Existing nif1 = None" "Enabled nif1 = Enabled nif" "length edits1 \<le> 1"
        by (auto split: if_splits sum.splits dest!: matched_card_ok ConfigureEthernetCard_ok single_edit)
      from Cons.IH [OF c(1) [unfolded e(1)]] c(3) e(2) f Cons True show ?thesis
        by (auto simp: CreateIt_def IsExisting_def IsEnabled_def)
    qed
  qed
qed simp

lemma new_devices_ok:
  assumes "new_devices X nifs s = Ret ((Inr added, nifs'), s')"
  shows "length added = length (filter CreateIt nifs)"
  using assms
proof (induction nifs arbitrary: s added nifs' s')
  case (Cons nif nifs)
  show ?case
  proof (cases "CreateIt nif")
    case False
    with Cons.prems obtain rest where "new_devices X nifs s = Ret ((Inr added, rest), s')" by auto
    from Cons.IH [OF this] False show ?thesis by simp
  next
    case True
    with Cons.prems obtain r n t where m: "(case r of Inl e \<Rightarrow> Ret ((Inl e, n # nifs), t)
      | Inr device \<Rightarrow> gbind (new_devices X nifs t) (\<lambda>((r, nifs), s). Ret ((map_sum id (\<lambda>rest. device # rest) r, n # nifs), s))) =
      Ret ((Inr added, nifs'), s')" by auto
    then obtain device where "r = Inr device" by (cases r) auto
    with m obtain x rest where c: "new_devices X nifs t = Ret ((x, rest), s')" "map_sum id (\<lambda>rest. device # rest) x = Inr added" by auto
    then obtain added' where "x = Inr added'" "added = device # added'" by (cases x) auto
    with Cons.IH [OF c(1) [unfolded this(1)]] True show ?thesis by simp
  qed
qed simp

text \<open>
  A template whose cards are not more than the interfaces: the clone gets a new card for each enabled
  interface that the template has none for, and for no other.
\<close>

theorem vs_cards_complete:
  assumes "clone_cards X nifs cards s = Ret ((Inr edits, nifs'), t)" "new_devices X nifs' t' = Ret ((Inr added, nifs''), u)"
    and "length cards \<le> length nifs"
  shows "length added = length (filter IsEnabled (drop (length cards) nifs)) \<and> length edits \<le> length (filter IsEnabled (take (length cards) nifs))"
  using clone_cards_ok [OF assms(1)] new_devices_ok [OF assms(2)] by simp

section \<open>The disk\<close>

text \<open>The disk of a machine is only changed to a greater size.\<close>

theorem disk_never_shrinks:
  assumes "configureHardDrive X vm diskSize s = Ret (r, s')"
  shows "\<exists>later. snd (snd s') = later @ snd (snd s) \<and> (\<forall>n. VSphere (VsEditDisk vm n) \<in> set later \<longrightarrow>
    (\<exists>devices capacity. vx_devices X (VSphere (VsDevices vm) # snd (snd s)) = Inr devices \<and> findHardDrive devices = Inr capacity \<and>
      capacity < n \<and> n = wrap64 (diskSize * 1024)))"
proof -
  obtain h t calls where s: "s = (h, t, calls)" by (metis prod.exhaust)
  let ?c = "VSphere (VsDevices vm) # calls"
  show ?thesis
  proof (cases "diskSize \<le> 0")
    case True
    with assms show ?thesis by (auto simp: configureHardDrive_def vs_return_def)
  next
    case False
    show ?thesis
    proof (cases "vx_devices X ?c")
      case (Inl e)
      with assms False s show ?thesis by (auto simp: configureHardDrive_def vs_bind_def vs_ask_def)
    next
      case (Inr devices)
      then show ?thesis
        using assms False s
        by (cases "findHardDrive devices")
          (auto simp: configureHardDrive_def vs_bind_def vs_ask_def vs_fail_def vs_return_def vs_task_def vs_do_def Let_def
            split: if_splits option.splits)
    qed
  qed
qed

section \<open>Other properties\<close>

lemma NextStartOrder_fold:
  "(\<forall>order \<in> set orders. - (2 ^ 31) \<le> order \<and> order < 2 ^ 31) \<Longrightarrow> - (2 ^ 31) \<le> k \<Longrightarrow> k < 2 ^ 31 \<Longrightarrow>
   fold (\<lambda>order result. if order > wrap32 result then order else result) orders k = Max (insert k (set orders))"
proof (induction orders arbitrary: k)
  case (Cons order orders)
  have "wrap32 k = k" using Cons.prems by (intro wrap32_small) simp_all
  then have "fold (\<lambda>order result. if order > wrap32 result then order else result) (order # orders) k =
      Max (insert (max k order) (set orders))"
    using Cons.prems Cons.IH [of "max k order"] by (auto simp: max_def)
  also have "\<dots> = Max (insert k (set (order # orders)))"
    by (simp add: max.assoc max.left_commute del: Max_insert add: insert_commute)
      (cases "orders = []"; simp add: max.assoc)
  finally show ?case .
qed simp

text \<open>A machine starts with its host after every machine that already does.\<close>

theorem NextStartOrder_is_next:
  assumes "\<forall>order \<in> set orders. - (2 ^ 31) \<le> order \<and> order < 2 ^ 31"
  shows "NextStartOrder orders = Max (insert 0 (set orders)) + 1"
  using NextStartOrder_fold [OF assms, of 0] by (simp add: NextStartOrder_def)

text \<open>A power state that is not a plain string panics: the wait asserts the type string.\<close>

lemma typed_power_state_panics:
  assumes "vx_text X (VSphere (VsPowerState vm) # calls) = Inr poweredOff"
    and "vx_changes X (VSphere (VsPropertyWait vm ''runtime.powerState'') # VSphere (VsPowerState vm) # calls) =
      ([\<lparr>pc_Name = ''runtime.powerState'', pc_Assign = True, pc_Val = Some PropOther\<rparr>] # batches, e)"
  shows "vs_WaitForPowered X vm (h, t, calls) = Panic BadTypeAssertion"
  using assms by (simp add: vs_WaitForPowered_def vs_result_def vs_PowerState_def vs_ask_def property_Wait_def)

text \<open>A power state that cannot be read counts as powered.\<close>

lemma unknown_state_is_powered:
  assumes "vx_text X (VSphere (VsPowerState vm) # calls) = Inl e"
  shows "vs_WaitForPowered X vm (h, t, calls) = Ret (Inr (), h, t, VSphere (VsPowerState vm) # calls)"
  using assms by (simp add: vs_WaitForPowered_def vs_result_def vs_PowerState_def vs_ask_def vs_return_def)

section \<open>An inventory on which the properties apply\<close>

text \<open>A machine that is off, with one card and one disk.\<close>

definition sample_card :: ethernet_card where
  "sample_card = \<lparr>ec_Backing = NetworkBacking ''net0'' None, ec_AddressType = [], ec_MacAddress = ''00:01''\<rparr>"

definition sample_vs_env :: vs_env where
  "sample_vs_env = \<lparr>vx_remote = sample_remote_env, vx_path = \<lambda>vm. vm,
     vx_text = \<lambda>calls. Inr (case calls of VSphere (VsPowerState vm) # before \<Rightarrow> poweredOff | _ \<Rightarrow> ''vm1''), vx_bool = \<lambda>_. Inr True,
     vx_devices = \<lambda>_. Inr [EthernetCard sample_card, VirtualDisk 1024],
     vx_network = \<lambda>_. Inr \<lparr>nr_Type = ''Network'', nr_Value = ''n'', nr_Switch = False\<rparr>,
     vx_backing = \<lambda>_. Inr (NetworkBacking ''net0'' None), vx_extra = \<lambda>_. Inr None, vx_guest = \<lambda>_. Inr None,
     vx_changes = \<lambda>_. ([], Plain ''timeout''), vx_folders = \<lambda>_. Inr [], vx_manager = \<lambda>_. Inr (Some ()), vx_orders = \<lambda>_. Inr [3, 1],
     vx_order = \<lambda>_ _. [], vx_card_error = \<lambda>_ _. None, vx_spec_error = \<lambda>_. None\<rparr>"

definition powered_vs_env :: vs_env where
  "powered_vs_env = sample_vs_env\<lparr>vx_text := \<lambda>calls. Inr (case calls of VSphere (VsPowerState vm) # before \<Rightarrow> poweredOn | _ \<Rightarrow> ''vm1'')\<rparr>"

definition sample_vs :: vs_wrapper where
  "sample_vs = \<lparr>vw_DataCenter = ''dc'', vw_DataStore = ''ds'', vw_Resource = ''pool'', vw_VMBasePath = [], vw_Timeout = 300,
     vw_Annotation = ''note'', vw_TemplateName = ''template'', vw_Template = False, vw_LinkedClone = True, vw_Customization = [],
     vw_Network = sample_network, vw_Region = ''home'', vw_Zone = ''office'', vw_StartDelay = 0, vw_StopDelay = 0,
     vw_bind9Provider = None, vw_testMode = False\<rparr>"

definition new_vs_handler :: vs_handler where
  "new_vs_handler = \<lparr>vh_network = sample_network\<lparr>Interfaces := []\<rparr>, vh_instanceName = ''n1'', vh_instanceType = ''t'', vh_instanceID = [],
     vh_controlPlane = False, vh_nodeIndex = 1\<rparr>"

lemma sample_disk_size: "wrap64 10485760 = 10485760"
  by (simp add: wrap64_def)

lemmas sample_vsphere = sample_vs_env_def powered_vs_env_def sample_vs_def new_vs_handler_def sample_remote_env_def sample_disk_size

theorem vs_switch_success_witness:
  "\<exists>s'. vs_handle sample_vs_env sample_documents sample_vs InstancePowerOn (new_vs_handler, gmake, []) = Ret (Done None, s') \<and>
     VSphere (VsPowerOn ''vm1'') \<in> set (snd (snd s'))"
proof -
  obtain s' where r: "vs_handle sample_vs_env sample_documents sample_vs InstancePowerOn (new_vs_handler, gmake, []) = Ret (Done None, s')"
    by (simp add: when_named_def answering_def on_machine_def vs_VirtualMachine_def vs_datastore_def vs_datacenter_def vs_bind_def vs_do_def
        vs_ask_def vs_PowerOn_def vs_PowerState_def vs_task_def vs_done_def Let_def poweredOn_def poweredOff_def error_of_def sample_vsphere)
  from vs_switch_success [OF r] r show ?thesis
    by (cases s') (auto simp: finding_def sample_vs_env_def)
qed

theorem vs_delete_refuses_powered_witness:
  "\<exists>calls. vs_handle powered_vs_env sample_documents sample_vs InstanceDelete (new_vs_handler, gmake, []) =
     Ret (Done (Some (Errorf ''the VM: %s is powered'' [''vm1''])), new_vs_handler, gmake, calls)"
proof -
  have "vs_VirtualMachine powered_vs_env sample_vs (vh_instanceName new_vs_handler) (new_vs_handler, gmake, []) =
      Ret (Inr ''vm1'', new_vs_handler, gmake, finding sample_vs (vh_instanceName new_vs_handler))"
    by (simp add: vs_VirtualMachine_def vs_datastore_def vs_datacenter_def vs_bind_def vs_do_def vs_ask_def Let_def finding_def
        sample_vsphere)
  from vs_delete_refuses_powered [OF this] show ?thesis by (simp add: sample_vsphere)
qed


theorem vs_cards_complete_witness:
  "\<exists>edits nifs' t added nifs'' u. clone_cards sample_vs_env [sample_interface, sample_interface] [sample_card] (new_vs_handler, gmake, []) =
     Ret ((Inr edits, nifs'), t) \<and> new_devices sample_vs_env nifs' t = Ret ((Inr added, nifs''), u) \<and> length added = 1"
proof -
  obtain edits nifs' t added nifs'' u
    where r: "clone_cards sample_vs_env [sample_interface, sample_interface] [sample_card] (new_vs_handler, gmake, []) =
      Ret ((Inr edits, nifs'), t)" "new_devices sample_vs_env nifs' t = Ret ((Inr added, nifs''), u)"
    by (simp add: MatchInterface_def matched_card_def new_device_def vs_ask_def vs_mac_def Interface_GetMacAddress_def CreateIt_def
        IsExisting_def IsEnabled_def Usable_def Let_def sample_card_def sample_interface_def ToLower_def generateMacAddress_def
        sample_vsphere)
  from vs_cards_complete [OF r] have "length added = 1" by (simp add: sample_interface_def IsEnabled_def)
  with r show ?thesis by blast
qed

theorem disk_never_shrinks_witness:
  "\<exists>s'. configureHardDrive sample_vs_env ''vm1'' 10240 (new_vs_handler, gmake, []) = Ret (Inr (), s') \<and>
     (\<forall>n. VSphere (VsEditDisk ''vm1'' n) \<in> set (snd (snd s')) \<longrightarrow> 1024 < n)"
proof -
  obtain s' where r: "configureHardDrive sample_vs_env ''vm1'' 10240 (new_vs_handler, gmake, []) = Ret (Inr (), s')"
    by (simp add: configureHardDrive_def vs_bind_def vs_ask_def vs_task_def vs_do_def vs_return_def Let_def sample_vsphere)
  from disk_never_shrinks [OF r] r show ?thesis by (auto simp: sample_vs_env_def)
qed

theorem NextStartOrder_is_next_witness: "NextStartOrder [3, 1] = 4"
  using NextStartOrder_is_next [of "[3, 1]"] by simp

end
