(* ===== verification/Endings.thy ===== *)
theory Endings
  imports Vsphere_Facts
begin

text \<open>
  Every method of a handler that the server calls ends. The only loops of the providers are polls; one with a timeout that is
  not zero makes finitely many attempts, so nothing waits for ever once the timeout of the
  configuration, in seconds, does not vanish as a duration.
\<close>

section \<open>Computations that end\<close>

definition ends :: "'a go \<Rightarrow> bool" where
  "ends m \<longleftrightarrow> m \<noteq> Diverge"

named_theorems ending

lemma ends_values [simp]: "ends (Ret a)" "ends (Panic p)" "\<not> ends Diverge"
  by (simp_all add: ends_def)

lemma ends_gbind [ending]: "ends m \<Longrightarrow> (\<And>a. ends (f a)) \<Longrightarrow> ends (gbind m f)"
  by (cases m) simp_all

lemma ends_gfold [ending]: "(\<And>x s. ends (f x s)) \<Longrightarrow> ends (gfold f xs s)"
  by (induction xs arbitrary: s) (auto intro!: ending)

lemma ends_gput [ending]: "ends (gput k v m)"
  by (simp add: gput_def split: option.split)

lemma ends_pair [ending]: "(\<And>a b. ends (f a b)) \<Longrightarrow> ends (case p of (a, b) \<Rightarrow> f a b)"
  by (cases p) simp

lemma ends_pair_app [ending]: "(\<And>a b. ends (f a b s)) \<Longrightarrow> ends ((case p of (a, b) \<Rightarrow> f a b) s)"
  by (cases p) simp

lemma ends_sum [ending]: "(\<And>a. ends (f a)) \<Longrightarrow> (\<And>b. ends (g b)) \<Longrightarrow> ends (case x of Inl a \<Rightarrow> f a | Inr b \<Rightarrow> g b)"
  by (cases x) simp_all

lemma ends_option [ending]: "ends m \<Longrightarrow> (\<And>a. ends (f a)) \<Longrightarrow> ends (case x of None \<Rightarrow> m | Some a \<Rightarrow> f a)"
  by (cases x) simp_all

lemma ends_list [ending]: "ends m \<Longrightarrow> (\<And>a as. ends (f a as)) \<Longrightarrow> ends (case xs of [] \<Rightarrow> m | a # as \<Rightarrow> f a as)"
  by (cases xs) simp_all

lemma ends_if [ending]: "ends a \<Longrightarrow> ends b \<Longrightarrow> ends (if c then a else b)"
  by simp

lemma ends_let [ending]: "(\<And>x. ends (f x)) \<Longrightarrow> ends (let x = t in f x)"
  by simp

lemma gpoll_ends:
  assumes "\<And>s. ends (cond s)" "\<not> forever"
  shows "ends (gpoll k forever timeout_err cond s)"
  using assms by (induction k arbitrary: s) (auto intro!: ending)

lemma remote_poll_ends [ending]: "timeout \<noteq> 0 \<Longrightarrow> (\<And>s. ends (cond s)) \<Longrightarrow> ends (remote_PollImmediate E timeout cond s)"
  unfolding remote_PollImmediate_def by (intro ends_pair ends_let gpoll_ends) simp_all

section \<open>The running instances\<close>

lemma servers_end [ending]:
  "wrap64 (timeout * second) \<noteq> 0 \<Longrightarrow> ends (wait_status E get fails timeout name expected initial s)"
  "(\<And>s. ends (request s)) \<Longrightarrow> (\<And>s. ends (wait s)) \<Longrightarrow> ends (switch_power get powered wanted request wait s)"
  "wrap64 (timeout * second) \<noteq> 0 \<Longrightarrow> ends (wait_for_ip E timeout expect name address s)"
  unfolding wait_status_def switch_power_def wait_for_ip_def ready_ssh_attempt_def
  by (intro ending ends_values | simp)+

lemma server_methods_end [ending]:
  "(\<And>i s. ends (body i s)) \<Longrightarrow> ends (when_running refused body s)"
  "(\<And>s. ends (ident s)) \<Longrightarrow> ends (when_identified refused ident s)"
  "ends m \<Longrightarrow> ends (answering f m)" "ends (running_labels s)" "ends (configure_network managed s)" "ends (update_mac_table s)"
  "(\<And>out s. ends (create out s)) \<Longrightarrow> ends (create_on_instance region zone userData create s)"
  unfolding when_running_def when_identified_def answering_def running_labels_def configure_network_def update_mac_table_def
    create_on_instance_def
  by (intro ending ends_values | simp)+

lemma lxd_handle_ends:
  assumes "wrap64 (lw_Timeout w * second) \<noteq> 0"
  shows "ends (lxd_handle X cd w c s)"
  by (cases c; simp only: lxd_handle.simps)
    (unfold lxd_Create_def lxd_PowerOn_def lxd_PowerOff_def lxd_WaitForIP_def lxd_Delete_def lxd_InstanceExists_def
      lxd_getServerInstance_def lxd_getAddress_def lxd_Status_def lxd_wait_def lxd_request_state_def address_attempt_def,
      (intro ending ends_values assms | simp)+)

lemma cs_handle_ends:
  assumes "wrap64 (cw_Timeout w * second) \<noteq> 0"
  shows "ends (cs_handle X cd w c s)"
  by (cases c; simp only: cs_handle.simps)
    (unfold cs_Create_def cs_PowerOn_def cs_PowerOff_def cs_WaitForIP_def cs_wait_def cs_start_def,
      (intro ending ends_values assms | simp)+)

lemma os_handle_ends:
  assumes "wrap64 (ow_Timeout w * second) \<noteq> 0"
  shows "ends (os_handle X cd w c s)"
  by (cases c; simp only: os_handle.simps)
    (unfold os_Create_def os_PowerOn_def os_PowerOff_def os_WaitForIP_def os_wait_def os_WaitForPowered_def os_InstanceExists_def
      os_getServerByName_def os_getAddress_def os_Status_def os_address_and_floating_def,
      (intro ending ends_values assms | simp)+)

section \<open>The machines of the desktop and multipass providers\<close>

lemma ends_ci [ending]:
  "(\<And>xs. ends (f xs)) \<Longrightarrow> ends (case v of CList xs \<Rightarrow> f xs | _ \<Rightarrow> Panic p)"
  by (cases v) simp_all

lemma addresses_end [ending]: "ends (ToCIDR address netmask)" "ends (assign_field cond f eth)"
  unfolding ToCIDR_def assign_field_def
  by (intro ending ends_values | simp)+

lemma ends_network [ending]: "ends (GetCloudInitNetwork_loop rnd mac dns ns s)"
  by (induction ns arbitrary: s)
    (simp, unfold GetCloudInitNetwork_loop.simps cloud_init_ethernet_def ethernet_base_def, (intro ending ends_values | assumption | simp)+)

lemma documents_end [ending]: "ends (BuildUserData cd i netplan)" "ends (GetCloudInitNetwork rnd mac net t)"
  unfolding BuildUserData_def AddRunCommand_def AddObjectToWriteFile_def AddToWriteFile_def GetCloudInitNetwork_def
  by (intro ending ends_values | simp)+

lemma host_shell_ends [ending]: "ends (host_shell E args s)"
  unfolding host_shell_def shell_attempt_def
  by (intro ending ends_values gpoll_ends | simp)+

lemma multipass_parts_end [ending]:
  "ends (host_create E cd w pointer input s)" "ends (remote_create E cd w input s)" "ends (wrapper_status E w name t)"
  unfolding host_create_def remote_create_def writeCloudFile_def host_user_data_def wrapper_status_def host_status_def remote_status_def
    by_backend_def
  by (cases "mw_Backend w"; (intro ending ends_values | simp)+)+

lemma multipass_waitForIP_ends [ending]:
  assumes "wrap64 (timeout * second) \<noteq> 0" "\<And>name s. ends (status name s)"
  shows "ends (multipass_waitForIP E timeout status name s)"
  unfolding multipass_waitForIP_def ip_attempt_def Let_def
  by (intro ending ends_values gpoll_ends assms)+

lemma multipass_commands_end [ending]:
  "ends (host_powerOn E name t)" "ends (host_powerOff E name t)" "ends (host_delete E name t)" "ends (host_InstanceExists E name t)"
  "ends (remote_powerOn E name t)" "ends (remote_powerOff E name t)" "ends (remote_delete E name t)" "ends (remote_InstanceExists E name t)"
  unfolding host_powerOn_def remote_powerOn_def host_powerOff_def remote_powerOff_def host_delete_def remote_delete_def
    host_InstanceExists_def remote_InstanceExists_def host_command_def
  by (intro ending ends_values)+

lemma by_backend_ends [ending]:
  "ends host \<Longrightarrow> ends remote \<Longrightarrow> ends (by_backend w host remote)"
  "ends (f name t) \<Longrightarrow> ends (g name t) \<Longrightarrow> ends (by_backend w f g name t)"
  by (cases "mw_Backend w"; simp add: by_backend_def)+

lemma answers_ends [ending]: "ends m \<Longrightarrow> ends (answers f m)"
  unfolding answers_def by (intro ending ends_values)

lemma multipass_handle_ends:
  assumes "wrap64 (mw_Timeout w * second) \<noteq> 0"
  shows "ends (multipass_handle E cd w pointer c s)"
  by (cases c; simp only: multipass_handle.simps) (intro ending ends_values assms)+

lemma desktop_handle_ends:
  assumes "dw_Timeout w \<noteq> 0" "wrap64 (dw_Timeout w * second) \<noteq> 0"
  shows "ends (desktop_handle E cd w c s)"
  by (cases c; simp only: desktop_handle.simps)
    (unfold when_attached_def returns_def desktop_InstanceWaitReady_def ssh_attempt_def desktop_InstanceStatus_def
      WaitForPowerState_def power_attempt_def desktop_Create_def submit_machine_def cloud_init_network_def,
     (intro ending ends_values assms | simp)+)

section \<open>AWS\<close>

lemma ends_deref [ending]: "(\<And>a. ends (f a)) \<Longrightarrow> ends (deref p f)"
  unfolding deref_def by (intro ending ends_values)

lemma ec2_ends [ending]: "(\<And>a. ends (f a)) \<Longrightarrow> ends (ec2_code i f)"
  "(\<And>i s. ends (body i s)) \<Longrightarrow> ends (when_ec2 refused body s)" "ends m \<Longrightarrow> ends (answering g m)"
  unfolding ec2_code_def when_ec2_def answering_def by (intro ending ends_values | assumption)+

lemma living_instance_ends [ending]: "ends (living_instance is)"
  by (induction "is") (simp, unfold living_instance.simps, (intro ending ends_values | assumption)+)

lemma ec2_found_ends [ending]: "ends (GetEc2Instance X name s)" "ends (aws_Exists X name s)"
  unfolding aws_Exists_def GetEc2Instance_def attach_ec2_def by (intro ending ends_values)+

lemma subnet_ends [ending]: "ends (GetNextSubnetsID eni j)"
  unfolding GetNextSubnetsID_def by (intro ending ends_values)

lemma configured_interfaces_ends [ending]: "ends (configured_interfaces i k enis)"
  by (induction enis arbitrary: k) (simp, unfold configured_interfaces.simps, (intro ending ends_values | assumption)+)

lemma aws_Create_ends [ending]: "ends (aws_Create X i nodeGroup kind userData diskType n desired s)"
  unfolding aws_Create_def buildNetworkInterfaces_def lookup_interface_def desired_interface_def first_eni_def created_ec2_def
  by (intro ending ends_values)

lemma aws_records_end [ending]: "ends (aws_RegisterDNS X name address wait s)" "ends (aws_UnRegisterDNS X name wait s)"
  unfolding aws_RegisterDNS_def aws_UnRegisterDNS_def changeResourceRecordSetsInput_def by (intro ending ends_values)+

lemma aws_WaitForIP_ends: "aws_seconds s \<noteq> 0 \<Longrightarrow> ends (aws_WaitForIP X i s)"
  unfolding aws_WaitForIP_def aws_ip_attempt_def by (intro ending ends_values)

lemma aws_handle_ends:
  assumes "aws_seconds s \<noteq> 0"
  shows "ends (aws_handle X cd c s)"
proof (cases "c = InstanceWaitReady")
  case True
  then show ?thesis using aws_WaitForIP_ends [OF assms]
    by (simp add: when_ec2_def ending split: option.split)
next
  case False
  then show ?thesis
    by (cases c; simp only: aws_handle.simps)
      (unfold aws_InstanceCreate_def aws_InstanceMaxPods_def aws_dns_def aws_Status_def, (intro ending ends_values | simp)+)
qed

section \<open>vSphere\<close>

lemma ends_applied [ending]:
  "ends (f s) \<Longrightarrow> ends (g s) \<Longrightarrow> ends ((if c then f else g) s)"
  "(\<And>e. ends (k e s)) \<Longrightarrow> (\<And>a. ends (l a s)) \<Longrightarrow> ends ((case r of Inl e \<Rightarrow> k e | Inr a \<Rightarrow> l a) s)"
  "ends (m s) \<Longrightarrow> (\<And>a. ends (n a s)) \<Longrightarrow> ends ((case x of None \<Rightarrow> m | Some a \<Rightarrow> n a) s)"
  "(\<And>y. ends (i y s)) \<Longrightarrow> ends ((let y = t in i y) s)"
  by (auto split: sum.split option.split)

lemma ends_backing [ending]:
  "(\<And>d u. ends (f d u)) \<Longrightarrow> (\<And>u k. ends (g u k)) \<Longrightarrow> (\<And>w k. ends (h w k)) \<Longrightarrow> ends m \<Longrightarrow>
   ends (case b of NetworkBacking d u \<Rightarrow> f d u | OpaqueBacking u k \<Rightarrow> g u k | PortBacking w k \<Rightarrow> h w k | OtherBacking \<Rightarrow> m)"
  by (cases b) simp_all

lemma vs_calls_end [ending]:
  "ends (vs_return a s)" "ends (vs_fail e s)" "ends (vs_ask answer c s)" "ends (vs_do X c s)" "ends (vs_vm_UUID X vm s)"
  by (simp_all add: vs_return_def vs_fail_def vs_ask_def vs_do_def vs_vm_UUID_def case_prod_unfold Let_def)

lemma vs_sequences_end [ending]:
  "ends (m s) \<Longrightarrow> (\<And>a t. ends (f a t)) \<Longrightarrow> ends (vs_bind m f s)"
  "ends (m s) \<Longrightarrow> (\<And>r t. ends (g r t)) \<Longrightarrow> ends (vs_result m g s)"
  "(\<And>b. ends (k b s)) \<Longrightarrow> ends (vs_deref p k s)"
  unfolding vs_bind_def vs_result_def vs_deref_def by (intro ending ends_values | assumption)+

lemma vs_search_ends [ending]:
  "ends (vs_object X vm s)" "ends (vs_task X c s)" "ends (vs_VirtualMachine X w name s)" "ends (vs_datastore X w s)"
  "ends (vs_datacenter X w s)" "ends (vs_PowerState X vm s)"
  unfolding vs_object_def vs_task_def vs_VirtualMachine_def vs_datastore_def vs_datacenter_def vs_PowerState_def
  by (intro ending ends_values)+

lemma batch_ends [ending]: "ends (batch_shows name wanted cs)"
  by (induction cs) (auto split: option.split property_value.split)

lemma batches_end [ending]: "ends (wait_batches name wanted e bs)"
  by (induction bs) (auto intro!: ending)

lemma vs_machine_ends [ending]:
  "ends (property_Wait X vm name wanted s)" "ends (isSimulatorRunning X vm s)" "ends (isToolsRunning X vm s)"
  "ends (vs_ListAddresses X vm s)" "ends (configureHardDrive X vm n s)" "ends (vs_Delete X vm s)" "ends (vs_customization X name s)"
  "ends (vs_vmFolder X name s)"
  unfolding property_Wait_def isSimulatorRunning_def isToolsRunning_def vs_ListAddresses_def configureHardDrive_def vs_Delete_def
    vs_customization_def vs_vmFolder_def
  by (intro ending ends_values)+

lemma vs_card_ends [ending]: "ends (MatchInterface X nif ether s)" "ends (matched_card X nif backing ether s)"
  "ends (ConfigureEthernetCard X nif known ether s)" "ends (new_device X nif s)"
  unfolding MatchInterface_def matched_card_def ConfigureEthernetCard_def new_device_def
  by (intro ending ends_values)+

lemma vs_cards_end [ending]: "ends (clone_cards X nifs cards s)"
proof (induction nifs arbitrary: cards s)
  case (Cons nif nifs)
  then show ?case by (cases cards; simp only: clone_cards.simps) (intro ending ends_values Cons.IH)+
qed simp

lemma vs_devices_end [ending]: "ends (new_devices X nifs s)"
proof (induction nifs arbitrary: s)
  case (Cons nif nifs)
  then show ?case by (simp only: new_devices.simps) (intro ending ends_values Cons.IH)
qed simp

lemma vs_create_ends [ending]: "ends (vs_InstanceCreate X cd w input s)"
  unfolding vs_InstanceCreate_def vs_Create_def CreateVirtualMachine_def vs_Configure_def SetGuestInfo_def vs_configureNetwork_def
    vs_with_interfaces_def wrap_error_def
  by (intro ending ends_values)

lemma vs_handle_ends:
  assumes "wrap64 (vw_Timeout w * second) \<noteq> 0"
  shows "ends (vs_handle X cd w c s)"
  by (cases c; simp only: vs_handle.simps)
    (unfold when_named_def on_machine_def collectNetworkInfos_def learn_card_def vs_InstanceWaitReady_def vs_wrapper_WaitForIP_def
      vs_WaitForIP_def vs_waitForIP_def ssh_attempt_def vs_UUID_def vs_AutoStart_def vs_HostSystem_def vs_SetAutoStart_def manager_SetAutoStart_def
      vs_AutoStartManager_def vs_PowerOn_def vs_PowerOff_def vs_InstanceExists_def vs_InstanceStatus_def vs_Status_def
      vs_WaitForTools_def vs_WaitForToolsRunning_def,
     (intro ending ends_values assms | simp)+)

section \<open>Every method ends\<close>


text \<open>A timeout of zero, or one that wraps around to it, is no timeout: a machine that never starts is awaited for ever.\<close>

lemma zero_timeout_diverges:
  assumes "rans_bool E = (\<lambda>calls. Inr (Inr False))"
  shows "WaitForPowerState E (w\<lparr>dw_Timeout := 0\<rparr>) vmuuid True s = Diverge"
proof -
  have "gpoll k True timeout_error (power_attempt E vmuuid True) t = Diverge" for k t
    using assms by (induction k arbitrary: t) (auto simp: power_attempt_def case_prod_unfold Let_def)
  then show ?thesis by (simp add: WaitForPowerState_def remote_PollImmediate_def case_prod_unfold Let_def del: gpoll.simps)
qed


end
