(* ===== verification/Dns_Update.thy ===== *)
theory Dns_Update
  imports Handlers Multipass
begin

text \<open>
  Model of the rest of \<^verbatim>\<open>rfc2136/rfc2136.go\<close> and of \<^verbatim>\<open>rfc2136/tsig.go\<close>: the check of the address of the name
  server, the key of its file and the signature of a message. The key file, base64, the hash functions
  and the canonical name of an algorithm are parameters; \<^verbatim>\<open>net.SplitHostPort\<close>, \<^verbatim>\<open>net.JoinHostPort\<close>,
  \<^verbatim>\<open>strings.Trim\<close> and \<^verbatim>\<open>hex.DecodeString\<close> are the ones of the Go library.
\<close>

section \<open>Addresses\<close>

definition addr_error :: "string \<Rightarrow> string \<Rightarrow> error" where
  "addr_error addr why = Plain (''address '' @ addr @ '': '' @ why)"

definition quoted :: "string \<Rightarrow> string" where
  "quoted s = CHR 0x27 # s @ [CHR 0x27]"

text \<open>The text before and after the last colon.\<close>

fun cut_last :: "string \<Rightarrow> (string \<times> string) option" where
  "cut_last [] = None"
| "cut_last (c # s) =
     (case cut_last s of
        Some (a, b) \<Rightarrow> Some (c # a, b)
      | None \<Rightarrow> if c = CHR '':'' then Some ([], s) else None)"

definition SplitHostPort :: "string \<Rightarrow> error + string \<times> string" where
  "SplitHostPort s =
     (case cut_last s of
        None \<Rightarrow> Inl (addr_error s ''missing port in address'')
      | Some (before, port) \<Rightarrow>
          if take 1 s = ''[''
          then let host = takeWhile (\<lambda>c. c \<noteq> CHR '']'') (tl s); rest = dropWhile (\<lambda>c. c \<noteq> CHR '']'') (tl s)
               in if rest = [] then Inl (addr_error s (''missing '' @ quoted '']'' @ '' in address''))
                  else if tl rest = [] then Inl (addr_error s ''missing port in address'')
                  else if tl rest = CHR '':'' # port
                  then (if CHR ''['' \<in> set (tl s) then Inl (addr_error s (''unexpected '' @ quoted ''['' @ '' in address''))
                        else if CHR '']'' \<in> set port then Inl (addr_error s (''unexpected '' @ quoted '']'' @ '' in address''))
                        else Inr (host, port))
                  else if take 1 (tl rest) = '':'' then Inl (addr_error s ''too many colons in address'')
                  else Inl (addr_error s ''missing port in address'')
          else if CHR '':'' \<in> set before then Inl (addr_error s ''too many colons in address'')
          else if CHR ''['' \<in> set s then Inl (addr_error s (''unexpected '' @ quoted ''['' @ '' in address''))
          else if CHR '']'' \<in> set s then Inl (addr_error s (''unexpected '' @ quoted '']'' @ '' in address''))
          else Inr (before, port))"

definition JoinHostPort :: "string \<Rightarrow> string \<Rightarrow> string" where
  "JoinHostPort host port = (if CHR '':'' \<in> set host then ''['' @ host @ '']:'' @ port else host @ '':'' @ port)"

definition TrimSet :: "string \<Rightarrow> string \<Rightarrow> string" where
  "TrimSet s cutset = rev (dropWhile (\<lambda>c. c \<in> set cutset) (rev (dropWhile (\<lambda>c. c \<in> set cutset) s)))"

definition defaultRFC2136Port :: string where
  "defaultRFC2136Port = ''53''"

definition validNameserver :: "string \<Rightarrow> error + string" where
  "validNameserver text =
     (let s = TrimSpace text
      in if s = [] then Inl (Plain ''RFC2136 nameserver missing'')
         else case (case SplitHostPort s of
                      Inr (host, port) \<Rightarrow> Inr (host, port)
                    | Inl e \<Rightarrow> if Contains (err_text e) ''missing port'' then Inr (TrimSet s ''[]'', [])
                               else Inl (Errorf ''RFC2136 nameserver is invalid: %s'' [err_text e])) of
                Inl e \<Rightarrow> Inl e
              | Inr (host, port) \<Rightarrow>
                  if host = [] then Inl (Errorf ''RFC2136 nameserver has no host defined, %v'' [s])
                  else Inr (JoinHostPort host (if port = [] then defaultRFC2136Port else port)))"

section \<open>Keys\<close>

record rndc_key =
  key_Algorithm :: string
  key_Secret :: string

text \<open>A file of keys is a map; the first key in the order of its iteration is taken.\<close>

record key_env =
  ke_load :: "string \<Rightarrow> error + (string \<times> rndc_key) list"
  ke_order :: "nat \<Rightarrow> nat list"
  ke_base64 :: "string \<Rightarrow> string"

definition loadRndcKeyFile :: "key_env \<Rightarrow> string \<Rightarrow> error + string \<times> rndc_key" where
  "loadRndcKeyFile K name =
     (case ke_load K name of
        Inl e \<Rightarrow> Inl e
      | Inr m \<Rightarrow> (case reorder (ke_order K) m of [] \<Rightarrow> Inl (Plain ''no keys in file'') | entry # _ \<Rightarrow> Inr entry))"

definition NewDNSRFC2136ProviderCredentials :: "key_env \<Rightarrow> string \<Rightarrow> string \<Rightarrow> error + dns_provider" where
  "NewDNSRFC2136ProviderCredentials K address rndcKeyFile =
     (case validNameserver address of
        Inl e \<Rightarrow> Inl e
      | Inr server \<Rightarrow> (case loadRndcKeyFile K rndcKeyFile of
          Inl e \<Rightarrow> Inl e
        | Inr (keyName, key) \<Rightarrow> Inr \<lparr>nameserver = server, tsigKeyName = keyName, tsigSecret = ke_base64 K (key_Secret key),
            tsigAlgorithm = key_Algorithm key\<rparr>))"

text \<open>What is logged of a secret.\<close>

definition masked_secret :: "string \<Rightarrow> string" where
  "masked_secret secret =
     (let keyLen = length secret
      in take (keyLen div 4) secret @ replicate (keyLen div 2) CHR ''*'' @ drop (keyLen div 4 * 3) secret)"

section \<open>Signatures\<close>

datatype hash_function = SHA1 | SHA224 | SHA256 | SHA384 | SHA512 | MD5

record tsig =
  ts_Algorithm :: string
  ts_MAC :: string

record hmac_env =
  hm_secret :: "string \<Rightarrow> error + string"
  hm_canonical :: "string \<Rightarrow> string"
  hm_sum :: "hash_function \<Rightarrow> string \<Rightarrow> string \<Rightarrow> string"

definition hash_of :: "string \<Rightarrow> hash_function option" where
  "hash_of algorithm =
     (if algorithm = ''hmac-sha1.'' then Some SHA1
      else if algorithm = ''hmac-sha224.'' then Some SHA224
      else if algorithm = ''hmac-sha256.'' then Some SHA256
      else if algorithm = ''hmac-sha384.'' then Some SHA384
      else if algorithm = ''hmac-sha512.'' then Some SHA512
      else if algorithm = ''hmac-md5.sig-alg.reg.int.'' then Some MD5
      else None)"

definition tsig_Generate :: "hmac_env \<Rightarrow> string \<Rightarrow> string \<Rightarrow> tsig \<Rightarrow> error + string" where
  "tsig_Generate H key msg t =
     (case hm_secret H key of
        Inl e \<Rightarrow> Inl (Errorf ''error decoding the provided TSIG secret: %w'' [err_text e])
      | Inr rawsecret \<Rightarrow> (case hash_of (hm_canonical H (ts_Algorithm t)) of
          None \<Rightarrow> Inl (Plain ''dns: bad key algorithm'')
        | Some f \<Rightarrow> Inr (hm_sum H f rawsecret msg)))"

definition hex_value :: "char \<Rightarrow> nat option" where
  "hex_value c =
     (let n = of_char c :: nat
      in if 48 \<le> n \<and> n \<le> 57 then Some (n - 48)
         else if 97 \<le> n \<and> n \<le> 102 then Some (n - 87)
         else if 65 \<le> n \<and> n \<le> 70 then Some (n - 55) else None)"

text \<open>\<^verbatim>\<open>hex.DecodeString\<close>: two digits for a byte.\<close>

fun DecodeString :: "string \<Rightarrow> error + string" where
  "DecodeString [] = Inr []"
| "DecodeString [c] =
     (if hex_value c = None then Inl (Plain ''encoding/hex: invalid byte'') else Inl (Plain ''encoding/hex: odd length hex string''))"
| "DecodeString (c # d # s) =
     (case (hex_value c, hex_value d) of
        (Some a, Some b) \<Rightarrow> (case DecodeString s of Inl e \<Rightarrow> Inl e | Inr bs \<Rightarrow> Inr (char_of (16 * a + b) # bs))
      | _ \<Rightarrow> Inl (Plain ''encoding/hex: invalid byte''))"

definition tsig_Verify :: "hmac_env \<Rightarrow> string \<Rightarrow> string \<Rightarrow> tsig \<Rightarrow> error option" where
  "tsig_Verify H key msg t =
     (case tsig_Generate H key msg t of
        Inl e \<Rightarrow> Some e
      | Inr b \<Rightarrow> (case DecodeString (ts_MAC t) of
          Inl e \<Rightarrow> Some e
        | Inr mac \<Rightarrow> if b = mac then None else Some (Plain ''dns: bad signature'')))"

end
