(* ===== verification/Dns_Update_Facts.thy ===== *)
theory Dns_Update_Facts
  imports Dns_Update
begin

text \<open>
  The address of the name server: the forms that the comment of \<^verbatim>\<open>validNameserver\<close> lists all become a host
  and a port, and an address in that form is left alone. The signature of a message is accepted exactly
  when it is the one the key gives.
\<close>

section \<open>Splitting and joining\<close>

lemma cut_last_None: "cut_last s = None \<longleftrightarrow> CHR '':'' \<notin> set s"
  by (induction s) (auto split: option.splits)

lemma cut_last_append: "CHR '':'' \<notin> set b \<Longrightarrow> cut_last (a @ CHR '':'' # b) = Some (a, b)"
  by (induction a) (simp_all add: cut_last_None [THEN iffD2])

definition plain :: "string \<Rightarrow> bool" where
  "plain s \<longleftrightarrow> s \<noteq> [] \<and> (\<forall>c\<in>set s. c \<noteq> CHR ''['' \<and> c \<noteq> CHR '']'' \<and> \<not> is_space c)"

definition plain_port :: "string \<Rightarrow> bool" where
  "plain_port s \<longleftrightarrow> plain s \<and> CHR '':'' \<notin> set s"

lemma plainD:
  "plain s \<Longrightarrow> s \<noteq> []" "plain s \<Longrightarrow> CHR ''['' \<notin> set s" "plain s \<Longrightarrow> CHR '']'' \<notin> set s" "plain s \<Longrightarrow> \<forall>c\<in>set s. \<not> is_space c"
  "plain_port s \<Longrightarrow> plain s" "plain_port s \<Longrightarrow> CHR '':'' \<notin> set s"
  unfolding plain_def plain_port_def by blast+

lemma takeWhile_bracket:
  assumes "CHR '']'' \<notin> set host"
  shows "takeWhile (\<lambda>c. c \<noteq> CHR '']'') (host @ CHR '']'' # s) = host" "dropWhile (\<lambda>c. c \<noteq> CHR '']'') (host @ CHR '']'' # s) = CHR '']'' # s"
  using assms by (induction host) auto

text \<open>\<^verbatim>\<open>SplitHostPort\<close> undoes \<^verbatim>\<open>JoinHostPort\<close>.\<close>

lemma SplitHostPort_join:
  assumes "plain host" "plain_port port"
  shows "SplitHostPort (JoinHostPort host port) = Inr (host, port)"
proof (cases "CHR '':'' \<in> set host")
  case True
  have "cut_last (''['' @ host @ '']:'' @ port) = Some (''['' @ host @ '']'', port)"
    using cut_last_append [of port "''['' @ host @ '']''"] assms by (simp add: plain_port_def)
  with True plainD(1-3) [OF assms(1)] plainD(2,3) [OF plainD(5) [OF assms(2)]] show ?thesis
    by (simp add: SplitHostPort_def JoinHostPort_def takeWhile_bracket)
next
  case False
  have "cut_last (host @ '':'' @ port) = Some (host, port)"
    using cut_last_append [of port host] assms by (simp add: plain_port_def)
  moreover obtain c rest where "host = c # rest" "c \<noteq> CHR ''[''" using assms by (cases host) (auto simp: plain_def)
  ultimately show ?thesis using False plainD(1-3) [OF assms(1)] plainD(2,3) [OF plainD(5) [OF assms(2)]]
    by (simp add: SplitHostPort_def JoinHostPort_def)
qed

lemma dropWhile_none: "\<forall>c\<in>set s. \<not> P c \<Longrightarrow> dropWhile P s = s"
  by (cases s) auto

lemma TrimSpace_id: "\<forall>c\<in>set s. \<not> is_space c \<Longrightarrow> TrimSpace s = s"
  by (simp add: TrimSpace_def dropWhile_none)

lemma TrimSet_plain: "plain s \<Longrightarrow> TrimSet s ''[]'' = s" "plain s \<Longrightarrow> TrimSet (''['' @ s @ '']'') ''[]'' = s"
proof -
  assume p: "plain s"
  have d: "dropWhile (\<lambda>c. c \<in> set ''[]'') s = s" "dropWhile (\<lambda>c. c \<in> set ''[]'') (rev s) = rev s"
    using plainD(2,3) [OF p] by (intro dropWhile_none; force)+
  then show "TrimSet s ''[]'' = s" by (simp add: TrimSet_def)
  obtain c r where s: "s = c # r" using plainD(1) [OF p] by (cases s) auto
  have "c \<notin> set ''[]''" using plainD(2,3) [OF p] s by force
  then have "dropWhile (\<lambda>c. c \<in> set ''[]'') (''['' @ s @ '']'') = s @ '']''" by (simp add: s)
  with d show "TrimSet (''['' @ s @ '']'') ''[]'' = s" by (simp add: TrimSet_def)
qed

lemma Contains_inside: "Contains (a @ p @ b) p"
proof (induction a)
  case Nil
  show ?case by (cases p; cases b) (auto simp: HasPrefix_def elim: Contains.elims)
qed simp

lemma missing_port: "Contains (err_text (addr_error s ''missing port in address'')) ''missing port''"
  using Contains_inside [of "''address '' @ s @ '': ''" "''missing port''" "'' in address''"] by (simp add: addr_error_def)

lemma join_spaces: "plain host \<Longrightarrow> plain_port port \<Longrightarrow> \<forall>c\<in>set (JoinHostPort host port). \<not> is_space c"
  by (auto simp: JoinHostPort_def plain_def plain_port_def is_space_def)

text \<open>
  The forms of the comment: a host with a port is left as it is; a host alone, and an address of IPv6 in
  brackets, get the port 53.
\<close>

theorem nameserver_forms:
  assumes "plain host" "plain_port port"
  shows "validNameserver (JoinHostPort host port) = Inr (JoinHostPort host port) \<and>
    validNameserver (if CHR '':'' \<in> set host then ''['' @ host @ '']'' else host) = Inr (JoinHostPort host ''53'')"
proof
  have "JoinHostPort host port \<noteq> []" by (simp add: JoinHostPort_def)
  with assms show "validNameserver (JoinHostPort host port) = Inr (JoinHostPort host port)"
    by (simp add: validNameserver_def TrimSpace_id join_spaces SplitHostPort_join Let_def) (simp add: plain_def plain_port_def)
  let ?s = "if CHR '':'' \<in> set host then ''['' @ host @ '']'' else host"
  have "SplitHostPort ?s = Inl (addr_error ?s ''missing port in address'')"
  proof (cases "CHR '':'' \<in> set host")
    case True
    then obtain a b where "cut_last (''['' @ host @ '']'') = Some (a, b)"
      using cut_last_None [of "''['' @ host @ '']''"] by (cases "cut_last (''['' @ host @ '']'')") auto
    with True assms show ?thesis
      using takeWhile_bracket [of host "[]"] by (auto simp: SplitHostPort_def plain_def)
  next
    case False
    then show ?thesis by (simp add: SplitHostPort_def cut_last_None [THEN iffD2])
  qed
  moreover have "TrimSpace ?s = ?s" using assms by (intro TrimSpace_id) (auto simp: plain_def is_space_def)
  moreover have "TrimSet ?s ''[]'' = host" using TrimSet_plain [OF assms(1)] by simp
  moreover have "?s \<noteq> []" "host \<noteq> []" using assms by (auto simp: plain_def)
  ultimately show "validNameserver ?s = Inr (JoinHostPort host ''53'')"
    using missing_port [of ?s] by (simp add: validNameserver_def Let_def defaultRFC2136Port_def)
qed

text \<open>Whatever is accepted has a host and a port; not every text that is accepted is an address.\<close>

lemma nameserver_has_port: "validNameserver text = Inr r \<Longrightarrow> \<exists>host port. r = JoinHostPort host port \<and> host \<noteq> [] \<and> port \<noteq> []"
  by (auto simp: validNameserver_def Let_def defaultRFC2136Port_def split: sum.splits if_splits) (metis list.discI)+

lemma malformed_nameserver: "validNameserver ''[a]b:53'' = Inr ''[a]b:53]:53''"
  by code_simp

section \<open>Credentials\<close>

theorem credentials_success:
  assumes "NewDNSRFC2136ProviderCredentials K address file = Inr d"
  shows "validNameserver address = Inr (nameserver d) \<and>
    (\<exists>keys key. ke_load K file = Inr keys \<and> (tsigKeyName d, key) \<in> set keys \<and> tsigAlgorithm d = key_Algorithm key \<and>
       tsigSecret d = ke_base64 K (key_Secret key))"
proof -
  from assms obtain name key where n: "validNameserver address = Inr (nameserver d)" "loadRndcKeyFile K file = Inr (name, key)"
    "d = \<lparr>nameserver = nameserver d, tsigKeyName = name, tsigSecret = ke_base64 K (key_Secret key), tsigAlgorithm = key_Algorithm key\<rparr>"
    by (auto simp: NewDNSRFC2136ProviderCredentials_def split: sum.splits)
  from n(2) obtain keys rest where k: "ke_load K file = Inr keys" "reorder (ke_order K) keys = (name, key) # rest"
    by (auto simp: loadRndcKeyFile_def split: sum.splits list.splits)
  have "(name, key) \<in> set keys" using k(2) set_reorder [of "ke_order K" keys] by (metis list.set_intros(1))
  moreover have "tsigKeyName d = name" "tsigAlgorithm d = key_Algorithm key" "tsigSecret d = ke_base64 K (key_Secret key)"
    using n(3) by (metis dns_provider.select_convs)+
  ultimately show ?thesis using n(1) k(1) by blast
qed

text \<open>The log shows the first and the last quarter of the secret, half of it.\<close>

lemma masked_secret_shows:
  assumes "length secret = 4 * n"
  shows "masked_secret secret = take n secret @ replicate (2 * n) CHR ''*'' @ drop (3 * n) secret"
proof -
  have "length secret div 4 = n" "length secret div 2 = 2 * n" using assms by auto
  then show ?thesis by (simp add: masked_secret_def Let_def mult.commute)
qed

section \<open>Signatures\<close>

definition hex_nibble :: "nat \<Rightarrow> char" where
  "hex_nibble n = (if n < 10 then char_of (48 + n) else char_of (87 + n))"

fun hex_encode :: "string \<Rightarrow> string" where
  "hex_encode [] = []"
| "hex_encode (c # s) = hex_nibble (of_char c div 16) # hex_nibble (of_char c mod 16) # hex_encode s"

lemma hex_value_digit: "n < 16 \<Longrightarrow> hex_value (hex_nibble n) = Some n"
  by (auto simp: hex_value_def hex_nibble_def Let_def)

lemma byte: "of_char c < (256 :: nat)"
  by (metis of_char_mod_256 mod_less_divisor zero_less_numeral)

lemma DecodeString_encode: "DecodeString (hex_encode s) = Inr s"
proof (induction s)
  case (Cons c s)
  have "of_char c div 16 < (16 :: nat)" "of_char c mod 16 < (16 :: nat)" using byte [of c] by linarith+
  moreover have "char_of (16 * (of_char c div 16) + of_char c mod 16 :: nat) = c" by simp
  ultimately show ?case using Cons by (simp add: hex_value_digit del: mult_div_mod_eq)
qed simp

text \<open>A signature is accepted exactly when it is the one that the key gives to the message.\<close>

theorem tsig_Verify_iff:
  "tsig_Verify H key msg t = None \<longleftrightarrow>
     (\<exists>b. tsig_Generate H key msg t = Inr b \<and> DecodeString (ts_MAC t) = Inr b)"
  by (auto simp: tsig_Verify_def split: sum.splits if_splits)

theorem signed_message_verifies:
  assumes "tsig_Generate H key msg t = Inr b"
  shows "tsig_Verify H key msg (t\<lparr>ts_MAC := hex_encode b\<rparr>) = None"
proof -
  have "tsig_Generate H key msg (t\<lparr>ts_MAC := hex_encode b\<rparr>) = tsig_Generate H key msg t"
    by (auto simp: tsig_Generate_def split: sum.splits option.splits)
  with assms show ?thesis by (simp add: tsig_Verify_iff DecodeString_encode)
qed

section \<open>Samples\<close>

lemma sample_plain: "plain ''::1''" "plain_port ''5353''"
  by (simp_all add: plain_def plain_port_def is_space_def)

theorem nameserver_forms_witness:
  "validNameserver ''[::1]:5353'' = Inr ''[::1]:5353'' \<and> validNameserver ''[::1]'' = Inr ''[::1]:53''"
  using nameserver_forms [OF sample_plain] by (simp add: JoinHostPort_def)

definition sample_key_env :: key_env where
  "sample_key_env = \<lparr>ke_load = \<lambda>_. Inr [(''k'', \<lparr>key_Algorithm = ''hmac-sha256'', key_Secret = ''s''\<rparr>)], ke_order = \<lambda>n. [0..<n],
     ke_base64 = \<lambda>s. s\<rparr>"

lemma sample_credentials: "NewDNSRFC2136ProviderCredentials sample_key_env ''h'' ''f'' =
    Inr \<lparr>nameserver = ''h:53'', tsigKeyName = ''k'', tsigSecret = ''s'', tsigAlgorithm = ''hmac-sha256''\<rparr>"
  by code_simp

theorem credentials_success_witness: "validNameserver ''h'' = Inr ''h:53''"
  using credentials_success [OF sample_credentials] by simp

definition sample_hmac :: hmac_env where
  "sample_hmac = \<lparr>hm_secret = \<lambda>s. Inr s, hm_canonical = \<lambda>s. s @ ''.'', hm_sum = \<lambda>f key msg. key @ msg\<rparr>"

theorem signed_message_verifies_witness:
  "tsig_Verify sample_hmac ''k'' ''m'' \<lparr>ts_Algorithm = ''hmac-sha1'', ts_MAC = ''6b6d''\<rparr> = None"
proof -
  have "tsig_Generate sample_hmac ''k'' ''m'' \<lparr>ts_Algorithm = ''hmac-sha1'', ts_MAC = []\<rparr> = Inr ''km''" by code_simp
  moreover have "hex_encode ''km'' = ''6b6d''" by code_simp
  ultimately show ?thesis using signed_message_verifies [of sample_hmac "''k''" "''m''" "\<lparr>ts_Algorithm = ''hmac-sha1'', ts_MAC = []\<rparr>"] by simp
qed

end
