(* ===== verification/Provider_Start.thy ===== *)
theory Provider_Start
  imports Endings Dns_Update_Facts Remote_Shell
begin

text \<open>
  Model of the start of the cloud providers: the functions \<^verbatim>\<open>New...ProviderConfiguration\<close> that
  \<^verbatim>\<open>SetupCloudConfiguration\<close> calls, \<^verbatim>\<open>NewApiClient\<close> of \<^verbatim>\<open>api/configuration.go\<close>, and the part of
  \<^verbatim>\<open>ConfigurationDidLoad\<close> that connects, on top of the part that \<open>Lxd\<close>, \<open>OpenStack\<close> and \<open>CloudStack\<close> model. The
  clients, the files and their decoding are the environment \<open>start_env\<close>.
\<close>

section \<open>The environment\<close>

record start_env =
  st_keys :: key_env
  st_read :: "string \<Rightarrow> error + string"
  st_eval :: "string \<Rightarrow> error + string"
  st_join :: "string \<Rightarrow> string \<Rightarrow> string"
  st_key_pair :: "string \<Rightarrow> string \<Rightarrow> error option"
  st_pem :: "string \<Rightarrow> bool"
  st_dial :: "string \<Rightarrow> error option"
  st_lxd_unix :: "string \<Rightarrow> error option"
  st_lxd_https :: "string \<Rightarrow> string list \<Rightarrow> error option"
  st_client :: bool
  st_clouds :: "error option"
  st_auth_env :: "error option"
  st_provider :: "error option"
  st_compute :: "error option"
  st_network :: "error option"
  st_image :: "error option"
  st_dns :: "error option"

definition attempt :: "error + 'a \<Rightarrow> ('a, 'h) vs_op" where
  "attempt r s = Ret (r, s)"

definition check :: "error option \<Rightarrow> (unit, 'h) vs_op" where
  "check err s = Ret (case err of Some e \<Rightarrow> Inl e | None \<Rightarrow> Inr (), s)"

definition load_file :: "start_env \<Rightarrow> (string \<Rightarrow> error + 'a) \<Rightarrow> string \<Rightarrow> ('a, 'h) vs_op" where
  "load_file S decode fileName = attempt (LoadConfig (st_read S) (st_eval S) decode fileName)"

section \<open>The name server\<close>

record bind9_conf =
  UseBind9 :: bool
  Bind9Host :: string
  RndcKeyFile :: string

definition start_bind9 :: "start_env \<Rightarrow> 'c bind9_conf_scheme \<Rightarrow> (dns_provider option, 'h) vs_op" where
  "start_bind9 S c =
     (if UseBind9 c
      then vs_bind (attempt (NewDNSRFC2136ProviderCredentials (st_keys S) (Bind9Host c) (RndcKeyFile c))) (\<lambda>d. vs_return (Some d))
      else vs_return None)"

section \<open>LXD\<close>

record lxd_conf = bind9_conf +
  LxdServerURL :: string
  LxdConfigLocation :: string
  TLSServerCert :: string
  TLSClientCert :: string
  TLSClientKey :: string
  TLSCA :: string

definition readLxdPEM :: "start_env \<Rightarrow> lxd_conf \<Rightarrow> string \<Rightarrow> (string, 'h) vs_op" where
  "readLxdPEM S c pem = (if pem \<noteq> [] then attempt (st_read S (st_join S (LxdConfigLocation c) pem)) else vs_return [])"

definition lxd_connect :: "start_env \<Rightarrow> lxd_conf \<Rightarrow> (unit, 'h) vs_op" where
  "lxd_connect S c =
     (if HasPrefix (LxdServerURL c) ''unix:'' then check (st_lxd_unix S (drop 5 (LxdServerURL c)))
      else vs_bind (readLxdPEM S c (TLSCA c)) (\<lambda>ca.
           vs_bind (readLxdPEM S c (TLSServerCert c)) (\<lambda>serverCert.
           vs_bind (readLxdPEM S c (TLSClientCert c)) (\<lambda>clientCert.
           vs_bind (readLxdPEM S c (TLSClientKey c)) (\<lambda>clientKey.
             check (st_lxd_https S (LxdServerURL c) [serverCert, clientCert, clientKey, ca]))))))"

definition lxd_start :: "lxd_env \<Rightarrow> start_env \<Rightarrow> (string \<Rightarrow> error + lxd_conf \<times> lxd_wrapper) \<Rightarrow> string \<Rightarrow> (lxd_wrapper, 'h) vs_op" where
  "lxd_start X S decode fileName =
     vs_bind (load_file S decode fileName) (\<lambda>(c, w).
     vs_bind (start_bind9 S c) (\<lambda>dns.
     vs_bind (lxd_connect S c) (\<lambda>u.
       if \<not> st_client S then vs_fail (Plain ''no cloud provider config given'')
       else lxd_DidLoad X (w\<lparr>lw_bind9Provider := dns\<rparr>))))"

section \<open>OpenStack\<close>

text \<open>The credentials come from the file of the clouds or else from the variables of the process.\<close>

definition os_connect :: "start_env \<Rightarrow> (unit, 'h) vs_op" where
  "os_connect S =
     vs_bind (if st_clouds S \<noteq> None then check (st_auth_env S) else vs_return ()) (\<lambda>u.
     vs_bind (check (st_provider S)) (\<lambda>u.
     vs_bind (check (st_compute S)) (\<lambda>u.
     vs_bind (check (st_network S)) (\<lambda>u. check (st_image S)))))"

definition os_start :: "os_env \<Rightarrow> start_env \<Rightarrow> (string \<Rightarrow> error + bind9_conf \<times> os_wrapper) \<Rightarrow> string \<Rightarrow> (os_wrapper, 'h) vs_op" where
  "os_start X S decode fileName =
     vs_bind (load_file S decode fileName) (\<lambda>(c, w).
     vs_bind (start_bind9 S c) (\<lambda>dns.
     vs_bind (os_connect S) (\<lambda>u s.
       Ret (os_DidLoad X (w\<lparr>ow_bind9Provider := dns, ow_UseBind9 := UseBind9 c,
         ow_dnsClient := (\<not> UseBind9 c \<and> st_dns S = None)\<rparr>) s))))"

section \<open>CloudStack\<close>

definition cs_start :: "cs_env \<Rightarrow> start_env \<Rightarrow> (string \<Rightarrow> error + bind9_conf \<times> cs_wrapper) \<Rightarrow> string \<Rightarrow> (cs_wrapper, 'h) vs_op" where
  "cs_start X S decode fileName =
     vs_bind (load_file S decode fileName) (\<lambda>(c, w).
     vs_bind (start_bind9 S c) (\<lambda>dns.
       if \<not> st_client S then vs_fail (Plain ''no cloud provider config given'')
       else (\<lambda>s. Ret (cs_DidLoad X (w\<lparr>cw_bind9Provider := dns\<rparr>) s))))"

section \<open>The service of Desktop and Multipass\<close>

record api_conf = bind9_conf +
  ap_Address :: string
  ap_Key :: string
  ap_Cert :: string
  ap_Cacert :: string

definition go_quote :: "string \<Rightarrow> string" where
  "go_quote s = CHR 0x22 # s @ [CHR 0x22]"

definition api_credentials :: "start_env \<Rightarrow> api_conf \<Rightarrow> error option" where
  "api_credentials S c =
     (if ap_Cert c = [] then None
      else case st_read S (ap_Cert c) of
             Inl e \<Rightarrow> Some (Errorf ''could not open Cert configuration file %q: %v'' [go_quote (ap_Cert c), err_text e])
           | Inr certFile \<Rightarrow> (case st_read S (ap_Key c) of
               Inl e \<Rightarrow> Some (Errorf ''could not open Key configuration file %q: %v'' [go_quote (ap_Key c), err_text e])
             | Inr keyFile \<Rightarrow> (case st_read S (ap_Cacert c) of
                 Inl e \<Rightarrow> Some (Errorf ''could not open Cacert configuration file %q: %v'' [go_quote (ap_Cacert c), err_text e])
               | Inr cacertFile \<Rightarrow> (case st_key_pair S certFile keyFile of
                   Some e \<Rightarrow> Some (Errorf ''failed to parse cert key pair: %v'' [err_text e])
                 | None \<Rightarrow> if st_pem S cacertFile then None else Some (Errorf ''failed to parse ca: %v'' [err_v None])))))"

text \<open>A first request tries the connection; an error in the answer of the service does not count.\<close>

definition NewApiClient :: "remote_env \<Rightarrow> start_env \<Rightarrow> api_conf \<Rightarrow> (unit, 'h) vs_op" where
  "NewApiClient E S c =
     vs_bind (check (api_credentials S c)) (\<lambda>u.
     vs_bind (check (map_option (\<lambda>e. Errorf ''failed to dial server: %v'' [err_text e]) (st_dial S (ap_Address c)))) (\<lambda>u s.
       let (r, s) = ask_remote (rans_vms E) VMWareListVirtualMachines s
       in Ret (case r of Inl e \<Rightarrow> Inl e | Inr answer \<Rightarrow> Inr (), s)))"

text \<open>The provider is returned with the error of its template, unless a name server is configured.\<close>

definition desktop_start ::
  "remote_env \<Rightarrow> start_env \<Rightarrow> (string \<Rightarrow> error + api_conf \<times> desktop_wrapper) \<Rightarrow> string \<Rightarrow> (error option \<times> desktop_wrapper, 'h) vs_op" where
  "desktop_start E S decode fileName =
     vs_bind (load_file S decode fileName) (\<lambda>(c, w).
     vs_bind (NewApiClient E S c) (\<lambda>u.
     vs_bind (\<lambda>s. let (r, s) = resolve_template E w s in Ret (Inr r, s)) (\<lambda>(err, w).
     vs_bind (start_bind9 S c) (\<lambda>dns.
       vs_return (if UseBind9 c then None else err,
         w\<lparr>dw_bind9Provider := dns, dw_Network := ConfigurationDidLoad (dw_Network w)\<rparr>)))))"

text \<open>The local wrapper is returned before its network is looked at.\<close>

definition multipass_start ::
  "remote_env \<Rightarrow> start_env \<Rightarrow> (string \<Rightarrow> error + api_conf \<times> multipass_wrapper) \<Rightarrow> string \<Rightarrow> (multipass_wrapper, 'h) vs_op" where
  "multipass_start E S decode fileName =
     vs_bind (load_file S decode fileName) (\<lambda>(c, w).
     vs_bind (start_bind9 S c) (\<lambda>dns.
       if ap_Address c = ''multipass'' \<or> ap_Address c = []
       then vs_return (w\<lparr>mw_Backend := HostWrapper, mw_bind9Provider := dns\<rparr>)
       else vs_bind (NewApiClient E S c) (\<lambda>u. vs_return (w\<lparr>mw_Backend := RemoteWrapper, mw_bind9Provider := dns,
              mw_Network := ConfigurationDidLoad (mw_Network w)\<rparr>))))"

section \<open>vSphere and AWS\<close>

definition vs_start :: "vs_env \<Rightarrow> start_env \<Rightarrow> (string \<Rightarrow> error + bind9_conf \<times> vs_wrapper) \<Rightarrow> string \<Rightarrow> (vs_wrapper, 'h) vs_op" where
  "vs_start X S decode fileName =
     vs_bind (load_file S decode fileName) (\<lambda>(c, w).
     vs_bind (vs_UUID X w (vw_TemplateName w)) (\<lambda>u.
     vs_bind (start_bind9 S c) (\<lambda>dns.
       vs_return (w\<lparr>vw_bind9Provider := dns, vw_Network := ConfigurationDidLoad (vw_Network w)\<rparr>))))"

definition aws_start :: "aws_env \<Rightarrow> start_env \<Rightarrow> (string \<Rightarrow> error + aws_wrapper) \<Rightarrow> string \<Rightarrow> (aws_wrapper, 'h \<times> aws_wrapper) vs_op" where
  "aws_start X S decode fileName =
     vs_bind (load_file S decode fileName) (\<lambda>w s.
       let (err, s) = aws_load X (map_prod (\<lambda>(h, old). (h, w)) id s)
       in Ret (case err of Some e \<Rightarrow> Inl e | None \<Rightarrow> Inr (snd (fst s)), s))"

section \<open>What a provider that has started satisfies\<close>

lemma vs_bind_ret [simp]: "vs_bind m f s = Ret (Inr b, s'') \<longleftrightarrow> (\<exists>a s'. m s = Ret (Inr a, s') \<and> f a s' = Ret (Inr b, s''))"
proof
  assume "vs_bind m f s = Ret (Inr b, s'')"
  then obtain r s' where m: "m s = Ret (r, s')" "(case r of Inl e \<Rightarrow> Ret (Inl e, s') | Inr a \<Rightarrow> f a s') = Ret (Inr b, s'')"
    by (auto simp: vs_bind_def)
  then show "\<exists>a s'. m s = Ret (Inr a, s') \<and> f a s' = Ret (Inr b, s'')" by (cases r) auto
qed (auto simp: vs_bind_def)

lemma attempt_ret [simp]: "attempt r s = Ret (Inr a, s') \<longleftrightarrow> r = Inr a \<and> s' = s"
  by (auto simp: attempt_def)

lemma check_ret [simp]: "check err s = Ret (Inr a, s') \<longleftrightarrow> err = None \<and> s' = s"
  by (auto simp: check_def split: option.splits)

lemma return_ret [simp]: "vs_return b s = Ret (Inr a, s') \<longleftrightarrow> b = a \<and> s' = s" "vs_fail e s \<noteq> Ret (Inr a, s')"
  by (auto simp: vs_return_def vs_fail_def)

lemma start_bind9_ret: "start_bind9 S c s = Ret (Inr dns, s') \<longleftrightarrow>
   s' = s \<and> (if UseBind9 c then \<exists>d. dns = Some d \<and> NewDNSRFC2136ProviderCredentials (st_keys S) (Bind9Host c) (RndcKeyFile c) = Inr d
     else dns = None)"
  by (auto simp: start_bind9_def)

lemma find_networks_length: "find_networks X cs s = (Inr gs, s') \<Longrightarrow> length gs = length cs"
  by (induction cs arbitrary: s gs s') (auto simp: map_sum_def split: prod.splits sum.splits if_splits)

lemma cs_find_networks_length: "cs_find_networks X cs s = (Inr gs, s') \<Longrightarrow> length gs = length cs"
  by (induction cs arbitrary: s gs s') (auto simp: Let_def map_sum_def split: prod.splits sum.splits if_splits)

lemma did_load_name [simp]: "NetworkName (did_load i) = NetworkName i"
  by (simp add: did_load_def Let_def)

lemma loaded_names [simp]: "map NetworkName (Interfaces (ConfigurationDidLoad n)) = map NetworkName (Interfaces n)"
  by (simp add: ConfigurationDidLoad_def)

lemma lxd_DidLoad_ret:
  assumes "lxd_DidLoad X w s = Ret (Inr w', s')"
  shows "lw_imageFingerPrint w' \<noteq> [] \<and> map NetworkName (Interfaces (lw_network w')) = map lc_NetworkName (lw_Interfaces w) \<and>
    length (lw_gateways w') = length (lw_Interfaces w) \<and> lw_bind9Provider w' = lw_bind9Provider w"
proof -
  from assms obtain r t where r: "findImage X w (lw_TemplateName w) s = Ret (r, t)" by (auto simp: lxd_DidLoad_def)
  then obtain fp where fp: "r = Inr fp" using assms by (cases r) (auto simp: lxd_DidLoad_def)
  obtain q u where q: "find_networks X (lw_Interfaces w) t = (q, u)" by (metis prod.exhaust)
  with assms r fp obtain gs where "q = Inr gs" by (cases q) (auto simp: lxd_DidLoad_def Let_def split: if_splits)
  with q assms r fp find_networks_length [of X "lw_Interfaces w" t gs u] show ?thesis
    by (auto simp: lxd_DidLoad_def Let_def lxd_interface_def comp_def split: if_splits)
qed

lemma os_DidLoad_ret:
  assumes "os_DidLoad X w s = (Inr w', s')"
  shows "map NetworkName (Interfaces (ow_network w')) = map ci_NetworkName (ow_Interfaces w) \<and>
    length (ow_networkIDs w') = length (ow_Interfaces w) \<and> ow_bind9Provider w' = ow_bind9Provider w"
  using assms
  by (auto simp: os_DidLoad_def Let_def cloud_interface_def comp_def map_sum_def dest!: os_find_networks_length
      split: prod.splits sum.splits if_splits)

lemma cs_DidLoad_ret:
  assumes "cs_DidLoad X w s = (Inr w', s')"
  shows "map NetworkName (Interfaces (cw_network w')) = map ci_NetworkName (cw_Interfaces w) \<and>
    length (cw_networkIDs w') = length (cw_Interfaces w) \<and> cw_bind9Provider w' = cw_bind9Provider w"
  using assms
  by (auto simp: cs_DidLoad_def Let_def cloud_interface_def comp_def map_sum_def dest!: cs_find_networks_length
      split: prod.splits sum.splits)

text \<open>
  A provider that has started has one gateway, or one identifier of a network, for each interface, and the
  interfaces are those of the file in their order. So the clone of its network for a machine, which reads
  the one at the index of the other, never reads past the end.
\<close>

theorem started_networks_aligned:
  "lxd_start X S decode file s = Ret (Inr w, s') \<Longrightarrow> length (lw_gateways w) = length (Interfaces (Network_Clone ip control nodeIndex (lw_network w)))"
  "os_start Y S decode' file s = Ret (Inr w', s') \<Longrightarrow> length (ow_networkIDs w') = length (Interfaces (Network_Clone ip control nodeIndex (ow_network w')))"
  "cs_start Z S decode'' file s = Ret (Inr w'', s') \<Longrightarrow> length (cw_networkIDs w'') = length (Interfaces (Network_Clone ip control nodeIndex (cw_network w'')))"
  by (auto simp: lxd_start_def os_start_def cs_start_def Network_Clone_def split: if_splits
      dest!: lxd_DidLoad_ret os_DidLoad_ret cs_DidLoad_ret arg_cong [where f = length])

text \<open>With a name server its address has the form that is expected; without one there is none.\<close>

theorem lxd_started:
  assumes "lxd_start X S decode file s = Ret (Inr w, s')"
  shows "\<exists>c w0. LoadConfig (st_read S) (st_eval S) decode file = Inr (c, w0) \<and> st_client S \<and> lw_imageFingerPrint w \<noteq> [] \<and>
    map NetworkName (Interfaces (lw_network w)) = map lc_NetworkName (lw_Interfaces w0) \<and>
    (case lw_bind9Provider w of
       None \<Rightarrow> \<not> UseBind9 c
     | Some d \<Rightarrow> UseBind9 c \<and> (\<exists>host port. nameserver d = JoinHostPort host port \<and> host \<noteq> [] \<and> port \<noteq> []))"
proof -
  from assms obtain c w0 dns t where l: "LoadConfig (st_read S) (st_eval S) decode file = Inr (c, w0)"
    "start_bind9 S c s = Ret (Inr dns, s)" "st_client S" "lxd_DidLoad X (w0\<lparr>lw_bind9Provider := dns\<rparr>) t = Ret (Inr w, s')"
    by (auto simp: lxd_start_def load_file_def start_bind9_ret split: if_splits)
  from lxd_DidLoad_ret [OF l(4)] have w: "lw_imageFingerPrint w \<noteq> []" "lw_bind9Provider w = dns"
    "map NetworkName (Interfaces (lw_network w)) = map lc_NetworkName (lw_Interfaces w0)" by auto
  show ?thesis
  proof (intro exI conjI)
    show "case lw_bind9Provider w of
       None \<Rightarrow> \<not> UseBind9 c
     | Some d \<Rightarrow> UseBind9 c \<and> (\<exists>host port. nameserver d = JoinHostPort host port \<and> host \<noteq> [] \<and> port \<noteq> [])"
    proof (cases dns)
      case (Some d)
      with l(2) have d: "UseBind9 c" "NewDNSRFC2136ProviderCredentials (st_keys S) (Bind9Host c) (RndcKeyFile c) = Inr d"
        by (auto simp: start_bind9_ret split: if_splits)
      from nameserver_has_port [OF credentials_success [OF d(2), THEN conjunct1]] d(1) Some w(2) show ?thesis by simp
    qed (use l(2) w(2) in \<open>auto simp: start_bind9_ret split: if_splits\<close>)
  qed (use l w in auto)
qed

text \<open>With a name server the error of an unknown template is lost.\<close>

lemma template_error_lost:
  assumes "desktop_start E S decode file s = Ret (Inr (err, w), s')" "LoadConfig (st_read S) (st_eval S) decode file = Inr (c, w0)" "UseBind9 c"
  shows "err = None"
  using assms by (auto simp: desktop_start_def load_file_def)

text \<open>The network of the local wrapper of multipass is the one of the file, as it was read.\<close>

lemma local_network_unloaded:
  assumes "multipass_start E S decode file s = Ret (Inr w, s')" "LoadConfig (st_read S) (st_eval S) decode file = Inr (c, w0)" "ap_Address c = []"
  shows "mw_Network w = mw_Network w0 \<and> mw_Backend w = HostWrapper"
  using assms by (auto simp: multipass_start_def load_file_def)

end
