(* ===== verification/Datastore_Listing.thy ===== *)
theory Datastore_Listing
  imports Provider_Start
begin

text \<open>
  Model of the listing of \<^verbatim>\<open>providers/vsphere/datastore.go\<close>: the files at the root of the datastore
  (\<open>DatastoreList\<close>, \<open>ListPath\<close>, \<open>listOutput_add\<close>) and the machines among them, with
  \<^verbatim>\<open>VirtualMachineListWithContext\<close> and \<^verbatim>\<open>GetClient\<close> of \<^verbatim>\<open>providers/vsphere/configuration.go\<close>. The search is repeated
  by a loop with no bound: \<open>search_loop\<close> is a partial function, \<open>None\<close> when the loop does not end. An answer of an
  unknown type panics with a message; \<open>BadTypeAssertion\<close> stands for it. In
  \<open>Vsphere\<close> connecting is the one call \<open>VsClient\<close>; here it is written out.
\<close>

section \<open>Entries of the datastore\<close>

text \<open>The path of an entry; a folder has the dynamic type \<^verbatim>\<open>FolderFileInfo\<close>.\<close>

datatype browse_entry = FileEntry string | FolderEntry string

record search_result =
  sr_FolderPath :: string
  sr_File :: "browse_entry list"

datatype browse_result = OneFolder search_result | ArrayOfFolders "search_result list" | OtherResult

record list_output =
  lo_rs :: "search_result list"
  lo_recurse :: bool
  lo_all :: bool
  lo_slash :: bool

fun entry_path :: "browse_entry \<Rightarrow> string" where
  "entry_path (FileEntry p) = p"
| "entry_path (FolderEntry p) = p"

fun with_slash :: "browse_entry \<Rightarrow> browse_entry" where
  "with_slash (FileEntry p) = FileEntry p"
| "with_slash (FolderEntry p) = FolderEntry (p @ ''/'')"

text \<open>The path of a folder is \<^verbatim>\<open>[datastore] path\<close>: what follows the first space is looked at.\<close>

definition hidden_folder :: "string \<Rightarrow> bool" where
  "hidden_folder folder =
     (case dropWhile (\<lambda>c. c \<noteq> CHR '' '') folder of
        [] \<Rightarrow> False
      | space # path \<Rightarrow>
          let parts = Split (CHR ''/'') path;
              parts = (if hd parts = ''.'' then tl parts else parts)
          in \<exists>p\<in>set parts. p \<noteq> [] \<and> hd p = CHR ''.'')"

text \<open>The first character is read before the option is: an entry with an empty path stops the process.\<close>

fun add_files :: "bool \<Rightarrow> bool \<Rightarrow> browse_entry list \<Rightarrow> browse_entry list go" where
  "add_files every slash [] = Ret []"
| "add_files every slash (f # fs) =
     (case entry_path f of
        [] \<Rightarrow> Panic IndexOutOfRange
      | c # cs \<Rightarrow>
          if c = CHR ''.'' \<and> \<not> every then add_files every slash fs
          else gbind (add_files every slash fs) (\<lambda>rest. Ret ((if slash then with_slash f else f) # rest)))"

definition listOutput_add :: "search_result \<Rightarrow> list_output \<Rightarrow> list_output go" where
  "listOutput_add r out =
     (if lo_recurse out \<and> \<not> lo_all out \<and> hidden_folder (sr_FolderPath r) then Ret out
      else gbind (add_files (lo_all out) (lo_slash out) (sr_File r)) (\<lambda>files.
        Ret (out\<lparr>lo_rs := lo_rs out @ [r\<lparr>sr_File := files\<rparr>]\<rparr>)))"

fun add_results :: "search_result list \<Rightarrow> list_output \<Rightarrow> list_output go" where
  "add_results [] out = Ret out"
| "add_results (r # rs) out = gbind (listOutput_add r out) (add_results rs)"

section \<open>Connecting\<close>

text \<open>The URL, with the user and the password written into it; \<open>lc_url\<close> parses and prints it.\<close>

record list_env =
  lx_vs :: vs_env
  lx_url :: "string \<Rightarrow> string \<Rightarrow> string \<Rightarrow> error + string"
  lx_soap :: "string \<Rightarrow> error + string"
  lx_datastore_path :: "string \<Rightarrow> string"
  lx_browse :: "remote_calls \<Rightarrow> error + browse_result"
  lx_not_found :: "error \<Rightarrow> bool"
  lx_fault :: "error \<Rightarrow> string option"

record connection =
  cn_URL :: string
  cn_UserName :: string
  cn_Password :: string
  cn_Insecure :: bool

definition vs_getURL :: "list_env \<Rightarrow> connection \<Rightarrow> error + string" where
  "vs_getURL L c = lx_url L (cn_URL c) (cn_UserName c) (cn_Password c)"

definition vs_GetClient :: "list_env \<Rightarrow> connection \<Rightarrow> (unit, 'h) vs_op" where
  "vs_GetClient L c =
     vs_bind (attempt (vs_getURL L c)) (\<lambda>url.
     vs_bind (attempt (lx_soap L url)) (\<lambda>u. vs_do (lx_vs L) (VsConnect u (cn_Insecure c))))"

section \<open>Searching\<close>

text \<open>The datastore of the context; a datastore that is gone stops the process.\<close>

definition ds_Datastore :: "list_env \<Rightarrow> string \<Rightarrow> (unit, 'h) vs_op" where
  "ds_Datastore L name s =
     gbind (vs_do (lx_vs L) (VsFindDatastore name) s) (\<lambda>(r, s). if error_of r \<noteq> None then Panic ProcessExit else Ret (r, s))"

text \<open>\<open>List\<close> has put the datastore in the context, so that \<open>ListPath\<close> does not look it up again.\<close>

definition ListPath :: "list_env \<Rightarrow> string \<Rightarrow> string \<Rightarrow> bool \<Rightarrow> (search_result list, 'h) vs_op" where
  "ListPath L path pattern recurse =
     vs_bind (vs_do (lx_vs L) (VsSearch (lx_datastore_path L path) pattern recurse)) (\<lambda>u.
     vs_bind (vs_ask (lx_browse L) VsSearchResult) (\<lambda>result s. case result of
          OneFolder r \<Rightarrow> Ret (Inr [r], s)
        | ArrayOfFolders rs \<Rightarrow> Ret (Inr rs, s)
        | OtherResult \<Rightarrow> Panic BadTypeAssertion))"

definition isInvalid :: "list_env \<Rightarrow> error \<Rightarrow> bool" where
  "isInvalid L e = (lx_fault L e = Some ''InvalidArgument'')"

text \<open>\<^verbatim>\<open>i == 0 && IsFileNotFound(err) || isInvalid(err)\<close>: the conjunction binds first.\<close>

definition search_again :: "list_env \<Rightarrow> nat \<Rightarrow> error \<Rightarrow> bool" where
  "search_again L i e = (i = 0 \<and> lx_not_found L e \<or> isInvalid L e)"

partial_function (option) search_loop ::
  "list_env \<Rightarrow> nat \<Rightarrow> string \<Rightarrow> string \<Rightarrow> 'h hstate \<Rightarrow> ((error + search_result list) \<times> 'h hstate) go option" where
  "search_loop L i arg pattern s =
     (case ListPath L arg pattern False s of
        Ret (r, s) \<Rightarrow>
          (case r of
             Inr rs \<Rightarrow> Some (Ret (Inr rs, s))
           | Inl e \<Rightarrow>
               if search_again L i e then search_loop L (Suc i) (path_Dir arg) (path_Base arg) s
               else Some (Ret (Inl e, s)))
      | Panic p \<Rightarrow> Some (Panic p)
      | Diverge \<Rightarrow> Some Diverge)"

section \<open>Listing the machines\<close>

text \<open>An entry that is not a machine is skipped, whatever the error.\<close>

fun find_machines :: "list_env \<Rightarrow> browse_entry list \<Rightarrow> (string list, 'h) vs_op" where
  "find_machines L [] = vs_return []"
| "find_machines L (f # fs) =
     vs_result (vs_ask (vx_text (lx_vs L)) (VsFindVM (entry_path f))) (\<lambda>r.
       vs_bind (find_machines L fs) (\<lambda>vms. vs_return (case r of Inl e \<Rightarrow> vms | Inr vm \<Rightarrow> vm # vms)))"

definition empty_output :: list_output where
  "empty_output = \<lparr>lo_rs = [], lo_recurse = False, lo_all = False, lo_slash = True\<rparr>"

definition list_found :: "list_env \<Rightarrow> (error + search_result list) \<times> 'h hstate \<Rightarrow> ((error + string list) \<times> 'h hstate) go" where
  "list_found L = (\<lambda>(r, s). case r of
       Inl e \<Rightarrow> Ret (Inl e, s)
     | Inr rs \<Rightarrow> gbind (add_results rs empty_output) (\<lambda>out. find_machines L (concat (map sr_File (lo_rs out))) s))"

definition DatastoreList :: "list_env \<Rightarrow> string \<Rightarrow> 'h hstate \<Rightarrow> ((error + string list) \<times> 'h hstate) go option" where
  "DatastoreList L name s =
     (case vs_bind (ds_Datastore L name) (\<lambda>u. vs_do (lx_vs L) (VsBrowser name)) s of
        Ret (Inr u, s) \<Rightarrow> map_option (\<lambda>found. gbind found (list_found L)) (search_loop L 0 [] ''*'' s)
      | Ret (Inl e, s) \<Rightarrow> Some (Ret (Inl e, s))
      | Panic p \<Rightarrow> Some (Panic p)
      | Diverge \<Rightarrow> Some Diverge)"

definition ds_VirtualMachineList ::
  "list_env \<Rightarrow> connection \<Rightarrow> vs_wrapper \<Rightarrow> 'h hstate \<Rightarrow> ((error + string list) \<times> 'h hstate) go option" where
  "ds_VirtualMachineList L c w s =
     (case vs_bind (vs_GetClient L c) (\<lambda>u. vs_bind (vs_do (lx_vs L) (VsDatacenter (vw_DataCenter w)))
             (\<lambda>u. vs_do (lx_vs L) (VsDatastore (vw_DataStore w)))) s of
        Ret (Inr u, s) \<Rightarrow> DatastoreList L (vw_DataStore w) s
      | Ret (Inl e, s) \<Rightarrow> Some (Ret (Inl e, s))
      | Panic p \<Rightarrow> Some (Panic p)
      | Diverge \<Rightarrow> Some Diverge)"

end
