(* ===== verification/Datastore_Listing_Facts.thy ===== *)
theory Datastore_Listing_Facts
  imports Datastore_Listing
begin

text \<open>
  What the listing of a vSphere datastore returns: only entries that are not hidden, each looked up once and in
  order (\<open>find_machines_outcome\<close>, \<open>add_results_visible\<close>); which searches end (\<open>search_loop_ends\<close>) and which are repeated
  for ever (\<open>search_loop_stuck\<close>).
\<close>

section \<open>The repeated search\<close>

text \<open>The arguments stop changing after the first repetition: the same search is made again.\<close>

lemma search_arguments: "path_Dir [] = ''.''" "path_Base [] = ''.''" "path_Dir ''.'' = ''.''" "path_Base ''.'' = ''.''"
  by code_simp+

lemma search_again_later: "search_again L (Suc i) e \<longleftrightarrow> isInvalid L e"
  by (simp add: search_again_def)

lemma ListPath_ends: "ListPath L arg pattern recurse s \<noteq> Diverge"
proof -
  have "ends (ListPath L arg pattern recurse s)"
    unfolding ListPath_def vs_bind_def
    by (intro ending) (auto simp: vs_do_def vs_ask_def Let_def split: sum.split browse_result.split prod.split)
  then show ?thesis by (simp add: ends_def)
qed

lemma search_loop_later:
  assumes "\<And>e. \<not> isInvalid L e"
  shows "search_loop L (Suc i) arg pattern s = Some (ListPath L arg pattern False s)"
  using assms by (auto simp: search_loop.simps [of L "Suc i"] search_again_later split: go.split sum.split)

text \<open>With no refused argument there are at most two searches.\<close>

lemma search_loop_ends:
  assumes "\<And>e. \<not> isInvalid L e"
  shows "\<exists>m. search_loop L i arg pattern s = Some m \<and> m \<noteq> Diverge"
  using assms ListPath_ends [of L arg pattern False s]
  by (auto simp: search_loop.simps [of L i] search_loop_later [OF assms] ListPath_ends split: go.split sum.split)

text \<open>A server that refuses the argument is asked for ever.\<close>

lemma search_loop_stuck:
  assumes refused: "\<And>path pattern recurse calls. rans_err (vx_remote (lx_vs L)) (VSphere (VsSearch path pattern recurse) # calls) = Some e"
    and invalid: "isInvalid L e"
  shows "search_loop L i arg pattern s = None"
proof -
  have step: "ListPath L arg pattern False s = Ret (Inl e, fst s, fst (snd s), VSphere (VsSearch (lx_datastore_path L arg) pattern False) # snd (snd s))"
    for arg pattern and s :: "'h hstate"
    using refused by (cases s) (simp add: ListPath_def vs_bind_def vs_do_def ask_remote_def Let_def)
  have "L' \<noteq> L" if m: "search_loop L' i arg pattern s = Some m" for L' i arg pattern m and s :: "'h hstate"
  proof (rule search_loop.raw_induct [of "\<lambda>L' i arg pattern s m. L' \<noteq> L", OF _ m])
    fix loop L' i arg pattern and s :: "'h hstate" and m
    assume hyp: "\<And>L' i arg pattern s m. loop L' i arg pattern s = Some m \<Longrightarrow> L' \<noteq> L"
      and body: "(case ListPath L' arg pattern False s of
        Ret (r, s) \<Rightarrow> (case r of Inl e \<Rightarrow> if search_again L' i e then loop L' (Suc i) (path_Dir arg) (path_Base arg) s else Some (Ret (Inl e, s))
          | Inr rs \<Rightarrow> Some (Ret (Inr rs, s))) | Panic p \<Rightarrow> Some (Panic p) | Diverge \<Rightarrow> Some Diverge) = Some m"
    show "L' \<noteq> L"
    proof
      assume "L' = L"
      with body have "loop L (Suc i) (path_Dir arg) (path_Base arg)
          (fst s, fst (snd s), VSphere (VsSearch (lx_datastore_path L arg) pattern False) # snd (snd s)) = Some m"
        using invalid by (simp add: step search_again_def)
      from hyp [OF this] show False by simp
    qed
  qed
  then show ?thesis by (cases "search_loop L i arg pattern s") (simp, blast)
qed

section \<open>The entries\<close>

definition visible :: "browse_entry \<Rightarrow> bool" where
  "visible f = (hd (entry_path f) \<noteq> CHR ''.'')"

lemma add_files_visible:
  assumes "\<And>f. f \<in> set fs \<Longrightarrow> entry_path f \<noteq> []"
  shows "add_files every slash fs =
    Ret (map (if slash then with_slash else id) (filter (\<lambda>f. every \<or> visible f) fs))"
  using assms
proof (induction fs)
  case (Cons f fs)
  then obtain c cs where "entry_path f = c # cs" by (cases "entry_path f") auto
  with Cons show ?case by (cases every) (simp_all add: visible_def)
qed simp

lemma add_files_empty_path:
  assumes "f \<in> set fs" "entry_path f = []"
  shows "add_files every slash fs = Panic IndexOutOfRange"
  using assms by (induction fs) (auto split: list.split)

lemma add_results_visible:
  assumes "\<And>r f. r \<in> set rs \<Longrightarrow> f \<in> set (sr_File r) \<Longrightarrow> entry_path f \<noteq> []"
  shows "add_results rs (empty_output\<lparr>lo_rs := before\<rparr>) =
    Ret (empty_output\<lparr>lo_rs := before @ map (\<lambda>r. r\<lparr>sr_File := map with_slash (filter visible (sr_File r))\<rparr>) rs\<rparr>)"
  using assms
proof (induction rs arbitrary: before)
  case (Cons r rs)
  have "listOutput_add r (empty_output\<lparr>lo_rs := before\<rparr>) =
      Ret (empty_output\<lparr>lo_rs := before @ [r\<lparr>sr_File := map with_slash (filter visible (sr_File r))\<rparr>]\<rparr>)"
    using add_files_visible [of "sr_File r" False True, OF Cons.prems [OF list.set_intros(1)]]
    by (simp add: listOutput_add_def empty_output_def)
  with Cons.IH [OF Cons.prems [OF list.set_intros(2)]] show ?case by simp
qed simp

section \<open>The machines\<close>

lemma find_machines_outcome:
  "\<exists>vms. find_machines L fs (h, t, calls) = Ret (Inr vms, h, t, rev (map (\<lambda>f. VSphere (VsFindVM (entry_path f))) fs) @ calls) \<and>
     length vms \<le> length fs"
proof (induction fs arbitrary: calls)
  case (Cons f fs)
  from Cons [of "VSphere (VsFindVM (entry_path f)) # calls"] obtain vms
    where "find_machines L fs (h, t, VSphere (VsFindVM (entry_path f)) # calls) =
        Ret (Inr vms, h, t, rev (map (\<lambda>f. VSphere (VsFindVM (entry_path f))) fs) @ VSphere (VsFindVM (entry_path f)) # calls)"
      "length vms \<le> length fs" by blast
  then show ?case
    by (cases "vx_text (lx_vs L) (VSphere (VsFindVM (entry_path f)) # calls)")
      (simp_all add: vs_result_def vs_ask_def vs_bind_def vs_return_def ask_remote_def)
qed (simp add: vs_return_def)

lemma listed_folder:
  assumes "\<And>r f. r \<in> set rs \<Longrightarrow> f \<in> set (sr_File r) \<Longrightarrow> entry_path f \<noteq> []"
  shows "list_found L (Inr rs, s) = find_machines L (map with_slash (filter visible (concat (map sr_File rs)))) s"
proof -
  have "add_results rs empty_output =
      Ret (empty_output\<lparr>lo_rs := map (\<lambda>r. r\<lparr>sr_File := map with_slash (filter visible (sr_File r))\<rparr>) rs\<rparr>)"
    using add_results_visible [of rs "[]"] assms by (simp add: empty_output_def)
  moreover have "concat (map (sr_File \<circ> (\<lambda>r. r\<lparr>sr_File := map with_slash (filter visible (sr_File r))\<rparr>)) rs) =
      map with_slash (filter visible (concat (map sr_File rs)))"
    by (induction rs) simp_all
  ultimately show ?thesis by (simp add: list_found_def)
qed

text \<open>An entry without a name stops the process, hidden or not.\<close>

lemma nameless_entry_panics:
  assumes "f \<in> set (sr_File r)" "entry_path f = []"
  shows "list_found L (Inr [r], s) = Panic IndexOutOfRange"
  using add_files_empty_path [OF assms] by (simp add: list_found_def listOutput_add_def empty_output_def)

lemma add_results_ends: "ends (add_results rs out)"
proof -
  have files: "ends (add_files every slash fs)" for every slash fs
    by (induction fs) (auto intro!: ending split: list.split)
  show ?thesis
    by (induction rs arbitrary: out) (auto intro!: ending files simp: listOutput_add_def)
qed

section \<open>The whole listing\<close>

theorem DatastoreList_ends:
  fixes s :: "'h hstate"
  assumes "\<And>e. \<not> isInvalid L e"
  shows "\<exists>m. DatastoreList L name s = Some m \<and> m \<noteq> Diverge"
proof -
  have found: "list_found L x \<noteq> Diverge" for x :: "(error + search_result list) \<times> 'h hstate"
  proof (cases x rule: prod_cases4)
    case (fields r h t calls)
    have "ends (add_results rs empty_output)" for rs by (rule add_results_ends)
    moreover have "ends (find_machines L fs (h, t, calls))" for fs
      using find_machines_outcome [of L fs h t calls] by (auto simp: ends_def)
    ultimately show ?thesis
      by (cases r; cases "add_results (projr r) empty_output") (auto simp: fields list_found_def ends_def)
  qed
  have first: "ends (vs_bind (ds_Datastore L name) (\<lambda>u. vs_do (lx_vs L) (VsBrowser name)) s)"
    unfolding vs_bind_def ds_Datastore_def by (intro ending) (auto simp: vs_do_def Let_def split: option.split)
  obtain m where m: "\<And>s :: 'h hstate. search_loop L 0 [] ''*'' s = Some (m s) \<and> m s \<noteq> Diverge"
    using search_loop_ends [OF assms] by metis
  have "gbind (m s) (list_found L) \<noteq> Diverge" for s
    using m [of s] found by (cases "m s") simp_all
  with m have all: "\<exists>x. map_option (\<lambda>found. gbind found (list_found L)) (search_loop L 0 [] ''*'' s) = Some x \<and> x \<noteq> Diverge"
    for s :: "'h hstate" by simp
  show ?thesis
  proof (cases "vs_bind (ds_Datastore L name) (\<lambda>u. vs_do (lx_vs L) (VsBrowser name)) s")
    case (Ret p)
    show ?thesis using all unfolding DatastoreList_def Ret by (cases p; cases "fst p") simp_all
  qed (use first in \<open>simp_all add: DatastoreList_def\<close>)
qed

theorem DatastoreList_stuck:
  assumes "\<And>path pattern recurse calls. rans_err (vx_remote (lx_vs L)) (VSphere (VsSearch path pattern recurse) # calls) = Some e"
    and "isInvalid L e"
    and "vs_bind (ds_Datastore L name) (\<lambda>u. vs_do (lx_vs L) (VsBrowser name)) s = Ret (Inr (), s')"
  shows "DatastoreList L name s = None"
  using search_loop_stuck [OF assms(1,2)] unfolding DatastoreList_def assms(3) by simp

text \<open>The machines of a listing are those found under the entries that are not hidden, each asked for once, in order.\<close>

theorem DatastoreList_outcome:
  assumes "vs_bind (ds_Datastore L name) (\<lambda>u. vs_do (lx_vs L) (VsBrowser name)) s = Ret (Inr (), s')"
    and "ListPath L [] ''*'' False s' = Ret (Inr rs, h, t, calls)"
    and "\<And>r f. r \<in> set rs \<Longrightarrow> f \<in> set (sr_File r) \<Longrightarrow> entry_path f \<noteq> []"
  shows "\<exists>vms. DatastoreList L name s = Some (Ret (Inr vms, h, t,
      rev (map (\<lambda>f. VSphere (VsFindVM (entry_path (with_slash f)))) (filter visible (concat (map sr_File rs)))) @ calls)) \<and>
    length vms \<le> length (filter visible (concat (map sr_File rs)))"
proof -
  have "search_loop L 0 [] ''*'' s' = Some (Ret (Inr rs, h, t, calls))"
    using assms(2) by (simp add: search_loop.simps [of L 0])
  then have "DatastoreList L name s = Some (list_found L (Inr rs, h, t, calls))"
    unfolding DatastoreList_def assms(1) by simp
  moreover have "list_found L (Inr rs, h, t, calls) = find_machines L (map with_slash (filter visible (concat (map sr_File rs)))) (h, t, calls)"
    using assms(3) by (rule listed_folder)
  ultimately show ?thesis
    using find_machines_outcome [of L "map with_slash (filter visible (concat (map sr_File rs)))" h t calls] by (simp add: comp_def)
qed

section \<open>Examples\<close>

text \<open>A datastore with a hidden folder, a folder and a file; \<open>refusing_list_env\<close> refuses every search.\<close>

definition sample_list_env :: list_env where
  "sample_list_env = \<lparr>lx_vs = sample_vs_env, lx_url = \<lambda>u user password. Inr u, lx_soap = \<lambda>u. Inr u,
     lx_datastore_path = \<lambda>p. ''[ds] '' @ p,
     lx_browse = \<lambda>_. Inr (OneFolder \<lparr>sr_FolderPath = ''[ds] '', sr_File = [FolderEntry ''.sdd'', FolderEntry ''vm1'', FileEntry ''a.iso'']\<rparr>),
     lx_not_found = \<lambda>_. False, lx_fault = \<lambda>_. None\<rparr>"

definition refusing_list_env :: list_env where
  "refusing_list_env = sample_list_env\<lparr>lx_fault := \<lambda>_. Some ''InvalidArgument'',
     lx_vs := sample_vs_env\<lparr>vx_remote := sample_remote_env\<lparr>rans_err := \<lambda>calls. case calls of
       VSphere (VsSearch path pattern recurse) # before \<Rightarrow> Some (Plain ''invalid argument'') | _ \<Rightarrow> None\<rparr>\<rparr>\<rparr>"

lemmas sample_listing = sample_list_env_def refusing_list_env_def sample_vs_env_def sample_remote_env_def

theorem DatastoreList_ends_witness:
  "\<exists>m. DatastoreList sample_list_env ''ds'' ((), gmake, []) = Some m \<and> m \<noteq> Diverge"
  by (rule DatastoreList_ends) (simp add: isInvalid_def sample_listing)

theorem DatastoreList_stuck_witness: "DatastoreList refusing_list_env ''ds'' ((), gmake, []) = None"
  by (rule DatastoreList_stuck)
    (simp_all add: isInvalid_def sample_listing vs_bind_def ds_Datastore_def vs_do_def ask_remote_def error_of_def)

theorem DatastoreList_outcome_witness:
  "\<exists>vms calls. DatastoreList sample_list_env ''ds'' ((), gmake, []) = Some (Ret (Inr vms, (), gmake,
      VSphere (VsFindVM ''a.iso'') # VSphere (VsFindVM ''vm1/'') # calls)) \<and> length vms \<le> 2"
proof -
  have opened: "vs_bind (ds_Datastore sample_list_env ''ds'') (\<lambda>u. vs_do (lx_vs sample_list_env) (VsBrowser ''ds'')) ((), gmake, []) =
      Ret (Inr (), (), gmake, [VSphere (VsBrowser ''ds''), VSphere (VsFindDatastore ''ds'')])"
    by (simp add: sample_listing vs_bind_def ds_Datastore_def vs_do_def ask_remote_def error_of_def)
  have listed: "ListPath sample_list_env [] ''*'' False ((), gmake, calls) =
      Ret (Inr [\<lparr>sr_FolderPath = ''[ds] '', sr_File = [FolderEntry ''.sdd'', FolderEntry ''vm1'', FileEntry ''a.iso'']\<rparr>], (), gmake,
        VSphere VsSearchResult # VSphere (VsSearch ''[ds] '' ''*'' False) # calls)" for calls
    by (simp add: sample_listing ListPath_def vs_bind_def vs_ask_def vs_do_def ask_remote_def)
  from DatastoreList_outcome [OF opened listed] show ?thesis by (fastforce simp: visible_def)
qed

end
