(* ===== verification/Local_Files.thy ===== *)
theory Local_Files
  imports Datastore_Listing_Facts
begin

text \<open>
  What \<^verbatim>\<open>cloudinit/cloudinit.go\<close> reads from the local machine: a directory added file by file to the
  files to write (\<open>AddDirectoryToWriteFile\<close>), shown equal to a loop over the flat list of the files, and the
  public half of a private key (\<open>GeneratePublicKey\<close>); the configuration of the client of the cluster
  (\<open>getRestConfig\<close>, \<open>newKubeClient\<close> of \<^verbatim>\<open>client/client.go\<close>); the types of GPU of both services.
\<close>

section \<open>Local directories\<close>

text \<open>
  A file has what reading and stating it give; a directory the error of listing it, if any, and its entries. A
  symbolic link to a directory is an entry that is not a directory and cannot be read.
\<close>

datatype local_entry =
    LocalFile string "error + string" "error + int"
  | LocalDir string "error option" local_entries
and local_entries = NoEntry | Entry local_entry local_entries

type_synonym write_result = "(error option \<times> cloud_init) go"

definition AddFileToWriteFile ::
  "codec \<Rightarrow> error + string \<Rightarrow> error + int \<Rightarrow> string \<Rightarrow> string \<Rightarrow> string \<Rightarrow> cloud_init \<Rightarrow> write_result" where
  "AddFileToWriteFile cd content info sourceFile dstDir owner c =
     (case content of
        Inl err \<Rightarrow> Ret (Some err, c)
      | Inr text \<Rightarrow>
          (case info of
             Inl err \<Rightarrow> Ret (Some err, c)
           | Inr mode \<Rightarrow>
               gbind (AddToWriteFile cd text (filepath_Join [dstDir, path_Base sourceFile]) owner mode c) (\<lambda>c. Ret (None, c))))"

text \<open>The body of the loop, and the loop over the entries of a directory.\<close>

primrec add_entry :: "codec \<Rightarrow> string \<Rightarrow> local_entry \<Rightarrow> string \<Rightarrow> string \<Rightarrow> cloud_init \<Rightarrow> write_result"
  and add_entries :: "codec \<Rightarrow> string \<Rightarrow> local_entries \<Rightarrow> string \<Rightarrow> string \<Rightarrow> cloud_init \<Rightarrow> write_result" where
  "add_entry cd owner (LocalFile name content info) srcDir dstDir c =
     AddFileToWriteFile cd content info (filepath_Join [srcDir, name]) dstDir owner c"
| "add_entry cd owner (LocalDir name err files) srcDir dstDir c =
     (case err of
        Some e \<Rightarrow> Ret (Some e, c)
      | None \<Rightarrow> add_entries cd owner files (filepath_Join [srcDir, name]) (filepath_Join [dstDir, name]) c)"
| "add_entries cd owner NoEntry srcDir dstDir c = Ret (None, c)"
| "add_entries cd owner (Entry file files) srcDir dstDir c =
     gbind (add_entry cd owner file srcDir dstDir c) (\<lambda>(err, c).
       if err \<noteq> None then Ret (err, c) else add_entries cd owner files srcDir dstDir c)"

definition AddDirectoryToWriteFile ::
  "codec \<Rightarrow> error option \<Rightarrow> local_entries \<Rightarrow> string \<Rightarrow> string \<Rightarrow> string \<Rightarrow> cloud_init \<Rightarrow> write_result" where
  "AddDirectoryToWriteFile cd err files srcDir dstDir owner c =
     (case err of Some e \<Rightarrow> Ret (Some e, c) | None \<Rightarrow> add_entries cd owner files srcDir dstDir c)"

text \<open>Reference: the files of the directory in order, as a flat list of what reading each one gives.\<close>

type_synonym file_event = "error + string \<times> string \<times> int"

fun event_of :: "error + string \<Rightarrow> error + int \<Rightarrow> string \<Rightarrow> file_event" where
  "event_of (Inl err) info destination = Inl err"
| "event_of (Inr text) (Inl err) destination = Inl err"
| "event_of (Inr text) (Inr mode) destination = Inr (text, destination, mode)"

primrec walk_entry :: "local_entry \<Rightarrow> string \<Rightarrow> string \<Rightarrow> file_event list"
  and walk_entries :: "local_entries \<Rightarrow> string \<Rightarrow> string \<Rightarrow> file_event list" where
  "walk_entry (LocalFile name content info) srcDir dstDir =
     [event_of content info (filepath_Join [dstDir, path_Base (filepath_Join [srcDir, name])])]"
| "walk_entry (LocalDir name err files) srcDir dstDir =
     (case err of Some e \<Rightarrow> [Inl e] | None \<Rightarrow> walk_entries files (filepath_Join [srcDir, name]) (filepath_Join [dstDir, name]))"
| "walk_entries NoEntry srcDir dstDir = []"
| "walk_entries (Entry file files) srcDir dstDir = walk_entry file srcDir dstDir @ walk_entries files srcDir dstDir"

fun write_all :: "codec \<Rightarrow> string \<Rightarrow> file_event list \<Rightarrow> cloud_init \<Rightarrow> write_result" where
  "write_all cd owner [] c = Ret (None, c)"
| "write_all cd owner (Inl err # xs) c = Ret (Some err, c)"
| "write_all cd owner (Inr (text, destination, mode) # xs) c =
     gbind (AddToWriteFile cd text destination owner mode c) (write_all cd owner xs)"

lemma write_all_append:
  "write_all cd owner (xs @ ys) c =
     gbind (write_all cd owner xs c) (\<lambda>(err, c). if err \<noteq> None then Ret (err, c) else write_all cd owner ys c)"
proof (induction cd owner xs c rule: write_all.induct)
  case (3 cd owner content destination mode xs c)
  then show ?case by (cases "AddToWriteFile cd content destination owner mode c") simp_all
qed simp_all

lemma AddFileToWriteFile_event:
  "AddFileToWriteFile cd content info sourceFile dstDir owner c =
     write_all cd owner [event_of content info (filepath_Join [dstDir, path_Base sourceFile])] c"
  by (cases content; cases info; cases "AddToWriteFile cd (projr content) (filepath_Join [dstDir, path_Base sourceFile]) owner (projr info) c")
    (simp_all add: AddFileToWriteFile_def)

lemma add_entries_walk:
  "add_entry cd owner e srcDir dstDir c = write_all cd owner (walk_entry e srcDir dstDir) c"
  "add_entries cd owner files srcDir dstDir c = write_all cd owner (walk_entries files srcDir dstDir) c"
proof (induction e and files arbitrary: srcDir dstDir c and srcDir dstDir c rule: local_entry.induct local_entries.induct)
  case (LocalDir name err files)
  then show ?case by (cases err) simp_all
qed (simp_all add: AddFileToWriteFile_event write_all_append cong: if_cong)

theorem AddDirectoryToWriteFile_walks:
  "AddDirectoryToWriteFile cd None files srcDir dstDir owner c = write_all cd owner (walk_entries files srcDir dstDir) c"
  by (simp add: AddDirectoryToWriteFile_def add_entries_walk)

text \<open>Nothing but the files to write is touched, and those that were there stay in front.\<close>

definition files_to_write :: "cloud_init \<Rightarrow> ci list" where
  "files_to_write c = (case gget c ''write_files'' of Some (CList xs) \<Rightarrow> xs | _ \<Rightarrow> [])"

fun event_entry :: "codec \<Rightarrow> string \<Rightarrow> file_event \<Rightarrow> ci" where
  "event_entry cd owner (Inr (text, destination, mode)) = file_entry cd text destination owner mode"
| "event_entry cd owner (Inl err) = CNull"

lemma AddToWriteFile_appends_entry:
  assumes "AddToWriteFile cd text destination owner mode c = Ret c'"
  shows "files_to_write c' = files_to_write c @ [file_entry cd text destination owner mode]"
    "k \<noteq> ''write_files'' \<Longrightarrow> gget c' k = gget c k"
  using assms
  by (auto simp: AddToWriteFile_def files_to_write_def gput_Ret Let_def split: option.splits ci.splits)

lemma write_all_success:
  "write_all cd owner xs c = Ret (None, c') \<Longrightarrow>
     files_to_write c' = files_to_write c @ map (event_entry cd owner) xs \<and>
     (\<forall>k. k \<noteq> ''write_files'' \<longrightarrow> gget c' k = gget c k) \<and> (\<forall>x\<in>set xs. \<not> isl x)"
  by (induction cd owner xs c rule: write_all.induct) (auto simp: AddToWriteFile_appends_entry)

theorem AddDirectoryToWriteFile_success:
  assumes "AddDirectoryToWriteFile cd err files srcDir dstDir owner c = Ret (None, c')"
  shows "err = None"
    and "files_to_write c' = files_to_write c @ map (event_entry cd owner) (walk_entries files srcDir dstDir)"
    and "k \<noteq> ''write_files'' \<Longrightarrow> gget c' k = gget c k"
proof -
  from assms show "err = None" by (cases err) (simp_all add: AddDirectoryToWriteFile_def)
  with assms have "write_all cd owner (walk_entries files srcDir dstDir) c = Ret (None, c')"
    by (simp add: AddDirectoryToWriteFile_walks)
  from write_all_success [OF this]
  show "files_to_write c' = files_to_write c @ map (event_entry cd owner) (walk_entries files srcDir dstDir)"
    and "k \<noteq> ''write_files'' \<Longrightarrow> gget c' k = gget c k" by simp_all
qed

section \<open>The public half of a private key\<close>

text \<open>\<open>kx_block\<close> is the type and the content of the PEM block; a key is its content.\<close>

record key_material =
  kx_read :: "string \<Rightarrow> error + string"
  kx_block :: "string \<Rightarrow> (string \<times> string) option"
  kx_parse :: "string \<Rightarrow> error + string"
  kx_public :: "string \<Rightarrow> error + string"
  kx_marshal :: "string \<Rightarrow> string"

definition GeneratePublicKey :: "key_material \<Rightarrow> string \<Rightarrow> string \<times> error option" where
  "GeneratePublicKey K authKey =
     (case kx_read K authKey of
        Inl err \<Rightarrow> ([], Some err)
      | Inr priv \<Rightarrow>
          (case kx_block K priv of
             None \<Rightarrow> ([], None)
           | Some (kind, bytes) \<Rightarrow>
               if kind \<noteq> ''RSA PRIVATE KEY'' then ([], None)
               else (case kx_parse K bytes of
                       Inl err \<Rightarrow> ([], Some err)
                     | Inr key \<Rightarrow> (case kx_public K key of
                                     Inl err \<Rightarrow> ([], Some err)
                                   | Inr publicRsaKey \<Rightarrow> (kx_marshal K publicRsaKey, None)))))"

definition with_keys :: "key_material \<Rightarrow> codec \<Rightarrow> codec" where
  "with_keys K cd = cd\<lparr>public_key := \<lambda>authKey. case GeneratePublicKey K authKey of
     (publicKey, None) \<Rightarrow> Inr publicKey | (publicKey, Some err) \<Rightarrow> Inl err\<rparr>"

text \<open>A private key in the format \<^verbatim>\<open>ssh-keygen\<close> writes gives an empty authorized key and no error.\<close>

lemma undecoded_key_authorizes_nothing:
  assumes "kx_read K (ci_AuthKey i) = Inr priv" "kx_block K priv = Some (kind, bytes)" "kind \<noteq> ''RSA PRIVATE KEY''"
    and "ci_UserName i \<noteq> []" "ci_AuthKey i \<noteq> []"
  shows "gget (BuildVendorData (with_keys K cd) i) ''ssh_authorized_keys'' = Some (CList [CStr []])"
  using assms by (simp add: BuildVendorData_def with_keys_def GeneratePublicKey_def gget_def gentries_def)

section \<open>The client of the cluster\<close>

text \<open>\<open>rx_home\<close>: the file at the usual place exists; the configuration built has the type \<open>'c\<close>.\<close>

record 'c rest_env =
  rx_home_file :: string
  rx_home :: bool
  rx_in_cluster :: "error + 'c"
  rx_from_flags :: "string \<Rightarrow> string \<Rightarrow> error + 'c"
  rx_client :: "'c \<Rightarrow> int \<Rightarrow> error option"
  rx_node_manager :: "'c \<Rightarrow> int \<Rightarrow> error option"
  rx_extension :: "'c \<Rightarrow> int \<Rightarrow> error option"

definition getRestConfig :: "'c rest_env \<Rightarrow> string \<Rightarrow> string \<Rightarrow> error + 'c" where
  "getRestConfig R config_file apiServerURL =
     (let config_file = (if config_file = [] \<and> rx_home R then rx_home_file R else config_file)
      in if config_file = [] then rx_in_cluster R else rx_from_flags R apiServerURL config_file)"

text \<open>The three clientsets that were created, and the timeout of their configuration.\<close>

definition rest_clients :: "'c rest_env \<Rightarrow> string \<Rightarrow> string \<Rightarrow> int \<Rightarrow> (bool \<times> bool \<times> bool) \<times> error option" where
  "rest_clients R config_file apiServerURL requestTimeout =
     (let timeout = wrap64 (requestTimeout * second)
      in case getRestConfig R config_file apiServerURL of
           Inl err \<Rightarrow> ((False, False, False), Some err)
         | Inr config \<Rightarrow>
             (case rx_client R config timeout of
                Some err \<Rightarrow> ((False, False, False), Some err)
              | None \<Rightarrow> (case rx_node_manager R config timeout of
                  Some err \<Rightarrow> ((True, False, False), Some err)
                | None \<Rightarrow> (case rx_extension R config timeout of
                    Some err \<Rightarrow> ((True, True, False), Some err)
                  | None \<Rightarrow> ((True, True, True), None)))))"

text \<open>The calls that \<open>newKubeClient\<close> makes have the outcome of \<open>rest_clients\<close>, one answer after the other.\<close>

definition answers_rest :: "kube_env \<Rightarrow> 'c rest_env \<Rightarrow> string \<Rightarrow> string \<Rightarrow> int \<Rightarrow> kube_call list \<Rightarrow> bool" where
  "answers_rest E R config_file apiServerURL requestTimeout calls =
     (let timeout = wrap64 (requestTimeout * second); b = KBuildConfig # calls
      in case getRestConfig R config_file apiServerURL of
           Inl err \<Rightarrow> kans_err E b = Some err
         | Inr config \<Rightarrow> kans_err E b = None \<and> kans_err E (KNewClientset # b) = rx_client R config timeout \<and>
             kans_err E (KNewNodeManagerClientset # KNewClientset # b) = rx_node_manager R config timeout \<and>
             kans_err E (KNewApiExtensionClientset # KNewNodeManagerClientset # KNewClientset # b) = rx_extension R config timeout)"

lemma newKubeClient_refines:
  assumes "answers_rest E R config_file apiServerURL requestTimeout (snd s)"
  shows "fst (newKubeClient E s) = rest_clients R config_file apiServerURL requestTimeout"
  using assms
  by (cases s) (auto simp: answers_rest_def newKubeClient_def rest_clients_def kask_def Let_def split: sum.splits option.splits)

text \<open>The default timeout of two minutes is a duration already: the product wraps around to a negative one.\<close>

lemma default_rest_timeout_negative: "wrap64 (120 * second * second) < 0"
  by (simp add: wrap64_def second_def)

section \<open>The types of GPU\<close>

definition grpc_GetAvailableGPUTypes ::
  "(string \<Rightarrow> string) \<Rightarrow> labels \<Rightarrow> string \<Rightarrow> app \<Rightarrow> world \<Rightarrow> labels Grpc.handler_result" where
  "grpc_GetAvailableGPUTypes encode gpu_types providerID a w =
     guarded providerID a w (gbind (gfold (\<lambda>(k, v). gput k (encode v)) (gentries gpu_types) gmake) (\<lambda>m. Ret (accept m, a, w)))"

definition ext_GetAvailableGPUTypes ::
  "(string \<Rightarrow> string) \<Rightarrow> labels \<Rightarrow> app \<Rightarrow> world \<Rightarrow> labels ext_result" where
  "ext_GetAvailableGPUTypes encode gpu_types a w =
     gbind (gfold (\<lambda>(k, v). gput k (encode v)) (gentries gpu_types) gmake) (\<lambda>m. Ret (Inr m, a, w))"

lemma encoded_types:
  assumes "distinct (map fst xs)" "m \<noteq> None"
  shows "\<exists>m'. gfold (\<lambda>(k, v). gput k (encode v)) xs m = Ret m' \<and>
    (\<forall>k. gget m' k = (case map_of xs k of Some v \<Rightarrow> Some (encode v) | None \<Rightarrow> gget m k))"
  using assms
proof (induction xs arbitrary: m)
  case (Cons x xs)
  let ?m = "gset (fst x) (encode (snd x)) m"
  have "distinct (map fst xs)" "?m \<noteq> None" and new: "map_of xs (fst x) = None"
    using Cons.prems by (auto simp: gset_def map_of_eq_None_iff)
  from Cons.IH [OF this(1,2)] obtain m' where rest: "gfold (\<lambda>(k, v). gput k (encode v)) xs ?m = Ret m'"
    and got: "\<And>k. gget m' k = (case map_of xs k of Some v \<Rightarrow> Some (encode v) | None \<Rightarrow> gget ?m k)"
    by blast
  from rest have "gfold (\<lambda>(k, v). gput k (encode v)) (x # xs) m = Ret m'"
    using Cons.prems(2) by (cases x) (auto simp: gput_Ret)
  then show ?case using Cons.prems(2) new by (cases x) (auto simp: got split: option.split)
qed simp

text \<open>Both services give every type of the provider, with its encoded value, and nothing else.\<close>

lemma GPU_types_agree:
  assumes "distinct (map fst (gentries gpu_types))" "\<not> isCallDenied providerID a"
  shows "\<exists>m. grpc_GetAvailableGPUTypes encode gpu_types providerID a w = Ret (accept m, a, w) \<and>
    ext_GetAvailableGPUTypes encode gpu_types a w = Ret (Inr m, a, w) \<and>
    (\<forall>k. gget m k = map_option encode (gget gpu_types k))"
proof -
  from encoded_types [OF assms(1), of gmake encode] obtain m
    where "gfold (\<lambda>(k, v). gput k (encode v)) (gentries gpu_types) gmake = Ret m"
      "\<forall>k. gget m k = (case map_of (gentries gpu_types) k of Some v \<Rightarrow> Some (encode v) | None \<Rightarrow> gget gmake k)"
    by (auto simp: gmake_def gentries_def)
  then show ?thesis using assms(2)
    by (auto simp: grpc_GetAvailableGPUTypes_def ext_GetAvailableGPUTypes_def guarded_def gget_def gmake_def gentries_def split: option.splits)
qed

end
