(* ===== verification/Spec2Isabelle.thy ===== *)
theory Spec2Isabelle
  imports Managed Document_Types Startup_Facts Crd_Facts Remote_Shell_Facts Local_Files
begin

text \<open>
  Verification of kubernetes-cloud-autoscaler, the server that grows and shrinks node groups of a
  Kubernetes cluster on behalf of the cluster autoscaler.

  The program. A cluster autoscaler talks to one of two gRPC services (\<^verbatim>\<open>server/grpc.go\<close>,
  \<^verbatim>\<open>server/externalgrpc.go\<close>). Both act on one application (\<^verbatim>\<open>server/server.go\<close>), a table of node groups
  (\<^verbatim>\<open>server/nodegroup.go\<close>) of nodes (\<^verbatim>\<open>server/node.go\<close>). A node is one virtual machine: it calls a cloud
  provider (\<^verbatim>\<open>providers/types.go\<close>), a Kubernetes client (\<^verbatim>\<open>client/types.go\<close>) and the provider of a
  Kubernetes distribution (\<^verbatim>\<open>kubernetes/types.go\<close>). A controller (\<^verbatim>\<open>server/controller.go\<close>) creates and
  deletes machines for the custom resource ManagedNode, on the same node groups.

  How it is modelled. A Go computation that can panic or loop for ever is a value of type \<open>go\<close>:
  \<open>Ret\<close>, \<open>Panic\<close> with the cause, or \<open>Diverge\<close>. A Go error is a value of \<open>error\<close> inside an option or a
  sum. A Go map that may be nil is an optional association list (\<open>gomap\<close>); reading a nil map finds
  nothing, writing to one panics. Nodes are shared by reference, so they live in a heap
  of addresses (\<open>world\<close>); groups are reached only through the table of the application, which
  holds them by value. Everything outside the process is a call: the world carries the list of
  the calls made so far, and the environment \<open>env\<close> answers a call by an arbitrary function of that
  list. The theorems quantify over all environments, so over every behaviour of the cloud and of
  the cluster. The order in which Go iterates over a map, and the order in which goroutines
  started together finish, are chosen by the environment too. Integers are unbounded except where
  the code converts them (\<open>wrap32\<close>, \<open>wrap64\<close>, the \<^verbatim>\<open>uint32\<close> sum of addresses).

  The theories, in the order of their imports:
  \<^item> \<open>Go_Prelude\<close>, \<open>Go_Strings\<close>: panics, maps, loops, formatting and parsing of numbers and strings.
  \<^item> \<open>Constantes\<close>: every error format and name of \<^verbatim>\<open>constantes/\<close>.
  \<^item> \<open>Types\<close>, \<open>Config\<close>: labels, resource limits, machine types and configuration of \<^verbatim>\<open>types/types.go\<close>.
  \<^item> \<open>CloudInit\<close>, \<open>Network\<close>: \<^verbatim>\<open>cloudinit/cloudinit.go\<close> and \<^verbatim>\<open>providers/network.go\<close>.
  \<^item> \<open>Environment\<close>, \<open>Samples\<close>: the calls, their answers, and a concrete environment.
  \<^item> \<open>Node\<close>: one machine. Each operation works on a pair of the node and the calls so far. Its last
    sections prove what a successful launch, start, stop and deletion did, call by call.
  \<^item> \<open>NodeGroup\<close>: the group. \<open>NodeGroup_Invariant\<close> proves that every operation keeps the
    invariant \<open>group_inv\<close>, through the locale of operations on a group;
    \<open>NodeGroup_Growth\<close>, \<open>NodeGroup_Shrink\<close> and \<open>NodeGroup_Discovery\<close> prove what growing, shrinking and
    discovery do.
  \<^item> \<open>App\<close>, \<open>Grpc\<close>, \<open>ExternalGrpc\<close>, \<open>Controller\<close>: the application, the handlers, the controller.
    \<open>App_Invariant\<close> proves the frame and the invariant for all of them, through the locale
    \<open>app_operation\<close>, which is interpreted on each of them.
  \<^item> \<open>Server\<close>: the server as a step relation over requests, goroutines and controller events.
  \<^item> \<open>Growth_Bounds\<close>, \<open>Lifecycle\<close>, \<open>Managed\<close>: the bounds of the sizes, the life of a group across
    both services, and the state machine of a managed node.
  \<^item> \<open>Cluster_Client\<close>: the client of the API server, \<^verbatim>\<open>client/client.go\<close> and \<^verbatim>\<open>client/podfilters.go\<close>, with its own
    environment \<open>kube_env\<close>. \<open>Cluster_Client_Facts\<close> proves what a drain evicts, what tainting and annotating
    a node leave, and what a failed connection costs.
  \<^item> \<open>Distributions\<close>: the five providers of \<^verbatim>\<open>kubernetes/\<close>, on top of that client and of a remote shell.
    \<open>Distributions_Facts\<close> proves that joining over ssh and joining by cloud-init carry out one plan;
    \<open>Document_Types\<close> that the type assertions on a cloud-init document never fail.
  \<^item> \<open>Handlers\<close>: what the cloud providers share: the attachment of a handler to its machine (the locale
    \<open>attached_handler\<close>), the guest infos of \<^verbatim>\<open>cloudinit/cloudinit.go\<close>, the dynamic DNS updates of
    \<^verbatim>\<open>rfc2136/rfc2136.go\<close>, and the calls to the service behind a provider.
  \<^item> \<open>Desktop\<close>, \<open>Desktop_Facts\<close>: \<^verbatim>\<open>providers/desktop/\<close>, every request to its remote service and the handler of
    a machine, an instance of \<open>attached_handler\<close>.
  \<^item> \<open>Multipass\<close>, \<open>Multipass_Facts\<close>: \<^verbatim>\<open>providers/multipass/\<close>, the local wrapper (a command line), the remote
    wrapper (a service) and the handler on top of either, proved once for both through the locale
    \<open>status_source\<close>.
  \<^item> \<open>Cloud_Calls\<close>: the calls to the clients of LXD, OpenStack, CloudStack, AWS and vSphere. \<open>Servers\<close>: the code the
    first three providers repeat (waiting for a state, switching a machine on and off, waiting for its address,
    creating it on an attached instance), written once over the query of the state; its contract is the
    locale \<open>server_source\<close>.
  \<^item> \<open>Lxd\<close>, \<open>CloudStack\<close>, \<open>OpenStack\<close> and their facts: \<^verbatim>\<open>providers/lxd/\<close>, \<^verbatim>\<open>providers/cloudstack/\<close>,
    \<^verbatim>\<open>providers/openstack/\<close>. Each instantiates \<open>server_source\<close> and \<open>attached_handler\<close>, and proves what a switch has
    seen, which requests a creation and a deletion make, and in which order.
  \<^item> \<open>Aws\<close>, \<open>Aws_Facts\<close>: \<^verbatim>\<open>providers/aws/\<close>, another instance of \<open>attached_handler\<close>: what a creation requests,
    how instances are found by name and spread over subnets, the records of Route53.
  \<^item> \<open>Vsphere\<close>, \<open>Vsphere_Facts\<close>: \<^verbatim>\<open>providers/vsphere/\<close>: its code is a sequence of fallible calls to the inventory
    (\<open>vs_op\<close>, with \<open>vs_bind\<close> and \<open>vs_result\<close>). What every operation keeps is proved once for any relation
    between states (the locales \<open>vs_quiet\<close>, for what clones nothing, and \<open>vs_relation\<close>, for everything); then the contract \<open>attached_handler\<close>, what a
    switch, a deletion and a creation ask for, the cards and the disk of a machine, its place in the start order.
  \<^item> \<open>Endings\<close>: every method of a handler that the server calls ends once its timeout is not zero as a duration.

  \<^item> \<open>Startup\<close>, \<open>Startup_Facts\<close>: the start of the process, \<^verbatim>\<open>main.go\<close>, the flags of \<^verbatim>\<open>types/types.go\<close>, \<^verbatim>\<open>StartServer\<close> and
    \<^verbatim>\<open>runServer\<close>. A server that has started has a complete configuration in which the file wins over the flags,
    and serves from a state that satisfies \<open>app_inv\<close>; with \<open>Server\<close>, so does every state it reaches.

  \<^item> \<open>Crd\<close>, \<open>Crd_Facts\<close>: the schema of the custom resource in \<^verbatim>\<open>CreateCRD\<close>, the Go types of
    \<^verbatim>\<open>pkg/apis/nodemanager/v1alpha2/types.go\<close> and the decoding of a document into them: where both declare a field
    they agree on its type, and the facts say which fields only one of them declares.
  \<^item> \<open>Remote_Shell\<close>, \<open>Remote_Shell_Facts\<close>: \<^verbatim>\<open>utils/communicator.go\<close> and \<^verbatim>\<open>sshutils/types.go\<close>, the code behind the calls
    \<^verbatim>\<open>Scp\<close> and \<^verbatim>\<open>Sudo\<close> of a node; an error of a machine that is booting is one the wait for ssh goes on after.
  \<^item> \<open>Dns_Update\<close>, \<open>Dns_Update_Facts\<close>: the address of the name server, its key and the signatures, \<^verbatim>\<open>rfc2136/\<close>.
  \<^item> \<open>Provider_Start\<close>: \<^verbatim>\<open>New...ProviderConfiguration\<close> of the seven providers and \<^verbatim>\<open>api/configuration.go\<close>; the networks of
    a provider that has started are aligned with the lists its handlers index.
  \<^item> \<open>Datastore_Listing\<close>, \<open>Datastore_Listing_Facts\<close>: the listing of \<^verbatim>\<open>providers/vsphere/datastore.go\<close>. Its search is
    repeated by a loop with no bound, a partial function; the facts say when it ends, when it does not, and which
    machines a listing gives.
  \<^item> \<open>Local_Files\<close>: what \<^verbatim>\<open>cloudinit/cloudinit.go\<close> reads from the local machine. Adding a directory, a recursion over
    its entries, is a loop over the flat list of its files. Also the configuration of the client of the cluster, which
    \<open>newKubeClient\<close> of \<open>Cluster_Client\<close> refines, and the types of GPU of both services.

  Bounds. Loops over lists and maps are folds. A polling loop runs as many attempts as the
  environment grants before the timeout, and \<open>Diverge\<close>s when it has no timeout and none of the
  attempts ends it. The loop that evicts a pod runs as many attempts as the environment grants
  before it is aborted. The search of a datastore is \<open>None\<close> when it does not end. No other fuel is used.

  The node of \<open>Node\<close> still reaches the client and the distribution through the interfaces of
  \<open>Environment\<close>, whose answers are arbitrary; \<open>Cluster_Client\<close> and \<open>Distributions\<close> are the code behind these
  interfaces, verified on its own.

  Not modelled. What the clients of the clouds do, the encoding of the state file, YAML, JSON and compression
  (parameters), sockets, certificates, the library that parses the arguments, what the API server does with a schema,
  and interleavings inside one handler: a handler is one step of the server. The goroutines that one handler starts
  together are steps too, run one after another in an arbitrary order, so races between them are outside the model.
  Preparing no node at all, a delta of zero that no caller passes, is \<open>Diverge\<close> although the loop of the code would
  end at the first error.
\<close>

end
